(* ===== verification/Prelude.thy ===== *)
theory Prelude
  imports Main "HOL-Library.AList" "HOL-Library.Sublist" "HOL-Library.Multiset"
begin

text \<open>
  What the components share: the types that stand for Go's own (instants, durations, errors, maps),
  the pieces of the Go standard library the sources call (\<open>strconv\<close> decimals, the space trimming
  of \<open>strings\<close>), the generic lemmas on association lists and lists, and the two interfaces
  every component uses: a state machine with an invariant (\<open>state_machine\<close>) and a lossless
  encoding (\<open>codec\<close>).

  A Go \<open>string\<close> and a \<open>[]byte\<close> are byte sequences, so both are \<^typ>\<open>string\<close> (a list of 8-bit
  characters) unless the code does arithmetic on the bytes. An instant (\<open>time.Time\<close>) is the
  number of nanoseconds since Go's zero instant, 0001-01-01T00:00:00Z, so the zero value of the
  type is \<open>0\<close>. A Go map is an association list whose order stands for the (unspecified)
  iteration order of the map.
\<close>

named_theorems inv_defs \<open>definitions of the component invariants\<close>
named_theorems op_defs \<open>definitions of the component operations\<close>
named_theorems frame_simps \<open>fields an operation leaves alone\<close>

type_synonym instant = int
type_synonym duration = int
type_synonym 'v gomap = "(string \<times> 'v) list"

definition millisecond :: duration where "millisecond = 1000000"
definition second :: duration where "second = 1000000000"
definition minute :: duration where "minute = 60 * second"
definition hour :: duration where "hour = 60 * minute"

subsection \<open>Error codes and errors\<close>

datatype ErrorCode =
    CodeInvalidArgument | CodeInvalidConfig | CodeConflict | CodeBusy | CodeNotFound
  | CodeServiceStopped | CodeCancelled | CodeDeadlineExceeded | CodeBindingUnavailable
  | CodeBindingChanged | CodeDNSFailure | CodeTransportFailure | CodeTLSFailure
  | CodePortalHTMLResponse | CodeProtocolInvalid | CodeAuthRejected
  | CodeOnlineIdentityMismatch | CodeRecoveryRequired | CodeUnsupportedCapability
  | CodeChecksumMismatch | CodePackageIncompatible | CodeInstallFailed | CodeInternal

text \<open>
  One problem. \<open>e_field\<close> is the dotted path of the input it is about, empty when there is none.
  The Chinese message of the source is written for a person and no caller branches on it, so it is
  not part of the value.
\<close>

record gerror =
  e_code :: ErrorCode
  e_field :: string

definition Errorf :: "ErrorCode \<Rightarrow> gerror" where
  "Errorf c = \<lparr>e_code = c, e_field = []\<rparr>"

definition FieldErrorf :: "ErrorCode \<Rightarrow> string \<Rightarrow> gerror" where
  "FieldErrorf c f = \<lparr>e_code = c, e_field = f\<rparr>"

lemma Errorf_simps [simp]: "e_code (Errorf c) = c" "e_field (Errorf c) = []"
  by (simp_all add: Errorf_def)

lemma FieldErrorf_simps [simp]: "e_code (FieldErrorf c f) = c" "e_field (FieldErrorf c f) = f"
  by (simp_all add: FieldErrorf_def)

subsection \<open>Decimal numbers (\<open>strconv\<close>)\<close>

definition digit_char :: "nat \<Rightarrow> char" where
  "digit_char d = char_of (48 + d)"

definition is_digit :: "char \<Rightarrow> bool" where
  "is_digit c \<longleftrightarrow> 48 \<le> (of_char c :: nat) \<and> (of_char c :: nat) \<le> 57"

definition digit_val :: "char \<Rightarrow> nat" where
  "digit_val c = of_char c - 48"

fun FormatUint :: "nat \<Rightarrow> string" where
  "FormatUint n = (if n < 10 then [digit_char n] else FormatUint (n div 10) @ [digit_char (n mod 10)])"

declare FormatUint.simps [simp del]

definition parse_dec :: "string \<Rightarrow> nat" where
  "parse_dec s = foldl (\<lambda>n c. 10 * n + digit_val c) 0 s"

lemma of_char_lt: "(of_char c :: nat) < 256"
  by (metis of_char_mod_256 mod_less_divisor zero_less_numeral)

lemma of_char_digit [simp]: "d < 10 \<Longrightarrow> (of_char (digit_char d) :: nat) = 48 + d"
  by (simp add: digit_char_def)

lemma digit_chars [simp]:
  "digit_char 0 = CHR ''0''" "digit_char 1 = CHR ''1''" "digit_char (Suc 0) = CHR ''1''"
  "digit_char 2 = CHR ''2''" "digit_char 3 = CHR ''3''" "digit_char 4 = CHR ''4''"
  "digit_char 5 = CHR ''5''" "digit_char 6 = CHR ''6''" "digit_char 7 = CHR ''7''"
  "digit_char 8 = CHR ''8''" "digit_char 9 = CHR ''9''"
  by (simp_all add: digit_char_def char_of_def bit_0)

lemma is_digit_char [simp]: "d < 10 \<Longrightarrow> is_digit (digit_char d)"
  by (simp add: is_digit_def)

lemma digit_val_char [simp]: "d < 10 \<Longrightarrow> digit_val (digit_char d) = d"
  by (simp add: digit_val_def)

lemma FormatUint_nonempty [simp]: "FormatUint n \<noteq> []"
  by (subst FormatUint.simps) simp

lemma FormatUint_digits: "c \<in> set (FormatUint n) \<Longrightarrow> is_digit c"
proof (induction n rule: FormatUint.induct)
  case (1 n)
  show ?case
  proof (cases "n < 10")
    case True
    with "1.prems" show ?thesis by (simp add: FormatUint.simps [of n])
  next
    case False
    with 1 show ?thesis by (auto simp: FormatUint.simps [of n])
  qed
qed

lemma parse_FormatUint [simp]: "parse_dec (FormatUint n) = n"
proof (induction n rule: FormatUint.induct)
  case (1 n)
  show ?case
  proof (cases "n < 10")
    case True
    then show ?thesis by (simp add: FormatUint.simps [of n] parse_dec_def)
  next
    case False
    with 1 have "foldl (\<lambda>n c. 10 * n + digit_val c) 0 (FormatUint (n div 10)) = n div 10"
      by (simp add: parse_dec_def)
    with False show ?thesis by (simp add: FormatUint.simps [of n] parse_dec_def)
  qed
qed

lemma FormatUint_inj [simp]: "FormatUint m = FormatUint n \<longleftrightarrow> m = n"
  by (metis parse_FormatUint)

text \<open>Joining a field and a separator the field does not contain loses nothing.\<close>

lemma append_sep_inj:
  assumes "c \<notin> set a" and "c \<notin> set b" and "a @ c # x = b @ c # y"
  shows "a = b \<and> x = y"
  using assms
proof (induction a arbitrary: b)
  case Nil
  then show ?case by (cases b) auto
next
  case (Cons d a)
  then show ?case by (cases b) auto
qed

subsection \<open>Space trimming (\<open>strings.TrimSpace\<close>)\<close>

text \<open>
  The UTF-8 encodings of the code points for which \<open>unicode.IsSpace\<close> holds: the six ASCII spaces,
  U+0085, U+00A0, U+1680, U+2000 to U+200A, U+2028, U+2029, U+202F, U+205F and U+3000.
\<close>

definition space_runes :: "string list" where
  "space_runes =
     [[CHR 0x09], [CHR 0x0A], [CHR 0x0B], [CHR 0x0C], [CHR 0x0D], [CHR 0x20],
      [CHR 0xC2, CHR 0x85], [CHR 0xC2, CHR 0xA0], [CHR 0xE1, CHR 0x9A, CHR 0x80],
      [CHR 0xE2, CHR 0x80, CHR 0x80], [CHR 0xE2, CHR 0x80, CHR 0x81],
      [CHR 0xE2, CHR 0x80, CHR 0x82], [CHR 0xE2, CHR 0x80, CHR 0x83],
      [CHR 0xE2, CHR 0x80, CHR 0x84], [CHR 0xE2, CHR 0x80, CHR 0x85],
      [CHR 0xE2, CHR 0x80, CHR 0x86], [CHR 0xE2, CHR 0x80, CHR 0x87],
      [CHR 0xE2, CHR 0x80, CHR 0x88], [CHR 0xE2, CHR 0x80, CHR 0x89],
      [CHR 0xE2, CHR 0x80, CHR 0x8A], [CHR 0xE2, CHR 0x80, CHR 0xA8],
      [CHR 0xE2, CHR 0x80, CHR 0xA9], [CHR 0xE2, CHR 0x80, CHR 0xAF],
      [CHR 0xE2, CHR 0x81, CHR 0x9F], [CHR 0xE3, CHR 0x80, CHR 0x80]]"

lemma space_runes_nonempty: "w \<in> set space_runes \<Longrightarrow> w \<noteq> []"
  by (auto simp: space_runes_def)

function TrimLeftSpace :: "string \<Rightarrow> string" where
  "TrimLeftSpace s =
     (case find (\<lambda>w. prefix w s) space_runes of
        None \<Rightarrow> s
      | Some w \<Rightarrow> TrimLeftSpace (drop (length w) s))"
  by pat_completeness auto
termination
proof (relation "measure length")
  fix s w
  assume "find (\<lambda>w. prefix w s) space_runes = Some w"
  then have "prefix w s" and "w \<in> set space_runes"
    by (auto simp: find_Some_iff)
  then have "w \<noteq> []" and "length w \<le> length s"
    by (auto simp: space_runes_nonempty prefix_length_le)
  then have "length s - length w < length s" by (cases w) auto
  then show "(drop (length w) s, s) \<in> measure length" by simp
qed simp

declare TrimLeftSpace.simps [simp del]

function TrimRightSpace :: "string \<Rightarrow> string" where
  "TrimRightSpace s =
     (case find (\<lambda>w. suffix w s) space_runes of
        None \<Rightarrow> s
      | Some w \<Rightarrow> TrimRightSpace (take (length s - length w) s))"
  by pat_completeness auto
termination
proof (relation "measure length")
  fix s w
  assume "find (\<lambda>w. suffix w s) space_runes = Some w"
  then have "suffix w s" and "w \<in> set space_runes"
    by (auto simp: find_Some_iff)
  then have "w \<noteq> []" and "length w \<le> length s"
    by (auto simp: space_runes_nonempty suffix_length_le)
  then have "length s - length w < length s" by (cases w) auto
  then show "(take (length s - length w) s, s) \<in> measure length" by simp
qed simp

declare TrimRightSpace.simps [simp del]

definition TrimSpace :: "string \<Rightarrow> string" where
  "TrimSpace s = TrimRightSpace (TrimLeftSpace s)"

lemma TrimLeftSpace_no_prefix:
  "w \<in> set space_runes \<Longrightarrow> \<not> prefix w (TrimLeftSpace s)"
proof (induction s rule: TrimLeftSpace.induct)
  case (1 s)
  show ?case
  proof (cases "find (\<lambda>w. prefix w s) space_runes")
    case None
    then have "TrimLeftSpace s = s" by (subst TrimLeftSpace.simps) simp
    with "1.prems" None show ?thesis by (auto simp: find_None_iff)
  next
    case (Some v)
    with 1 show ?thesis by (simp add: TrimLeftSpace.simps [of s])
  qed
qed

lemma TrimRightSpace_no_suffix:
  "w \<in> set space_runes \<Longrightarrow> \<not> suffix w (TrimRightSpace s)"
proof (induction s rule: TrimRightSpace.induct)
  case (1 s)
  show ?case
  proof (cases "find (\<lambda>w. suffix w s) space_runes")
    case None
    then have "TrimRightSpace s = s" by (subst TrimRightSpace.simps) simp
    with "1.prems" None show ?thesis by (auto simp: find_None_iff)
  next
    case (Some v)
    with 1 show ?thesis by (simp add: TrimRightSpace.simps [of s])
  qed
qed

lemma TrimRightSpace_prefix: "prefix (TrimRightSpace s) s"
proof (induction s rule: TrimRightSpace.induct)
  case (1 s)
  show ?case
  proof (cases "find (\<lambda>w. suffix w s) space_runes")
    case None
    then show ?thesis by (simp add: TrimRightSpace.simps [of s])
  next
    case (Some v)
    then have "prefix (TrimRightSpace (take (length s - length v) s)) s"
      using 1 take_is_prefix prefix_order.trans by blast
    with Some show ?thesis by (simp add: TrimRightSpace.simps [of s])
  qed
qed

lemma TrimLeftSpace_suffix: "suffix (TrimLeftSpace s) s"
proof (induction s rule: TrimLeftSpace.induct)
  case (1 s)
  show ?case
  proof (cases "find (\<lambda>w. prefix w s) space_runes")
    case None
    then show ?thesis by (simp add: TrimLeftSpace.simps [of s])
  next
    case (Some v)
    then have "suffix (TrimLeftSpace (drop (length v) s)) s"
      using 1 suffix_drop suffix_order.trans by blast
    with Some show ?thesis by (simp add: TrimLeftSpace.simps [of s])
  qed
qed

lemma length_TrimSpace: "length (TrimSpace s) \<le> length s"
  unfolding TrimSpace_def
  by (meson TrimLeftSpace_suffix TrimRightSpace_prefix order.trans prefix_length_le suffix_length_le)

lemma TrimLeftSpace_id: "\<forall>w \<in> set space_runes. \<not> prefix w s \<Longrightarrow> TrimLeftSpace s = s"
  by (subst TrimLeftSpace.simps) (simp add: find_None_iff [THEN iffD2])

lemma TrimRightSpace_id: "\<forall>w \<in> set space_runes. \<not> suffix w s \<Longrightarrow> TrimRightSpace s = s"
  by (subst TrimRightSpace.simps) (simp add: find_None_iff [THEN iffD2])

lemma TrimSpace_idem [simp]: "TrimSpace (TrimSpace s) = TrimSpace s"
proof -
  have "\<forall>w \<in> set space_runes. \<not> prefix w (TrimSpace s)"
    by (metis TrimLeftSpace_no_prefix TrimRightSpace_prefix TrimSpace_def prefix_order.trans)
  then have "TrimLeftSpace (TrimSpace s) = TrimSpace s" by (rule TrimLeftSpace_id)
  moreover have "TrimRightSpace (TrimSpace s) = TrimSpace s"
    by (simp add: TrimRightSpace_id TrimRightSpace_no_suffix TrimSpace_def)
  ultimately show ?thesis by (simp add: TrimSpace_def)
qed

definition visible :: "char \<Rightarrow> bool" where
  "visible c \<longleftrightarrow> 0x21 \<le> (of_char c :: nat) \<and> (of_char c :: nat) < 0x80"

lemma space_runes_ends: "w \<in> set space_runes \<Longrightarrow> w \<noteq> [] \<and> \<not> visible (hd w) \<and> \<not> visible (last w)"
  by (auto simp: space_runes_def visible_def)

text \<open>A string that starts and ends with a visible ASCII character is not trimmed.\<close>

lemma TrimSpace_visible:
  assumes "s = [] \<or> visible (hd s) \<and> visible (last s)"
  shows "TrimSpace s = s"
proof -
  have no_prefix: "\<not> prefix w s" if w: "w \<in> set space_runes" for w
  proof
    assume "prefix w s"
    then have "hd w = hd s" "s \<noteq> []" using space_runes_ends [OF w] by (auto simp: prefix_def)
    with assms space_runes_ends [OF w] show False by auto
  qed
  have no_suffix: "\<not> suffix w s" if w: "w \<in> set space_runes" for w
  proof
    assume "suffix w s"
    then have "last w = last s" "s \<noteq> []" using space_runes_ends [OF w] by (auto simp: suffix_def)
    with assms space_runes_ends [OF w] show False by auto
  qed
  from no_prefix have "TrimLeftSpace s = s" by (simp add: TrimLeftSpace_id)
  with no_suffix show ?thesis by (simp add: TrimSpace_def TrimRightSpace_id)
qed

lemma TrimSpace_Nil [simp]: "TrimSpace [] = []"
  by (simp add: TrimSpace_def TrimLeftSpace_id TrimRightSpace_id space_runes_nonempty)

subsection \<open>Go maps as association lists\<close>

definition mkeys :: "('k \<times> 'v) list \<Rightarrow> 'k list" where
  "mkeys m = map fst m"

lemma mkeys_update_fresh:
  "k \<notin> set (mkeys m) \<Longrightarrow> AList.update k v m = m @ [(k, v)]"
  by (induction m) (auto simp: mkeys_def)

lemma mkeys_delete [simp]: "mkeys (AList.delete k m) = removeAll k (mkeys m)"
  by (induction m) (auto simp: mkeys_def)

lemma set_mkeys: "set (mkeys m) = dom (map_of m)"
  by (simp add: mkeys_def dom_map_of_conv_image_fst)

lemma map_of_mem_mkeys: "map_of m k = Some v \<Longrightarrow> k \<in> set (mkeys m)"
  by (auto simp: set_mkeys)

lemma mkeys_Some: "k \<in> set (mkeys m) \<Longrightarrow> \<exists>v. map_of m k = Some v"
  by (auto simp: set_mkeys)

lemma length_mkeys [simp]: "length (mkeys m) = length m"
  by (simp add: mkeys_def)

lemma length_delete_le: "length (AList.delete k m) \<le> length m"
  by (simp add: AList.delete_eq)

lemma mkeys_Nil [simp]: "mkeys [] = []"
  by (simp add: mkeys_def)

lemma mkeys_append [simp]: "mkeys (xs @ ys) = mkeys xs @ mkeys ys"
  by (simp add: mkeys_def)

lemma mkeys_Cons [simp]: "mkeys (x # xs) = fst x # mkeys xs"
  by (simp add: mkeys_def)


subsection \<open>The interface of a state machine\<close>

text \<open>
  A machine is a start predicate, a step relation and an invariant that holds at the start and is
  kept by every step. Every component with a life of its own interprets this locale, and reads off
  the two consequences: the invariant holds in every reachable state, and a property every step
  keeps holds along every run.
\<close>

locale state_machine =
  fixes start :: "'s \<Rightarrow> bool"
    and step :: "'s \<Rightarrow> 's \<Rightarrow> bool"
    and inv :: "'s \<Rightarrow> bool"
  assumes inv_start: "start s \<Longrightarrow> inv s"
    and inv_step: "inv s \<Longrightarrow> step s t \<Longrightarrow> inv t"
begin

lemma inv_run: "step\<^sup>*\<^sup>* s t \<Longrightarrow> inv s \<Longrightarrow> inv t"
  by (induction rule: rtranclp_induct) (auto intro: inv_step)

lemma inv_reachable: "start s \<Longrightarrow> step\<^sup>*\<^sup>* s t \<Longrightarrow> inv t"
  by (blast intro: inv_start inv_run)

lemma stable_run:
  assumes "step\<^sup>*\<^sup>* s t" and "inv s" and "P s"
    and "\<And>u v. inv u \<Longrightarrow> P u \<Longrightarrow> step u v \<Longrightarrow> P v"
  shows "P t"
  using assms(1)
proof (induction rule: rtranclp_induct)
  case base
  from assms(3) show ?case .
next
  case (step u v)
  moreover from step.hyps(1) assms(2) have "inv u" by (rule inv_run)
  ultimately show ?case by (blast intro: assms(4))
qed

end

subsection \<open>The interface of a lossless encoding\<close>

locale codec =
  fixes enc :: "'a \<Rightarrow> 'b" and dec :: "'b \<Rightarrow> 'a option" and valid :: "'a \<Rightarrow> bool"
  assumes dec_enc: "valid x \<Longrightarrow> dec (enc x) = Some x"
begin

lemma enc_inj: "valid x \<Longrightarrow> valid y \<Longrightarrow> enc x = enc y \<Longrightarrow> x = y"
  by (metis dec_enc option.inject)

lemma enc_inj_on: "inj_on enc {x. valid x}"
  by (auto intro!: inj_onI enc_inj)

end

end
