(* ===== verification/Domain_States.thy ===== *)
theory Domain_States
  imports Prelude
begin

text \<open>
  The closed vocabularies of \<open>domain\<close> (\<open>enums.go\<close>, \<open>binding.go\<close>) the scheduler and the status
  projection use: the three independent state dimensions of a line, the log thresholds, and the
  scheduling priorities of \<open>policy/priority.go\<close>, ordered the way the source orders them.
\<close>

datatype LinkState = LinkMissing | LinkDown | LinkAddressPending | LinkReady

datatype AuthState =
    AuthUnknown | AuthAuthenticating | AuthAccepted | AuthVerifiedSelf | AuthVerifiedOther
  | AuthRejected | AuthOffline

datatype Connectivity =
    ConnectivityUnknown | ConnectivityOffline | ConnectivityPortalReachable
  | ConnectivityInternetReachable | ConnectivityLimited

subsection \<open>Priorities\<close>

datatype Priority =
    PriorityPeriodic | PriorityMaintenance | PriorityQuietBoundary | PriorityUserAction
  | PriorityRecovery | PriorityFreeze

fun priority_int :: "Priority \<Rightarrow> int" where
  "priority_int PriorityPeriodic = 1"
| "priority_int PriorityMaintenance = 2"
| "priority_int PriorityQuietBoundary = 3"
| "priority_int PriorityUserAction = 4"
| "priority_int PriorityRecovery = 5"
| "priority_int PriorityFreeze = 6"

lemma priority_int_inj [simp]: "priority_int a = priority_int b \<longleftrightarrow> a = b"
  by (cases a; cases b) simp_all

instantiation Priority :: linorder
begin

definition less_eq_Priority :: "Priority \<Rightarrow> Priority \<Rightarrow> bool" where
  "less_eq_Priority a b \<longleftrightarrow> priority_int a \<le> priority_int b"

definition less_Priority :: "Priority \<Rightarrow> Priority \<Rightarrow> bool" where
  "less_Priority a b \<longleftrightarrow> priority_int a < priority_int b"

instance
  by standard (auto simp: less_eq_Priority_def less_Priority_def)

end

definition priority_string :: "Priority \<Rightarrow> string" where
  "priority_string p = (case p of
     PriorityPeriodic \<Rightarrow> ''periodic''
   | PriorityMaintenance \<Rightarrow> ''maintenance''
   | PriorityQuietBoundary \<Rightarrow> ''quiet-boundary''
   | PriorityUserAction \<Rightarrow> ''user-action''
   | PriorityRecovery \<Rightarrow> ''recovery''
   | PriorityFreeze \<Rightarrow> ''freeze'')"

subsection \<open>Log thresholds\<close>

datatype LogLevel = LogAll | LogDebug | LogInfo | LogWarn | LogError | LogOther string

definition logThresholds :: "LogLevel \<rightharpoonup> int" where
  "logThresholds l = (case l of
     LogAll \<Rightarrow> Some 0 | LogDebug \<Rightarrow> Some 10 | LogInfo \<Rightarrow> Some 20 | LogWarn \<Rightarrow> Some 30
   | LogError \<Rightarrow> Some 40 | LogOther _ \<Rightarrow> None)"

definition LogLevel_Valid :: "LogLevel \<Rightarrow> bool" where
  "LogLevel_Valid l \<longleftrightarrow> logThresholds l \<noteq> None"

definition LogLevel_Emits :: "LogLevel \<Rightarrow> LogLevel \<Rightarrow> bool" where
  "LogLevel_Emits l event =
     (if event = LogAll then False
      else case logThresholds event of
        None \<Rightarrow> False
      | Some eventWeight \<Rightarrow>
          (case logThresholds l of None \<Rightarrow> False | Some threshold \<Rightarrow> eventWeight \<ge> threshold))"

lemma LogLevel_Emits_antimono:
  assumes "logThresholds l = Some a" and "logThresholds k = Some b" and "a \<le> b"
    and "LogLevel_Emits k e"
  shows "LogLevel_Emits l e"
  using assms by (auto simp: LogLevel_Emits_def split: if_splits option.splits)

end
