(* ===== verification/Observe_Store.thy ===== *)
theory Observe_Store
  imports Domain_States "HOL-Library.List_Lexorder"
begin

text \<open>
  The status projection of \<open>observe/store.go\<close>: what the daemon knows about every account, with the
  rule that a late or obsolete report never replaces a newer one. The store's mutex makes every
  method atomic, so each method is one function from store to store.
\<close>

record LineView =
  lv_Iface :: string
  lv_Device :: string
  lv_Address :: string

record Observation =
  ob_AccountID :: string
  ob_Revision :: nat
  ob_Generation :: nat
  ob_Sequence :: nat
  ob_Link :: LinkState
  ob_Auth :: AuthState
  ob_Connectivity :: Connectivity
  ob_Identity :: string
  ob_Line :: LineView
  ob_At :: instant

datatype Drop = DropNone | DropNoAccount | DropObsoleteRevision | DropObsoleteBinding | DropLate

record Note =
  n_ActionID :: string
  n_Kind :: string
  n_State :: string
  n_Message :: string
  n_Code :: "ErrorCode option"
  n_At :: instant

text \<open>
  The zero value of \<open>AccountView\<close> carries the empty strings of the state types; the model writes
  that as \<^const>\<open>None\<close>.
\<close>

record AccountView =
  av_AccountID :: string
  av_Link :: "LinkState option"
  av_Auth :: "AuthState option"
  av_Connectivity :: "Connectivity option"
  av_Identity :: string
  av_Line :: LineView
  av_ObservedAt :: instant
  av_Revision :: nat
  av_Generation :: nat
  av_Sequence :: nat
  av_RunningAction :: string
  av_Note :: "Note option"

record entry =
  en_view :: AccountView
  en_note :: "Note option"
  en_seen :: bool

record Store =
  st_revision :: nat
  st_accounts :: "entry gomap"

definition zero_line :: LineView where
  "zero_line = \<lparr>lv_Iface = [], lv_Device = [], lv_Address = []\<rparr>"

definition zero_view :: AccountView where
  "zero_view = \<lparr>av_AccountID = [], av_Link = None, av_Auth = None, av_Connectivity = None,
     av_Identity = [], av_Line = zero_line, av_ObservedAt = 0, av_Revision = 0, av_Generation = 0,
     av_Sequence = 0, av_RunningAction = [], av_Note = None\<rparr>"

definition zero_entry :: entry where
  "zero_entry = \<lparr>en_view = zero_view, en_note = None, en_seen = False\<rparr>"

definition NewStore :: Store where
  "NewStore = \<lparr>st_revision = 0, st_accounts = []\<rparr>"

definition SetRevision :: "nat \<Rightarrow> Store \<Rightarrow> Store" where
  "SetRevision revision s =
     (if revision > st_revision s then s\<lparr>st_revision := revision\<rparr> else s)"

definition ResetConfiguration :: "nat \<Rightarrow> Store \<Rightarrow> Store" where
  "ResetConfiguration revision s =
     (if revision > st_revision s
      then s\<lparr>st_revision := revision, st_accounts := []\<rparr> else s)"

definition staleness :: "AccountView \<Rightarrow> Observation \<Rightarrow> Drop" where
  "staleness current incoming =
     (if ob_Revision incoming < av_Revision current then DropObsoleteRevision
      else if ob_Revision incoming > av_Revision current then DropNone
      else if ob_Generation incoming < av_Generation current then DropObsoleteBinding
      else if ob_Generation incoming > av_Generation current then DropNone
      else if ob_Sequence incoming < av_Sequence current then DropLate
      else DropNone)"

definition record_view :: "Observation \<Rightarrow> AccountView \<Rightarrow> AccountView" where
  "record_view ob v = v\<lparr>av_AccountID := ob_AccountID ob, av_Link := Some (ob_Link ob),
     av_Auth := Some (ob_Auth ob), av_Connectivity := Some (ob_Connectivity ob),
     av_Identity := ob_Identity ob, av_Line := ob_Line ob, av_ObservedAt := ob_At ob,
     av_Revision := ob_Revision ob, av_Generation := ob_Generation ob,
     av_Sequence := ob_Sequence ob\<rparr>"

definition Accept :: "Observation \<Rightarrow> Store \<Rightarrow> Store \<times> bool \<times> Drop" where
  "Accept ob s =
     (if ob_AccountID ob = [] then (s, False, DropNoAccount)
      else if ob_Revision ob < st_revision s then (s, False, DropObsoleteRevision)
      else
        let known = map_of (st_accounts s) (ob_AccountID ob);
            drop = (case known of
                      Some cur \<Rightarrow> if en_seen cur then staleness (en_view cur) ob else DropNone
                    | None \<Rightarrow> DropNone)
        in if drop \<noteq> DropNone then (s, False, drop)
           else
             let cur = (case known of Some e \<Rightarrow> e | None \<Rightarrow> zero_entry);
                 cur' = cur\<lparr>en_seen := True, en_view := record_view ob (en_view cur)\<rparr>
             in (s\<lparr>st_accounts := AList.update (ob_AccountID ob) cur' (st_accounts s)\<rparr>,
                 True, DropNone))"

definition entryFor :: "string \<Rightarrow> Store \<Rightarrow> entry" where
  "entryFor accountID s = (case map_of (st_accounts s) accountID of
     Some e \<Rightarrow> e
   | None \<Rightarrow> zero_entry\<lparr>en_view := zero_view\<lparr>av_AccountID := accountID\<rparr>\<rparr>)"

definition put_entry :: "string \<Rightarrow> entry \<Rightarrow> Store \<Rightarrow> Store" where
  "put_entry accountID e s = s\<lparr>st_accounts := AList.update accountID e (st_accounts s)\<rparr>"

text \<open>
  \<open>entryFor\<close> inserts the fresh entry before the method looks at it, so the early returns of the
  two methods below still leave the entry in the map.
\<close>

definition ActionStarted :: "string \<Rightarrow> string \<Rightarrow> Store \<Rightarrow> Store" where
  "ActionStarted accountID actionID s =
     (if accountID = [] then s
      else
        let cur = entryFor accountID s
        in if av_RunningAction (en_view cur) = actionID \<and> actionID \<noteq> []
           then put_entry accountID cur s
           else put_entry accountID
                  (cur\<lparr>en_view := (en_view cur)\<lparr>av_RunningAction := actionID\<rparr>, en_note := None\<rparr>) s)"

definition ActionFinished :: "string \<Rightarrow> Note \<Rightarrow> Store \<Rightarrow> Store" where
  "ActionFinished accountID note s =
     (if accountID = [] then s
      else
        let cur = entryFor accountID s
        in if av_RunningAction (en_view cur) \<noteq> [] \<and> av_RunningAction (en_view cur) \<noteq> n_ActionID note
           then put_entry accountID cur s
           else put_entry accountID
                  (cur\<lparr>en_view := (en_view cur)\<lparr>av_RunningAction := []\<rparr>, en_note := Some note\<rparr>) s)"

definition Forget :: "string \<Rightarrow> Store \<Rightarrow> Store" where
  "Forget accountID s = s\<lparr>st_accounts := AList.delete accountID (st_accounts s)\<rparr>"

definition copy_entry :: "entry \<Rightarrow> AccountView" where
  "copy_entry e = (case en_note e of
     None \<Rightarrow> en_view e
   | Some n \<Rightarrow> (en_view e)\<lparr>av_Note := Some n\<rparr>)"

definition Account :: "string \<Rightarrow> Store \<Rightarrow> AccountView option" where
  "Account accountID s = map_option copy_entry (map_of (st_accounts s) accountID)"

definition Read :: "Store \<Rightarrow> nat \<times> AccountView list" where
  "Read s = (st_revision s,
     sort_key (\<lambda>v. map of_char (av_AccountID v) :: nat list)
       (map (copy_entry \<circ> snd) (st_accounts s)))"

end
