(* ===== verification/Go_Text.thy ===== *)
theory Go_Text
  imports Prelude
begin

text \<open>
  Text helpers of the Go standard library that several packages call: lowercase hexadecimal
  (\<open>encoding/hex\<close>), \<open>strings.ContainsAny\<close>, \<open>strings.CutPrefix\<close> and ASCII case mapping, with the
  printed forms as instances of the \<open>codec\<close> interface.
\<close>

subsection \<open>Hexadecimal digests\<close>

definition hex_digit :: "nat \<Rightarrow> char" where
  "hex_digit n = (''0123456789abcdef'' ! n)"

definition EncodeToString :: "string \<Rightarrow> string" where
  "EncodeToString bs =
     concat (map (\<lambda>b. [hex_digit (of_char b div 16), hex_digit (of_char b mod 16)]) bs)"

fun unhex :: "char \<Rightarrow> nat" where
  "unhex c = (let n = of_char c in if n < 58 then n - 48 else n - 87)"

fun DecodeString :: "string \<Rightarrow> string option" where
  "DecodeString [] = Some []"
| "DecodeString [_] = None"
| "DecodeString (a # b # rest) =
     map_option ((#) (char_of (16 * unhex a + unhex b))) (DecodeString rest)"

lemma less16: "n < (16::nat) \<Longrightarrow> n \<in> {0,1,2,3,4,5,6,7,8,9,10,11,12,13,14,15}"
  by (simp add: less_Suc_eq numeral_eq_Suc)

lemma unhex_hex: "n < 16 \<Longrightarrow> unhex (hex_digit n) = n"
  by (drule less16) (auto simp: hex_digit_def)

lemma hex_not_nul: "n < 16 \<Longrightarrow> hex_digit n \<noteq> CHR 0x00"
  by (drule less16) (auto simp: hex_digit_def)

lemma decode_encode: "DecodeString (EncodeToString bs) = Some bs"
proof (induction bs)
  case Nil
  then show ?case by (simp add: EncodeToString_def)
next
  case (Cons b bs)
  have "of_char b div 16 < (16 :: nat)" using of_char_lt [of b] by linarith
  then have "char_of (16 * unhex (hex_digit (of_char b div 16)) + unhex (hex_digit (of_char b mod 16))) = b"
    by (simp add: unhex_hex del: unhex.simps)
  with Cons show ?case by (simp add: EncodeToString_def del: unhex.simps)
qed

interpretation hex: codec EncodeToString DecodeString "\<lambda>_. True"
  by unfold_locales (rule decode_encode)

interpretation decimal: codec FormatUint "\<lambda>s. Some (parse_dec s)" "\<lambda>_. True"
  by unfold_locales simp

subsection \<open>Searching and case\<close>

definition ContainsAny :: "string \<Rightarrow> string \<Rightarrow> bool" where
  "ContainsAny s chars \<longleftrightarrow> (\<exists>c \<in> set s. c \<in> set chars)"

definition CutPrefix :: "string \<Rightarrow> string \<Rightarrow> string option" where
  "CutPrefix s p = (if prefix p s then Some (drop (length p) s) else None)"

fun contains_sub :: "string \<Rightarrow> string \<Rightarrow> bool" where
  "contains_sub [] w = (w = [])"
| "contains_sub (c # s) w = (prefix w (c # s) \<or> contains_sub s w)"

definition ascii :: "string \<Rightarrow> bool" where
  "ascii s \<longleftrightarrow> (\<forall>c \<in> set s. (of_char c :: nat) < 128)"

definition lower_char :: "char \<Rightarrow> char" where
  "lower_char c = (let n = of_char c :: nat in if 65 \<le> n \<and> n \<le> 90 then char_of (n + 32) else c)"

definition upper_char :: "char \<Rightarrow> char" where
  "upper_char c = (let n = of_char c :: nat in if 97 \<le> n \<and> n \<le> 122 then char_of (n - 32) else c)"

lemma contains_sub_sublist: "contains_sub s w \<longleftrightarrow> sublist w s"
  by (induction s) (auto simp: sublist_Cons_right)

subsection \<open>Signed decimals\<close>

definition FormatInt :: "int \<Rightarrow> string" where
  "FormatInt i = (if i < 0 then CHR ''-'' # FormatUint (nat (- i)) else FormatUint (nat i))"

lemma FormatInt_inj [simp]: "FormatInt i = FormatInt j \<longleftrightarrow> i = j"
proof -
  have "FormatUint n \<noteq> CHR ''-'' # s" for n s
    using FormatUint_digits [of "CHR ''-''" n] by (auto simp: is_digit_def)
  then show ?thesis by (auto simp: FormatInt_def dest: sym)
qed

text \<open>\<open>strconv.Atoi\<close> on an \<open>int\<close> of the given width: \<^const>\<open>None\<close> for a syntax or range error.\<close>

definition Atoi :: "nat \<Rightarrow> string \<Rightarrow> int option" where
  "Atoi bits s =
     (let neg = prefix ''-'' s;
          digits = (if prefix ''-'' s \<or> prefix ''+'' s then drop 1 s else s);
          v = (if neg then - int (parse_dec digits) else int (parse_dec digits))
      in if digits = [] \<or> (\<exists>c \<in> set digits. \<not> is_digit c) then None
         else if v < - (2 ^ (bits - 1)) \<or> v \<ge> 2 ^ (bits - 1) then None else Some v)"

text \<open>Wrap-around of a signed integer of the given width.\<close>

definition wrap_int :: "nat \<Rightarrow> int \<Rightarrow> int" where
  "wrap_int bits i = (i + 2 ^ (bits - 1)) mod 2 ^ bits - 2 ^ (bits - 1)"

lemma wrap_int_id: "0 < bits \<Longrightarrow> - (2 ^ (bits - 1)) \<le> i \<Longrightarrow> i < 2 ^ (bits - 1) \<Longrightarrow> wrap_int bits i = i"
proof -
  assume b: "0 < bits" and i: "- (2 ^ (bits - 1)) \<le> i" "i < 2 ^ (bits - 1)"
  have "(2 :: int) ^ bits = 2 * 2 ^ (bits - 1)" using b by (cases bits) simp_all
  with i have "(i + 2 ^ (bits - 1)) mod 2 ^ bits = i + 2 ^ (bits - 1)" by (intro mod_pos_pos_trivial) simp_all
  then show ?thesis by (simp add: wrap_int_def)
qed

lemma wrap_int_inj:
  assumes "wrap_int bits (c + int j) = wrap_int bits (c + int k)" and "j < 2 ^ bits" and "k < 2 ^ bits"
  shows "j = k"
proof -
  let ?m = "(2 :: int) ^ bits"
  have "(c + int j + 2 ^ (bits - 1)) mod ?m = (c + int k + 2 ^ (bits - 1)) mod ?m"
    using assms(1) by (simp add: wrap_int_def)
  then have "?m dvd (int j - int k)" by (auto simp: mod_eq_dvd_iff)
  moreover have "\<bar>int j - int k\<bar> < ?m"
  proof -
    have "int j < ?m" "int k < ?m" using assms(2,3) by (simp_all add: of_nat_less_iff [symmetric] del: of_nat_less_iff)
    then show ?thesis by linarith
  qed
  ultimately have "int j - int k = 0" using dvd_imp_le_int [of "int j - int k" ?m] by fastforce
  then show ?thesis by simp
qed

end
