(* ===== verification/Action_Model.thy ===== *)
theory Action_Model
  imports Observe_Store Go_Text
begin

text \<open>
  Actions, requests and their life cycle: \<open>application/action.go\<close>, the phases and the phase trace
  of \<open>application/timing.go\<close>. A Go string type with a closed set of constants is a datatype with
  one constructor per constant; \<open>KindUnknown\<close> stands for any other string a caller may send.
  User-facing Chinese messages are the constructors of \<open>Message\<close>, one per literal of the source.
\<close>

datatype Kind =
    KindLogin | KindLogout | KindRelogin | KindSwitchCampus | KindSwitchHotspot | KindMaintain
  | KindForcedLogout | KindQuietHotspot | KindQuietCampus | KindPresetsRefresh | KindDetectACID
  | KindDetectEnvironment | KindDetectOperators | KindDetectIdentity | KindDetectVerify
  | KindWifiSetupStart | KindWifiSetupCancel | KindUnknown string

fun kind_string :: "Kind \<Rightarrow> string" where
  "kind_string KindLogin = ''manual_login''"
| "kind_string KindLogout = ''manual_logout''"
| "kind_string KindRelogin = ''relogin''"
| "kind_string KindSwitchCampus = ''switch_campus''"
| "kind_string KindSwitchHotspot = ''switch_hotspot''"
| "kind_string KindMaintain = ''maintain''"
| "kind_string KindForcedLogout = ''forced_logout''"
| "kind_string KindQuietHotspot = ''quiet_hotspot''"
| "kind_string KindQuietCampus = ''quiet_campus''"
| "kind_string KindPresetsRefresh = ''presets_refresh''"
| "kind_string KindDetectACID = ''detect_acid''"
| "kind_string KindDetectEnvironment = ''detect_environment''"
| "kind_string KindDetectOperators = ''detect_operators''"
| "kind_string KindDetectIdentity = ''detect_identity''"
| "kind_string KindDetectVerify = ''detect_verify''"
| "kind_string KindWifiSetupStart = ''wifi_setup_start''"
| "kind_string KindWifiSetupCancel = ''wifi_setup_cancel''"
| "kind_string (KindUnknown s) = s"

definition kinds :: "Kind list" where
  "kinds = [KindLogin, KindLogout, KindRelogin, KindSwitchCampus, KindSwitchHotspot, KindMaintain,
     KindForcedLogout, KindQuietHotspot, KindQuietCampus, KindPresetsRefresh, KindDetectACID,
     KindDetectEnvironment, KindDetectOperators, KindDetectIdentity, KindDetectVerify,
     KindWifiSetupStart, KindWifiSetupCancel]"

definition WifiSetup :: "Kind \<Rightarrow> bool" where
  "WifiSetup k \<longleftrightarrow> k = KindWifiSetupStart \<or> k = KindWifiSetupCancel"

definition Discovery :: "Kind \<Rightarrow> bool" where
  "Discovery k \<longleftrightarrow> k = KindDetectACID \<or> k = KindDetectEnvironment \<or> k = KindDetectOperators \<or>
     k = KindDetectIdentity \<or> k = KindDetectVerify"

definition Kind_Valid :: "Kind \<Rightarrow> bool" where
  "Kind_Valid k \<longleftrightarrow> k \<in> set kinds"

definition switches :: "Kind \<Rightarrow> bool" where
  "switches k \<longleftrightarrow> k = KindLogout \<or> k = KindSwitchCampus \<or> k = KindSwitchHotspot \<or>
     k = KindQuietHotspot \<or> k = KindQuietCampus \<or> WifiSetup k"

definition Kind_Priority :: "Kind \<Rightarrow> Priority" where
  "Kind_Priority k = (case k of
     KindPresetsRefresh \<Rightarrow> PriorityPeriodic
   | KindMaintain \<Rightarrow> PriorityMaintenance
   | KindForcedLogout \<Rightarrow> PriorityQuietBoundary
   | KindQuietHotspot \<Rightarrow> PriorityQuietBoundary
   | KindQuietCampus \<Rightarrow> PriorityQuietBoundary
   | _ \<Rightarrow> PriorityUserAction)"

definition Manual :: "Kind \<Rightarrow> bool" where
  "Manual k \<longleftrightarrow> k \<noteq> KindMaintain \<and> k \<noteq> KindForcedLogout \<and> k \<noteq> KindQuietHotspot \<and>
     k \<noteq> KindQuietCampus \<and> k \<noteq> KindPresetsRefresh"

datatype State =
    StateQueued | StateRunning | StateSucceeded | StateFailed | StateCancelled | StateInterrupted

definition Terminal :: "State \<Rightarrow> bool" where
  "Terminal s = (case s of
     StateSucceeded \<Rightarrow> True | StateFailed \<Rightarrow> True | StateCancelled \<Rightarrow> True | StateInterrupted \<Rightarrow> True
   | _ \<Rightarrow> False)"

lemma Terminal_simps [simp]:
  "\<not> Terminal StateQueued" "\<not> Terminal StateRunning" "Terminal StateSucceeded"
  "Terminal StateFailed" "Terminal StateCancelled" "Terminal StateInterrupted"
  by (simp_all add: Terminal_def)

datatype Phase =
    PhaseNone | PhaseWaitingLink | PhaseChallenge | PhaseLogin | PhaseVerify | PhaseLogout
  | PhaseSwitch | PhaseFetch | PhasePrepare | PhaseActivate | PhaseAssociation | PhaseAddress
  | PhaseCommit | PhaseRollback | PhaseRetire | PhaseReuse | PhaseOther string

definition knownPhase :: "Phase \<Rightarrow> bool" where
  "knownPhase p = (case p of PhaseNone \<Rightarrow> False | PhaseOther _ \<Rightarrow> False | _ \<Rightarrow> True)"

record Request =
  r_Kind :: Kind
  r_AccountID :: string
  r_HotspotID :: string
  r_Interface :: string
  r_ProbeURL :: string
  r_ProbeSSID :: string
  r_ProbeMode :: string
  r_ProbeSchool :: string
  r_ProbeACID :: string
  r_Owner :: string
  r_SetupJob :: string
  r_PrivateJSON :: string
  r_privateDigest :: string
  r_IdempotencyKey :: string
  r_IgnoreQuiet :: bool
  r_CheckRevision :: bool
  r_ConfigRevision :: nat

subsection \<open>The request fingerprint\<close>

definition FormatBool :: "bool \<Rightarrow> string" where
  "FormatBool b = (if b then ''true'' else ''false'')"

definition sep :: string where
  "sep = [CHR 0x00]"

definition fingerprint :: "Request \<Rightarrow> string" where
  "fingerprint r =
     (let quiet = (if r_IgnoreQuiet r then ''1'' else ''0'') in
      kind_string (r_Kind r) @ sep @ r_AccountID r @ sep @ r_HotspotID r @ sep @ quiet @ sep @
      r_Interface r @ sep @ FormatBool (r_CheckRevision r) @ '':'' @ FormatUint (r_ConfigRevision r) @
      sep @ r_ProbeURL r @ sep @ r_ProbeSSID r @ sep @ r_ProbeMode r @ sep @ r_ProbeSchool r @ sep @
      r_ProbeACID r @ sep @ r_Owner r @ sep @ EncodeToString (r_privateDigest r) @ sep @ r_SetupJob r)"

subsection \<open>Request validation\<close>

definition Trim :: "string \<Rightarrow> string \<Rightarrow> string" where
  "Trim s cutset = (let inside = (\<lambda>c. c \<in> set cutset)
     in rev (dropWhile inside (rev (dropWhile inside s))))"

definition Request_Validate :: "Request \<Rightarrow> gerror option" where
  "Request_Validate r =
    (let k = r_Kind r; bad = Some (Errorf CodeInvalidArgument) in
     if length (r_PrivateJSON r) > 16 * 1024 \<or>
        (r_PrivateJSON r \<noteq> [] \<and> k \<noteq> KindDetectIdentity \<and> k \<noteq> KindDetectVerify \<and>
         k \<noteq> KindWifiSetupStart) then bad
     else if \<not> Kind_Valid k then bad
     else if WifiSetup k \<and>
        (length (r_SetupJob r) \<noteq> 32 \<or> Trim (r_SetupJob r) ''0123456789abcdef'' \<noteq> [] \<or>
         r_AccountID r \<noteq> [] \<or> r_HotspotID r \<noteq> [] \<or> r_IgnoreQuiet r) then bad
     else if \<not> WifiSetup k \<and> r_SetupJob r \<noteq> [] then bad
     else if (k = KindPresetsRefresh \<or> Discovery k) \<and>
        (r_Interface r = [] \<or> length (r_Interface r) > 64 \<or>
         ContainsAny (r_Interface r)
           [CHR 0x00, CHR 0x0D, CHR 0x0A, CHR 0x09, CHR 0x20, CHR 0x2F, CHR 0x5C]) then bad
     else if (k = KindPresetsRefresh \<or> Discovery k) \<and>
        (r_AccountID r \<noteq> [] \<or> r_HotspotID r \<noteq> [] \<or> r_IgnoreQuiet r) then bad
     else if \<not> (k = KindPresetsRefresh \<or> Discovery k) \<and> r_Interface r \<noteq> [] then bad
     else if \<not> Discovery k \<and>
        (r_ProbeURL r \<noteq> [] \<or> r_ProbeSSID r \<noteq> [] \<or> r_ProbeMode r \<noteq> [] \<or>
         r_ProbeSchool r \<noteq> [] \<or> r_ProbeACID r \<noteq> []) then bad
     else if Discovery k \<and>
        ((k \<noteq> KindDetectEnvironment \<and> r_ProbeURL r = []) \<or> length (r_ProbeURL r) > 2048 \<or>
         length (r_ProbeSSID r) > 32 \<or> length (r_ProbeSchool r) > 128 \<or> length (r_ProbeACID r) > 64 \<or>
         ContainsAny (r_ProbeURL r @ r_ProbeSSID r @ r_ProbeMode r @ r_ProbeSchool r @ r_ProbeACID r)
           [CHR 0x00, CHR 0x0D, CHR 0x0A]) then bad
     else if r_AccountID r = [] \<and> k \<noteq> KindSwitchHotspot \<and> k \<noteq> KindPresetsRefresh \<and>
        \<not> Discovery k \<and> \<not> WifiSetup k then bad
     else if (k = KindSwitchHotspot \<or> k = KindQuietHotspot \<or> k = KindQuietCampus) \<and>
        r_HotspotID r = [] then bad
     else if r_IdempotencyKey r = [] then bad
     else None)"

subsection \<open>Phase timings\<close>

record PhaseTiming =
  pt_Phase :: Phase
  pt_Milliseconds :: int
  pt_Visits :: nat

text \<open>
  The worker's stopwatch. The source keeps \<open>entries\<close> and \<open>durations\<close> as two parallel slices; the
  model keeps them so too.
\<close>

record phaseTrace =
  tr_since :: instant
  tr_current :: Phase
  tr_closed :: bool
  tr_entries :: "PhaseTiming list"
  tr_durations :: "duration list"

definition zero_trace :: phaseTrace where
  "zero_trace = \<lparr>tr_since = 0, tr_current = PhaseNone, tr_closed = False,
     tr_entries = [], tr_durations = []\<rparr>"

fun add_duration :: "Phase \<Rightarrow> duration \<Rightarrow> PhaseTiming list \<Rightarrow> duration list \<Rightarrow> duration list" where
  "add_duration p d (e # es) (x # xs) =
     (if pt_Phase e = p then (x + d) # xs else x # add_duration p d es xs)"
| "add_duration p d _ xs = xs"

definition accrue :: "instant \<Rightarrow> phaseTrace \<Rightarrow> phaseTrace" where
  "accrue at p =
     (if tr_current p = PhaseNone then p
      else let elapsed = at - tr_since p; elapsed = (if elapsed < 0 then 0 else elapsed)
        in p\<lparr>tr_durations := add_duration (tr_current p) elapsed (tr_entries p) (tr_durations p)\<rparr>)"

fun bump_visit :: "Phase \<Rightarrow> PhaseTiming list \<Rightarrow> PhaseTiming list option" where
  "bump_visit p [] = None"
| "bump_visit p (e # es) =
     (if pt_Phase e = p then Some (e\<lparr>pt_Visits := pt_Visits e + 1\<rparr> # es)
      else map_option ((#) e) (bump_visit p es))"

definition change :: "Phase \<Rightarrow> instant \<Rightarrow> phaseTrace \<Rightarrow> phaseTrace" where
  "change phase at p =
     (if \<not> knownPhase phase then p
      else if tr_closed p \<or> tr_current p = phase then p
      else
        let p = accrue at p; p = p\<lparr>tr_current := phase, tr_since := at\<rparr>
        in case bump_visit phase (tr_entries p) of
             Some es \<Rightarrow> p\<lparr>tr_entries := es\<rparr>
           | None \<Rightarrow> p\<lparr>tr_entries := tr_entries p @ [\<lparr>pt_Phase = phase, pt_Milliseconds = 0, pt_Visits = 1\<rparr>],
                       tr_durations := tr_durations p @ [0]\<rparr>)"

definition finish :: "instant \<Rightarrow> phaseTrace \<Rightarrow> phaseTrace \<times> PhaseTiming list" where
  "finish at p =
     (if tr_closed p then (p, tr_entries p)
      else
        let p = accrue at p;
            es = map2 (\<lambda>e d. e\<lparr>pt_Milliseconds := d div millisecond\<rparr>) (tr_entries p) (tr_durations p);
            p = p\<lparr>tr_closed := True, tr_entries := es\<rparr>
        in (p, es))"

subsection \<open>Actions\<close>

datatype Message =
    NoMessage
  | MsgStopNotStarted        \<comment> \<open>the service stopped before the action started\<close>
  | MsgStopInterrupted       \<comment> \<open>the service stopped while the action was running\<close>
  | MsgCancelled
  | MsgCancelledBeforeStart
  | MsgBudgetExceeded
  | MsgUnexplainedOutcome
  | MsgResultTooLarge
  | MsgQueueTimeout
  | MsgOfError gerror        \<comment> \<open>\<open>userMessage(err)\<close>\<close>
  | MsgText string           \<comment> \<open>text a worker supplied\<close>

record ConnectivityDiagnosis =
  cd_Via :: string
  cd_Bound :: string
  cd_BoundLast :: string
  cd_System :: string
  cd_Fallback :: string

record Action =
  a_ID :: string
  a_Request :: Request
  a_Line :: string
  a_State :: State
  a_Phase :: Phase
  a_Message :: Message
  a_Code :: "ErrorCode option"
  a_ResultJSON :: string
  a_QueuedAt :: instant
  a_StartedAt :: instant
  a_EndedAt :: instant
  a_Timings :: "PhaseTiming list"
  a_WorkerMilliseconds :: int
  a_Sequence :: nat
  a_MaintenanceDeferred :: bool
  a_Connectivity :: "ConnectivityDiagnosis option"
  a_ordinal :: nat
  a_retired :: bool

definition transition :: "State \<Rightarrow> instant \<Rightarrow> Action \<Rightarrow> Action \<times> bool" where
  "transition next at a =
     (if Terminal (a_State a) then (a, False)
      else
        let a = a\<lparr>a_State := next\<rparr>;
            a = (if next = StateRunning then a\<lparr>a_StartedAt := at\<rparr> else a);
            a = (if Terminal next then a\<lparr>a_EndedAt := at\<rparr> else a)
        in (a, True))"

record Outcome =
  o_State :: State
  o_Message :: Message
  o_Code :: "ErrorCode option"
  o_MaintenanceDeferred :: bool
  o_Observation :: "Observation option"
  o_ResultJSON :: string
  o_Connectivity :: "ConnectivityDiagnosis option"

record Receipt =
  rc_ActionID :: string
  rc_State :: State
  rc_Duplicate :: bool

definition formatID :: "nat \<Rightarrow> string" where
  "formatID n = ''a'' @ FormatUint n"

definition publicCopy :: "Action \<Rightarrow> Action" where
  "publicCopy a = a\<lparr>a_Request := (a_Request a)\<lparr>r_PrivateJSON := []\<rparr>\<rparr>"

definition runsFirst :: "Action \<Rightarrow> Action \<Rightarrow> bool" where
  "runsFirst a b =
     (let pa = Kind_Priority (r_Kind (a_Request a)); pb = Kind_Priority (r_Kind (a_Request b)) in
      if pa \<noteq> pb then pa > pb
      else if a_QueuedAt a \<noteq> a_QueuedAt b then a_QueuedAt a < a_QueuedAt b
      else a_ordinal a < a_ordinal b)"

end
