(* ===== verification/Coordinator.thy ===== *)
theory Coordinator
  imports Action_Model
begin

text \<open>
  The coordinator of \<open>application/coordinator.go\<close> and \<open>application/schedule.go\<close>: the single
  writer of the action index, the queue and the running set.

  The source shares \<open>*Action\<close> pointers between the queue, the index and the handlers. The model
  keeps the heap explicit: \<open>c_acts\<close> is the dereference of a pointer, named by the action's id, and
  the queue, the index and the running map hold ids. The order of \<open>c_index\<close> and \<open>c_running\<close> stands
  for Go's unspecified map order; the step relation below lets it change at any time. A cancelled
  \<open>context.CancelFunc\<close> is the flag \<open>run_cancelled\<close>; what observers and the status store were handed
  is the trace \<open>c_events\<close>. Callbacks (\<open>Lines\<close>, \<open>Check\<close>, \<open>Admit\<close>, \<open>Finalize\<close>) and the clock are the
  fields of \<open>Env\<close>: a nil callback is the function that accepts everything. SHA-256 is the field
  \<open>e_Sum256\<close>. The counters \<open>nextID\<close> and \<open>nextSeq\<close> are unbounded: a \<open>uint64\<close> that grows by one per
  submission does not wrap within the life of a device.
\<close>

record run =
  run_cancelled :: bool
  run_line :: string
  run_overdue :: bool

datatype Event = Publish Action | Record Observation

record Coord =
  c_acts :: "string \<Rightarrow> Action"
  c_queue :: "string list"
  c_index :: "string list"
  c_byKey :: "string gomap"
  c_running :: "run gomap"
  c_busyLines :: "string gomap"
  c_terminals :: "string list"
  c_nextID :: nat
  c_nextSeq :: nat
  c_events :: "Event list"

record Limits =
  l_parallel :: nat
  l_queueLimit :: nat
  l_history :: nat
  l_queueWait :: duration
  l_actionBudget :: duration
  l_instanceID :: string

record Env =
  e_now :: instant
  e_lines :: "Request \<Rightarrow> string"
  e_check :: "Request \<Rightarrow> gerror option"
  e_admit :: "Request \<Rightarrow> gerror option"
  e_finalize :: "Action \<Rightarrow> Outcome \<Rightarrow> Outcome"
  e_Sum256 :: "string \<Rightarrow> string"

record completion =
  cp_id :: string
  cp_outcome :: Outcome
  cp_timings :: "PhaseTiming list"
  cp_workerMilliseconds :: int

record phaseReport =
  ph_id :: string
  ph_phase :: Phase

subsection \<open>Construction\<close>

definition orDefaultInt :: "int \<Rightarrow> int \<Rightarrow> int" where
  "orDefaultInt value fallback = (if value \<le> 0 then fallback else value)"

definition orDefault :: "duration \<Rightarrow> duration \<Rightarrow> duration" where
  "orDefault value fallback = (if value \<le> 0 then fallback else value)"

definition QueueLimit :: int where "QueueLimit = 32"
definition TerminalHistory :: int where "TerminalHistory = 64"
definition MaxConcurrentLines :: int where "MaxConcurrentLines = 4"
definition QueueWait :: duration where "QueueWait = 30 * second"
definition ActionBudget :: duration where "ActionBudget = 600 * second"

record Options =
  op_Parallel :: int
  op_QueueLimit :: int
  op_History :: int
  op_QueueWait :: duration
  op_ActionBudget :: duration

definition New :: "Options \<Rightarrow> string \<Rightarrow> (string \<Rightarrow> Action) \<Rightarrow> Limits \<times> Coord" where
  "New opts instanceID heap =
     (\<lparr>l_parallel = nat (orDefaultInt (op_Parallel opts) MaxConcurrentLines),
       l_queueLimit = nat (orDefaultInt (op_QueueLimit opts) QueueLimit),
       l_history = nat (orDefaultInt (op_History opts) TerminalHistory),
       l_queueWait = orDefault (op_QueueWait opts) QueueWait,
       l_actionBudget = orDefault (op_ActionBudget opts) ActionBudget,
       l_instanceID = instanceID\<rparr>,
      \<lparr>c_acts = heap, c_queue = [], c_index = [], c_byKey = [], c_running = [], c_busyLines = [],
       c_terminals = [], c_nextID = 0, c_nextSeq = 0, c_events = []\<rparr>)"

subsection \<open>Writing through an action pointer, publishing\<close>

definition modify :: "string \<Rightarrow> (Action \<Rightarrow> Action) \<Rightarrow> Coord \<Rightarrow> Coord" where
  "modify i f c = c\<lparr>c_acts := (c_acts c)(i := f (c_acts c i))\<rparr>"

definition publish :: "string \<Rightarrow> Coord \<Rightarrow> Coord" where
  "publish i c = c\<lparr>c_events := c_events c @ [Publish (publicCopy (c_acts c i))]\<rparr>"

abbreviation kindOf :: "Coord \<Rightarrow> string \<Rightarrow> Kind" where
  "kindOf c i \<equiv> r_Kind (a_Request (c_acts c i))"

subsection \<open>Retiring finished actions into the bounded history\<close>

definition evict_one :: "Coord \<Rightarrow> Coord" where
  "evict_one c =
     (case c_terminals c of
        [] \<Rightarrow> c
      | oldest # rest \<Rightarrow>
          let c = c\<lparr>c_terminals := rest\<rparr>
          in if oldest \<notin> set (c_index c) then c
             else
               let key = r_IdempotencyKey (a_Request (c_acts c oldest));
                   c = (if map_of (c_byKey c) key = Some oldest
                        then c\<lparr>c_byKey := AList.delete key (c_byKey c)\<rparr> else c)
               in c\<lparr>c_index := removeAll oldest (c_index c)\<rparr>)"

lemma terminals_evict_one [simp]: "c_terminals (evict_one c) = tl (c_terminals c)"
  by (auto simp: evict_one_def Let_def split: list.splits)

function evict :: "Limits \<Rightarrow> Coord \<Rightarrow> Coord" where
  "evict lim c =
     (if length (c_terminals c) > l_history lim then evict lim (evict_one c) else c)"
  by pat_completeness auto
termination
  by (relation "measure (\<lambda>(lim, c). length (c_terminals c))") auto

declare evict.simps [simp del]

definition retire :: "Limits \<Rightarrow> string \<Rightarrow> Coord \<Rightarrow> Coord" where
  "retire lim i c =
     (if a_retired (c_acts c i) \<or> \<not> Terminal (a_State (c_acts c i)) then c
      else
        let c = modify i (\<lambda>a. a\<lparr>a_retired := True,
                    a_Request := (a_Request a)\<lparr>r_PrivateJSON := []\<rparr>\<rparr>) c;
            c = c\<lparr>c_terminals := c_terminals c @ [i]\<rparr>
        in evict lim c)"

subsection \<open>Cancellation\<close>

definition removeFromQueue :: "string \<Rightarrow> Coord \<Rightarrow> Coord" where
  "removeFromQueue i c = c\<lparr>c_queue := remove1 i (c_queue c)\<rparr>"

definition set_run :: "string \<Rightarrow> (run \<Rightarrow> run) \<Rightarrow> Coord \<Rightarrow> Coord" where
  "set_run i f c = c\<lparr>c_running := map (\<lambda>(j, r). (j, if j = i then f r else r)) (c_running c)\<rparr>"

definition onCancel :: "Limits \<Rightarrow> Env \<Rightarrow> string \<Rightarrow> Coord \<Rightarrow> Coord \<times> gerror option" where
  "onCancel lim env i c =
     (if i \<notin> set (c_index c) then (c, Some (Errorf CodeNotFound))
      else if Terminal (a_State (c_acts c i)) then (c, None)
      else
        let c = modify i (\<lambda>a. (fst (transition StateCancelled (e_now env) a))
                    \<lparr>a_Message := MsgCancelled, a_Code := Some CodeCancelled\<rparr>) c
        in case map_of (c_running c) i of
             Some _ \<Rightarrow> (publish i (set_run i (\<lambda>r. r\<lparr>run_cancelled := True\<rparr>) c), None)
           | None \<Rightarrow>
               let c = removeFromQueue i c;
                   c = modify i (\<lambda>a. a\<lparr>a_Message := MsgCancelledBeforeStart\<rparr>) c
               in (publish i (retire lim i c), None))"

subsection \<open>Submission\<close>

definition superseded :: "Request \<Rightarrow> Coord \<Rightarrow> string list" where
  "superseded request c =
     filter (\<lambda>i.
        let previous = c_acts c i; pk = r_Kind (a_Request previous);
            quiet = ((pk = KindQuietHotspot \<or> pk = KindQuietCampus) \<and>
                     (r_Kind request \<noteq> KindLogout \<or>
                      r_AccountID (a_Request previous) = r_AccountID request));
            maintenance = (r_Kind request = KindLogout \<and>
                     r_AccountID (a_Request previous) = r_AccountID request \<and> \<not> Manual pk)
        in \<not> Terminal (a_State previous) \<and> (quiet \<or> maintenance)) (c_index c)"

definition cancel_all :: "Limits \<Rightarrow> Env \<Rightarrow> string list \<Rightarrow> Coord \<Rightarrow> Coord" where
  "cancel_all lim env ids c = fold (\<lambda>i c. fst (onCancel lim env i c)) ids c"

definition new_action :: "Limits \<Rightarrow> Env \<Rightarrow> Request \<Rightarrow> nat \<Rightarrow> Action" where
  "new_action lim env request n =
     \<lparr>a_ID = l_instanceID lim @ ''-'' @ formatID n, a_Request = request, a_Line = e_lines env request,
      a_State = StateQueued, a_Phase = PhaseNone, a_Message = NoMessage, a_Code = None,
      a_ResultJSON = [], a_QueuedAt = e_now env, a_StartedAt = 0, a_EndedAt = 0, a_Timings = [],
      a_WorkerMilliseconds = 0, a_Sequence = 0, a_MaintenanceDeferred = False,
      a_Connectivity = None, a_ordinal = n, a_retired = False\<rparr>"

definition enqueue :: "Limits \<Rightarrow> Env \<Rightarrow> Request \<Rightarrow> Coord \<Rightarrow> Coord \<times> Receipt" where
  "enqueue lim env request c =
     (let n = c_nextID c + 1; a = new_action lim env request n; i = a_ID a;
          c = c\<lparr>c_nextID := n, c_acts := (c_acts c)(i := a), c_index := c_index c @ [i],
                c_byKey := AList.update (r_IdempotencyKey request) i (c_byKey c),
                c_queue := c_queue c @ [i]\<rparr>
      in (publish i c, \<lparr>rc_ActionID = i, rc_State = StateQueued, rc_Duplicate = False\<rparr>))"

definition admit_new :: "Limits \<Rightarrow> Env \<Rightarrow> Request \<Rightarrow> Coord \<Rightarrow> Coord \<times> (gerror + Receipt)" where
  "admit_new lim env request c =
     (case e_check env request of
        Some e \<Rightarrow> (c, Inl e)
      | None \<Rightarrow>
          if length (c_queue c) \<ge> l_queueLimit lim then (c, Inl (Errorf CodeBusy))
          else
            (case e_admit env request of
               Some e \<Rightarrow> (c, Inl e)
             | None \<Rightarrow>
                 let c = (if r_Kind request = KindSwitchCampus \<or> r_Kind request = KindSwitchHotspot \<or>
                             r_Kind request = KindLogout
                          then cancel_all lim env (superseded request c) c else c);
                     (c, receipt) = enqueue lim env request c
                 in (c, Inr receipt)))"

definition onSubmit :: "Limits \<Rightarrow> Env \<Rightarrow> Request \<Rightarrow> Coord \<Rightarrow> Coord \<times> (gerror + Receipt)" where
  "onSubmit lim env request c =
     (let request = request\<lparr>r_privateDigest := e_Sum256 env (r_PrivateJSON request)\<rparr> in
      case map_of (c_byKey c) (r_IdempotencyKey request) of
        Some existingID \<Rightarrow>
          if existingID \<in> set (c_index c) then
            (let existing = c_acts c existingID in
             if fingerprint (a_Request existing) \<noteq> fingerprint request
             then (c, Inl (Errorf CodeConflict))
             else (c, Inr \<lparr>rc_ActionID = a_ID existing, rc_State = a_State existing,
                           rc_Duplicate = True\<rparr>))
          else admit_new lim env request
                 (c\<lparr>c_byKey := AList.delete (r_IdempotencyKey request) (c_byKey c)\<rparr>)
      | None \<Rightarrow> admit_new lim env request c)"

definition Submit :: "Limits \<Rightarrow> Env \<Rightarrow> Request \<Rightarrow> Coord \<Rightarrow> Coord \<times> (gerror + Receipt)" where
  "Submit lim env request c =
     (case Request_Validate request of Some e \<Rightarrow> (c, Inl e) | None \<Rightarrow> onSubmit lim env request c)"

subsection \<open>Results and progress\<close>

definition check_outcome :: "Env \<Rightarrow> Action \<Rightarrow> Outcome \<Rightarrow> Outcome" where
  "check_outcome env a out =
     (let failed = (\<lambda>m. \<lparr>o_State = StateFailed, o_Message = m, o_Code = Some CodeInternal,
                        o_MaintenanceDeferred = False, o_Observation = None, o_ResultJSON = [],
                        o_Connectivity = None\<rparr>);
          out = (if o_State out \<noteq> StateSucceeded \<and> o_State out \<noteq> StateFailed
                 then failed MsgUnexplainedOutcome else out);
          out = (if o_State out = StateSucceeded then e_finalize env a out else out)
      in if length (o_ResultJSON out) > 32 * 1024 then failed MsgResultTooLarge else out)"

definition apply_outcome :: "instant \<Rightarrow> Outcome \<Rightarrow> Action \<Rightarrow> Action" where
  "apply_outcome now out a =
     (let a = (fst (transition (o_State out) now a))\<lparr>a_Message := o_Message out, a_Code := o_Code out\<rparr>;
          a = (if o_State out = StateSucceeded then a\<lparr>a_ResultJSON := o_ResultJSON out\<rparr> else a)
      in a\<lparr>a_MaintenanceDeferred := o_MaintenanceDeferred out, a_Connectivity := o_Connectivity out\<rparr>)"

definition release :: "string \<Rightarrow> run \<Rightarrow> Coord \<Rightarrow> Coord" where
  "release i state c =
     (let c = c\<lparr>c_running := AList.delete i (c_running c)\<rparr>
      in if run_line state \<noteq> [] \<and> map_of (c_busyLines c) (run_line state) = Some i
         then c\<lparr>c_busyLines := AList.delete (run_line state) (c_busyLines c)\<rparr> else c)"

definition onFinish :: "Limits \<Rightarrow> Env \<Rightarrow> completion \<Rightarrow> Coord \<Rightarrow> Coord" where
  "onFinish lim env done c =
     (let i = cp_id done in
      if i \<notin> set (c_index c) then c
      else case map_of (c_running c) i of
        None \<Rightarrow> c
      | Some state \<Rightarrow>
          let c = modify i (\<lambda>a. a\<lparr>a_Timings := cp_timings done,
                      a_WorkerMilliseconds := cp_workerMilliseconds done\<rparr>) c;
              c = release i state c;
              now = e_now env;
              (c, out) =
                (if run_overdue state \<and> \<not> Terminal (a_State (c_acts c i)) then
                   (modify i (\<lambda>a. (fst (transition StateFailed now a))
                      \<lparr>a_Message := MsgBudgetExceeded, a_Code := Some CodeDeadlineExceeded\<rparr>) c,
                    cp_outcome done)
                 else if Terminal (a_State (c_acts c i)) then (c, cp_outcome done)
                 else
                   let out = check_outcome env (c_acts c i) (cp_outcome done)
                   in (modify i (apply_outcome now out) c, out));
              c = (case o_Observation out of
                     Some ob \<Rightarrow> c\<lparr>c_events := c_events c @ [Record ob]\<rparr>
                   | None \<Rightarrow> c)
          in publish i (retire lim i c))"

definition onPhase :: "phaseReport \<Rightarrow> Coord \<Rightarrow> Coord" where
  "onPhase report c =
     (let i = ph_id report in
      if \<not> knownPhase (ph_phase report) then c
      else if i \<notin> set (c_index c) \<or> Terminal (a_State (c_acts c i)) then c
      else if i \<notin> set (mkeys (c_running c)) then c
      else publish i (modify i (\<lambda>a. a\<lparr>a_Phase := ph_phase report\<rparr>) c))"

subsection \<open>Dispatch\<close>

definition refreshRunning :: "Coord \<Rightarrow> bool" where
  "refreshRunning c \<longleftrightarrow> (\<exists>i \<in> set (mkeys (c_running c)). kindOf c i = KindPresetsRefresh)"

definition skipped :: "Coord \<Rightarrow> string \<Rightarrow> bool" where
  "skipped c i \<longleftrightarrow>
     (kindOf c i = KindPresetsRefresh \<and> refreshRunning c) \<or>
     (a_Line (c_acts c i) \<noteq> [] \<and> \<not> switches (kindOf c i) \<and>
      a_Line (c_acts c i) \<in> set (mkeys (c_busyLines c)))"

fun pickFirst :: "Coord \<Rightarrow> nat \<Rightarrow> string list \<Rightarrow> nat option \<Rightarrow> nat option" where
  "pickFirst c index [] chosen = chosen"
| "pickFirst c index (i # rest) chosen =
     pickFirst c (Suc index) rest
       (if skipped c i then chosen
        else case chosen of
          None \<Rightarrow> Some index
        | Some j \<Rightarrow> if runsFirst (c_acts c i) (c_acts c (c_queue c ! j)) then Some index else chosen)"

definition takeRunnable :: "Coord \<Rightarrow> (string \<times> Coord) option" where
  "takeRunnable c =
     (if \<exists>i \<in> set (mkeys (c_running c)). switches (kindOf c i) then None
      else case pickFirst c 0 (c_queue c) None of
        None \<Rightarrow> None
      | Some chosen \<Rightarrow>
          let i = c_queue c ! chosen
          in if switches (kindOf c i) \<and> length (c_running c) \<noteq> 0 then None
             else Some (i, c\<lparr>c_queue := take chosen (c_queue c) @ drop (Suc chosen) (c_queue c)\<rparr>))"

definition startAction :: "Env \<Rightarrow> string \<Rightarrow> Coord \<Rightarrow> Coord" where
  "startAction env i c =
     (let c = c\<lparr>c_nextSeq := c_nextSeq c + 1\<rparr>;
          c = modify i (\<lambda>a. (fst (transition StateRunning (e_now env)
                   (a\<lparr>a_Sequence := c_nextSeq c\<rparr>)))\<lparr>a_Phase := PhaseWaitingLink\<rparr>) c;
          line = a_Line (c_acts c i);
          c = c\<lparr>c_running := AList.update i \<lparr>run_cancelled = False, run_line = line, run_overdue = False\<rparr>
                  (c_running c)\<rparr>;
          c = (if line \<noteq> [] then c\<lparr>c_busyLines := AList.update line i (c_busyLines c)\<rparr> else c)
      in publish i c)"

definition fail_check :: "Limits \<Rightarrow> Env \<Rightarrow> gerror \<Rightarrow> string \<Rightarrow> Coord \<Rightarrow> Coord" where
  "fail_check lim env e i c =
     publish i (retire lim i (modify i (\<lambda>a. (fst (transition StateFailed (e_now env) a))
       \<lparr>a_Code := Some (e_code e), a_Message := MsgOfError e\<rparr>) c))"

definition launch :: "Limits \<Rightarrow> Env \<Rightarrow> string \<Rightarrow> Coord \<Rightarrow> Coord" where
  "launch lim env i c =
     (case e_check env (a_Request (c_acts c i)) of
        Some e \<Rightarrow> fail_check lim env e i c
      | None \<Rightarrow> startAction env i c)"


text \<open>Fields the helper steps leave alone; \<open>dispatch\<close> terminates because the queue shrinks.\<close>

lemma modify_simps [simp]:
  "c_queue (modify i f c) = c_queue c" "c_index (modify i f c) = c_index c"
  "c_byKey (modify i f c) = c_byKey c" "c_running (modify i f c) = c_running c"
  "c_busyLines (modify i f c) = c_busyLines c" "c_terminals (modify i f c) = c_terminals c"
  "c_nextID (modify i f c) = c_nextID c" "c_nextSeq (modify i f c) = c_nextSeq c"
  "c_events (modify i f c) = c_events c" "c_acts (modify i f c) = (c_acts c)(i := f (c_acts c i))"
  by (simp_all add: modify_def)

lemma publish_simps [simp]:
  "c_queue (publish i c) = c_queue c" "c_index (publish i c) = c_index c"
  "c_byKey (publish i c) = c_byKey c" "c_running (publish i c) = c_running c"
  "c_busyLines (publish i c) = c_busyLines c" "c_terminals (publish i c) = c_terminals c"
  "c_nextID (publish i c) = c_nextID c" "c_nextSeq (publish i c) = c_nextSeq c"
  "c_acts (publish i c) = c_acts c"
  by (simp_all add: publish_def)

lemma evict_one_simps [simp]:
  "c_queue (evict_one c) = c_queue c" "c_running (evict_one c) = c_running c"
  "c_busyLines (evict_one c) = c_busyLines c" "c_nextID (evict_one c) = c_nextID c"
  "c_nextSeq (evict_one c) = c_nextSeq c" "c_events (evict_one c) = c_events c"
  "c_acts (evict_one c) = c_acts c"
  by (auto simp: evict_one_def Let_def split: list.splits)

lemma evict_simps [simp]:
  "c_queue (evict lim c) = c_queue c" "c_running (evict lim c) = c_running c"
  "c_busyLines (evict lim c) = c_busyLines c" "c_nextID (evict lim c) = c_nextID c"
  "c_nextSeq (evict lim c) = c_nextSeq c" "c_events (evict lim c) = c_events c"
  "c_acts (evict lim c) = c_acts c"
  by (induction lim c rule: evict.induct; subst evict.simps; simp)+

lemma retire_simps [simp]:
  "c_queue (retire lim i c) = c_queue c" "c_running (retire lim i c) = c_running c"
  "c_busyLines (retire lim i c) = c_busyLines c" "c_nextID (retire lim i c) = c_nextID c"
  "c_nextSeq (retire lim i c) = c_nextSeq c" "c_events (retire lim i c) = c_events c"
  by (simp_all add: retire_def Let_def)

lemma startAction_queue [simp]: "c_queue (startAction env i c) = c_queue c"
  by (simp add: startAction_def Let_def)

lemma fail_check_queue [simp]: "c_queue (fail_check lim env e i c) = c_queue c"
  by (simp add: fail_check_def)

lemma launch_queue [simp]: "c_queue (launch lim env i c) = c_queue c"
  by (simp add: launch_def split: option.splits)

lemma pickFirst_in_range:
  assumes "pickFirst c n ids ch = Some k" and "\<And>j. ch = Some j \<Longrightarrow> j < m" and "n + length ids \<le> m"
  shows "k < m"
  using assms
proof (induction ids arbitrary: n ch)
  case Nil
  then show ?case by auto
next
  case (Cons i ids)
  let ?ch = "if skipped c i then ch else case ch of None \<Rightarrow> Some n
     | Some j \<Rightarrow> if runsFirst (c_acts c i) (c_acts c (c_queue c ! j)) then Some n else ch"
  have "j < m" if "?ch = Some j" for j
    using that Cons.prems(2,3) by (auto split: if_splits option.splits)
  then show ?case using Cons.prems by (intro Cons.IH [of "Suc n" ?ch]) auto
qed

lemma takeRunnable_shrinks:
  assumes "takeRunnable c = Some (i, c')"
  shows "length (c_queue c') < length (c_queue c)"
proof -
  obtain k where k: "pickFirst c 0 (c_queue c) None = Some k"
    and c': "c' = c\<lparr>c_queue := take k (c_queue c) @ drop (Suc k) (c_queue c)\<rparr>"
    using assms by (auto simp: takeRunnable_def Let_def split: if_splits option.splits)
  have "k < length (c_queue c)" using pickFirst_in_range [OF k, of "length (c_queue c)"] by simp
  with c' show ?thesis by simp
qed

function dispatch :: "Limits \<Rightarrow> Env \<Rightarrow> Coord \<Rightarrow> Coord" where
  "dispatch lim env c =
     (if length (c_running c) < l_parallel lim then
        (case takeRunnable c of
           None \<Rightarrow> c
         | Some (i, c') \<Rightarrow> dispatch lim env (launch lim env i c'))
      else c)"
  by pat_completeness auto
termination
  by (relation "measure (\<lambda>(lim, env, c). length (c_queue c))") (auto dest: takeRunnable_shrinks)

declare dispatch.simps [simp del]

subsection \<open>Deadlines\<close>

definition expire_queued :: "Limits \<Rightarrow> instant \<Rightarrow> string \<Rightarrow> Coord \<Rightarrow> Coord" where
  "expire_queued lim now i c =
     publish i (retire lim i (modify i (\<lambda>a. (fst (transition StateFailed now a))
       \<lparr>a_Message := MsgQueueTimeout, a_Code := Some CodeDeadlineExceeded\<rparr>) c))"

fun expire_queue :: "Limits \<Rightarrow> instant \<Rightarrow> string list \<Rightarrow> string list \<Rightarrow> Coord \<Rightarrow> Coord" where
  "expire_queue lim now kept [] c = c\<lparr>c_queue := kept\<rparr>"
| "expire_queue lim now kept (i # rest) c =
     (if now - a_QueuedAt (c_acts c i) < l_queueWait lim
      then expire_queue lim now (kept @ [i]) rest c
      else expire_queue lim now kept rest (expire_queued lim now i c))"

definition overrun :: "Limits \<Rightarrow> instant \<Rightarrow> Coord \<Rightarrow> string \<Rightarrow> bool" where
  "overrun lim now c i \<longleftrightarrow>
     i \<in> set (c_index c) \<and> \<not> now - a_StartedAt (c_acts c i) < l_actionBudget lim"

definition expire_running :: "Limits \<Rightarrow> instant \<Rightarrow> Coord \<Rightarrow> Coord" where
  "expire_running lim now c =
     c\<lparr>c_running := map (\<lambda>(i, r).
         (i, if run_overdue r \<or> \<not> overrun lim now c i then r
             else r\<lparr>run_overdue := True, run_cancelled := True\<rparr>)) (c_running c)\<rparr>"

definition expire :: "Limits \<Rightarrow> instant \<Rightarrow> Coord \<Rightarrow> Coord" where
  "expire lim now c = expire_running lim now (expire_queue lim now [] (c_queue c) c)"

definition considerDeadline :: "instant \<Rightarrow> instant \<Rightarrow> instant" where
  "considerDeadline at soonest = (if soonest = 0 \<or> at < soonest then at else soonest)"

definition nextDeadline :: "Limits \<Rightarrow> Coord \<Rightarrow> instant option" where
  "nextDeadline lim c =
     (let queued = map (\<lambda>i. a_QueuedAt (c_acts c i) + l_queueWait lim) (c_queue c);
          started = map (\<lambda>(i, r). a_StartedAt (c_acts c i) + l_actionBudget lim)
                      (filter (\<lambda>(i, r). \<not> run_overdue r \<and> i \<in> set (c_index c)) (c_running c));
          soonest = fold considerDeadline (queued @ started) 0
      in if soonest = 0 then None else Some soonest)"

subsection \<open>Reading and stopping\<close>

fun insert_by :: "('a \<Rightarrow> 'a \<Rightarrow> bool) \<Rightarrow> 'a \<Rightarrow> 'a list \<Rightarrow> 'a list" where
  "insert_by lt x [] = [x]"
| "insert_by lt x (y # ys) = (if lt y x then y # insert_by lt x ys else x # y # ys)"

definition sort_by :: "('a \<Rightarrow> 'a \<Rightarrow> bool) \<Rightarrow> 'a list \<Rightarrow> 'a list" where
  "sort_by lt xs = foldr (insert_by lt) xs []"

definition onList :: "Coord \<Rightarrow> Action list" where
  "onList c =
     map publicCopy (sort_by runsFirst (map (c_acts c) (c_queue c))) @
     map publicCopy (sort_by (\<lambda>a b. a_Sequence a < a_Sequence b)
       (map (c_acts c) (filter (\<lambda>i. i \<in> set (c_index c)) (mkeys (c_running c))))) @
     map (\<lambda>i. publicCopy (c_acts c i)) (filter (\<lambda>i. i \<in> set (c_index c)) (c_terminals c))"

definition getAction :: "string \<Rightarrow> Coord \<Rightarrow> gerror + Action" where
  "getAction i c =
     (if i \<in> set (c_index c) then Inr (publicCopy (c_acts c i)) else Inl (Errorf CodeNotFound))"

definition ChangeConfiguration :: "bool \<Rightarrow> (unit \<Rightarrow> gerror option) \<Rightarrow> Coord \<Rightarrow> gerror option" where
  "ChangeConfiguration cancelled apply_change c =
     (if cancelled then Some (Errorf CodeCancelled)
      else if length (c_queue c) \<noteq> 0 \<or> length (c_running c) \<noteq> 0 then Some (Errorf CodeBusy)
      else apply_change ())"

definition stop_queued :: "Limits \<Rightarrow> instant \<Rightarrow> string \<Rightarrow> Coord \<Rightarrow> Coord" where
  "stop_queued lim now i c =
     publish i (retire lim i (modify i (\<lambda>a. (fst (transition StateInterrupted now a))
       \<lparr>a_Message := MsgStopNotStarted\<rparr>) c))"

definition stop_running :: "instant \<Rightarrow> string \<Rightarrow> Coord \<Rightarrow> Coord" where
  "stop_running now i c =
     (let c = set_run i (\<lambda>r. r\<lparr>run_cancelled := True\<rparr>) c in
      if i \<in> set (c_index c) \<and> snd (transition StateInterrupted now (c_acts c i))
      then publish i (modify i (\<lambda>a. (fst (transition StateInterrupted now a))
             \<lparr>a_Message := MsgStopInterrupted\<rparr>) c)
      else c)"

definition shutdown :: "Limits \<Rightarrow> Env \<Rightarrow> completion option \<Rightarrow> Coord \<Rightarrow> Coord" where
  "shutdown lim env pending c =
     (let now = e_now env;
          c = fold (stop_queued lim now) (c_queue c) c;
          c = c\<lparr>c_queue := []\<rparr>;
          c = fold (stop_running now) (mkeys (c_running c)) c
      in case pending of Some done \<Rightarrow> onFinish lim env done c | None \<Rightarrow> c)"

subsection \<open>The loop\<close>

text \<open>
  One turn of \<open>Run\<close>: expire, dispatch, then whatever the \<open>select\<close> delivers. After the context is
  cancelled the loop has run \<open>shutdown\<close> and only drains the completions of the remaining workers.
\<close>

datatype Input =
    CallSubmit Request
  | CallCancel string
  | CallRead
  | Finish completion
  | PhaseProgress phaseReport
  | Wake

datatype Mode = Serving | Stopping

fun handle :: "Limits \<Rightarrow> Env \<Rightarrow> Input \<Rightarrow> Coord \<Rightarrow> Coord" where
  "handle lim env (CallSubmit r) c = fst (Submit lim env r c)"
| "handle lim env (CallCancel i) c = fst (onCancel lim env i c)"
| "handle lim env CallRead c = c"
| "handle lim env (Finish done) c = onFinish lim env done c"
| "handle lim env (PhaseProgress report) c = onPhase report c"
| "handle lim env Wake c = c"

definition turn :: "Limits \<Rightarrow> Env \<Rightarrow> Input \<Rightarrow> Coord \<Rightarrow> Coord" where
  "turn lim env inp c = handle lim env inp (dispatch lim env (expire lim (e_now env) c))"

text \<open>Go iterates a map in any order: two states that differ only in those orders are the same.\<close>

definition reordered :: "Coord \<Rightarrow> Coord \<Rightarrow> bool" where
  "reordered c d \<longleftrightarrow> (\<exists>idx rs. mset idx = mset (c_index c) \<and> mset rs = mset (c_running c) \<and>
     d = c\<lparr>c_index := idx, c_running := rs\<rparr>)"

text \<open>
  The contract of the \<open>Finalize\<close> callback: it turns a success into a success or a failure. A callback
  that answered with any other state would leave the action outside every container, so the loop is
  modelled under this contract.
\<close>

definition finalize_ok :: "Env \<Rightarrow> bool" where
  "finalize_ok env \<longleftrightarrow> (\<forall>a out. o_State (e_finalize env a out) = StateSucceeded \<or>
     o_State (e_finalize env a out) = StateFailed)"

inductive run_step :: "Limits \<Rightarrow> Mode \<times> Coord \<Rightarrow> Mode \<times> Coord \<Rightarrow> bool" for lim where
  serve: "finalize_ok env \<Longrightarrow> run_step lim (Serving, c) (Serving, turn lim env inp c)"
| stop: "finalize_ok env \<Longrightarrow> run_step lim (Serving, c)
     (Stopping, shutdown lim env pending (dispatch lim env (expire lim (e_now env) c)))"
| drain: "finalize_ok env \<Longrightarrow> run_step lim (Stopping, c) (Stopping, onFinish lim env done c)"
| map_order: "reordered c d \<Longrightarrow> run_step lim (m, c) (m, d)"

inductive_cases run_stepE: "run_step lim (m, c) (n, d)"

end
