(* ===== verification/Coordinator_Inv.thy ===== *)
theory Coordinator_Inv
  imports Coordinator
begin

text \<open>
  The coordinator's invariant. \<open>coord_wf lim L c\<close> says how the queue, the index, the running map, the
  line locks, the idempotency keys and the history agree; \<open>L\<close> names the actions a handler is
  holding between two containers (taken off the queue and not yet filed), so that the invariant can
  be stated between the steps of one handler. Between turns \<open>L\<close> is empty.
\<close>

definition actionID :: "Limits \<Rightarrow> nat \<Rightarrow> string" where
  "actionID lim n = l_instanceID lim @ ''-'' @ formatID n"

abbreviation keyOf :: "Coord \<Rightarrow> string \<Rightarrow> string" where
  "keyOf c i \<equiv> r_IdempotencyKey (a_Request (c_acts c i))"

abbreviation runningIDs :: "Coord \<Rightarrow> string list" where
  "runningIDs c \<equiv> mkeys (c_running c)"

definition wf_places :: "string set \<Rightarrow> Coord \<Rightarrow> bool" where
  "wf_places L c \<longleftrightarrow> distinct (c_queue c) \<and> distinct (c_index c) \<and> distinct (runningIDs c) \<and>
     distinct (c_terminals c) \<and>
     set (c_index c) = set (c_queue c) \<union> set (runningIDs c) \<union> set (c_terminals c) \<union> L \<and>
     set (c_queue c) \<inter> set (runningIDs c) = {} \<and> set (c_queue c) \<inter> set (c_terminals c) = {} \<and>
     set (runningIDs c) \<inter> set (c_terminals c) = {} \<and>
     L \<inter> (set (c_queue c) \<union> set (runningIDs c) \<union> set (c_terminals c)) = {}"

definition wf_ids :: "Limits \<Rightarrow> Coord \<Rightarrow> bool" where
  "wf_ids lim c \<longleftrightarrow> (\<forall>i \<in> set (c_index c). a_ID (c_acts c i) = i \<and>
     i = actionID lim (a_ordinal (c_acts c i)) \<and> a_ordinal (c_acts c i) \<le> c_nextID c \<and>
     a_Sequence (c_acts c i) \<le> c_nextSeq c)"

definition wf_states :: "string set \<Rightarrow> Coord \<Rightarrow> bool" where
  "wf_states L c \<longleftrightarrow>
     (\<forall>i \<in> set (c_queue c). a_State (c_acts c i) = StateQueued \<and> \<not> a_retired (c_acts c i)) \<and>
     (\<forall>i \<in> set (runningIDs c). a_State (c_acts c i) \<noteq> StateQueued \<and> \<not> a_retired (c_acts c i)) \<and>
     (\<forall>i \<in> L. \<not> a_retired (c_acts c i)) \<and>
     (\<forall>i \<in> set (c_terminals c). Terminal (a_State (c_acts c i)) \<and> a_retired (c_acts c i) \<and>
        r_PrivateJSON (a_Request (c_acts c i)) = [])"

definition wf_lines :: "Coord \<Rightarrow> bool" where
  "wf_lines c \<longleftrightarrow>
     (\<forall>i r. map_of (c_running c) i = Some r \<longrightarrow> run_line r = a_Line (c_acts c i)) \<and>
     (\<forall>i \<in> set (runningIDs c). a_Line (c_acts c i) \<noteq> [] \<longrightarrow>
        map_of (c_busyLines c) (a_Line (c_acts c i)) = Some i) \<and>
     (\<forall>l i. map_of (c_busyLines c) l = Some i \<longrightarrow>
        l \<noteq> [] \<and> i \<in> set (runningIDs c) \<and> a_Line (c_acts c i) = l)"

definition wf_exclusive :: "Coord \<Rightarrow> bool" where
  "wf_exclusive c \<longleftrightarrow>
     (\<forall>i \<in> set (runningIDs c). switches (kindOf c i) \<longrightarrow> set (runningIDs c) = {i}) \<and>
     (\<forall>i \<in> set (runningIDs c). \<forall>j \<in> set (runningIDs c).
        kindOf c i = KindPresetsRefresh \<longrightarrow> kindOf c j = KindPresetsRefresh \<longrightarrow> i = j)"

definition wf_keys :: "Coord \<Rightarrow> bool" where
  "wf_keys c \<longleftrightarrow> (\<forall>k i. map_of (c_byKey c) k = Some i \<longleftrightarrow> i \<in> set (c_index c) \<and> keyOf c i = k)"

definition wf_events :: "Coord \<Rightarrow> bool" where
  "wf_events c \<longleftrightarrow> (\<forall>a. Publish a \<in> set (c_events c) \<longrightarrow> r_PrivateJSON (a_Request a) = [])"

definition coord_wf :: "Limits \<Rightarrow> string set \<Rightarrow> Coord \<Rightarrow> bool" where
  "coord_wf lim L c \<longleftrightarrow> wf_places L c \<and> wf_ids lim c \<and> wf_states L c \<and> wf_lines c \<and> wf_exclusive c \<and>
     wf_keys c \<and> wf_events c"

definition bounded :: "Limits \<Rightarrow> Coord \<Rightarrow> bool" where
  "bounded lim c \<longleftrightarrow> length (c_queue c) \<le> l_queueLimit lim \<and> length (c_running c) \<le> l_parallel lim \<and>
     length (c_terminals c) \<le> l_history lim"

lemmas wf_defs = coord_wf_def wf_places_def wf_ids_def wf_states_def wf_lines_def wf_exclusive_def
  wf_keys_def wf_events_def

lemma wf_parts:
  assumes "coord_wf lim L c"
  shows "wf_places L c" "wf_ids lim c" "wf_states L c" "wf_lines c" "wf_exclusive c" "wf_keys c"
    "wf_events c"
  using assms by (simp_all add: coord_wf_def)

subsection \<open>Writing through a pointer\<close>

text \<open>
  \<open>same_core a b\<close>: the fields that name, place and order an action are those of \<open>a\<close>.
\<close>

definition same_core :: "Action \<Rightarrow> Action \<Rightarrow> bool" where
  "same_core a b \<longleftrightarrow> a_ID b = a_ID a \<and> a_ordinal b = a_ordinal a \<and> a_Line b = a_Line a \<and>
     r_Kind (a_Request b) = r_Kind (a_Request a) \<and>
     r_IdempotencyKey (a_Request b) = r_IdempotencyKey (a_Request a)"

definition legal_write :: "string set \<Rightarrow> string \<Rightarrow> Action \<Rightarrow> Coord \<Rightarrow> bool" where
  "legal_write L i b c \<longleftrightarrow>
     (i \<in> set (c_queue c) \<longrightarrow> a_State b = StateQueued \<and> \<not> a_retired b) \<and>
     (i \<in> set (runningIDs c) \<longrightarrow> a_State b \<noteq> StateQueued \<and> \<not> a_retired b) \<and>
     (i \<in> L \<longrightarrow> \<not> a_retired b) \<and>
     (i \<in> set (c_terminals c) \<longrightarrow>
        Terminal (a_State b) \<and> a_retired b \<and> r_PrivateJSON (a_Request b) = [])"

lemma wf_modify:
  assumes wf: "coord_wf lim L c"
    and core: "same_core (c_acts c i) (f (c_acts c i))"
    and sq: "a_Sequence (f (c_acts c i)) \<le> c_nextSeq c"
    and legal: "legal_write L i (f (c_acts c i)) c"
  shows "coord_wf lim L (modify i f c)"
proof -
  note parts = wf_parts [OF wf]
  have "wf_places L (modify i f c)" using parts(1) by (simp add: wf_places_def)
  moreover have "wf_ids lim (modify i f c)"
    using parts(2) core sq by (auto simp: wf_ids_def same_core_def)
  moreover have "wf_states L (modify i f c)"
    using parts(3) legal by (auto simp: wf_states_def legal_write_def)
  moreover have "wf_lines (modify i f c)"
    using parts(4) core by (auto simp: wf_lines_def same_core_def)
  moreover have "wf_exclusive (modify i f c)"
    using parts(5) core by (auto simp: wf_exclusive_def same_core_def)
  moreover have "wf_keys (modify i f c)"
    using parts(6) core by (auto simp: wf_keys_def same_core_def)
  moreover have "wf_events (modify i f c)" using parts(7) by (simp add: wf_events_def)
  ultimately show ?thesis by (simp add: coord_wf_def)
qed

lemma wf_events_update:
  "coord_wf lim L (c\<lparr>c_events := es\<rparr>) \<longleftrightarrow> coord_wf lim L c \<and> wf_events (c\<lparr>c_events := es\<rparr>)" if "wf_events c"
proof -
  have "wf_places L (c\<lparr>c_events := es\<rparr>) = wf_places L c" by (simp add: wf_places_def)
  moreover have "wf_ids lim (c\<lparr>c_events := es\<rparr>) = wf_ids lim c" by (simp add: wf_ids_def)
  moreover have "wf_states L (c\<lparr>c_events := es\<rparr>) = wf_states L c" by (simp add: wf_states_def)
  moreover have "wf_lines (c\<lparr>c_events := es\<rparr>) = wf_lines c" by (simp add: wf_lines_def)
  moreover have "wf_exclusive (c\<lparr>c_events := es\<rparr>) = wf_exclusive c" by (simp add: wf_exclusive_def)
  moreover have "wf_keys (c\<lparr>c_events := es\<rparr>) = wf_keys c" by (simp add: wf_keys_def)
  ultimately show ?thesis using that by (auto simp: coord_wf_def)
qed

lemma wf_publish [simp]: "coord_wf lim L c \<Longrightarrow> coord_wf lim L (publish i c)"
  unfolding publish_def by (subst wf_events_update) (auto simp: wf_events_def publicCopy_def dest: wf_parts(7))

lemma wf_record [simp]: "coord_wf lim L c \<Longrightarrow> coord_wf lim L (c\<lparr>c_events := c_events c @ [Record ob]\<rparr>)"
  by (subst wf_events_update) (auto simp: wf_events_def dest: wf_parts(7))

lemma transition_core:
  "same_core a (fst (transition s t a))" "a_retired (fst (transition s t a)) = a_retired a"
  "a_Sequence (fst (transition s t a)) = a_Sequence a"
  "a_Request (fst (transition s t a)) = a_Request a"
  "a_QueuedAt (fst (transition s t a)) = a_QueuedAt a"
  by (simp_all add: transition_def same_core_def Let_def)

lemma transition_state:
  "a_State (fst (transition s t a)) = (if Terminal (a_State a) then a_State a else s)"
  by (simp add: transition_def Let_def)

subsection \<open>Retiring\<close>

lemma wf_evict_one:
  assumes wf: "coord_wf lim L c" and ne: "c_terminals c \<noteq> []"
  shows "coord_wf lim L (evict_one c)"
proof -
  obtain old rest where t: "c_terminals c = old # rest" using ne by (cases "c_terminals c") auto
  note parts = wf_parts [OF wf]
  from parts(1) t have mem: "old \<in> set (c_index c)" by (auto simp: wf_places_def)
  let ?k = "keyOf c old"
  from parts(6) mem have key: "map_of (c_byKey c) ?k = Some old" by (auto simp: wf_keys_def)
  have ev: "evict_one c = c\<lparr>c_terminals := rest, c_byKey := AList.delete ?k (c_byKey c),
      c_index := removeAll old (c_index c)\<rparr>"
    using t mem key by (simp add: evict_one_def Let_def)
  have "wf_places L (evict_one c)"
    using parts(1) t by (auto simp: wf_places_def ev distinct_removeAll)
  moreover have "wf_keys (evict_one c)"
  proof -
    have "keyOf c i = ?k \<longleftrightarrow> i = old" if "i \<in> set (c_index c)" for i
      using parts(6) mem that key by (metis option.inject wf_keys_def)
    with parts(6) mem show ?thesis by (auto simp: wf_keys_def ev delete_conv')
  qed
  moreover have "wf_ids lim (evict_one c)" using parts(2) by (auto simp: wf_ids_def ev)
  moreover have "wf_states L (evict_one c)" using parts(3) t by (auto simp: wf_states_def ev)
  moreover have "wf_lines (evict_one c)" using parts(4) by (simp add: wf_lines_def)
  moreover have "wf_exclusive (evict_one c)" using parts(5) by (simp add: wf_exclusive_def)
  moreover have "wf_events (evict_one c)" using parts(7) by (simp add: wf_events_def)
  ultimately show ?thesis by (simp add: coord_wf_def)
qed

lemma wf_evict: "coord_wf lim L c \<Longrightarrow> coord_wf lim L (evict lim c)"
proof (induction lim c rule: evict.induct)
  case (1 lim c)
  show ?case
  proof (cases "length (c_terminals c) > l_history lim")
    case True
    then have "c_terminals c \<noteq> []" by auto
    with 1 True show ?thesis by (simp add: evict.simps [of lim c] wf_evict_one)
  next
    case False
    with 1 show ?thesis by (simp add: evict.simps [of lim c])
  qed
qed

lemma length_terminals_evict: "length (c_terminals (evict lim c)) \<le> l_history lim"
proof (induction lim c rule: evict.induct)
  case (1 lim c)
  then show ?case by (subst evict.simps) simp
qed

lemma wf_retire:
  assumes wf: "coord_wf lim (insert i L) c" and "i \<notin> L" and fin: "Terminal (a_State (c_acts c i))"
  shows "coord_wf lim L (retire lim i c)"
proof -
  let ?f = "\<lambda>a. a\<lparr>a_retired := True, a_Request := (a_Request a)\<lparr>r_PrivateJSON := []\<rparr>\<rparr>"
  let ?d = "(modify i ?f c)\<lparr>c_terminals := c_terminals c @ [i]\<rparr>"
  note parts = wf_parts [OF wf]
  have nr: "\<not> a_retired (c_acts c i)" using parts(3) by (simp add: wf_states_def)
  have out: "i \<notin> set (c_queue c)" "i \<notin> set (runningIDs c)" "i \<notin> set (c_terminals c)"
    using parts(1) by (auto simp: wf_places_def)
  have "wf_places L ?d" using parts(1) \<open>i \<notin> L\<close> by (auto simp: wf_places_def)
  moreover have "wf_ids lim ?d" using parts(2) by (auto simp: wf_ids_def)
  moreover have "wf_states L ?d"
    using parts(3) out fin \<open>i \<notin> L\<close> by (auto simp: wf_states_def)
  moreover have "wf_lines ?d" using parts(4) by (auto simp: wf_lines_def)
  moreover have "wf_exclusive ?d" using parts(5) by (auto simp: wf_exclusive_def)
  moreover have "wf_keys ?d" using parts(6) by (auto simp: wf_keys_def)
  moreover have "wf_events ?d" using parts(7) by (simp add: wf_events_def)
  ultimately have "coord_wf lim L ?d" by (simp add: coord_wf_def)
  then have "coord_wf lim L (evict lim ?d)" by (rule wf_evict)
  with nr fin show ?thesis by (simp add: retire_def Let_def)
qed

lemma bounded_retire:
  "length (c_terminals c) \<le> l_history lim \<Longrightarrow> length (c_terminals (retire lim i c)) \<le> l_history lim"
  by (simp add: retire_def Let_def length_terminals_evict)

text \<open>
  The common tail of every path that ends an action: write its last state, file it, publish it.
\<close>

definition settle :: "Limits \<Rightarrow> string \<Rightarrow> (Action \<Rightarrow> Action) \<Rightarrow> Coord \<Rightarrow> Coord" where
  "settle lim i f c = publish i (retire lim i (modify i f c))"

lemma settle_simps [simp]:
  "c_queue (settle lim i f c) = c_queue c" "c_running (settle lim i f c) = c_running c"
  "c_busyLines (settle lim i f c) = c_busyLines c" "c_nextID (settle lim i f c) = c_nextID c"
  "c_nextSeq (settle lim i f c) = c_nextSeq c"
  by (simp_all add: settle_def)

lemma wf_settle:
  assumes wf: "coord_wf lim (insert i L) c" and "i \<notin> L"
    and core: "same_core (c_acts c i) (f (c_acts c i))"
    and sq: "a_Sequence (f (c_acts c i)) = a_Sequence (c_acts c i)"
    and rt: "a_retired (f (c_acts c i)) = a_retired (c_acts c i)"
    and fin: "Terminal (a_State (f (c_acts c i)))"
  shows "coord_wf lim L (settle lim i f c)"
proof -
  note parts = wf_parts [OF wf]
  have out: "i \<notin> set (c_queue c)" "i \<notin> set (runningIDs c)" "i \<notin> set (c_terminals c)"
    and mem: "i \<in> set (c_index c)"
    using parts(1) by (auto simp: wf_places_def)
  have nr: "\<not> a_retired (c_acts c i)" using parts(3) by (simp add: wf_states_def)
  have "a_Sequence (c_acts c i) \<le> c_nextSeq c" using parts(2) mem by (auto simp: wf_ids_def)
  then have "coord_wf lim (insert i L) (modify i f c)"
    using wf core sq rt nr out by (intro wf_modify) (auto simp: legal_write_def)
  then have "coord_wf lim L (retire lim i (modify i f c))"
    using \<open>i \<notin> L\<close> fin by (intro wf_retire) simp_all
  then show ?thesis by (simp add: settle_def)
qed

lemma bounded_settle:
  "length (c_terminals c) \<le> l_history lim \<Longrightarrow>
     length (c_terminals (settle lim i f c)) \<le> l_history lim"
  by (simp add: settle_def bounded_retire)


subsection \<open>Moving actions between the containers\<close>

lemma take_drop_remove1:
  "distinct xs \<Longrightarrow> k < length xs \<Longrightarrow> take k xs @ drop (Suc k) xs = remove1 (xs ! k) xs"
proof (induction xs arbitrary: k)
  case Nil
  then show ?case by simp
next
  case (Cons x xs)
  then show ?case by (cases k) auto
qed

lemma wf_dequeue:
  assumes wf: "coord_wf lim L c" and mem: "i \<in> set (c_queue c)"
  shows "coord_wf lim (insert i L) (c\<lparr>c_queue := remove1 i (c_queue c)\<rparr>)"
    and "i \<notin> L"
proof -
  let ?d = "c\<lparr>c_queue := remove1 i (c_queue c)\<rparr>"
  note parts = wf_parts [OF wf]
  have "distinct (c_queue c)" using parts(1) by (simp add: wf_places_def)
  then have "wf_places (insert i L) ?d"
    using parts(1) mem by (auto simp: wf_places_def)
  moreover have "wf_states (insert i L) ?d"
    using parts(3) mem by (auto simp: wf_states_def dest: notin_set_remove1)
  moreover have "wf_ids lim ?d" "wf_lines ?d" "wf_exclusive ?d" "wf_keys ?d" "wf_events ?d"
    using parts by (auto simp: wf_ids_def wf_lines_def wf_exclusive_def wf_keys_def wf_events_def)
  ultimately show "coord_wf lim (insert i L) ?d" by (simp add: coord_wf_def)
  show "i \<notin> L" using parts(1) mem by (auto simp: wf_places_def)
qed

lemma wf_release:
  assumes wf: "coord_wf lim L c" and run: "map_of (c_running c) i = Some r"
  shows "coord_wf lim (insert i L) (release i r c)" and "i \<notin> L"
proof -
  note parts = wf_parts [OF wf]
  have mem: "i \<in> set (runningIDs c)" using run by (rule map_of_mem_mkeys)
  have line: "run_line r = a_Line (c_acts c i)" using parts(4) run by (auto simp: wf_lines_def)
  have busy: "a_Line (c_acts c i) \<noteq> [] \<longrightarrow> map_of (c_busyLines c) (a_Line (c_acts c i)) = Some i"
    using parts(4) mem by (auto simp: wf_lines_def)
  define b where "b = (if a_Line (c_acts c i) \<noteq> [] then AList.delete (a_Line (c_acts c i)) (c_busyLines c)
     else c_busyLines c)"
  have rel: "release i r c = c\<lparr>c_running := AList.delete i (c_running c), c_busyLines := b\<rparr>"
    using busy line by (auto simp: release_def Let_def b_def)
  have "wf_places (insert i L) (release i r c)"
    using parts(1) mem by (auto simp: wf_places_def rel distinct_removeAll)
  moreover have "wf_ids lim (release i r c)" "wf_keys (release i r c)" "wf_events (release i r c)"
    using parts by (auto simp: wf_ids_def wf_keys_def wf_events_def rel)
  moreover have "wf_states (insert i L) (release i r c)"
    using parts(3) mem by (auto simp: wf_states_def rel)
  moreover have "wf_exclusive (release i r c)"
    using parts(5) by (auto simp: wf_exclusive_def rel)
  moreover have "wf_lines (release i r c)"
  proof -
    have bm: "map_of b l = (if l = a_Line (c_acts c i) \<and> l \<noteq> [] then None else map_of (c_busyLines c) l)" for l
      by (auto simp: b_def delete_conv')
    have other: "a_Line (c_acts c j) \<noteq> a_Line (c_acts c i)"
      if "j \<in> set (runningIDs c)" "j \<noteq> i" "a_Line (c_acts c j) \<noteq> []" for j
    proof
      assume "a_Line (c_acts c j) = a_Line (c_acts c i)"
      moreover have "map_of (c_busyLines c) (a_Line (c_acts c j)) = Some j"
        using parts(4) that by (simp add: wf_lines_def)
      ultimately show False using busy that by simp
    qed
    show ?thesis
      unfolding wf_lines_def
    proof (intro conjI allI ballI impI)
      fix j q assume "map_of (c_running (release i r c)) j = Some q"
      then show "run_line q = a_Line (c_acts (release i r c) j)"
        using parts(4) by (simp add: wf_lines_def rel delete_conv' split: if_splits)
    next
      fix j assume "j \<in> set (runningIDs (release i r c))" "a_Line (c_acts (release i r c) j) \<noteq> []"
      then show "map_of (c_busyLines (release i r c)) (a_Line (c_acts (release i r c) j)) = Some j"
        using parts(4) other by (simp add: wf_lines_def rel bm)
    next
      fix l j assume "map_of (c_busyLines (release i r c)) l = Some j"
      then have "map_of (c_busyLines c) l = Some j" and "\<not> (l = a_Line (c_acts c i) \<and> l \<noteq> [])"
        by (simp_all add: rel bm split: if_splits)
      then show "l \<noteq> []" and "j \<in> set (runningIDs (release i r c))"
        and "a_Line (c_acts (release i r c) j) = l"
        using parts(4) by (auto simp: wf_lines_def rel)
    qed
  qed
  ultimately show "coord_wf lim (insert i L) (release i r c)" by (simp add: coord_wf_def)
  show "i \<notin> L" using parts(1) mem by (auto simp: wf_places_def)
qed

text \<open>What must hold of an action a worker is about to be given.\<close>

definition startable :: "Coord \<Rightarrow> string \<Rightarrow> bool" where
  "startable c i \<longleftrightarrow> (\<forall>j \<in> set (runningIDs c). \<not> switches (kindOf c j)) \<and>
     (switches (kindOf c i) \<longrightarrow> runningIDs c = []) \<and>
     (kindOf c i = KindPresetsRefresh \<longrightarrow> \<not> refreshRunning c) \<and>
     (a_Line (c_acts c i) \<noteq> [] \<longrightarrow> a_Line (c_acts c i) \<notin> set (mkeys (c_busyLines c)))"

lemma wf_startAction:
  assumes wf: "coord_wf lim (insert i L) c" and "i \<notin> L" and ok: "startable c i"
    and queued: "a_State (c_acts c i) = StateQueued"
  shows "coord_wf lim L (startAction env i c)"
proof -
  note parts = wf_parts [OF wf]
  define a where "a = (fst (transition StateRunning (e_now env)
     ((c_acts c i)\<lparr>a_Sequence := c_nextSeq c + 1\<rparr>)))\<lparr>a_Phase := PhaseWaitingLink\<rparr>"
  have a: "a_State a = StateRunning" "a_Sequence a = c_nextSeq c + 1"
     "a_retired a = a_retired (c_acts c i)" "same_core (c_acts c i) a"
    using queued by (auto simp: a_def transition_def Let_def same_core_def)
  let ?r = "\<lparr>run_cancelled = False, run_line = a_Line a, run_overdue = False\<rparr>"
  define b where "b = (if a_Line a \<noteq> [] then AList.update (a_Line a) i (c_busyLines c) else c_busyLines c)"
  define d where "d = c\<lparr>c_nextSeq := c_nextSeq c + 1, c_acts := (c_acts c)(i := a),
     c_running := AList.update i ?r (c_running c), c_busyLines := b\<rparr>"
  have st: "startAction env i c = publish i d"
    by (simp add: startAction_def Let_def modify_def a_def d_def b_def)
  have out: "i \<notin> set (runningIDs c)" "i \<notin> set (c_queue c)" "i \<notin> set (c_terminals c)"
    using parts(1) by (auto simp: wf_places_def)
  have run: "runningIDs d = runningIDs c @ [i]"
    using out by (simp add: d_def mkeys_update_fresh)
  have "wf_places L d"
    unfolding wf_places_def run using parts(1) \<open>i \<notin> L\<close> out by (auto simp: wf_places_def d_def)
  moreover have "wf_ids lim d"
    using parts(2) a by (auto simp: wf_ids_def d_def same_core_def)
  moreover have "wf_states L d"
    unfolding wf_states_def run using parts(3) a out \<open>i \<notin> L\<close>
    by (auto simp: wf_states_def d_def)
  moreover have "wf_exclusive d"
    unfolding wf_exclusive_def run using parts(5) ok a(4) out
    by (auto simp: wf_exclusive_def startable_def refreshRunning_def d_def same_core_def)
  moreover have "wf_lines d"
  proof -
    have ln: "a_Line a = a_Line (c_acts c i)" using a(4) by (simp add: same_core_def)
    have free: "a_Line a \<noteq> [] \<longrightarrow> map_of (c_busyLines c) (a_Line a) = None"
      using ok ln by (auto simp: startable_def set_mkeys)
    have acts: "a_Line (c_acts d j) = a_Line (c_acts c j)" for j using ln by (simp add: d_def)
    have old: "map_of (c_busyLines c) l = Some j \<Longrightarrow>
        l \<noteq> [] \<and> j \<in> set (runningIDs c) \<and> a_Line (c_acts c j) = l" for l j
      using parts(4) by (simp add: wf_lines_def)
    have bm: "map_of (c_busyLines d) l = (if l = a_Line a \<and> l \<noteq> [] then Some i
        else map_of (c_busyLines c) l)" for l
      by (auto simp: d_def b_def update_conv')
    show ?thesis
      unfolding wf_lines_def run acts
    proof (intro conjI allI ballI impI)
      fix j q assume "map_of (c_running d) j = Some q"
      then show "run_line q = a_Line (c_acts c j)"
        using parts(4) ln by (auto simp: d_def update_conv' wf_lines_def split: if_splits)
    next
      fix j assume j: "j \<in> set (runningIDs c @ [i])" "a_Line (c_acts c j) \<noteq> []"
      show "map_of (c_busyLines d) (a_Line (c_acts c j)) = Some j"
      proof (cases "j = i")
        case True
        with j ln show ?thesis by (simp add: bm)
      next
        case False
        with j parts(4) have "map_of (c_busyLines c) (a_Line (c_acts c j)) = Some j"
          by (simp add: wf_lines_def)
        with free show ?thesis by (auto simp: bm)
      qed
    next
      fix l j assume "map_of (c_busyLines d) l = Some j"
      then show "l \<noteq> []" and "j \<in> set (runningIDs c @ [i])" and "a_Line (c_acts c j) = l"
        using old [of l j] ln by (auto simp: bm split: if_splits)
    qed
  qed
  moreover have "wf_keys d" using parts(6) a(4) by (auto simp: wf_keys_def d_def same_core_def)
  moreover have "wf_events d" using parts(7) by (simp add: wf_events_def d_def)
  ultimately have "coord_wf lim L d" by (simp add: coord_wf_def)
  then show ?thesis by (simp add: st)
qed

end
