(* ===== verification/Coordinator_Steps.thy ===== *)
theory Coordinator_Steps
  imports Coordinator_Inv
begin

text \<open>
  Every handler of the coordinator keeps the invariant, so it holds in every reachable state; the
  interpretation of \<open>state_machine\<close> at the end carries it to whole runs.
\<close>

definition coord_inv :: "Limits \<Rightarrow> Coord \<Rightarrow> bool" where
  "coord_inv lim c \<longleftrightarrow> coord_wf lim {} c \<and> bounded lim c"

lemma running_facts:
  assumes "coord_wf lim L c" and "i \<in> set (runningIDs c)"
  shows "i \<notin> set (c_queue c)" "i \<notin> set (c_terminals c)" "i \<in> set (c_index c)" "i \<notin> L"
    "\<not> a_retired (c_acts c i)" "a_State (c_acts c i) \<noteq> StateQueued"
    "a_Sequence (c_acts c i) \<le> c_nextSeq c"
  using wf_parts(1-3) [OF assms(1)] assms(2)
  by (auto simp: wf_places_def wf_ids_def wf_states_def)

lemma queue_facts:
  assumes "coord_wf lim L c" and "i \<in> set (c_queue c)"
  shows "i \<notin> set (runningIDs c)" "i \<notin> set (c_terminals c)" "i \<in> set (c_index c)" "i \<notin> L"
    "\<not> a_retired (c_acts c i)" "a_State (c_acts c i) = StateQueued"
    "a_Sequence (c_acts c i) \<le> c_nextSeq c"
  using wf_parts(1-3) [OF assms(1)] assms(2)
  by (auto simp: wf_places_def wf_ids_def wf_states_def)

lemma index_facts:
  assumes "coord_wf lim {} c" and "i \<in> set (c_index c)" and "\<not> Terminal (a_State (c_acts c i))"
  shows "i \<in> set (c_queue c) \<or> i \<in> set (runningIDs c)"
  using wf_parts(1-3) [OF assms(1)] assms(2,3) by (auto simp: wf_places_def wf_states_def)

text \<open>Writing a running action: anything but its name, place, filing flag and a queued state.\<close>

lemma wf_modify_running:
  assumes "coord_wf lim L c" and "i \<in> set (runningIDs c)"
    and "same_core (c_acts c i) (f (c_acts c i))"
    and "a_Sequence (f (c_acts c i)) = a_Sequence (c_acts c i)"
    and "a_retired (f (c_acts c i)) = a_retired (c_acts c i)"
    and "a_State (f (c_acts c i)) \<noteq> StateQueued"
  shows "coord_wf lim L (modify i f c)"
  using assms running_facts [OF assms(1,2)] by (intro wf_modify) (auto simp: legal_write_def)

lemma set_run_simps [simp]:
  "c_queue (set_run i f c) = c_queue c" "c_index (set_run i f c) = c_index c"
  "c_byKey (set_run i f c) = c_byKey c" "mkeys (c_running (set_run i f c)) = mkeys (c_running c)"
  "c_busyLines (set_run i f c) = c_busyLines c" "c_terminals (set_run i f c) = c_terminals c"
  "c_nextID (set_run i f c) = c_nextID c" "c_nextSeq (set_run i f c) = c_nextSeq c"
  "c_events (set_run i f c) = c_events c" "c_acts (set_run i f c) = c_acts c"
  "length (c_running (set_run i f c)) = length (c_running c)"
  by (auto simp: set_run_def mkeys_def comp_def case_prod_unfold)

text \<open>Rewriting the handles of the running workers keeps everything but their flags.\<close>

lemma map_of_map_snd:
  "map_of (map (\<lambda>(j, r). (j, g j r)) m) i = map_option (g i) (map_of m i)"
  by (induction m) auto

lemma wf_set_handles:
  assumes wf: "coord_wf lim L c"
    and line: "\<And>j r. run_line (g j r) = run_line r"
  shows "coord_wf lim L (c\<lparr>c_running := map (\<lambda>(j, r). (j, g j r)) (c_running c)\<rparr>)"
proof -
  let ?d = "c\<lparr>c_running := map (\<lambda>(j, r). (j, g j r)) (c_running c)\<rparr>"
  note parts = wf_parts [OF wf]
  have keys: "runningIDs ?d = runningIDs c" by (simp add: mkeys_def comp_def case_prod_unfold)
  have "wf_places L ?d" unfolding wf_places_def keys using parts(1) by (simp add: wf_places_def)
  moreover have "wf_ids lim ?d" "wf_keys ?d" "wf_events ?d"
    using parts by (simp_all add: wf_ids_def wf_keys_def wf_events_def)
  moreover have "wf_states L ?d" unfolding wf_states_def keys using parts(3) by (simp add: wf_states_def)
  moreover have "wf_exclusive ?d" unfolding wf_exclusive_def keys using parts(5) by (simp add: wf_exclusive_def)
  moreover have "wf_lines ?d"
    unfolding wf_lines_def keys using parts(4) line by (auto simp: wf_lines_def map_of_map_snd)
  ultimately show ?thesis by (simp add: coord_wf_def)
qed

lemma wf_set_run:
  "coord_wf lim L c \<Longrightarrow> (\<And>r. run_line (f r) = run_line r) \<Longrightarrow> coord_wf lim L (set_run i f c)"
  unfolding set_run_def by (rule wf_set_handles) auto

subsection \<open>Cancellation\<close>

lemma onCancel_cases:
  assumes "coord_wf lim {} c"
  obtains (unknown) "i \<notin> set (c_index c)" "onCancel lim env i c = (c, Some (Errorf CodeNotFound))"
  | (finished) "i \<in> set (c_index c)" "Terminal (a_State (c_acts c i))" "onCancel lim env i c = (c, None)"
  | (active) "i \<in> set (runningIDs c)" "\<not> Terminal (a_State (c_acts c i))"
      "onCancel lim env i c = (publish i (set_run i (\<lambda>r. r\<lparr>run_cancelled := True\<rparr>)
         (modify i (\<lambda>a. (fst (transition StateCancelled (e_now env) a))
            \<lparr>a_Message := MsgCancelled, a_Code := Some CodeCancelled\<rparr>) c)), None)"
  | (waiting) "i \<in> set (c_queue c)" "i \<notin> set (runningIDs c)"
      "onCancel lim env i c = (settle lim i (\<lambda>a. (fst (transition StateCancelled (e_now env) a))
            \<lparr>a_Code := Some CodeCancelled, a_Message := MsgCancelledBeforeStart\<rparr>)
         (c\<lparr>c_queue := remove1 i (c_queue c)\<rparr>), None)"
proof (cases "i \<in> set (c_index c)")
  case False
  then show ?thesis by (intro unknown) (simp_all add: onCancel_def)
next
  case mem: True
  show ?thesis
  proof (cases "Terminal (a_State (c_acts c i))")
    case True
    with mem show ?thesis by (intro finished) (simp_all add: onCancel_def)
  next
    case nt: False
    have "i \<in> set (c_queue c) \<or> i \<in> set (runningIDs c)"
      using assms mem nt by (rule index_facts)
    moreover have "i \<in> set (c_queue c) \<Longrightarrow> i \<notin> set (runningIDs c)"
      using assms by (rule queue_facts)
    ultimately consider (r) "i \<in> set (runningIDs c)" | (q) "i \<in> set (c_queue c)" "i \<notin> set (runningIDs c)"
      by blast
    then show ?thesis
    proof cases
      case r
      then obtain x where "map_of (c_running c) i = Some x" using mkeys_Some by fast
      with mem nt r show ?thesis by (intro active) (simp_all add: onCancel_def Let_def)
    next
      case q
      then have "map_of (c_running c) i = None" by (auto simp: set_mkeys)
      with mem nt q show ?thesis
        by (intro waiting) (simp_all add: onCancel_def Let_def settle_def removeFromQueue_def modify_def)
    qed
  qed
qed

lemma onCancel_inv:
  assumes inv: "coord_inv lim c"
  shows "coord_inv lim (fst (onCancel lim env i c))"
    and "length (c_queue (fst (onCancel lim env i c))) \<le> length (c_queue c)"
proof -
  have wf: "coord_wf lim {} c" and bd: "bounded lim c" using inv by (auto simp: coord_inv_def)
  have "coord_inv lim (fst (onCancel lim env i c)) \<and>
      length (c_queue (fst (onCancel lim env i c))) \<le> length (c_queue c)"
  proof (rule onCancel_cases [OF wf, of i env])
    assume r: "i \<in> set (runningIDs c)" "\<not> Terminal (a_State (c_acts c i))"
      and eq: "onCancel lim env i c = (publish i (set_run i (\<lambda>r. r\<lparr>run_cancelled := True\<rparr>)
         (modify i (\<lambda>a. (fst (transition StateCancelled (e_now env) a))
            \<lparr>a_Message := MsgCancelled, a_Code := Some CodeCancelled\<rparr>) c)), None)"
    let ?f = "\<lambda>a. (fst (transition StateCancelled (e_now env) a))
        \<lparr>a_Message := MsgCancelled, a_Code := Some CodeCancelled\<rparr>"
    have "coord_wf lim {} (modify i ?f c)"
      using wf r(1) transition_core [where a = "c_acts c i" and s = StateCancelled and t = "e_now env"]
      by (intro wf_modify_running) (auto simp: same_core_def transition_state r(2))
    then show ?thesis using bd by (simp add: eq coord_inv_def bounded_def wf_set_run)
  next
    assume q: "i \<in> set (c_queue c)"
      and eq: "onCancel lim env i c = (settle lim i (\<lambda>a. (fst (transition StateCancelled (e_now env) a))
            \<lparr>a_Code := Some CodeCancelled, a_Message := MsgCancelledBeforeStart\<rparr>)
         (c\<lparr>c_queue := remove1 i (c_queue c)\<rparr>), None)"
    have "a_State (c_acts c i) = StateQueued" using wf q by (rule queue_facts)
    then have "coord_wf lim {} (fst (onCancel lim env i c))"
      unfolding eq fst_conv using transition_core [where a = "c_acts c i" and s = StateCancelled and t = "e_now env"]
      by (intro wf_settle wf_dequeue(1) wf q) (auto simp: same_core_def transition_state)
    moreover have "length (c_terminals (fst (onCancel lim env i c))) \<le> l_history lim"
      unfolding eq fst_conv using bd by (intro bounded_settle) (simp add: bounded_def)
    ultimately show ?thesis
      using bd q by (auto simp: eq coord_inv_def bounded_def length_remove1)
  qed (use inv in auto)
  then show "coord_inv lim (fst (onCancel lim env i c))"
    and "length (c_queue (fst (onCancel lim env i c))) \<le> length (c_queue c)" by auto
qed

text \<open>Retiring forgets keys and never learns one.\<close>

lemma byKey_evict_one: "map_of (c_byKey c) k = None \<Longrightarrow> map_of (c_byKey (evict_one c)) k = None"
  by (auto simp: evict_one_def Let_def delete_conv' split: list.splits)

lemma byKey_evict: "map_of (c_byKey c) k = None \<Longrightarrow> map_of (c_byKey (evict lim c)) k = None"
proof (induction lim c rule: evict.induct)
  case (1 lim c)
  then show ?case by (subst evict.simps) (simp add: byKey_evict_one)
qed

lemma byKey_retire: "map_of (c_byKey c) k = None \<Longrightarrow> map_of (c_byKey (retire lim i c)) k = None"
  by (simp add: retire_def Let_def byKey_evict)

lemma byKey_onCancel:
  "map_of (c_byKey c) k = None \<Longrightarrow> map_of (c_byKey (fst (onCancel lim env i c))) k = None"
  by (auto simp: onCancel_def Let_def byKey_retire removeFromQueue_def split: option.splits)

lemma nextID_onCancel [simp]: "c_nextID (fst (onCancel lim env i c)) = c_nextID c"
  by (auto simp: onCancel_def Let_def removeFromQueue_def split: option.splits)

lemma cancel_all_inv:
  assumes "coord_inv lim c"
  shows "coord_inv lim (cancel_all lim env ids c) \<and>
     length (c_queue (cancel_all lim env ids c)) \<le> length (c_queue c) \<and>
     (map_of (c_byKey c) k = None \<longrightarrow> map_of (c_byKey (cancel_all lim env ids c)) k = None)"
  using assms
proof (induction ids arbitrary: c)
  case Nil
  then show ?case by (simp add: cancel_all_def)
next
  case (Cons i ids)
  let ?d = "fst (onCancel lim env i c)"
  have step: "cancel_all lim env (i # ids) c = cancel_all lim env ids ?d" by (simp add: cancel_all_def)
  have "coord_inv lim ?d" "length (c_queue ?d) \<le> length (c_queue c)" using Cons.prems by (rule onCancel_inv)+
  with Cons.IH [of ?d] byKey_onCancel [of c k lim env i] show ?case unfolding step by auto
qed


subsection \<open>Submission\<close>

lemma actionID_inj [simp]: "actionID lim m = actionID lim n \<longleftrightarrow> m = n"
  by (simp add: actionID_def formatID_def)

lemma enqueue_inv:
  assumes inv: "coord_inv lim c" and room: "length (c_queue c) < l_queueLimit lim"
    and key: "map_of (c_byKey c) (r_IdempotencyKey request) = None"
  shows "coord_inv lim (fst (enqueue lim env request c))"
proof -
  have wf: "coord_wf lim {} c" and bd: "bounded lim c" using inv by (auto simp: coord_inv_def)
  note parts = wf_parts [OF wf]
  let ?n = "c_nextID c + 1"
  let ?a = "new_action lim env request ?n"
  let ?i = "actionID lim ?n"
  have id: "a_ID ?a = ?i" by (simp add: new_action_def actionID_def)
  have fresh: "?i \<notin> set (c_index c)" using parts(2) by (auto simp: wf_ids_def)
  then have out: "?i \<notin> set (c_queue c)" "?i \<notin> set (runningIDs c)" "?i \<notin> set (c_terminals c)"
    using parts(1) by (auto simp: wf_places_def)
  define d where "d = c\<lparr>c_nextID := ?n, c_acts := (c_acts c)(?i := ?a), c_index := c_index c @ [?i],
     c_byKey := AList.update (r_IdempotencyKey request) ?i (c_byKey c), c_queue := c_queue c @ [?i]\<rparr>"
  have eq: "fst (enqueue lim env request c) = publish ?i d"
    unfolding enqueue_def Let_def id d_def by simp
  have "wf_places {} d" using parts(1) fresh out by (auto simp: wf_places_def d_def)
  moreover have "wf_ids lim d"
    using parts(2) fresh id by (auto simp: wf_ids_def d_def new_action_def le_Suc_eq)
  moreover have "wf_states {} d"
    using parts(3) out by (auto simp: wf_states_def d_def new_action_def)
  moreover have "wf_lines d" using parts(4) out
    by (auto simp: wf_lines_def d_def dest: map_of_mem_mkeys)
  moreover have "wf_exclusive d" using parts(5) out by (auto simp: wf_exclusive_def d_def)
  moreover have "keyOf c j \<noteq> r_IdempotencyKey request" if "j \<in> set (c_index c)" for j
    using parts(6) key that by (metis option.distinct(1) wf_keys_def)
  then have "wf_keys d"
    using parts(6) fresh by (auto simp: wf_keys_def d_def update_conv' new_action_def)
  moreover have "wf_events d" using parts(7) by (simp add: wf_events_def d_def)
  ultimately have "coord_wf lim {} d" by (simp add: coord_wf_def)
  moreover have "bounded lim d" using bd room by (simp add: bounded_def d_def)
  ultimately show ?thesis by (simp add: eq coord_inv_def bounded_def)
qed

lemma admit_new_inv:
  assumes inv: "coord_inv lim c" and key: "map_of (c_byKey c) (r_IdempotencyKey request) = None"
  shows "coord_inv lim (fst (admit_new lim env request c))"
proof -
  let ?c = "if r_Kind request = KindSwitchCampus \<or> r_Kind request = KindSwitchHotspot \<or>
      r_Kind request = KindLogout then cancel_all lim env (superseded request c) c else c"
  have c: "coord_inv lim ?c" "length (c_queue ?c) \<le> length (c_queue c)"
      "map_of (c_byKey ?c) (r_IdempotencyKey request) = None"
    using cancel_all_inv [OF inv] key inv by auto
  show ?thesis
  proof (cases "e_check env request = None \<and> length (c_queue c) < l_queueLimit lim \<and> e_admit env request = None")
    case True
    then have "fst (admit_new lim env request c) = fst (enqueue lim env request ?c)"
      by (simp add: admit_new_def case_prod_unfold Let_def)
    moreover have "coord_inv lim (fst (enqueue lim env request ?c))"
      using c True by (intro enqueue_inv) auto
    ultimately show ?thesis by simp
  next
    case False
    then have "fst (admit_new lim env request c) = c"
      by (auto simp: admit_new_def split: option.splits)
    with inv show ?thesis by simp
  qed
qed

lemma known_key_live:
  assumes "coord_inv lim c" and "map_of (c_byKey c) k = Some i"
  shows "i \<in> set (c_index c)" and "keyOf c i = k"
  using assms wf_parts(6) [of lim "{}" c] by (auto simp: coord_inv_def wf_keys_def)

lemma onSubmit_inv: "coord_inv lim c \<Longrightarrow> coord_inv lim (fst (onSubmit lim env request c))"
  unfolding onSubmit_def Let_def
  by (auto simp: known_key_live intro!: admit_new_inv split: option.splits)

lemma Submit_inv: "coord_inv lim c \<Longrightarrow> coord_inv lim (fst (Submit lim env request c))"
  by (auto simp: Submit_def onSubmit_inv split: option.splits)

subsection \<open>Results and progress\<close>

lemma apply_outcome_simps [simp]:
  "same_core a (apply_outcome now out a)" "a_retired (apply_outcome now out a) = a_retired a"
  "a_Sequence (apply_outcome now out a) = a_Sequence a"
  "a_State (apply_outcome now out a) = (if Terminal (a_State a) then a_State a else o_State out)"
  by (auto simp: apply_outcome_def transition_def same_core_def Let_def)

lemma check_outcome_state:
  assumes "finalize_ok env"
  shows "Terminal (o_State (check_outcome env a out))"
  using assms by (auto simp: check_outcome_def Let_def finalize_ok_def) (metis Terminal_simps(3,4))+


text \<open>
  What \<open>onFinish\<close> makes of a running action, and the outcome whose observation it forwards.
\<close>

definition timed :: "completion \<Rightarrow> Action \<Rightarrow> Action" where
  "timed done a = a\<lparr>a_Timings := cp_timings done, a_WorkerMilliseconds := cp_workerMilliseconds done\<rparr>"

definition final_outcome :: "Env \<Rightarrow> run \<Rightarrow> completion \<Rightarrow> Action \<Rightarrow> Outcome" where
  "final_outcome env r done a =
     (if Terminal (a_State a) \<or> run_overdue r then cp_outcome done
      else check_outcome env (timed done a) (cp_outcome done))"

definition final_action :: "Env \<Rightarrow> run \<Rightarrow> completion \<Rightarrow> Action \<Rightarrow> Action" where
  "final_action env r done a =
     (if Terminal (a_State a) then timed done a
      else if run_overdue r then (fst (transition StateFailed (e_now env) (timed done a)))
        \<lparr>a_Message := MsgBudgetExceeded, a_Code := Some CodeDeadlineExceeded\<rparr>
      else apply_outcome (e_now env) (final_outcome env r done a) (timed done a))"

definition record_obs :: "Outcome \<Rightarrow> Coord \<Rightarrow> Coord" where
  "record_obs out c = (case o_Observation out of
     Some ob \<Rightarrow> c\<lparr>c_events := c_events c @ [Record ob]\<rparr> | None \<Rightarrow> c)"

lemma record_obs_simps [simp]:
  "c_queue (record_obs out c) = c_queue c" "c_index (record_obs out c) = c_index c"
  "c_byKey (record_obs out c) = c_byKey c" "c_running (record_obs out c) = c_running c"
  "c_busyLines (record_obs out c) = c_busyLines c" "c_terminals (record_obs out c) = c_terminals c"
  "c_nextID (record_obs out c) = c_nextID c" "c_nextSeq (record_obs out c) = c_nextSeq c"
  "c_acts (record_obs out c) = c_acts c"
  by (simp_all add: record_obs_def split: option.splits)

lemma release_simps [simp]:
  "c_queue (release i r c) = c_queue c" "c_index (release i r c) = c_index c"
  "c_byKey (release i r c) = c_byKey c" "c_running (release i r c) = AList.delete i (c_running c)"
  "c_terminals (release i r c) = c_terminals c" "c_nextID (release i r c) = c_nextID c"
  "c_nextSeq (release i r c) = c_nextSeq c" "c_acts (release i r c) = c_acts c"
  "c_events (release i r c) = c_events c"
  by (simp_all add: release_def Let_def)

lemma release_modify: "release i r (modify j f c) = modify j f (release i r c)"
  by (simp add: release_def modify_def Let_def)

lemma modify_modify: "modify i g (modify i f c) = modify i (\<lambda>a. g (f a)) c"
  by (simp add: modify_def)

lemma modify_cong: "f (c_acts c i) = g (c_acts c i) \<Longrightarrow> modify i f c = modify i g c"
  by (simp add: modify_def)

lemma timed_simps [simp]:
  "a_State (timed done a) = a_State a" "a_retired (timed done a) = a_retired a"
  "a_Sequence (timed done a) = a_Sequence a" "same_core a (timed done a)"
  "a_Request (timed done a) = a_Request a"
  by (simp_all add: timed_def same_core_def)

lemma onFinish_unfold:
  assumes "cp_id done \<in> set (c_index c)" and run: "map_of (c_running c) (cp_id done) = Some r"
  shows "onFinish lim env done c =
    (let i = cp_id done in publish i (retire lim i (record_obs (final_outcome env r done (c_acts c i))
       (modify i (final_action env r done) (release i r c)))))"
proof -
  let ?i = "cp_id done"
  let ?d = "release ?i r c"
  have t: "modify ?i (\<lambda>a. a\<lparr>a_Timings := cp_timings done,
      a_WorkerMilliseconds := cp_workerMilliseconds done\<rparr>) c = modify ?i (timed done) c"
    by (simp add: timed_def modify_def)
  let ?a = "c_acts c ?i"
  consider (fin) "Terminal (a_State ?a)" | (over) "\<not> Terminal (a_State ?a)" "run_overdue r"
    | (live) "\<not> Terminal (a_State ?a)" "\<not> run_overdue r" by blast
  then show ?thesis
  proof cases
    case fin
    then have "onFinish lim env done c =
        publish ?i (retire lim ?i (record_obs (cp_outcome done) (modify ?i (timed done) ?d)))"
      using assms by (simp add: onFinish_def Let_def t release_modify record_obs_def)
    moreover have "modify ?i (timed done) ?d = modify ?i (final_action env r done) ?d"
      using fin by (intro modify_cong) (simp add: final_action_def)
    ultimately show ?thesis using fin by (simp add: Let_def final_outcome_def)
  next
    case over
    let ?f = "\<lambda>a. (fst (transition StateFailed (e_now env) a))
       \<lparr>a_Message := MsgBudgetExceeded, a_Code := Some CodeDeadlineExceeded\<rparr>"
    have "onFinish lim env done c = publish ?i (retire lim ?i (record_obs (cp_outcome done)
        (modify ?i ?f (modify ?i (timed done) ?d))))"
      using assms over by (simp add: onFinish_def Let_def t release_modify record_obs_def)
    moreover have "modify ?i ?f (modify ?i (timed done) ?d) = modify ?i (final_action env r done) ?d"
      unfolding modify_modify using over by (intro modify_cong) (simp add: final_action_def)
    ultimately show ?thesis using over by (simp add: Let_def final_outcome_def)
  next
    case live
    let ?out = "check_outcome env (timed done ?a) (cp_outcome done)"
    have "onFinish lim env done c = publish ?i (retire lim ?i (record_obs ?out
        (modify ?i (apply_outcome (e_now env) ?out) (modify ?i (timed done) ?d))))"
      using assms live by (simp add: onFinish_def Let_def t release_modify record_obs_def)
    moreover have "modify ?i (apply_outcome (e_now env) ?out) (modify ?i (timed done) ?d) =
        modify ?i (final_action env r done) ?d"
      unfolding modify_modify using live
      by (intro modify_cong) (simp add: final_action_def final_outcome_def)
    ultimately show ?thesis using live by (simp add: Let_def final_outcome_def)
  qed
qed

lemma onFinish_ignored:
  "cp_id done \<notin> set (c_index c) \<or> cp_id done \<notin> set (runningIDs c) \<Longrightarrow> onFinish lim env done c = c"
  by (auto simp: onFinish_def Let_def set_mkeys split: option.splits)

lemma final_action_facts:
  "same_core a (final_action env r done a)"
  "a_Sequence (final_action env r done a) = a_Sequence a"
  "a_retired (final_action env r done a) = a_retired a"
  "finalize_ok env \<Longrightarrow> Terminal (a_State (final_action env r done a))"
proof -
  show "same_core a (final_action env r done a)"
    "a_Sequence (final_action env r done a) = a_Sequence a"
    "a_retired (final_action env r done a) = a_retired a"
    by (auto simp: final_action_def same_core_def transition_def Let_def timed_def apply_outcome_def)
  assume "finalize_ok env"
  then show "Terminal (a_State (final_action env r done a))"
    by (auto simp: final_action_def final_outcome_def transition_state check_outcome_state)
qed

lemma wf_record_obs: "coord_wf lim L c \<Longrightarrow> coord_wf lim L (record_obs out c)"
  by (simp add: record_obs_def split: option.splits)

lemma onFinish_inv:
  assumes inv: "coord_inv lim c" and fin: "finalize_ok env"
  shows "coord_inv lim (onFinish lim env done c)"
proof (cases "cp_id done \<in> set (runningIDs c)")
  case False
  with inv show ?thesis by (simp add: onFinish_ignored)
next
  case True
  let ?i = "cp_id done"
  have wf: "coord_wf lim {} c" and bd: "bounded lim c" using inv by (auto simp: coord_inv_def)
  from True obtain r where run: "map_of (c_running c) ?i = Some r" using mkeys_Some by fast
  note rf = running_facts [OF wf True]
  let ?d = "release ?i r c"
  have d: "coord_wf lim {?i} ?d" using wf run by (rule wf_release)
  then have out: "?i \<notin> set (c_queue ?d)" "?i \<notin> set (runningIDs ?d)" "?i \<notin> set (c_terminals ?d)"
    using wf_parts(1) [OF d] by (auto simp: wf_places_def)
  have "coord_wf lim {?i} (modify ?i (final_action env r done) ?d)"
    using d rf out by (intro wf_modify) (simp_all add: final_action_facts legal_write_def)
  then have "coord_wf lim {} (retire lim ?i (record_obs (final_outcome env r done (c_acts c ?i))
      (modify ?i (final_action env r done) ?d)))"
    using fin by (intro wf_retire wf_record_obs) (simp_all add: final_action_facts)
  moreover have "bounded lim (onFinish lim env done c)"
    using bd bounded_retire [of _ lim ?i] length_delete_le [of ?i "c_running c"]
    by (simp add: onFinish_unfold [OF rf(3) run] Let_def bounded_def)
  ultimately show ?thesis
    by (simp add: coord_inv_def onFinish_unfold [OF rf(3) run] Let_def)
qed

lemma onPhase_inv: "coord_inv lim c \<Longrightarrow> coord_inv lim (onPhase report c)"
  unfolding onPhase_def Let_def coord_inv_def
  by (auto simp: bounded_def same_core_def intro!: wf_publish wf_modify_running dest: running_facts)

end
