(* ===== verification/Coordinator_Order.thy ===== *)
theory Coordinator_Order
  imports Coordinator_Steps
begin

text \<open>
  The order the queue is served in. The client side (choosing and listing) needs only that the
  comparison is a strict weak order; the locale states that interface, and \<open>runsFirst\<close> and the
  dispatch-sequence comparison interpret it.
\<close>

locale queue_order =
  fixes before :: "'a \<Rightarrow> 'a \<Rightarrow> bool"
  assumes irrefl: "\<not> before x x"
    and trans: "before x y \<Longrightarrow> before y z \<Longrightarrow> before x z"
    and neg_trans: "\<not> before x y \<Longrightarrow> \<not> before y z \<Longrightarrow> \<not> before x z"
begin

lemma asym: "before x y \<Longrightarrow> \<not> before y x"
  using irrefl trans by blast

lemma mset_insert_by: "mset (insert_by before x xs) = add_mset x (mset xs)"
  by (induction xs) auto

lemma mset_sort_by: "mset (sort_by before xs) = mset xs"
  by (induction xs) (auto simp: sort_by_def mset_insert_by)

lemma sorted_insert_by:
  "sorted_wrt (\<lambda>a b. \<not> before b a) xs \<Longrightarrow> sorted_wrt (\<lambda>a b. \<not> before b a) (insert_by before x xs)"
proof (induction xs)
  case Nil
  then show ?case by simp
next
  case (Cons y ys)
  have elems: "set (insert_by before x ys) = insert x (set ys)"
    using mset_insert_by [of x ys] by (metis set_mset_add_mset_insert set_mset_mset)
  show ?case
  proof (cases "before y x")
    case True
    with Cons show ?thesis by (auto simp: elems dest: asym)
  next
    case False
    with Cons.prems show ?thesis using neg_trans by auto
  qed
qed

lemma sorted_sort_by: "sorted_wrt (\<lambda>a b. \<not> before b a) (sort_by before xs)"
  by (induction xs) (auto simp: sort_by_def sorted_insert_by)

end

lemma runsFirst_irrefl: "\<not> runsFirst a a"
  by (simp add: runsFirst_def)

lemma runsFirst_trans: "runsFirst a b \<Longrightarrow> runsFirst b c \<Longrightarrow> runsFirst a c"
  by (auto simp: runsFirst_def Let_def split: if_splits)

lemma runsFirst_neg_trans: "\<not> runsFirst a b \<Longrightarrow> \<not> runsFirst b c \<Longrightarrow> \<not> runsFirst a c"
  by (auto simp: runsFirst_def Let_def split: if_splits)

interpretation serve: queue_order runsFirst
  by unfold_locales (auto simp: runsFirst_irrefl dest: runsFirst_neg_trans intro: runsFirst_trans)

interpretation active: queue_order "\<lambda>a b. a_Sequence a < a_Sequence b"
  by unfold_locales auto

text \<open>
  The choice over a prefix of the queue: no eligible element of the prefix runs before the chosen
  one, and nothing is chosen only if nothing is eligible.
\<close>

definition best_of :: "Coord \<Rightarrow> nat \<Rightarrow> nat option \<Rightarrow> bool" where
  "best_of c n ch = (case ch of
     None \<Rightarrow> \<forall>j < n. skipped c (c_queue c ! j)
   | Some k \<Rightarrow> k < n \<and> \<not> skipped c (c_queue c ! k) \<and>
       (\<forall>j < n. \<not> skipped c (c_queue c ! j) \<longrightarrow>
          \<not> runsFirst (c_acts c (c_queue c ! j)) (c_acts c (c_queue c ! k))))"

lemma best_of_step:
  assumes "best_of c n ch" and i: "i = c_queue c ! n"
  shows "best_of c (Suc n) (if skipped c i then ch else case ch of None \<Rightarrow> Some n
     | Some j \<Rightarrow> if runsFirst (c_acts c i) (c_acts c (c_queue c ! j)) then Some n else ch)"
proof (cases "skipped c i")
  case True
  with assms show ?thesis by (auto simp: best_of_def less_Suc_eq split: option.splits)
next
  case ns: False
  show ?thesis
  proof (cases ch)
    case None
    with ns assms show ?thesis by (auto simp: best_of_def less_Suc_eq runsFirst_irrefl)
  next
    case (Some j)
    show ?thesis
    proof (cases "runsFirst (c_acts c i) (c_acts c (c_queue c ! j))")
      case True
      have "\<not> runsFirst (c_acts c (c_queue c ! m)) (c_acts c i)"
        if "m < n" "\<not> skipped c (c_queue c ! m)" for m
        using assms Some True that by (auto simp: best_of_def intro: runsFirst_trans)
      with True Some ns assms show ?thesis
        by (auto simp: best_of_def less_Suc_eq runsFirst_irrefl)
    next
      case False
      with Some ns assms show ?thesis by (auto simp: best_of_def less_Suc_eq)
    qed
  qed
qed

lemma pickFirst_best:
  assumes "best_of c n ch" and "ids = drop n (c_queue c)" and "n \<le> length (c_queue c)"
  shows "best_of c (length (c_queue c)) (pickFirst c n ids ch)"
  using assms
proof (induction ids arbitrary: n ch)
  case Nil
  then show ?case by simp
next
  case (Cons i ids)
  then have n: "n < length (c_queue c)" by (metis drop_all le_neq_implies_less linorder_not_le list.discI)
  then have "i = c_queue c ! n" and "ids = drop (Suc n) (c_queue c)"
    using Cons.prems(2) by (auto simp: Cons_nth_drop_Suc [symmetric])
  with Cons.IH [OF best_of_step [OF Cons.prems(1)]] n show ?case by simp
qed

lemma pickFirst_correct: "best_of c (length (c_queue c)) (pickFirst c 0 (c_queue c) None)"
  by (rule pickFirst_best) (auto simp: best_of_def)

lemma takeRunnable_Some:
  assumes wf: "coord_wf lim L c" and take: "takeRunnable c = Some (i, c')"
  shows "i \<in> set (c_queue c)" and "c' = c\<lparr>c_queue := remove1 i (c_queue c)\<rparr>" and "startable c i"
    and "\<forall>j \<in> set (c_queue c). \<not> skipped c j \<longrightarrow> \<not> runsFirst (c_acts c j) (c_acts c i)"
proof -
  obtain k where k: "pickFirst c 0 (c_queue c) None = Some k" and i: "i = c_queue c ! k"
    and c': "c' = c\<lparr>c_queue := take k (c_queue c) @ drop (Suc k) (c_queue c)\<rparr>"
    and nosw: "\<forall>j \<in> set (runningIDs c). \<not> switches (kindOf c j)"
    and sw: "switches (kindOf c i) \<longrightarrow> c_running c = []"
    using take by (auto simp: takeRunnable_def Let_def split: if_splits option.splits)
  have best: "k < length (c_queue c)" "\<not> skipped c i"
      "\<forall>j < length (c_queue c). \<not> skipped c (c_queue c ! j) \<longrightarrow>
         \<not> runsFirst (c_acts c (c_queue c ! j)) (c_acts c i)"
    using pickFirst_correct [of c] k i by (simp_all add: best_of_def)
  show "i \<in> set (c_queue c)" using best(1) i by simp
  have "distinct (c_queue c)" using wf_parts(1) [OF wf] by (simp add: wf_places_def)
  then show "c' = c\<lparr>c_queue := remove1 i (c_queue c)\<rparr>"
    using best(1) by (simp add: c' i take_drop_remove1)
  have "c_running c = [] \<Longrightarrow> c_busyLines c = []"
  proof -
    assume "c_running c = []"
    then have "map_of (c_busyLines c) l = None" for l
      using wf_parts(4) [OF wf] by (cases "map_of (c_busyLines c) l") (auto simp: wf_lines_def)
    then show "c_busyLines c = []" by (metis map_of_eq_empty_iff ext)
  qed
  then show "startable c i"
    using nosw sw best(2) by (auto simp: startable_def skipped_def)
  show "\<forall>j \<in> set (c_queue c). \<not> skipped c j \<longrightarrow> \<not> runsFirst (c_acts c j) (c_acts c i)"
    using best(3) by (metis in_set_conv_nth)
qed

subsection \<open>Dispatch keeps the invariant\<close>

lemma startable_dequeue: "startable (c\<lparr>c_queue := q\<rparr>) i = startable c i"
  by (simp add: startable_def refreshRunning_def)

lemma launch_inv:
  assumes inv: "coord_inv lim c" and take: "takeRunnable c = Some (i, c')"
    and room: "length (c_running c) < l_parallel lim"
  shows "coord_inv lim (launch lim env i c')"
proof -
  have wf: "coord_wf lim {} c" and bd: "bounded lim c" using inv by (auto simp: coord_inv_def)
  note t = takeRunnable_Some [OF wf take]
  note q = queue_facts [OF wf t(1)]
  have wf': "coord_wf lim {i} c'" unfolding t(2) using wf t(1) by (rule wf_dequeue)
  have len: "length (c_queue c') \<le> l_queueLimit lim"
    using bd t(1) by (auto simp: t(2) bounded_def length_remove1)
  show ?thesis
  proof (cases "e_check env (a_Request (c_acts c' i))")
    case None
    have "coord_wf lim {} (startAction env i c')"
      using wf' q t(3) by (intro wf_startAction) (simp_all add: t(2) startable_dequeue)
    moreover have "length (c_running (startAction env i c')) \<le> l_parallel lim"
      using room q(1) by (simp add: startAction_def Let_def t(2) mkeys_update_fresh)
    moreover have "c_terminals (startAction env i c') = c_terminals c"
      by (simp add: startAction_def Let_def t(2))
    ultimately show ?thesis using None bd len by (simp add: launch_def coord_inv_def bounded_def)
  next
    case (Some e)
    let ?f = "\<lambda>a. (fst (transition StateFailed (e_now env) a))
       \<lparr>a_Code := Some (e_code e), a_Message := MsgOfError e\<rparr>"
    have eq: "launch lim env i c' = settle lim i ?f c'"
      using Some by (simp add: launch_def fail_check_def settle_def)
    have "coord_wf lim {} (settle lim i ?f c')"
      using wf' q by (intro wf_settle) (auto simp: t(2) transition_def Let_def same_core_def)
    moreover have "length (c_terminals (settle lim i ?f c')) \<le> l_history lim"
      using bd by (intro bounded_settle) (simp add: t(2) bounded_def)
    ultimately show ?thesis
      unfolding eq coord_inv_def bounded_def using len room by (simp add: t(2))
  qed
qed

lemma dispatch_inv: "coord_inv lim c \<Longrightarrow> coord_inv lim (dispatch lim env c)"
proof (induction lim env c rule: dispatch.induct)
  case (1 lim env c)
  show ?case
  proof (cases "length (c_running c) < l_parallel lim")
    case False
    with "1.prems" show ?thesis by (simp add: dispatch.simps [of lim env c])
  next
    case room: True
    show ?thesis
    proof (cases "takeRunnable c")
      case None
      with "1.prems" show ?thesis by (simp add: dispatch.simps [of lim env c])
    next
      case (Some p)
      obtain i c' where p: "p = (i, c')" by (cases p)
      with Some room "1.prems" have "coord_inv lim (launch lim env i c')" by (auto intro: launch_inv)
      with "1.IH" Some p room show ?thesis by (simp add: dispatch.simps [of lim env c])
    qed
  qed
qed


subsection \<open>Deadlines and stopping keep the invariant\<close>

text \<open>
  Both \<open>expire\<close> and \<open>shutdown\<close> walk over the queue and settle entries one by one while the queue
  field still shows the old list; \<open>drained\<close> is that intermediate state: the entries of \<open>kept\<close> and
  of \<open>rest\<close> are still waiting, everything else of the old queue has been filed.
\<close>

definition drained :: "Limits \<Rightarrow> string list \<Rightarrow> Coord \<Rightarrow> bool" where
  "drained lim waiting c \<longleftrightarrow> coord_wf lim {} (c\<lparr>c_queue := waiting\<rparr>) \<and>
     length (c_running c) \<le> l_parallel lim \<and> length (c_terminals c) \<le> l_history lim"

lemma evict_one_queue: "evict_one (c\<lparr>c_queue := q\<rparr>) = (evict_one c)\<lparr>c_queue := q\<rparr>"
  by (simp add: evict_one_def Let_def split: list.splits)

lemma evict_queue: "evict lim (c\<lparr>c_queue := q\<rparr>) = (evict lim c)\<lparr>c_queue := q\<rparr>"
proof (induction lim c rule: evict.induct)
  case (1 lim c)
  then show ?case by (simp add: evict.simps [of lim c] evict.simps [of lim "c\<lparr>c_queue := q\<rparr>"] evict_one_queue)
qed

lemma modify_queue: "modify i f (c\<lparr>c_queue := q\<rparr>) = (modify i f c)\<lparr>c_queue := q\<rparr>"
  by (simp add: modify_def)

lemma publish_queue: "publish i (c\<lparr>c_queue := q\<rparr>) = (publish i c)\<lparr>c_queue := q\<rparr>"
  by (simp add: publish_def)

lemma retire_queue: "retire lim i (c\<lparr>c_queue := q\<rparr>) = (retire lim i c)\<lparr>c_queue := q\<rparr>"
proof -
  have "evict lim ((modify i f (c\<lparr>c_queue := q\<rparr>))\<lparr>c_terminals := ts\<rparr>) =
      (evict lim ((modify i f c)\<lparr>c_terminals := ts\<rparr>))\<lparr>c_queue := q\<rparr>" for f ts
    by (subst evict_queue [symmetric]) (cases c, simp add: modify_def)
  then show ?thesis by (simp add: retire_def Let_def)
qed

lemma settle_queue: "settle lim i f (c\<lparr>c_queue := q\<rparr>) = (settle lim i f c)\<lparr>c_queue := q\<rparr>"
  by (simp add: settle_def modify_queue retire_queue publish_queue)

lemma drained_settle:
  assumes d: "drained lim (xs @ i # ys) c"
    and core: "\<And>a. same_core a (f a)" "\<And>a. a_Sequence (f a) = a_Sequence a"
      "\<And>a. a_retired (f a) = a_retired a"
    and fin: "\<And>a. a_State a = StateQueued \<Longrightarrow> Terminal (a_State (f a))"
  shows "drained lim (xs @ ys) (settle lim i f c)"
proof -
  let ?c = "c\<lparr>c_queue := xs @ i # ys\<rparr>"
  have wf: "coord_wf lim {} ?c" using d by (simp add: drained_def)
  have "distinct (xs @ i # ys)" using wf_parts(1) [OF wf] by (simp add: wf_places_def)
  then have rm: "remove1 i (xs @ i # ys) = xs @ ys" by (simp add: remove1_append)
  have q: "i \<in> set (c_queue ?c)" by simp
  have "coord_wf lim {i} (?c\<lparr>c_queue := remove1 i (c_queue ?c)\<rparr>)" using wf q by (rule wf_dequeue)
  then have "coord_wf lim {i} (c\<lparr>c_queue := xs @ ys\<rparr>)" using rm by simp
  then have "coord_wf lim {} (settle lim i f (c\<lparr>c_queue := xs @ ys\<rparr>))"
    using core fin queue_facts(6) [OF wf q] by (intro wf_settle) simp_all
  then show ?thesis using d by (simp add: drained_def settle_queue bounded_settle)
qed

lemma expire_queue_drained:
  "drained lim (kept @ rest) c \<Longrightarrow> drained lim (c_queue (expire_queue lim now kept rest c))
     (expire_queue lim now kept rest c) \<and>
     length (c_queue (expire_queue lim now kept rest c)) \<le> length kept + length rest"
proof (induction lim now kept rest c rule: expire_queue.induct)
  case (1 lim now kept c)
  then show ?case by (simp add: drained_def)
next
  case (2 lim now kept i rest c)
  let ?f = "\<lambda>a. (fst (transition StateFailed now a))
     \<lparr>a_Message := MsgQueueTimeout, a_Code := Some CodeDeadlineExceeded\<rparr>"
  show ?case
  proof (cases "now - a_QueuedAt (c_acts c i) < l_queueWait lim")
    case True
    with 2 show ?thesis by simp
  next
    case False
    have "drained lim (kept @ rest) (settle lim i ?f c)"
      using "2.prems" by (rule drained_settle) (auto simp: same_core_def transition_def Let_def)
    then have "drained lim (kept @ rest) (expire_queued lim now i c)"
      by (simp add: expire_queued_def settle_def)
    with "2.IH"(2) False show ?thesis by auto
  qed
qed

lemma expire_inv:
  assumes inv: "coord_inv lim c"
  shows "coord_inv lim (expire lim now c)"
proof -
  let ?d = "expire_queue lim now [] (c_queue c) c"
  have "drained lim ([] @ c_queue c) c" using inv by (simp add: drained_def coord_inv_def bounded_def)
  from expire_queue_drained [OF this, of now]
  have "coord_wf lim {} ?d" and "bounded lim ?d"
    using inv by (auto simp: drained_def coord_inv_def bounded_def)
  moreover have "coord_wf lim {} (expire_running lim now ?d)"
    using calculation(1) unfolding expire_running_def by (intro wf_set_handles) auto
  ultimately show ?thesis by (simp add: expire_def coord_inv_def bounded_def expire_running_def)
qed

lemma stop_queued_drained:
  "drained lim ids c \<Longrightarrow> drained lim [] (fold (stop_queued lim now) ids c)"
proof (induction ids arbitrary: c)
  case Nil
  then show ?case by simp
next
  case (Cons i ids)
  let ?f = "\<lambda>a. (fst (transition StateInterrupted now a))\<lparr>a_Message := MsgStopNotStarted\<rparr>"
  have "drained lim ([] @ ids) (settle lim i ?f c)"
    using Cons.prems by (intro drained_settle) (auto simp: same_core_def transition_def Let_def)
  then have "drained lim ids (stop_queued lim now i c)" by (simp add: stop_queued_def settle_def)
  with Cons.IH show ?case by simp
qed

lemma stop_running_frame [simp]:
  "c_queue (stop_running now i c) = c_queue c" "runningIDs (stop_running now i c) = runningIDs c"
  "length (c_running (stop_running now i c)) = length (c_running c)"
  "c_terminals (stop_running now i c) = c_terminals c" "c_index (stop_running now i c) = c_index c"
  by (simp_all add: stop_running_def Let_def)

lemma stop_running_wf:
  assumes wf: "coord_wf lim {} c" and i: "i \<in> set (runningIDs c)"
  shows "coord_wf lim {} (stop_running now i c)"
proof -
  let ?g = "\<lambda>a. (fst (transition StateInterrupted now a))\<lparr>a_Message := MsgStopInterrupted\<rparr>"
  have "coord_wf lim {} (set_run i (\<lambda>r. r\<lparr>run_cancelled := True\<rparr>) c)" using wf by (simp add: wf_set_run)
  then show ?thesis
    unfolding stop_running_def Let_def
    using i running_facts(6) [OF wf i]
    by (auto intro!: wf_publish wf_modify_running simp: transition_def Let_def same_core_def)
qed

lemma fold_stop_running:
  "coord_wf lim {} c \<Longrightarrow> set ids \<subseteq> set (runningIDs c) \<Longrightarrow>
     coord_wf lim {} (fold (stop_running now) ids c)"
  by (induction ids arbitrary: c) (simp_all add: stop_running_wf)

lemma fold_stop_running_frame [simp]:
  "c_queue (fold (stop_running now) ids c) = c_queue c"
  "length (c_running (fold (stop_running now) ids c)) = length (c_running c)"
  "runningIDs (fold (stop_running now) ids c) = runningIDs c"
  "c_terminals (fold (stop_running now) ids c) = c_terminals c"
  by (induction ids arbitrary: c) simp_all

lemma shutdown_inv:
  assumes inv: "coord_inv lim c" and fin: "finalize_ok env"
  shows "coord_inv lim (shutdown lim env pending c)"
proof -
  let ?d = "(fold (stop_queued lim (e_now env)) (c_queue c) c)\<lparr>c_queue := []\<rparr>"
  have "drained lim (c_queue c) c" using inv by (simp add: drained_def coord_inv_def bounded_def)
  then have "drained lim [] (fold (stop_queued lim (e_now env)) (c_queue c) c)"
    by (rule stop_queued_drained)
  then have d: "coord_inv lim ?d" by (simp add: drained_def coord_inv_def bounded_def)
  then have "coord_inv lim (fold (stop_running (e_now env)) (runningIDs ?d) ?d)"
    by (simp add: coord_inv_def bounded_def fold_stop_running)
  then show ?thesis
    using fin by (auto simp: shutdown_def Let_def onFinish_inv split: option.splits)
qed

subsection \<open>The machine\<close>

lemma reordered_inv:
  assumes inv: "coord_inv lim c" and r: "reordered c d"
  shows "coord_inv lim d"
proof -
  obtain idx rs where idx: "mset idx = mset (c_index c)" and rs: "mset rs = mset (c_running c)"
    and d: "d = c\<lparr>c_index := idx, c_running := rs\<rparr>" using r by (auto simp: reordered_def)
  have wf: "coord_wf lim {} c" using inv by (simp add: coord_inv_def)
  note parts = wf_parts [OF wf]
  have di: "distinct idx" "set idx = set (c_index c)"
    using parts(1) idx by (auto simp: wf_places_def dest: mset_eq_setD mset_eq_imp_distinct_iff)
  have keys: "mset (mkeys rs) = mset (runningIDs c)" using rs by (simp add: mkeys_def)
  then have dr: "distinct (mkeys rs)" "set (mkeys rs) = set (runningIDs c)"
    using parts(1) by (auto simp: wf_places_def dest: mset_eq_setD mset_eq_imp_distinct_iff)
  have len: "length rs = length (c_running c)" using rs by (rule mset_eq_length)
  have "distinct (map fst (c_running c))" using parts(1) by (simp add: wf_places_def mkeys_def)
  with dr(1) have mo: "map_of rs = map_of (c_running c)"
    by (subst map_of_inject_set) (simp_all add: mkeys_def mset_eq_setD [OF rs])
  have "wf_places {} d" using parts(1) di dr by (simp add: wf_places_def d)
  moreover have "wf_ids lim d" "wf_keys d" "wf_events d"
    using parts di by (simp_all add: wf_ids_def wf_keys_def wf_events_def d)
  moreover have "wf_states {} d" "wf_lines d" "wf_exclusive d"
    using parts dr mo by (simp_all add: wf_states_def wf_lines_def wf_exclusive_def d)
  ultimately show ?thesis using inv len by (simp add: coord_inv_def coord_wf_def bounded_def d)
qed

lemma handle_inv: "coord_inv lim c \<Longrightarrow> finalize_ok env \<Longrightarrow> coord_inv lim (handle lim env inp c)"
  by (cases inp) (simp_all add: Submit_inv onCancel_inv onFinish_inv onPhase_inv)

lemma turn_inv: "coord_inv lim c \<Longrightarrow> finalize_ok env \<Longrightarrow> coord_inv lim (turn lim env inp c)"
  by (simp add: turn_def handle_inv dispatch_inv expire_inv)

lemma run_step_inv: "run_step lim s t \<Longrightarrow> coord_inv lim (snd s) \<Longrightarrow> coord_inv lim (snd t)"
  by (induction rule: run_step.induct)
    (auto intro: turn_inv shutdown_inv onFinish_inv reordered_inv dispatch_inv expire_inv)

definition coord_start :: "Limits \<Rightarrow> Mode \<times> Coord \<Rightarrow> bool" where
  "coord_start lim s \<longleftrightarrow> fst s = Serving \<and> (\<exists>opts inst heap. New opts inst heap = (lim, snd s))"

lemma coord_start_inv: "coord_start lim s \<Longrightarrow> coord_inv lim (snd s)"
  by (cases s) (auto simp: coord_start_def New_def coord_inv_def bounded_def wf_defs)

interpretation coordinator: state_machine "coord_start lim" "run_step lim" "\<lambda>s. coord_inv lim (snd s)"
  for lim
  by unfold_locales (auto intro: coord_start_inv run_step_inv)

end
