(* ===== verification/Coordinator_Stable.thy ===== *)
theory Coordinator_Stable
  imports Coordinator_Order
begin

text \<open>
  What no step of the coordinator may take back: once an action is terminal, its verdict, its end
  and its message stand, and the identity of its request (key and fingerprint) never changes.
\<close>

subsection \<open>What no step may change\<close>

text \<open>
  \<open>keeps n c d\<close>: for the first \<open>n\<close> actions ever created, a terminal verdict of \<open>c\<close> still
  stands in \<open>d\<close>, and the identity of the request (key and fingerprint) is the same.
\<close>

definition frozen_act :: "Action \<Rightarrow> Action \<Rightarrow> bool" where
  "frozen_act a b \<longleftrightarrow> fingerprint (a_Request b) = fingerprint (a_Request a) \<and> a_ID b = a_ID a \<and>
     r_IdempotencyKey (a_Request b) = r_IdempotencyKey (a_Request a) \<and>
     (Terminal (a_State a) \<longrightarrow> a_State b = a_State a \<and> a_EndedAt b = a_EndedAt a \<and>
        a_Message b = a_Message a \<and> a_Code b = a_Code a)"

definition keeps :: "Limits \<Rightarrow> Coord \<Rightarrow> Coord \<Rightarrow> bool" where
  "keeps lim c d \<longleftrightarrow> c_nextID c \<le> c_nextID d \<and>
     (\<forall>n \<le> c_nextID c. frozen_act (c_acts c (actionID lim n)) (c_acts d (actionID lim n)))"

lemma frozen_refl [simp]: "frozen_act a a"
  by (simp add: frozen_act_def)

lemma frozen_trans: "frozen_act a b \<Longrightarrow> frozen_act b c \<Longrightarrow> frozen_act a c"
  by (auto simp: frozen_act_def)

lemma keeps_refl [simp]: "keeps lim c c"
  by (simp add: keeps_def)

lemma keeps_trans: "keeps lim c d \<Longrightarrow> keeps lim d e \<Longrightarrow> keeps lim c e"
  unfolding keeps_def by (metis frozen_trans order_trans)

lemma keeps_same: "c_nextID d = c_nextID c \<Longrightarrow> c_acts d = c_acts c \<Longrightarrow> keeps lim c d"
  by (simp add: keeps_def)

lemma keeps_modify: "frozen_act (c_acts c i) (f (c_acts c i)) \<Longrightarrow> keeps lim c (modify i f c)"
  by (auto simp: keeps_def)

lemma keeps_publish [simp]: "keeps lim c (publish i c)"
  by (rule keeps_same) simp_all

lemma fingerprint_private [simp]: "fingerprint (r\<lparr>r_PrivateJSON := x\<rparr>) = fingerprint r"
  by (simp add: fingerprint_def Let_def)

lemma c_acts_retire:
  "c_acts (retire lim i c) j = (if j = i \<and> \<not> a_retired (c_acts c i) \<and> Terminal (a_State (c_acts c i))
     then (c_acts c i)\<lparr>a_retired := True, a_Request := (a_Request (c_acts c i))\<lparr>r_PrivateJSON := []\<rparr>\<rparr>
     else c_acts c j)"
  by (simp add: retire_def Let_def)

lemma keeps_retire: "keeps lim c (retire lim' i c)"
  by (auto simp: keeps_def c_acts_retire frozen_act_def)

lemma frozen_transition: "\<not> Terminal (a_State a) \<Longrightarrow>
    frozen_act a ((fst (transition s t a))\<lparr>a_Message := m\<rparr>)" "\<not> Terminal (a_State a) \<Longrightarrow>
    frozen_act a ((fst (transition s t a))\<lparr>a_Message := m, a_Code := k\<rparr>)" "\<not> Terminal (a_State a) \<Longrightarrow>
    frozen_act a ((fst (transition s t a))\<lparr>a_Code := k, a_Message := m\<rparr>)"
  by (simp_all add: frozen_act_def transition_def Let_def)

lemma keeps_settle:
  "frozen_act (c_acts c i) (f (c_acts c i)) \<Longrightarrow> keeps lim c (settle lim i f c)"
  unfolding settle_def
  by (rule keeps_trans [OF keeps_modify keeps_trans [OF keeps_retire keeps_publish]])

lemma keeps_onCancel:
  assumes wf: "coord_wf lim {} c"
  shows "keeps lim c (fst (onCancel lim env i c))"
proof (rule onCancel_cases [OF wf, of i env])
  assume nt: "\<not> Terminal (a_State (c_acts c i))"
    and eq: "onCancel lim env i c = (publish i (set_run i (\<lambda>r. r\<lparr>run_cancelled := True\<rparr>)
         (modify i (\<lambda>a. (fst (transition StateCancelled (e_now env) a))
            \<lparr>a_Message := MsgCancelled, a_Code := Some CodeCancelled\<rparr>) c)), None)"
  have "keeps lim c (modify i (\<lambda>a. (fst (transition StateCancelled (e_now env) a))
            \<lparr>a_Message := MsgCancelled, a_Code := Some CodeCancelled\<rparr>) c)"
    using nt by (intro keeps_modify frozen_transition)
  then show ?thesis unfolding eq fst_conv
    by (rule keeps_trans) (rule keeps_same; simp)
next
  assume q: "i \<in> set (c_queue c)"
    and eq: "onCancel lim env i c = (settle lim i (\<lambda>a. (fst (transition StateCancelled (e_now env) a))
            \<lparr>a_Code := Some CodeCancelled, a_Message := MsgCancelledBeforeStart\<rparr>)
         (c\<lparr>c_queue := remove1 i (c_queue c)\<rparr>), None)"
  have "\<not> Terminal (a_State (c_acts c i))" using queue_facts(6) [OF wf q] by simp
  then have "keeps lim (c\<lparr>c_queue := remove1 i (c_queue c)\<rparr>) (fst (onCancel lim env i c))"
    unfolding eq fst_conv by (intro keeps_settle) (simp add: frozen_transition)
  then show ?thesis by (simp add: keeps_def)
qed simp_all

lemma keeps_cancel_all: "coord_inv lim c \<Longrightarrow> keeps lim c (cancel_all lim env ids c)"
proof (induction ids arbitrary: c)
  case Nil
  then show ?case by (simp add: cancel_all_def)
next
  case (Cons i ids)
  let ?d = "fst (onCancel lim env i c)"
  have "keeps lim c ?d" using Cons.prems by (simp add: keeps_onCancel coord_inv_def)
  moreover have "keeps lim ?d (cancel_all lim env ids ?d)" using Cons by (simp add: onCancel_inv)
  ultimately show ?case by (auto simp: cancel_all_def intro: keeps_trans)
qed

lemma keeps_enqueue: "keeps lim c (fst (enqueue lim env request c))"
  by (auto simp: keeps_def enqueue_def Let_def new_action_def actionID_def formatID_def)

lemma keeps_admit_new: "coord_inv lim c \<Longrightarrow> keeps lim c (fst (admit_new lim env request c))"
  by (auto simp: admit_new_def Let_def case_prod_unfold split: option.splits
      intro: keeps_enqueue keeps_trans [OF keeps_cancel_all keeps_enqueue])

lemma keeps_Submit: "coord_inv lim c \<Longrightarrow> keeps lim c (fst (Submit lim env request c))"
  by (auto simp: Submit_def onSubmit_def Let_def known_key_live split: option.splits
      intro: keeps_admit_new)

lemma frozen_final_action: "frozen_act a (final_action env r done a)"
  by (auto simp: frozen_act_def final_action_def transition_def Let_def timed_def apply_outcome_def)

lemma keeps_onFinish: "keeps lim c (onFinish lim env done c)"
proof (cases "cp_id done \<in> set (c_index c) \<and> cp_id done \<in> set (runningIDs c)")
  case False
  then show ?thesis by (simp add: onFinish_ignored)
next
  case True
  then obtain r where run: "map_of (c_running c) (cp_id done) = Some r" using mkeys_Some by fast
  let ?i = "cp_id done"
  let ?m = "modify ?i (final_action env r done) (release ?i r c)"
  let ?o = "record_obs (final_outcome env r done (c_acts c ?i)) ?m"
  have "keeps lim (release ?i r c) ?m" by (rule keeps_modify) (rule frozen_final_action)
  then have "keeps lim c ?m" by (simp add: keeps_def)
  then have "keeps lim c ?o" by (rule keeps_trans) (rule keeps_same; simp)
  then have "keeps lim c (publish ?i (retire lim ?i ?o))"
    by (rule keeps_trans) (rule keeps_trans [OF keeps_retire keeps_publish])
  then show ?thesis using True run by (simp add: onFinish_unfold Let_def)
qed

lemma keeps_onPhase: "keeps lim c (onPhase report c)"
  unfolding onPhase_def Let_def
  by (auto intro!: keeps_trans [OF keeps_modify keeps_publish] simp: frozen_act_def)

lemma keeps_launch:
  assumes "coord_inv lim c" and "takeRunnable c = Some (i, c')"
  shows "keeps lim c (launch lim env i c')"
proof -
  have wf: "coord_wf lim {} c" using assms(1) by (simp add: coord_inv_def)
  note t = takeRunnable_Some [OF wf assms(2)]
  have q: "\<not> Terminal (a_State (c_acts c' i))" using queue_facts(6) [OF wf t(1)] by (simp add: t(2))
  have "keeps lim c' (launch lim env i c')"
  proof (cases "e_check env (a_Request (c_acts c' i))")
    case None
    with q show ?thesis
      by (auto simp: launch_def startAction_def Let_def keeps_def frozen_act_def transition_def)
  next
    case (Some e)
    with q show ?thesis
      using keeps_settle [of c' i "\<lambda>a. (fst (transition StateFailed (e_now env) a))
         \<lparr>a_Code := Some (e_code e), a_Message := MsgOfError e\<rparr>" lim]
      by (simp add: launch_def fail_check_def settle_def frozen_transition)
  qed
  then show ?thesis by (simp add: t(2) keeps_def)
qed

lemma keeps_dispatch: "coord_inv lim c \<Longrightarrow> keeps lim c (dispatch lim env c)"
proof (induction lim env c rule: dispatch.induct)
  case (1 lim env c)
  show ?case
  proof (cases "length (c_running c) < l_parallel lim \<and> takeRunnable c \<noteq> None")
    case False
    then show ?thesis by (subst dispatch.simps) (auto split: option.splits)
  next
    case True
    then obtain i c' where t: "takeRunnable c = Some (i, c')" by auto
    have "keeps lim c (launch lim env i c')" using "1.prems" t by (rule keeps_launch)
    moreover have "coord_inv lim (launch lim env i c')" using "1.prems" t True by (auto intro: launch_inv)
    ultimately show ?thesis
      using "1.IH" t True by (subst dispatch.simps) (auto intro: keeps_trans)
  qed
qed


lemma drained_queued:
  "drained lim (xs @ i # ys) c \<Longrightarrow> \<not> Terminal (a_State (c_acts c i))"
  using queue_facts(6) [of lim "{}" "c\<lparr>c_queue := xs @ i # ys\<rparr>" i] by (simp add: drained_def)

lemma keeps_expire_queue:
  "drained lim (kept @ rest) c \<Longrightarrow> keeps lim c (expire_queue lim now kept rest c)"
proof (induction lim now kept rest c rule: expire_queue.induct)
  case (1 lim now kept c)
  then show ?case by (simp add: keeps_def)
next
  case (2 lim now kept i rest c)
  let ?f = "\<lambda>a. (fst (transition StateFailed now a))
     \<lparr>a_Message := MsgQueueTimeout, a_Code := Some CodeDeadlineExceeded\<rparr>"
  have eq: "expire_queued lim now i c = settle lim i ?f c" by (simp add: expire_queued_def settle_def)
  have "drained lim (kept @ rest) (settle lim i ?f c)"
    using "2.prems" by (rule drained_settle) (auto simp: same_core_def transition_def Let_def)
  moreover have "keeps lim c (settle lim i ?f c)"
    using drained_queued [OF "2.prems"] by (intro keeps_settle frozen_transition)
  ultimately show ?case using 2 by (auto simp: eq intro: keeps_trans)
qed

lemma keeps_expire: "coord_inv lim c \<Longrightarrow> keeps lim c (expire lim now c)"
  using keeps_expire_queue [of lim "[]" "c_queue c" c now]
  by (simp add: drained_def coord_inv_def bounded_def expire_def expire_running_def keeps_def)

lemma keeps_stop_queued:
  "drained lim ids c \<Longrightarrow> keeps lim c (fold (stop_queued lim now) ids c)"
proof (induction ids arbitrary: c)
  case Nil
  then show ?case by simp
next
  case (Cons i ids)
  let ?f = "\<lambda>a. (fst (transition StateInterrupted now a))\<lparr>a_Message := MsgStopNotStarted\<rparr>"
  have eq: "stop_queued lim now i c = settle lim i ?f c" by (simp add: stop_queued_def settle_def)
  have "drained lim ([] @ ids) (settle lim i ?f c)"
    using Cons.prems by (intro drained_settle) (auto simp: same_core_def transition_def Let_def)
  moreover have "keeps lim c (settle lim i ?f c)"
    using drained_queued [of lim "[]"] Cons.prems by (intro keeps_settle frozen_transition) simp
  ultimately show ?case using Cons.IH by (auto simp: eq intro: keeps_trans)
qed

lemma keeps_stop_running: "keeps lim c (stop_running now i c)"
  by (auto simp: stop_running_def Let_def keeps_def frozen_act_def transition_def)

lemma keeps_fold_stop_running: "keeps lim c (fold (stop_running now) ids c)"
  by (induction ids arbitrary: c) (auto intro: keeps_trans [OF keeps_stop_running])

lemma keeps_shutdown: "coord_inv lim c \<Longrightarrow> keeps lim c (shutdown lim env pending c)"
proof -
  assume inv: "coord_inv lim c"
  let ?d = "fold (stop_queued lim (e_now env)) (c_queue c) c"
  have "keeps lim c ?d"
    using inv by (intro keeps_stop_queued) (simp add: drained_def coord_inv_def bounded_def)
  then have "keeps lim c (?d\<lparr>c_queue := []\<rparr>)" by (simp add: keeps_def)
  from keeps_trans [OF this keeps_fold_stop_running]
  have k: "keeps lim c (fold (stop_running (e_now env)) (mkeys (c_running ?d)) (?d\<lparr>c_queue := []\<rparr>))" by simp
  show ?thesis
    using k keeps_trans [OF k keeps_onFinish]
    by (simp add: shutdown_def Let_def split: option.splits)
qed

lemma keeps_handle: "coord_inv lim c \<Longrightarrow> keeps lim c (handle lim env inp c)"
  by (cases inp) (auto intro: keeps_Submit keeps_onCancel keeps_onFinish keeps_onPhase simp: coord_inv_def)

lemma keeps_turn: "coord_inv lim c \<Longrightarrow> keeps lim c (turn lim env inp c)"
  unfolding turn_def
  by (blast intro: keeps_trans keeps_expire keeps_dispatch keeps_handle expire_inv dispatch_inv)

lemma keeps_step: "run_step lim s t \<Longrightarrow> coord_inv lim (snd s) \<Longrightarrow> keeps lim (snd s) (snd t)"
proof (induction rule: run_step.induct)
  case (stop env c pending)
  then show ?case
    by (auto intro: keeps_trans [OF keeps_expire keeps_trans [OF keeps_dispatch keeps_shutdown]]
        expire_inv dispatch_inv)
qed (auto intro: keeps_turn keeps_onFinish keeps_same simp: reordered_def)

lemma keeps_run:
  assumes "(run_step lim)\<^sup>*\<^sup>* s t" and "coord_inv lim (snd s)"
  shows "keeps lim (snd s) (snd t)"
  using assms(1)
  by (rule coordinator.stable_run [where P = "\<lambda>u. keeps lim (snd s) (snd u)"])
    (auto intro: assms(2) keeps_trans keeps_step)

end
