(* ===== verification/Coordinator_Demo.thy ===== *)
theory Coordinator_Demo
  imports Coordinator_Stable
begin

text \<open>
  A concrete run, on which the coordinator's properties are evaluated: two logins on two lines,
  submitted one after the other and then dispatched.
\<close>

definition demo_request :: "Kind \<Rightarrow> string \<Rightarrow> string \<Rightarrow> Request" where
  "demo_request k account key = \<lparr>r_Kind = k, r_AccountID = account, r_HotspotID = [],
     r_Interface = [], r_ProbeURL = [], r_ProbeSSID = [], r_ProbeMode = [], r_ProbeSchool = [],
     r_ProbeACID = [], r_Owner = [], r_SetupJob = [], r_PrivateJSON = [], r_privateDigest = [],
     r_IdempotencyKey = key, r_IgnoreQuiet = False, r_CheckRevision = False, r_ConfigRevision = 0\<rparr>"

definition demo_env :: "instant \<Rightarrow> Env" where
  "demo_env t = \<lparr>e_now = t, e_lines = r_AccountID, e_check = (\<lambda>_. None), e_admit = (\<lambda>_. None),
     e_finalize = (\<lambda>_ out. out\<lparr>o_State := StateSucceeded\<rparr>), e_Sum256 = (\<lambda>_. replicate 32 (CHR 0x00))\<rparr>"

definition demo_options :: Options where
  "demo_options = \<lparr>op_Parallel = 0, op_QueueLimit = 0, op_History = 0, op_QueueWait = 0,
     op_ActionBudget = 0\<rparr>"

definition demo_heap :: "string \<Rightarrow> Action" where
  "demo_heap = (\<lambda>_. \<lparr>a_ID = [], a_Request = demo_request KindLogin [] [], a_Line = [],
     a_State = StateQueued, a_Phase = PhaseNone, a_Message = NoMessage, a_Code = None,
     a_ResultJSON = [], a_QueuedAt = 0, a_StartedAt = 0, a_EndedAt = 0, a_Timings = [],
     a_WorkerMilliseconds = 0, a_Sequence = 0, a_MaintenanceDeferred = False,
     a_Connectivity = None, a_ordinal = 0, a_retired = False\<rparr>)"

definition demo_limits :: Limits where
  "demo_limits = fst (New demo_options ''x'' demo_heap)"

definition demo0 :: Coord where
  "demo0 = snd (New demo_options ''x'' demo_heap)"

definition demo1 :: Coord where
  "demo1 = turn demo_limits (demo_env 10) (CallSubmit (demo_request KindLogin ''wan'' ''k1'')) demo0"

definition demo2 :: Coord where
  "demo2 = turn demo_limits (demo_env 20) (CallSubmit (demo_request KindLogin ''wanb'' ''k2'')) demo1"

definition demo3 :: Coord where
  "demo3 = turn demo_limits (demo_env 30) Wake demo2"

lemma demo_finalize_ok: "finalize_ok (demo_env t)"
  by (simp add: finalize_ok_def demo_env_def)

lemma demo_start: "coord_start demo_limits (Serving, demo0)"
  by (auto simp: coord_start_def demo_limits_def demo0_def)

lemma demo_run:
  "(run_step demo_limits)\<^sup>*\<^sup>* (Serving, demo0) (Serving, demo1)"
  "(run_step demo_limits)\<^sup>*\<^sup>* (Serving, demo1) (Serving, demo3)"
  "(run_step demo_limits)\<^sup>*\<^sup>* (Serving, demo0) (Serving, demo3)"
proof -
  have 1: "run_step demo_limits (Serving, demo0) (Serving, demo1)"
    unfolding demo1_def by (rule run_step.serve) (rule demo_finalize_ok)
  have 2: "run_step demo_limits (Serving, demo1) (Serving, demo2)"
    unfolding demo2_def by (rule run_step.serve) (rule demo_finalize_ok)
  have 3: "run_step demo_limits (Serving, demo2) (Serving, demo3)"
    unfolding demo3_def by (rule run_step.serve) (rule demo_finalize_ok)
  show "(run_step demo_limits)\<^sup>*\<^sup>* (Serving, demo0) (Serving, demo1)" using 1 by blast
  show *: "(run_step demo_limits)\<^sup>*\<^sup>* (Serving, demo1) (Serving, demo3)"
    using 2 3 by (meson rtranclp.rtrancl_into_rtrancl rtranclp.rtrancl_refl)
  show "(run_step demo_limits)\<^sup>*\<^sup>* (Serving, demo0) (Serving, demo3)"
    using 1 * by (rule converse_rtranclp_into_rtranclp)
qed

lemmas demo_eval = demo_limits_def demo0_def New_def demo_options_def orDefaultInt_def orDefault_def
  MaxConcurrentLines_def QueueLimit_def TerminalHistory_def QueueWait_def ActionBudget_def second_def
  demo_request_def demo_env_def turn_def expire_def expire_running_def overrun_def Submit_def
  Request_Validate_def Kind_Valid_def kinds_def WifiSetup_def Discovery_def onSubmit_def admit_new_def
  enqueue_def new_action_def formatID_def FormatUint.simps publish_def publicCopy_def Let_def dispatch.simps
  takeRunnable_def skipped_def refreshRunning_def switches_def launch_def startAction_def
  modify_def transition_def

definition demo_act :: "nat \<Rightarrow> Action" where
  "demo_act n = (if n = 1
     then new_action demo_limits (demo_env 10) ((demo_request KindLogin ''wan'' ''k1'')
       \<lparr>r_privateDigest := replicate 32 (CHR 0x00)\<rparr>) 1
     else new_action demo_limits (demo_env 20) ((demo_request KindLogin ''wanb'' ''k2'')
       \<lparr>r_privateDigest := replicate 32 (CHR 0x00)\<rparr>) 2)"

definition demo_started :: "nat \<Rightarrow> instant \<Rightarrow> Action" where
  "demo_started n t = (demo_act n)\<lparr>a_Sequence := n, a_State := StateRunning, a_StartedAt := t,
     a_Phase := PhaseWaitingLink\<rparr>"

lemma demo_act_simps [simp]:
  "a_ID (demo_act (Suc 0)) = ''x-a1''" "a_ID (demo_act 2) = ''x-a2''"
  "a_State (demo_act n) = StateQueued" "a_retired (demo_act n) = False"
  "r_Kind (a_Request (demo_act n)) = KindLogin" "a_Line (demo_act (Suc 0)) = ''wan''"
  "a_Line (demo_act 2) = ''wanb''" "a_QueuedAt (demo_act (Suc 0)) = 10" "a_QueuedAt (demo_act 2) = 20"
  "r_IdempotencyKey (a_Request (demo_act (Suc 0))) = ''k1''"
  "r_IdempotencyKey (a_Request (demo_act 2)) = ''k2''"
  by (simp_all add: demo_act_def demo_limits_def New_def new_action_def demo_request_def demo_env_def
      formatID_def FormatUint.simps)

lemma demo_started_simps [simp]:
  "a_State (demo_started n t) = StateRunning" "a_Line (demo_started n t) = a_Line (demo_act n)"
  "a_Request (demo_started n t) = a_Request (demo_act n)" "a_StartedAt (demo_started n t) = t"
  "a_retired (demo_started n t) = False"
  by (simp_all add: demo_started_def)

lemma demo1_eq: "demo1 = \<lparr>c_acts = demo_heap(''x-a1'' := demo_act 1), c_queue = [''x-a1''],
    c_index = [''x-a1''], c_byKey = [(''k1'', ''x-a1'')], c_running = [], c_busyLines = [],
    c_terminals = [], c_nextID = 1, c_nextSeq = 0, c_events = [Publish (publicCopy (demo_act 1))]\<rparr>"
  by (simp add: demo1_def demo_act_def demo_eval)

lemmas demo_step = turn_def expire_def expire_running_def overrun_def dispatch.simps takeRunnable_def
  skipped_def refreshRunning_def launch_def startAction_def modify_def transition_def publish_def
  Let_def switches_def WifiSetup_def

lemma demo_limits_simps [simp]:
  "l_parallel demo_limits = 4" "l_queueLimit demo_limits = 32" "l_history demo_limits = 64"
  "l_queueWait demo_limits = 30000000000" "l_actionBudget demo_limits = 600000000000"
  "l_instanceID demo_limits = ''x''"
  by (simp_all add: demo_eval)

lemma demo_env_simps [simp]: "e_check (demo_env t) r = None" "e_now (demo_env t) = t"
  by (simp_all add: demo_env_def)

lemma demo2_submit:
  assumes "map_of (c_byKey c) ''k2'' = None" and "length (c_queue c) < 32" and "c_nextID c = 1"
  shows "fst (Submit demo_limits (demo_env 20) (demo_request KindLogin ''wanb'' ''k2'') c) =
    publish ''x-a2'' (c\<lparr>c_nextID := 2, c_acts := (c_acts c)(''x-a2'' := demo_act 2),
      c_index := c_index c @ [''x-a2''], c_byKey := AList.update ''k2'' ''x-a2'' (c_byKey c),
      c_queue := c_queue c @ [''x-a2'']\<rparr>)"
  using assms
  by (simp add: Submit_def onSubmit_def admit_new_def enqueue_def Let_def Request_Validate_def
      Kind_Valid_def kinds_def WifiSetup_def Discovery_def demo_request_def demo_env_def demo_act_def
      new_action_def formatID_def FormatUint.simps numeral_2_eq_2
      digit_chars(4) [unfolded numeral_2_eq_2])

lemma demo2_eq: "demo2 = \<lparr>c_acts = demo_heap(''x-a1'' := demo_started 1 20, ''x-a2'' := demo_act 2),
    c_queue = [''x-a2''], c_index = [''x-a1'', ''x-a2''], c_byKey = [(''k1'', ''x-a1''), (''k2'', ''x-a2'')],
    c_running = [(''x-a1'', \<lparr>run_cancelled = False, run_line = ''wan'', run_overdue = False\<rparr>)],
    c_busyLines = [(''wan'', ''x-a1'')], c_terminals = [], c_nextID = 2, c_nextSeq = 1,
    c_events = [Publish (publicCopy (demo_act 1)), Publish (publicCopy (demo_started 1 20)),
      Publish (publicCopy (demo_act 2))]\<rparr>"
  by (simp add: demo2_def demo1_eq demo_step demo2_submit demo_started_def)

lemma demo3_eq: "demo3 = \<lparr>c_acts = demo_heap(''x-a1'' := demo_started 1 20, ''x-a2'' := demo_started 2 30),
    c_queue = [], c_index = [''x-a1'', ''x-a2''], c_byKey = [(''k1'', ''x-a1''), (''k2'', ''x-a2'')],
    c_running = [(''x-a1'', \<lparr>run_cancelled = False, run_line = ''wan'', run_overdue = False\<rparr>),
      (''x-a2'', \<lparr>run_cancelled = False, run_line = ''wanb'', run_overdue = False\<rparr>)],
    c_busyLines = [(''wan'', ''x-a1''), (''wanb'', ''x-a2'')], c_terminals = [], c_nextID = 2, c_nextSeq = 2,
    c_events = [Publish (publicCopy (demo_act 1)), Publish (publicCopy (demo_started 1 20)),
      Publish (publicCopy (demo_act 2)), Publish (publicCopy (demo_started 2 30))]\<rparr>"
  by (simp add: demo3_def demo2_eq demo_step demo_started_def) (simp add: numeral_2_eq_2)

lemma demo_inv: "coord_inv demo_limits demo0" "coord_inv demo_limits demo1" "coord_inv demo_limits demo3"
  using coord_start_inv [OF demo_start] coordinator.inv_reachable [OF demo_start demo_run(1)]
    coordinator.inv_reachable [OF demo_start demo_run(3)] by simp_all

text \<open>The same with a logout first: it takes every line, and the login behind it waits.\<close>

definition sw_act :: Action where
  "sw_act = new_action demo_limits (demo_env 10) ((demo_request KindLogout ''wan'' ''k1'')
     \<lparr>r_privateDigest := replicate 32 (CHR 0x00)\<rparr>) 1"

definition sw1 :: Coord where
  "sw1 = turn demo_limits (demo_env 10) (CallSubmit (demo_request KindLogout ''wan'' ''k1'')) demo0"

definition sw2 :: Coord where
  "sw2 = turn demo_limits (demo_env 20) (CallSubmit (demo_request KindLogin ''wanb'' ''k2'')) sw1"

definition sw_started :: Action where
  "sw_started = sw_act\<lparr>a_Sequence := 1, a_State := StateRunning, a_StartedAt := 20,
     a_Phase := PhaseWaitingLink\<rparr>"

lemma sw_act_simps [simp]:
  "a_ID sw_act = ''x-a1''" "a_State sw_act = StateQueued" "a_retired sw_act = False"
  "r_Kind (a_Request sw_act) = KindLogout" "a_Line sw_act = ''wan''" "a_QueuedAt sw_act = 10"
  "r_IdempotencyKey (a_Request sw_act) = ''k1''"
  by (simp_all add: sw_act_def demo_limits_def New_def new_action_def demo_request_def demo_env_def
      formatID_def FormatUint.simps)

lemma sw_started_simps [simp]:
  "a_State sw_started = StateRunning" "a_Line sw_started = ''wan''"
  "a_Request sw_started = a_Request sw_act" "a_StartedAt sw_started = 20" "a_retired sw_started = False"
  by (simp_all add: sw_started_def)

lemma sw1_eq: "sw1 = \<lparr>c_acts = demo_heap(''x-a1'' := sw_act), c_queue = [''x-a1''],
    c_index = [''x-a1''], c_byKey = [(''k1'', ''x-a1'')], c_running = [], c_busyLines = [],
    c_terminals = [], c_nextID = 1, c_nextSeq = 0, c_events = [Publish (publicCopy sw_act)]\<rparr>"
  by (simp add: sw1_def sw_act_def superseded_def cancel_all_def demo_eval)

lemma sw2_eq: "sw2 = \<lparr>c_acts = demo_heap(''x-a1'' := sw_started, ''x-a2'' := demo_act 2),
    c_queue = [''x-a2''], c_index = [''x-a1'', ''x-a2''], c_byKey = [(''k1'', ''x-a1''), (''k2'', ''x-a2'')],
    c_running = [(''x-a1'', \<lparr>run_cancelled = False, run_line = ''wan'', run_overdue = False\<rparr>)],
    c_busyLines = [(''wan'', ''x-a1'')], c_terminals = [], c_nextID = 2, c_nextSeq = 1,
    c_events = [Publish (publicCopy sw_act), Publish (publicCopy sw_started),
      Publish (publicCopy (demo_act 2))]\<rparr>"
  by (simp add: sw2_def sw1_eq demo_step demo2_submit sw_started_def)

lemma sw_run: "(run_step demo_limits)\<^sup>*\<^sup>* (Serving, demo0) (Serving, sw2)"
proof -
  have 1: "run_step demo_limits (Serving, demo0) (Serving, sw1)"
    unfolding sw1_def by (rule run_step.serve) (rule demo_finalize_ok)
  have 2: "run_step demo_limits (Serving, sw1) (Serving, sw2)"
    unfolding sw2_def by (rule run_step.serve) (rule demo_finalize_ok)
  show ?thesis using 1 2 by (meson rtranclp.rtrancl_into_rtrancl rtranclp.rtrancl_refl)
qed

lemma sw_inv: "coord_inv demo_limits sw2"
  using coordinator.inv_reachable [OF demo_start sw_run] by simp

end
