(* ===== verification/Coordinator_Ends.thy ===== *)
theory Coordinator_Ends
  imports Coordinator_Demo
begin

text \<open>
  How actions end: by deadline, by cancellation, by shutdown; and what leaves the coordinator when
  they do (the published copies and the history carry no wizard draft).
\<close>

subsection \<open>Deadlines\<close>

lemma running_indexed:
  assumes "coord_inv lim c" and "(i, r) \<in> set (c_running c)"
  shows "i \<in> set (c_index c)"
proof -
  have "i \<in> set (runningIDs c)" using assms(2) by (force simp: mkeys_def)
  then show ?thesis using assms(1) by (auto simp: coord_inv_def intro: running_facts(3))
qed

lemma times_retire [simp]:
  "a_QueuedAt (c_acts (retire lim i c) j) = a_QueuedAt (c_acts c j)"
  "a_StartedAt (c_acts (retire lim i c) j) = a_StartedAt (c_acts c j)"
  by (simp_all add: c_acts_retire)

lemma times_expire_queued [simp]:
  "a_QueuedAt (c_acts (expire_queued lim now i c) j) = a_QueuedAt (c_acts c j)"
  "a_StartedAt (c_acts (expire_queued lim now i c) j) = a_StartedAt (c_acts c j)"
  by (simp_all add: expire_queued_def transition_def Let_def)

lemma expire_queue_filter:
  "c_queue (expire_queue lim now kept rest c) =
     kept @ filter (\<lambda>i. now - a_QueuedAt (c_acts c i) < l_queueWait lim) rest"
  "a_QueuedAt (c_acts (expire_queue lim now kept rest c) j) = a_QueuedAt (c_acts c j)"
  "a_StartedAt (c_acts (expire_queue lim now kept rest c) j) = a_StartedAt (c_acts c j)"
  by (induction lim now kept rest c rule: expire_queue.induct) auto

lemma fold_considerDeadline:
  assumes "\<forall>x \<in> set xs. 0 < x" and "0 \<le> s"
  shows "(fold considerDeadline xs s = 0 \<longleftrightarrow> s = 0 \<and> xs = []) \<and>
    fold considerDeadline xs s \<in> insert s (set xs) \<and>
    (\<forall>x \<in> set xs. fold considerDeadline xs s \<le> x) \<and> (s \<noteq> 0 \<longrightarrow> fold considerDeadline xs s \<le> s)"
  using assms
proof (induction xs arbitrary: s)
  case Nil
  then show ?case by simp
next
  case (Cons x xs)
  then have "0 < considerDeadline x s" "considerDeadline x s \<le> x" "considerDeadline x s \<in> {x, s}"
      "s \<noteq> 0 \<longrightarrow> considerDeadline x s \<le> s"
    by (auto simp: considerDeadline_def)
  with Cons.IH [of "considerDeadline x s"] Cons.prems show ?case by auto
qed

definition deadlines :: "Limits \<Rightarrow> Coord \<Rightarrow> instant set" where
  "deadlines lim c = {a_QueuedAt (c_acts c i) + l_queueWait lim | i. i \<in> set (c_queue c)} \<union>
     {a_StartedAt (c_acts c i) + l_actionBudget lim | i r. (i, r) \<in> set (c_running c) \<and> \<not> run_overdue r}"

lemma nextDeadline_min:
  assumes "coord_inv lim c" and "\<forall>t \<in> deadlines lim c. 0 < t"
  shows "case nextDeadline lim c of None \<Rightarrow> deadlines lim c = {}
    | Some t \<Rightarrow> t \<in> deadlines lim c \<and> (\<forall>u \<in> deadlines lim c. t \<le> u)"
proof -
  let ?xs = "map (\<lambda>i. a_QueuedAt (c_acts c i) + l_queueWait lim) (c_queue c) @
     map (\<lambda>(i, r). a_StartedAt (c_acts c i) + l_actionBudget lim)
       (filter (\<lambda>(i, r). \<not> run_overdue r \<and> i \<in> set (c_index c)) (c_running c))"
  have "i \<in> set (c_index c)" if "(i, r) \<in> set (c_running c)" for i r
    using assms(1) that by (rule running_indexed)
  then have "set ?xs = deadlines lim c" by (force simp: deadlines_def)
  with fold_considerDeadline [of ?xs 0] assms(2) show ?thesis
    by (auto simp: nextDeadline_def Let_def simp del: fold_append set_append)
qed

text \<open>
  The deadline timer makes progress. After a turn has expired what was due at \<open>now\<close>, the next
  deadline the loop sleeps for is the earliest of all, and it lies strictly in the future (the loop
  cannot spin); when there is none, nothing is waiting and every running action is already overdue.
\<close>

theorem deadline_timer_progress:
  assumes "coord_inv lim c" and "0 \<le> now" and "d = expire lim now c"
  shows "case nextDeadline lim d of
      None \<Rightarrow> c_queue d = [] \<and> (\<forall>(i, r) \<in> set (c_running d). run_overdue r)
    | Some t \<Rightarrow> now < t \<and> t \<in> deadlines lim d \<and> (\<forall>u \<in> deadlines lim d. t \<le> u)"
proof -
  have inv: "coord_inv lim d" using assms expire_inv by simp
  have idx: "i \<in> set (c_index d)" if "(i, r) \<in> set (c_running d)" for i r
    using inv that by (rule running_indexed)
  have later: "now < t" if "t \<in> deadlines lim d" for t
    using that idx
    by (fastforce simp: deadlines_def assms(3) expire_def expire_running_def overrun_def
        expire_queue_filter split: if_splits)
  then have "\<forall>t \<in> deadlines lim d. 0 < t" using assms(2) by (meson le_less_trans)
  from nextDeadline_min [OF inv this] show ?thesis
    by (auto simp: later deadlines_def split: option.splits)
qed

theorem deadline_timer_progress_witness:
  "c_queue (expire demo_limits 50 demo3) = [] \<and>
   (case nextDeadline demo_limits (expire demo_limits 50 demo3) of None \<Rightarrow> True | Some t \<Rightarrow> 50 < t)"
  using deadline_timer_progress [OF demo_inv(3), of 50, OF _ refl]
  by (auto simp: demo3_eq expire_def expire_running_def split: option.splits)

subsection \<open>Cancellation\<close>

lemma release_frees:
  assumes "coord_wf lim {} c" and "map_of (c_running c) i = Some r"
  shows "map_of (c_busyLines (release i r c)) l \<noteq> Some i"
proof
  assume "map_of (c_busyLines (release i r c)) l = Some i"
  moreover have wf: "coord_wf lim {i} (release i r c)" using assms by (rule wf_release)
  ultimately have "i \<in> set (runningIDs (release i r c))" using wf_parts(4) [OF wf]
    unfolding wf_lines_def by blast
  with wf_parts(1) [OF wf] show False by (auto simp: wf_places_def)
qed

lemma onFinish_frees:
  assumes inv: "coord_inv lim c" and i: "i \<in> set (runningIDs c)" and "cp_id done = i"
  shows "i \<notin> set (runningIDs (onFinish lim env done c))"
    and "map_of (c_busyLines (onFinish lim env done c)) l \<noteq> Some i"
proof -
  have wf: "coord_wf lim {} c" using inv by (simp add: coord_inv_def)
  obtain r where r: "map_of (c_running c) i = Some r" using i mkeys_Some by fast
  have idx: "cp_id done \<in> set (c_index c)" using running_facts(3) [OF wf i] assms(3) by simp
  have r': "map_of (c_running c) (cp_id done) = Some r" using r assms(3) by simp
  note unf = onFinish_unfold [OF idx r', of lim env]
  show "i \<notin> set (runningIDs (onFinish lim env done c))"
    using assms(3) by (simp add: unf Let_def)
  show "map_of (c_busyLines (onFinish lim env done c)) l \<noteq> Some i"
    using release_frees [OF wf r] assms(3) by (simp add: unf Let_def)
qed


subsection \<open>Shutdown\<close>

lemma stop_running_terminal:
  "i \<in> set (c_index c) \<Longrightarrow> Terminal (a_State (c_acts (stop_running now i c) i))"
  by (auto simp: stop_running_def Let_def transition_def)

lemma stop_running_keeps_terminal:
  "Terminal (a_State (c_acts c j)) \<Longrightarrow> Terminal (a_State (c_acts (stop_running now i c) j))"
  by (auto simp: stop_running_def Let_def transition_def)

lemma fold_stop_keeps_terminal:
  "Terminal (a_State (c_acts c j)) \<Longrightarrow> Terminal (a_State (c_acts (fold (stop_running now) ids c) j))"
  by (induction ids arbitrary: c) (auto intro: stop_running_keeps_terminal)

lemma fold_stop_terminal:
  "j \<in> set ids \<Longrightarrow> j \<in> set (c_index c) \<Longrightarrow>
     Terminal (a_State (c_acts (fold (stop_running now) ids c) j))"
  by (induction ids arbitrary: c) (auto intro: stop_running_terminal fold_stop_keeps_terminal)

lemma stop_running_handles:
  "(j, r) \<in> set (c_running (stop_running now i c)) \<Longrightarrow>
     (j = i \<and> run_cancelled r) \<or> (j \<noteq> i \<and> (j, r) \<in> set (c_running c))"
  by (auto simp: stop_running_def Let_def set_run_def split: if_splits)

lemma fold_stop_handles:
  "(j, r) \<in> set (c_running (fold (stop_running now) ids c)) \<Longrightarrow>
     run_cancelled r \<or> (j \<notin> set ids \<and> (j, r) \<in> set (c_running c))"
  by (induction ids arbitrary: c) (fastforce dest: stop_running_handles)+

text \<open>
  Shutdown leaves nothing open. When the loop is told to stop, no action is left queued, every
  remembered action has a terminal state, and every worker still running has been told to stop.
\<close>

theorem shutdown_interrupts_everything:
  assumes inv: "coord_inv lim c" and d: "d = shutdown lim env None c"
  shows "c_queue d = [] \<and> (\<forall>i \<in> set (c_index d). Terminal (a_State (c_acts d i))) \<and>
    (\<forall>(i, r) \<in> set (c_running d). run_cancelled r)"
proof -
  let ?q = "(fold (stop_queued lim (e_now env)) (c_queue c) c)\<lparr>c_queue := []\<rparr>"
  have deq: "d = fold (stop_running (e_now env)) (runningIDs ?q) ?q"
    by (simp add: d shutdown_def Let_def)
  have "drained lim (c_queue c) c" using inv by (simp add: drained_def coord_inv_def bounded_def)
  then have wq: "coord_wf lim {} ?q" using stop_queued_drained by (simp add: drained_def)
  then have "coord_wf lim {} d" unfolding deq by (rule fold_stop_running) simp
  moreover have runs: "runningIDs d = runningIDs ?q" "c_queue d = []" by (simp_all add: deq)
  ultimately have "i \<in> set (runningIDs ?q) \<or> Terminal (a_State (c_acts d i))"
    if "i \<in> set (c_index d)" for i
    using that wf_parts(1,3) [of lim "{}" d] by (auto simp: wf_places_def wf_states_def)
  moreover have "Terminal (a_State (c_acts d i))" if "i \<in> set (runningIDs ?q)" for i
    unfolding deq using that running_facts(3) [OF wq that] by (rule fold_stop_terminal)
  moreover have "run_cancelled r" if "(i, r) \<in> set (c_running d)" for i r
  proof -
    have "i \<in> set (runningIDs d)" using that by (force simp: mkeys_def)
    then show ?thesis using fold_stop_handles that runs unfolding deq by fastforce
  qed
  ultimately show ?thesis using runs(2) by blast
qed

subsection \<open>Confidentiality of wizard drafts\<close>

text \<open>
  The private payload of a request never leaves the coordinator: no published copy, no answer
  to a reader, and no entry of the retained history carries it.
\<close>

theorem private_payload_confined:
  assumes "coord_start lim s" and "(run_step lim)\<^sup>*\<^sup>* s (m, c)"
  shows "(\<forall>a. Publish a \<in> set (c_events c) \<longrightarrow> r_PrivateJSON (a_Request a) = []) \<and>
    (\<forall>a \<in> set (onList c). r_PrivateJSON (a_Request a) = []) \<and>
    (\<forall>i a. getAction i c = Inr a \<longrightarrow> r_PrivateJSON (a_Request a) = []) \<and>
    (\<forall>i \<in> set (c_terminals c). r_PrivateJSON (a_Request (c_acts c i)) = [])"
proof -
  have "coord_wf lim {} c" using coordinator.inv_reachable [OF assms] by (simp add: coord_inv_def)
  then have "wf_events c" and "wf_states {} c" by (simp_all add: wf_parts)
  moreover have "\<forall>a \<in> set (onList c). r_PrivateJSON (a_Request a) = []"
    by (auto simp: onList_def publicCopy_def)
  moreover have "\<forall>i a. getAction i c = Inr a \<longrightarrow> r_PrivateJSON (a_Request a) = []"
    by (auto simp: getAction_def publicCopy_def split: if_splits)
  ultimately show ?thesis by (simp add: wf_events_def wf_states_def)
qed


theorem shutdown_interrupts_everything_witness:
  "c_queue (shutdown demo_limits (demo_env 50) None demo3) = []"
  using shutdown_interrupts_everything [OF demo_inv(3) refl] by simp

theorem private_payload_confined_witness:
  "Publish (publicCopy (demo_started 1 20)) \<in> set (c_events demo3) \<and>
   r_PrivateJSON (a_Request (publicCopy (demo_started 1 20))) = []"
  using private_payload_confined [OF demo_start demo_run(3)] by (simp add: demo3_eq)

subsection \<open>A logout clears the account's maintenance\<close>

lemma onCancel_terminal:
  assumes "coord_inv lim c" and "i \<in> set (c_index c)"
  shows "Terminal (a_State (c_acts (fst (onCancel lim env i c)) i))"
proof -
  have "coord_wf lim {} c" using assms(1) by (simp add: coord_inv_def)
  then show ?thesis
    by (rule onCancel_cases [where i = i and env = env])
      (use assms(2) in \<open>auto simp: transition_state settle_def c_acts_retire dest: queue_facts(6)\<close>)
qed

lemma onCancel_index: "set (c_index (fst (onCancel lim env i c))) \<subseteq> set (c_index c)"
proof -
  have ev: "set (c_index (evict lim c)) \<subseteq> set (c_index c)" for c
  proof (induction lim c rule: evict.induct)
    case (1 lim c)
    have "set (c_index (evict_one c)) \<subseteq> set (c_index c)"
      by (auto simp: evict_one_def Let_def split: list.splits if_splits)
    with 1 show ?case by (subst evict.simps) auto
  qed
  have rt: "set (c_index (retire lim i c)) \<subseteq> set (c_index c)" for c
    by (auto simp: retire_def Let_def dest!: subsetD [OF ev])
  show ?thesis
    by (auto simp: onCancel_def Let_def removeFromQueue_def dest!: subsetD [OF rt] split: option.splits)
qed

lemma onCancel_request [simp]:
  "r_AccountID (a_Request (c_acts (fst (onCancel lim env i c)) j)) = r_AccountID (a_Request (c_acts c j))"
  "kindOf (fst (onCancel lim env i c)) j = kindOf c j"
  by (auto simp: onCancel_def Let_def c_acts_retire removeFromQueue_def transition_def split: option.splits)

lemma cancel_all_spec:
  assumes "coord_inv lim c" and "j \<in> set (c_index (cancel_all lim env ids c))"
  shows "j \<in> set (c_index c)" and "kindOf (cancel_all lim env ids c) j = kindOf c j"
    and "r_AccountID (a_Request (c_acts (cancel_all lim env ids c) j)) = r_AccountID (a_Request (c_acts c j))"
    and "Terminal (a_State (c_acts c j)) \<or> j \<in> set ids \<Longrightarrow>
      Terminal (a_State (c_acts (cancel_all lim env ids c) j))"
proof -
  have "j \<in> set (c_index c) \<and> kindOf (cancel_all lim env ids c) j = kindOf c j \<and>
      r_AccountID (a_Request (c_acts (cancel_all lim env ids c) j)) = r_AccountID (a_Request (c_acts c j)) \<and>
      (Terminal (a_State (c_acts c j)) \<or> j \<in> set ids \<longrightarrow>
        Terminal (a_State (c_acts (cancel_all lim env ids c) j)))"
    using assms
  proof (induction ids arbitrary: c)
    case Nil
    then show ?case by (simp add: cancel_all_def)
  next
    case (Cons i ids)
    let ?d = "fst (onCancel lim env i c)"
    have eq: "cancel_all lim env (i # ids) c = cancel_all lim env ids ?d" by (simp add: cancel_all_def)
    have inv: "coord_inv lim ?d" using Cons.prems(1) by (rule onCancel_inv)
    note IH = Cons.IH [OF inv Cons.prems(2) [unfolded eq]]
    have j: "j \<in> set (c_index c)" using IH onCancel_index by fast
    then obtain n where "j = actionID lim n" "n \<le> c_nextID c"
      using Cons.prems(1) by (auto simp: coord_inv_def coord_wf_def wf_ids_def)
    moreover have "keeps lim c ?d" using Cons.prems(1) by (simp add: keeps_onCancel coord_inv_def)
    ultimately have "Terminal (a_State (c_acts c j)) \<longrightarrow> Terminal (a_State (c_acts ?d j))"
      by (auto simp: keeps_def frozen_act_def)
    moreover have "Terminal (a_State (c_acts ?d i))" if "j = i"
      using Cons.prems(1) j that onCancel_terminal by simp
    ultimately show ?case using IH j unfolding eq by auto
  qed
  then show "j \<in> set (c_index c)" "kindOf (cancel_all lim env ids c) j = kindOf c j"
    "r_AccountID (a_Request (c_acts (cancel_all lim env ids c) j)) = r_AccountID (a_Request (c_acts c j))"
    "Terminal (a_State (c_acts c j)) \<or> j \<in> set ids \<Longrightarrow>
      Terminal (a_State (c_acts (cancel_all lim env ids c) j))" by simp_all
qed

lemma admit_logout:
  assumes inv: "coord_inv lim c" and k: "r_Kind r = KindLogout"
    and adm: "admit_new lim env r c = (d, Inr rc)"
    and j: "j \<in> set (c_index d)" "r_AccountID (a_Request (c_acts d j)) = r_AccountID r"
      "\<not> Manual (kindOf d j)"
  shows "Terminal (a_State (c_acts d j))"
proof -
  let ?e = "cancel_all lim env (superseded r c) c"
  have d: "d = fst (enqueue lim env r ?e)"
    using adm k by (auto simp: admit_new_def Let_def case_prod_unfold split: option.splits if_splits)
  have new: "c_acts d j = c_acts ?e j \<and> j \<in> set (c_index ?e)"
    using j k by (auto simp: d enqueue_def Let_def new_action_def Manual_def split: if_splits)
  note spec = cancel_all_spec [OF inv, of j env "superseded r c", OF new [THEN conjunct2]]
  have "Terminal (a_State (c_acts c j)) \<or> j \<in> set (superseded r c)"
    using spec(1-3) j(2,3) new k by (auto simp: superseded_def Let_def)
  then show ?thesis using spec(4) new by simp
qed

text \<open>
  A user's logout is not undone by the machine. When a logout is admitted, every unfinished
  automatic action of that account (maintenance, forced logout, quiet-hours switch) has been
  cancelled before the logout is queued.
\<close>

theorem logout_clears_automatic_actions:
  assumes inv: "coord_inv lim c" and k: "r_Kind r = KindLogout"
    and sub: "Submit lim env r c = (d, Inr rc)" and fresh: "\<not> rc_Duplicate rc"
    and j: "j \<in> set (c_index d)" "r_AccountID (a_Request (c_acts d j)) = r_AccountID r"
      "\<not> Manual (kindOf d j)"
  shows "Terminal (a_State (c_acts d j))"
proof (cases "map_of (c_byKey c) (r_IdempotencyKey r)")
  case None
  let ?r = "r\<lparr>r_privateDigest := e_Sum256 env (r_PrivateJSON r)\<rparr>"
  have "admit_new lim env ?r c = (d, Inr rc)"
    using None sub by (auto simp: Submit_def onSubmit_def Let_def split: option.splits)
  then show ?thesis using inv k j by (intro admit_logout [of lim c ?r]) simp_all
next
  case (Some i)
  then have "i \<in> set (c_index c)"
    using inv wf_parts(6) by (auto simp: coord_inv_def coord_wf_def wf_keys_def)
  with Some sub fresh show ?thesis
    by (auto simp: Submit_def onSubmit_def Let_def split: option.splits if_splits)
qed

definition mt_act :: Action where
  "mt_act = new_action demo_limits (demo_env 10) ((demo_request KindMaintain ''wan'' ''k1'')
     \<lparr>r_privateDigest := replicate 32 (CHR 0x00)\<rparr>) 1"

definition mt1 :: Coord where
  "mt1 = turn demo_limits (demo_env 10) (CallSubmit (demo_request KindMaintain ''wan'' ''k1'')) demo0"

lemma mt_act_simps [simp]:
  "a_ID mt_act = ''x-a1''" "a_State mt_act = StateQueued" "a_retired mt_act = False"
  "r_Kind (a_Request mt_act) = KindMaintain" "r_AccountID (a_Request mt_act) = ''wan''"
  "r_IdempotencyKey (a_Request mt_act) = ''k1''"
  by (simp_all add: mt_act_def demo_limits_def New_def new_action_def demo_request_def demo_env_def
      formatID_def FormatUint.simps)

lemma mt1_eq: "mt1 = \<lparr>c_acts = demo_heap(''x-a1'' := mt_act), c_queue = [''x-a1''],
    c_index = [''x-a1''], c_byKey = [(''k1'', ''x-a1'')], c_running = [], c_busyLines = [],
    c_terminals = [], c_nextID = 1, c_nextSeq = 0, c_events = [Publish (publicCopy mt_act)]\<rparr>"
  by (simp add: mt1_def mt_act_def demo_eval)

lemma mt1_inv: "coord_inv demo_limits mt1"
  unfolding mt1_def using demo_inv(1) demo_finalize_ok by (rule turn_inv)

theorem logout_clears_automatic_actions_witness:
  "Terminal (a_State (c_acts (fst (Submit demo_limits (demo_env 20)
     (demo_request KindLogout ''wan'' ''k2'') mt1)) ''x-a1''))"
proof -
  let ?sub = "Submit demo_limits (demo_env 20) (demo_request KindLogout ''wan'' ''k2'') mt1"
  have val: "Request_Validate (demo_request KindLogout ''wan'' ''k2'') = None"
    by (simp add: Request_Validate_def Kind_Valid_def kinds_def demo_request_def WifiSetup_def Discovery_def)
  have req: "r_Kind (demo_request k a i) = k" "r_AccountID (demo_request k a i) = a"
    "r_IdempotencyKey (demo_request k a i) = i" "r_PrivateJSON (demo_request k a i) = []" for k a i
    by (simp_all add: demo_request_def)
  note ev = Submit_def onSubmit_def admit_new_def enqueue_def Let_def val mt1_eq superseded_def Manual_def
    cancel_all_def onCancel_def removeFromQueue_def retire_def modify_def transition_def evict.simps
    publish_def new_action_def formatID_def FormatUint.simps digit_chars(4) [unfolded numeral_2_eq_2]
  have s: "?sub = (fst ?sub, Inr \<lparr>rc_ActionID = ''x-a2'', rc_State = StateQueued, rc_Duplicate = False\<rparr>)"
    "''x-a1'' \<in> set (c_index (fst ?sub))" "kindOf (fst ?sub) ''x-a1'' = KindMaintain"
    "r_AccountID (a_Request (c_acts (fst ?sub) ''x-a1'')) = ''wan''"
    by (simp_all add: ev demo_env_def req)
  show ?thesis
    using logout_clears_automatic_actions [OF mt1_inv _ s(1) _ s(2)] s(3,4)
    by (simp add: demo_request_def Manual_def)
qed

end
