(* ===== verification/Request_Identity.thy ===== *)
theory Request_Identity
  imports Action_Model
begin

text \<open>
  The identity of a request: the fingerprint of \<open>application/action.go\<close> tells two requests apart
  whenever they ask for different work, so a reused idempotency key is answered as a duplicate only
  for the very same request. The printed parts (hexadecimal digest, decimal revision) are the codecs
  of \<open>Go_Text\<close>.
\<close>

subsection \<open>Fields joined by NUL\<close>

fun joinz :: "string list \<Rightarrow> string" where
  "joinz [] = []"
| "joinz [f] = f"
| "joinz (f # g # fs) = f @ sep @ joinz (g # fs)"

definition nul_free :: "string \<Rightarrow> bool" where
  "nul_free s \<longleftrightarrow> CHR 0x00 \<notin> set s"

lemma joinz_inj:
  assumes "length fs = length gs" and "\<forall>f \<in> set fs. nul_free f" and "\<forall>g \<in> set gs. nul_free g"
    and "joinz fs = joinz gs"
  shows "fs = gs"
  using assms
proof (induction fs gs rule: list_induct2)
  case Nil
  then show ?case by simp
next
  case (Cons f fs g gs)
  show ?case
  proof (cases fs)
    case Nil
    with Cons show ?thesis by (cases gs) auto
  next
    case (Cons f' fs')
    then obtain g' gs' where gs: "gs = g' # gs'" using Cons.hyps by (cases gs) auto
    have "f @ CHR 0x00 # joinz fs = g @ CHR 0x00 # joinz gs"
      using Cons.prems(3) Cons gs by (simp add: sep_def)
    then have "f = g \<and> joinz fs = joinz gs"
      using Cons.prems by (intro append_sep_inj [of "CHR 0x00"]) (auto simp: nul_free_def)
    with Cons.IH Cons.prems show ?thesis by simp
  qed
qed

definition revision_field :: "Request \<Rightarrow> string" where
  "revision_field r = FormatBool (r_CheckRevision r) @ '':'' @ FormatUint (r_ConfigRevision r)"

definition fields :: "Request \<Rightarrow> string list" where
  "fields r = [kind_string (r_Kind r), r_AccountID r, r_HotspotID r, if r_IgnoreQuiet r then ''1'' else ''0'',
     r_Interface r, revision_field r, r_ProbeURL r, r_ProbeSSID r, r_ProbeMode r, r_ProbeSchool r,
     r_ProbeACID r, r_Owner r, EncodeToString (r_privateDigest r), r_SetupJob r]"

lemma fingerprint_joinz: "fingerprint r = joinz (fields r)"
  by (simp add: fingerprint_def fields_def revision_field_def Let_def)

definition plain_fields :: "Request \<Rightarrow> bool" where
  "plain_fields r \<longleftrightarrow> Kind_Valid (r_Kind r) \<and> (\<forall>f \<in> {r_AccountID r, r_HotspotID r, r_Interface r,
     r_ProbeURL r, r_ProbeSSID r, r_ProbeMode r, r_ProbeSchool r, r_ProbeACID r, r_Owner r, r_SetupJob r}.
     nul_free f)"

lemma nul_free_FormatUint: "nul_free (FormatUint n)"
  using FormatUint_digits [of "CHR 0x00" n] by (auto simp: nul_free_def is_digit_def)

lemma nul_free_hex: "nul_free (EncodeToString bs)"
proof -
  have "hex_digit (of_char b div 16) \<noteq> CHR 0x00" "hex_digit (of_char b mod 16) \<noteq> CHR 0x00" for b :: char
    using of_char_lt [of b] by (auto intro!: hex_not_nul simp: less_mult_imp_div_less)
  then show ?thesis by (fastforce simp: nul_free_def EncodeToString_def)
qed

lemma nul_free_kind: "Kind_Valid k \<Longrightarrow> nul_free (kind_string k)"
  by (auto simp: Kind_Valid_def kinds_def nul_free_def)

lemma nul_free_fields: "plain_fields r \<Longrightarrow> \<forall>f \<in> set (fields r). nul_free f"
  using nul_free_FormatUint [of "r_ConfigRevision r"] nul_free_hex [of "r_privateDigest r"]
  by (auto simp: plain_fields_def fields_def revision_field_def nul_free_kind)
    (auto simp: nul_free_def FormatBool_def split: if_splits)

lemma kind_string_inj: "Kind_Valid k \<Longrightarrow> Kind_Valid l \<Longrightarrow> kind_string k = kind_string l \<Longrightarrow> k = l"
  by (auto simp: Kind_Valid_def kinds_def)

lemma revision_field_inj:
  "revision_field r = revision_field q \<Longrightarrow>
     r_CheckRevision r = r_CheckRevision q \<and> r_ConfigRevision r = r_ConfigRevision q"
  by (auto simp: revision_field_def FormatBool_def split: if_splits)

text \<open>
  Two requests have the same fingerprint only if they are the same request: same kind, account,
  hotspot, revision, probe parameters, owner, setup job and private digest. Only the idempotency key
  and the private payload itself (known through its digest) are left out.
\<close>

theorem fingerprint_identifies_request:
  assumes "plain_fields r" and "plain_fields q" and "fingerprint r = fingerprint q"
  shows "q = r\<lparr>r_PrivateJSON := r_PrivateJSON q, r_IdempotencyKey := r_IdempotencyKey q\<rparr>"
proof -
  have "fields r = fields q"
    using assms by (intro joinz_inj) (auto simp: nul_free_fields fingerprint_joinz, simp add: fields_def)
  then have f: "r_AccountID r = r_AccountID q" "r_HotspotID r = r_HotspotID q"
      "r_IgnoreQuiet r = r_IgnoreQuiet q" "r_Interface r = r_Interface q" "r_ProbeURL r = r_ProbeURL q"
      "r_ProbeSSID r = r_ProbeSSID q" "r_ProbeMode r = r_ProbeMode q" "r_ProbeSchool r = r_ProbeSchool q"
      "r_ProbeACID r = r_ProbeACID q" "r_Owner r = r_Owner q" "r_SetupJob r = r_SetupJob q"
    and g: "kind_string (r_Kind r) = kind_string (r_Kind q)" "revision_field r = revision_field q"
      "EncodeToString (r_privateDigest r) = EncodeToString (r_privateDigest q)"
    by (auto simp: fields_def split: if_splits)
  have "r_Kind r = r_Kind q" using g(1) assms kind_string_inj by (auto simp: plain_fields_def)
  moreover have "r_privateDigest r = r_privateDigest q" using g(3) by (simp add: hex.enc_inj)
  ultimately show ?thesis using f revision_field_inj [OF g(2)] by (cases r, cases q) simp
qed

definition sample_request :: Request where
  "sample_request = \<lparr>r_Kind = KindLogin, r_AccountID = ''acct'', r_HotspotID = [], r_Interface = [],
     r_ProbeURL = [], r_ProbeSSID = [], r_ProbeMode = [], r_ProbeSchool = [], r_ProbeACID = [],
     r_Owner = ''ui'', r_SetupJob = [], r_PrivateJSON = [], r_privateDigest = [CHR 0xAB],
     r_IdempotencyKey = ''k'', r_IgnoreQuiet = False, r_CheckRevision = True, r_ConfigRevision = 12\<rparr>"

theorem fingerprint_identifies_request_witness:
  "fingerprint sample_request = fingerprint (sample_request\<lparr>r_IdempotencyKey := ''other''\<rparr>) \<and>
   sample_request\<lparr>r_IdempotencyKey := ''other''\<rparr> = sample_request\<lparr>r_PrivateJSON := [], r_IdempotencyKey := ''other''\<rparr>"
proof -
  let ?q = "sample_request\<lparr>r_IdempotencyKey := ''other''\<rparr>"
  have "plain_fields sample_request" "plain_fields ?q"
    by (simp_all add: plain_fields_def sample_request_def Kind_Valid_def kinds_def nul_free_def)
  moreover have "fingerprint sample_request = fingerprint ?q" by (simp add: fingerprint_def)
  ultimately show ?thesis using fingerprint_identifies_request [of sample_request ?q]
    by (simp add: sample_request_def)
qed

end
