(* ===== verification/Observe_Props.thy ===== *)
theory Observe_Props
  imports Observe_Store
begin

text \<open>
  What the status projection promises: what is recorded about an account never goes back in time,
  the order in which workers report does not matter, the explanation of the last action survives
  routine observation, and a snapshot does not depend on Go's map order.
\<close>

subsection \<open>The store as a machine\<close>

datatype StoreOp =
    OpAccept Observation
  | OpSetRevision nat
  | OpReset nat
  | OpStarted string string
  | OpFinished string Note
  | OpForget string

fun apply_op :: "StoreOp \<Rightarrow> Store \<Rightarrow> Store" where
  "apply_op (OpAccept ob) s = fst (Accept ob s)"
| "apply_op (OpSetRevision r) s = SetRevision r s"
| "apply_op (OpReset r) s = ResetConfiguration r s"
| "apply_op (OpStarted a i) s = ActionStarted a i s"
| "apply_op (OpFinished a n) s = ActionFinished a n s"
| "apply_op (OpForget a) s = Forget a s"

definition store_inv :: "Store \<Rightarrow> bool" where
  "store_inv s \<longleftrightarrow> distinct (mkeys (st_accounts s)) \<and>
     (\<forall>k e. map_of (st_accounts s) k = Some e \<longrightarrow> k \<noteq> [] \<and> av_AccountID (en_view e) = k)"

lemma distinct_update: "distinct (mkeys m) \<Longrightarrow> distinct (mkeys (AList.update k v m))"
  using distinct_update [of m k v] by (simp add: mkeys_def)

lemma inv_put:
  "store_inv s \<Longrightarrow> k \<noteq> [] \<Longrightarrow> av_AccountID (en_view e) = k \<Longrightarrow> store_inv (put_entry k e s)"
  by (auto simp: store_inv_def put_entry_def distinct_update update_conv')

lemma entryFor_id [simp]: "store_inv s \<Longrightarrow> av_AccountID (en_view (entryFor k s)) = k"
  by (auto simp: entryFor_def store_inv_def split: option.splits)

lemma Accept_put:
  "fst (Accept ob s) = s \<or> (ob_AccountID ob \<noteq> [] \<and> (\<exists>e. fst (Accept ob s) = put_entry (ob_AccountID ob) e s \<and>
     av_AccountID (en_view e) = ob_AccountID ob))"
  by (auto simp: Accept_def Let_def put_entry_def record_view_def)

lemma apply_op_inv: "store_inv s \<Longrightarrow> store_inv (apply_op p s)"
proof (cases p)
  case (OpAccept ob)
  assume "store_inv s"
  with OpAccept Accept_put [of ob s] show ?thesis by (auto intro: inv_put)
next
  case (OpForget a)
  assume "store_inv s"
  with OpForget show ?thesis by (auto simp: Forget_def store_inv_def delete_conv' distinct_removeAll)
qed (auto simp: SetRevision_def ResetConfiguration_def ActionStarted_def ActionFinished_def Let_def
    intro!: inv_put, auto simp: store_inv_def)

definition store_step :: "Store \<Rightarrow> Store \<Rightarrow> bool" where
  "store_step s t \<longleftrightarrow> (\<exists>p. t = apply_op p s)"

interpretation store: state_machine "\<lambda>s. s = NewStore" store_step store_inv
proof unfold_locales
  show "store_inv s" if "s = NewStore" for s using that by (simp add: store_inv_def NewStore_def)
  show "store_inv t" if "store_inv s" "store_step s t" for s t
    using that apply_op_inv by (auto simp: store_step_def)
qed

subsection \<open>Stamps\<close>

declare split_paired_Ex [simp del] split_paired_All [simp del]

text \<open>
  The stamp of a report: revision, generation, dispatch sequence, compared lexicographically.
\<close>

definition stamp_le :: "nat \<times> nat \<times> nat \<Rightarrow> nat \<times> nat \<times> nat \<Rightarrow> bool" where
  "stamp_le x y = (case (x, y) of ((r, g, s), (r', g', s')) \<Rightarrow>
     r < r' \<or> (r = r' \<and> (g < g' \<or> (g = g' \<and> s \<le> s'))))"

definition view_stamp :: "AccountView \<Rightarrow> nat \<times> nat \<times> nat" where
  "view_stamp v = (av_Revision v, av_Generation v, av_Sequence v)"

definition ob_stamp :: "Observation \<Rightarrow> nat \<times> nat \<times> nat" where
  "ob_stamp ob = (ob_Revision ob, ob_Generation ob, ob_Sequence ob)"

lemma stamp_refl [simp]: "stamp_le x x"
  by (cases x) (auto simp: stamp_le_def)

lemma stamp_trans: "stamp_le x y \<Longrightarrow> stamp_le y z \<Longrightarrow> stamp_le x z"
  by (cases x, cases y, cases z) (auto simp: stamp_le_def)

lemma stamp_antisym: "stamp_le x y \<Longrightarrow> stamp_le y x \<Longrightarrow> x = y"
  by (cases x, cases y) (auto simp: stamp_le_def)

lemma stamp_total: "stamp_le x y \<or> stamp_le y x"
  by (cases x, cases y) (auto simp: stamp_le_def)

lemma staleness_stamp: "staleness v ob = DropNone \<longleftrightarrow> stamp_le (view_stamp v) (ob_stamp ob)"
  by (auto simp: staleness_def stamp_le_def view_stamp_def ob_stamp_def)

lemma stamp_record [simp]: "view_stamp (record_view ob v) = ob_stamp ob"
  by (simp add: view_stamp_def ob_stamp_def record_view_def)

text \<open>
  \<open>observed a s\<close>: the stamp of what is recorded about an account, if a report has landed.
\<close>

definition observed :: "string \<Rightarrow> Store \<Rightarrow> (nat \<times> nat \<times> nat) option" where
  "observed a s = (case map_of (st_accounts s) a of
     Some e \<Rightarrow> if en_seen e then Some (view_stamp (en_view e)) else None
   | None \<Rightarrow> None)"

definition drops_account :: "string \<Rightarrow> StoreOp \<Rightarrow> bool" where
  "drops_account a p \<longleftrightarrow> p = OpForget a \<or> (\<exists>r. p = OpReset r)"

lemma observed_Accept:
  "observed a s = Some x \<Longrightarrow> \<exists>y. observed a (fst (Accept ob s)) = Some y \<and> stamp_le x y"
  by (auto simp: observed_def Accept_def Let_def update_conv' staleness_stamp split: option.splits if_splits)

lemma observed_op:
  assumes "observed a s = Some x" and "\<not> drops_account a p"
  shows "\<exists>y. observed a (apply_op p s) = Some y \<and> stamp_le x y"
proof (cases p)
  case (OpAccept ob)
  with assms(1) observed_Accept show ?thesis by simp
qed (use assms in \<open>auto simp: drops_account_def observed_def SetRevision_def ActionStarted_def
    ActionFinished_def Forget_def put_entry_def entryFor_def Let_def update_conv' delete_conv'
    view_stamp_def split: option.splits if_splits\<close>)


subsection \<open>Arrival order\<close>

text \<open>
  Reports in arrival order. Among the reports about one account with pairwise different stamps, the
  one that stays is the one with the greatest stamp.
\<close>

definition accept_all :: "Observation list \<Rightarrow> Store \<Rightarrow> Store" where
  "accept_all obs s = fold (\<lambda>ob s. fst (Accept ob s)) obs s"

definition latest_shown :: "string \<Rightarrow> Observation list \<Rightarrow> Store \<Rightarrow> bool" where
  "latest_shown a reports s \<longleftrightarrow> (reports = [] \<and> map_of (st_accounts s) a = None) \<or>
     (\<exists>best \<in> set reports. (\<forall>ob \<in> set reports. stamp_le (ob_stamp ob) (ob_stamp best)) \<and>
       map_of (st_accounts s) a =
         Some (zero_entry\<lparr>en_seen := True, en_view := record_view best zero_view\<rparr>))"

abbreviation about :: "string \<Rightarrow> Observation list \<Rightarrow> Observation list" where
  "about a obs \<equiv> filter (\<lambda>ob. ob_AccountID ob = a) obs"

lemma record_record [simp]: "record_view ob (record_view ob' v) = record_view ob v"
  by (simp add: record_view_def)

lemma Accept_floor: "st_revision (fst (Accept ob s)) = st_revision s"
  by (simp add: Accept_def Let_def)

lemma Accept_other: "ob_AccountID ob \<noteq> a \<Longrightarrow>
    map_of (st_accounts (fst (Accept ob s))) a = map_of (st_accounts s) a"
  by (simp add: Accept_def Let_def update_conv')

lemma latest_shown_step:
  assumes sh: "latest_shown a reports s" and a: "a \<noteq> []" "ob_AccountID ob = a" and fl: "st_revision s = 0"
  shows "latest_shown a (reports @ [ob]) (fst (Accept ob s))"
proof (cases "map_of (st_accounts s) a")
  case None
  with sh have "reports = []" by (auto simp: latest_shown_def)
  with None a fl show ?thesis
    by (auto simp: latest_shown_def Accept_def Let_def zero_entry_def update_conv')
next
  case (Some e)
  with sh obtain best where b: "best \<in> set reports" "\<forall>ob \<in> set reports. stamp_le (ob_stamp ob) (ob_stamp best)"
    and e: "e = zero_entry\<lparr>en_seen := True, en_view := record_view best zero_view\<rparr>"
    by (auto simp: latest_shown_def)
  show ?thesis
  proof (cases "stamp_le (ob_stamp best) (ob_stamp ob)")
    case True
    then have "staleness (en_view e) ob = DropNone" by (simp add: e staleness_stamp)
    then have "map_of (st_accounts (fst (Accept ob s))) a =
        Some (zero_entry\<lparr>en_seen := True, en_view := record_view ob zero_view\<rparr>)"
      using Some a fl by (simp add: Accept_def e update_conv')
    moreover have "\<forall>ob' \<in> set (reports @ [ob]). stamp_le (ob_stamp ob') (ob_stamp ob)"
      using b(2) True by (auto intro: stamp_trans)
    ultimately show ?thesis by (auto simp: latest_shown_def)
  next
    case False
    then have "staleness (en_view e) ob \<noteq> DropNone" by (simp add: e staleness_stamp)
    then have "fst (Accept ob s) = s" using Some a fl by (simp add: Accept_def e)
    moreover have "stamp_le (ob_stamp ob) (ob_stamp best)" using False stamp_total by blast
    ultimately show ?thesis using Some b e by (auto simp: latest_shown_def)
  qed
qed

lemma accept_all_latest:
  assumes "a \<noteq> []"
  shows "latest_shown a (about a obs) (accept_all obs NewStore) \<and> st_revision (accept_all obs NewStore) = 0"
proof (induction obs rule: rev_induct)
  case Nil
  then show ?case by (simp add: latest_shown_def accept_all_def NewStore_def)
next
  case (snoc ob obs)
  then show ?case
    using latest_shown_step [OF _ assms, of "about a obs"]
    by (cases "ob_AccountID ob = a") (auto simp: accept_all_def Accept_floor Accept_other latest_shown_def)
qed

text \<open>
  C7: the order of arrival does not matter. If two runs of workers deliver the same reports in
  different orders, and no two reports about an account carry the same stamp, the page shows the
  same account in the end: a late report changes nothing.
\<close>

theorem arrival_order_irrelevant:
  assumes "a \<noteq> []" and "mset obs = mset obs'"
    and "inj_on ob_stamp {ob \<in> set obs. ob_AccountID ob = a}"
  shows "Account a (accept_all obs NewStore) = Account a (accept_all obs' NewStore)"
proof -
  have eq: "set (about a obs) = set (about a obs')" using mset_eq_setD [OF assms(2)] by auto
  have "map_of (st_accounts (accept_all obs NewStore)) a = map_of (st_accounts (accept_all obs' NewStore)) a"
  proof (cases "about a obs = []")
    case True
    then have "about a obs' = []" using eq by (metis set_empty)
    with True show ?thesis
      using accept_all_latest [OF assms(1), of obs] accept_all_latest [OF assms(1), of obs']
      by (auto simp: latest_shown_def)
  next
    case False
    then have "about a obs' \<noteq> []" using eq by (metis set_empty)
    then obtain b b' where b: "b \<in> set (about a obs)" "b' \<in> set (about a obs')"
      "\<forall>ob \<in> set (about a obs). stamp_le (ob_stamp ob) (ob_stamp b)"
      "\<forall>ob \<in> set (about a obs'). stamp_le (ob_stamp ob) (ob_stamp b')"
      and m: "map_of (st_accounts (accept_all obs NewStore)) a =
         Some (zero_entry\<lparr>en_seen := True, en_view := record_view b zero_view\<rparr>)"
       "map_of (st_accounts (accept_all obs' NewStore)) a =
         Some (zero_entry\<lparr>en_seen := True, en_view := record_view b' zero_view\<rparr>)"
      using False accept_all_latest [OF assms(1), of obs] accept_all_latest [OF assms(1), of obs']
      unfolding latest_shown_def by blast
    have "ob_stamp b = ob_stamp b'" using b eq by (blast intro: stamp_antisym)
    then have "b = b'" using b(1,2) eq assms(3) by (auto simp: inj_on_def)
    with m show ?thesis by simp
  qed
  then show ?thesis by (simp add: Account_def)
qed

subsection \<open>Notes\<close>

text \<open>
  routine observation never touches what the user was told. Accepting any report leaves the
  note and the running action of every known account as they were, and a note from an action that is
  no longer the running one is ignored.
\<close>

theorem note_survives_observation:
  assumes "map_of (st_accounts s) a = Some e"
  shows "(\<exists>e'. map_of (st_accounts (fst (Accept ob s))) a = Some e' \<and> en_note e' = en_note e \<and>
      av_RunningAction (en_view e') = av_RunningAction (en_view e)) \<and>
    (av_RunningAction (en_view e) \<notin> {[], n_ActionID n} \<longrightarrow> Account a (ActionFinished a n s) = Account a s)"
  using assms
  by (auto simp: Accept_def Let_def update_conv' record_view_def ActionFinished_def entryFor_def
      put_entry_def Account_def)

subsection \<open>Snapshots\<close>

lemma view_ids:
  assumes "store_inv s"
  shows "map (av_AccountID \<circ> (copy_entry \<circ> snd)) (st_accounts s) = mkeys (st_accounts s)"
proof -
  have "av_AccountID (copy_entry e) = k" if "(k, e) \<in> set (st_accounts s)" for k e
    using that assms by (auto simp: store_inv_def copy_entry_def mkeys_def split: option.splits)
  then show ?thesis by (auto simp: mkeys_def)
qed

text \<open>
  a snapshot does not depend on Go's map order. In every state the daemon can reach, the rows
  come sorted by account, one row per account, and any other iteration order gives the same rows.
\<close>

theorem snapshot_deterministic:
  assumes "store_step\<^sup>*\<^sup>* NewStore s" and "mset m = mset (st_accounts s)"
  shows "Read (s\<lparr>st_accounts := m\<rparr>) = Read s \<and> distinct (map av_AccountID (snd (Read s)))"
proof -
  have inv: "store_inv s" using store.inv_reachable assms(1) by blast
  let ?f = "copy_entry \<circ> snd" and ?vs = "map (copy_entry \<circ> snd) (st_accounts s)"
  let ?key = "\<lambda>v. map of_char (av_AccountID v) :: nat list"
  have d: "distinct (map av_AccountID ?vs)"
    using inv view_ids by (simp add: store_inv_def)
  have "inj (map (of_char :: char \<Rightarrow> nat))" by (intro inj_mapI injI) simp
  then have "inj_on ?key (set ?vs)"
    using d by (auto simp: distinct_map inj_on_def)
  moreover have perm: "mset (map ?f m) = mset ?vs" using assms(2) by (metis mset_map)
  ultimately have "sort_key ?key (map ?f m) = sort_key ?key ?vs"
    using mset_eq_setD [OF assms(2)] by (intro sort_key_inj_key_eq) simp_all
  moreover have "distinct (map av_AccountID (sort_key ?key ?vs))"
    using d by (subst (asm) distinct_map) (simp add: distinct_map)
  ultimately show ?thesis by (simp add: Read_def)
qed

definition sample_ob :: "nat \<Rightarrow> nat \<Rightarrow> AuthState \<Rightarrow> Observation" where
  "sample_ob g q auth = \<lparr>ob_AccountID = ''a'', ob_Revision = 1, ob_Generation = g, ob_Sequence = q,
     ob_Link = LinkReady, ob_Auth = auth, ob_Connectivity = ConnectivityInternetReachable, ob_Identity = [],
     ob_Line = zero_line, ob_At = 5\<rparr>"

lemmas ob_eval = sample_ob_def Accept_def Let_def NewStore_def zero_entry_def record_view_def
  zero_view_def staleness_def

definition sample_note :: Note where
  "sample_note = \<lparr>n_ActionID = ''x-a1'', n_Kind = ''maintain'', n_State = ''failed'', n_Message = [],
     n_Code = None, n_At = 7\<rparr>"

definition seen_store :: Store where
  "seen_store = fst (Accept (sample_ob 2 5 AuthVerifiedSelf) NewStore)"

lemma seen_observed: "observed ''a'' seen_store = Some (1, 2, 5)"
  by (simp add: seen_store_def observed_def view_stamp_def ob_eval)


theorem arrival_order_irrelevant_witness:
  "Account ''a'' (accept_all [sample_ob 1 9 AuthOffline, sample_ob 2 5 AuthVerifiedSelf] NewStore) =
   Account ''a'' (accept_all [sample_ob 2 5 AuthVerifiedSelf, sample_ob 1 9 AuthOffline] NewStore)"
  by (rule arrival_order_irrelevant) (auto simp: inj_on_def ob_stamp_def sample_ob_def)

theorem note_survives_observation_witness:
  "Account ''a'' (ActionFinished ''a'' sample_note (ActionStarted ''a'' ''x-a2'' seen_store)) =
   Account ''a'' (ActionStarted ''a'' ''x-a2'' seen_store)"
proof -
  let ?s = "ActionStarted ''a'' ''x-a2'' seen_store"
  obtain e where e: "map_of (st_accounts ?s) ''a'' = Some e" "av_RunningAction (en_view e) = ''x-a2''"
    by (simp add: seen_store_def ActionStarted_def put_entry_def entryFor_def ob_eval)
  with note_survives_observation [OF e(1), of "sample_ob 1 1 AuthOffline" sample_note] show ?thesis
    by (simp add: sample_note_def)
qed

theorem snapshot_deterministic_witness:
  "Read (seen_store\<lparr>st_accounts := rev (st_accounts seen_store)\<rparr>) = Read seen_store"
proof -
  have "store_step NewStore seen_store"
    unfolding store_step_def seen_store_def by (rule exI [of _ "OpAccept (sample_ob 2 5 AuthVerifiedSelf)"]) simp
  then have "store_step\<^sup>*\<^sup>* NewStore seen_store" by (rule r_into_rtranclp)
  from snapshot_deterministic [OF this, of "rev (st_accounts seen_store)"] show ?thesis by simp
qed

end
