(* ===== verification/Quiet_Time.thy ===== *)
theory Quiet_Time
  imports Prelude
begin

text \<open>
  Wall-clock minutes and quiet windows: \<open>domain/clocktime.go\<close>. Quiet hours are evaluated in the fixed
  zone UTC+8. The pieces of Go's \<open>time\<close> package the source uses are modelled here: reading the civil
  date and the clock of an instant in a fixed zone, \<open>time.Date\<close>, \<open>AddDate\<close> by days, and the layout
  \<open>20060102T1504-0700\<close>. Instants are nanoseconds since 0001-01-01T00:00:00Z.
\<close>

subsection \<open>The proleptic Gregorian calendar of the \<open>time\<close> package\<close>

definition day_ns :: int where "day_ns = 86400000000000"
definition minute_ns :: int where "minute_ns = 60000000000"
definition beijing_ns :: int where "beijing_ns = 28800000000000"

lemma units: "day_ns = 1440 * minute_ns" "minute_ns = minute" "beijing_ns = 8 * 60 * 60 * second"
  by (simp_all add: day_ns_def minute_ns_def minute_def second_def beijing_ns_def)

definition leap :: "int \<Rightarrow> bool" where
  "leap y \<longleftrightarrow> y mod 4 = 0 \<and> (y mod 100 \<noteq> 0 \<or> y mod 400 = 0)"

definition days_before_year :: "int \<Rightarrow> int" where
  "days_before_year y = 365 * (y - 1) + (y - 1) div 4 - (y - 1) div 100 + (y - 1) div 400"

definition month_lengths :: "int \<Rightarrow> int list" where
  "month_lengths y = [31, if leap y then 29 else 28, 31, 30, 31, 30, 31, 31, 30, 31, 30, 31]"

text \<open>The year a day falls in and the day's number in it, by 400-, 100-, 4- and 1-year cycles.\<close>

definition year_yday :: "int \<Rightarrow> int \<times> int" where
  "year_yday z =
     (let n400 = z div 146097; r = z mod 146097;
          n100 = min (r div 36524) 3; r = r - 36524 * n100;
          n4 = r div 1461; r = r mod 1461;
          n1 = min (r div 365) 3
      in (400 * n400 + 100 * n100 + 4 * n4 + n1 + 1, r - 365 * n1))"

fun month_day :: "int \<Rightarrow> int list \<Rightarrow> int \<Rightarrow> int \<times> int" where
  "month_day m (l # l' # ls) d = (if d < l then (m, d + 1) else month_day (m + 1) (l' # ls) (d - l))"
| "month_day m _ d = (m, d + 1)"

definition civil :: "int \<Rightarrow> int \<times> int \<times> int" where
  "civil z = (let (y, yd) = year_yday z; (mo, d) = month_day 1 (month_lengths y) yd in (y, mo, d))"

text \<open>\<open>time.Date(y, m, d, 0, 0, 0, 0, Beijing)\<close> for a month in range; the day may be out of range.\<close>

definition Date :: "int \<Rightarrow> int \<Rightarrow> int \<Rightarrow> instant" where
  "Date y mo d = (days_before_year y + sum_list (take (nat (mo - 1)) (month_lengths y)) + (d - 1)) * day_ns
     - beijing_ns"

definition local_day :: "instant \<Rightarrow> int" where
  "local_day at = (at + beijing_ns) div day_ns"

definition Hour_of :: "instant \<Rightarrow> int" where
  "Hour_of at = (at + beijing_ns) mod day_ns div (60 * minute_ns)"

definition Minute_of :: "instant \<Rightarrow> int" where
  "Minute_of at = (at + beijing_ns) div minute_ns mod 60"

definition AddDays :: "int \<Rightarrow> instant \<Rightarrow> instant" where
  "AddDays n at = (let (y, mo, d) = civil (local_day at)
     in Date y mo (d + n) + (at + beijing_ns) mod day_ns)"

lemma year_yday_correct:
  assumes "year_yday z = (y, yd)"
  shows "days_before_year y + yd = z"
proof -
  define a where "a = z div 146097"
  define r where "r = z mod 146097"
  define b where "b = min (r div 36524) 3"
  define s where "s = r - 36524 * b"
  define c where "c = s div 1461"
  define t where "t = s mod 1461"
  define d where "d = min (t div 365) 3"
  have y: "y = 400 * a + 100 * b + 4 * c + d + 1" "yd = t - 365 * d"
    using assms by (simp_all only: year_yday_def Let_def prod.inject a_def r_def b_def s_def c_def t_def d_def)
  have z: "z = 146097 * a + r" "0 \<le> r" "r < 146097" by (simp_all add: a_def r_def)
  have b: "0 \<le> b" "b \<le> 3" "0 \<le> s" "s < 36525"
  proof -
    define q where "q = r div 36524"
    define k where "k = r mod 36524"
    have "r = 36524 * q + k" "0 \<le> k" "k < 36524" by (simp_all add: q_def k_def)
    moreover have "b = min q 3" by (simp add: b_def q_def)
    ultimately show "0 \<le> b" "b \<le> 3" "0 \<le> s" "s < 36525" using z(2,3) unfolding s_def by linarith+
  qed
  have c: "s = 1461 * c + t" "0 \<le> t" "t < 1461" by (simp_all add: c_def t_def)
  have c': "0 \<le> c" "c \<le> 24" using b c by linarith+
  have d: "0 \<le> d" "d \<le> 3" using c(2) by (simp_all add: d_def pos_imp_zdiv_nonneg_iff)
  have e4: "(y - 1) div 4 = 100 * a + 25 * b + c"
    by (rule int_div_pos_eq [where r = d]) (insert y(1) d, simp_all)
  have e100: "(y - 1) div 100 = 4 * a + b"
    by (rule int_div_pos_eq [where r = "4 * c + d"]) (insert y(1) c' d, simp_all)
  have e400: "(y - 1) div 400 = a"
    by (rule int_div_pos_eq [where r = "100 * b + 4 * c + d"]) (insert y(1) b(1,2) c' d, simp_all)
  have "days_before_year y = 365 * (y - 1) + (100 * a + 25 * b + c) - (4 * a + b) + a"
    unfolding days_before_year_def e4 e100 e400 ..
  with z(1) c(1) y show ?thesis unfolding s_def by simp
qed

lemma year_yday_range:
  assumes "year_yday z = (y, yd)"
  shows "0 \<le> yd \<and> yd < 366"
proof -
  define t where "t = (z mod 146097 - 36524 * min (z mod 146097 div 36524) 3) mod 1461"
  have t: "0 \<le> t" "t < 1461" by (simp_all add: t_def)
  have yd: "yd = t - 365 * min (t div 365) 3"
    using assms by (simp only: year_yday_def Let_def prod.inject t_def)
  consider "t div 365 \<le> 3" | "3 < t div 365" by linarith
  then show ?thesis
  proof cases
    case 1
    then have "yd = t mod 365" by (simp add: yd min_def minus_mult_div_eq_mod)
    then show ?thesis using pos_mod_bound [of 365 t] pos_mod_sign [of 365 t] by simp
  next
    case 2
    then have "yd = t - 1095" by (simp add: yd min_def)
    moreover have "1460 \<le> t" using 2 by linarith
    ultimately show ?thesis using t by simp
  qed
qed

lemma month_day_correct:
  assumes "month_day m ls d = (mo, k)" and "ls \<noteq> []"
  shows "m \<le> mo \<and> mo < m + int (length ls) \<and> sum_list (take (nat (mo - m)) ls) + (k - 1) = d"
  using assms
proof (induction m ls d arbitrary: mo k rule: month_day.induct)
  case (1 m l l' ls d)
  show ?case
  proof (cases "d < l")
    case True
    with 1 show ?thesis by auto
  next
    case False
    with 1 have IH: "m + 1 \<le> mo" "mo < m + 1 + int (length (l' # ls))"
        "sum_list (take (nat (mo - (m + 1))) (l' # ls)) + (k - 1) = d - l" by auto
    then have "nat (mo - m) = Suc (nat (mo - (m + 1)))" by linarith
    with IH show ?thesis by simp
  qed
qed auto

lemma civil_Date:
  assumes "civil z = (y, mo, d)"
  shows "Date y mo (d + n) = (z + n) * day_ns - beijing_ns" and "1 \<le> mo \<and> mo \<le> 12"
proof -
  obtain yd where yd: "year_yday z = (y, yd)" and md: "month_day 1 (month_lengths y) yd = (mo, d)"
    using assms by (auto simp: civil_def Let_def split: prod.splits)
  have ne: "month_lengths y \<noteq> []" "length (month_lengths y) = 12" by (simp_all add: month_lengths_def)
  note m = month_day_correct [OF md ne(1)]
  show "1 \<le> mo \<and> mo \<le> 12" using m ne(2) by simp
  have "days_before_year y + (sum_list (take (nat (mo - 1)) (month_lengths y)) + (d - 1)) = z"
    using m year_yday_correct [OF yd] by simp
  then have "days_before_year y + sum_list (take (nat (mo - 1)) (month_lengths y)) + (d + n - 1) = z + n"
    by linarith
  then show "Date y mo (d + n) = (z + n) * day_ns - beijing_ns" unfolding Date_def by simp
qed

lemma civil_inj: "civil z = civil z' \<Longrightarrow> z = z'"
proof -
  assume eq: "civil z = civil z'"
  obtain y mo d where c: "civil z = (y, mo, d)" by (cases "civil z")
  have "z * day_ns - beijing_ns = z' * day_ns - beijing_ns"
    using civil_Date(1) [OF c, of 0] civil_Date(1) [of z' y mo d 0] c eq by simp
  then show ?thesis by (simp add: day_ns_def)
qed

lemma AddDays_shift: "AddDays n at = at + n * day_ns"
proof -
  obtain y mo d where c: "civil (local_day at) = (y, mo, d)" by (cases "civil (local_day at)")
  have "local_day at * day_ns + (at + beijing_ns) mod day_ns = at + beijing_ns"
    unfolding local_day_def by simp
  then show ?thesis
    using civil_Date(1) [OF c, of n] by (simp add: AddDays_def c distrib_right)
qed

subsection \<open>Clock times\<close>

record ClockTime =
  ct_minutes :: int

definition NewClockTime :: "int \<Rightarrow> int \<Rightarrow> ClockTime option" where
  "NewClockTime h m =
     (if h < 0 \<or> h > 23 \<or> m < 0 \<or> m > 59 then None else Some \<lparr>ct_minutes = h * 60 + m\<rparr>)"

fun twoDigits :: "string \<Rightarrow> int option" where
  "twoDigits [a, b] =
     (if \<not> is_digit a \<or> \<not> is_digit b then None
      else Some (int (digit_val a) * 10 + int (digit_val b)))"
| "twoDigits _ = None"

definition ParseClockTime :: "string \<Rightarrow> ClockTime option" where
  "ParseClockTime text =
     (if length text \<noteq> 5 \<or> text ! 2 \<noteq> CHR '':'' then None
      else case twoDigits (take 2 text) of
        None \<Rightarrow> None
      | Some h \<Rightarrow>
          (case twoDigits (take 2 (drop 3 text)) of
             None \<Rightarrow> None
           | Some m \<Rightarrow> NewClockTime h m))"

text \<open>\<open>%02d\<close> of a number below one hundred, and \<open>%04d\<close>-style padding of a year.\<close>

definition pad2 :: "int \<Rightarrow> string" where
  "pad2 n = [digit_char (nat (n div 10 mod 10)), digit_char (nat (n mod 10))]"

definition pad4 :: "int \<Rightarrow> string" where
  "pad4 n = pad2 (n div 100) @ pad2 (n mod 100)"

definition ClockTime_Hour :: "ClockTime \<Rightarrow> int" where
  "ClockTime_Hour c = ct_minutes c div 60"

definition ClockTime_Minute :: "ClockTime \<Rightarrow> int" where
  "ClockTime_Minute c = ct_minutes c mod 60"

definition ClockTime_String :: "ClockTime \<Rightarrow> string" where
  "ClockTime_String c = pad2 (ClockTime_Hour c) @ '':'' @ pad2 (ClockTime_Minute c)"

definition clock_ok :: "ClockTime \<Rightarrow> bool" where
  "clock_ok c \<longleftrightarrow> 0 \<le> ct_minutes c \<and> ct_minutes c < 1440"

lemma twoDigits_pad2: "0 \<le> n \<Longrightarrow> n < 100 \<Longrightarrow> twoDigits (pad2 n) = Some n"
proof -
  assume "0 \<le> n" "n < 100"
  then have "n div 10 mod 10 = n div 10" "0 \<le> n div 10" by (simp_all add: pos_imp_zdiv_nonneg_iff)
  with \<open>0 \<le> n\<close> show ?thesis by (simp add: pad2_def nat_less_iff)
qed

lemma ParseClockTime_String: "clock_ok c \<Longrightarrow> ParseClockTime (ClockTime_String c) = Some c"
proof -
  assume ok: "clock_ok c"
  have len: "length (pad2 n) = 2" for n by (simp add: pad2_def)
  have bounds: "0 \<le> ct_minutes c div 60" "ct_minutes c div 60 < 24" "0 \<le> ct_minutes c mod 60" "ct_minutes c mod 60 < 60"
    using ok unfolding clock_ok_def by linarith+
  have "ClockTime_String c ! 2 = CHR '':''" "take 2 (ClockTime_String c) = pad2 (ct_minutes c div 60)"
    "take 2 (drop 3 (ClockTime_String c)) = pad2 (ct_minutes c mod 60)" "length (ClockTime_String c) = 5"
    using len by (simp_all add: ClockTime_String_def ClockTime_Hour_def ClockTime_Minute_def nth_append)
  then show ?thesis
    using bounds len by (simp add: ParseClockTime_def twoDigits_pad2 NewClockTime_def) linarith
qed

interpretation clock: codec ClockTime_String ParseClockTime clock_ok
  by unfold_locales (rule ParseClockTime_String)

lemma NewClockTime_ok: "NewClockTime h m = Some c \<Longrightarrow> clock_ok c"
  by (auto simp: NewClockTime_def clock_ok_def split: if_splits)

lemma twoDigits_Some: "twoDigits p = Some n \<Longrightarrow> 0 \<le> n \<and> n < 100 \<and> pad2 n = p"
proof (induction p rule: twoDigits.induct)
  case (1 a b)
  then have da: "is_digit a" "is_digit b" and n: "n = int (digit_val a) * 10 + int (digit_val b)"
    by (auto split: if_splits)
  have v: "digit_val x < 10 \<and> digit_char (digit_val x) = x" if "is_digit x" for x
    using that by (auto simp: is_digit_def digit_val_def digit_char_def)
  have d: "digit_val a < 10" "digit_val b < 10" using v da by auto
  then have "nat (n div 10 mod 10) = digit_val a" "nat (n mod 10) = digit_val b"
    by (simp_all add: n nat_mod_distrib nat_add_distrib)
  then have "pad2 n = [a, b]" using v da by (simp add: pad2_def)
  then show ?case using n d by simp
qed auto

text \<open>
  times of day print and parse without loss, and the parser accepts nothing but the canonical
  form: what it accepts is a minute of the day, and printing it gives the very same text.
\<close>

theorem clock_time_round_trip:
  "(\<forall>c. clock_ok c \<longrightarrow> ParseClockTime (ClockTime_String c) = Some c) \<and>
   (\<forall>s c. ParseClockTime s = Some c \<longrightarrow> clock_ok c \<and> ClockTime_String c = s)"
proof (intro conjI allI impI)
  show "ParseClockTime (ClockTime_String c) = Some c" if "clock_ok c" for c
    using that by (rule clock.dec_enc)
next
  fix s c
  assume p: "ParseClockTime s = Some c"
  then obtain h m where len: "length s = 5" "s ! 2 = CHR '':''" and h: "twoDigits (take 2 s) = Some h"
    and m: "twoDigits (take 2 (drop 3 s)) = Some m" and c: "NewClockTime h m = Some c"
    by (auto simp: ParseClockTime_def split: if_splits option.splits)
  show "clock_ok c" using c by (rule NewClockTime_ok)
  have "ClockTime_Hour c = h" "ClockTime_Minute c = m"
    using c by (auto simp: NewClockTime_def ClockTime_Hour_def ClockTime_Minute_def split: if_splits)
  moreover have "s = take 2 s @ s ! 2 # take 2 (drop 3 s)"
    using len(1) by (auto simp: numeral_eq_Suc length_Suc_conv)
  ultimately show "ClockTime_String c = s"
    using twoDigits_Some [OF h] twoDigits_Some [OF m] len(2) by (simp add: ClockTime_String_def)
qed

theorem clock_time_round_trip_witness:
  "ParseClockTime ''23:05'' = Some \<lparr>ct_minutes = 1385\<rparr> \<and> ClockTime_String \<lparr>ct_minutes = 1385\<rparr> = ''23:05''"
proof -
  have "ParseClockTime ''23:05'' = Some \<lparr>ct_minutes = 1385\<rparr>"
    by (simp add: ParseClockTime_def NewClockTime_def is_digit_def digit_val_def)
  then show ?thesis using clock_time_round_trip by blast
qed

end
