(* ===== verification/Quiet_Window.thy ===== *)
theory Quiet_Window
  imports Quiet_Time
begin

text \<open>
  The quiet window of \<open>domain/clocktime.go\<close> and its evaluation in \<open>policy/quiet.go\<close>: membership, the
  identity of one visit to the window, and the next instant at which membership changes.
\<close>

record QuietWindow =
  w_Start :: ClockTime
  w_End :: ClockTime

definition IsEmpty :: "QuietWindow \<Rightarrow> bool" where
  "IsEmpty w \<longleftrightarrow> ct_minutes (w_Start w) = ct_minutes (w_End w)"

definition WrapsMidnight :: "QuietWindow \<Rightarrow> bool" where
  "WrapsMidnight w \<longleftrightarrow> ct_minutes (w_Start w) > ct_minutes (w_End w)"

definition Contains :: "QuietWindow \<Rightarrow> instant \<Rightarrow> bool" where
  "Contains w at =
     (if IsEmpty w then False
      else
        let m = Hour_of at * 60 + Minute_of at
        in if WrapsMidnight w then m \<ge> ct_minutes (w_Start w) \<or> m < ct_minutes (w_End w)
           else m \<ge> ct_minutes (w_Start w) \<and> m < ct_minutes (w_End w))"

definition midnight :: "instant \<Rightarrow> instant" where
  "midnight at = (let (y, mo, d) = civil (local_day at) in Date y mo d)"

text \<open>\<open>Format("20060102T1504-0700")\<close> of an instant in Beijing time.\<close>

definition format_occurrence :: "instant \<Rightarrow> string" where
  "format_occurrence at = (let (y, mo, d) = civil (local_day at)
     in pad4 y @ pad2 mo @ pad2 d @ ''T'' @ pad2 (Hour_of at) @ pad2 (Minute_of at) @ ''+0800'')"

definition occurrence_start :: "QuietWindow \<Rightarrow> instant \<Rightarrow> instant" where
  "occurrence_start w at =
     (let m = Hour_of at * 60 + Minute_of at;
          day = midnight at;
          day = (if WrapsMidnight w \<and> m < ct_minutes (w_End w) then AddDays (-1) day else day)
      in day + ct_minutes (w_Start w) * minute_ns)"

definition OccurrenceID :: "QuietWindow \<Rightarrow> instant \<Rightarrow> string option" where
  "OccurrenceID w at =
     (if \<not> Contains w at then None else Some (format_occurrence (occurrence_start w at)))"

definition better :: "instant \<Rightarrow> instant \<Rightarrow> instant \<Rightarrow> instant" where
  "better at shifted best = (if shifted > at \<and> (best = 0 \<or> shifted < best) then shifted else best)"

definition NextBoundary :: "QuietWindow \<Rightarrow> instant \<Rightarrow> instant option" where
  "NextBoundary w at =
     (if IsEmpty w then None
      else
        let day = midnight at;
            candidates = [day + ct_minutes (w_Start w) * minute_ns, day + ct_minutes (w_End w) * minute_ns];
            best = fold (better at) (concat (map (\<lambda>c. [c, AddDays 1 c]) candidates)) 0
        in if best = 0 then None else Some best)"

definition window_ok :: "QuietWindow \<Rightarrow> bool" where
  "window_ok w \<longleftrightarrow> clock_ok (w_Start w) \<and> clock_ok (w_End w)"

subsection \<open>Minutes of the day\<close>

text \<open>
  Everything below is arithmetic on the local day number and the offset within the day.
\<close>

definition tod :: "instant \<Rightarrow> int" where
  "tod at = (at + beijing_ns) mod day_ns"

lemma tod_range: "0 \<le> tod at" "tod at < day_ns"
  by (simp_all add: tod_def day_ns_def)

lemma instant_split: "at = local_day at * day_ns + tod at - beijing_ns"
  by (simp add: local_day_def tod_def)

lemma midnight_eq: "midnight at = local_day at * day_ns - beijing_ns"
proof -
  obtain y mo d where c: "civil (local_day at) = (y, mo, d)" by (cases "civil (local_day at)")
  then show ?thesis using civil_Date(1) [OF c, of 0] by (simp add: midnight_def)
qed

lemma minute_of_day: "Hour_of at * 60 + Minute_of at = tod at div minute_ns"
proof -
  have "(at + beijing_ns) div minute_ns mod 60 = tod at div minute_ns mod 60"
  proof -
    have "(at + beijing_ns) div minute_ns = (local_day at * day_ns + tod at) div minute_ns"
      by (rule arg_cong [where f = "\<lambda>x. x div minute_ns"]) (simp add: local_day_def tod_def)
    also have "\<dots> = local_day at * 1440 + tod at div minute_ns"
      by (simp add: day_ns_def minute_ns_def)
    finally show ?thesis by (simp add: mod_add_left_eq [symmetric])
  qed
  moreover have "Hour_of at = tod at div minute_ns div 60"
    by (simp add: Hour_of_def tod_def minute_ns_def zdiv_zmult2_eq [symmetric])
  ultimately show ?thesis by (simp add: Minute_of_def)
qed

lemma minute_le_iff: "m \<le> tod at div minute_ns \<longleftrightarrow> m * minute_ns \<le> tod at"
  by (simp add: minute_ns_def) linarith

text \<open>\<open>inside s e t\<close>: membership for boundaries and time of day in nanoseconds.\<close>

definition inside :: "int \<Rightarrow> int \<Rightarrow> int \<Rightarrow> bool" where
  "inside s e t \<longleftrightarrow> s \<noteq> e \<and> (if s > e then s \<le> t \<or> t < e else s \<le> t \<and> t < e)"

definition start_ns :: "QuietWindow \<Rightarrow> int" where
  "start_ns w = ct_minutes (w_Start w) * minute_ns"

definition end_ns :: "QuietWindow \<Rightarrow> int" where
  "end_ns w = ct_minutes (w_End w) * minute_ns"

lemma Contains_inside: "Contains w at \<longleftrightarrow> inside (start_ns w) (end_ns w) (tod at)"
  unfolding Contains_def inside_def minute_of_day Let_def IsEmpty_def WrapsMidnight_def
    minute_le_iff not_le [symmetric] start_ns_def end_ns_def
  by (simp add: minute_ns_def)

lemma window_range:
  assumes "window_ok w"
  shows "0 \<le> start_ns w" "start_ns w < day_ns" "0 \<le> end_ns w" "end_ns w < day_ns"
  using assms by (simp_all add: window_ok_def clock_ok_def start_ns_def end_ns_def day_ns_def minute_ns_def)

subsection \<open>Visits to the window\<close>

definition visit_length :: "QuietWindow \<Rightarrow> int" where
  "visit_length w = (if start_ns w \<le> end_ns w then end_ns w - start_ns w
     else end_ns w + day_ns - start_ns w)"

lemma occurrence_start_eq:
  "occurrence_start w at = local_day at * day_ns - beijing_ns + start_ns w -
     (if start_ns w > end_ns w \<and> tod at < end_ns w then day_ns else 0)"
proof -
  have "WrapsMidnight w \<and> tod at div minute_ns < ct_minutes (w_End w) \<longleftrightarrow>
      start_ns w > end_ns w \<and> tod at < end_ns w"
    unfolding not_le [symmetric] minute_le_iff WrapsMidnight_def start_ns_def end_ns_def
    by (simp add: minute_ns_def)
  then show ?thesis
    unfolding occurrence_start_def minute_of_day Let_def AddDays_shift midnight_eq start_ns_def end_ns_def
    by auto
qed

lemma visit_bounds:
  assumes "window_ok w" and "Contains w at"
  shows "occurrence_start w at \<le> at" and "at < occurrence_start w at + visit_length w"
    and "visit_length w < day_ns"
  using assms instant_split [of at] tod_range [of at] window_range [OF assms(1)]
  by (auto simp: Contains_inside inside_def occurrence_start_eq visit_length_def split: if_splits)

lemma tod_shift: "0 \<le> t \<Longrightarrow> t < day_ns \<Longrightarrow> tod (k * day_ns - beijing_ns + t) = t"
  "0 \<le> t \<Longrightarrow> t < day_ns \<Longrightarrow> local_day (k * day_ns - beijing_ns + t) = k"
  by (simp_all add: tod_def local_day_def day_ns_def)

lemma occurrence_on_grid:
  "\<exists>k. occurrence_start w at = k * day_ns - beijing_ns + start_ns w"
proof (cases "start_ns w > end_ns w \<and> tod at < end_ns w")
  case True
  then have "occurrence_start w at = (local_day at - 1) * day_ns - beijing_ns + start_ns w"
    by (simp add: occurrence_start_eq left_diff_distrib)
  then show ?thesis by blast
next
  case False
  then show ?thesis by (auto simp: occurrence_start_eq)
qed

lemma same_grid: "k * day_ns \<le> l * day_ns + d \<Longrightarrow> d < day_ns \<Longrightarrow> k \<le> l"
  by (simp add: day_ns_def)

lemma contains_visit:
  assumes "window_ok w"
  shows "Contains w at \<longleftrightarrow> (\<exists>k. k * day_ns - beijing_ns + start_ns w \<le> at \<and>
    at < k * day_ns - beijing_ns + start_ns w + visit_length w)"
proof
  assume "Contains w at"
  then show "\<exists>k. k * day_ns - beijing_ns + start_ns w \<le> at \<and>
      at < k * day_ns - beijing_ns + start_ns w + visit_length w"
    using visit_bounds [OF assms] occurrence_on_grid [of w at] by metis
next
  assume "\<exists>k. k * day_ns - beijing_ns + start_ns w \<le> at \<and>
      at < k * day_ns - beijing_ns + start_ns w + visit_length w"
  then obtain k where k: "k * day_ns - beijing_ns + start_ns w \<le> at"
    "at < k * day_ns - beijing_ns + start_ns w + visit_length w" by blast
  note r = window_range [OF assms] tod_range [of at]
  have "k \<le> local_day at" "local_day at \<le> k + 1"
    using k r instant_split [of at] same_grid [of k "local_day at" "tod at - start_ns w"]
      same_grid [of "local_day at" "k + 1" "start_ns w + visit_length w - tod at - day_ns - 1"]
    by (auto simp: visit_length_def distrib_right split: if_splits)
  then consider "local_day at = k" | "local_day at = k + 1" by linarith
  then show "Contains w at"
    using k r instant_split [of at]
    by cases (auto simp: Contains_inside inside_def visit_length_def distrib_right split: if_splits)
qed

text \<open>
  An instant is inside the window exactly when some daily visit, opening at the start minute and
  lasting until the end minute (across midnight if need be), contains it.
\<close>

theorem quiet_membership:
  assumes "window_ok w"
  shows "Contains w at \<longleftrightarrow> (\<exists>k. k * day_ns - beijing_ns + start_ns w \<le> at \<and>
    at < k * day_ns - beijing_ns + start_ns w + visit_length w)"
  using assms by (rule contains_visit)

subsection \<open>The identity of a visit\<close>

lemma month_day_bound:
  assumes "month_day m ls d = (mo, k)" and "ls \<noteq> []" and "\<forall>l \<in> set ls. l \<le> 31"
    and "0 \<le> d" and "d \<le> sum_list ls"
  shows "1 \<le> k \<and> k \<le> 32"
  using assms
proof (induction m ls d arbitrary: mo k rule: month_day.induct)
  case (1 m l l' ls d)
  then show ?case by (auto split: if_splits)
qed auto

lemma civil_bounds:
  assumes "civil z = (y, mo, d)"
  shows "1 \<le> mo" "mo \<le> 12" "1 \<le> d" "d \<le> 32"
proof -
  obtain yd where yd: "year_yday z = (y, yd)" and md: "month_day 1 (month_lengths y) yd = (mo, d)"
    using assms by (auto simp: civil_def Let_def split: prod.splits)
  show "1 \<le> mo" "mo \<le> 12" using civil_Date(2) [OF assms] by simp_all
  have "1 \<le> d \<and> d \<le> 32"
    by (rule month_day_bound [OF md]) (use year_yday_range [OF yd] in \<open>auto simp: month_lengths_def\<close>)
  then show "1 \<le> d" "d \<le> 32" by simp_all
qed

lemma pad2_inj: "0 \<le> a \<Longrightarrow> a < 100 \<Longrightarrow> 0 \<le> b \<Longrightarrow> b < 100 \<Longrightarrow> pad2 a = pad2 b \<longleftrightarrow> a = b"
  by (metis twoDigits_pad2 option.inject)

lemma pad4_inj:
  assumes "0 \<le> a" "a < 10000" "0 \<le> b" "b < 10000" "pad4 a = pad4 b"
  shows "a = b"
proof -
  have "0 \<le> a div 100" "a div 100 < 100" "0 \<le> b div 100" "b div 100 < 100"
    using assms by (simp_all add: pos_imp_zdiv_nonneg_iff div_less_iff_less_mult)
  moreover have "pad2 (a div 100) = pad2 (b div 100)" "pad2 (a mod 100) = pad2 (b mod 100)"
    using assms(5) by (simp_all add: pad4_def pad2_def)
  ultimately have "a div 100 = b div 100" "a mod 100 = b mod 100" by (simp_all add: pad2_inj)
  then show ?thesis by (metis div_mult_mod_eq)
qed

definition four_digit_year :: "instant \<Rightarrow> bool" where
  "four_digit_year at \<longleftrightarrow> (case civil (local_day at) of (y, _) \<Rightarrow> 0 \<le> y \<and> y < 10000)"

lemma clock_fields: "0 \<le> Hour_of at" "Hour_of at < 24" "0 \<le> Minute_of at" "Minute_of at < 60"
proof -
  have "tod at div minute_ns div 60 = Hour_of at"
    by (simp add: Hour_of_def tod_def minute_ns_def zdiv_zmult2_eq [symmetric])
  then show "0 \<le> Hour_of at" "Hour_of at < 24"
    using tod_range [of at] unfolding minute_ns_def day_ns_def by linarith+
qed (simp_all add: Minute_of_def)

lemma format_inj:
  assumes "four_digit_year a" "four_digit_year b" "minute_ns dvd tod a" "minute_ns dvd tod b"
    and eq: "format_occurrence a = format_occurrence b"
  shows "a = b"
proof -
  obtain y mo d where c: "civil (local_day a) = (y, mo, d)" by (cases "civil (local_day a)")
  obtain y' mo' d' where c': "civil (local_day b) = (y', mo', d')" by (cases "civil (local_day b)")
  have len: "length (pad4 x) = 4" "length (pad2 z) = 2" for x z by (simp_all add: pad4_def pad2_def)
  have parts: "pad4 y = pad4 y'" "pad2 mo = pad2 mo'" "pad2 d = pad2 d'" "pad2 (Hour_of a) = pad2 (Hour_of b)"
      "pad2 (Minute_of a) = pad2 (Minute_of b)"
    using eq len by (simp_all add: format_occurrence_def c c')
  have "y = y'" using parts(1) assms(1,2) c c' by (intro pad4_inj) (auto simp: four_digit_year_def)
  moreover have "mo = mo'" "d = d'" "Hour_of a = Hour_of b" "Minute_of a = Minute_of b"
    using parts(2-) civil_bounds [OF c] civil_bounds [OF c'] clock_fields [of a] clock_fields [of b]
    by (simp_all add: pad2_inj)
  ultimately have "local_day a = local_day b" and "tod a div minute_ns = tod b div minute_ns"
    using c c' civil_inj by (auto simp: minute_of_day [symmetric])
  moreover have "tod a = tod b"
    using calculation(2) assms(3,4) by (metis dvd_div_mult_self)
  ultimately show ?thesis using instant_split [of a] instant_split [of b] by simp
qed

lemma occurrence_tod: "window_ok w \<Longrightarrow> tod (occurrence_start w at) = start_ns w"
  using occurrence_on_grid [of w at] tod_shift(1) window_range by metis

lemma between_same_visit:
  assumes w: "window_ok w" and "Contains w a" "Contains w b" and ab: "a \<le> b"
  shows "occurrence_start w a = occurrence_start w b \<longleftrightarrow> (\<forall>t. a \<le> t \<and> t \<le> b \<longrightarrow> Contains w t)"
proof
  assume eq: "occurrence_start w a = occurrence_start w b"
  obtain k where k: "occurrence_start w a = k * day_ns - beijing_ns + start_ns w"
    using occurrence_on_grid by blast
  show "\<forall>t. a \<le> t \<and> t \<le> b \<longrightarrow> Contains w t"
    unfolding contains_visit [OF w]
  proof (intro allI impI exI [of _ k])
    fix t
    assume "a \<le> t \<and> t \<le> b"
    then show "k * day_ns - beijing_ns + start_ns w \<le> t \<and>
        t < k * day_ns - beijing_ns + start_ns w + visit_length w"
      using visit_bounds [OF w assms(2)] visit_bounds [OF w assms(3)] eq k by simp
  qed
next
  assume all: "\<forall>t. a \<le> t \<and> t \<le> b \<longrightarrow> Contains w t"
  obtain k where k: "occurrence_start w a = k * day_ns - beijing_ns + start_ns w"
    using occurrence_on_grid by blast
  obtain l where l: "occurrence_start w b = l * day_ns - beijing_ns + start_ns w"
    using occurrence_on_grid by blast
  note va = visit_bounds [OF w assms(2)] and vb = visit_bounds [OF w assms(3)]
  note r = window_range [OF w]
  define e where "e = occurrence_start w a + visit_length w"
  have "tod e = end_ns w"
    using tod_shift(1) [of "end_ns w" k] tod_shift(1) [of "end_ns w" "k + 1"] r
    by (auto simp: e_def k visit_length_def algebra_simps)
  moreover have "start_ns w \<noteq> end_ns w" using assms(2) by (simp add: Contains_inside inside_def)
  ultimately have "\<not> Contains w e" by (auto simp: Contains_inside inside_def)
  then have "b < e" using all va(2) unfolding e_def by (meson less_imp_le not_le)
  then have "l * day_ns < k * day_ns + visit_length w" using vb(1) k l by (simp add: e_def)
  then have "l \<le> k" using same_grid [of l k "visit_length w - 1"] va(3) by simp
  moreover have "k * day_ns < l * day_ns + visit_length w" using va(1) vb(2) ab k l by simp
  then have "k \<le> l" using same_grid [of k l "visit_length w - 1"] va(3) by simp
  ultimately show "occurrence_start w a = occurrence_start w b" using k l by simp
qed

text \<open>
  One identity per visit. Two instants inside the window get the same occurrence id exactly when
  quiet hours were not interrupted between them, so a clock correction inside one visit never starts
  a second forced-logout sweep and the next visit always does.
\<close>

theorem occurrence_identifies_visit:
  assumes "window_ok w" and "Contains w a" and "Contains w b" and "a \<le> b"
    and "four_digit_year (occurrence_start w a)" and "four_digit_year (occurrence_start w b)"
  shows "OccurrenceID w a = OccurrenceID w b \<longleftrightarrow> (\<forall>t. a \<le> t \<and> t \<le> b \<longrightarrow> Contains w t)"
proof -
  have "minute_ns dvd start_ns w" by (simp add: start_ns_def)
  then have "format_occurrence (occurrence_start w a) = format_occurrence (occurrence_start w b) \<longleftrightarrow>
      occurrence_start w a = occurrence_start w b"
    using format_inj assms(5,6) occurrence_tod [OF assms(1)] by metis
  then show ?thesis
    using between_same_visit [OF assms(1-4)] assms(2,3) by (simp add: OccurrenceID_def)
qed

subsection \<open>The next boundary\<close>

definition next_offset :: "int \<Rightarrow> int \<Rightarrow> int \<Rightarrow> int" where
  "next_offset s e t = (if t < s \<and> t < e then min s e else if t < s then s else if t < e then e
     else min s e + day_ns)"

lemma NextBoundary_eq:
  assumes "window_ok w" and "\<not> IsEmpty w" and "0 \<le> at"
  shows "NextBoundary w at =
    Some (local_day at * day_ns - beijing_ns + next_offset (start_ns w) (end_ns w) (tod at))"
proof -
  let ?D = "local_day at * day_ns - beijing_ns" and ?s = "start_ns w" and ?e = "end_ns w"
  have at: "at = ?D + tod at" using instant_split [of at] by simp
  have "fold (better at) [?D + ?s, ?D + ?s + day_ns, ?D + ?e, ?D + ?e + day_ns] 0 =
      ?D + next_offset ?s ?e (tod at)"
    using at assms(3) window_range [OF assms(1)] tod_range [of at]
    by (auto simp: better_def next_offset_def)
  moreover have "?D + next_offset ?s ?e (tod at) \<noteq> 0"
    using at assms(3) window_range [OF assms(1)] tod_range [of at] by (auto simp: next_offset_def)
  ultimately show ?thesis
    using assms(2) by (simp add: NextBoundary_def Let_def AddDays_shift midnight_eq start_ns_def end_ns_def)
qed

lemma day_step:
  assumes "at \<le> t" and "t < at + day_ns"
  shows "local_day t = local_day at \<or> local_day t = local_day at + 1"
proof -
  have "local_day at \<le> local_day t"
    using same_grid [of "local_day at" "local_day t" "tod t - tod at"] assms instant_split [of at]
      instant_split [of t] tod_range [of t] tod_range [of at] by simp
  moreover have "local_day t \<le> local_day at + 1"
    using same_grid [of "local_day t" "local_day at + 1" "tod at - tod t - 1"] assms instant_split [of at]
      instant_split [of t] tod_range [of t] tod_range [of at] by (simp add: distrib_right)
  ultimately show ?thesis by linarith
qed

lemma next_offset_bounds:
  assumes "0 \<le> s" "s < day_ns" "0 \<le> e" "e < day_ns" "s \<noteq> e" "0 \<le> t" "t < day_ns"
  shows "t < next_offset s e t" and "next_offset s e t \<le> t + day_ns"
  using assms by (auto simp: next_offset_def)

lemma boundary_membership:
  assumes w: "window_ok w" "\<not> IsEmpty w"
    and b: "b = local_day at * day_ns - beijing_ns + next_offset (start_ns w) (end_ns w) (tod at)"
  shows "at \<le> t \<Longrightarrow> t < b \<Longrightarrow> Contains w t = Contains w at" and "Contains w b = (\<not> Contains w at)"
proof -
  note r = window_range [OF w(1)] tod_range [of at]
  have ne: "start_ns w \<noteq> end_ns w" using w(2) by (simp add: IsEmpty_def start_ns_def end_ns_def minute_ns_def)
  note no = next_offset_bounds [OF r(1-4) ne r(5,6)]
  show "Contains w b = (\<not> Contains w at)"
  proof (cases "tod at < start_ns w \<or> tod at < end_ns w")
    case True
    then have "0 \<le> next_offset (start_ns w) (end_ns w) (tod at)" "next_offset (start_ns w) (end_ns w) (tod at) < day_ns"
      using r by (auto simp: next_offset_def)
    then have "tod b = next_offset (start_ns w) (end_ns w) (tod at)" unfolding b by (rule tod_shift)
    with True ne show ?thesis by (auto simp: Contains_inside inside_def next_offset_def min_def)
  next
    case False
    have "b = (local_day at + 1) * day_ns - beijing_ns + min (start_ns w) (end_ns w)"
      using False by (simp add: b next_offset_def distrib_right)
    then have "tod b = min (start_ns w) (end_ns w)" using tod_shift(1) r by (simp add: min_def)
    with False ne show ?thesis by (auto simp: Contains_inside inside_def min_def)
  qed
  assume t: "at \<le> t" "t < b"
  then have "t < at + day_ns" using no(2) instant_split [of at] b by simp
  with t(1) consider "local_day t = local_day at" | "local_day t = local_day at + 1" using day_step by blast
  then show "Contains w t = Contains w at"
    using t b ne r tod_range [of t] instant_split [of t] instant_split [of at]
    by cases (auto simp: Contains_inside inside_def next_offset_def distrib_right min_def split: if_splits)
qed

text \<open>
  Waiting for the next boundary is exact. For a non-empty window there is always a next boundary,
  within one day; nothing changes before it, and membership flips at it. An empty window has none and
  contains no instant.
\<close>

theorem next_boundary_exact:
  assumes "window_ok w" and "0 \<le> at"
  shows "(IsEmpty w \<longrightarrow> NextBoundary w at = None \<and> \<not> Contains w at) \<and>
    (\<not> IsEmpty w \<longrightarrow> (\<exists>b. NextBoundary w at = Some b \<and> at < b \<and> b \<le> at + day_ns \<and>
      (\<forall>t. at \<le> t \<and> t < b \<longrightarrow> Contains w t = Contains w at) \<and> Contains w b = (\<not> Contains w at)))"
proof (intro conjI impI)
  show "NextBoundary w at = None" "\<not> Contains w at" if "IsEmpty w"
    using that by (simp_all add: NextBoundary_def Contains_def)
next
  assume ne: "\<not> IsEmpty w"
  let ?b = "local_day at * day_ns - beijing_ns + next_offset (start_ns w) (end_ns w) (tod at)"
  have d: "start_ns w \<noteq> end_ns w" using ne by (simp add: IsEmpty_def start_ns_def end_ns_def minute_ns_def)
  have "at < ?b" "?b \<le> at + day_ns"
    using next_offset_bounds [OF window_range [OF assms(1)] d tod_range [of at]] instant_split [of at] by simp_all
  then show "\<exists>b. NextBoundary w at = Some b \<and> at < b \<and> b \<le> at + day_ns \<and>
      (\<forall>t. at \<le> t \<and> t < b \<longrightarrow> Contains w t = Contains w at) \<and> Contains w b = (\<not> Contains w at)"
    using NextBoundary_eq [OF assms(1) ne assms(2)] boundary_membership [OF assms(1) ne refl] by blast
qed

subsection \<open>A night\<close>

text \<open>The window 23:00 to 06:00, entered at 23:30 on 1 January 2024 and still open at 05:00.\<close>

definition night :: QuietWindow where
  "night = \<lparr>w_Start = \<lparr>ct_minutes = 1380\<rparr>, w_End = \<lparr>ct_minutes = 360\<rparr>\<rparr>"

definition late_evening :: instant where
  "late_evening = 738885 * 86400000000000 - 28800000000000 + 84600000000000"

definition early_morning :: instant where
  "early_morning = 738886 * 86400000000000 - 28800000000000 + 18000000000000"

lemma night_ok: "window_ok night"
  by (simp add: window_ok_def clock_ok_def night_def)

lemma night_days: "local_day late_evening = 738885" "local_day early_morning = 738886"
  "tod late_evening = 84600000000000" "tod early_morning = 18000000000000"
  by (simp_all add: local_day_def tod_def late_evening_def early_morning_def beijing_ns_def day_ns_def)

lemma night_bounds: "start_ns night = 82800000000000" "end_ns night = 21600000000000"
  by (simp_all add: start_ns_def end_ns_def night_def minute_ns_def)

lemma night_inside: "Contains night late_evening" "Contains night early_morning"
  by (simp_all add: Contains_inside inside_def night_days night_bounds)

lemma night_start: "occurrence_start night late_evening = 738885 * day_ns - beijing_ns + 82800000000000"
  "occurrence_start night early_morning = 738885 * day_ns - beijing_ns + 82800000000000"
  by (simp_all add: occurrence_start_eq night_days night_bounds day_ns_def)

lemma night_year: "four_digit_year (738885 * day_ns - beijing_ns + 82800000000000)"
proof -
  have "local_day (738885 * day_ns - beijing_ns + 82800000000000) = 738885"
    by (rule tod_shift) (simp_all add: day_ns_def)
  moreover have "civil 738885 = (2024, 1, 1)"
    by (simp add: civil_def year_yday_def month_lengths_def leap_def)
  ultimately show ?thesis by (simp add: four_digit_year_def)
qed

theorem quiet_membership_witness:
  "window_ok night \<and> Contains night early_morning \<and>
   (\<exists>k. k * day_ns - beijing_ns + start_ns night \<le> early_morning \<and>
     early_morning < k * day_ns - beijing_ns + start_ns night + visit_length night)"
  using quiet_membership [OF night_ok, of early_morning] night_ok night_inside by blast

theorem occurrence_identifies_visit_witness:
  "OccurrenceID night late_evening = OccurrenceID night early_morning \<and>
   Contains night (late_evening + hour)"
proof -
  have le: "late_evening \<le> early_morning" by (simp add: late_evening_def early_morning_def)
  have "OccurrenceID night late_evening = OccurrenceID night early_morning"
    by (simp add: OccurrenceID_def night_inside night_start)
  moreover have "late_evening \<le> late_evening + hour" "late_evening + hour \<le> early_morning"
    by (simp_all add: late_evening_def early_morning_def hour_def minute_def second_def)
  ultimately show ?thesis
    using occurrence_identifies_visit [OF night_ok night_inside le] night_year by (simp add: night_start)
qed

theorem next_boundary_exact_witness:
  "\<exists>b. NextBoundary night late_evening = Some b \<and> late_evening < b \<and> \<not> Contains night b"
proof -
  have "\<not> IsEmpty night" "0 \<le> late_evening" by (simp_all add: IsEmpty_def night_def late_evening_def)
  with next_boundary_exact [OF night_ok, of late_evening] night_inside show ?thesis by auto
qed

end
