(* ===== verification/Policy_Pause.thy ===== *)
theory Policy_Pause
  imports Prelude "HOL-Library.Word"
begin

text \<open>
  Why authentication is not running: the pause reasons of \<open>policy/pause.go\<close>, an 8-bit mask. The
  clients of the mask rely on a set interface only; \<open>reason_set\<close> states it, the mask interprets it,
  and the rule that reasons accumulate and clear independently is proved once from the interface.
\<close>

unbundle bit_operations_syntax

datatype PauseReason =
    PauseUserDisabled | PauseManual | PauseQuietHours | PauseServiceStopping | PauseUpdateInstalling
  | PauseUnknown string

definition pauseOrder :: "PauseReason list" where
  "pauseOrder = [PauseQuietHours, PauseManual, PauseUserDisabled, PauseUpdateInstalling, PauseServiceStopping]"

type_synonym PauseSet = "8 word"

fun Index :: "'a list \<Rightarrow> 'a \<Rightarrow> int" where
  "Index [] x = -1"
| "Index (y # ys) x = (if y = x then 0 else (let i = Index ys x in if i < 0 then -1 else i + 1))"

definition pause_bit :: "PauseReason \<Rightarrow> PauseSet" where
  "pause_bit reason = (let index = Index pauseOrder reason in if index < 0 then 0 else push_bit (nat index) 1)"

definition With :: "PauseSet \<Rightarrow> PauseReason \<Rightarrow> PauseSet" where
  "With s reason = s OR pause_bit reason"

definition Without :: "PauseSet \<Rightarrow> PauseReason \<Rightarrow> PauseSet" where
  "Without s reason = s AND NOT (pause_bit reason)"

definition Has :: "PauseSet \<Rightarrow> PauseReason \<Rightarrow> bool" where
  "Has s reason = (let mask = pause_bit reason in mask \<noteq> 0 \<and> s AND mask \<noteq> 0)"

definition Empty :: "PauseSet \<Rightarrow> bool" where
  "Empty s \<longleftrightarrow> s = 0"

definition Reasons :: "PauseSet \<Rightarrow> PauseReason list" where
  "Reasons s = filter (Has s) pauseOrder"

definition Primary :: "PauseSet \<Rightarrow> PauseReason option" where
  "Primary s = (let reasons = Reasons s in if reasons = [] then None else Some (last reasons))"

definition frozen :: "PauseReason list" where
  "frozen = [PauseServiceStopping, PauseUpdateInstalling]"

definition AllowsManual :: "PauseSet \<Rightarrow> bool" where
  "AllowsManual s \<longleftrightarrow> \<not> (\<exists>r \<in> set frozen. Has s r)"

definition AllowsMaintenance :: "PauseSet \<Rightarrow> bool" where
  "AllowsMaintenance s \<longleftrightarrow> Empty s"

definition derivedReasons :: "PauseReason list" where
  "derivedReasons = [PauseUserDisabled, PauseQuietHours]"

definition Derive :: "PauseSet \<Rightarrow> bool \<Rightarrow> bool \<Rightarrow> PauseSet" where
  "Derive previous enabled quiet_active =
     (let nxt = fold (\<lambda>reason s. Without s reason) derivedReasons previous;
          nxt = (if \<not> enabled then With nxt PauseUserDisabled else nxt);
          nxt = (if quiet_active then With nxt PauseQuietHours else nxt)
      in nxt)"

subsection \<open>The set interface\<close>

locale reason_set =
  fixes member :: "'s \<Rightarrow> 'r \<Rightarrow> bool"
    and ins :: "'s \<Rightarrow> 'r \<Rightarrow> 's"
    and del :: "'s \<Rightarrow> 'r \<Rightarrow> 's"
    and known :: "'r \<Rightarrow> bool"
  assumes member_ins: "member (ins s r) q \<longleftrightarrow> member s q \<or> (q = r \<and> known r)"
    and member_del: "member (del s r) q \<longleftrightarrow> member s q \<and> q \<noteq> r"
    and member_known: "member s q \<Longrightarrow> known q"
begin

lemma member_del_all: "member (fold (\<lambda>r s. del s r) rs s) q \<longleftrightarrow> member s q \<and> q \<notin> set rs"
  by (induction rs arbitrary: s) (auto simp: member_del)

lemma recompute:
  assumes "\<forall>r \<in> set ws. known r"
  shows "member (fold (\<lambda>r s. if holds r then ins s r else s) ws (fold (\<lambda>r s. del s r) rs s)) q \<longleftrightarrow>
    (member s q \<and> q \<notin> set rs) \<or> (q \<in> set ws \<and> holds q)"
proof -
  have "member (fold (\<lambda>r s. if holds r then ins s r else s) ws t) q \<longleftrightarrow> member t q \<or> (q \<in> set ws \<and> holds q)"
    for t using assms by (induction ws arbitrary: t) (auto simp: member_ins)
  then show ?thesis by (simp add: member_del_all)
qed

end

subsection \<open>The mask is such a set\<close>

definition bit_of :: "PauseReason \<Rightarrow> nat option" where
  "bit_of r = (case r of PauseQuietHours \<Rightarrow> Some 0 | PauseManual \<Rightarrow> Some 1 | PauseUserDisabled \<Rightarrow> Some 2
     | PauseUpdateInstalling \<Rightarrow> Some 3 | PauseServiceStopping \<Rightarrow> Some 4 | PauseUnknown _ \<Rightarrow> None)"

definition known_reason :: "PauseReason \<Rightarrow> bool" where
  "known_reason r \<longleftrightarrow> bit_of r \<noteq> None"

lemma pause_bit_of: "pause_bit r = (case bit_of r of None \<Rightarrow> 0 | Some n \<Rightarrow> push_bit n 1)"
  by (cases r) (simp_all add: pause_bit_def pauseOrder_def bit_of_def Let_def)

lemma bit_of_less: "bit_of r = Some n \<Longrightarrow> n < 8"
  by (cases r) (auto simp: bit_of_def)

lemma bit_of_inj: "bit_of r = Some n \<Longrightarrow> bit_of q = Some n \<Longrightarrow> r = q"
  by (cases r; cases q) (auto simp: bit_of_def)

lemma bit_pause_bit: "bit (pause_bit r) m \<longleftrightarrow> bit_of r = Some m"
proof (cases "bit_of r")
  case None
  then show ?thesis by (simp add: pause_bit_of)
next
  case (Some n)
  then show ?thesis using bit_of_less [OF Some] by (auto simp: pause_bit_of bit_simps)
qed

lemma zero_iff: "(s :: PauseSet) = 0 \<longleftrightarrow> (\<forall>n. \<not> bit s n)"
  by (auto intro: bit_eqI)

lemma and_single_bit:
  fixes s :: PauseSet
  assumes "bit_of r = Some n"
  shows "s AND pause_bit r \<noteq> 0 \<longleftrightarrow> bit s n"
  using assms unfolding zero_iff by (auto simp: bit_and_iff bit_pause_bit)

lemma Has_bit: "Has s r \<longleftrightarrow> (case bit_of r of None \<Rightarrow> False | Some n \<Rightarrow> bit s n)"
proof (cases "bit_of r")
  case None
  then show ?thesis by (simp add: Has_def pause_bit_of)
next
  case (Some n)
  have "pause_bit r \<noteq> 0" using Some unfolding zero_iff by (auto simp: bit_pause_bit)
  then show ?thesis using Some by (simp add: Has_def and_single_bit Let_def)
qed

interpretation pause: reason_set Has With Without known_reason
proof unfold_locales
  fix s r q
  show "Has (With s r) q \<longleftrightarrow> Has s q \<or> (q = r \<and> known_reason r)"
    by (auto simp: Has_bit With_def bit_or_iff bit_pause_bit known_reason_def
        dest: bit_of_inj split: option.splits)
  show "Has (Without s r) q \<longleftrightarrow> Has s q \<and> q \<noteq> r"
    using bit_of_less
    by (auto simp: Has_bit Without_def bit_and_iff bit_not_iff bit_pause_bit
        dest: bit_of_inj split: option.splits)
  show "Has s q \<Longrightarrow> known_reason q"
    by (auto simp: Has_bit known_reason_def split: option.splits)
qed

lemma Derive_fold:
  "Derive previous enabled quiet = fold (\<lambda>r s. if (r = PauseUserDisabled \<and> \<not> enabled) \<or> (r = PauseQuietHours \<and> quiet)
     then With s r else s) [PauseUserDisabled, PauseQuietHours] (fold (\<lambda>r s. Without s r) derivedReasons previous)"
  by (simp add: Derive_def Let_def)

text \<open>
  Leaving quiet hours resumes only what quiet hours stopped. Re-deriving the reasons sets the two
  derived ones exactly from the configuration and the clock, and keeps every sticky reason (a manual
  pause, an installation, a service stop) as it was.
\<close>

theorem derive_keeps_sticky_reasons:
  "Has (Derive previous enabled quiet) r \<longleftrightarrow>
     (if r = PauseUserDisabled then \<not> enabled else if r = PauseQuietHours then quiet else Has previous r)"
proof -
  have "Has (Derive previous enabled quiet) r \<longleftrightarrow> (Has previous r \<and> r \<notin> set derivedReasons) \<or>
      (r \<in> set [PauseUserDisabled, PauseQuietHours] \<and>
       ((r = PauseUserDisabled \<and> \<not> enabled) \<or> (r = PauseQuietHours \<and> quiet)))"
    unfolding Derive_fold by (rule pause.recompute) (simp add: known_reason_def bit_of_def)
  then show ?thesis by (auto simp: derivedReasons_def)
qed

text \<open>
  What a mask reports and permits is what it contains: the listed reasons are exactly the members,
  the one shown is a member furthest from the user's control, a user action is refused only while the
  service stops or an update installs, and for a mask built from reasons maintenance runs only when
  there is no reason at all.
\<close>

theorem pause_reports_members:
  "(\<forall>r. r \<in> set (Reasons s) \<longleftrightarrow> Has s r) \<and> (Primary s = None \<longleftrightarrow> (\<forall>r. \<not> Has s r)) \<and>
   (\<forall>r. Primary s = Some r \<longrightarrow> Has s r) \<and>
   (AllowsManual s \<longleftrightarrow> \<not> Has s PauseServiceStopping \<and> \<not> Has s PauseUpdateInstalling) \<and>
   (\<forall>rs. s = fold (\<lambda>r s. With s r) rs 0 \<longrightarrow> AllowsMaintenance s = (\<forall>r. \<not> Has s r))"
proof (intro conjI allI impI)
  have mem: "r \<in> set (Reasons s) \<longleftrightarrow> Has s r" for r
    using pause.member_known [of s r]
    by (cases r) (auto simp: Reasons_def pauseOrder_def known_reason_def bit_of_def)
  show "r \<in> set (Reasons s) \<longleftrightarrow> Has s r" for r by (rule mem)
  show "Primary s = None \<longleftrightarrow> (\<forall>r. \<not> Has s r)"
    using mem by (auto simp: Primary_def Let_def) (metis last_in_set)
  show "Primary s = Some r \<Longrightarrow> Has s r" for r
    using mem last_in_set [of "Reasons s"] by (auto simp: Primary_def Let_def split: if_splits)
  show "AllowsManual s \<longleftrightarrow> \<not> Has s PauseServiceStopping \<and> \<not> Has s PauseUpdateInstalling"
    by (auto simp: AllowsManual_def frozen_def)
  fix rs
  assume s: "s = fold (\<lambda>r s. With s r) rs 0"
  have bits: "bit (fold (\<lambda>r s. With s r) rs t) n \<longleftrightarrow> bit t n \<or> (\<exists>r \<in> set rs. bit_of r = Some n)" for t n
    by (induction rs arbitrary: t) (auto simp: With_def bit_or_iff bit_pause_bit)
  show "AllowsMaintenance s = (\<forall>r. \<not> Has s r)"
    unfolding AllowsMaintenance_def Empty_def s zero_iff Has_bit
    by (auto simp: bits split: option.splits)
qed

theorem pause_reports_members_witness:
  "Primary (With (With 0 PauseQuietHours) PauseManual) = Some PauseManual \<and>
   Has (With (With 0 PauseQuietHours) PauseManual) PauseManual \<and>
   \<not> AllowsMaintenance (With (With 0 PauseQuietHours) PauseManual)"
proof -
  let ?s = "With (With 0 PauseQuietHours) PauseManual"
  have p: "Primary ?s = Some PauseManual"
    by (simp add: Primary_def Reasons_def pauseOrder_def Has_def With_def pause_bit_of bit_of_def)
  moreover have "?s = fold (\<lambda>r s. With s r) [PauseQuietHours, PauseManual] 0" by simp
  ultimately show ?thesis using pause_reports_members [of ?s] by blast
qed

end
