(* ===== verification/Config_Model.thy ===== *)
theory Config_Model
  imports Quiet_Window Complex_Main
begin

text \<open>
  The persisted configuration of \<open>domain/config.go\<close>, with the closed vocabularies of
  \<open>domain/enums.go\<close>. A Go string type whose value may be anything until validation has run stays a
  \<^typ>\<open>string\<close>, with its constants and its \<open>Valid\<close> predicate. \<open>Seconds\<close>, a finite non-negative
  \<open>float64\<close>, is its exact rational value. \<open>map[string]any\<close> (the strategy-private storage) is an
  association list of JSON values.
\<close>

type_synonym Seconds = rat

definition AccessModeWired :: string where "AccessModeWired = ''wired''"
definition AccessModeWiFi :: string where "AccessModeWiFi = ''wifi''"

definition AccessMode_Valid :: "string \<Rightarrow> bool" where
  "AccessMode_Valid m \<longleftrightarrow> m = AccessModeWired \<or> m = AccessModeWiFi"

definition APSelectionAuto :: string where "APSelectionAuto = ''auto''"
definition APSelectionStrongest :: string where "APSelectionStrongest = ''strongest''"
definition APSelectionFixed :: string where "APSelectionFixed = ''fixed''"

definition APSelection_Valid :: "string \<Rightarrow> bool" where
  "APSelection_Valid s \<longleftrightarrow> s = APSelectionAuto \<or> s = APSelectionStrongest \<or> s = APSelectionFixed"

definition CheckInternet :: string where "CheckInternet = ''internet''"
definition CheckPortal :: string where "CheckPortal = ''portal''"
definition CheckSSID :: string where "CheckSSID = ''ssid''"

definition CheckMode_Valid :: "string \<Rightarrow> bool" where
  "CheckMode_Valid m \<longleftrightarrow> m = CheckInternet \<or> m = CheckPortal \<or> m = CheckSSID"

definition LogLevels :: "string list" where
  "LogLevels = [''ALL'', ''DEBUG'', ''INFO'', ''WARN'', ''ERROR'']"

definition Level_Valid :: "string \<Rightarrow> bool" where
  "Level_Valid l \<longleftrightarrow> l \<in> set LogLevels"

subsection \<open>JSON values\<close>

datatype JSON =
    JNull | JBool bool | JNumber rat | JString string | JArray "JSON list" | JObject "(string \<times> JSON) list"

subsection \<open>The records\<close>

record LoginDefaults =
  ld_N :: string
  ld_Type :: string
  ld_Enc :: string

record Selection =
  sel_ActiveCampusID :: string
  sel_DefaultCampusID :: string
  sel_ActiveHotspotID :: string
  sel_DefaultHotspotID :: string

record QuietConfig =
  qc_Enabled :: bool
  qc_Start :: ClockTime
  qc_End :: ClockTime
  qc_ForceLogout :: bool

definition Window :: "QuietConfig \<Rightarrow> QuietWindow" where
  "Window q = \<lparr>w_Start = qc_Start q, w_End = qc_End q\<rparr>"

record RetryConfig =
  rt_Enabled :: bool
  rt_MaxRetries :: int
  rt_InitialSeconds :: Seconds
  rt_MaxSeconds :: Seconds

record ChecksConfig =
  ch_IntervalSeconds :: int
  ch_Mode :: string
  ch_SwitchTimeoutSeconds :: int
  ch_TerminalAttempts :: int
  ch_TerminalIntervalSeconds :: int

record FailoverConfig =
  fo_Enabled :: bool
  fo_HotspotFailbackEnabled :: bool

record LogConfig =
  lg_Level :: string
  lg_FileOmitInfo :: bool

record PresetUpdateConfig =
  pu_Enabled :: bool
  pu_Time :: ClockTime

record LoginShape =
  ls_N :: string
  ls_Type :: string
  ls_Enc :: string
  ls_InfoPrefix :: string
  ls_DoubleStack :: "bool option"
  ls_OS :: string
  ls_Name :: string
  ls_Alphabet :: string

record CampusAccount =
  ca_ID :: string
  ca_Label :: string
  ca_UserID :: string
  ca_Password :: string
  ca_Operator :: string
  ca_OperatorSuffix :: string
  ca_AccessMode :: string
  ca_WiredIface :: string
  ca_AuthEnabled :: bool
  ca_BaseURL :: string
  ca_ACID :: string
  ca_SSID :: string
  ca_Radio :: string
  ca_Encryption :: string
  ca_Key :: string
  ca_APSelection :: string
  ca_BSSID :: string
  ca_Login :: LoginShape
  ca_PresetID :: string

definition IsWired :: "CampusAccount \<Rightarrow> bool" where
  "IsWired a \<longleftrightarrow> ca_AccessMode a = AccessModeWired"

record HotspotProfile =
  hp_ID :: string
  hp_Label :: string
  hp_SSID :: string
  hp_Encryption :: string
  hp_Key :: string
  hp_Radio :: string

record Config =
  cf_SchemaVersion :: int
  cf_Revision :: nat
  cf_Enabled :: bool
  cf_MultiWANEnabled :: bool
  cf_School :: string
  cf_STAIface :: string
  cf_LoginDefaults :: LoginDefaults
  cf_Selection :: Selection
  cf_Quiet :: QuietConfig
  cf_Retry :: RetryConfig
  cf_Checks :: ChecksConfig
  cf_Failover :: FailoverConfig
  cf_Log :: LogConfig
  cf_PresetUpdates :: PresetUpdateConfig
  cf_CampusAccounts :: "CampusAccount list"
  cf_HotspotProfiles :: "HotspotProfile list"
  cf_SchoolExtra :: "JSON gomap"

definition CampusAccountByID :: "Config \<Rightarrow> string \<Rightarrow> CampusAccount option" where
  "CampusAccountByID c i = find (\<lambda>a. ca_ID a = i) (cf_CampusAccounts c)"

definition HotspotByID :: "Config \<Rightarrow> string \<Rightarrow> HotspotProfile option" where
  "HotspotByID c i = find (\<lambda>h. hp_ID h = i) (cf_HotspotProfiles c)"

definition ManagedWiredAccounts :: "Config \<Rightarrow> CampusAccount list" where
  "ManagedWiredAccounts c =
     (if \<not> cf_MultiWANEnabled c then []
      else filter (\<lambda>a. IsWired a \<and> ca_AuthEnabled a) (cf_CampusAccounts c))"

end
