(* ===== verification/Float64.thy ===== *)
theory Float64
  imports Complex_Main "HOL-Library.Log_Nat"
begin

text \<open>
  The \<open>float64\<close> arithmetic the scheduler uses: a finite non-negative value is its exact rational, and
  every operation rounds its exact result to the nearest representable value, ties to even, with 53
  bits of precision and gradual underflow at \<open>2\<^sup>-\<^sup>1\<^sup>0\<^sup>7\<^sup>4\<close>. Overflow to infinity does not occur in the
  ranges the source admits. What the clients need is that rounding is monotone and leaves
  representable values alone.
\<close>

definition rne :: "rat \<Rightarrow> int" where
  "rne x = (let f = \<lfloor>x\<rfloor>; d = x - of_int f in
     if d < 1 / 2 then f else if d > 1 / 2 then f + 1 else if even f then f else f + 1)"

definition flog2 :: "rat \<Rightarrow> int" where
  "flog2 x = (let (p, q) = quotient_of x; e = bitlen p - bitlen q in if 2 powi e \<le> x then e else e - 1)"

definition fexp :: "rat \<Rightarrow> int" where
  "fexp x = max (flog2 x - 52) (-1074)"

definition fl :: "rat \<Rightarrow> rat" where
  "fl x = (if x \<le> 0 then 0 else of_int (rne (x / 2 powi fexp x)) * 2 powi fexp x)"

definition float64 :: "rat \<Rightarrow> bool" where
  "float64 x \<longleftrightarrow> 0 \<le> x \<and> fl x = x"

subsection \<open>Rounding to an integer\<close>

lemma rne_int [simp]: "rne (of_int n) = n"
  by (simp add: rne_def)

lemma rne_bounds: "\<lfloor>x\<rfloor> \<le> rne x" "rne x \<le> \<lfloor>x\<rfloor> + 1"
  by (simp_all add: rne_def Let_def)

lemma rne_mono: "x \<le> y \<Longrightarrow> rne x \<le> rne y"
proof -
  assume le: "x \<le> y"
  then have f: "\<lfloor>x\<rfloor> \<le> \<lfloor>y\<rfloor>" by (rule floor_mono)
  show ?thesis
  proof (cases "\<lfloor>x\<rfloor> = \<lfloor>y\<rfloor>")
    case True
    with le show ?thesis by (auto simp: rne_def Let_def)
  next
    case False
    with f rne_bounds(2) [of x] rne_bounds(1) [of y] show ?thesis by linarith
  qed
qed

subsection \<open>The binary exponent\<close>

lemma bitlen_powi:
  assumes "0 < (p :: int)"
  shows "2 powi (bitlen p - 1) \<le> (of_int p :: rat)" and "(of_int p :: rat) < 2 powi bitlen p"
proof -
  have b: "1 \<le> bitlen p" using assms bitlen_eq_zero_iff [of p] bitlen_nonneg [of p] by linarith
  have "(2 :: int) ^ nat (bitlen p - 1) \<le> p" "p < 2 ^ nat (bitlen p)" using bitlen_bounds [OF assms] by auto
  then have "(of_int (2 ^ nat (bitlen p - 1)) :: rat) \<le> of_int p" "(of_int p :: rat) < of_int (2 ^ nat (bitlen p))"
    by (simp_all only: of_int_le_iff of_int_less_iff)
  then show "2 powi (bitlen p - 1) \<le> (of_int p :: rat)" "(of_int p :: rat) < 2 powi bitlen p"
    using b by (simp_all add: power_int_nonneg_exp)
qed

lemma flog2_bounds:
  assumes "0 < x"
  shows "2 powi flog2 x \<le> x" and "x < 2 powi (flog2 x + 1)"
proof -
  obtain p q where pq: "quotient_of x = (p, q)" by (cases "quotient_of x")
  have q: "0 < q" using quotient_of_denom_pos [OF pq] .
  have x: "x = of_int p / of_int q" using quotient_of_div [OF pq] .
  have p: "0 < p" using assms q by (simp add: x zero_less_divide_iff)
  define e where "e = bitlen p - bitlen q"
  have "2 powi (bitlen p - 1) / 2 powi bitlen q \<le> x"
    unfolding x using bitlen_powi [OF p] bitlen_powi [OF q] p q by (intro frac_le) auto
  moreover have "(2 :: rat) powi (bitlen p - 1 - bitlen q) = 2 powi (bitlen p - 1) / 2 powi bitlen q"
    by (rule power_int_diff) simp
  moreover have "bitlen p - 1 - bitlen q = e - 1" by (simp add: e_def)
  ultimately have lo: "2 powi (e - 1) \<le> x" by simp
  have "x < 2 powi bitlen p / 2 powi (bitlen q - 1)"
    unfolding x using bitlen_powi [OF p] bitlen_powi [OF q] p by (intro frac_less) auto
  moreover have "(2 :: rat) powi (bitlen p - (bitlen q - 1)) = 2 powi bitlen p / 2 powi (bitlen q - 1)"
    by (rule power_int_diff) simp
  moreover have "bitlen p - (bitlen q - 1) = e + 1" by (simp add: e_def)
  ultimately have hi: "x < 2 powi (e + 1)" by simp
  have "flog2 x = (if 2 powi e \<le> x then e else e - 1)" by (simp add: flog2_def pq e_def Let_def)
  then show "2 powi flog2 x \<le> x" "x < 2 powi (flog2 x + 1)" using lo hi by (auto split: if_splits)
qed

lemma powi_less: "(2 :: rat) powi a < 2 powi b \<Longrightarrow> a < b"
  using power_int_increasing [of b a "2 :: rat"] by (metis not_le not_less one_le_numeral)

lemma flog2_mono: "0 < x \<Longrightarrow> x \<le> y \<Longrightarrow> flog2 x \<le> flog2 y"
proof -
  assume "0 < x" "x \<le> y"
  then have "(2 :: rat) powi flog2 x < 2 powi (flog2 y + 1)"
    using flog2_bounds(1) [of x] flog2_bounds(2) [of y] by linarith
  then show ?thesis using powi_less by force
qed

lemma powi_pos [simp]: "0 < (2 :: rat) powi e"
  by (simp add: zero_less_power_int)

lemma fexp_mono: "0 < x \<Longrightarrow> x \<le> y \<Longrightarrow> fexp x \<le> fexp y"
  using flog2_mono by (fastforce simp: fexp_def)

text \<open>A rounded value does not reach past the next power of two, and does not fall below its own.\<close>

lemma fl_le_power:
  assumes "0 < x" and "x < 2 powi n" and "fexp x \<le> n"
  shows "fl x \<le> 2 powi n"
proof -
  have "2 powi n / 2 powi fexp x = (of_int (2 ^ nat (n - fexp x)) :: rat)"
    using assms(3) by (simp add: power_int_diff [symmetric] power_int_nonneg_exp)
  then have eq: "rne (2 powi n / 2 powi fexp x) = 2 ^ nat (n - fexp x)" by (metis rne_int)
  have "x / 2 powi fexp x \<le> 2 powi n / 2 powi fexp x" using assms(2) by (simp add: divide_right_mono)
  then have "rne (x / 2 powi fexp x) \<le> 2 ^ nat (n - fexp x)" using rne_mono eq by metis
  then have "(of_int (rne (x / 2 powi fexp x)) :: rat) \<le> of_int (2 ^ nat (n - fexp x))"
    by (simp only: of_int_le_iff)
  also have "\<dots> = 2 powi n / 2 powi fexp x"
    using assms(3) by (simp add: power_int_diff [symmetric] power_int_nonneg_exp)
  finally have "of_int (rne (x / 2 powi fexp x)) * 2 powi fexp x \<le> (2 powi n :: rat)"
    by (simp add: pos_le_divide_eq)
  then show ?thesis using assms(1) by (simp add: fl_def)
qed

lemma fl_ge_power:
  assumes "0 < x" and "2 powi n \<le> x" and "fexp x \<le> n"
  shows "2 powi n \<le> fl x"
proof -
  have "2 powi n / 2 powi fexp x = (of_int (2 ^ nat (n - fexp x)) :: rat)"
    using assms(3) by (simp add: power_int_diff [symmetric] power_int_nonneg_exp)
  then have eq: "rne (2 powi n / 2 powi fexp x) = 2 ^ nat (n - fexp x)" by (metis rne_int)
  have "2 powi n / 2 powi fexp x \<le> x / 2 powi fexp x" using assms(2) by (simp add: divide_right_mono)
  then have low: "2 ^ nat (n - fexp x) \<le> rne (x / 2 powi fexp x)" using rne_mono eq by metis
  have "2 powi n / 2 powi fexp x = (of_int (2 ^ nat (n - fexp x)) :: rat)"
    using assms(3) by (simp add: power_int_diff [symmetric] power_int_nonneg_exp)
  also have "\<dots> \<le> of_int (rne (x / 2 powi fexp x))" using low by (simp only: of_int_le_iff)
  finally have "(2 powi n :: rat) \<le> of_int (rne (x / 2 powi fexp x)) * 2 powi fexp x"
    by (simp add: pos_divide_le_eq)
  then show ?thesis using assms(1) by (simp add: fl_def)
qed

lemma fl_nonneg [simp]: "0 \<le> fl x"
proof (cases "0 < x")
  case True
  then have "0 \<le> \<lfloor>x / 2 powi fexp x\<rfloor>" by simp
  then have "0 \<le> rne (x / 2 powi fexp x)" using rne_bounds(1) order_trans by blast
  then show ?thesis by (simp add: fl_def)
qed (simp add: fl_def)

lemma fl_mono:
  assumes "x \<le> y"
  shows "fl x \<le> fl y"
proof (cases "0 < x")
  case False
  then show ?thesis by (simp add: fl_def [of x])
next
  case True
  then have y: "0 < y" using assms by simp
  show ?thesis
  proof (cases "fexp x = fexp y")
    case True
    have "x / 2 powi fexp y \<le> y / 2 powi fexp y" using assms by (simp add: divide_right_mono)
    then have "rne (x / 2 powi fexp y) \<le> rne (y / 2 powi fexp y)" by (rule rne_mono)
    then show ?thesis using True y \<open>0 < x\<close> by (simp add: fl_def)
  next
    case False
    then have lt: "fexp x < fexp y" using fexp_mono [OF \<open>0 < x\<close> assms] by simp
    then have e: "fexp y = flog2 y - 52" "flog2 x < flog2 y" by (auto simp: fexp_def)
    have "x < 2 powi flog2 y"
      using flog2_bounds(2) [OF \<open>0 < x\<close>] e(2) power_int_increasing [of "flog2 x + 1" "flog2 y" "2 :: rat"]
      by simp
    then have "fl x \<le> 2 powi flog2 y" using lt e(1) \<open>0 < x\<close> by (intro fl_le_power) simp_all
    also have "\<dots> \<le> fl y" using flog2_bounds(1) [OF y] y e(1) by (intro fl_ge_power) simp_all
    finally show ?thesis .
  qed
qed

lemma fl_0 [simp]: "fl 0 = 0"
  by (simp add: fl_def)

end
