(* ===== verification/Policy_Retry.thy ===== *)
theory Policy_Retry
  imports Config_Model Float64
begin

text \<open>
  How long to wait after a failure: \<open>policy/backoff.go\<close>, \<open>policy/retry.go\<close> and the conversion of
  \<open>domain/seconds.go\<close>. A \<open>time.Duration\<close> is a number of nanoseconds; the conversion from
  \<open>float64\<close> truncates, which for the non-negative values here is the floor. \<open>Failures\<close> is an
  \<open>int32\<close>: its range is part of the properties.
\<close>

definition maxSecondsValue :: rat where "maxSecondsValue = 2 ^ 30"
definition second_rat :: rat where "second_rat = 1000000000"

definition Seconds_Duration :: "Seconds \<Rightarrow> duration" where
  "Seconds_Duration s =
     (if s \<ge> maxSecondsValue then 2 ^ 30 * second
      else if s \<le> 0 then 0
      else \<lfloor>fl (s * second_rat)\<rfloor>)"

definition checkSeconds :: "Seconds \<Rightarrow> bool" where
  "checkSeconds value \<longleftrightarrow> \<not> value < 0 \<and> \<not> value \<ge> maxSecondsValue"

subsection \<open>The failure counter\<close>

definition MaxFailures :: int where "MaxFailures = 2147483647"

definition Failures_Next :: "int \<Rightarrow> int" where
  "Failures_Next f = (if f < 0 then 1 else if f \<ge> MaxFailures then MaxFailures else f + 1)"

definition int32 :: "int \<Rightarrow> bool" where
  "int32 f \<longleftrightarrow> - (2 ^ 31) \<le> f \<and> f < 2 ^ 31"

subsection \<open>Backoff\<close>

definition MinimumInterval :: duration where "MinimumInterval = 100 * millisecond"
definition maxShift :: int where "maxShift = 62"

record Backoff =
  bo_Base :: Seconds
  bo_Cap :: Seconds

definition clampInterval :: "duration \<Rightarrow> duration" where
  "clampInterval d = (if d < MinimumInterval then MinimumInterval else d)"

definition Backoff_Wait :: "Backoff \<Rightarrow> int \<Rightarrow> duration" where
  "Backoff_Wait b index =
     (let shift = index - 1;
          shift = (if shift < 0 then 0 else shift);
          shift = (if shift > maxShift then maxShift else shift);
          wait = fl (bo_Base b * 2 ^ nat shift);
          wait = (if wait > bo_Cap b then bo_Cap b else wait)
      in clampInterval \<lfloor>fl (wait * second_rat)\<rfloor>)"

subsection \<open>The plan of one account\<close>

record RetryPlan =
  rp_Enabled :: bool
  rp_MaxRetries :: int
  rp_Backoff :: Backoff

definition PlanFrom :: "RetryConfig \<Rightarrow> RetryPlan" where
  "PlanFrom cfg = \<lparr>rp_Enabled = rt_Enabled cfg, rp_MaxRetries = rt_MaxRetries cfg,
     rp_Backoff = \<lparr>bo_Base = rt_InitialSeconds cfg, bo_Cap = rt_MaxSeconds cfg\<rparr>\<rparr>"

definition flatRoundAttempts :: int where "flatRoundAttempts = 2"

definition RoundLimit :: "RetryPlan \<Rightarrow> int" where
  "RoundLimit p =
     (if \<not> rp_Enabled p then flatRoundAttempts
      else if rp_MaxRetries p \<le> 0 then 0
      else rp_MaxRetries p + 1)"

definition Plan_Wait :: "RetryPlan \<Rightarrow> int \<Rightarrow> duration" where
  "Plan_Wait p failures =
     (if \<not> rp_Enabled p then clampInterval (Seconds_Duration (bo_Base (rp_Backoff p)))
      else Backoff_Wait (rp_Backoff p) failures)"

definition RoundExhausted :: "RetryPlan \<Rightarrow> int \<Rightarrow> bool" where
  "RoundExhausted p failures = (let limit = RoundLimit p in limit > 0 \<and> failures \<ge> limit)"

definition RoundCooldown :: "RetryPlan \<Rightarrow> duration" where
  "RoundCooldown p = clampInterval (Seconds_Duration (bo_Cap (rp_Backoff p)))"

subsection \<open>Properties\<close>

lemma clamp_mono: "a \<le> b \<Longrightarrow> clampInterval a \<le> clampInterval b"
  by (simp add: clampInterval_def)

lemma clamp_floor: "MinimumInterval \<le> clampInterval d"
  by (simp add: clampInterval_def)

lemma to_duration_mono: "x \<le> y \<Longrightarrow> \<lfloor>fl (x * second_rat)\<rfloor> \<le> \<lfloor>fl (y * second_rat)\<rfloor>"
  by (intro floor_mono fl_mono mult_right_mono) (simp_all add: second_rat_def)

definition plan_ok :: "RetryPlan \<Rightarrow> bool" where
  "plan_ok p \<longleftrightarrow> checkSeconds (bo_Base (rp_Backoff p)) \<and> checkSeconds (bo_Cap (rp_Backoff p))"

lemma Duration_trunc:
  "checkSeconds s \<Longrightarrow> Seconds_Duration s = \<lfloor>fl (s * second_rat)\<rfloor>"
  by (auto simp: Seconds_Duration_def checkSeconds_def)

definition the_shift :: "int \<Rightarrow> int" where
  "the_shift index = min (max (index - 1) 0) maxShift"

lemma Wait_unfold:
  "Backoff_Wait b index =
     clampInterval \<lfloor>fl (min (fl (bo_Base b * 2 ^ nat (the_shift index))) (bo_Cap b) * second_rat)\<rfloor>"
  by (simp add: Backoff_Wait_def Let_def the_shift_def min_def max_def maxShift_def)

lemma shift_mono: "i \<le> j \<Longrightarrow> the_shift i \<le> the_shift j"
  by (simp add: the_shift_def min_def max_def)

lemma Backoff_Wait_cap: "plan_ok p \<Longrightarrow> Backoff_Wait (rp_Backoff p) j \<le> RoundCooldown p"
  unfolding Wait_unfold RoundCooldown_def
  by (simp add: plan_ok_def Duration_trunc clamp_mono to_duration_mono)

lemma Plan_Wait_floor: "MinimumInterval \<le> Plan_Wait p j"
  using clamp_floor by (simp add: Plan_Wait_def Wait_unfold)


text \<open>
  The failure counter saturates: it never leaves the range of \<open>int32\<close>, never decreases on a
  non-negative count, and a round of a managed line with a finite limit is exhausted after exactly
  that many failures while an unlimited one never is.
\<close>

theorem failure_counter_saturates:
  "(int32 f \<longrightarrow> int32 (Failures_Next f) \<and> 1 \<le> Failures_Next f) \<and>
   (0 \<le> f \<and> f \<le> MaxFailures \<longrightarrow> f \<le> Failures_Next f \<and> Failures_Next f \<le> MaxFailures) \<and>
   (\<forall>n < 2147483647. (Failures_Next ^^ n) 0 = int n) \<and>
   (RoundExhausted p f \<longleftrightarrow>
      (if rp_Enabled p then 0 < rp_MaxRetries p \<and> rp_MaxRetries p < f else flatRoundAttempts \<le> f))"
proof -
  have "(Failures_Next ^^ n) 0 = int n" if "n < 2147483647" for n
    using that by (induction n) (simp_all add: Failures_Next_def MaxFailures_def)
  then show ?thesis
    by (auto simp: int32_def Failures_Next_def MaxFailures_def RoundExhausted_def RoundLimit_def
        flatRoundAttempts_def Let_def)
qed

definition sample_plan :: RetryPlan where
  "sample_plan = \<lparr>rp_Enabled = True, rp_MaxRetries = 4, rp_Backoff = \<lparr>bo_Base = 10, bo_Cap = 60\<rparr>\<rparr>"


theorem failure_counter_saturates_witness:
  "Failures_Next MaxFailures = MaxFailures \<and> int32 (Failures_Next MaxFailures)"
  using failure_counter_saturates [of MaxFailures sample_plan]
  by (simp add: int32_def Failures_Next_def MaxFailures_def)

end
