(* ===== verification/Config_Defaults.thy ===== *)
theory Config_Defaults
  imports Config_Model
begin

text \<open>
  The built-in values and the resolution of one account's protocol parameters: \<open>config/defaults.go\<close>
  and the numbers of \<open>config/limits.go\<close>. The clock values of the defaults are constants: the
  panic of \<open>mustClock\<close> is its value \<^const>\<open>None\<close>, and \<open>mustClock_defaults\<close> shows that it does not
  occur.
\<close>

definition DefaultInfoPrefix :: string where "DefaultInfoPrefix = ''SRBX1''"
definition DefaultLoginOS :: string where "DefaultLoginOS = ''Windows 10''"
definition DefaultLoginName :: string where "DefaultLoginName = ''Windows''"
definition DefaultDoubleStack :: bool where "DefaultDoubleStack = False"
definition DefaultWiredIface :: string where "DefaultWiredIface = ''wan''"
definition DefaultSchool :: string where "DefaultSchool = ''default''"
definition UnverifiedOperatorSuffix :: string where "UnverifiedOperatorSuffix = ''??''"
definition ConfigSchemaVersion :: int where "ConfigSchemaVersion = 2"

definition DefaultAlphabetTable :: string where
  "DefaultAlphabetTable = ''LVoJPiCN2R8G90yg+hmFHuacZ1OWMnrsSTXkYpUq/3dlbfKwv6xztjI7DeBE45QA''"

definition mustClock :: "int \<Rightarrow> int \<Rightarrow> ClockTime option" where
  "mustClock h m = NewClockTime h m"

definition Defaults :: Config where
  "Defaults = \<lparr>
     cf_SchemaVersion = ConfigSchemaVersion, cf_Revision = 0, cf_Enabled = False,
     cf_MultiWANEnabled = False, cf_School = DefaultSchool, cf_STAIface = [],
     cf_LoginDefaults = \<lparr>ld_N = ''200'', ld_Type = ''1'', ld_Enc = ''srun_bx1''\<rparr>,
     cf_Selection = \<lparr>sel_ActiveCampusID = [], sel_DefaultCampusID = [],
       sel_ActiveHotspotID = [], sel_DefaultHotspotID = []\<rparr>,
     cf_Quiet = \<lparr>qc_Enabled = True, qc_Start = the (mustClock 0 0), qc_End = the (mustClock 6 0), qc_ForceLogout = True\<rparr>,
     cf_Retry = \<lparr>rt_Enabled = True, rt_MaxRetries = 4, rt_InitialSeconds = 10, rt_MaxSeconds = 60\<rparr>,
     cf_Checks = \<lparr>ch_IntervalSeconds = 60, ch_Mode = CheckInternet, ch_SwitchTimeoutSeconds = 30,
       ch_TerminalAttempts = 5, ch_TerminalIntervalSeconds = 2\<rparr>,
     cf_Failover = \<lparr>fo_Enabled = True, fo_HotspotFailbackEnabled = True\<rparr>,
     cf_Log = \<lparr>lg_Level = ''INFO'', lg_FileOmitInfo = True\<rparr>,
     cf_PresetUpdates = \<lparr>pu_Enabled = True, pu_Time = the (mustClock 9 0)\<rparr>,
     cf_CampusAccounts = [], cf_HotspotProfiles = [], cf_SchoolExtra = []\<rparr>"

lemma mustClock_defaults:
  "mustClock 0 0 = Some \<lparr>ct_minutes = 0\<rparr>" "mustClock 6 0 = Some \<lparr>ct_minutes = 360\<rparr>"
  "mustClock 9 0 = Some \<lparr>ct_minutes = 540\<rparr>"
  by (simp_all add: mustClock_def NewClockTime_def)

subsection \<open>Effective protocol parameters\<close>

fun firstNonEmpty :: "string list \<Rightarrow> string" where
  "firstNonEmpty [] = []"
| "firstNonEmpty (value # values) = (if value \<noteq> [] then value else firstNonEmpty values)"

record EffectiveLoginShape =
  el_N :: string
  el_Type :: string
  el_Enc :: string
  el_InfoPrefix :: string
  el_DoubleStack :: bool
  el_OS :: string
  el_Name :: string
  el_Alphabet :: string

definition EffectiveLogin :: "Config \<Rightarrow> CampusAccount \<Rightarrow> EffectiveLoginShape" where
  "EffectiveLogin cfg account =
     (let login = ca_Login account; defaults = cf_LoginDefaults cfg in
      \<lparr>el_N = firstNonEmpty [ls_N login, ld_N defaults, ''200''],
       el_Type = firstNonEmpty [ls_Type login, ld_Type defaults, ''1''],
       el_Enc = firstNonEmpty [ls_Enc login, ld_Enc defaults, ''srun_bx1''],
       el_InfoPrefix = firstNonEmpty [ls_InfoPrefix login, DefaultInfoPrefix],
       el_DoubleStack = (case ls_DoubleStack login of None \<Rightarrow> DefaultDoubleStack | Some b \<Rightarrow> b),
       el_OS = firstNonEmpty [ls_OS login, DefaultLoginOS],
       el_Name = firstNonEmpty [ls_Name login, DefaultLoginName],
       el_Alphabet = firstNonEmpty [ls_Alphabet login, DefaultAlphabetTable]\<rparr>)"

definition EffectiveUsername :: "CampusAccount \<Rightarrow> string" where
  "EffectiveUsername account =
     (if ca_OperatorSuffix account = [] \<or> ca_OperatorSuffix account = UnverifiedOperatorSuffix
      then ca_UserID account
      else ca_UserID account @ ''@'' @ ca_OperatorSuffix account)"

subsection \<open>Zero values\<close>

definition zero_login :: LoginShape where
  "zero_login = \<lparr>ls_N = [], ls_Type = [], ls_Enc = [], ls_InfoPrefix = [], ls_DoubleStack = None,
     ls_OS = [], ls_Name = [], ls_Alphabet = []\<rparr>"

definition zero_campus :: CampusAccount where
  "zero_campus = \<lparr>ca_ID = [], ca_Label = [], ca_UserID = [], ca_Password = [], ca_Operator = [],
     ca_OperatorSuffix = [], ca_AccessMode = [], ca_WiredIface = [], ca_AuthEnabled = False,
     ca_BaseURL = [], ca_ACID = [], ca_SSID = [], ca_Radio = [], ca_Encryption = [], ca_Key = [],
     ca_APSelection = [], ca_BSSID = [], ca_Login = zero_login, ca_PresetID = []\<rparr>"

definition zero_hotspot :: HotspotProfile where
  "zero_hotspot = \<lparr>hp_ID = [], hp_Label = [], hp_SSID = [], hp_Encryption = [], hp_Key = [], hp_Radio = []\<rparr>"

lemma firstNonEmpty_last: "d \<noteq> [] \<Longrightarrow> firstNonEmpty (vs @ [d]) \<noteq> []"
  by (induction vs) auto

end
