(* ===== verification/Go_Sort.thy ===== *)
theory Go_Sort
  imports Go_Text "HOL-Library.List_Lexorder"
begin

text \<open>
  Go compares strings byte by byte: sorting strings is sorting by the list of their byte values.
\<close>

abbreviation bytes_key :: "string \<Rightarrow> nat list" where
  "bytes_key s \<equiv> map of_char s"

definition sort_strings :: "string list \<Rightarrow> string list" where
  "sort_strings ss = sort_key bytes_key ss"

lemma sort_strings_set [simp]: "set (sort_strings ss) = set ss"
  by (simp add: sort_strings_def)

lemma sort_strings_Nil [simp]: "sort_strings [] = []"
  by (simp add: sort_strings_def)

end
