(* ===== verification/Policy_Managed.thy ===== *)
theory Policy_Managed
  imports Config_Defaults Domain_States Go_Sort
begin

text \<open>
  Which accounts the automatic loop maintains, which ones a quiet-hours sweep must log out, and which
  lines are claimed twice: \<open>policy/managed.go\<close>; and what quiet hours mean at one instant:
  \<open>policy/quiet.go\<close>.
\<close>

record Target =
  tg_AccountID :: string
  tg_Line :: string
  tg_Wireless :: bool
  tg_Managed :: bool
  tg_Active :: bool

definition Managed :: "Config \<Rightarrow> Target list" where
  "Managed cfg = map (\<lambda>account. \<lparr>tg_AccountID = ca_ID account, tg_Line = ca_WiredIface account,
     tg_Wireless = False, tg_Managed = True,
     tg_Active = (ca_ID account = sel_ActiveCampusID (cf_Selection cfg))\<rparr>) (ManagedWiredAccounts cfg)"

definition ForcedLogoutTargets :: "Config \<Rightarrow> Target list" where
  "ForcedLogoutTargets cfg =
     (let targets = Managed cfg; active = sel_ActiveCampusID (cf_Selection cfg) in
      if active = [] then targets
      else if \<exists>t \<in> set targets. tg_AccountID t = active then targets
      else case CampusAccountByID cfg active of
        None \<Rightarrow> targets
      | Some account \<Rightarrow>
          targets @ [\<lparr>tg_AccountID = ca_ID account,
             tg_Line = (if \<not> IsWired account then [] else ca_WiredIface account),
             tg_Wireless = (\<not> IsWired account), tg_Managed = False, tg_Active = True\<rparr>])"

subsection \<open>The sweep record\<close>

text \<open>
  \<open>sw_done\<close> is \<^const>\<open>None\<close> while the Go map is nil, as in the zero value. Reading a nil map is
  allowed; writing to it panics, which is the result \<^const>\<open>None\<close> of \<open>Succeeded\<close>.
\<close>

record Sweep =
  sw_occurrence :: string
  sw_done :: "string list option"

definition zero_sweep :: Sweep where
  "zero_sweep = \<lparr>sw_occurrence = [], sw_done = None\<rparr>"

definition enter_occurrence :: "string \<Rightarrow> Sweep \<Rightarrow> Sweep" where
  "enter_occurrence occurrence s =
     (if sw_occurrence s \<noteq> occurrence then \<lparr>sw_occurrence = occurrence, sw_done = Some []\<rparr> else s)"

definition is_done :: "Sweep \<Rightarrow> string \<Rightarrow> bool" where
  "is_done s i = (case sw_done s of None \<Rightarrow> False | Some d \<Rightarrow> i \<in> set d)"

definition Pending :: "string \<Rightarrow> Target list \<Rightarrow> Sweep \<Rightarrow> Sweep \<times> Target list" where
  "Pending occurrence targets s =
     (let s = enter_occurrence occurrence s
      in (s, filter (\<lambda>t. \<not> is_done s (tg_AccountID t)) targets))"

definition Succeeded :: "string \<Rightarrow> string \<Rightarrow> Sweep \<Rightarrow> Sweep option" where
  "Succeeded occurrence accountID s =
     (let s = enter_occurrence occurrence s in
      case sw_done s of
        None \<Rightarrow> None
      | Some d \<Rightarrow> Some (s\<lparr>sw_done := Some (List.insert accountID d)\<rparr>))"

subsection \<open>Line conflicts\<close>

record LineConflict =
  lc_Line :: string
  lc_AccountIDs :: "string list"

definition add_to_line :: "(Target \<Rightarrow> string) \<Rightarrow> Target \<Rightarrow> (string list) gomap \<Rightarrow> (string list) gomap" where
  "add_to_line resolve t byLine =
     (let line = resolve t in
      if line = [] then byLine
      else AList.update line ((case map_of byLine line of None \<Rightarrow> [] | Some l \<Rightarrow> l) @ [tg_AccountID t]) byLine)"

definition Conflicts :: "Target list \<Rightarrow> (Target \<Rightarrow> string) \<Rightarrow> LineConflict list" where
  "Conflicts targets resolve =
     (let byLine = fold (add_to_line resolve) targets [];
          out = map (\<lambda>(line, accounts). \<lparr>lc_Line = line, lc_AccountIDs = accounts\<rparr>)
                  (filter (\<lambda>(line, accounts). \<not> length accounts < 2) byLine)
      in sort_key (\<lambda>c. bytes_key (lc_Line c)) out)"

subsection \<open>Quiet hours at one instant\<close>

record QuietState =
  qs_Active :: bool
  qs_Occurrence :: string
  qs_ForceLogout :: bool
  qs_Next :: instant
  qs_HasNext :: bool

definition zero_quiet :: QuietState where
  "zero_quiet = \<lparr>qs_Active = False, qs_Occurrence = [], qs_ForceLogout = False, qs_Next = 0, qs_HasNext = False\<rparr>"

definition EvaluateQuiet :: "QuietConfig \<Rightarrow> instant \<Rightarrow> QuietState" where
  "EvaluateQuiet cfg now =
     (if \<not> qc_Enabled cfg then zero_quiet
      else
        let w = Window cfg;
            occ = OccurrenceID w now;
            nxt = NextBoundary w now;
            state = \<lparr>qs_Active = (occ \<noteq> None), qs_Occurrence = (case occ of None \<Rightarrow> [] | Some i \<Rightarrow> i),
               qs_ForceLogout = qc_ForceLogout cfg, qs_Next = (case nxt of None \<Rightarrow> 0 | Some b \<Rightarrow> b),
               qs_HasNext = (nxt \<noteq> None)\<rparr>
        in if \<not> qs_Active state then state\<lparr>qs_ForceLogout := False\<rparr> else state)"

definition QuietPermits :: "QuietState \<Rightarrow> Priority \<Rightarrow> bool \<Rightarrow> bool" where
  "QuietPermits state priority override =
     (if \<not> qs_Active state then True else if override then True else priority \<ge> PriorityUserAction)"

subsection \<open>Forced logout\<close>

text \<open>
  the sweep's list is complete, free of duplicates and stable. With distinct account ids, every
  maintained account comes first in configuration order, the active account is on the list whenever
  it exists (maintained or not), no account is listed twice, and nothing else is listed.
\<close>

theorem forced_logout_targets_exact:
  assumes "distinct (map ca_ID (cf_CampusAccounts cfg))"
  shows "distinct (map tg_AccountID (ForcedLogoutTargets cfg)) \<and>
    (\<exists>rest. ForcedLogoutTargets cfg = Managed cfg @ rest) \<and>
    set (map tg_AccountID (ForcedLogoutTargets cfg)) = set (map ca_ID (ManagedWiredAccounts cfg)) \<union>
      {i. i = sel_ActiveCampusID (cf_Selection cfg) \<and> i \<noteq> [] \<and> i \<in> set (map ca_ID (cf_CampusAccounts cfg))}"
proof -
  define M where "M = map ca_ID (ManagedWiredAccounts cfg)"
  define A where "A = sel_ActiveCampusID (cf_Selection cfg)"
  define I where "I = set (map ca_ID (cf_CampusAccounts cfg))"
  have ids: "map tg_AccountID (Managed cfg) = M" by (simp add: Managed_def M_def)
  have dm: "distinct M" using assms by (simp add: M_def ManagedWiredAccounts_def distinct_map_filter)
  have sub: "set M \<subseteq> I" by (auto simp: M_def I_def ManagedWiredAccounts_def)
  have mem: "(\<exists>t \<in> set (Managed cfg). tg_AccountID t = A) \<longleftrightarrow> A \<in> set M" unfolding ids [symmetric] by auto
  have found: "CampusAccountByID cfg A = None \<longleftrightarrow> A \<notin> I"
    by (auto simp: CampusAccountByID_def find_None_iff I_def)
  have named: "ca_ID a = A" if "CampusAccountByID cfg A = Some a" for a
    using that by (auto simp: CampusAccountByID_def find_Some_iff)
  show ?thesis
  proof (cases "A = [] \<or> A \<in> set M \<or> A \<notin> I")
    case True
    then have eq: "ForcedLogoutTargets cfg = Managed cfg"
      using mem found by (auto simp: ForcedLogoutTargets_def Let_def A_def [symmetric] split: option.splits)
    show ?thesis unfolding eq ids M_def [symmetric] A_def [symmetric] I_def [symmetric]
      using dm sub True by auto
  next
    case False
    then obtain a where a: "CampusAccountByID cfg A = Some a" using found by auto
    let ?t = "\<lparr>tg_AccountID = ca_ID a, tg_Line = (if \<not> IsWired a then [] else ca_WiredIface a),
       tg_Wireless = (\<not> IsWired a), tg_Managed = False, tg_Active = True\<rparr>"
    have eq: "ForcedLogoutTargets cfg = Managed cfg @ [?t]"
      using False mem a by (auto simp: ForcedLogoutTargets_def Let_def A_def [symmetric])
    show ?thesis unfolding eq map_append ids M_def [symmetric] A_def [symmetric] I_def [symmetric]
      using dm False named [OF a] by auto
  qed
qed

subsection \<open>One logout per occurrence\<close>

text \<open>
  The history of a sweep: what was asked of it, in order. \<open>done_in occ h\<close> is the set of accounts
  recorded since the record last entered the occurrence \<open>occ\<close>.
\<close>

datatype SweepOp = AskPending string "Target list" | MarkDone string string

fun op_occurrence :: "SweepOp \<Rightarrow> string" where
  "op_occurrence (AskPending i _) = i"
| "op_occurrence (MarkDone i _) = i"

fun sweep_op :: "SweepOp \<Rightarrow> Sweep option \<Rightarrow> Sweep option" where
  "sweep_op (AskPending i ts) s = map_option (\<lambda>s. fst (Pending i ts s)) s"
| "sweep_op (MarkDone i a) s = Option.bind s (Succeeded i a)"

definition done_in :: "string \<Rightarrow> SweepOp list \<Rightarrow> string set" where
  "done_in i h = {a. MarkDone i a \<in> set (takeWhile (\<lambda>p. op_occurrence p = i) (rev h))}"

definition sweep_refines :: "SweepOp list \<Rightarrow> Sweep \<Rightarrow> bool" where
  "sweep_refines h s \<longleftrightarrow> (h = [] \<and> s = zero_sweep) \<or>
     (h \<noteq> [] \<and> sw_occurrence s = op_occurrence (last h) \<and>
      (\<exists>d. sw_done s = Some d \<and> set d = done_in (op_occurrence (last h)) h))"

lemma done_in_snoc: "done_in i (h @ [p]) = (if op_occurrence p = i then {a. p = MarkDone i a} \<union> done_in i h else {})"
  by (auto simp: done_in_def)

lemma done_in_other: "h = [] \<or> op_occurrence (last h) \<noteq> i \<Longrightarrow> done_in i h = {}"
  by (cases h rule: rev_cases) (auto simp: done_in_def)

lemma enter_refines:
  assumes "sweep_refines h s" and "i \<noteq> []"
  shows "sw_occurrence (enter_occurrence i s) = i \<and>
    (\<exists>d. sw_done (enter_occurrence i s) = Some d \<and> set d = done_in i h)"
proof (cases "h = [] \<or> op_occurrence (last h) \<noteq> i")
  case True
  then have "sw_occurrence s \<noteq> i" using assms by (auto simp: sweep_refines_def zero_sweep_def)
  with done_in_other [OF True] show ?thesis by (simp add: enter_occurrence_def)
next
  case False
  with assms(1) show ?thesis by (auto simp: sweep_refines_def enter_occurrence_def)
qed

lemma sweep_run:
  assumes "\<forall>p \<in> set h. op_occurrence p \<noteq> []"
  shows "\<exists>s. fold sweep_op h (Some zero_sweep) = Some s \<and> sweep_refines h s"
  using assms
proof (induction h rule: rev_induct)
  case Nil
  then show ?case by (simp add: sweep_refines_def)
next
  case (snoc p h)
  then obtain s where s: "fold sweep_op h (Some zero_sweep) = Some s" "sweep_refines h s" by auto
  note e = enter_refines [OF s(2), of "op_occurrence p"]
  show ?case
  proof (cases p)
    case (AskPending i ts)
    with s e snoc.prems show ?thesis
      by (auto simp: Pending_def Let_def sweep_refines_def done_in_snoc)
  next
    case (MarkDone i a)
    with s e snoc.prems show ?thesis
      by (auto simp: Succeeded_def Let_def sweep_refines_def done_in_snoc split: option.splits)
  qed
qed

text \<open>
  A sweep logs each account out once per visit. After any history of questions and successes
  (each naming its occurrence), asking for an occurrence returns, in order, exactly the targets not
  yet recorded since that occurrence was entered: successes are never repeated, failures come back,
  a new visit starts empty; and recording a success never writes to a nil map.
\<close>

theorem sweep_pending_exact:
  assumes "\<forall>p \<in> set h. op_occurrence p \<noteq> []" and "i \<noteq> []"
  shows "\<exists>s. fold sweep_op h (Some zero_sweep) = Some s \<and>
    snd (Pending i ts s) = filter (\<lambda>t. tg_AccountID t \<notin> done_in i h) ts \<and> Succeeded i a s \<noteq> None"
proof -
  obtain s where s: "fold sweep_op h (Some zero_sweep) = Some s" "sweep_refines h s"
    using sweep_run [OF assms(1)] by blast
  with enter_refines [OF s(2) assms(2)] show ?thesis
    by (auto simp: Pending_def Succeeded_def Let_def is_done_def)
qed

subsection \<open>Conflicts\<close>

lemma byLine_spec:
  "distinct (mkeys (fold (add_to_line resolve) ts m)) \<longleftrightarrow> distinct (mkeys m)" if "distinct (mkeys m)"
  using that
proof (induction ts arbitrary: m)
  case (Cons t ts)
  then show ?case by (simp add: add_to_line_def Let_def mkeys_def distinct_update)
qed simp

lemma byLine_lookup:
  "map_of (fold (add_to_line resolve) ts m) l =
     (let new = map tg_AccountID (filter (\<lambda>t. resolve t = l) ts) in
      if l = [] \<or> new = [] then map_of m l
      else Some ((case map_of m l of None \<Rightarrow> [] | Some x \<Rightarrow> x) @ new))"
  by (induction ts arbitrary: m)
    (auto simp: add_to_line_def Let_def update_conv' split: option.splits)

text \<open>
  the conflict report is exact and reproducible: it names a line if and only if at least two
  targets resolved to it, with those accounts in order, each line once, sorted by line.
\<close>

theorem conflicts_exact:
  "(\<lparr>lc_Line = l, lc_AccountIDs = ids\<rparr> \<in> set (Conflicts targets resolve) \<longleftrightarrow>
     l \<noteq> [] \<and> ids = map tg_AccountID (filter (\<lambda>t. resolve t = l) targets) \<and> 2 \<le> length ids) \<and>
   sorted (map (\<lambda>c. bytes_key (lc_Line c)) (Conflicts targets resolve)) \<and>
   distinct (map lc_Line (Conflicts targets resolve))"
proof -
  define m where "m = fold (add_to_line resolve) targets []"
  have d: "distinct (map fst m)" using byLine_spec [of "[]" resolve targets] by (simp add: m_def mkeys_def)
  have look: "(l, ids) \<in> set m \<longleftrightarrow> l \<noteq> [] \<and> ids \<noteq> [] \<and> ids = map tg_AccountID (filter (\<lambda>t. resolve t = l) targets)"
    using map_of_eq_Some_iff [OF d, of l ids] byLine_lookup [of resolve targets "[]" l]
    by (auto simp: m_def Let_def split: if_splits)
  let ?out = "map (\<lambda>(line, accounts). \<lparr>lc_Line = line, lc_AccountIDs = accounts\<rparr>)
     (filter (\<lambda>(line, accounts). \<not> length accounts < 2) m)"
  have C: "Conflicts targets resolve = sort_key (\<lambda>c. bytes_key (lc_Line c)) ?out"
    by (simp add: Conflicts_def m_def Let_def)
  have lines: "map lc_Line ?out = map fst (filter (\<lambda>(line, accounts). \<not> length accounts < 2) m)"
    by (simp add: case_prod_unfold)
  have "distinct (map lc_Line ?out)" unfolding lines using d by (rule distinct_map_filter)
  moreover have "mset (map lc_Line (Conflicts targets resolve)) = mset (map lc_Line ?out)"
    unfolding C mset_map mset_sort ..
  ultimately have "distinct (map lc_Line (Conflicts targets resolve))"
    using mset_eq_imp_distinct_iff by blast
  moreover have "\<lparr>lc_Line = l, lc_AccountIDs = ids\<rparr> \<in> set (Conflicts targets resolve) \<longleftrightarrow> (l, ids) \<in> set m \<and> 2 \<le> length ids"
    unfolding C by (auto simp: image_iff)
  ultimately show ?thesis using look by (auto simp: C)
qed

subsection \<open>Quiet hours\<close>

text \<open>
  quiet hours suspend the automatic loop and nothing else. At any instant the state is active
  exactly when quiet hours are enabled and the window contains the instant; then (and only then) it
  has an occurrence, forced logout is asked for only while active, and the permission given is: any
  explicit user action and any override run, maintenance and periodic work do not.
\<close>

theorem quiet_state_exact:
  "qs_Active (EvaluateQuiet cfg now) = (qc_Enabled cfg \<and> Contains (Window cfg) now) \<and>
   (qs_Occurrence (EvaluateQuiet cfg now) \<noteq> [] \<longleftrightarrow> qs_Active (EvaluateQuiet cfg now)) \<and>
   qs_ForceLogout (EvaluateQuiet cfg now) = (qs_Active (EvaluateQuiet cfg now) \<and> qc_ForceLogout cfg) \<and>
   QuietPermits (EvaluateQuiet cfg now) p override = (if qs_Active (EvaluateQuiet cfg now)
      then override \<or> p \<in> {PriorityUserAction, PriorityRecovery, PriorityFreeze} else True)"
proof -
  have "format_occurrence x \<noteq> []" for x
    by (simp add: format_occurrence_def Let_def pad4_def pad2_def split: prod.splits)
  moreover have "PriorityUserAction \<le> p \<longleftrightarrow> p \<in> {PriorityUserAction, PriorityRecovery, PriorityFreeze}"
    by (cases p) (simp_all add: less_eq_Priority_def)
  ultimately show ?thesis
    by (auto simp: EvaluateQuiet_def zero_quiet_def OccurrenceID_def QuietPermits_def Let_def)
qed

subsection \<open>Instances\<close>

definition two_targets :: "Target list" where
  "two_targets = [\<lparr>tg_AccountID = ''c1'', tg_Line = ''wan'', tg_Wireless = False, tg_Managed = True, tg_Active = True\<rparr>,
     \<lparr>tg_AccountID = ''c2'', tg_Line = ''wanb'', tg_Wireless = False, tg_Managed = True, tg_Active = False\<rparr>]"

definition two_lines :: Config where
  "two_lines = Defaults\<lparr>cf_MultiWANEnabled := True,
     cf_Selection := \<lparr>sel_ActiveCampusID = ''c2'', sel_DefaultCampusID = [], sel_ActiveHotspotID = [], sel_DefaultHotspotID = []\<rparr>,
     cf_CampusAccounts := [
       zero_campus\<lparr>ca_ID := ''c1'', ca_AccessMode := AccessModeWired, ca_WiredIface := ''wan'', ca_AuthEnabled := True\<rparr>,
       zero_campus\<lparr>ca_ID := ''c2'', ca_AccessMode := AccessModeWiFi\<rparr>]\<rparr>"

theorem forced_logout_targets_exact_witness:
  "distinct (map tg_AccountID (ForcedLogoutTargets two_lines)) \<and>
   set (map tg_AccountID (ForcedLogoutTargets two_lines)) = {''c1'', ''c2''}"
  using forced_logout_targets_exact [of two_lines]
  by (auto simp: two_lines_def ManagedWiredAccounts_def IsWired_def AccessModeWired_def AccessModeWiFi_def
      zero_campus_def)

theorem sweep_pending_exact_witness:
  "\<exists>s. fold sweep_op [AskPending ''n1'' two_targets, MarkDone ''n1'' ''c1''] (Some zero_sweep) = Some s \<and>
     map tg_AccountID (snd (Pending ''n1'' two_targets s)) = [''c2'']"
  using sweep_pending_exact [of "[AskPending ''n1'' two_targets, MarkDone ''n1'' ''c1'']" "''n1''" two_targets "''c2''"]
  by (auto simp: done_in_def two_targets_def)

end
