(* ===== verification/Go_Bytes.thy ===== *)
theory Go_Bytes
  imports Prelude "HOL-Library.Word"
begin

text \<open>
  Bytes and 32-bit words: the conversions \<open>uint32(b)\<close> and \<open>byte(w)\<close> between a byte (a character) and a
  word, and their bits. The cipher, the Base64 encoder and the frame codec share them.
\<close>

unbundle bit_operations_syntax

type_synonym uint32 = "32 word"

definition u32 :: "char \<Rightarrow> uint32" where
  "u32 c = word_of_nat (of_char c)"

definition byte_of :: "uint32 \<Rightarrow> char" where
  "byte_of w = char_of (unat w)"

lemma and_63: "x AND 63 = take_bit 6 (x :: uint32)"
  using take_bit_eq_mask [of 6 x] by (simp add: mask_eq_exp_minus_1)

lemma of_char_take: "take_bit 8 (of_char c :: nat) = of_char c"
  using of_char_lt [of c] by (simp add: take_bit_eq_mod)

lemma bit_of_char: "bit (of_char c :: nat) n \<Longrightarrow> n < 8"
  using of_char_take [of c] by (metis bit_take_bit_iff)

lemma bit_u32: "bit (u32 c) n \<longleftrightarrow> bit (of_char c :: nat) n"
  using bit_of_char [of c n] by (auto simp: u32_def bit_simps)

lemma u32_bits: "bit (u32 c) n \<Longrightarrow> n < 8"
  by (simp add: bit_u32 bit_of_char)

lemma byte_of_eqI: "(\<And>n. n < 8 \<Longrightarrow> bit w n = bit (u32 c) n) \<Longrightarrow> byte_of w = c"
proof -
  assume b: "\<And>n. n < 8 \<Longrightarrow> bit w n = bit (u32 c) n"
  have "take_bit 8 (unat w) = of_char c"
  proof (rule bit_eqI)
    fix n
    show "bit (take_bit 8 (unat w)) n = bit (of_char c :: nat) n"
      using b [of n] bit_of_char [of c n] by (cases "n < 8") (auto simp: bit_simps bit_u32)
  qed
  then have "char_of (take_bit 8 (unat w)) = c" by simp
  then show ?thesis by (simp add: byte_of_def char_of_take_bit_eq)
qed

lemma bit_u32_byte_of: "bit (u32 (byte_of w)) n \<longleftrightarrow> n < 8 \<and> bit w n"
proof -
  have "unat w mod 256 = take_bit 8 (unat w)" by (simp add: take_bit_eq_mod)
  then show ?thesis by (simp add: bit_u32 byte_of_def of_char_of bit_simps)
qed

end
