(* ===== verification/Srun_Base64.thy ===== *)
theory Srun_Base64
  imports Go_Bytes Config_Defaults
begin

text \<open>
  The Base64 layer of \<open>protocol/srun/base64.go\<close>: a validated 64-byte table and the encoder over it.
  The decoder is the reference the gateway's side is assumed to compute; it exists only to state that
  encoding loses nothing. \<open>DefaultAlphabetTable\<close> stands in \<open>Config_Defaults\<close>, its other user.
\<close>

unbundle bit_operations_syntax

definition PadChar :: char where "PadChar = CHR ''=''"
definition AlphabetSize :: nat where "AlphabetSize = 64"

definition StandardAlphabetTable :: string where
  "StandardAlphabetTable = ''ABCDEFGHIJKLMNOPQRSTUVWXYZabcdefghijklmnopqrstuvwxyz0123456789+/''"

text \<open>The validation loop: \<open>seen\<close> is the array of flags, as the list of symbols already met.\<close>

fun check_symbols :: "char list \<Rightarrow> string \<Rightarrow> gerror option" where
  "check_symbols seen [] = None"
| "check_symbols seen (symbol # rest) =
     (if (of_char symbol :: nat) < 0x21 \<or> (of_char symbol :: nat) > 0x7e then Some (Errorf CodeInvalidConfig)
      else if symbol = PadChar then Some (Errorf CodeInvalidConfig)
      else if symbol \<in> set seen then Some (Errorf CodeInvalidConfig)
      else check_symbols (symbol # seen) rest)"

definition NewAlphabet :: "string \<Rightarrow> gerror + string" where
  "NewAlphabet table =
     (if length table \<noteq> AlphabetSize then Inl (Errorf CodeInvalidConfig)
      else case check_symbols [] table of Some e \<Rightarrow> Inl e | None \<Rightarrow> Inr table)"

definition sym :: "string \<Rightarrow> uint32 \<Rightarrow> char" where
  "sym table w = table ! unat w"

fun Encode :: "string \<Rightarrow> string \<Rightarrow> string" where
  "Encode table (a # b # c # rest) =
     (let group = push_bit 16 (u32 a) OR push_bit 8 (u32 b) OR u32 c in
      sym table (drop_bit 18 group) # sym table (drop_bit 12 group AND 63) #
      sym table (drop_bit 6 group AND 63) # sym table (group AND 63) # Encode table rest)"
| "Encode table [a, b] =
     (let group = push_bit 16 (u32 a) OR push_bit 8 (u32 b) in
      [sym table (drop_bit 18 group), sym table (drop_bit 12 group AND 63),
       sym table (drop_bit 6 group AND 63), PadChar])"
| "Encode table [a] =
     (let group = push_bit 16 (u32 a) in
      [sym table (drop_bit 18 group), sym table (drop_bit 12 group AND 63), PadChar, PadChar])"
| "Encode table [] = []"

subsection \<open>The table\<close>

lemma check_symbols_None:
  "check_symbols seen t = None \<longleftrightarrow> distinct t \<and> set t \<inter> set seen = {} \<and> PadChar \<notin> set t \<and>
     (\<forall>c \<in> set t. 0x21 \<le> (of_char c :: nat) \<and> (of_char c :: nat) \<le> 0x7e)"
  by (induction seen t rule: check_symbols.induct) auto

definition alphabet_ok :: "string \<Rightarrow> bool" where
  "alphabet_ok t \<longleftrightarrow> length t = 64 \<and> distinct t \<and> PadChar \<notin> set t \<and>
     (\<forall>c \<in> set t. 0x21 \<le> (of_char c :: nat) \<and> (of_char c :: nat) \<le> 0x7e)"

lemma NewAlphabet_iff: "NewAlphabet t = Inr t' \<longleftrightarrow> t' = t \<and> alphabet_ok t"
proof (cases "check_symbols [] t")
  case None
  then show ?thesis
    using check_symbols_None [of "[]" t] by (auto simp: NewAlphabet_def AlphabetSize_def alphabet_ok_def)
next
  case (Some e)
  then show ?thesis
    using check_symbols_None [of "[]" t] by (auto simp: NewAlphabet_def alphabet_ok_def)
qed

subsection \<open>Decoding\<close>

fun position :: "string \<Rightarrow> char \<Rightarrow> nat option" where
  "position [] c = None"
| "position (d # ds) c = (if d = c then Some 0 else map_option Suc (position ds c))"

lemma position_nth: "distinct t \<Longrightarrow> n < length t \<Longrightarrow> position t (t ! n) = Some n"
proof (induction t arbitrary: n)
  case (Cons d t)
  then show ?case by (cases n) auto
qed simp

definition index_of :: "string \<Rightarrow> char \<Rightarrow> uint32 option" where
  "index_of t c = map_option word_of_nat (position t c)"

definition regroup :: "uint32 \<Rightarrow> uint32 \<Rightarrow> uint32 \<Rightarrow> uint32 \<Rightarrow> uint32" where
  "regroup p q r s = push_bit 18 p OR push_bit 12 q OR push_bit 6 r OR s"

definition bytes3 :: "uint32 \<Rightarrow> string" where
  "bytes3 g = [byte_of (drop_bit 16 g), byte_of (drop_bit 8 g), byte_of g]"

fun Decode :: "string \<Rightarrow> string \<Rightarrow> string option" where
  "Decode t [] = Some []"
| "Decode t (a # b # c # d # rest) =
     (if d = PadChar \<and> rest = [] then
        (if c = PadChar then
           (case (index_of t a, index_of t b) of
              (Some p, Some q) \<Rightarrow> Some (take 1 (bytes3 (regroup p q 0 0))) | _ \<Rightarrow> None)
         else
           (case (index_of t a, index_of t b, index_of t c) of
              (Some p, Some q, Some r) \<Rightarrow> Some (take 2 (bytes3 (regroup p q r 0))) | _ \<Rightarrow> None))
      else
        (case (index_of t a, index_of t b, index_of t c, index_of t d, Decode t rest) of
           (Some p, Some q, Some r, Some s, Some out) \<Rightarrow> Some (bytes3 (regroup p q r s) @ out) | _ \<Rightarrow> None))"
| "Decode t _ = None"

subsection \<open>Encoding loses nothing\<close>

definition three :: "char \<Rightarrow> char \<Rightarrow> char \<Rightarrow> uint32" where
  "three a b c = push_bit 16 (u32 a) OR push_bit 8 (u32 b) OR u32 c"

lemma bit_three:
  "bit (three a b c) n \<longleftrightarrow> n < 24 \<and> ((16 \<le> n \<and> bit (u32 a) (n - 16)) \<or> (8 \<le> n \<and> bit (u32 b) (n - 8)) \<or> bit (u32 c) n)"
  using u32_bits [of a "n - 16"] u32_bits [of b "n - 8"] u32_bits [of c n]
  by (auto simp: three_def bit_simps)

lemma bytes3_three: "bytes3 (three a b c) = [a, b, c]"
proof -
  have "byte_of (drop_bit 16 (three a b c)) = a" "byte_of (drop_bit 8 (three a b c)) = b" "byte_of (three a b c) = c"
    by (rule byte_of_eqI, use u32_bits in \<open>force simp: bit_simps bit_three\<close>)+
  then show ?thesis by (simp add: bytes3_def)
qed

lemma regroup_split:
  "regroup (drop_bit 18 (three a b c)) (take_bit 6 (drop_bit 12 (three a b c)))
     (take_bit 6 (drop_bit 6 (three a b c))) (take_bit 6 (three a b c)) = three a b c"
proof (rule bit_word_eqI)
  fix n
  assume "n < LENGTH(32)"
  then have n: "n < 32" by simp
  let ?g = "three a b c"
  consider "n < 6" | "6 \<le> n" "n < 12" | "12 \<le> n" "n < 18" | "18 \<le> n" by linarith
  then show "bit (regroup (drop_bit 18 ?g) (take_bit 6 (drop_bit 12 ?g)) (take_bit 6 (drop_bit 6 ?g)) (take_bit 6 ?g)) n = bit ?g n"
    using n by cases (auto simp: regroup_def bit_simps)
qed

definition six :: "uint32 \<Rightarrow> bool" where
  "six w \<longleftrightarrow> take_bit 6 w = w"

lemma six_take [simp]: "six (take_bit 6 w)"
  by (simp add: six_def)

lemma six_top [simp]: "six (drop_bit 18 (three a b c))"
  unfolding six_def by (rule bit_word_eqI) (auto simp: bit_simps bit_three)

lemma six_less: "six w \<Longrightarrow> unat w < 64"
proof -
  assume "six w"
  then have "unat w = take_bit 6 (unat w)" unfolding six_def by (metis unsigned_take_bit_eq)
  also have "\<dots> < 2 ^ 6" by (rule take_bit_nat_less_exp)
  finally show ?thesis by simp
qed

lemma sym_in: "alphabet_ok t \<Longrightarrow> six w \<Longrightarrow> sym t w \<in> set t"
  using six_less by (simp add: sym_def alphabet_ok_def)

lemma sym_not_pad: "alphabet_ok t \<Longrightarrow> six w \<Longrightarrow> sym t w \<noteq> PadChar"
  using sym_in [of t w] by (auto simp: alphabet_ok_def)

lemma index_sym: "alphabet_ok t \<Longrightarrow> six w \<Longrightarrow> index_of t (sym t w) = Some w"
  using six_less [of w] by (simp add: index_of_def sym_def alphabet_ok_def position_nth)

lemma u32_nul [simp]: "u32 (CHR 0x00) = 0"
  by (simp add: u32_def)

lemma Encode_groups:
  "Encode t (a # b # c # rest) =
     sym t (drop_bit 18 (three a b c)) # sym t (take_bit 6 (drop_bit 12 (three a b c))) #
     sym t (take_bit 6 (drop_bit 6 (three a b c))) # sym t (take_bit 6 (three a b c)) # Encode t rest"
  "Encode t [a, b] =
     [sym t (drop_bit 18 (three a b (CHR 0x00))), sym t (take_bit 6 (drop_bit 12 (three a b (CHR 0x00)))),
      sym t (take_bit 6 (drop_bit 6 (three a b (CHR 0x00)))), PadChar]"
  "Encode t [a] =
     [sym t (drop_bit 18 (three a (CHR 0x00) (CHR 0x00))),
      sym t (take_bit 6 (drop_bit 12 (three a (CHR 0x00) (CHR 0x00)))), PadChar, PadChar]"
  by (simp_all only: Encode.simps Let_def and_63 three_def u32_nul push_bit_of_0 or.right_neutral)

lemma short2: "take_bit 6 (three a b (CHR 0x00)) = 0"
  by (rule bit_word_eqI) (auto simp: bit_simps bit_three)

lemma short1: "take_bit 6 (drop_bit 6 (three a (CHR 0x00) (CHR 0x00))) = 0"
  by (rule bit_word_eqI) (auto simp: bit_simps bit_three)

lemmas encode_simps = Encode_groups index_sym sym_not_pad regroup_split bytes3_three

lemma Decode_Encode: "alphabet_ok t \<Longrightarrow> Decode t (Encode t s) = Some s"
proof (induction t s rule: Encode.induct)
  case (1 table a b c rest)
  then show ?case by (simp add: encode_simps del: Encode.simps)
next
  case (2 table a b)
  then show ?case using regroup_split [of a b "CHR 0x00"] by (simp add: encode_simps short2 del: Encode.simps)
next
  case (3 table a)
  then show ?case
    using regroup_split [of a "CHR 0x00" "CHR 0x00"] by (simp add: encode_simps short1 short2 del: Encode.simps)
next
  case (4 table)
  then show ?case by simp
qed

lemma Encode_symbols: "alphabet_ok t \<Longrightarrow> set (Encode t s) \<subseteq> insert PadChar (set t)"
  by (induction t s rule: Encode.induct) (auto simp: Encode_groups sym_in simp del: Encode.simps(1-3))

lemma length_Encode: "length (Encode t s) = (length s + 2) div 3 * 4"
proof (induction t s rule: Encode.induct)
  case (1 table a b c rest)
  moreover have "(length (a # b # c # rest) + 2) div 3 = (length rest + 2) div 3 + 1"
    by (simp del: add_2_eq_Suc')
  ultimately show ?case by (simp only: Encode_groups list.size) simp
qed (simp_all add: Let_def)

lemma default_alphabet_ok: "alphabet_ok DefaultAlphabetTable"
proof -
  have "NewAlphabet DefaultAlphabetTable = Inr DefaultAlphabetTable" by code_simp
  then show ?thesis using NewAlphabet_iff by blast
qed

interpretation default_table: codec "Encode DefaultAlphabetTable" "Decode DefaultAlphabetTable" "\<lambda>_. True"
  by unfold_locales (rule Decode_Encode [OF default_alphabet_ok])

text \<open>
  a table is accepted exactly when it makes the encoding reversible and printable (64 distinct
  visible ASCII bytes, none of them the padding byte), and under an accepted table the encoding of any
  bytes decodes to those bytes, has the standard padded length, and uses the table and the padding
  byte only.
\<close>

theorem base64_round_trip:
  "(\<forall>t'. NewAlphabet t = Inr t' \<longleftrightarrow> t' = t \<and> alphabet_ok t) \<and>
   (alphabet_ok t \<longrightarrow> Decode t (Encode t s) = Some s \<and> set (Encode t s) \<subseteq> insert PadChar (set t)) \<and>
   length (Encode t s) = (length s + 2) div 3 * 4"
  by (simp add: NewAlphabet_iff Decode_Encode Encode_symbols length_Encode)

theorem base64_round_trip_witness:
  "NewAlphabet DefaultAlphabetTable = Inr DefaultAlphabetTable \<and>
   Decode DefaultAlphabetTable (Encode DefaultAlphabetTable ''ab'') = Some ''ab'' \<and>
   length (Encode DefaultAlphabetTable ''ab'') = 4"
proof -
  note r = base64_round_trip [of DefaultAlphabetTable "''ab''"]
  from r default_alphabet_ok have "NewAlphabet DefaultAlphabetTable = Inr DefaultAlphabetTable"
    and "Decode DefaultAlphabetTable (Encode DefaultAlphabetTable ''ab'') = Some ''ab''" by blast+
  moreover from r have "length (Encode DefaultAlphabetTable ''ab'') = (length ''ab'' + 2) div 3 * 4" by blast
  then have "length (Encode DefaultAlphabetTable ''ab'') = 4" by (simp only: list.size) simp
  ultimately show ?thesis by blast
qed

end
