(* ===== verification/Srun_Xxtea.thy ===== *)
theory Srun_Xxtea
  imports Go_Bytes
begin

text \<open>
  The cipher of \<open>protocol/srun/xxtea.go\<close> on 32-bit words, whose wrap-around is that of \<open>uint32\<close>. The
  decryption is the published inverse of Corrected Block TEA, the reference against which the
  encryption is proved: the gateway recovers exactly the bytes that were encrypted.
\<close>

unbundle bit_operations_syntax

definition delta :: uint32 where "delta = 0x9e3779b9"

definition mix :: "uint32 \<Rightarrow> uint32 \<Rightarrow> uint32 \<Rightarrow> uint32 \<Rightarrow> uint32" where
  "mix y z s keyWord =
     (drop_bit 5 z XOR push_bit 2 y) + ((drop_bit 3 y XOR push_bit 4 z) XOR (s XOR y)) + (keyWord XOR z)"

definition byteAt :: "string \<Rightarrow> nat \<Rightarrow> char" where
  "byteAt data index = (if index < length data then data ! index else CHR 0x00)"

definition word4 :: "char \<Rightarrow> char \<Rightarrow> char \<Rightarrow> char \<Rightarrow> uint32" where
  "word4 a b c d = u32 a OR push_bit 8 (u32 b) OR push_bit 16 (u32 c) OR push_bit 24 (u32 d)"

text \<open>The loop over \<open>index = 0, 4, 8, \<dots>\<close> below the length runs \<open>(length + 3) div 4\<close> times.\<close>

definition packWords :: "string \<Rightarrow> bool \<Rightarrow> uint32 list" where
  "packWords data withLength =
     map (\<lambda>k. word4 (byteAt data (4 * k)) (byteAt data (4 * k + 1)) (byteAt data (4 * k + 2)) (byteAt data (4 * k + 3)))
       [0..<(length data + 3) div 4] @
     (if withLength then [word_of_nat (length data)] else [])"

definition unpackWords :: "uint32 list \<Rightarrow> string" where
  "unpackWords words = concat (map (\<lambda>word.
     [byte_of word, byte_of (drop_bit 8 word), byte_of (drop_bit 16 word), byte_of (drop_bit 24 word)]) words)"

definition pad_key :: "uint32 list \<Rightarrow> uint32 list" where
  "pad_key keyBlock = keyBlock @ replicate (4 - length keyBlock) 0"

definition key_at :: "uint32 list \<Rightarrow> uint32 \<Rightarrow> nat \<Rightarrow> uint32" where
  "key_at keyBlock s position = keyBlock ! (position AND 3 XOR unat (drop_bit 2 s AND 3))"

text \<open>One position of the inner loop; \<open>z\<close> is the word written last.\<close>

definition inner :: "uint32 list \<Rightarrow> uint32 \<Rightarrow> nat \<Rightarrow> uint32 list \<times> uint32 \<Rightarrow> uint32 list \<times> uint32" where
  "inner keyBlock s position state =
     (let (block, z) = state;
          y = block ! (position + 1);
          block = block[position := block ! position + mix y z s (key_at keyBlock s position)]
      in (block, block ! position))"

definition round_once :: "uint32 list \<Rightarrow> nat \<Rightarrow> uint32 \<Rightarrow> uint32 list \<times> uint32 \<Rightarrow> uint32 list \<times> uint32" where
  "round_once keyBlock final s state =
     (let (block, z) = fold (inner keyBlock s) [0..<final] state;
          y = block ! 0;
          block = block[final := block ! final + mix y z s (key_at keyBlock s final)]
      in (block, block ! final))"

primrec rounds :: "uint32 list \<Rightarrow> nat \<Rightarrow> nat \<Rightarrow> uint32 \<Rightarrow> uint32 list \<times> uint32 \<Rightarrow> uint32 list \<times> uint32" where
  "rounds keyBlock final 0 s state = state"
| "rounds keyBlock final (Suc r) s state =
     rounds keyBlock final r (s + delta) (round_once keyBlock final (s + delta) state)"

definition Xencode :: "string \<Rightarrow> string \<Rightarrow> string" where
  "Xencode msg key =
     (if msg = [] then []
      else
        let block = packWords msg True;
            keyBlock = pad_key (packWords key False);
            final = length block - 1;
            z = block ! final
        in unpackWords (fst (rounds keyBlock final (6 + 52 div (final + 1)) 0 (block, z))))"

subsection \<open>Words and bytes\<close>

lemma word4_bits:
  "bit (word4 a b c d) n \<longleftrightarrow> n < 32 \<and> (bit (u32 a) n \<or> (8 \<le> n \<and> bit (u32 b) (n - 8)) \<or>
     (16 \<le> n \<and> bit (u32 c) (n - 16)) \<or> (24 \<le> n \<and> bit (u32 d) (n - 24)))"
  using u32_bits [of a n] u32_bits [of b "n - 8"] u32_bits [of c "n - 16"] u32_bits [of d "n - 24"]
  by (auto simp: word4_def bit_simps)

lemma byte_of_word4:
  "byte_of (word4 a b c d) = a" "byte_of (drop_bit 8 (word4 a b c d)) = b"
  "byte_of (drop_bit 16 (word4 a b c d)) = c" "byte_of (drop_bit 24 (word4 a b c d)) = d"
  by (rule byte_of_eqI, use u32_bits in \<open>force simp: bit_simps word4_bits\<close>)+

lemma word4_byte_of:
  "word4 (byte_of w) (byte_of (drop_bit 8 w)) (byte_of (drop_bit 16 w)) (byte_of (drop_bit 24 w)) = w"
proof (rule bit_word_eqI)
  fix n
  assume "n < LENGTH(32)"
  then have n: "n < 32" by simp
  consider "n < 8" | "8 \<le> n" "n < 16" | "16 \<le> n" "n < 24" | "24 \<le> n" by linarith
  then show "bit (word4 (byte_of w) (byte_of (drop_bit 8 w)) (byte_of (drop_bit 16 w)) (byte_of (drop_bit 24 w))) n = bit w n"
    using n by cases (auto simp: word4_bits bit_u32_byte_of bit_simps)
qed

lemma packWords_Nil: "packWords [] False = []"
  by (simp add: packWords_def)

lemma packWords_step:
  assumes "data \<noteq> []"
  shows "packWords data False =
    word4 (byteAt data 0) (byteAt data 1) (byteAt data 2) (byteAt data 3) # packWords (drop 4 data) False"
proof -
  have "0 < l \<Longrightarrow> (l + 3) div 4 = Suc ((l - 4 + 3) div 4)" for l :: nat by presburger
  from this [of "length data"] assms
  have n: "(length data + 3) div 4 = Suc ((length (drop 4 data) + 3) div 4)" by simp
  have "byteAt data (4 * Suc k + j) = byteAt (drop 4 data) (4 * k + j)" for k j
    by (auto simp: byteAt_def add.assoc)
  then have "word4 (byteAt data (4 * Suc k)) (byteAt data (4 * Suc k + 1)) (byteAt data (4 * Suc k + 2)) (byteAt data (4 * Suc k + 3)) =
      word4 (byteAt (drop 4 data) (4 * k)) (byteAt (drop 4 data) (4 * k + 1)) (byteAt (drop 4 data) (4 * k + 2)) (byteAt (drop 4 data) (4 * k + 3))" for k
    by (metis add_0_right)
  then show ?thesis
    by (simp only: packWords_def n map_upt_Suc mult_0_right add_0 if_False append_Nil2)
qed

lemma packWords_Cons4: "packWords (a # b # c # d # rest) False = word4 a b c d # packWords rest False"
  by (simp add: packWords_step byteAt_def)

lemma pack_unpack: "packWords (unpackWords ws) False = ws"
  by (induction ws) (simp_all add: unpackWords_def packWords_Nil packWords_Cons4 word4_byte_of)

lemma unpack_append: "unpackWords (xs @ ys) = unpackWords xs @ unpackWords ys"
  by (simp add: unpackWords_def)

lemma short_list:
  assumes "length data < 4"
  obtains "data = []" | a where "data = [a]" | a b where "data = [a, b]" | a b c where "data = [a, b, c]"
  using assms
  by (cases data; cases "tl data"; cases "tl (tl data)"; cases "tl (tl (tl data))") auto

lemma unpack_pack: "take (length data) (unpackWords (packWords data False)) = data"
proof (induction data rule: length_induct)
  case (1 data)
  show ?case
  proof (cases "length data < 4")
    case True
    then consider "data = []" | a where "data = [a]" | a b where "data = [a, b]" | a b c where "data = [a, b, c]"
      using short_list by blast
    then show ?thesis
      by cases (simp_all add: packWords_Nil packWords_step byteAt_def unpackWords_def byte_of_word4)
  next
    case False
    then obtain a b c d rest where d: "data = a # b # c # d # rest"
      by (cases data; cases "tl data"; cases "tl (tl data)"; cases "tl (tl (tl data))") auto
    with 1 have "take (length rest) (unpackWords (packWords rest False)) = rest" by simp
    then show ?thesis by (simp add: d packWords_Cons4 unpackWords_def byte_of_word4)
  qed
qed

lemma packWords_length: "packWords data True = packWords data False @ [word_of_nat (length data)]"
  by (simp add: packWords_def)

subsection \<open>One position and its inverse\<close>

definition before :: "nat \<Rightarrow> nat \<Rightarrow> nat" where
  "before final p = (if p = 0 then final else p - 1)"

definition after :: "nat \<Rightarrow> nat \<Rightarrow> nat" where
  "after final p = (if p = final then 0 else p + 1)"

definition term_at :: "uint32 list \<Rightarrow> uint32 \<Rightarrow> uint32 list \<Rightarrow> nat \<Rightarrow> uint32" where
  "term_at key s v p =
     mix (v ! after (length v - 1) p) (v ! before (length v - 1) p) s (key_at key s p)"

definition forth :: "uint32 list \<Rightarrow> uint32 \<Rightarrow> nat \<Rightarrow> uint32 list \<Rightarrow> uint32 list" where
  "forth key s p v = v[p := v ! p + term_at key s v p]"

definition retract :: "uint32 list \<Rightarrow> uint32 \<Rightarrow> nat \<Rightarrow> uint32 list \<Rightarrow> uint32 list" where
  "retract key s p v = v[p := v ! p - term_at key s v p]"

text \<open>The published decryption: positions and round sums in the opposite order.\<close>

definition decrypt :: "uint32 list \<Rightarrow> uint32 list \<Rightarrow> uint32 list" where
  "decrypt key v =
     fold (\<lambda>r v. fold (retract key (word_of_nat r * delta)) (rev [0..<length v]) v)
       (rev [1..<Suc (6 + 52 div length v)]) v"

definition Xdecode :: "string \<Rightarrow> string \<Rightarrow> string" where
  "Xdecode cipher key =
     (if cipher = [] then []
      else
        let v = decrypt (pad_key (packWords key False)) (packWords cipher False)
        in take (unat (last v)) (unpackWords (butlast v)))"

lemma length_forth [simp]: "length (forth key s p v) = length v"
  by (simp add: forth_def)

lemma length_retract [simp]: "length (retract key s p v) = length v"
  by (simp add: retract_def)

lemma retract_forth:
  assumes "p < length v" and "2 \<le> length v"
  shows "retract key s p (forth key s p v) = v"
proof -
  have "after (length v - 1) p \<noteq> p" "before (length v - 1) p \<noteq> p"
    using assms by (auto simp: after_def before_def)
  then have "term_at key s (forth key s p v) p = term_at key s v p"
    by (simp add: term_at_def forth_def)
  with assms(1) show ?thesis by (simp add: retract_def forth_def list_update_beyond)
qed

lemma fold_length: "(\<And>p v. length (f p v) = length v) \<Longrightarrow> length (fold f ps v) = length v"
  by (induction ps arbitrary: v) simp_all

lemma fold_undo:
  assumes "\<And>x s. x \<in> set xs \<Longrightarrow> P s \<Longrightarrow> g x (f x s) = s" and "\<And>x s. P s \<Longrightarrow> P (f x s)" and "P s"
  shows "fold g (rev xs) (fold f xs s) = s"
  using assms(1,3)
proof (induction xs arbitrary: s)
  case (Cons x xs)
  then have "fold g (rev xs) (fold f xs (f x s)) = f x s" using assms(2) by simp
  with Cons show ?case by simp
qed simp

subsection \<open>The loops of the code are folds of positions\<close>

definition whole_round :: "uint32 list \<Rightarrow> uint32 \<Rightarrow> uint32 list \<Rightarrow> uint32 list" where
  "whole_round key s v = fold (forth key s) [0..<length v] v"

lemma inner_forth:
  assumes "p < length v - 1"
  shows "inner key s p (v, v ! before (length v - 1) p) =
    (forth key s p v, forth key s p v ! before (length v - 1) (Suc p))"
  using assms by (simp add: inner_def forth_def term_at_def after_def before_def)

lemma inner_fold:
  assumes "n \<le> length v - 1"
  shows "fold (inner key s) [0..<n] (v, v ! (length v - 1)) =
    (fold (forth key s) [0..<n] v, fold (forth key s) [0..<n] v ! before (length v - 1) n)"
  using assms
proof (induction n)
  case 0
  then show ?case by (simp add: before_def)
next
  case (Suc n)
  let ?w = "fold (forth key s) [0..<n] v"
  have l: "length ?w = length v" by (rule fold_length) simp
  from Suc show ?case using inner_forth [of n ?w key s] by (simp add: l)
qed

lemma round_once_whole:
  assumes "2 \<le> length v"
  shows "round_once key (length v - 1) s (v, v ! (length v - 1)) =
    (whole_round key s v, whole_round key s v ! (length v - 1))"
proof -
  let ?n = "length v - 1"
  let ?w = "fold (forth key s) [0..<?n] v"
  have l: "length ?w = length v" by (rule fold_length) simp
  have "[0..<length v] = [0..<?n] @ [?n]" using assms by (cases "length v") simp_all
  then have w: "whole_round key s v = forth key s ?n ?w" by (simp add: whole_round_def)
  have "forth key s ?n ?w = ?w[?n := ?w ! ?n + mix (?w ! 0) (?w ! before ?n ?n) s (key_at key s ?n)]"
    unfolding forth_def term_at_def l by (simp add: after_def)
  with w inner_fold [of ?n v key s] show ?thesis by (simp add: round_once_def Let_def)
qed

lemma rounds_fold:
  assumes "2 \<le> length v"
  shows "fst (rounds key (length v - 1) r s (v, v ! (length v - 1))) =
    fold (\<lambda>i. whole_round key (s + word_of_nat i * delta)) [1..<Suc r] v"
  using assms
proof (induction r arbitrary: s v)
  case 0
  then show ?case by simp
next
  case (Suc r)
  let ?v = "whole_round key (s + delta) v"
  have l: "length ?v = length v" unfolding whole_round_def by (rule fold_length) simp
  have shift: "[1..<Suc (Suc r)] = 1 # map Suc [1..<Suc r]" unfolding map_Suc_upt by (rule upt_conv_Cons) simp
  have "fst (rounds key (length v - 1) (Suc r) s (v, v ! (length v - 1))) =
      fold (\<lambda>i. whole_round key (s + delta + word_of_nat i * delta)) [1..<Suc r] ?v"
    using Suc.IH [of ?v "s + delta", unfolded l, OF Suc.prems]
    by (simp only: rounds.simps round_once_whole [OF Suc.prems])
  also have "\<dots> = fold (\<lambda>i. whole_round key (s + word_of_nat i * delta)) (map Suc [1..<Suc r]) ?v"
    by (simp only: fold_map comp_def of_nat_Suc distrib_right mult_1 add.assoc)
  finally show ?case unfolding shift by (simp only: fold_Cons comp_apply of_nat_1 mult_1_left)
qed

lemma length_decrypt: "length (decrypt key v) = length v"
  unfolding decrypt_def by (rule fold_length) (simp add: fold_length)

lemma decrypt_rounds:
  assumes "2 \<le> length v"
  shows "decrypt key (fst (rounds key (length v - 1) (6 + 52 div length v) 0 (v, v ! (length v - 1)))) = v"
proof -
  let ?enc = "fold (\<lambda>i. whole_round key (word_of_nat i * delta)) [1..<Suc (6 + 52 div length v)] v"
  have len: "length (whole_round key s u) = length u" for s u
    unfolding whole_round_def by (rule fold_length) simp
  then have l: "length ?enc = length v" by (intro fold_length)
  have undo: "fold (retract key s) (rev [0..<length (whole_round key s u)]) (whole_round key s u) = u"
    if "length u = length v" for s u
    unfolding len unfolding whole_round_def
    by (rule fold_undo [where P = "\<lambda>w. length w = length v"]) (use that assms in \<open>auto intro: retract_forth\<close>)
  have "decrypt key ?enc = v"
    unfolding decrypt_def l
    by (rule fold_undo [where P = "\<lambda>w. length w = length v"]) (use undo len in auto)
  then show ?thesis unfolding rounds_fold [OF assms] by (simp only: add_0)
qed

lemma Xdecode_Xencode:
  assumes "length msg < 2 ^ 32"
  shows "Xdecode (Xencode msg key) key = msg"
proof (cases "msg = []")
  case False
  let ?v = "packWords msg True" and ?k = "pad_key (packWords key False)"
  have two: "2 \<le> length ?v" using False by (simp add: packWords_length packWords_step)
  let ?c = "fst (rounds ?k (length ?v - 1) (6 + 52 div length ?v) 0 (?v, ?v ! (length ?v - 1)))"
  have "length ?v - 1 + 1 = length ?v" using two by simp
  then have enc: "Xencode msg key = unpackWords ?c" using False by (simp only: Xencode_def Let_def if_False)
  have dec: "decrypt ?k ?c = ?v" by (rule decrypt_rounds [OF two])
  then have "length ?c = length ?v" using length_decrypt by metis
  then have "?c \<noteq> []" using two by auto
  then have "unpackWords ?c \<noteq> []" by (cases ?c) (simp_all add: unpackWords_def)
  moreover have "unat (word_of_nat (length msg) :: uint32) = length msg"
    using assms by (simp add: unat_of_nat take_bit_nat_eq_self)
  ultimately show ?thesis
    by (simp only: enc Xdecode_def pack_unpack dec Let_def if_False)
      (simp add: packWords_length unpack_pack)
qed (simp add: Xencode_def Xdecode_def)

interpretation xxtea: codec "\<lambda>msg. Xencode msg key" "\<lambda>c. Some (Xdecode c key)" "\<lambda>msg. length msg < 2 ^ 32" for key
  by unfold_locales (simp add: Xdecode_Xencode)

text \<open>
  The cipher is reversible. For every message (of less than 4 GiB, the range of its length word)
  and every key of any length, the published decryption recovers the message from the ciphertext, so
  two different messages never give the same blob; a ciphertext is a whole number of words, one more
  than the message needs.
\<close>

theorem xxtea_round_trip:
  assumes "length msg < 2 ^ 32"
  shows "Xdecode (Xencode msg key) key = msg \<and>
    (msg \<noteq> [] \<longrightarrow> length (Xencode msg key) = 4 * ((length msg + 3) div 4 + 1)) \<and>
    (\<forall>other. length other < 2 ^ 32 \<and> Xencode other key = Xencode msg key \<longrightarrow> other = msg)"
proof (intro conjI allI impI)
  show "Xdecode (Xencode msg key) key = msg" by (rule Xdecode_Xencode [OF assms])
next
  show "other = msg" if "length other < 2 ^ 32 \<and> Xencode other key = Xencode msg key" for other
    using xxtea.enc_inj [of other msg] that assms by blast
next
  assume "msg \<noteq> []"
  let ?v = "packWords msg True" and ?k = "pad_key (packWords key False)"
  have two: "2 \<le> length ?v" using \<open>msg \<noteq> []\<close> by (simp add: packWords_length packWords_step)
  have "length (fold (\<lambda>i. whole_round ?k (0 + word_of_nat i * delta)) rs ?v) = length ?v" for rs
    by (rule fold_length) (simp add: whole_round_def fold_length)
  with rounds_fold [OF two, of ?k _ 0]
  have "length (fst (rounds ?k (length ?v - 1) r 0 (?v, ?v ! (length ?v - 1)))) = length ?v" for r by simp
  moreover have "length (unpackWords ws) = 4 * length ws" for ws by (induction ws) (simp_all add: unpackWords_def)
  ultimately show "length (Xencode msg key) = 4 * ((length msg + 3) div 4 + 1)"
    using \<open>msg \<noteq> []\<close> by (simp add: Xencode_def Let_def) (simp add: packWords_def)
qed

theorem xxtea_round_trip_witness:
  "Xdecode (Xencode ''abcde'' ''token'') ''token'' = ''abcde'' \<and> length (Xencode ''abcde'' ''token'') = 12"
  using xxtea_round_trip [of "''abcde''" "''token''"] by simp

end
