(* ===== verification/Go_Utf8.thy ===== *)
theory Go_Utf8
  imports Go_Text
begin

text \<open>
  \<open>utf8.DecodeRuneInString\<close> and \<open>utf8.AppendRune\<close> of the Go standard library on byte strings. A rune is
  its code point; an invalid sequence decodes as the pair (U+FFFD, 1), the empty string as (U+FFFD, 0).
\<close>

definition RuneError :: nat where "RuneError = 0xFFFD"

definition byte_in :: "nat \<Rightarrow> nat \<Rightarrow> char \<Rightarrow> bool" where
  "byte_in lo hi c \<longleftrightarrow> lo \<le> of_char c \<and> of_char c \<le> hi"

definition low6 :: "char \<Rightarrow> nat" where
  "low6 c = of_char c - 0x80"

text \<open>The range the second byte must have, by the first byte (the acceptRanges table of the package).\<close>

definition accept :: "nat \<Rightarrow> nat \<times> nat" where
  "accept x = (if x = 0xE0 then (0xA0, 0xBF) else if x = 0xED then (0x80, 0x9F)
     else if x = 0xF0 then (0x90, 0xBF) else if x = 0xF4 then (0x80, 0x8F) else (0x80, 0xBF))"

definition DecodeRune :: "string \<Rightarrow> nat \<times> nat" where
  "DecodeRune s =
     (case s of
        [] \<Rightarrow> (RuneError, 0)
      | a # r \<Rightarrow>
          (let x = of_char a; (lo, hi) = accept x in
           if x < 0x80 then (x, 1)
           else if 0xC2 \<le> x \<and> x \<le> 0xDF \<and> 1 \<le> length r \<and> byte_in lo hi (r ! 0)
             then ((x - 0xC0) * 64 + low6 (r ! 0), 2)
           else if 0xE0 \<le> x \<and> x \<le> 0xEF \<and> 2 \<le> length r \<and> byte_in lo hi (r ! 0) \<and> byte_in 0x80 0xBF (r ! 1)
             then ((x - 0xE0) * 4096 + low6 (r ! 0) * 64 + low6 (r ! 1), 3)
           else if 0xF0 \<le> x \<and> x \<le> 0xF4 \<and> 3 \<le> length r \<and> byte_in lo hi (r ! 0) \<and>
               byte_in 0x80 0xBF (r ! 1) \<and> byte_in 0x80 0xBF (r ! 2)
             then ((x - 0xF0) * 262144 + low6 (r ! 0) * 4096 + low6 (r ! 1) * 64 + low6 (r ! 2), 4)
           else (RuneError, 1)))"

definition scalar :: "nat \<Rightarrow> bool" where
  "scalar r \<longleftrightarrow> r < 0xD800 \<or> (0xDFFF < r \<and> r \<le> 0x10FFFF)"

definition chr6 :: "nat \<Rightarrow> char" where
  "chr6 n = char_of (0x80 + n mod 64)"

definition EncodeRune :: "nat \<Rightarrow> string" where
  "EncodeRune r =
     (if r < 0x80 then [char_of r]
      else if r < 0x800 then [char_of (0xC0 + r div 64), chr6 r]
      else if r < 0x10000 then [char_of (0xE0 + r div 4096), chr6 (r div 64), chr6 r]
      else [char_of (0xF0 + r div 262144), chr6 (r div 4096), chr6 (r div 64), chr6 r])"

lemma of_char_chr6 [simp]: "of_char (chr6 n) = (0x80 + n mod 64 :: nat)"
proof -
  have "n mod 64 < 64" by simp
  then have "(0x80 + n mod 64) mod 256 = (0x80 + n mod 64 :: nat)" by simp
  then show ?thesis by (simp add: chr6_def of_char_of)
qed

lemma low6_chr6 [simp]: "low6 (chr6 n) = n mod 64"
  by (simp add: low6_def)

lemma of_char_small: "n < 256 \<Longrightarrow> of_char (char_of n) = (n :: nat)"
  by (simp add: of_char_of)

lemma byte_in_chr6 [simp]: "byte_in 0x80 0xBF (chr6 n)"
proof -
  have "n mod 64 < 64" by simp
  then show ?thesis by (simp add: byte_in_def)
qed

lemma Decode_Encode_rune:
  assumes "scalar r"
  shows "DecodeRune (EncodeRune r @ rest) = (r, length (EncodeRune r)) "
proof -
  have bound: "r \<le> 0x10FFFF" using assms by (auto simp: scalar_def)
  consider "r < 0x80" | "0x80 \<le> r" "r < 0x800" | "0x800 \<le> r" "r < 0x10000" | "0x10000 \<le> r" by linarith
  then show ?thesis
  proof cases
    case 1
    then show ?thesis by (simp add: EncodeRune_def DecodeRune_def of_char_small Let_def split: prod.split)
  next
    case 2
    define q where "q = r div 64"
    have q: "2 \<le> q" "q < 32" "r = q * 64 + r mod 64" using 2 by (auto simp: q_def div_le_mono)
    have x: "of_char (char_of (0xC0 + q)) = (0xC0 + q :: nat)" using q by (intro of_char_small) simp
    have "accept (0xC0 + q) = (0x80, 0xBF)" using q by (simp add: accept_def)
    then show ?thesis using 2 q by (simp add: EncodeRune_def DecodeRune_def q_def [symmetric] x Let_def)
  next
    case 3
    define q where "q = r div 4096"
    define m where "m = r div 64"
    have mq: "m = q * 64 + m mod 64" unfolding q_def m_def by (simp add: div_mult2_eq [of _ 64 64, simplified])
    have "r = m * 64 + r mod 64" by (simp add: m_def)
    then have r: "r = q * 4096 + m mod 64 * 64 + r mod 64" using mq by linarith
    have q: "q < 16" using 3 by (simp add: q_def less_mult_imp_div_less)
    note q = q r
    have x: "of_char (char_of (0xE0 + q)) = (0xE0 + q :: nat)" using q by (intro of_char_small) simp
    have "case accept (0xE0 + q) of (lo, hi) \<Rightarrow> byte_in lo hi (chr6 m)"
      using q 3 assms mq by (auto simp: accept_def byte_in_def scalar_def)
    then show ?thesis using 3 q
      by (auto simp: EncodeRune_def DecodeRune_def q_def [symmetric] m_def [symmetric] x Let_def split: prod.splits)
  next
    case 4
    define q where "q = r div 262144"
    define m where "m = r div 4096"
    define k where "k = r div 64"
    have mq: "m = q * 64 + m mod 64" unfolding q_def m_def by (simp add: div_mult2_eq [of _ 4096 64, simplified])
    have km: "k = m * 64 + k mod 64" unfolding k_def m_def by (simp add: div_mult2_eq [of _ 64 64, simplified])
    have "r = k * 64 + r mod 64" by (simp add: k_def)
    then have r: "r = q * 262144 + m mod 64 * 4096 + k mod 64 * 64 + r mod 64" using mq km by linarith
    have q: "q < 5" using bound by (simp add: q_def less_mult_imp_div_less)
    note q = q r
    have x: "of_char (char_of (0xF0 + q)) = (0xF0 + q :: nat)" using q by (intro of_char_small) simp
    have ml: "16 \<le> m" "m \<le> 271" using div_le_mono [OF 4, where k = 4096] div_le_mono [OF bound, where k = 4096] by (simp_all add: m_def)
    have "case accept (0xF0 + q) of (lo, hi) \<Rightarrow> byte_in lo hi (chr6 m)"
      using q mq ml by (auto simp: accept_def byte_in_def)
    then show ?thesis using 4 q
      by (auto simp: EncodeRune_def DecodeRune_def q_def [symmetric] m_def [symmetric] k_def [symmetric] x Let_def split: prod.splits)
  qed
qed

lemma chr6_low6: "byte_in lo hi c \<Longrightarrow> 0x80 \<le> lo \<Longrightarrow> hi \<le> 0xBF \<Longrightarrow> n mod 64 = low6 c \<Longrightarrow> chr6 n = c"
  by (simp add: chr6_def low6_def byte_in_def)

lemma low6_lt: "byte_in lo hi c \<Longrightarrow> hi \<le> 0xBF \<Longrightarrow> low6 c < 64"
  unfolding low6_def byte_in_def by linarith

lemma accept_range: "0x80 \<le> fst (accept x)" "snd (accept x) \<le> 0xBF"
  by (simp_all add: accept_def)

lemma digits64:
  assumes "(l :: nat) < 64" and "m < 64" and "k < 64"
  shows "(x * 64 + k) div 64 = x" "(x * 64 + k) mod 64 = k"
    "(x * 4096 + m * 64 + k) div 4096 = x" "(x * 4096 + m * 64 + k) div 64 mod 64 = m" "(x * 4096 + m * 64 + k) mod 64 = k"
    "(x * 262144 + l * 4096 + m * 64 + k) div 262144 = x" "(x * 262144 + l * 4096 + m * 64 + k) div 4096 mod 64 = l"
    "(x * 262144 + l * 4096 + m * 64 + k) div 64 mod 64 = m" "(x * 262144 + l * 4096 + m * 64 + k) mod 64 = k"
proof -
  have one: "(y * 64 + k) div 64 = y" "(y * 64 + k) mod 64 = k" for y using assms(3) by simp_all
  have two: "(y * 64 + m) div 64 = y" "(y * 64 + m) mod 64 = m" for y using assms(2) by simp_all
  have three: "(y * 64 + l) div 64 = y" "(y * 64 + l) mod 64 = l" for y using assms(1) by simp_all
  have f: "x * 4096 + m * 64 + k = (x * 64 + m) * 64 + k" by simp
  have g: "x * 262144 + l * 4096 + m * 64 + k = ((x * 64 + l) * 64 + m) * 64 + k" by simp
  have d: "n div 4096 = n div 64 div 64" "n div 262144 = n div 64 div 64 div 64" for n :: nat
    by (simp_all add: div_mult2_eq [symmetric])
  show "(x * 64 + k) div 64 = x" "(x * 64 + k) mod 64 = k" by (fact one)+
  show "(x * 4096 + m * 64 + k) div 4096 = x" "(x * 4096 + m * 64 + k) div 64 mod 64 = m" "(x * 4096 + m * 64 + k) mod 64 = k"
    unfolding f d one two by (rule refl)+
  show "(x * 262144 + l * 4096 + m * 64 + k) div 262144 = x" "(x * 262144 + l * 4096 + m * 64 + k) div 4096 mod 64 = l"
    "(x * 262144 + l * 4096 + m * 64 + k) div 64 mod 64 = m" "(x * 262144 + l * 4096 + m * 64 + k) mod 64 = k"
    unfolding g d one two three by (rule refl)+
qed

lemma Encode_Decode_rune:
  assumes "DecodeRune (a # r) = (c, n)" and "\<not> (c = RuneError \<and> n \<le> 1)"
  shows "scalar c \<and> n = length (EncodeRune c) \<and> a # r = EncodeRune c @ drop n (a # r)"
proof -
  define x :: nat where "x = of_char a"
  have a: "char_of x = a" by (simp add: x_def)
  obtain lo hi where ac: "accept x = (lo, hi)" by fastforce
  then have lh: "0x80 \<le> lo" "hi \<le> 0xBF" using accept_range [of x] by simp_all
  consider
    "x < 0x80" "c = x" "n = 1"
  | b s where "r = b # s" "0xC2 \<le> x" "x \<le> 0xDF" "byte_in lo hi b" "c = (x - 0xC0) * 64 + low6 b" "n = 2"
  | b d s where "r = b # d # s" "0xE0 \<le> x" "x \<le> 0xEF" "byte_in lo hi b" "byte_in 0x80 0xBF d"
      "c = (x - 0xE0) * 4096 + low6 b * 64 + low6 d" "n = 3"
  | b d e s where "r = b # d # e # s" "0xF0 \<le> x" "x \<le> 0xF4" "byte_in lo hi b" "byte_in 0x80 0xBF d" "byte_in 0x80 0xBF e"
      "c = (x - 0xF0) * 262144 + low6 b * 4096 + low6 d * 64 + low6 e" "n = 4"
    using assms unfolding DecodeRune_def list.case x_def [symmetric] Let_def ac prod.case
    by (cases r; cases "tl r"; cases "tl (tl r)") (auto split: if_splits)
  then show ?thesis
  proof cases
    case 1
    then show ?thesis by (simp add: EncodeRune_def scalar_def a)
  next
    case (2 b s)
    note l = low6_lt [OF 2(4) lh(2)]
    have c: "0x80 \<le> c" "c < 0x800" using 2 l by auto
    have "c div 64 = x - 0xC0" "c mod 64 = low6 b" unfolding 2(5) using digits64 [OF l l l] by simp_all
    then have "EncodeRune c = [a, b]"
      using 2 c chr6_low6 [OF 2(4) lh, of c] by (simp add: EncodeRune_def a)
    then show ?thesis using 2 c by (simp add: scalar_def)
  next
    case (3 b d s)
    note l = low6_lt [OF 3(4) lh(2)] and l' = low6_lt [OF 3(5) order.refl]
    have "low6 b \<ge> 32" if "x = 0xE0" using that 3(4) ac by (auto simp: accept_def byte_in_def low6_def)
    then have lo: "0x800 \<le> c" using 3(2,6) by (cases "x = 0xE0") auto
    have "low6 b < 32" if "x = 0xED" using that 3(4) ac by (auto simp: accept_def byte_in_def low6_def)
    then have "c < 0xD800 \<or> 0xDFFF < c" using 3(2,3,6) l l' by (cases "x \<le> 0xED"; cases "x = 0xED") auto
    moreover have hi: "c < 0x10000" using 3(3,6) l l' by auto
    ultimately have sc: "scalar c" by (auto simp: scalar_def)
    have "c div 4096 = x - 0xE0" "c div 64 mod 64 = low6 b" "c mod 64 = low6 d"
      unfolding 3(6) using digits64 [OF l l l'] by simp_all
    then have "EncodeRune c = [a, b, d]"
      using 3 lo hi chr6_low6 [OF 3(4) lh, of "c div 64"] chr6_low6 [OF 3(5), of c] by (simp add: EncodeRune_def a)
    then show ?thesis using 3 sc by simp
  next
    case (4 b d e s)
    note l = low6_lt [OF 4(4) lh(2)] and l' = low6_lt [OF 4(5) order.refl] and l'' = low6_lt [OF 4(6) order.refl]
    have "low6 b \<ge> 16" if "x = 0xF0" using that 4(4) ac by (auto simp: accept_def byte_in_def low6_def)
    then have lo: "0x10000 \<le> c" using 4(2,7) by (cases "x = 0xF0") auto
    have "low6 b < 16" if "x = 0xF4" using that 4(4) ac by (auto simp: accept_def byte_in_def low6_def)
    then have hi: "c \<le> 0x10FFFF" using 4(3,7) l l' l'' by (cases "x = 0xF4") auto
    have "c div 262144 = x - 0xF0" "c div 4096 mod 64 = low6 b" "c div 64 mod 64 = low6 d" "c mod 64 = low6 e"
      unfolding 4(7) using digits64 [OF l l' l''] by simp_all
    then have "EncodeRune c = [a, b, d, e]"
      using 4 lo chr6_low6 [OF 4(4) lh, of "c div 4096"] chr6_low6 [OF 4(5), of "c div 64"] chr6_low6 [OF 4(6), of c]
      by (simp add: EncodeRune_def a)
    then show ?thesis using 4 lo hi by (simp add: scalar_def)
  qed
qed

definition valid_utf8 :: "string \<Rightarrow> bool" where
  "valid_utf8 s \<longleftrightarrow> (\<exists>rs. (\<forall>r \<in> set rs. scalar r) \<and> s = concat (map EncodeRune rs))"

lemma EncodeRune_nonempty: "EncodeRune r \<noteq> []"
  by (simp add: EncodeRune_def)

end
