(* ===== verification/Srun_Info.thy ===== *)
theory Srun_Info
  imports Go_Utf8
begin

text \<open>
  The credential object of \<open>protocol/srun/info.go\<close>: the hand-written JSON encoder whose output is
  ASCII only. The reader below it is a plain JSON string reader (escapes, UTF-16 units, surrogate
  pairs): the side of the gateway, as a reference.
\<close>

record Info =
  in_Username :: string
  in_Password :: string
  in_IP :: string
  in_ACID :: string
  in_EncVer :: string

definition appendUnicodeEscape :: "nat \<Rightarrow> string" where
  "appendUnicodeEscape v =
     [CHR 0x5C, CHR ''u'', hex_digit (v div 4096 mod 16), hex_digit (v div 256 mod 16),
      hex_digit (v div 16 mod 16), hex_digit (v mod 16)]"

definition escape_rune :: "nat \<Rightarrow> string" where
  "escape_rune r =
     (if r = 0x22 then [CHR 0x5C, CHR 0x22]
      else if r = 0x5C then [CHR 0x5C, CHR 0x5C]
      else if r = 0x08 then [CHR 0x5C, CHR ''b'']
      else if r = 0x0C then [CHR 0x5C, CHR ''f'']
      else if r = 0x0A then [CHR 0x5C, CHR ''n'']
      else if r = 0x0D then [CHR 0x5C, CHR ''r'']
      else if r = 0x09 then [CHR 0x5C, CHR ''t'']
      else if 0x20 \<le> r \<and> r \<le> 0x7e then [char_of r]
      else if r < 0x10000 then appendUnicodeEscape r
      else let offset = r - 0x10000 in
        appendUnicodeEscape (0xd800 + offset div 1024 mod 1024) @ appendUnicodeEscape (0xdc00 + offset mod 1024))"

text \<open>The loop over the runes; \<^const>\<open>None\<close> is the error return, whose field the caller names.\<close>

function append_runes :: "string \<Rightarrow> string option" where
  "append_runes value =
     (if value = [] then Some []
      else let (symbol, size) = DecodeRune value in
        if symbol = RuneError \<and> size \<le> 1 then None
        else map_option ((@) (escape_rune symbol)) (append_runes (drop size value)))"
  by pat_completeness auto
termination
proof (relation "measure length")
  fix v :: string and x symbol size
  assume v: "v \<noteq> []" and x: "x = DecodeRune v" "(symbol, size) = x" and ok: "\<not> (symbol = RuneError \<and> size \<le> 1)"
  obtain a r where "v = a # r" using v by (cases v) auto
  then have "size = length (EncodeRune symbol)" using Encode_Decode_rune [of a r symbol size] x ok by metis
  then have "0 < size" by (simp add: EncodeRune_nonempty)
  then show "(drop size v, v) \<in> measure length" using v by simp
qed simp

declare append_runes.simps [simp del]

definition appendJSONString :: "string \<Rightarrow> string \<Rightarrow> gerror + string" where
  "appendJSONString value field =
     (case append_runes value of
        None \<Rightarrow> Inl (FieldErrorf CodeInvalidArgument field)
      | Some body \<Rightarrow> Inr ([CHR 0x22] @ body @ [CHR 0x22]))"

text \<open>\<open>literal\<close>, then a string, then the rest: the sequence of writes with its early returns.\<close>

definition member :: "string \<Rightarrow> string \<Rightarrow> string \<Rightarrow> gerror + string \<Rightarrow> gerror + string" where
  "member literal value field rest =
     (case appendJSONString value field of
        Inl e \<Rightarrow> Inl e
      | Inr s \<Rightarrow> (case rest of Inl e \<Rightarrow> Inl e | Inr t \<Rightarrow> Inr (literal @ s @ t)))"

definition key_lit :: "string \<Rightarrow> string \<Rightarrow> string" where
  "key_lit opening name = opening @ [CHR 0x22] @ name @ [CHR 0x22, CHR '':'']"

definition EncodeInfo :: "Info \<Rightarrow> gerror + string" where
  "EncodeInfo info =
     member (key_lit ''{'' ''username'') (in_Username info) ''username''
     (member (key_lit '','' ''password'') (in_Password info) ''password''
     (member (key_lit '','' ''ip'') (in_IP info) ''ip''
     (member (key_lit '','' ''acid'') (in_ACID info) ''acid''
     (member (key_lit '','' ''enc_ver'') (in_EncVer info) ''enc_ver''
     (Inr ''}'')))))"

subsection \<open>The encoder on runes\<close>

lemma append_runes_Nil [simp]: "append_runes [] = Some []"
  by (subst append_runes.simps) simp

lemma append_runes_rune:
  "scalar r \<Longrightarrow> append_runes (EncodeRune r @ s) = map_option ((@) (escape_rune r)) (append_runes s)"
  using EncodeRune_nonempty [of r] Decode_Encode_rune [of r s]
  by (subst append_runes.simps) (auto simp: EncodeRune_def RuneError_def)

lemma append_runes_concat:
  "\<forall>r \<in> set rs. scalar r \<Longrightarrow> append_runes (concat (map EncodeRune rs)) = Some (concat (map escape_rune rs))"
  by (induction rs) (simp_all add: append_runes_rune)

lemma append_runes_Some:
  assumes "append_runes s = Some t"
  shows "\<exists>rs. (\<forall>r \<in> set rs. scalar r) \<and> s = concat (map EncodeRune rs) \<and> t = concat (map escape_rune rs)"
  using assms
proof (induction s arbitrary: t rule: append_runes.induct)
  case (1 v)
  show ?case
  proof (cases v)
    case Nil
    then show ?thesis using 1(2) by (intro exI [of _ "[]"]) simp
  next
    case (Cons a r)
    obtain c n where d: "DecodeRune v = (c, n)" by fastforce
    from 1(2) Cons d have ok: "\<not> (c = RuneError \<and> n \<le> 1)" by (subst (asm) append_runes.simps) auto
    with 1(2) Cons d obtain u where u: "append_runes (drop n v) = Some u" "t = escape_rune c @ u"
      by (subst (asm) append_runes.simps) auto
    from 1(1) [OF _ d [symmetric] _ ok u(1)] Cons
    obtain rs where rs: "\<forall>r \<in> set rs. scalar r" "drop n v = concat (map EncodeRune rs)" "u = concat (map escape_rune rs)"
      by auto
    from Encode_Decode_rune [of a r c n] d ok Cons have "scalar c" "v = EncodeRune c @ drop n v" by auto
    with rs u(2) show ?thesis by (intro exI [of _ "c # rs"]) auto
  qed
qed

lemma append_runes_valid: "append_runes s \<noteq> None \<longleftrightarrow> valid_utf8 s"
proof
  show "valid_utf8 s" if "append_runes s \<noteq> None"
    using that append_runes_Some by (auto simp: valid_utf8_def)
  show "append_runes s \<noteq> None" if "valid_utf8 s"
    using that append_runes_concat by (auto simp: valid_utf8_def)
qed

subsection \<open>The reader\<close>

definition utf16 :: "nat \<Rightarrow> nat list" where
  "utf16 r = (if r < 0x10000 then [r]
     else [0xd800 + (r - 0x10000) div 1024 mod 1024, 0xdc00 + (r - 0x10000) mod 1024])"

fun join16 :: "nat list \<Rightarrow> nat list" where
  "join16 (h # l # us) =
     (if 0xd800 \<le> h \<and> h < 0xdc00 \<and> 0xdc00 \<le> l \<and> l < 0xe000
      then (0x10000 + (h - 0xd800) * 1024 + (l - 0xdc00)) # join16 us
      else h # join16 (l # us))"
| "join16 us = us"

definition unescape :: "char \<Rightarrow> nat" where
  "unescape c = (if c = CHR ''b'' then 8 else if c = CHR ''f'' then 0x0C else if c = CHR ''n'' then 0x0A
     else if c = CHR ''r'' then 0x0D else if c = CHR ''t'' then 9 else of_char c)"

fun read_units :: "string \<Rightarrow> (nat list \<times> string) option" where
  "read_units [] = None"
| "read_units (c # s) =
     (if c = CHR 0x22 then Some ([], s)
      else if c = CHR 0x5C then
        (case s of
           [] \<Rightarrow> None
         | e # s' \<Rightarrow>
             if e = CHR ''u'' then
               (case s' of
                  p # q # x # y # rest \<Rightarrow>
                    map_option (map_prod ((#) (((unhex p * 16 + unhex q) * 16 + unhex x) * 16 + unhex y)) id) (read_units rest)
                | _ \<Rightarrow> None)
             else map_option (map_prod ((#) (unescape e)) id) (read_units s'))
      else map_option (map_prod ((#) (of_char c)) id) (read_units s))"

definition read_string :: "string \<Rightarrow> (string \<times> string) option" where
  "read_string s = (case s of
     c # s' \<Rightarrow> if c = CHR 0x22
       then map_option (\<lambda>(us, rest). (concat (map EncodeRune (join16 us)), rest)) (read_units s') else None
   | [] \<Rightarrow> None)"

definition read_member :: "string \<Rightarrow> string \<Rightarrow> (string \<times> string) option" where
  "read_member literal s = Option.bind (CutPrefix s literal) read_string"

definition DecodeInfo :: "string \<Rightarrow> Info option" where
  "DecodeInfo s =
     Option.bind (read_member (key_lit ''{'' ''username'') s) (\<lambda>(u, s).
     Option.bind (read_member (key_lit '','' ''password'') s) (\<lambda>(p, s).
     Option.bind (read_member (key_lit '','' ''ip'') s) (\<lambda>(i, s).
     Option.bind (read_member (key_lit '','' ''acid'') s) (\<lambda>(a, s).
     Option.bind (read_member (key_lit '','' ''enc_ver'') s) (\<lambda>(e, s).
     if s = ''}'' then Some \<lparr>in_Username = u, in_Password = p, in_IP = i, in_ACID = a, in_EncVer = e\<rparr> else None)))))"

subsection \<open>What is written is read back\<close>

lemma hex4:
  assumes "v < 65536"
  shows "((unhex (hex_digit (v div 4096 mod 16)) * 16 + unhex (hex_digit (v div 256 mod 16))) * 16 +
    unhex (hex_digit (v div 16 mod 16))) * 16 + unhex (hex_digit (v mod 16)) = v"
proof -
  have u: "unhex (hex_digit (n mod 16)) = n mod 16" for n by (rule unhex_hex) simp
  have "v div 256 = v div 16 div 16" "v div 4096 = v div 16 div 16 div 16" by (simp_all add: div_mult2_eq [symmetric])
  note d = this
  have "v div 4096 < 16" using assms by (simp add: less_mult_imp_div_less)
  then have m: "v div 16 div 16 div 16 mod 16 = v div 16 div 16 div 16" using d(2) by simp
  show ?thesis unfolding d u unfolding m by (simp only: div_mult_mod_eq)
qed

lemma read_escape:
  assumes "u < 65536"
  shows "read_units (appendUnicodeEscape u @ s) = map_option (map_prod ((#) u) id) (read_units s)"
  using hex4 [OF assms] by (simp add: appendUnicodeEscape_def del: unhex.simps)

lemma read_unit:
  assumes "u < 65536"
  shows "read_units (escape_rune u @ s) = map_option (map_prod ((#) u) id) (read_units s)"
proof -
  consider "u \<in> {0x22, 0x5C, 0x08, 0x0C, 0x0A, 0x0D, 0x09}"
    | "0x20 \<le> u" "u \<le> 0x7e" "u \<noteq> 0x22" "u \<noteq> 0x5C"
    | "escape_rune u = appendUnicodeEscape u"
    using assms by (cases "u \<in> {0x22, 0x5C, 0x08, 0x0C, 0x0A, 0x0D, 0x09}"; cases "0x20 \<le> u \<and> u \<le> 0x7e")
      (auto simp: escape_rune_def)
  then show ?thesis
  proof cases
    case 1
    then show ?thesis by (auto simp: escape_rune_def unescape_def)
  next
    case 2
    then have c: "of_char (char_of u) = u" by (intro of_char_small) simp
    then have "char_of u \<noteq> CHR 0x22" "char_of u \<noteq> CHR 0x5C" using 2 by (auto dest!: arg_cong [of _ _ "of_char :: char \<Rightarrow> nat"])
    moreover have "escape_rune u = [char_of u]" using 2 by (simp add: escape_rune_def)
    ultimately show ?thesis using c by simp
  next
    case 3
    then show ?thesis using read_escape [OF assms] by simp
  qed
qed

lemma escape_rune_utf16:
  assumes "scalar r"
  shows "escape_rune r = concat (map escape_rune (utf16 r)) \<and> (\<forall>u \<in> set (utf16 r). u < 65536)"
proof (cases "r < 0x10000")
  case True
  then show ?thesis by (simp add: utf16_def)
next
  case False
  define h where "h = (r - 0x10000) div 1024 mod 1024"
  define l where "l = (r - 0x10000) mod 1024"
  have "h < 1024" "l < 1024" by (simp_all add: h_def l_def)
  moreover have "escape_rune r = appendUnicodeEscape (0xd800 + h) @ appendUnicodeEscape (0xdc00 + l)"
    using False by (simp add: escape_rune_def Let_def h_def l_def)
  moreover have "utf16 r = [0xd800 + h, 0xdc00 + l]" using False by (simp add: utf16_def h_def l_def)
  ultimately show ?thesis by (simp add: escape_rune_def)
qed

lemma read_units_utf16:
  "\<forall>u \<in> set us. u < 65536 \<Longrightarrow> read_units (concat (map escape_rune us) @ s) = map_option (map_prod ((@) us) id) (read_units s)"
proof (induction us)
  case Nil
  show ?case by (cases "read_units s") simp_all
next
  case (Cons u us)
  then show ?case by (cases "read_units s") (auto simp: read_unit map_prod_def split: prod.splits)
qed

lemma read_units_runes:
  "\<forall>r \<in> set rs. scalar r \<Longrightarrow>
   read_units (concat (map escape_rune rs) @ [CHR 0x22] @ s) = Some (concat (map utf16 rs), s)"
proof (induction rs)
  case Nil
  show ?case by simp
next
  case (Cons r rs)
  then have e: "escape_rune r = concat (map escape_rune (utf16 r))" "\<forall>u \<in> set (utf16 r). u < 65536"
    using escape_rune_utf16 [of r] by auto
  show ?case
    using Cons read_units_utf16 [OF e(2), of "concat (map escape_rune rs) @ [CHR 0x22] @ s"] e(1) by simp
qed

lemma join16_plain: "u < 0xd800 \<or> 0xdc00 \<le> u \<Longrightarrow> join16 (u # us) = u # join16 us"
  by (cases us) auto

lemma join16_utf16: "\<forall>r \<in> set rs. scalar r \<Longrightarrow> join16 (concat (map utf16 rs)) = rs"
proof (induction rs)
  case (Cons r rs)
  then have ih: "join16 (concat (map utf16 rs)) = rs" by simp
  show ?case
  proof (cases "r < 0x10000")
    case True
    then have "r < 0xd800 \<or> 0xdc00 \<le> r" using Cons.prems by (auto simp: scalar_def)
    moreover have "utf16 r = [r]" using True by (simp add: utf16_def)
    ultimately show ?thesis using ih by (simp add: join16_plain)
  next
    case False
    define n where "n = r - 0x10000"
    have "n < 1048576" using Cons.prems by (auto simp: n_def scalar_def)
    then have "n div 1024 < 1024" by (simp add: less_mult_imp_div_less)
    moreover have "n mod 1024 < 1024" by simp
    moreover have "0x10000 + n div 1024 * 1024 + n mod 1024 = r" using False by (simp add: n_def)
    moreover have "utf16 r = [0xd800 + n div 1024 mod 1024, 0xdc00 + n mod 1024]" using False by (simp add: utf16_def n_def)
    ultimately show ?thesis using ih by simp
  qed
qed simp

lemma read_string_written:
  assumes "appendJSONString v f = Inr t"
  shows "read_string (t @ rest) = Some (v, rest)"
proof -
  obtain b where b: "append_runes v = Some b" "t = [CHR 0x22] @ b @ [CHR 0x22]"
    using assms by (auto simp: appendJSONString_def split: option.splits)
  obtain rs where rs: "\<forall>r \<in> set rs. scalar r" "v = concat (map EncodeRune rs)" "b = concat (map escape_rune rs)"
    using append_runes_Some [OF b(1)] by auto
  show ?thesis using read_units_runes [OF rs(1), of rest] join16_utf16 [OF rs(1)] rs b(2) by (simp add: read_string_def)
qed

lemma member_Inr:
  "member literal v f rest = Inr t \<longleftrightarrow>
     (\<exists>s u. appendJSONString v f = Inr s \<and> rest = Inr u \<and> t = literal @ s @ u)"
  by (auto simp: member_def split: sum.splits)

lemma read_member_written:
  "appendJSONString v f = Inr s \<Longrightarrow> read_member literal (literal @ s @ u) = Some (v, u)"
  by (simp add: read_member_def CutPrefix_def read_string_written)

lemma Decode_EncodeInfo: "EncodeInfo info = Inr t \<Longrightarrow> DecodeInfo t = Some info"
  by (auto simp: EncodeInfo_def member_Inr DecodeInfo_def read_member_written)

definition info_valid :: "Info \<Rightarrow> bool" where
  "info_valid info \<longleftrightarrow> valid_utf8 (in_Username info) \<and> valid_utf8 (in_Password info) \<and>
     valid_utf8 (in_IP info) \<and> valid_utf8 (in_ACID info) \<and> valid_utf8 (in_EncVer info)"

lemma appendJSONString_Inr: "(\<exists>s. appendJSONString v f = Inr s) \<longleftrightarrow> valid_utf8 v"
  unfolding append_runes_valid [symmetric] by (auto simp: appendJSONString_def split: option.splits)

lemma member_ok: "(\<exists>t. member literal v f rest = Inr t) \<longleftrightarrow> valid_utf8 v \<and> (\<exists>u. rest = Inr u)"
  unfolding member_Inr appendJSONString_Inr [of v f, symmetric] by auto

lemma EncodeInfo_Inr: "(\<exists>t. EncodeInfo info = Inr t) \<longleftrightarrow> info_valid info"
  by (simp add: EncodeInfo_def member_ok info_valid_def)

interpretation info_json: codec "\<lambda>info. case EncodeInfo info of Inr t \<Rightarrow> t | Inl _ \<Rightarrow> []" DecodeInfo info_valid
proof
  fix x
  assume "info_valid x"
  then obtain t where "EncodeInfo x = Inr t" using EncodeInfo_Inr by blast
  then show "DecodeInfo (case EncodeInfo x of Inr t \<Rightarrow> t | Inl _ \<Rightarrow> []) = Some x"
    using Decode_EncodeInfo by simp
qed

definition printable :: "string \<Rightarrow> bool" where
  "printable s \<longleftrightarrow> (\<forall>c \<in> set s. byte_in 0x20 0x7e c)"

lemma hex_printable: "n < 16 \<Longrightarrow> byte_in 0x20 0x7e (hex_digit n)"
  by (drule less16) (auto simp: hex_digit_def byte_in_def)

lemma escape_printable: "printable (escape_rune r)"
proof -
  have u: "printable (appendUnicodeEscape v)" for v
    by (auto simp: appendUnicodeEscape_def printable_def intro: hex_printable) (simp_all add: byte_in_def)
  have "printable [char_of r]" if "0x20 \<le> r" "r \<le> 0x7e"
    using that of_char_small [of r] by (simp add: printable_def byte_in_def)
  with u [of r] u show ?thesis
    by (auto simp: escape_rune_def Let_def printable_def) (simp_all add: byte_in_def)
qed

lemma appendJSONString_printable: "appendJSONString v f = Inr t \<Longrightarrow> printable t"
  using escape_printable append_runes_Some [of v]
  by (fastforce simp: appendJSONString_def printable_def byte_in_def split: option.splits)

lemma EncodeInfo_printable: "EncodeInfo info = Inr t \<Longrightarrow> printable t"
  by (auto simp: EncodeInfo_def member_Inr printable_def key_lit_def byte_in_def
      dest!: appendJSONString_printable)

end
