(* ===== verification/Srun_Login.thy ===== *)
theory Srun_Login
  imports Srun_Base64 Srun_Xxtea Srun_Info
begin

text \<open>
  The composed login fields of \<open>protocol/srun/login.go\<close>. The digest of \<open>digest.go\<close> is the \<open>sha1\<close>
  argument (20 bytes of \<open>crypto/sha1\<close>). The last theorem of the theory composes the three layers:
  what the gateway reads out of the info field is the credential object the client was given.
\<close>

definition LogoutUnbind :: string where "LogoutUnbind = ''1''"
definition WirePasswordPrefix :: string where "WirePasswordPrefix = ''{MD5}''"

function strip_braces :: "string \<Rightarrow> string" where
  "strip_braces prefix_text =
     (if length prefix_text > 2 \<and> prefix ''{'' prefix_text \<and> suffix ''}'' prefix_text
      then strip_braces (TrimSpace (take (length prefix_text - 2) (drop 1 prefix_text))) else prefix_text)"
  by pat_completeness auto
termination
proof (relation "measure length")
  fix prefix_text :: string
  assume "length prefix_text > 2 \<and> prefix ''{'' prefix_text \<and> suffix ''}'' prefix_text"
  moreover have "length (TrimSpace s) \<le> length s" for s by (rule length_TrimSpace)
  then have "length (TrimSpace (take (length prefix_text - 2) (drop 1 prefix_text))) \<le> length (take (length prefix_text - 2) (drop 1 prefix_text))" .
  ultimately show "(TrimSpace (take (length prefix_text - 2) (drop 1 prefix_text)), prefix_text) \<in> measure length"
    by simp linarith
qed simp

declare strip_braces.simps [simp del]

definition NormalizePrefix :: "string \<Rightarrow> string \<Rightarrow> string" where
  "NormalizePrefix raw fallback =
     (let prefix_text = strip_braces (TrimSpace raw) in
      if prefix_text = [] \<or> ContainsAny prefix_text ''{}'' then fallback else prefix_text)"

definition EncryptedInfo :: "string \<Rightarrow> string \<Rightarrow> string \<Rightarrow> string option \<Rightarrow> string" where
  "EncryptedInfo p infoJSON token alphabet =
     (let table = (case alphabet of None \<Rightarrow> DefaultAlphabetTable | Some t \<Rightarrow> t);
          marker = NormalizePrefix p DefaultInfoPrefix
      in ''{'' @ marker @ ''}'' @ Encode table (Xencode infoJSON token))"

definition SHA1Hex :: "(string \<Rightarrow> string) \<Rightarrow> string \<Rightarrow> string" where
  "SHA1Hex sha1 v = EncodeToString (sha1 v)"

text \<open>The positional string parameters of \<open>ChecksumInput\<close> and \<open>Checksum\<close>, as a record.\<close>

record ChecksumFields =
  ck_token :: string
  ck_username :: string
  ck_hmd5 :: string
  ck_acID :: string
  ck_ip :: string
  ck_n :: string
  ck_loginType :: string
  ck_info :: string

definition ChecksumInput :: "ChecksumFields \<Rightarrow> string" where
  "ChecksumInput f =
     concat (map (\<lambda>field. ck_token f @ field)
       [ck_username f, ck_hmd5 f, ck_acID f, ck_ip f, ck_n f, ck_loginType f, ck_info f])"

definition Checksum :: "(string \<Rightarrow> string) \<Rightarrow> ChecksumFields \<Rightarrow> string" where
  "Checksum sha1 f = SHA1Hex sha1 (ChecksumInput f)"

definition LogoutSignInput :: "int \<Rightarrow> string \<Rightarrow> string \<Rightarrow> string" where
  "LogoutSignInput timeSeconds username ip =
     (let stamp = FormatInt timeSeconds in stamp @ username @ ip @ LogoutUnbind @ stamp)"

definition LogoutSign :: "(string \<Rightarrow> string) \<Rightarrow> int \<Rightarrow> string \<Rightarrow> string \<Rightarrow> string" where
  "LogoutSign sha1 timeSeconds username ip = SHA1Hex sha1 (LogoutSignInput timeSeconds username ip)"

subsection \<open>The marker\<close>

definition marker_ok :: "string \<Rightarrow> bool" where
  "marker_ok m \<longleftrightarrow> m \<noteq> [] \<and> \<not> ContainsAny m ''{}''"

lemma marker_NormalizePrefix: "marker_ok fallback \<Longrightarrow> marker_ok (NormalizePrefix raw fallback)"
  by (simp add: NormalizePrefix_def marker_ok_def Let_def)

lemma marker_default: "marker_ok DefaultInfoPrefix"
  by (simp add: marker_ok_def DefaultInfoPrefix_def ContainsAny_def)

lemma strip_braces_plain: "\<not> ContainsAny m ''{}'' \<Longrightarrow> strip_braces m = m"
  by (cases m; subst strip_braces.simps) (auto simp: ContainsAny_def)

lemma strip_trimmed: "TrimSpace prefix_text = prefix_text \<Longrightarrow> TrimSpace (strip_braces prefix_text) = strip_braces prefix_text"
proof (induction prefix_text rule: strip_braces.induct)
  case (1 prefix_text)
  then show ?case by (subst (1 2) strip_braces.simps) simp
qed

lemma NormalizePrefix_idem:
  assumes "TrimSpace fallback = fallback" and "marker_ok fallback"
  shows "NormalizePrefix (NormalizePrefix raw fallback) fallback = NormalizePrefix raw fallback"
proof -
  let ?m = "NormalizePrefix raw fallback"
  have "TrimSpace ?m = ?m" using assms(1) strip_trimmed [of "TrimSpace raw"] by (simp add: NormalizePrefix_def Let_def)
  moreover have "marker_ok ?m" by (rule marker_NormalizePrefix [OF assms(2)])
  ultimately show ?thesis using strip_braces_plain [of ?m] by (simp add: NormalizePrefix_def [of ?m] marker_ok_def Let_def)
qed

subsection \<open>What the gateway reads\<close>

definition split_marker :: "string \<Rightarrow> string \<times> string" where
  "split_marker field = (takeWhile (\<lambda>c. c \<noteq> CHR ''}'') (drop 1 field), drop 1 (dropWhile (\<lambda>c. c \<noteq> CHR ''}'') field))"

definition gateway_info :: "string \<Rightarrow> string \<Rightarrow> string \<Rightarrow> Info option" where
  "gateway_info table token field =
     Option.bind (Decode table (snd (split_marker field))) (\<lambda>c. DecodeInfo (Xdecode c token))"

lemma split_marker_field: "marker_ok m \<Longrightarrow> split_marker (''{'' @ m @ ''}'' @ body) = (m, body)"
proof -
  assume "marker_ok m"
  then have c: "\<forall>c \<in> set m. c \<noteq> CHR ''}''" by (auto simp: marker_ok_def ContainsAny_def)
  then have "takeWhile (\<lambda>c. c \<noteq> CHR ''}'') (m @ ''}'' @ body) = m"
    and "dropWhile (\<lambda>c. c \<noteq> CHR ''}'') (m @ ''}'' @ body) = ''}'' @ body"
    by (simp_all add: takeWhile_append2 dropWhile_append2)
  then show ?thesis by (simp add: split_marker_def)
qed

lemma gateway_reads:
  assumes "alphabet_ok table" and "EncodeInfo info = Inr json" and "length json < 2 ^ 32"
  shows "gateway_info table token (EncryptedInfo p json token (Some table)) = Some info"
proof -
  have "split_marker (EncryptedInfo p json token (Some table)) =
      (NormalizePrefix p DefaultInfoPrefix, Encode table (Xencode json token))"
    unfolding EncryptedInfo_def Let_def option.case
    by (rule split_marker_field [OF marker_NormalizePrefix [OF marker_default]])
  then show ?thesis
    by (simp add: gateway_info_def Decode_Encode [OF assms(1)] Xdecode_Xencode [OF assms(3)] Decode_EncodeInfo [OF assms(2)])
qed

text \<open>
  C10: credentials survive the wire. Whatever prefix the user configured, the info field is one marker in
  single braces followed by the blob, and reading it with the same table and token gives back exactly
  the credential object that was encoded; the marker never contains a brace, and normalising it again
  changes nothing.
\<close>

theorem credential_blob_recovered:
  assumes "NewAlphabet table = Inr t" and "EncodeInfo info = Inr json" and "length json < 2 ^ 32"
  shows "gateway_info t token (EncryptedInfo p json token (Some t)) = Some info \<and>
    (\<exists>marker body. EncryptedInfo p json token (Some t) = ''{'' @ marker @ ''}'' @ body \<and>
       marker \<noteq> [] \<and> \<not> ContainsAny marker ''{}'' \<and> NormalizePrefix marker DefaultInfoPrefix = marker)"
proof -
  let ?m = "NormalizePrefix p DefaultInfoPrefix"
  have ok: "alphabet_ok t" using assms(1) by (simp add: NewAlphabet_iff)
  have trim: "TrimSpace DefaultInfoPrefix = DefaultInfoPrefix"
    by (rule TrimSpace_visible) (simp add: DefaultInfoPrefix_def visible_def)
  have "EncryptedInfo p json token (Some t) = ''{'' @ ?m @ ''}'' @ Encode t (Xencode json token)"
    by (simp add: EncryptedInfo_def Let_def)
  moreover have "?m \<noteq> [] \<and> \<not> ContainsAny ?m ''{}''"
    using marker_NormalizePrefix [OF marker_default, of p] unfolding marker_ok_def .
  moreover have "NormalizePrefix ?m DefaultInfoPrefix = ?m"
    by (rule NormalizePrefix_idem [OF trim marker_default])
  ultimately show ?thesis using gateway_reads [OF ok assms(2,3)] by blast
qed

subsection \<open>Errors of the encoder\<close>

definition first_invalid :: "Info \<Rightarrow> string option" where
  "first_invalid info = map_option fst (find (\<lambda>(f, v). \<not> valid_utf8 v)
     [(''username'', in_Username info), (''password'', in_Password info), (''ip'', in_IP info),
      (''acid'', in_ACID info), (''enc_ver'', in_EncVer info)])"

lemma appendJSONString_cases:
  "appendJSONString v f = (case append_runes v of None \<Rightarrow> Inl (FieldErrorf CodeInvalidArgument f)
     | Some b \<Rightarrow> Inr ([CHR 0x22] @ b @ [CHR 0x22]))"
  by (simp add: appendJSONString_def)

lemma invalid_None: "\<not> valid_utf8 v \<longleftrightarrow> append_runes v = None"
  using append_runes_valid [of v] by auto

text \<open>
  A credential is never altered on its way out. Encoding fails exactly when some field is not valid
  UTF-8, naming the first such field and nothing of its content; otherwise the text is printable
  ASCII only and a JSON reader gets every field back byte for byte.
\<close>

theorem encode_info_exact:
  "(case EncodeInfo info of
      Inl e \<Rightarrow> (case first_invalid info of None \<Rightarrow> False | Some f \<Rightarrow> e = FieldErrorf CodeInvalidArgument f)
    | Inr json \<Rightarrow> first_invalid info = None \<and> printable json \<and> DecodeInfo json = Some info)"
proof (cases "EncodeInfo info")
  case (Inl e)
  then show ?thesis
    by (auto simp: EncodeInfo_def member_def first_invalid_def invalid_None appendJSONString_cases split: option.splits)
next
  case (Inr json)
  then have "info_valid info" using EncodeInfo_Inr by blast
  then have "first_invalid info = None" by (simp add: first_invalid_def info_valid_def)
  with Inr show ?thesis using EncodeInfo_printable [OF Inr] Decode_EncodeInfo [OF Inr] by simp
qed

subsection \<open>Instances\<close>

definition sample_info :: Info where
  "sample_info = \<lparr>in_Username = ''u'', in_Password = ''a/b'', in_IP = ''10.0.0.2'', in_ACID = ''1'', in_EncVer = ''srun_bx1''\<rparr>"

definition sample_json :: string where
  "sample_json = key_lit ''{'' ''username'' @ [CHR 0x22] @ ''u'' @ [CHR 0x22] @ key_lit '','' ''password'' @ [CHR 0x22] @ ''a/b'' @ [CHR 0x22] @
     key_lit '','' ''ip'' @ [CHR 0x22] @ ''10.0.0.2'' @ [CHR 0x22] @ key_lit '','' ''acid'' @ [CHR 0x22] @ ''1'' @ [CHR 0x22] @
     key_lit '','' ''enc_ver'' @ [CHR 0x22] @ ''srun_bx1'' @ [CHR 0x22] @ ''}''"

lemma sample_encoded: "EncodeInfo sample_info = Inr sample_json"
  by (simp add: EncodeInfo_def sample_info_def sample_json_def member_def appendJSONString_def append_runes.simps
      DecodeRune_def RuneError_def escape_rune_def accept_def Let_def)
    (simp add: char_of_def bit_0)

theorem credential_blob_recovered_witness:
  "gateway_info DefaultAlphabetTable ''token'' (EncryptedInfo ''{SRBX1}'' sample_json ''token'' (Some DefaultAlphabetTable)) = Some sample_info"
proof -
  have "NewAlphabet DefaultAlphabetTable = Inr DefaultAlphabetTable"
    by (simp add: NewAlphabet_iff default_alphabet_ok)
  moreover have "length sample_json < 2 ^ 32" by (simp add: sample_json_def key_lit_def)
  ultimately show ?thesis using credential_blob_recovered [OF _ sample_encoded] by blast
qed

end
