(* ===== verification/Srun_Response.thy ===== *)
theory Srun_Response
  imports Go_Text
begin

text \<open>
  The framing of gateway answers: \<open>protocol/srun/response.go\<close>. The JSON scanner of \<open>encoding/json\<close> is
  the argument \<open>scan\<close>: given bytes, \<^const>\<open>None\<close> for a syntax error, else the bytes of the first value
  (leading space skipped) and what follows it. \<open>Decoder.Token\<close> answers end-of-file exactly when only
  JSON white space follows.
\<close>

definition MaxAuthResponseBytes :: int where "MaxAuthResponseBytes = 64 * 1024"

datatype ResponseKind = KindObject | KindEmpty | KindHTML | KindNonObject | KindOversize | KindMalformed

definition htmlMarkers :: "string list" where
  "htmlMarkers = [''<!doctype html'', ''<html'', ''<head'', ''<body'', ''<form'']"

definition htmlSniffLimit :: nat where "htmlSniffLimit = 1024"

definition cutset :: "char list" where
  "cutset = [CHR '' '', CHR 0x09, CHR 0x0D, CHR 0x0A]"

definition TrimRight :: "string \<Rightarrow> char list \<Rightarrow> string" where
  "TrimRight s cs = rev (dropWhile (\<lambda>c. c \<in> set cs) (rev s))"

definition TrimSuffix :: "string \<Rightarrow> string \<Rightarrow> string" where
  "TrimSuffix s w = (if suffix w s then take (length s - length w) s else s)"

definition name_char :: "nat \<Rightarrow> char \<Rightarrow> bool" where
  "name_char index symbol \<longleftrightarrow>
     (let n = of_char symbol :: nat in
      (97 \<le> n \<and> n \<le> 122) \<or> (65 \<le> n \<and> n \<le> 90) \<or> symbol = CHR ''_'' \<or> symbol = CHR ''$'' \<or>
      (index > 0 \<and> (is_digit symbol \<or> symbol = CHR ''.'')))"

definition isCallbackName :: "string \<Rightarrow> bool" where
  "isCallbackName name \<longleftrightarrow> name \<noteq> [] \<and> length name \<le> 128 \<and> (\<forall>i < length name. name_char i (name ! i))"

definition unwrapCallback :: "string \<Rightarrow> string" where
  "unwrapCallback trimmed =
     (if trimmed ! 0 = CHR ''{'' \<or> trimmed ! 0 = CHR ''['' then trimmed
      else
        let name = takeWhile (\<lambda>c. c \<noteq> CHR ''('') trimmed in
        if name = trimmed \<or> name = [] \<or> \<not> isCallbackName name then trimmed
        else
          let tail = TrimRight (drop (length name + 1) trimmed) cutset;
              tail = TrimSuffix tail '';'';
              tail = TrimRight tail cutset
          in if tail = [] \<or> last tail \<noteq> CHR '')'' then trimmed else butlast tail)"

definition decodeSingleJSONValue :: "(string \<Rightarrow> (string \<times> string) option) \<Rightarrow> string \<Rightarrow> string option" where
  "decodeSingleJSONValue scan payload =
     (case scan payload of
        None \<Rightarrow> None
      | Some (v, rest) \<Rightarrow> if TrimRight rest cutset = [] then Some v else None)"

text \<open>
  Lower-casing for the marker search. No code point above ASCII lower-cases to a letter of a marker, so
  the search sees the same whether or not the rest of the text is mapped.
\<close>

definition looksLikeHTML :: "string \<Rightarrow> bool" where
  "looksLikeHTML trimmed =
     (let head = (if length trimmed > htmlSniffLimit then take htmlSniffLimit trimmed else trimmed);
          lowered = map lower_char head
      in \<exists>marker \<in> set htmlMarkers. contains_sub lowered marker)"

definition classifyUnparseable :: "string \<Rightarrow> ResponseKind" where
  "classifyUnparseable trimmed = (if looksLikeHTML trimmed then KindHTML else KindMalformed)"

definition htmlOrProtocolError :: "string \<Rightarrow> gerror" where
  "htmlOrProtocolError trimmed =
     (if looksLikeHTML trimmed then Errorf CodePortalHTMLResponse else Errorf CodeProtocolInvalid)"

definition ParseJSONP :: "(string \<Rightarrow> (string \<times> string) option) \<Rightarrow> string \<Rightarrow> int \<Rightarrow> ResponseKind \<times> (gerror + string)" where
  "ParseJSONP scan body limit =
     (if limit > 0 \<and> int (length body) > limit then (KindOversize, Inl (Errorf CodeProtocolInvalid))
      else
        let trimmed = TrimSpace body in
        if trimmed = [] then (KindEmpty, Inl (Errorf CodeProtocolInvalid))
        else case decodeSingleJSONValue scan (unwrapCallback trimmed) of
          None \<Rightarrow> (classifyUnparseable trimmed, Inl (htmlOrProtocolError trimmed))
        | Some v \<Rightarrow>
            if v = [] \<or> v ! 0 \<noteq> CHR ''{'' then (KindNonObject, Inl (Errorf CodeProtocolInvalid))
            else (KindObject, Inr v))"

subsection \<open>Unwrapping\<close>

definition wrapped :: "string \<Rightarrow> string \<Rightarrow> string \<Rightarrow> bool" where
  "wrapped s name payload \<longleftrightarrow> isCallbackName name \<and>
     (\<exists>ws ws' semi. s = name @ ''('' @ payload @ '')'' @ ws @ semi @ ws' \<and> semi \<in> {[], '';''} \<and>
        set ws \<subseteq> set cutset \<and> set ws' \<subseteq> set cutset)"

lemma TrimRight_split: "\<exists>ws. s = TrimRight s cs @ ws \<and> set ws \<subseteq> set cs"
proof (intro exI conjI)
  show "s = TrimRight s cs @ rev (takeWhile (\<lambda>c. c \<in> set cs) (rev s))"
    unfolding TrimRight_def by (metis rev_append rev_rev_ident takeWhile_dropWhile_id)
  show "set (rev (takeWhile (\<lambda>c. c \<in> set cs) (rev s))) \<subseteq> set cs" using set_takeWhileD by fastforce
qed

lemma TrimSuffix_split: "\<exists>w'. s = TrimSuffix s w @ w' \<and> (w' = [] \<or> w' = w)"
  by (cases "suffix w s") (auto simp: TrimSuffix_def suffix_def)

lemma TrimRight_drop: "set ws \<subseteq> set cs \<Longrightarrow> TrimRight (s @ ws) cs = TrimRight s cs"
  using dropWhile_append2 [of "rev ws" "\<lambda>c. c \<in> set cs" "rev s"] by (auto simp: TrimRight_def)

lemma TrimRight_keep: "s = [] \<or> last s \<notin> set cs \<Longrightarrow> TrimRight s cs = s"
  by (cases s rule: rev_cases) (simp_all add: TrimRight_def)

lemma name_no_paren: "isCallbackName name \<Longrightarrow> CHR ''('' \<notin> set name \<and> name ! 0 \<noteq> CHR ''{'' \<and> name ! 0 \<noteq> CHR ''[''"
proof -
  assume n: "isCallbackName name"
  then have c: "name_char i (name ! i)" if "i < length name" for i using that by (simp add: isCallbackName_def)
  have "c \<noteq> CHR ''('' \<and> c \<noteq> CHR ''{'' \<and> c \<noteq> CHR ''[''" if "name_char i c" for i c
    using that by (auto simp: name_char_def is_digit_def Let_def)
  with c have "\<forall>i < length name. name ! i \<noteq> CHR ''('' \<and> name ! i \<noteq> CHR ''{'' \<and> name ! i \<noteq> CHR ''[''" by blast
  moreover have "0 < length name" using n by (simp add: isCallbackName_def)
  ultimately show ?thesis by (auto simp: in_set_conv_nth)
qed

lemma unwrap_wrapped:
  assumes "wrapped s name payload"
  shows "unwrapCallback s = payload"
proof -
  from assms obtain ws ws' semi where s: "s = name @ ''('' @ payload @ '')'' @ ws @ semi @ ws'"
    and semi: "semi \<in> {[], '';''}" and ws: "set ws \<subseteq> set cutset" "set ws' \<subseteq> set cutset" and n: "isCallbackName name"
    by (auto simp: wrapped_def)
  note np = name_no_paren [OF n]
  have ne: "name \<noteq> []" using n by (simp add: isCallbackName_def)
  have name: "takeWhile (\<lambda>c. c \<noteq> CHR ''('') s = name" using np unfolding s by (subst takeWhile_append2) auto
  have first: "s ! 0 = name ! 0" using ne by (simp add: s nth_append)
  let ?p = "payload @ '')''"
  have drop: "drop (length name + 1) s = (?p @ ws @ semi) @ ws'" by (simp add: s)
  have p: "TrimRight ?p cutset = ?p" by (rule TrimRight_keep) (simp add: cutset_def)
  have "TrimRight (TrimSuffix (TrimRight (drop (length name + 1) s) cutset) '';'') cutset = ?p"
  proof (cases "semi = []")
    case True
    have "TrimSuffix ?p '';'' = ?p" by (simp add: TrimSuffix_def suffix_def)
    then show ?thesis unfolding drop True append_Nil2 TrimRight_drop [OF ws(2)] TrimRight_drop [OF ws(1)] p by (simp add: p)
  next
    case False
    with semi have semi: "semi = '';''" by simp
    have k: "TrimRight (?p @ ws @ '';'') cutset = ?p @ ws @ '';''" by (rule TrimRight_keep) (simp add: cutset_def)
    have "TrimSuffix (?p @ ws @ '';'') '';'' = ?p @ ws" by (simp add: TrimSuffix_def suffix_def)
    then show ?thesis unfolding drop semi TrimRight_drop [OF ws(2)] k by (simp only: TrimRight_drop [OF ws(1)] p)
  qed
  then show ?thesis using np ne n by (simp add: unwrapCallback_def name first Let_def) (simp add: s)
qed

lemma unwrap_cases: "unwrapCallback s = s \<or> (\<exists>name. wrapped s name (unwrapCallback s))"
proof (rule disjCI)
  assume no: "\<not> (\<exists>name. wrapped s name (unwrapCallback s))"
  define name where "name = takeWhile (\<lambda>c. c \<noteq> CHR ''('') s"
  define t1 where "t1 = TrimRight (drop (Suc (length name)) s) cutset"
  define t2 where "t2 = TrimSuffix t1 '';''"
  define t3 where "t3 = TrimRight t2 cutset"
  show "unwrapCallback s = s"
  proof (rule ccontr)
    assume ne: "unwrapCallback s \<noteq> s"
    then have c: "name \<noteq> s" "isCallbackName name" "t3 \<noteq> []" "last t3 = CHR '')''" and u: "unwrapCallback s = butlast t3"
      by (auto simp: unwrapCallback_def Let_def name_def [symmetric] t1_def [symmetric] t2_def [symmetric] t3_def [symmetric] split: if_splits)
    have split: "s = name @ dropWhile (\<lambda>c. c \<noteq> CHR ''('') s" by (simp add: name_def)
    have d: "dropWhile (\<lambda>c. c \<noteq> CHR ''('') s \<noteq> []"
    proof
      assume "dropWhile (\<lambda>c. c \<noteq> CHR ''('') s = []"
      with split have "s = name @ []" by metis
      with c(1) show False by simp
    qed
    then have "hd (dropWhile (\<lambda>c. c \<noteq> CHR ''('') s) = CHR ''(''" using hd_dropWhile [OF d] by simp
    with d obtain r where "dropWhile (\<lambda>c. c \<noteq> CHR ''('') s = CHR ''('' # r"
      by (cases "dropWhile (\<lambda>c. c \<noteq> CHR ''('') s") simp_all
    with split have s: "s = name @ ''('' @ r" by simp
    then have r: "drop (Suc (length name)) s = r" by simp
    obtain w' where w': "r = t1 @ w'" "set w' \<subseteq> set cutset" using TrimRight_split [of r cutset] by (auto simp: t1_def r)
    obtain w where w: "t2 = t3 @ w" "set w \<subseteq> set cutset" using TrimRight_split [of t2 cutset] by (auto simp: t3_def)
    obtain semi where semi: "t1 = t2 @ semi" "semi \<in> {[], '';''}" using TrimSuffix_split [of t1 "'';''"] by (auto simp: t2_def)
    have "t3 = butlast t3 @ '')''" using c(3,4) by (metis append_butlast_last_id)
    then have "s = name @ ''('' @ butlast t3 @ '')'' @ w @ semi @ w'" using s w' w semi by (metis append.assoc)
    then have "wrapped s name (unwrapCallback s)" using c(2) w w' semi u by (auto simp: wrapped_def)
    with no show False by blast
  qed
qed

definition framed :: "string \<Rightarrow> string \<Rightarrow> bool" where
  "framed t payload \<longleftrightarrow> t \<noteq> [] \<and>
     (if \<exists>name p. wrapped t name p then \<exists>name. wrapped t name payload else payload = t)"

lemma framed_unwrap: "t \<noteq> [] \<Longrightarrow> framed t payload \<longleftrightarrow> payload = unwrapCallback t"
  using unwrap_cases [of t] unwrap_wrapped [of t] by (auto simp: framed_def)

text \<open>
  A response is taken as an answer exactly when it fits the limit and, after trimming, is a single
  JSON object, bare or as the only argument of a call to a callback with an identifier's shape (one
  optional semicolon and white space after it); what is returned is that object's bytes. Everything
  else is refused with the code of its kind, a portal page told apart from a broken answer.
\<close>

theorem jsonp_framing:
  "(ParseJSONP scan body limit = (KindObject, Inr v) \<longleftrightarrow>
      (limit \<le> 0 \<or> int (length body) \<le> limit) \<and> v \<noteq> [] \<and> hd v = CHR ''{'' \<and>
      (\<exists>payload. framed (TrimSpace body) payload \<and> decodeSingleJSONValue scan payload = Some v)) \<and>
   (case ParseJSONP scan body limit of
      (kind, Inr _) \<Rightarrow> kind = KindObject
    | (kind, Inl e) \<Rightarrow> kind \<noteq> KindObject \<and>
        e = Errorf (if kind = KindHTML then CodePortalHTMLResponse else CodeProtocolInvalid))"
proof (cases "TrimSpace body = []")
  case True
  then show ?thesis by (simp add: ParseJSONP_def framed_def)
next
  case False
  note f = framed_unwrap [OF False]
  show ?thesis
    by (cases "decodeSingleJSONValue scan (unwrapCallback (TrimSpace body))")
      (auto simp: ParseJSONP_def False Let_def f classifyUnparseable_def htmlOrProtocolError_def hd_conv_nth)
qed

text \<open>
  The markers of a portal page are looked for anywhere in the first KiB, not only at the start of the
  body.
\<close>

lemma html_marker_anywhere: "looksLikeHTML ''{} <HTML>''"
  by (simp add: looksLikeHTML_def htmlSniffLimit_def htmlMarkers_def lower_char_def)
    (simp add: char_of_def bit_0)

end
