(* ===== verification/Strategy_Registry.thy ===== *)
theory Strategy_Registry
  imports Go_Text
begin

text \<open>
  School strategies: \<open>strategy/strategy.go\<close> and \<open>strategy/builtin.go\<close>. A strategy is a declaration;
  the registry holds the ones this build knows and refuses a malformed or repeated one. The
  built-in label is its UTF-8 bytes.
\<close>

definition ReservedCommands :: "string list" where
  "ReservedCommands = [''status'', ''login'', ''logout'', ''relogin'', ''daemon'', ''schools'', ''config'',
     ''switch'', ''log'', ''enable'', ''disable'', ''help'', ''man'', ''update'', ''presets'',
     ''detect'', ''service'', ''version'']"

definition FieldSelect :: string where "FieldSelect = ''select''"
definition FieldMulti :: string where "FieldMulti = ''multi''"

definition fieldKinds :: "string list" where
  "fieldKinds = [''string'', ''bool'', ''number'', FieldSelect, FieldMulti]"

record StrategyOption =
  so_Value :: string
  so_Label :: string

record StrategyField =
  sf_Key :: string
  sf_Label :: string
  sf_Kind :: string
  sf_Options :: "StrategyOption list"
  sf_Help :: string

record StrategyCommand =
  sc_Name :: string
  sc_Summary :: string

record Strategy =
  st_ID :: string
  st_Label :: string
  st_Fields :: "StrategyField list"
  st_Commands :: "StrategyCommand list"

definition isIdentifier :: "string \<Rightarrow> bool" where
  "isIdentifier v \<longleftrightarrow> v \<noteq> [] \<and> length v \<le> 64 \<and>
     (\<forall>c \<in> set v. let n = of_char c :: nat in
        (97 \<le> n \<and> n \<le> 122) \<or> (65 \<le> n \<and> n \<le> 90) \<or> (48 \<le> n \<and> n \<le> 57) \<or> c = CHR ''_'' \<or> c = CHR ''-'')"

definition Addf :: "string \<Rightarrow> gerror list" where
  "Addf field = [FieldErrorf CodeInvalidConfig field]"

definition problem_if :: "bool \<Rightarrow> string \<Rightarrow> gerror list" where
  "problem_if b field = (if b then Addf field else [])"

definition indexed :: "string \<Rightarrow> nat \<Rightarrow> string" where
  "indexed name i = name @ ''['' @ FormatUint i @ '']''"

fun check_options :: "string \<Rightarrow> string list \<Rightarrow> StrategyOption list \<Rightarrow> gerror list" where
  "check_options where' seen [] = []"
| "check_options where' seen (opt # opts) =
     problem_if (so_Value opt \<in> set seen) (where' @ ''.options'') @
     check_options where' (so_Value opt # seen) opts"

fun check_fields :: "nat \<Rightarrow> string list \<Rightarrow> StrategyField list \<Rightarrow> gerror list" where
  "check_fields i seen [] = []"
| "check_fields i seen (field # rest) =
     (let where' = indexed ''fields'' i;
          needsOptions = (sf_Kind field = FieldSelect \<or> sf_Kind field = FieldMulti)
      in problem_if (\<not> isIdentifier (sf_Key field)) (where' @ ''.key'') @
         problem_if (sf_Key field \<in> set seen) (where' @ ''.key'') @
         problem_if (sf_Kind field \<notin> set fieldKinds) (where' @ ''.kind'') @
         problem_if (needsOptions \<and> sf_Options field = []) (where' @ ''.options'') @
         problem_if (\<not> needsOptions \<and> sf_Options field \<noteq> []) (where' @ ''.options'') @
         check_options where' [] (sf_Options field) @
         check_fields (Suc i) (sf_Key field # seen) rest)"

fun check_commands :: "nat \<Rightarrow> string list \<Rightarrow> StrategyCommand list \<Rightarrow> gerror list" where
  "check_commands i seen [] = []"
| "check_commands i seen (command # commands) =
     (let where' = indexed ''commands'' i; name = TrimSpace (sc_Name command)
      in problem_if (\<not> isIdentifier name) (where' @ ''.name'') @
         problem_if (name \<in> set ReservedCommands) (where' @ ''.name'') @
         problem_if (name \<in> set seen) (where' @ ''.name'') @
         problem_if (TrimSpace (sc_Summary command) = []) (where' @ ''.summary'') @
         check_commands (Suc i) (name # seen) commands)"

definition Strategy_Validate :: "Strategy \<Rightarrow> gerror list" where
  "Strategy_Validate strategy =
     problem_if (\<not> isIdentifier (st_ID strategy)) ''id'' @
     problem_if (TrimSpace (st_Label strategy) = []) ''label'' @
     check_fields 0 [] (st_Fields strategy) @
     check_commands 0 [] (st_Commands strategy)"

definition DeclaresField :: "Strategy \<Rightarrow> string \<Rightarrow> bool" where
  "DeclaresField s key \<longleftrightarrow> (\<exists>field \<in> set (st_Fields s). sf_Key field = key)"

subsection \<open>The registry\<close>

record Registry =
  rg_order :: "string list"
  rg_items :: "Strategy gomap"

definition NewRegistry :: Registry where
  "NewRegistry = \<lparr>rg_order = [], rg_items = []\<rparr>"

definition Register :: "Strategy \<Rightarrow> Registry \<Rightarrow> gerror list + Registry" where
  "Register strategy r =
     (if Strategy_Validate strategy \<noteq> [] then Inl (Strategy_Validate strategy)
      else if map_of (rg_items r) (st_ID strategy) \<noteq> None then Inl [Errorf CodeConflict]
      else Inr \<lparr>rg_order = rg_order r @ [st_ID strategy],
                rg_items = AList.update (st_ID strategy) strategy (rg_items r)\<rparr>)"

definition Lookup :: "Registry \<Rightarrow> string \<Rightarrow> Strategy option" where
  "Lookup r i = map_of (rg_items r) (TrimSpace i)"

definition Registry_List :: "Registry \<Rightarrow> Strategy option list" where
  "Registry_List r = map (\<lambda>i. map_of (rg_items r) i) (rg_order r)"

definition DefaultID :: string where "DefaultID = ''default''"

definition Default_strategy :: Strategy where
  "Default_strategy = \<lparr>st_ID = DefaultID, st_Label =
       [CHR 0xE9, CHR 0x80, CHR 0x9A, CHR 0xE7, CHR 0x94, CHR 0xA8, CHR 0xE6, CHR 0xB7, CHR 0xB1, CHR 0xE6, CHR 0xBE, CHR 0x9C, CHR 0xE8, CHR 0xAE, CHR 0xA4, CHR 0xE8, CHR 0xAF, CHR 0x81], st_Fields = [], st_Commands = []\<rparr>"

text \<open>\<open>MustRegister\<close> panics on a refusal: the value \<^const>\<open>None\<close>.\<close>

definition MustRegister :: "Strategy \<Rightarrow> Registry \<Rightarrow> Registry option" where
  "MustRegister strategy r = (case Register strategy r of Inl _ \<Rightarrow> None | Inr r' \<Rightarrow> Some r')"

definition Builtin :: "Registry option" where
  "Builtin = MustRegister Default_strategy NewRegistry"

subsection \<open>What a registered strategy satisfies\<close>

lemma problem_if_Nil [simp]: "problem_if b f = [] \<longleftrightarrow> \<not> b"
  by (simp add: problem_if_def Addf_def)

lemma check_options_Nil: "check_options w seen opts = [] \<longleftrightarrow>
    distinct (map so_Value opts) \<and> set (map so_Value opts) \<inter> set seen = {}"
  by (induction w seen opts rule: check_options.induct) auto

lemma check_fields_Nil: "check_fields i seen fs = [] \<longleftrightarrow>
    distinct (map sf_Key fs) \<and> set (map sf_Key fs) \<inter> set seen = {} \<and>
    (\<forall>f \<in> set fs. isIdentifier (sf_Key f) \<and> sf_Kind f \<in> set fieldKinds \<and> distinct (map so_Value (sf_Options f)) \<and>
       (sf_Options f \<noteq> [] \<longleftrightarrow> sf_Kind f = FieldSelect \<or> sf_Kind f = FieldMulti))"
  by (induction i seen fs rule: check_fields.induct) (auto simp: Let_def check_options_Nil)

definition command_name :: "StrategyCommand \<Rightarrow> string" where
  "command_name c = TrimSpace (sc_Name c)"

lemma check_commands_Nil: "check_commands i seen commands = [] \<longleftrightarrow>
    distinct (map command_name commands) \<and> set (map command_name commands) \<inter> set seen = {} \<and>
    (\<forall>c \<in> set commands. isIdentifier (command_name c) \<and> command_name c \<notin> set ReservedCommands \<and> TrimSpace (sc_Summary c) \<noteq> [])"
  by (induction i seen commands rule: check_commands.induct) (auto simp: Let_def command_name_def)

definition strategy_ok :: "Strategy \<Rightarrow> bool" where
  "strategy_ok s \<longleftrightarrow> isIdentifier (st_ID s) \<and> TrimSpace (st_Label s) \<noteq> [] \<and>
     distinct (map sf_Key (st_Fields s)) \<and> distinct (map command_name (st_Commands s)) \<and>
     (\<forall>f \<in> set (st_Fields s). isIdentifier (sf_Key f) \<and> sf_Kind f \<in> set fieldKinds \<and> distinct (map so_Value (sf_Options f)) \<and>
        (sf_Options f \<noteq> [] \<longleftrightarrow> sf_Kind f = FieldSelect \<or> sf_Kind f = FieldMulti)) \<and>
     (\<forall>c \<in> set (st_Commands s). isIdentifier (command_name c) \<and> command_name c \<notin> set ReservedCommands \<and> TrimSpace (sc_Summary c) \<noteq> [])"

lemma Strategy_Validate_Nil: "Strategy_Validate s = [] \<longleftrightarrow> strategy_ok s"
  by (auto simp: Strategy_Validate_def strategy_ok_def check_fields_Nil check_commands_Nil)

definition registry_inv :: "Registry \<Rightarrow> bool" where
  "registry_inv r \<longleftrightarrow> distinct (rg_order r) \<and> mkeys (rg_items r) = rg_order r \<and>
     (\<forall>i s. map_of (rg_items r) i = Some s \<longrightarrow> st_ID s = i \<and> strategy_ok s)"

inductive registered :: "Registry \<Rightarrow> Registry \<Rightarrow> bool" where
  "Register s r = Inr r' \<Longrightarrow> registered r r'"

lemma Register_inv:
  assumes "registry_inv r" and "Register s r = Inr r'"
  shows "registry_inv r'"
proof -
  have new: "map_of (rg_items r) (st_ID s) = None" and ok: "strategy_ok s"
    and r': "rg_order r' = rg_order r @ [st_ID s]" "rg_items r' = AList.update (st_ID s) s (rg_items r)"
    using assms(2) by (auto simp: Register_def Strategy_Validate_Nil split: if_splits)
  have fresh: "st_ID s \<notin> set (mkeys (rg_items r))" using new by (auto dest: mkeys_Some)
  then show ?thesis
    using assms(1) ok new
    by (auto simp: registry_inv_def r' mkeys_update_fresh map_of_append map_add_def split: option.splits if_splits)
qed

interpretation registry: state_machine "\<lambda>r. r = NewRegistry" registered registry_inv
proof
  show "registry_inv r" if "r = NewRegistry" for r
    using that by (simp add: registry_inv_def NewRegistry_def)
  show "registry_inv r'" if "registry_inv r" and "registered r r'" for r r'
    using that(2,1) by cases (rule Register_inv)
qed

lemma isIdentifier_trim: "isIdentifier i \<Longrightarrow> TrimSpace i = i"
proof (rule TrimSpace_visible)
  assume i: "isIdentifier i"
  then have "visible c" if "c \<in> set i" for c
    using that by (auto simp: isIdentifier_def visible_def Let_def)
  with i show "i = [] \<or> visible (hd i) \<and> visible (last i)" by (simp add: isIdentifier_def)
qed

lemma builtin_registry: "\<exists>r. Builtin = Some r \<and> rg_items r = [(DefaultID, Default_strategy)]"
proof -
  have "isIdentifier DefaultID" by (simp add: isIdentifier_def DefaultID_def)
  moreover have "TrimSpace (st_Label Default_strategy) \<noteq> []"
  proof
    assume t: "TrimSpace (st_Label Default_strategy) = []"
    have l: "TrimLeftSpace (st_Label Default_strategy) = st_Label Default_strategy"
      by (rule TrimLeftSpace_id) (simp add: Default_strategy_def space_runes_def)
    have "TrimRightSpace (st_Label Default_strategy) = st_Label Default_strategy"
      by (rule TrimRightSpace_id) (simp add: Default_strategy_def space_runes_def suffix_to_prefix)
    with t l show False by (simp add: TrimSpace_def Default_strategy_def)
  qed
  ultimately have "strategy_ok Default_strategy" by (simp add: strategy_ok_def Default_strategy_def)
  then show ?thesis
    by (simp add: Builtin_def MustRegister_def Register_def Strategy_Validate_Nil NewRegistry_def Default_strategy_def)
qed

text \<open>
  The registry only ever offers sound declarations. Along any sequence of registrations every entry
  is found under its own id and is well formed (keys, commands and options unique, kinds known,
  options exactly on the choice kinds, no command that shadows a core verb); a registration that
  succeeds keeps every earlier entry, and one that fails changes nothing.
\<close>

theorem registry_offers_sound_strategies:
  assumes "registered\<^sup>*\<^sup>* NewRegistry r"
  shows "(\<forall>i s. Lookup r i = Some s \<longrightarrow> st_ID s = TrimSpace i \<and> strategy_ok s) \<and>
    (\<forall>s r'. Register s r = Inr r' \<longrightarrow> Lookup r' (st_ID s) = Some s \<and> Registry_List r' = Registry_List r @ [Some s] \<and>
       (\<forall>i t. Lookup r i = Some t \<longrightarrow> Lookup r' i = Some t))"
proof (intro conjI allI impI)
  have inv: "registry_inv r" using registry.inv_reachable [of NewRegistry r] assms by simp
  show "st_ID s = TrimSpace i" "strategy_ok s" if "Lookup r i = Some s" for i s
    using inv that by (auto simp: registry_inv_def Lookup_def)
  fix s r'
  assume reg: "Register s r = Inr r'"
  then have new: "map_of (rg_items r) (st_ID s) = None" and ok: "strategy_ok s"
    and r': "rg_order r' = rg_order r @ [st_ID s]" "rg_items r' = AList.update (st_ID s) s (rg_items r)"
    by (auto simp: Register_def Strategy_Validate_Nil split: if_splits)
  have look: "map_of (rg_items r') i = (if i = st_ID s then Some s else map_of (rg_items r) i)" for i
    by (simp add: r' update_conv')
  from ok have "TrimSpace (st_ID s) = st_ID s" by (simp add: strategy_ok_def isIdentifier_trim)
  then show "Lookup r' (st_ID s) = Some s" by (simp add: Lookup_def look)
  have "st_ID s \<notin> set (rg_order r)"
    using new inv by (metis mkeys_Some option.distinct(1) registry_inv_def)
  then show "Registry_List r' = Registry_List r @ [Some s]" by (auto simp: Registry_List_def r'(1) look)
  show "Lookup r' i = Some t" if "Lookup r i = Some t" for i t
    using that new by (auto simp: Lookup_def look)
qed

theorem registry_offers_sound_strategies_witness:
  "\<exists>r. Builtin = Some r \<and> Lookup r DefaultID = Some Default_strategy \<and> strategy_ok Default_strategy"
proof -
  obtain r where r: "Builtin = Some r" "rg_items r = [(DefaultID, Default_strategy)]" using builtin_registry by blast
  then have "Register Default_strategy NewRegistry = Inr r" by (auto simp: Builtin_def MustRegister_def split: sum.splits)
  then have "registered\<^sup>*\<^sup>* NewRegistry r" by (blast intro: registered.intros)
  moreover have "TrimSpace DefaultID = DefaultID" by (rule isIdentifier_trim) (simp add: isIdentifier_def DefaultID_def)
  then have "Lookup r DefaultID = Some Default_strategy" by (simp add: Lookup_def r(2))
  ultimately show ?thesis using registry_offers_sound_strategies [of r] r(1) by blast
qed

end
