(* ===== verification/Config_Normalize.thy ===== *)
theory Config_Normalize
  imports Config_Defaults Strategy_Registry Go_Sort
begin

text \<open>
  The canonical form of a configuration: \<open>config/normalize.go\<close>. \<open>strings.ToLower\<close> and
  \<open>strings.ToUpper\<close> are exact on ASCII strings; on other strings they follow the Unicode tables of the
  Go release, which are the argument \<open>tables\<close>. What is used of the tables is stated by \<open>case_laws\<close>:
  mapping twice is mapping once, and mapping does not make white space. The strategy registry
  (\<open>SchoolRegistry\<close>) is an argument as well.
\<close>

record CaseTables =
  cs_lower :: "string \<Rightarrow> string"
  cs_upper :: "string \<Rightarrow> string"

definition ToLower :: "CaseTables \<Rightarrow> string \<Rightarrow> string" where
  "ToLower tables s = (if ascii s then map lower_char s else cs_lower tables s)"

definition ToUpper :: "CaseTables \<Rightarrow> string \<Rightarrow> string" where
  "ToUpper tables s = (if ascii s then map upper_char s else cs_upper tables s)"

definition case_laws :: "CaseTables \<Rightarrow> bool" where
  "case_laws tables \<longleftrightarrow> (\<forall>s. \<not> ascii s \<longrightarrow>
     ToLower tables (cs_lower tables s) = cs_lower tables s \<and> ToUpper tables (cs_upper tables s) = cs_upper tables s \<and>
     (TrimSpace s = s \<longrightarrow> TrimSpace (cs_lower tables s) = cs_lower tables s \<and> TrimSpace (cs_upper tables s) = cs_upper tables s))"

definition EncryptionNone :: string where "EncryptionNone = ''none''"

definition NormalizeEncryption :: "CaseTables \<Rightarrow> string \<Rightarrow> string" where
  "NormalizeEncryption tables v =
     (let folded = ToLower tables (TrimSpace v) in
      if folded \<in> {[], ''none'', ''open'', ''nopass''} then EncryptionNone else folded)"

definition KeyRequired :: "CaseTables \<Rightarrow> string \<Rightarrow> bool" where
  "KeyRequired tables encryption = (NormalizeEncryption tables encryption \<noteq> EncryptionNone)"

definition normalizeAPSelection :: "CaseTables \<Rightarrow> string \<Rightarrow> string \<Rightarrow> string" where
  "normalizeAPSelection tables policy bssid =
     (let folded = ToLower tables (TrimSpace policy) in
      if APSelection_Valid folded then folded
      else if bssid \<noteq> [] then APSelectionFixed else APSelectionAuto)"

definition NormalizeCampusAccount :: "CaseTables \<Rightarrow> CampusAccount \<Rightarrow> CampusAccount" where
  "NormalizeCampusAccount tables account =
     (let account = account\<lparr>ca_ID := TrimSpace (ca_ID account), ca_Label := TrimSpace (ca_Label account),
            ca_Operator := TrimSpace (ca_Operator account), ca_BaseURL := TrimSpace (ca_BaseURL account),
            ca_ACID := TrimSpace (ca_ACID account), ca_PresetID := TrimSpace (ca_PresetID account),
            ca_AccessMode := ToLower tables (TrimSpace (ca_AccessMode account))\<rparr>
      in if IsWired account then
           account\<lparr>ca_WiredIface := (let w = TrimSpace (ca_WiredIface account) in if w = [] then DefaultWiredIface else w),
             ca_SSID := [], ca_Radio := [], ca_Encryption := [], ca_Key := [], ca_APSelection := [], ca_BSSID := []\<rparr>
         else
           let account = account\<lparr>ca_Radio := TrimSpace (ca_Radio account),
                 ca_Encryption := NormalizeEncryption tables (ca_Encryption account),
                 ca_BSSID := ToLower tables (TrimSpace (ca_BSSID account))\<rparr>
           in account\<lparr>ca_APSelection := normalizeAPSelection tables (ca_APSelection account) (ca_BSSID account),
                ca_WiredIface := [], ca_AuthEnabled := False\<rparr>)"

definition NormalizeHotspot :: "CaseTables \<Rightarrow> HotspotProfile \<Rightarrow> HotspotProfile" where
  "NormalizeHotspot tables hotspot = hotspot\<lparr>hp_ID := TrimSpace (hp_ID hotspot), hp_Label := TrimSpace (hp_Label hotspot),
     hp_Radio := TrimSpace (hp_Radio hotspot), hp_Encryption := NormalizeEncryption tables (hp_Encryption hotspot)\<rparr>"

definition FilterSchoolExtra :: "Registry \<Rightarrow> string \<Rightarrow> JSON gomap \<Rightarrow> JSON gomap \<times> string list" where
  "FilterSchoolExtra reg school extra =
     (if extra = [] then ([], [])
      else
        let keep = (\<lambda>key. case Lookup reg school of None \<Rightarrow> False | Some declared \<Rightarrow> DeclaresField declared key)
        in (filter (\<lambda>(key, _). keep key) extra, sort_strings (map fst (filter (\<lambda>(key, _). \<not> keep key) extra))))"

definition Normalize :: "CaseTables \<Rightarrow> Registry \<Rightarrow> Config \<Rightarrow> Config" where
  "Normalize tables reg cfg =
     (let school = TrimSpace (cf_School cfg);
          school = (if school = [] then DefaultSchool else school)
      in cfg\<lparr>cf_School := school,
          cf_STAIface := TrimSpace (cf_STAIface cfg),
          cf_Log := (cf_Log cfg)\<lparr>lg_Level := ToUpper tables (TrimSpace (lg_Level (cf_Log cfg)))\<rparr>,
          cf_Checks := (cf_Checks cfg)\<lparr>ch_Mode := ToLower tables (TrimSpace (ch_Mode (cf_Checks cfg)))\<rparr>,
          cf_Selection := \<lparr>sel_ActiveCampusID = TrimSpace (sel_ActiveCampusID (cf_Selection cfg)),
            sel_DefaultCampusID = TrimSpace (sel_DefaultCampusID (cf_Selection cfg)),
            sel_ActiveHotspotID = TrimSpace (sel_ActiveHotspotID (cf_Selection cfg)),
            sel_DefaultHotspotID = TrimSpace (sel_DefaultHotspotID (cf_Selection cfg))\<rparr>,
          cf_CampusAccounts := map (NormalizeCampusAccount tables) (cf_CampusAccounts cfg),
          cf_HotspotProfiles := map (NormalizeHotspot tables) (cf_HotspotProfiles cfg),
          cf_SchoolExtra := fst (FilterSchoolExtra reg school (cf_SchoolExtra cfg))\<rparr>)"

subsection \<open>Case mapping\<close>

lemma lower_code: "(of_char (lower_char c) :: nat) =
    (if 65 \<le> (of_char c :: nat) \<and> (of_char c :: nat) \<le> 90 then of_char c + 32 else of_char c)"
  by (simp add: lower_char_def Let_def of_char_of)

lemma upper_code: "(of_char (upper_char c) :: nat) =
    (if 97 \<le> (of_char c :: nat) \<and> (of_char c :: nat) \<le> 122 then of_char c - 32 else of_char c)"
proof -
  have "(of_char c - 32) mod 256 = (of_char c - 32 :: nat)" using of_char_lt [of c] by (intro mod_less) linarith
  then show ?thesis by (simp add: upper_char_def Let_def of_char_of)
qed

lemma lower_lower [simp]: "lower_char (lower_char c) = lower_char c"
  unfolding lower_char_def [of "lower_char c"] Let_def lower_code by auto

lemma upper_upper [simp]: "upper_char (upper_char c) = upper_char c"
  unfolding upper_char_def [of "upper_char c"] Let_def upper_code by auto

lemma ascii_subset: "ascii t \<Longrightarrow> set w \<subseteq> set t \<Longrightarrow> ascii w"
  by (auto simp: ascii_def)

lemma ascii_map: "ascii s \<Longrightarrow> ascii (map lower_char s)" "ascii s \<Longrightarrow> ascii (map upper_char s)"
  by (auto simp: ascii_def lower_code upper_code)

lemma trimmed_iff: "TrimSpace s = s \<longleftrightarrow> (\<forall>w \<in> set space_runes. \<not> prefix w s \<and> \<not> suffix w s)"
proof
  assume t: "TrimSpace s = s"
  show "\<forall>w \<in> set space_runes. \<not> prefix w s \<and> \<not> suffix w s"
  proof (intro ballI conjI notI)
    fix w
    assume w: "w \<in> set space_runes"
    show False if "prefix w s"
    proof -
      have "prefix w (TrimRightSpace (TrimLeftSpace s))" using that t by (simp add: TrimSpace_def)
      then have "prefix w (TrimLeftSpace s)" using TrimRightSpace_prefix prefix_order.trans by blast
      with TrimLeftSpace_no_prefix [OF w] show False by blast
    qed
    show False if "suffix w s"
    proof -
      have "suffix w (TrimRightSpace (TrimLeftSpace s))" using that t by (simp add: TrimSpace_def)
      with TrimRightSpace_no_suffix [OF w] show False by blast
    qed
  qed
qed (simp add: TrimSpace_def TrimLeftSpace_id TrimRightSpace_id)

lemma ascii_space: "w \<in> set space_runes \<Longrightarrow> ascii w \<Longrightarrow> \<exists>c. w = [c] \<and> (of_char c :: nat) < 33"
proof -
  have "\<forall>w \<in> set space_runes. (\<forall>c \<in> set w. (of_char c :: nat) < 128) \<longrightarrow> length w = 1 \<and> (of_char (hd w) :: nat) < 33"
    by (simp add: space_runes_def)
  moreover assume "w \<in> set space_runes" "ascii w"
  ultimately have "length w = 1 \<and> (of_char (hd w) :: nat) < 33" by (simp add: ascii_def)
  then show ?thesis by (cases w) simp_all
qed

lemma trimmed_map:
  assumes "TrimSpace s = s" and "ascii s" and "\<And>c. (of_char (f c) :: nat) < 33 \<Longrightarrow> f c = c"
    and "ascii (map f s)"
  shows "TrimSpace (map f s) = map f s"
  unfolding trimmed_iff
proof (intro ballI conjI notI)
  fix w
  assume w: "w \<in> set space_runes"
  have no: "\<not> prefix w s" "\<not> suffix w s" using assms(1) w by (auto simp: trimmed_iff)
  show False if p: "prefix w (map f s)"
  proof -
    have "ascii w" using assms(4) set_mono_prefix [OF p] by (rule ascii_subset)
    then obtain c where c: "w = [c]" "(of_char c :: nat) < 33" using ascii_space [OF w] by blast
    then obtain d t where "s = d # t" "f d = c" using p by (cases s) auto
    with c assms(3) [of d] no(1) show False by simp
  qed
  show False if p: "suffix w (map f s)"
  proof -
    have "ascii w" using assms(4) set_mono_suffix [OF p] by (rule ascii_subset)
    then obtain c where c: "w = [c]" "(of_char c :: nat) < 33" using ascii_space [OF w] by blast
    then obtain d t where "s = t @ [d]" "f d = c" using p by (cases s rule: rev_cases) (auto simp: suffix_def)
    with c assms(3) [of d] no(2) show False by (simp add: suffix_def)
  qed
qed

lemma lower_keeps_space: "(of_char (lower_char c) :: nat) < 33 \<Longrightarrow> lower_char c = c"
  by (simp add: lower_code split: if_splits) (simp add: lower_char_def Let_def)

lemma upper_keeps_space: "(of_char (upper_char c) :: nat) < 33 \<Longrightarrow> upper_char c = c"
  by (simp add: upper_code split: if_splits) (auto simp: upper_char_def Let_def)

lemma fold_lower_idem:
  assumes "case_laws tables"
  shows "ToLower tables (TrimSpace (ToLower tables (TrimSpace s))) = ToLower tables (TrimSpace s)"
proof (cases "ascii (TrimSpace s)")
  case True
  then have "TrimSpace (map lower_char (TrimSpace s)) = map lower_char (TrimSpace s)"
    by (intro trimmed_map lower_keeps_space ascii_map) simp_all
  with True ascii_map(1) [OF True] show ?thesis by (simp add: ToLower_def)
next
  case False
  with assms show ?thesis by (simp add: ToLower_def [of tables "TrimSpace s"] case_laws_def)
qed

lemma fold_upper_idem:
  assumes "case_laws tables"
  shows "ToUpper tables (TrimSpace (ToUpper tables (TrimSpace s))) = ToUpper tables (TrimSpace s)"
proof (cases "ascii (TrimSpace s)")
  case True
  then have "TrimSpace (map upper_char (TrimSpace s)) = map upper_char (TrimSpace s)"
    by (intro trimmed_map upper_keeps_space ascii_map) simp_all
  with True ascii_map(2) [OF True] show ?thesis by (simp add: ToUpper_def)
next
  case False
  with assms show ?thesis by (simp add: ToUpper_def [of tables "TrimSpace s"] case_laws_def)
qed

lemma fold_word:
  assumes "w \<noteq> []" and "\<forall>c \<in> set w. 97 \<le> (of_char c :: nat) \<and> (of_char c :: nat) \<le> 122"
  shows "ToLower tables (TrimSpace w) = w"
proof -
  have "visible c" if "c \<in> set w" for c using assms(2) that by (fastforce simp: visible_def)
  then have "TrimSpace w = w" using assms(1) by (intro TrimSpace_visible) simp
  moreover have "ascii w" using assms(2) by (fastforce simp: ascii_def)
  moreover have "map lower_char w = w" using assms(2) by (intro map_idI) (fastforce simp: lower_char_def Let_def)
  ultimately show ?thesis by (simp add: ToLower_def)
qed

subsection \<open>Idempotence\<close>

lemma word_lemmas:
  "ToLower tables (TrimSpace ''none'') = ''none''" "ToLower tables (TrimSpace APSelectionFixed) = APSelectionFixed"
  "ToLower tables (TrimSpace APSelectionAuto) = APSelectionAuto"
  by (rule fold_word; simp add: APSelectionFixed_def APSelectionAuto_def)+

lemma NormalizeEncryption_idem:
  "case_laws tables \<Longrightarrow> NormalizeEncryption tables (NormalizeEncryption tables v) = NormalizeEncryption tables v"
  using fold_lower_idem [of tables v] word_lemmas(1) [of tables]
  by (auto simp: NormalizeEncryption_def Let_def EncryptionNone_def)

lemma normalizeAPSelection_idem:
  "case_laws tables \<Longrightarrow> normalizeAPSelection tables (normalizeAPSelection tables p b) b = normalizeAPSelection tables p b"
  using fold_lower_idem [of tables p] word_lemmas [of tables]
  by (auto simp: normalizeAPSelection_def Let_def APSelection_Valid_def)

lemma wan_trim: "TrimSpace DefaultWiredIface = DefaultWiredIface"
  by (rule TrimSpace_visible) (simp add: DefaultWiredIface_def visible_def)

lemma school_trim: "TrimSpace DefaultSchool = DefaultSchool"
  by (rule TrimSpace_visible) (simp add: DefaultSchool_def visible_def)

lemma NormalizeCampusAccount_idem:
  assumes "case_laws tables"
  shows "NormalizeCampusAccount tables (NormalizeCampusAccount tables a) = NormalizeCampusAccount tables a"
proof (cases "ToLower tables (TrimSpace (ca_AccessMode a)) = AccessModeWired")
  case True
  then show ?thesis
    using fold_lower_idem [OF assms, of "ca_AccessMode a"] wan_trim
    by (auto simp: NormalizeCampusAccount_def Let_def IsWired_def)
next
  case False
  then show ?thesis
    using fold_lower_idem [OF assms, of "ca_AccessMode a"] fold_lower_idem [OF assms, of "ca_BSSID a"]
      NormalizeEncryption_idem [OF assms] normalizeAPSelection_idem [OF assms]
    by (simp add: NormalizeCampusAccount_def Let_def IsWired_def)
qed

lemma NormalizeHotspot_idem:
  "case_laws tables \<Longrightarrow> NormalizeHotspot tables (NormalizeHotspot tables h) = NormalizeHotspot tables h"
  by (simp add: NormalizeHotspot_def NormalizeEncryption_idem)

lemma FilterSchoolExtra_idem:
  "fst (FilterSchoolExtra reg school (fst (FilterSchoolExtra reg school extra))) = fst (FilterSchoolExtra reg school extra)"
  by (auto simp: FilterSchoolExtra_def Let_def case_prod_unfold)

lemma Normalize_idem:
  assumes "case_laws tables"
  shows "Normalize tables reg (Normalize tables reg cfg) = Normalize tables reg cfg"
proof -
  define school where "school = (if TrimSpace (cf_School cfg) = [] then DefaultSchool else TrimSpace (cf_School cfg))"
  have "TrimSpace school = school" "school \<noteq> []" using school_trim by (simp_all add: school_def DefaultSchool_def)
  then show ?thesis
    using fold_upper_idem [OF assms, of "lg_Level (cf_Log cfg)"] fold_lower_idem [OF assms, of "ch_Mode (cf_Checks cfg)"]
    by (simp add: Normalize_def school_def [symmetric] FilterSchoolExtra_idem comp_def
        NormalizeCampusAccount_idem [OF assms] NormalizeHotspot_idem [OF assms])
qed

definition one_half :: "CampusAccount \<Rightarrow> bool" where
  "one_half a \<longleftrightarrow> (if IsWired a
     then ca_SSID a = [] \<and> ca_Radio a = [] \<and> ca_Encryption a = [] \<and> ca_Key a = [] \<and> ca_APSelection a = [] \<and> ca_BSSID a = [] \<and>
       ca_WiredIface a \<noteq> []
     else ca_WiredIface a = [] \<and> \<not> ca_AuthEnabled a \<and> APSelection_Valid (ca_APSelection a) \<and> ca_Encryption a \<noteq> [])"

text \<open>
  Normalisation is a canonical form and never touches a credential. Applying it twice is applying
  it once; every account ends up with one half only (a wired account has a line and no wireless field,
  a wireless one no wired field and a known access-point policy); user id, password, suffix and
  protocol overrides are kept byte for byte, as are the SSID and key of a wireless account; and only
  keys the selected strategy declares survive in its private storage.
\<close>

theorem normalize_canonical:
  assumes "case_laws tables"
  shows "Normalize tables reg (Normalize tables reg cfg) = Normalize tables reg cfg \<and>
    list_all one_half (cf_CampusAccounts (Normalize tables reg cfg)) \<and>
    list_all2 (\<lambda>a b. ca_UserID b = ca_UserID a \<and> ca_Password b = ca_Password a \<and> ca_OperatorSuffix b = ca_OperatorSuffix a \<and>
        ca_Login b = ca_Login a \<and> (if IsWired b then ca_AuthEnabled b = ca_AuthEnabled a else ca_SSID b = ca_SSID a \<and> ca_Key b = ca_Key a))
      (cf_CampusAccounts cfg) (cf_CampusAccounts (Normalize tables reg cfg)) \<and>
    list_all (\<lambda>(key, _). \<exists>s. Lookup reg (cf_School (Normalize tables reg cfg)) = Some s \<and> DeclaresField s key)
      (cf_SchoolExtra (Normalize tables reg cfg))"
proof (intro conjI)
  show "Normalize tables reg (Normalize tables reg cfg) = Normalize tables reg cfg" by (rule Normalize_idem [OF assms])
  have c: "cf_CampusAccounts (Normalize tables reg cfg) = map (NormalizeCampusAccount tables) (cf_CampusAccounts cfg)"
    by (simp add: Normalize_def Let_def)
  have half: "one_half (NormalizeCampusAccount tables a)" for a
    by (simp add: one_half_def NormalizeCampusAccount_def Let_def IsWired_def normalizeAPSelection_def NormalizeEncryption_def
        APSelection_Valid_def DefaultWiredIface_def EncryptionNone_def)
  then show "list_all one_half (cf_CampusAccounts (Normalize tables reg cfg))" by (simp add: c list.pred_map comp_def list_all_iff)
  show "list_all2 (\<lambda>a b. ca_UserID b = ca_UserID a \<and> ca_Password b = ca_Password a \<and> ca_OperatorSuffix b = ca_OperatorSuffix a \<and>
        ca_Login b = ca_Login a \<and> (if IsWired b then ca_AuthEnabled b = ca_AuthEnabled a else ca_SSID b = ca_SSID a \<and> ca_Key b = ca_Key a))
      (cf_CampusAccounts cfg) (cf_CampusAccounts (Normalize tables reg cfg))"
    unfolding c list_all2_map2 by (rule list.rel_refl) (simp add: NormalizeCampusAccount_def Let_def IsWired_def)
  show "list_all (\<lambda>(key, _). \<exists>s. Lookup reg (cf_School (Normalize tables reg cfg)) = Some s \<and> DeclaresField s key)
      (cf_SchoolExtra (Normalize tables reg cfg))"
    by (auto simp: Normalize_def Let_def FilterSchoolExtra_def list_all_iff split: option.splits)
qed

definition ascii_tables :: CaseTables where
  "ascii_tables = \<lparr>cs_lower = id, cs_upper = id\<rparr>"

lemma ascii_tables_laws: "case_laws ascii_tables"
  by (simp add: case_laws_def ascii_tables_def ToLower_def ToUpper_def)

definition messy :: Config where
  "messy = Defaults\<lparr>cf_CampusAccounts := [zero_campus\<lparr>ca_ID := '' c1 '', ca_AccessMode := ''Wired'', ca_Key := ''left over'', ca_Password := '' p ''\<rparr>]\<rparr>"

theorem normalize_canonical_witness:
  "Normalize ascii_tables NewRegistry (Normalize ascii_tables NewRegistry messy) = Normalize ascii_tables NewRegistry messy \<and>
   list_all one_half (cf_CampusAccounts (Normalize ascii_tables NewRegistry messy))"
  using normalize_canonical [OF ascii_tables_laws, of NewRegistry messy] by blast

end
