(* ===== verification/Config_Validate.thy ===== *)
theory Config_Validate
  imports Config_Normalize Srun_Base64 Policy_Retry
begin

text \<open>
  Validation of a normalised configuration: \<open>config/validate.go\<close>, \<open>config/validate_account.go\<close> and the
  bounds of \<open>config/limits.go\<close>. The result is the list of problems in the order they are reported,
  each with its field path; the empty list is \<open>nil\<close>. The loops carry their \<open>seen\<close> maps as lists of
  keys, the only part of the maps that decides anything.
\<close>

definition MaxIDBytes :: nat where "MaxIDBytes = 64"
definition MaxLabelBytes :: nat where "MaxLabelBytes = 128"
definition MaxUserIDBytes :: nat where "MaxUserIDBytes = 256"
definition MaxSecretBytes :: nat where "MaxSecretBytes = 1024"
definition MaxURLBytes :: nat where "MaxURLBytes = 2048"
definition MaxSuffixBytes :: nat where "MaxSuffixBytes = 256"
definition MaxNameBytes :: nat where "MaxNameBytes = 256"
definition MaxCooldownSeconds :: rat where "MaxCooldownSeconds = 3600"
definition MaxCampusAccounts :: nat where "MaxCampusAccounts = 32"
definition MaxHotspotProfiles :: nat where "MaxHotspotProfiles = 32"
definition MaxManagedWiredAccounts :: nat where "MaxManagedWiredAccounts = 8"
definition MaxSchoolExtraKeys :: nat where "MaxSchoolExtraKeys = 64"

definition checkBytes :: "string \<Rightarrow> string \<Rightarrow> nat \<Rightarrow> bool \<Rightarrow> gerror list" where
  "checkBytes field v limit required =
     (if required \<and> v = [] then Addf field
      else if length v > limit then Addf field else [])"

definition checkRange :: "string \<Rightarrow> int \<Rightarrow> int \<Rightarrow> int \<Rightarrow> gerror list" where
  "checkRange field v low high = problem_if (v < low \<or> v > high) field"

definition validateLoginDefaults :: "LoginDefaults \<Rightarrow> gerror list" where
  "validateLoginDefaults defaults =
     checkBytes ''login_defaults.n'' (ld_N defaults) MaxNameBytes True @
     checkBytes ''login_defaults.type'' (ld_Type defaults) MaxNameBytes True @
     checkBytes ''login_defaults.enc'' (ld_Enc defaults) MaxNameBytes True"

definition validateRetry :: "RetryConfig \<Rightarrow> gerror list" where
  "validateRetry retry =
     problem_if (rt_MaxRetries retry < 0 \<or> rt_MaxRetries retry > 100) ''retry.max_retries'' @
     problem_if (rt_InitialSeconds retry > MaxCooldownSeconds) ''retry.initial_seconds'' @
     problem_if (rt_MaxSeconds retry > MaxCooldownSeconds) ''retry.max_seconds'' @
     problem_if (rt_InitialSeconds retry > rt_MaxSeconds retry) ''retry.max_seconds''"

definition validateChecks :: "ChecksConfig \<Rightarrow> gerror list" where
  "validateChecks checks =
     checkRange ''checks.interval_seconds'' (ch_IntervalSeconds checks) 1 3600 @
     problem_if (\<not> CheckMode_Valid (ch_Mode checks)) ''checks.mode'' @
     checkRange ''checks.switch_timeout_seconds'' (ch_SwitchTimeoutSeconds checks) 1 300 @
     checkRange ''checks.terminal_attempts'' (ch_TerminalAttempts checks) 1 20 @
     checkRange ''checks.terminal_interval_seconds'' (ch_TerminalIntervalSeconds checks) 1 60"

subsection \<open>Accounts\<close>

definition hexDigit :: "char \<Rightarrow> nat option" where
  "hexDigit c =
     (let n = of_char c :: nat in
      if 48 \<le> n \<and> n \<le> 57 then Some (n - 48)
      else if 97 \<le> n \<and> n \<le> 102 then Some (n - 97 + 10) else None)"

fun octets_ok :: "nat \<Rightarrow> string \<Rightarrow> bool" where
  "octets_ok 0 v = (v = [])"
| "octets_ok (Suc 0) [h, l] = (hexDigit h \<noteq> None \<and> hexDigit l \<noteq> None)"
| "octets_ok (Suc n) (h # l # sep # rest) = (hexDigit h \<noteq> None \<and> hexDigit l \<noteq> None \<and> sep = CHR '':'' \<and> octets_ok n rest)"
| "octets_ok _ _ = False"

definition ValidBSSID :: "string \<Rightarrow> bool" where
  "ValidBSSID v \<longleftrightarrow> length v = 17 \<and> octets_ok 6 v \<and>
     (case (hexDigit (v ! 0), hexDigit (v ! 1)) of (Some high, Some low) \<Rightarrow> (high * 16 + low) mod 2 = 0 | _ \<Rightarrow> False) \<and>
     v \<noteq> ''00:00:00:00:00:00''"

definition validateOperatorSuffix :: "(string \<Rightarrow> string) \<Rightarrow> string \<Rightarrow> gerror list" where
  "validateOperatorSuffix field sfx =
     checkBytes (field ''operator_suffix'') sfx MaxSuffixBytes False @
     (if sfx = UnverifiedOperatorSuffix then Addf (field ''operator_suffix'')
      else if sfx = [] then []
      else problem_if (ContainsAny sfx [CHR '' '', CHR 0x09, CHR 0x0D, CHR 0x0A]) (field ''operator_suffix'') @
           problem_if (contains_sub sfx ''@'') (field ''operator_suffix''))"

definition validateLoginShape :: "(string \<Rightarrow> string) \<Rightarrow> LoginShape \<Rightarrow> gerror list" where
  "validateLoginShape field login =
     checkBytes (field ''login.n'') (ls_N login) MaxNameBytes False @
     checkBytes (field ''login.type'') (ls_Type login) MaxNameBytes False @
     checkBytes (field ''login.enc'') (ls_Enc login) MaxNameBytes False @
     checkBytes (field ''login.info_prefix'') (ls_InfoPrefix login) MaxNameBytes False @
     checkBytes (field ''login.os'') (ls_OS login) MaxNameBytes False @
     checkBytes (field ''login.name'') (ls_Name login) MaxNameBytes False @
     (if ls_Alphabet login \<noteq> [] then
        (case NewAlphabet (ls_Alphabet login) of Inl _ \<Rightarrow> Addf (field ''login.alphabet'') | Inr _ \<Rightarrow> [])
      else [])"

definition validateWirelessHalf :: "CaseTables \<Rightarrow> (string \<Rightarrow> string) \<Rightarrow> CampusAccount \<Rightarrow> gerror list" where
  "validateWirelessHalf tables field account =
     checkBytes (field ''ssid'') (ca_SSID account) MaxNameBytes True @
     checkBytes (field ''radio'') (ca_Radio account) MaxNameBytes False @
     checkBytes (field ''encryption'') (ca_Encryption account) MaxNameBytes True @
     checkBytes (field ''key'') (ca_Key account) MaxSecretBytes False @
     problem_if (KeyRequired tables (ca_Encryption account) \<and> ca_Key account = []) (field ''key'') @
     problem_if (\<not> APSelection_Valid (ca_APSelection account)) (field ''ap_selection'') @
     (if ca_APSelection account = APSelectionFixed then
        (if ca_BSSID account = [] then Addf (field ''bssid'')
         else problem_if (\<not> ValidBSSID (ca_BSSID account)) (field ''bssid''))
      else problem_if (ca_BSSID account \<noteq> [] \<and> \<not> ValidBSSID (ca_BSSID account)) (field ''bssid''))"

definition validateCampusAccount :: "CaseTables \<Rightarrow> (string \<Rightarrow> string) \<Rightarrow> CampusAccount \<Rightarrow> gerror list" where
  "validateCampusAccount tables field account =
     checkBytes (field ''id'') (ca_ID account) MaxIDBytes True @
     checkBytes (field ''label'') (ca_Label account) MaxLabelBytes False @
     checkBytes (field ''user_id'') (ca_UserID account) MaxUserIDBytes True @
     checkBytes (field ''password'') (ca_Password account) MaxSecretBytes False @
     checkBytes (field ''operator'') (ca_Operator account) MaxLabelBytes False @
     checkBytes (field ''base_url'') (ca_BaseURL account) MaxURLBytes False @
     checkBytes (field ''ac_id'') (ca_ACID account) MaxNameBytes False @
     checkBytes (field ''preset_id'') (ca_PresetID account) MaxIDBytes False @
     problem_if (ca_UserID account \<noteq> TrimSpace (ca_UserID account)) (field ''user_id'') @
     validateOperatorSuffix field (ca_OperatorSuffix account) @
     validateLoginShape field (ca_Login account) @
     (if \<not> AccessMode_Valid (ca_AccessMode account) then Addf (field ''access_mode'')
      else if IsWired account then checkBytes (field ''wired_iface'') (ca_WiredIface account) MaxNameBytes True
      else validateWirelessHalf tables field account)"

definition managed_by :: "bool \<Rightarrow> CampusAccount \<Rightarrow> bool" where
  "managed_by multi account \<longleftrightarrow> multi \<and> IsWired account \<and> ca_AuthEnabled account"

fun account_loop :: "CaseTables \<Rightarrow> bool \<Rightarrow> nat \<Rightarrow> string list \<Rightarrow> string list \<Rightarrow> CampusAccount list \<Rightarrow> gerror list" where
  "account_loop tables multi i seen managedIfaces [] = []"
| "account_loop tables multi i seen managedIfaces (account # rest) =
     (let field = (\<lambda>name. indexed ''campus_accounts'' i @ ''.'' @ name) in
      validateCampusAccount tables field account @
      problem_if (ca_ID account \<in> set seen \<and> ca_ID account \<noteq> []) (field ''id'') @
      (if \<not> managed_by multi account then account_loop tables multi (Suc i) (ca_ID account # seen) managedIfaces rest
       else problem_if (ca_WiredIface account \<in> set managedIfaces) (field ''wired_iface'') @
            account_loop tables multi (Suc i) (ca_ID account # seen) (ca_WiredIface account # managedIfaces) rest))"

definition validateCampusAccounts :: "CaseTables \<Rightarrow> Config \<Rightarrow> gerror list" where
  "validateCampusAccounts tables cfg =
     problem_if (length (cf_CampusAccounts cfg) > MaxCampusAccounts) ''campus_accounts'' @
     account_loop tables (cf_MultiWANEnabled cfg) 0 [] [] (cf_CampusAccounts cfg) @
     problem_if (length (filter (managed_by (cf_MultiWANEnabled cfg)) (cf_CampusAccounts cfg)) > MaxManagedWiredAccounts) ''campus_accounts''"

subsection \<open>Hotspots, selection, strategy storage\<close>

fun hotspot_loop :: "CaseTables \<Rightarrow> nat \<Rightarrow> string list \<Rightarrow> HotspotProfile list \<Rightarrow> gerror list" where
  "hotspot_loop tables i seen [] = []"
| "hotspot_loop tables i seen (hotspot # rest) =
     (let field = (\<lambda>name. indexed ''hotspot_profiles'' i @ ''.'' @ name) in
      checkBytes (field ''id'') (hp_ID hotspot) MaxIDBytes True @
      checkBytes (field ''label'') (hp_Label hotspot) MaxLabelBytes False @
      checkBytes (field ''ssid'') (hp_SSID hotspot) MaxNameBytes True @
      checkBytes (field ''radio'') (hp_Radio hotspot) MaxNameBytes False @
      checkBytes (field ''key'') (hp_Key hotspot) MaxSecretBytes False @
      problem_if (KeyRequired tables (hp_Encryption hotspot) \<and> hp_Key hotspot = []) (field ''key'') @
      problem_if (hp_ID hotspot \<in> set seen \<and> hp_ID hotspot \<noteq> []) (field ''id'') @
      hotspot_loop tables (Suc i) (hp_ID hotspot # seen) rest)"

definition validateHotspots :: "CaseTables \<Rightarrow> Config \<Rightarrow> gerror list" where
  "validateHotspots tables cfg =
     problem_if (length (cf_HotspotProfiles cfg) > MaxHotspotProfiles) ''hotspot_profiles'' @
     hotspot_loop tables 0 [] (cf_HotspotProfiles cfg)"

definition checkPointer :: "string \<Rightarrow> string \<Rightarrow> string list \<Rightarrow> gerror list" where
  "checkPointer field i known = (if i = [] then [] else problem_if (i \<notin> set known) field)"

definition validateSelection :: "Config \<Rightarrow> gerror list" where
  "validateSelection cfg =
     (let campusIDs = map ca_ID (cf_CampusAccounts cfg); hotspotIDs = map hp_ID (cf_HotspotProfiles cfg); s = cf_Selection cfg in
      checkPointer ''selection.active_campus_id'' (sel_ActiveCampusID s) campusIDs @
      checkPointer ''selection.default_campus_id'' (sel_DefaultCampusID s) campusIDs @
      checkPointer ''selection.active_hotspot_id'' (sel_ActiveHotspotID s) hotspotIDs @
      checkPointer ''selection.default_hotspot_id'' (sel_DefaultHotspotID s) hotspotIDs)"

definition is_string :: "JSON \<Rightarrow> bool" where
  "is_string v = (case v of JString _ \<Rightarrow> True | _ \<Rightarrow> False)"

definition check_extra :: "string \<times> JSON \<Rightarrow> gerror list" where
  "check_extra entry =
     (let (key, v) = entry; field = ''school_extra.'' @ key in
      checkBytes field key MaxIDBytes True @
      (case v of
         JString typed \<Rightarrow> checkBytes field typed MaxNameBytes False
       | JBool _ \<Rightarrow> []
       | JNumber _ \<Rightarrow> []
       | JArray typed \<Rightarrow>
           problem_if (length typed > MaxSchoolExtraKeys) field @
           problem_if (\<exists>item \<in> set typed. \<not> is_string item) field
       | _ \<Rightarrow> Addf field))"

definition validateSchoolExtra :: "Config \<Rightarrow> gerror list" where
  "validateSchoolExtra cfg =
     problem_if (length (cf_SchoolExtra cfg) > MaxSchoolExtraKeys) ''school_extra'' @
     concat (map check_extra (cf_SchoolExtra cfg))"

definition Validate :: "CaseTables \<Rightarrow> Config \<Rightarrow> gerror list" where
  "Validate tables cfg =
     problem_if (cf_SchemaVersion cfg \<noteq> ConfigSchemaVersion) ''schema_version'' @
     checkBytes ''school'' (cf_School cfg) MaxNameBytes True @
     checkBytes ''sta_iface'' (cf_STAIface cfg) MaxNameBytes False @
     validateLoginDefaults (cf_LoginDefaults cfg) @
     validateRetry (cf_Retry cfg) @
     validateChecks (cf_Checks cfg) @
     problem_if (\<not> Level_Valid (lg_Level (cf_Log cfg))) ''log.level'' @
     validateCampusAccounts tables cfg @
     validateHotspots tables cfg @
     validateSelection cfg @
     validateSchoolExtra cfg"

subsection \<open>What a valid configuration is\<close>

lemma checkBytes_Nil: "checkBytes f v n r = [] \<longleftrightarrow> length v \<le> n \<and> (r \<longrightarrow> v \<noteq> [])"
  by (auto simp: checkBytes_def Addf_def)

lemma checkRange_Nil: "checkRange f v l h = [] \<longleftrightarrow> l \<le> v \<and> v \<le> h"
  by (auto simp: checkRange_def)

lemma Addf_not_Nil [simp]: "Addf f \<noteq> []"
  by (simp add: Addf_def)

lemmas check_Nil = checkBytes_Nil checkRange_Nil

definition suffix_ok :: "string \<Rightarrow> bool" where
  "suffix_ok s \<longleftrightarrow> length s \<le> MaxSuffixBytes \<and> s \<noteq> UnverifiedOperatorSuffix \<and>
     set s \<inter> {CHR '' '', CHR 0x09, CHR 0x0D, CHR 0x0A, CHR ''@''} = {}"

lemma contains_at: "contains_sub s [c] \<longleftrightarrow> c \<in> set s"
  by (induction s) auto

lemma validateOperatorSuffix_Nil: "validateOperatorSuffix f s = [] \<longleftrightarrow> suffix_ok s"
  by (auto simp: validateOperatorSuffix_def suffix_ok_def check_Nil ContainsAny_def contains_at UnverifiedOperatorSuffix_def)

definition login_ok :: "LoginShape \<Rightarrow> bool" where
  "login_ok l \<longleftrightarrow> (\<forall>s \<in> {ls_N l, ls_Type l, ls_Enc l, ls_InfoPrefix l, ls_OS l, ls_Name l}. length s \<le> MaxNameBytes) \<and>
     (ls_Alphabet l = [] \<or> alphabet_ok (ls_Alphabet l))"

lemma validateLoginShape_Nil: "validateLoginShape f l = [] \<longleftrightarrow> login_ok l"
proof -
  have "(case NewAlphabet t of Inl _ \<Rightarrow> Addf x | Inr _ \<Rightarrow> []) = [] \<longleftrightarrow> alphabet_ok t" for t x
    using NewAlphabet_iff [of t] by (cases "NewAlphabet t") (auto simp: alphabet_ok_def)
  then show ?thesis by (auto simp: validateLoginShape_def login_ok_def check_Nil)
qed

definition wireless_ok :: "CaseTables \<Rightarrow> CampusAccount \<Rightarrow> bool" where
  "wireless_ok tables a \<longleftrightarrow> ca_SSID a \<noteq> [] \<and> length (ca_SSID a) \<le> MaxNameBytes \<and> length (ca_Radio a) \<le> MaxNameBytes \<and>
     ca_Encryption a \<noteq> [] \<and> length (ca_Encryption a) \<le> MaxNameBytes \<and> length (ca_Key a) \<le> MaxSecretBytes \<and>
     (KeyRequired tables (ca_Encryption a) \<longrightarrow> ca_Key a \<noteq> []) \<and> APSelection_Valid (ca_APSelection a) \<and>
     (ca_APSelection a = APSelectionFixed \<or> ca_BSSID a \<noteq> [] \<longrightarrow> ValidBSSID (ca_BSSID a))"

lemma ValidBSSID_nonempty: "ValidBSSID v \<Longrightarrow> v \<noteq> []"
  by (auto simp: ValidBSSID_def)

lemma validateWirelessHalf_Nil: "validateWirelessHalf tables f a = [] \<longleftrightarrow> wireless_ok tables a"
  by (auto simp: validateWirelessHalf_def wireless_ok_def check_Nil dest: ValidBSSID_nonempty)

definition account_ok :: "CaseTables \<Rightarrow> CampusAccount \<Rightarrow> bool" where
  "account_ok tables a \<longleftrightarrow> ca_ID a \<noteq> [] \<and> length (ca_ID a) \<le> MaxIDBytes \<and> length (ca_Label a) \<le> MaxLabelBytes \<and>
     ca_UserID a \<noteq> [] \<and> length (ca_UserID a) \<le> MaxUserIDBytes \<and> TrimSpace (ca_UserID a) = ca_UserID a \<and>
     length (ca_Password a) \<le> MaxSecretBytes \<and> length (ca_Operator a) \<le> MaxLabelBytes \<and> length (ca_BaseURL a) \<le> MaxURLBytes \<and>
     length (ca_ACID a) \<le> MaxNameBytes \<and> length (ca_PresetID a) \<le> MaxIDBytes \<and>
     suffix_ok (ca_OperatorSuffix a) \<and> login_ok (ca_Login a) \<and> AccessMode_Valid (ca_AccessMode a) \<and>
     (if IsWired a then ca_WiredIface a \<noteq> [] \<and> length (ca_WiredIface a) \<le> MaxNameBytes else wireless_ok tables a)"

lemma validateCampusAccount_Nil: "validateCampusAccount tables f a = [] \<longleftrightarrow> account_ok tables a"
  by (auto simp: validateCampusAccount_def account_ok_def check_Nil validateOperatorSuffix_Nil validateLoginShape_Nil
      validateWirelessHalf_Nil)

lemma account_loop_Nil: "account_loop tables multi i seen ifaces as = [] \<longleftrightarrow>
    (\<forall>a \<in> set as. account_ok tables a) \<and> distinct (map ca_ID as) \<and> set (map ca_ID as) \<inter> set seen = {} \<and>
    distinct (map ca_WiredIface (filter (managed_by multi) as)) \<and>
    set (map ca_WiredIface (filter (managed_by multi) as)) \<inter> set ifaces = {}"
proof (induction tables multi i seen ifaces as rule: account_loop.induct)
  case (2 tables multi i seen managedIfaces account rest)
  have "ca_ID account \<noteq> []" if "account_ok tables account" using that by (simp add: account_ok_def)
  with 2 show ?case
    by (cases "managed_by multi account") (auto simp: Let_def validateCampusAccount_Nil)
qed simp

definition hotspot_ok :: "CaseTables \<Rightarrow> HotspotProfile \<Rightarrow> bool" where
  "hotspot_ok tables h \<longleftrightarrow> hp_ID h \<noteq> [] \<and> length (hp_ID h) \<le> MaxIDBytes \<and> length (hp_Label h) \<le> MaxLabelBytes \<and>
     hp_SSID h \<noteq> [] \<and> length (hp_SSID h) \<le> MaxNameBytes \<and> length (hp_Radio h) \<le> MaxNameBytes \<and>
     length (hp_Key h) \<le> MaxSecretBytes \<and> (KeyRequired tables (hp_Encryption h) \<longrightarrow> hp_Key h \<noteq> [])"

lemma hotspot_loop_Nil: "hotspot_loop tables i seen hs = [] \<longleftrightarrow>
    (\<forall>h \<in> set hs. hotspot_ok tables h) \<and> distinct (map hp_ID hs) \<and> set (map hp_ID hs) \<inter> set seen = {}"
  by (induction tables i seen hs rule: hotspot_loop.induct) (auto simp: Let_def check_Nil hotspot_ok_def)

definition pointer_ok :: "string \<Rightarrow> string list \<Rightarrow> bool" where
  "pointer_ok i ids \<longleftrightarrow> i = [] \<or> i \<in> set ids"

definition selection_ok :: "Config \<Rightarrow> bool" where
  "selection_ok cfg \<longleftrightarrow>
     pointer_ok (sel_ActiveCampusID (cf_Selection cfg)) (map ca_ID (cf_CampusAccounts cfg)) \<and>
     pointer_ok (sel_DefaultCampusID (cf_Selection cfg)) (map ca_ID (cf_CampusAccounts cfg)) \<and>
     pointer_ok (sel_ActiveHotspotID (cf_Selection cfg)) (map hp_ID (cf_HotspotProfiles cfg)) \<and>
     pointer_ok (sel_DefaultHotspotID (cf_Selection cfg)) (map hp_ID (cf_HotspotProfiles cfg))"

lemma checkPointer_Nil: "checkPointer f i known = [] \<longleftrightarrow> pointer_ok i known"
  by (simp add: checkPointer_def pointer_ok_def)

lemma validateSelection_Nil: "validateSelection cfg = [] \<longleftrightarrow> selection_ok cfg"
  by (simp add: validateSelection_def selection_ok_def Let_def checkPointer_Nil)

definition extra_ok :: "string \<times> JSON \<Rightarrow> bool" where
  "extra_ok entry \<longleftrightarrow> fst entry \<noteq> [] \<and> length (fst entry) \<le> MaxIDBytes \<and>
     (case snd entry of
        JString s \<Rightarrow> length s \<le> MaxNameBytes
      | JArray vs \<Rightarrow> length vs \<le> MaxSchoolExtraKeys \<and> (\<forall>v \<in> set vs. is_string v)
      | JBool _ \<Rightarrow> True | JNumber _ \<Rightarrow> True | _ \<Rightarrow> False)"

lemma check_extra_Nil: "check_extra entry = [] \<longleftrightarrow> extra_ok entry"
  by (cases entry; cases "snd entry") (auto simp: check_extra_def extra_ok_def check_Nil Let_def)

definition retry_ok :: "RetryConfig \<Rightarrow> bool" where
  "retry_ok r \<longleftrightarrow> 0 \<le> rt_MaxRetries r \<and> rt_MaxRetries r \<le> 100 \<and>
     rt_InitialSeconds r \<le> rt_MaxSeconds r \<and> rt_MaxSeconds r \<le> MaxCooldownSeconds"

definition checks_ok :: "ChecksConfig \<Rightarrow> bool" where
  "checks_ok c \<longleftrightarrow> 1 \<le> ch_IntervalSeconds c \<and> ch_IntervalSeconds c \<le> 3600 \<and> CheckMode_Valid (ch_Mode c) \<and>
     1 \<le> ch_SwitchTimeoutSeconds c \<and> ch_SwitchTimeoutSeconds c \<le> 300 \<and> 1 \<le> ch_TerminalAttempts c \<and>
     ch_TerminalAttempts c \<le> 20 \<and> 1 \<le> ch_TerminalIntervalSeconds c \<and> ch_TerminalIntervalSeconds c \<le> 60"

definition defaults_ok :: "LoginDefaults \<Rightarrow> bool" where
  "defaults_ok d \<longleftrightarrow> (\<forall>s \<in> {ld_N d, ld_Type d, ld_Enc d}. s \<noteq> [] \<and> length s \<le> MaxNameBytes)"

definition config_ok :: "CaseTables \<Rightarrow> Config \<Rightarrow> bool" where
  "config_ok tables cfg \<longleftrightarrow>
     cf_SchemaVersion cfg = ConfigSchemaVersion \<and> cf_School cfg \<noteq> [] \<and> length (cf_School cfg) \<le> MaxNameBytes \<and>
     length (cf_STAIface cfg) \<le> MaxNameBytes \<and> defaults_ok (cf_LoginDefaults cfg) \<and> retry_ok (cf_Retry cfg) \<and>
     checks_ok (cf_Checks cfg) \<and> Level_Valid (lg_Level (cf_Log cfg)) \<and>
     length (cf_CampusAccounts cfg) \<le> MaxCampusAccounts \<and> (\<forall>a \<in> set (cf_CampusAccounts cfg). account_ok tables a) \<and>
     distinct (map ca_ID (cf_CampusAccounts cfg)) \<and>
     distinct (map ca_WiredIface (ManagedWiredAccounts cfg)) \<and> length (ManagedWiredAccounts cfg) \<le> MaxManagedWiredAccounts \<and>
     length (cf_HotspotProfiles cfg) \<le> MaxHotspotProfiles \<and> (\<forall>h \<in> set (cf_HotspotProfiles cfg). hotspot_ok tables h) \<and>
     distinct (map hp_ID (cf_HotspotProfiles cfg)) \<and> selection_ok cfg \<and>
     length (cf_SchoolExtra cfg) \<le> MaxSchoolExtraKeys \<and> (\<forall>entry \<in> set (cf_SchoolExtra cfg). extra_ok entry)"

lemma managed_filter: "filter (managed_by (cf_MultiWANEnabled cfg)) (cf_CampusAccounts cfg) = ManagedWiredAccounts cfg"
  by (simp add: ManagedWiredAccounts_def managed_by_def [abs_def])

lemma Validate_Nil: "Validate tables cfg = [] \<longleftrightarrow> config_ok tables cfg"
proof -
  have "validateRetry r = [] \<longleftrightarrow> retry_ok r" for r by (auto simp: validateRetry_def retry_ok_def)
  moreover have "validateChecks c = [] \<longleftrightarrow> checks_ok c" for c by (auto simp: validateChecks_def checks_ok_def check_Nil)
  moreover have "validateLoginDefaults d = [] \<longleftrightarrow> defaults_ok d" for d
    by (auto simp: validateLoginDefaults_def defaults_ok_def check_Nil)
  moreover have "validateCampusAccounts tables cfg = [] \<longleftrightarrow> length (cf_CampusAccounts cfg) \<le> MaxCampusAccounts \<and>
      (\<forall>a \<in> set (cf_CampusAccounts cfg). account_ok tables a) \<and> distinct (map ca_ID (cf_CampusAccounts cfg)) \<and>
      distinct (map ca_WiredIface (ManagedWiredAccounts cfg)) \<and> length (ManagedWiredAccounts cfg) \<le> MaxManagedWiredAccounts"
    by (auto simp: validateCampusAccounts_def account_loop_Nil managed_filter)
  moreover have "validateHotspots tables cfg = [] \<longleftrightarrow> length (cf_HotspotProfiles cfg) \<le> MaxHotspotProfiles \<and>
      (\<forall>h \<in> set (cf_HotspotProfiles cfg). hotspot_ok tables h) \<and> distinct (map hp_ID (cf_HotspotProfiles cfg))"
    by (auto simp: validateHotspots_def hotspot_loop_Nil)
  moreover have "validateSchoolExtra cfg = [] \<longleftrightarrow> length (cf_SchoolExtra cfg) \<le> MaxSchoolExtraKeys \<and>
      (\<forall>entry \<in> set (cf_SchoolExtra cfg). extra_ok entry)"
    by (auto simp: validateSchoolExtra_def check_extra_Nil)
  ultimately show ?thesis
    by (simp only: Validate_def config_ok_def append_is_Nil_conv problem_if_Nil check_Nil validateSelection_Nil) auto
qed

subsection \<open>One pass, one code\<close>

definition coded :: "gerror list \<Rightarrow> bool" where
  "coded es \<longleftrightarrow> list_all (\<lambda>e. e_code e = CodeInvalidConfig \<and> e_field e \<noteq> []) es"

lemma coded_append [simp]: "coded (xs @ ys) \<longleftrightarrow> coded xs \<and> coded ys"
  by (simp add: coded_def)

lemma coded_Nil [simp]: "coded []"
  by (simp add: coded_def)

lemma coded_base [simp]: "f \<noteq> [] \<Longrightarrow> coded (Addf f)" "f \<noteq> [] \<Longrightarrow> coded (problem_if b f)" "f \<noteq> [] \<Longrightarrow> coded (checkBytes f v n r)"
  "f \<noteq> [] \<Longrightarrow> coded (checkRange f i l h)" "f \<noteq> [] \<Longrightarrow> coded (checkPointer f v ks)"
  by (simp_all add: coded_def Addf_def problem_if_def checkBytes_def checkRange_def checkPointer_def)

lemma coded_if [intro]: "coded xs \<Longrightarrow> coded ys \<Longrightarrow> coded (if b then xs else ys)"
  by simp

lemma coded_suffix: "(\<And>n. f n \<noteq> []) \<Longrightarrow> coded (validateOperatorSuffix f s)"
  unfolding validateOperatorSuffix_def coded_append by (intro conjI coded_if) (simp_all only: coded_base coded_Nil coded_append simp_thms)

lemma coded_login: "(\<And>n. f n \<noteq> []) \<Longrightarrow> coded (validateLoginShape f l)"
  by (simp add: validateLoginShape_def split: sum.split)

lemma coded_wireless: "(\<And>n. f n \<noteq> []) \<Longrightarrow> coded (validateWirelessHalf tables f a)"
  by (simp add: validateWirelessHalf_def)

lemma coded_account: "(\<And>n. f n \<noteq> []) \<Longrightarrow> coded (validateCampusAccount tables f a)"
  by (simp add: validateCampusAccount_def coded_suffix coded_login coded_wireless)

lemma coded_account_loop: "coded (account_loop tables multi i seen ifaces as)"
proof (induction tables multi i seen ifaces as rule: account_loop.induct)
  case (2 tables multi i seen managedIfaces account rest)
  then show ?case by (cases "managed_by multi account") (simp_all add: Let_def coded_account indexed_def)
qed simp

lemma coded_hotspot_loop: "coded (hotspot_loop tables i seen hs)"
  by (induction tables i seen hs rule: hotspot_loop.induct) (simp_all add: Let_def indexed_def)

lemma coded_extra: "coded (concat (map check_extra es))"
proof (induction es)
  case (Cons entry es)
  have "coded (check_extra entry)" by (cases entry; cases "snd entry") (simp_all add: check_extra_def Let_def)
  with Cons show ?case by simp
qed simp


end
