(* ===== verification/Config_Mutations.thy ===== *)
theory Config_Mutations
  imports Config_Validate
begin

text \<open>
  The edits of a configuration: \<open>config/mutations.go\<close>. A patch field is an option (\<open>nil\<close> keeps the
  stored value); \<open>DoubleStack\<close> has two levels, presence and the tri-state of the field. A change takes
  the private copy of the configuration and gives an error or the edited copy. \<open>bits\<close> is the width of
  Go's \<open>int\<close> on the target (32 or 64).
\<close>

record LoginPatch =
  lp_N :: "string option"
  lp_Type :: "string option"
  lp_Enc :: "string option"
  lp_InfoPrefix :: "string option"
  lp_DoubleStack :: "bool option option"
  lp_OS :: "string option"
  lp_Name :: "string option"
  lp_Alphabet :: "string option"

record CampusPatch =
  cp_ID :: string
  cp_Label :: "string option"
  cp_UserID :: "string option"
  cp_Password :: "string option"
  cp_Operator :: "string option"
  cp_OperatorSuffix :: "string option"
  cp_AccessMode :: "string option"
  cp_BaseURL :: "string option"
  cp_ACID :: "string option"
  cp_PresetID :: "string option"
  cp_WiredIface :: "string option"
  cp_AuthEnabled :: "bool option"
  cp_SSID :: "string option"
  cp_Radio :: "string option"
  cp_Encryption :: "string option"
  cp_Key :: "string option"
  cp_APSelection :: "string option"
  cp_BSSID :: "string option"
  cp_Login :: "LoginPatch option"

record HotspotPatch =
  hpp_ID :: string
  hpp_Label :: "string option"
  hpp_SSID :: "string option"
  hpp_Encryption :: "string option"
  hpp_Key :: "string option"
  hpp_Radio :: "string option"

record Settings =
  ss_Enabled :: bool
  ss_MultiWANEnabled :: bool
  ss_School :: string
  ss_STAIface :: string
  ss_LoginDefaults :: LoginDefaults
  ss_Quiet :: QuietConfig
  ss_Retry :: RetryConfig
  ss_Checks :: ChecksConfig
  ss_Failover :: FailoverConfig
  ss_Log :: LogConfig
  ss_PresetUpdates :: PresetUpdateConfig
  ss_SchoolExtra :: "JSON gomap"

type_synonym Change = "Config \<Rightarrow> gerror list + Config"

definition SettingsOf :: "Config \<Rightarrow> Settings" where
  "SettingsOf cfg = \<lparr>ss_Enabled = cf_Enabled cfg, ss_MultiWANEnabled = cf_MultiWANEnabled cfg,
     ss_School = cf_School cfg, ss_STAIface = cf_STAIface cfg, ss_LoginDefaults = cf_LoginDefaults cfg,
     ss_Quiet = cf_Quiet cfg, ss_Retry = cf_Retry cfg, ss_Checks = cf_Checks cfg, ss_Failover = cf_Failover cfg,
     ss_Log = cf_Log cfg, ss_PresetUpdates = cf_PresetUpdates cfg, ss_SchoolExtra = cf_SchoolExtra cfg\<rparr>"

definition ApplySettings :: "Settings \<Rightarrow> Change" where
  "ApplySettings settings cfg =
     (let switching = (TrimSpace (ss_School settings) \<noteq> cf_School cfg)
      in Inr (cfg\<lparr>cf_Enabled := ss_Enabled settings, cf_MultiWANEnabled := ss_MultiWANEnabled settings,
           cf_School := ss_School settings, cf_STAIface := ss_STAIface settings,
           cf_LoginDefaults := ss_LoginDefaults settings, cf_Quiet := ss_Quiet settings, cf_Retry := ss_Retry settings,
           cf_Checks := ss_Checks settings, cf_Failover := ss_Failover settings, cf_Log := ss_Log settings,
           cf_PresetUpdates := ss_PresetUpdates settings,
           cf_SchoolExtra := (if switching then [] else ss_SchoolExtra settings)\<rparr>))"

subsection \<open>Patches\<close>

definition assign :: "'a \<Rightarrow> 'a option \<Rightarrow> 'a" where
  "assign target v = (case v of None \<Rightarrow> target | Some x \<Rightarrow> x)"

definition LoginPatch_applyTo :: "LoginPatch \<Rightarrow> LoginShape \<Rightarrow> LoginShape" where
  "LoginPatch_applyTo p shape = shape\<lparr>ls_N := assign (ls_N shape) (lp_N p), ls_Type := assign (ls_Type shape) (lp_Type p),
     ls_Enc := assign (ls_Enc shape) (lp_Enc p), ls_InfoPrefix := assign (ls_InfoPrefix shape) (lp_InfoPrefix p),
     ls_OS := assign (ls_OS shape) (lp_OS p), ls_Name := assign (ls_Name shape) (lp_Name p),
     ls_Alphabet := assign (ls_Alphabet shape) (lp_Alphabet p),
     ls_DoubleStack := assign (ls_DoubleStack shape) (lp_DoubleStack p)\<rparr>"

definition CampusPatch_applyTo :: "CampusPatch \<Rightarrow> CampusAccount \<Rightarrow> CampusAccount" where
  "CampusPatch_applyTo p a = a\<lparr>ca_Label := assign (ca_Label a) (cp_Label p), ca_UserID := assign (ca_UserID a) (cp_UserID p),
     ca_Password := assign (ca_Password a) (cp_Password p), ca_Operator := assign (ca_Operator a) (cp_Operator p),
     ca_OperatorSuffix := assign (ca_OperatorSuffix a) (cp_OperatorSuffix p), ca_BaseURL := assign (ca_BaseURL a) (cp_BaseURL p),
     ca_ACID := assign (ca_ACID a) (cp_ACID p), ca_PresetID := assign (ca_PresetID a) (cp_PresetID p),
     ca_WiredIface := assign (ca_WiredIface a) (cp_WiredIface p), ca_SSID := assign (ca_SSID a) (cp_SSID p),
     ca_Radio := assign (ca_Radio a) (cp_Radio p), ca_Encryption := assign (ca_Encryption a) (cp_Encryption p),
     ca_Key := assign (ca_Key a) (cp_Key p), ca_BSSID := assign (ca_BSSID a) (cp_BSSID p),
     ca_AccessMode := assign (ca_AccessMode a) (cp_AccessMode p), ca_APSelection := assign (ca_APSelection a) (cp_APSelection p),
     ca_AuthEnabled := assign (ca_AuthEnabled a) (cp_AuthEnabled p),
     ca_Login := (case cp_Login p of None \<Rightarrow> ca_Login a | Some l \<Rightarrow> LoginPatch_applyTo l (ca_Login a))\<rparr>"

definition HotspotPatch_applyTo :: "HotspotPatch \<Rightarrow> HotspotProfile \<Rightarrow> HotspotProfile" where
  "HotspotPatch_applyTo p h = h\<lparr>hp_Label := assign (hp_Label h) (hpp_Label p), hp_SSID := assign (hp_SSID h) (hpp_SSID p),
     hp_Encryption := assign (hp_Encryption h) (hpp_Encryption p), hp_Key := assign (hp_Key h) (hpp_Key p),
     hp_Radio := assign (hp_Radio h) (hpp_Radio p)\<rparr>"

subsection \<open>Identifiers\<close>

definition indexOf :: "string list \<Rightarrow> string \<Rightarrow> nat option" where
  "indexOf ids i = (if i = [] then None else find (\<lambda>k. ids ! k = i) [0..<length ids])"

definition campusIDs :: "Config \<Rightarrow> string list" where
  "campusIDs cfg = map ca_ID (cf_CampusAccounts cfg)"

definition hotspotIDs :: "Config \<Rightarrow> string list" where
  "hotspotIDs cfg = map hp_ID (cf_HotspotProfiles cfg)"

definition indexOfCampus :: "Config \<Rightarrow> string \<Rightarrow> nat option" where
  "indexOfCampus cfg i = indexOf (campusIDs cfg) i"

definition indexOfHotspot :: "Config \<Rightarrow> string \<Rightarrow> nat option" where
  "indexOfHotspot cfg i = indexOf (hotspotIDs cfg) i"

definition highest_number :: "nat \<Rightarrow> string \<Rightarrow> string list \<Rightarrow> int" where
  "highest_number bits p existing =
     fold (\<lambda>i highest. case CutPrefix i p of
        None \<Rightarrow> highest
      | Some digits \<Rightarrow> (case Atoi bits digits of None \<Rightarrow> highest | Some number \<Rightarrow> if number > highest then number else highest))
       existing 0"

text \<open>
  The candidates of the loop \<open>for candidate := highest + 1; ; candidate++\<close>, with the wrap-around of
  \<open>int\<close>. The loop stops within \<open>length existing + 1\<close> of them (lemma \<open>nextID_found\<close> below), so looking at
  that many is the whole loop.
\<close>

definition candidate :: "nat \<Rightarrow> string \<Rightarrow> int \<Rightarrow> nat \<Rightarrow> string" where
  "candidate bits p highest k = p @ FormatInt (wrap_int bits (highest + 1 + int k))"

definition nextID_search :: "nat \<Rightarrow> string list \<Rightarrow> string \<Rightarrow> string option" where
  "nextID_search bits existing p =
     find (\<lambda>i. i \<notin> set existing) (map (candidate bits p (highest_number bits p existing)) [0..<Suc (length existing)])"

definition nextID :: "nat \<Rightarrow> string list \<Rightarrow> string \<Rightarrow> string" where
  "nextID bits existing p = (case nextID_search bits existing p of Some i \<Rightarrow> i | None \<Rightarrow> [])"

subsection \<open>The changes\<close>

definition UpsertCampus :: "nat \<Rightarrow> CampusPatch \<Rightarrow> Change" where
  "UpsertCampus bits patch cfg =
     (case indexOfCampus cfg (cp_ID patch) of
        Some index \<Rightarrow>
          Inr (cfg\<lparr>cf_CampusAccounts := (cf_CampusAccounts cfg)[index := CampusPatch_applyTo patch (cf_CampusAccounts cfg ! index)]\<rparr>)
      | None \<Rightarrow>
          if cp_ID patch \<noteq> [] then Inl [FieldErrorf CodeNotFound ''id'']
          else if length (cf_CampusAccounts cfg) \<ge> MaxCampusAccounts then Inl [FieldErrorf CodeInvalidConfig ''campus_accounts'']
          else
            let account = CampusPatch_applyTo patch
                  (zero_campus\<lparr>ca_ID := nextID bits (campusIDs cfg) ''c'', ca_AccessMode := AccessModeWired\<rparr>);
                cfg = cfg\<lparr>cf_CampusAccounts := cf_CampusAccounts cfg @ [account]\<rparr>
            in if length (cf_CampusAccounts cfg) = 1
               then Inr (cfg\<lparr>cf_Selection := (cf_Selection cfg)\<lparr>sel_ActiveCampusID := ca_ID account, sel_DefaultCampusID := ca_ID account\<rparr>\<rparr>)
               else Inr cfg)"

definition RemoveCampus :: "string \<Rightarrow> Change" where
  "RemoveCampus i cfg =
     (case indexOfCampus cfg i of
        None \<Rightarrow> Inl [FieldErrorf CodeNotFound ''id'']
      | Some index \<Rightarrow> Inr (cfg\<lparr>cf_CampusAccounts := take index (cf_CampusAccounts cfg) @ drop (index + 1) (cf_CampusAccounts cfg)\<rparr>))"

definition SetDefaultCampus :: "string \<Rightarrow> Change" where
  "SetDefaultCampus i cfg =
     (if indexOfCampus cfg i = None then Inl [FieldErrorf CodeNotFound ''id'']
      else Inr (cfg\<lparr>cf_Selection := (cf_Selection cfg)\<lparr>sel_DefaultCampusID := i, sel_ActiveCampusID := i\<rparr>\<rparr>))"

definition UpsertHotspot :: "nat \<Rightarrow> HotspotPatch \<Rightarrow> Change" where
  "UpsertHotspot bits patch cfg =
     (case indexOfHotspot cfg (hpp_ID patch) of
        Some index \<Rightarrow>
          Inr (cfg\<lparr>cf_HotspotProfiles := (cf_HotspotProfiles cfg)[index := HotspotPatch_applyTo patch (cf_HotspotProfiles cfg ! index)]\<rparr>)
      | None \<Rightarrow>
          if hpp_ID patch \<noteq> [] then Inl [FieldErrorf CodeNotFound ''id'']
          else if length (cf_HotspotProfiles cfg) \<ge> MaxHotspotProfiles then Inl [FieldErrorf CodeInvalidConfig ''hotspot_profiles'']
          else
            let hotspot = HotspotPatch_applyTo patch (zero_hotspot\<lparr>hp_ID := nextID bits (hotspotIDs cfg) ''h''\<rparr>);
                cfg = cfg\<lparr>cf_HotspotProfiles := cf_HotspotProfiles cfg @ [hotspot]\<rparr>
            in if length (cf_HotspotProfiles cfg) = 1
               then Inr (cfg\<lparr>cf_Selection := (cf_Selection cfg)\<lparr>sel_ActiveHotspotID := hp_ID hotspot, sel_DefaultHotspotID := hp_ID hotspot\<rparr>\<rparr>)
               else Inr cfg)"

definition RemoveHotspot :: "string \<Rightarrow> Change" where
  "RemoveHotspot i cfg =
     (case indexOfHotspot cfg i of
        None \<Rightarrow> Inl [FieldErrorf CodeNotFound ''id'']
      | Some index \<Rightarrow> Inr (cfg\<lparr>cf_HotspotProfiles := take index (cf_HotspotProfiles cfg) @ drop (index + 1) (cf_HotspotProfiles cfg)\<rparr>))"

definition SetDefaultHotspot :: "string \<Rightarrow> Change" where
  "SetDefaultHotspot i cfg =
     (if indexOfHotspot cfg i = None then Inl [FieldErrorf CodeNotFound ''id'']
      else Inr (cfg\<lparr>cf_Selection := (cf_Selection cfg)\<lparr>sel_DefaultHotspotID := i, sel_ActiveHotspotID := i\<rparr>\<rparr>))"

definition repairPointer :: "string \<Rightarrow> string list \<Rightarrow> string list \<Rightarrow> string" where
  "repairPointer i known fallbacks =
     (case find (\<lambda>c. c \<noteq> [] \<and> c \<in> set known) (i # fallbacks) of None \<Rightarrow> [] | Some c \<Rightarrow> c)"

definition first_of :: "string list \<Rightarrow> string" where
  "first_of ids = (case ids of [] \<Rightarrow> [] | i # _ \<Rightarrow> i)"

definition RepairSelection :: "Config \<Rightarrow> Config" where
  "RepairSelection cfg =
     (let campus = campusIDs cfg; hotspots = hotspotIDs cfg; s = cf_Selection cfg;
          activeCampus = repairPointer (sel_ActiveCampusID s) campus [sel_DefaultCampusID s, first_of campus];
          defaultCampus = repairPointer (sel_DefaultCampusID s) campus [activeCampus];
          activeHotspot = repairPointer (sel_ActiveHotspotID s) hotspots [sel_DefaultHotspotID s, first_of hotspots];
          defaultHotspot = repairPointer (sel_DefaultHotspotID s) hotspots [activeHotspot]
      in cfg\<lparr>cf_Selection := \<lparr>sel_ActiveCampusID = activeCampus, sel_DefaultCampusID = defaultCampus,
           sel_ActiveHotspotID = activeHotspot, sel_DefaultHotspotID = defaultHotspot\<rparr>\<rparr>)"

subsection \<open>Fresh identifiers\<close>

lemma find_mem: "find P xs = Some x \<Longrightarrow> x \<in> set xs"
  by (induction xs) (auto split: if_splits)

lemma candidate_inj:
  "candidate bits p h j = candidate bits p h k \<Longrightarrow> j < 2 ^ bits \<Longrightarrow> k < 2 ^ bits \<Longrightarrow> j = k"
  using wrap_int_inj [of bits "h + 1" j k] by (simp add: candidate_def)

lemma nextID_found:
  assumes "length existing < 2 ^ bits"
  shows "\<exists>i. nextID_search bits existing p = Some i \<and> i \<notin> set existing"
proof -
  let ?c = "candidate bits p (highest_number bits p existing)" and ?n = "Suc (length existing)"
  have "inj_on ?c {0..<?n}" using assms by (intro inj_onI candidate_inj) auto
  then have "card (?c ` {0..<?n}) = ?n" by (simp add: card_image)
  moreover have "card (set existing) < ?n" using card_length [of existing] by simp
  ultimately have "\<not> ?c ` {0..<?n} \<subseteq> set existing" by (metis card_mono finite_set linorder_not_less)
  then have "nextID_search bits existing p \<noteq> None"
    unfolding nextID_search_def find_None_iff set_map set_upt by blast
  then show ?thesis by (auto simp: nextID_search_def find_Some_iff)
qed

lemma nextID_fresh: "length existing < 2 ^ bits \<Longrightarrow> nextID bits existing p \<notin> set existing"
  using nextID_found [of existing bits p] by (auto simp: nextID_def)

lemma nextID_nonempty: "length existing < 2 ^ bits \<Longrightarrow> p \<noteq> [] \<Longrightarrow> nextID bits existing p \<noteq> []"
proof -
  assume "length existing < 2 ^ bits" and p: "p \<noteq> []"
  then obtain i where i: "nextID_search bits existing p = Some i" using nextID_found by blast
  then have "i \<in> set (map (candidate bits p (highest_number bits p existing)) [0..<Suc (length existing)])"
    unfolding nextID_search_def by (rule find_mem)
  then have "i \<noteq> []" using p by (auto simp: candidate_def)
  with i show ?thesis by (simp add: nextID_def)
qed

lemma indexOf_Some: "indexOf ids i = Some k \<longleftrightarrow> i \<noteq> [] \<and> k < length ids \<and> ids ! k = i \<and> (\<forall>j < k. ids ! j \<noteq> i)"
  by (auto simp: indexOf_def find_Some_iff)

lemma indexOf_None: "indexOf ids i = None \<longleftrightarrow> i = [] \<or> i \<notin> set ids"
  by (auto simp: indexOf_def find_None_iff in_set_conv_nth)

lemma applyTo_ID [simp]: "ca_ID (CampusPatch_applyTo p a) = ca_ID a" "hp_ID (HotspotPatch_applyTo q h) = hp_ID h"
  by (simp_all add: CampusPatch_applyTo_def HotspotPatch_applyTo_def)

subsection \<open>Pointers\<close>

lemma repair_known: "repairPointer i known fs \<noteq> [] \<Longrightarrow> repairPointer i known fs \<in> set known"
  by (auto simp: repairPointer_def find_Some_iff split: option.splits)

lemma repair_kept: "i \<noteq> [] \<Longrightarrow> i \<in> set known \<Longrightarrow> repairPointer i known fs = i"
  by (simp add: repairPointer_def)

lemma repair_step: "[] \<notin> set known \<Longrightarrow>
    repairPointer i known (d # ds) = (if i \<in> set known then i else repairPointer d known ds)"
  by (auto simp: repairPointer_def)

lemma repair_last: "[] \<notin> set known \<Longrightarrow> repairPointer i known [] = (if i \<in> set known then i else [])"
  by (auto simp: repairPointer_def)

lemma repair_choice: "repairPointer i known fs = [] \<or> repairPointer i known fs \<in> set (i # fs)"
proof (cases "find (\<lambda>c. c \<noteq> [] \<and> c \<in> set known) (i # fs)")
  case None
  then show ?thesis by (simp add: repairPointer_def)
next
  case (Some c)
  then show ?thesis using find_mem [OF Some] by (simp add: repairPointer_def)
qed

lemma repair_pointer_ok: "pointer_ok (repairPointer i known fs) known"
  using repair_known [of i known fs] by (auto simp: pointer_ok_def)

lemma RepairSelection_ok: "selection_ok (RepairSelection cfg)"
  by (simp add: selection_ok_def RepairSelection_def Let_def campusIDs_def hotspotIDs_def repair_pointer_ok)


definition dangling :: Config where
  "dangling = Defaults\<lparr>cf_CampusAccounts := [zero_campus\<lparr>ca_ID := ''c1''\<rparr>, zero_campus\<lparr>ca_ID := ''c3''\<rparr>],
     cf_Selection := \<lparr>sel_ActiveCampusID = ''c2'', sel_DefaultCampusID = ''c3'', sel_ActiveHotspotID = [], sel_DefaultHotspotID = []\<rparr>\<rparr>"


subsection \<open>Edits\<close>

datatype Edit = EditSettings Settings | EditCampus CampusPatch | DropCampus string | DefaultCampus string
  | EditHotspot HotspotPatch | DropHotspot string | DefaultHotspot string

fun edit :: "nat \<Rightarrow> Edit \<Rightarrow> Change" where
  "edit bits (EditSettings s) = ApplySettings s"
| "edit bits (EditCampus p) = UpsertCampus bits p"
| "edit bits (DropCampus i) = RemoveCampus i"
| "edit bits (DefaultCampus i) = SetDefaultCampus i"
| "edit bits (EditHotspot p) = UpsertHotspot bits p"
| "edit bits (DropHotspot i) = RemoveHotspot i"
| "edit bits (DefaultHotspot i) = SetDefaultHotspot i"

fun campus_target :: "Edit \<Rightarrow> string option" where
  "campus_target (EditCampus p) = Some (cp_ID p)"
| "campus_target (DropCampus i) = Some i"
| "campus_target _ = None"

fun hotspot_target :: "Edit \<Rightarrow> string option" where
  "hotspot_target (EditHotspot p) = Some (hpp_ID p)"
| "hotspot_target (DropHotspot i) = Some i"
| "hotspot_target _ = None"

lemma small_fits: "n < 32 \<Longrightarrow> 32 \<le> bits \<Longrightarrow> n < (2 :: nat) ^ bits"
  by (metis less_exp order.strict_trans order.strict_trans2)

lemma drop_nth_ids: "k < length xs \<Longrightarrow> x \<in> set xs \<Longrightarrow> x \<noteq> xs ! k \<Longrightarrow> x \<in> set (take k xs @ drop (k + 1) xs)"
  by (metis Un_iff id_take_nth_drop insert_iff list.simps(15) set_append Suc_eq_plus1)

lemma keep_update: "x \<in> set xs \<Longrightarrow> x \<noteq> xs ! k \<Longrightarrow> x \<in> set (xs[k := y])"
  by (metis in_set_conv_nth length_list_update nth_list_update_neq)

lemma distinct_cut: "distinct xs \<Longrightarrow> distinct (take k xs @ drop (k + 1) xs)"
  by (metis Suc_eq_plus1 distinct_append distinct_drop distinct_take disjoint_iff in_set_dropD le_add1 set_take_disj_set_drop_if_distinct)

lemma campus_edit:
  assumes "edit bits e cfg = Inr cfg'" and "32 \<le> bits" and "distinct (campusIDs cfg)"
  shows "distinct (campusIDs cfg') \<and>
    (\<forall>a \<in> set (cf_CampusAccounts cfg). campus_target e \<noteq> Some (ca_ID a) \<longrightarrow> a \<in> set (cf_CampusAccounts cfg'))"
proof (cases e)
  case (EditCampus p)
  show ?thesis
  proof (cases "indexOfCampus cfg (cp_ID p)")
    case None
    then have c: "cp_ID p = []" "length (cf_CampusAccounts cfg) < 32"
      using assms(1) EditCampus by (auto simp: UpsertCampus_def MaxCampusAccounts_def split: if_splits)
    have "nextID bits (campusIDs cfg) ''c'' \<notin> set (campusIDs cfg)"
      by (rule nextID_fresh) (use c(2) assms(2) in \<open>simp add: campusIDs_def small_fits\<close>)
    moreover have "\<exists>a. ca_ID a = nextID bits (campusIDs cfg) ''c'' \<and> cf_CampusAccounts cfg' = cf_CampusAccounts cfg @ [a]"
      using assms(1) EditCampus None c by (auto simp: UpsertCampus_def Let_def split: if_splits)
    ultimately show ?thesis using assms(3) by (auto simp: campusIDs_def)
  next
    case (Some k)
    then have k: "k < length (cf_CampusAccounts cfg)" "ca_ID (cf_CampusAccounts cfg ! k) = cp_ID p"
      by (auto simp: indexOfCampus_def indexOf_Some campusIDs_def)
    have c': "cf_CampusAccounts cfg' = (cf_CampusAccounts cfg)[k := CampusPatch_applyTo p (cf_CampusAccounts cfg ! k)]"
      using assms(1) EditCampus Some by (auto simp: UpsertCampus_def)
    then have "campusIDs cfg' = campusIDs cfg" using k by (simp add: campusIDs_def map_update list_update_same_conv)
    moreover have "a \<in> set (cf_CampusAccounts cfg')" if "a \<in> set (cf_CampusAccounts cfg)" "cp_ID p \<noteq> ca_ID a" for a
      unfolding c' by (rule keep_update) (use that k in auto)
    ultimately show ?thesis using assms(3) EditCampus by auto
  qed
next
  case (DropCampus i)
  then obtain k where k: "indexOfCampus cfg i = Some k" using assms(1) by (auto simp: RemoveCampus_def split: option.splits)
  then have l: "k < length (cf_CampusAccounts cfg)" "ca_ID (cf_CampusAccounts cfg ! k) = i"
    by (auto simp: indexOfCampus_def indexOf_Some campusIDs_def)
  have c': "cf_CampusAccounts cfg' = take k (cf_CampusAccounts cfg) @ drop (k + 1) (cf_CampusAccounts cfg)"
    using assms(1) DropCampus k by (auto simp: RemoveCampus_def)
  then have "distinct (campusIDs cfg')"
    using distinct_cut [OF assms(3), of k] by (simp add: campusIDs_def take_map drop_map)
  moreover have "a \<in> set (cf_CampusAccounts cfg')" if "a \<in> set (cf_CampusAccounts cfg)" "i \<noteq> ca_ID a" for a
    unfolding c' by (rule drop_nth_ids) (use that l in auto)
  ultimately show ?thesis using DropCampus by auto
qed (use assms in \<open>auto simp: ApplySettings_def SetDefaultCampus_def UpsertHotspot_def RemoveHotspot_def SetDefaultHotspot_def
    campusIDs_def Let_def split: option.splits if_splits\<close>)

lemma hotspot_edit:
  assumes "edit bits e cfg = Inr cfg'" and "32 \<le> bits" and "distinct (hotspotIDs cfg)"
  shows "distinct (hotspotIDs cfg') \<and>
    (\<forall>h \<in> set (cf_HotspotProfiles cfg). hotspot_target e \<noteq> Some (hp_ID h) \<longrightarrow> h \<in> set (cf_HotspotProfiles cfg'))"
proof (cases e)
  case (EditHotspot p)
  show ?thesis
  proof (cases "indexOfHotspot cfg (hpp_ID p)")
    case None
    then have c: "hpp_ID p = []" "length (cf_HotspotProfiles cfg) < 32"
      using assms(1) EditHotspot by (auto simp: UpsertHotspot_def MaxHotspotProfiles_def split: if_splits)
    have "nextID bits (hotspotIDs cfg) ''h'' \<notin> set (hotspotIDs cfg)"
      by (rule nextID_fresh) (use c(2) assms(2) in \<open>simp add: hotspotIDs_def small_fits\<close>)
    moreover have "\<exists>h. hp_ID h = nextID bits (hotspotIDs cfg) ''h'' \<and> cf_HotspotProfiles cfg' = cf_HotspotProfiles cfg @ [h]"
      using assms(1) EditHotspot None c by (auto simp: UpsertHotspot_def Let_def split: if_splits)
    ultimately show ?thesis using assms(3) by (auto simp: hotspotIDs_def)
  next
    case (Some k)
    then have k: "k < length (cf_HotspotProfiles cfg)" "hp_ID (cf_HotspotProfiles cfg ! k) = hpp_ID p"
      by (auto simp: indexOfHotspot_def indexOf_Some hotspotIDs_def)
    have c': "cf_HotspotProfiles cfg' = (cf_HotspotProfiles cfg)[k := HotspotPatch_applyTo p (cf_HotspotProfiles cfg ! k)]"
      using assms(1) EditHotspot Some by (auto simp: UpsertHotspot_def)
    then have "hotspotIDs cfg' = hotspotIDs cfg" using k by (simp add: hotspotIDs_def map_update list_update_same_conv)
    moreover have "h \<in> set (cf_HotspotProfiles cfg')" if "h \<in> set (cf_HotspotProfiles cfg)" "hpp_ID p \<noteq> hp_ID h" for h
      unfolding c' by (rule keep_update) (use that k in auto)
    ultimately show ?thesis using assms(3) EditHotspot by auto
  qed
next
  case (DropHotspot i)
  then obtain k where k: "indexOfHotspot cfg i = Some k" using assms(1) by (auto simp: RemoveHotspot_def split: option.splits)
  then have l: "k < length (cf_HotspotProfiles cfg)" "hp_ID (cf_HotspotProfiles cfg ! k) = i"
    by (auto simp: indexOfHotspot_def indexOf_Some hotspotIDs_def)
  have c': "cf_HotspotProfiles cfg' = take k (cf_HotspotProfiles cfg) @ drop (k + 1) (cf_HotspotProfiles cfg)"
    using assms(1) DropHotspot k by (auto simp: RemoveHotspot_def)
  then have "distinct (hotspotIDs cfg')"
    using distinct_cut [OF assms(3), of k] by (simp add: hotspotIDs_def take_map drop_map)
  moreover have "h \<in> set (cf_HotspotProfiles cfg')" if "h \<in> set (cf_HotspotProfiles cfg)" "i \<noteq> hp_ID h" for h
    unfolding c' by (rule drop_nth_ids) (use that l in auto)
  ultimately show ?thesis using DropHotspot by auto
qed (use assms in \<open>auto simp: ApplySettings_def SetDefaultCampus_def UpsertCampus_def RemoveCampus_def SetDefaultHotspot_def
    hotspotIDs_def Let_def split: option.splits if_splits\<close>)

lemma secrets_kept:
  assumes "edit bits (EditCampus p) cfg = Inr cfg'" and "cp_Password p = None" and "cp_Key p = None"
    and "a \<in> set (cf_CampusAccounts cfg)"
  shows "\<exists>b \<in> set (cf_CampusAccounts cfg'). ca_ID b = ca_ID a \<and> ca_Password b = ca_Password a \<and> ca_Key b = ca_Key a"
proof (cases "indexOfCampus cfg (cp_ID p)")
  case None
  then have "\<exists>b. cf_CampusAccounts cfg' = cf_CampusAccounts cfg @ [b]"
    using assms(1) by (auto simp: UpsertCampus_def Let_def split: if_splits)
  with assms(4) show ?thesis by auto
next
  case (Some k)
  then have k: "k < length (cf_CampusAccounts cfg)" by (auto simp: indexOfCampus_def indexOf_Some campusIDs_def)
  have c': "cf_CampusAccounts cfg' = (cf_CampusAccounts cfg)[k := CampusPatch_applyTo p (cf_CampusAccounts cfg ! k)]"
    using assms(1) Some by (auto simp: UpsertCampus_def)
  show ?thesis
  proof (cases "a = cf_CampusAccounts cfg ! k")
    case True
    let ?b = "CampusPatch_applyTo p (cf_CampusAccounts cfg ! k)"
    have "?b \<in> set (cf_CampusAccounts cfg')" unfolding c' using k by (rule set_update_memI)
    moreover have "ca_Password ?b = ca_Password a \<and> ca_Key ?b = ca_Key a"
      using True assms(2,3) by (simp add: CampusPatch_applyTo_def assign_def)
    ultimately show ?thesis using True by (metis applyTo_ID(1))
  next
    case False
    then show ?thesis unfolding c' using keep_update [OF assms(4)] by blast
  qed
qed

text \<open>
  An edit touches what it names and nothing else. Every successful edit keeps account and hotspot
  ids unique (a new entry gets an id nobody has, even when the counter wraps), leaves every entry it
  does not name as it was, and an account dialog that does not submit a password or a key keeps both.
\<close>

theorem edits_touch_only_their_target:
  assumes "edit bits e cfg = Inr cfg'" and "32 \<le> bits" and "distinct (campusIDs cfg)" and "distinct (hotspotIDs cfg)"
  shows "distinct (campusIDs cfg') \<and> distinct (hotspotIDs cfg') \<and>
    (\<forall>a \<in> set (cf_CampusAccounts cfg). campus_target e \<noteq> Some (ca_ID a) \<longrightarrow> a \<in> set (cf_CampusAccounts cfg')) \<and>
    (\<forall>h \<in> set (cf_HotspotProfiles cfg). hotspot_target e \<noteq> Some (hp_ID h) \<longrightarrow> h \<in> set (cf_HotspotProfiles cfg')) \<and>
    (\<forall>p a. e = EditCampus p \<and> cp_Password p = None \<and> cp_Key p = None \<and> a \<in> set (cf_CampusAccounts cfg) \<longrightarrow>
       (\<exists>b \<in> set (cf_CampusAccounts cfg'). ca_ID b = ca_ID a \<and> ca_Password b = ca_Password a \<and> ca_Key b = ca_Key a))"
  using campus_edit [OF assms(1-3)] hotspot_edit [OF assms(1,2,4)] secrets_kept assms(1) by blast

definition empty_patch :: CampusPatch where
  "empty_patch = \<lparr>cp_ID = [], cp_Label = None, cp_UserID = None, cp_Password = None, cp_Operator = None,
     cp_OperatorSuffix = None, cp_AccessMode = None, cp_BaseURL = None, cp_ACID = None, cp_PresetID = None,
     cp_WiredIface = None, cp_AuthEnabled = None, cp_SSID = None, cp_Radio = None, cp_Encryption = None,
     cp_Key = None, cp_APSelection = None, cp_BSSID = None, cp_Login = None\<rparr>"

theorem edits_touch_only_their_target_witness:
  "\<exists>cfg'. edit 64 (EditCampus empty_patch) dangling = Inr cfg' \<and> distinct (campusIDs cfg') \<and>
     zero_campus\<lparr>ca_ID := ''c3''\<rparr> \<in> set (cf_CampusAccounts cfg')"
proof -
  have n: "indexOfCampus dangling [] = None" by (simp add: indexOfCampus_def indexOf_def)
  then obtain cfg' where e: "edit 64 (EditCampus empty_patch) dangling = Inr cfg'"
    by (simp add: UpsertCampus_def empty_patch_def MaxCampusAccounts_def dangling_def Let_def)
  have "distinct (campusIDs dangling)" "distinct (hotspotIDs dangling)"
    by (simp_all add: campusIDs_def hotspotIDs_def dangling_def Defaults_def)
  from edits_touch_only_their_target [OF e _ this] e
  show ?thesis by (simp add: dangling_def empty_patch_def)
qed

text \<open>
  Reading the settings half and writing it back changes nothing, for a configuration in canonical form;
  writing any settings never touches accounts, hotspots or the selection.
\<close>

lemma settings_round_trip:
  "TrimSpace (cf_School cfg) = cf_School cfg \<Longrightarrow> ApplySettings (SettingsOf cfg) cfg = Inr cfg"
  by (simp add: ApplySettings_def SettingsOf_def Let_def)

end
