(* ===== verification/Config_Repository.thy ===== *)
theory Config_Repository
  imports Config_Mutations
begin

text \<open>
  The configuration file and its single writer: \<open>config/store.go\<close> and \<open>config/repository.go\<close>. What may
  fail outside the program is an argument: \<open>fault\<close> says which step of a write fails, \<open>short\<close> how many
  bytes a failing write leaves in the temporary file. \<open>marshal\<close> and \<open>decode\<close> stand for
  \<open>json.MarshalIndent\<close> and the strict decoder; the properties that read a file back assume of them
  that decoding what was marshalled gives the same configuration (\<open>json_faithful\<close>). Copies
  (\<open>CloneConfig\<close>) are values here. The mutex makes each operation one step.
\<close>

subsection \<open>Atomic replacement\<close>

datatype Stage = StMkdir | StCreateTemp | StChmod | StWrite | StAfterWrite | StSync | StAfterSync | StClose
  | StBeforeRename | StRename | StAfterRename | StSyncDir | StRemoveTemp

datatype commit = commitNone | commitVisible | commitDurable

definition visible_commit :: "commit \<Rightarrow> bool" where
  "visible_commit c = (c \<noteq> commitNone)"

record Disk =
  dk_target :: "string option"
  dk_temps :: "string list"

definition write_error :: gerror where
  "write_error = Errorf CodeInvalidConfig"

text \<open>The deferred cleanup: the temporary file goes, unless removing it fails too.\<close>

definition abandon :: "(Stage \<Rightarrow> bool) \<Rightarrow> string \<Rightarrow> Disk \<Rightarrow> Disk \<times> commit \<times> gerror option" where
  "abandon fault temp d =
     (if fault StRemoveTemp then d\<lparr>dk_temps := dk_temps d @ [temp]\<rparr> else d, commitNone, Some write_error)"

definition writeAtomic :: "(Stage \<Rightarrow> bool) \<Rightarrow> nat \<Rightarrow> string \<Rightarrow> Disk \<Rightarrow> Disk \<times> commit \<times> gerror option" where
  "writeAtomic fault short data d =
     (if fault StMkdir then (d, commitNone, Some write_error)
      else if fault StCreateTemp then (d, commitNone, Some write_error)
      else if fault StChmod then abandon fault [] d
      else if fault StWrite then abandon fault (take short data) d
      else if fault StAfterWrite then abandon fault data d
      else if fault StSync then abandon fault data d
      else if fault StAfterSync then abandon fault data d
      else if fault StClose then abandon fault data d
      else if fault StBeforeRename then abandon fault data d
      else if fault StRename then abandon fault data d
      else
        let d = d\<lparr>dk_target := Some data\<rparr> in
        if fault StAfterRename then (d, commitVisible, Some write_error)
        else if fault StSyncDir then (d, commitVisible, Some write_error)
        else (d, commitDurable, None))"

lemma writeAtomic_target:
  "writeAtomic fault short data d = (d', c, e) \<Longrightarrow>
     dk_target d' = (if visible_commit c then Some data else dk_target d) \<and> (e = None \<longleftrightarrow> c = commitDurable)"
  by (auto simp: writeAtomic_def abandon_def visible_commit_def Let_def split: if_splits)

subsection \<open>The repository\<close>

record Repository =
  rp_current :: Config
  rp_persisted :: bool

definition Parse :: "CaseTables \<Rightarrow> Registry \<Rightarrow> (string \<Rightarrow> gerror list + Config) \<Rightarrow> string \<Rightarrow> gerror list + Config" where
  "Parse tables reg decode data =
     (case decode data of
        Inl e \<Rightarrow> Inl e
      | Inr cfg \<Rightarrow>
          let cfg = Normalize tables reg cfg in
          if Validate tables cfg \<noteq> [] then Inl (Validate tables cfg) else Inr cfg)"

text \<open>\<open>LoadFile\<close> and \<open>Open\<close>: a missing file starts from the defaults, an unreadable one is an error.\<close>

definition Open :: "CaseTables \<Rightarrow> Registry \<Rightarrow> (string \<Rightarrow> gerror list + Config) \<Rightarrow> Disk \<Rightarrow> gerror list + Repository" where
  "Open tables reg decode d =
     (case dk_target d of
        None \<Rightarrow> Inr \<lparr>rp_current = Normalize tables reg Defaults, rp_persisted = False\<rparr>
      | Some data \<Rightarrow>
          (case Parse tables reg decode data of
             Inl e \<Rightarrow> Inl e
           | Inr cfg \<Rightarrow> Inr \<lparr>rp_current = cfg, rp_persisted = True\<rparr>))"

definition maxRevision :: nat where "maxRevision = 2 ^ 64 - 1"

text \<open>The candidate a change produces, before validation.\<close>

definition next_config :: "CaseTables \<Rightarrow> Registry \<Rightarrow> Config \<Rightarrow> Config \<Rightarrow> Config" where
  "next_config tables reg current edited =
     (RepairSelection (Normalize tables reg (edited\<lparr>cf_SchemaVersion := ConfigSchemaVersion\<rparr>)))\<lparr>cf_Revision := cf_Revision current + 1\<rparr>"

definition Update :: "CaseTables \<Rightarrow> Registry \<Rightarrow> (Config \<Rightarrow> gerror + string) \<Rightarrow> (Stage \<Rightarrow> bool) \<Rightarrow> nat \<Rightarrow>
    nat \<Rightarrow> Change option \<Rightarrow> Repository \<times> Disk \<Rightarrow> (Repository \<times> Disk) \<times> (gerror list + Config)" where
  "Update tables reg marshal fault short expectedRevision change state =
     (let (r, d) = state in
      case change of
        None \<Rightarrow> (state, Inl [Errorf CodeInvalidArgument])
      | Some f \<Rightarrow>
          if expectedRevision \<noteq> cf_Revision (rp_current r) then (state, Inl [FieldErrorf CodeConflict ''revision''])
          else if cf_Revision (rp_current r) = maxRevision then (state, Inl [Errorf CodeConflict])
          else
            case f (rp_current r) of
              Inl e \<Rightarrow> (state, Inl e)
            | Inr edited \<Rightarrow>
                let nxt = next_config tables reg (rp_current r) edited in
                if Validate tables nxt \<noteq> [] then (state, Inl (Validate tables nxt))
                else
                  case marshal nxt of
                    Inl e \<Rightarrow> (state, Inl [e])
                  | Inr data \<Rightarrow>
                      let (d', c, e) = writeAtomic fault short data d;
                          r' = (if visible_commit c then \<lparr>rp_current = nxt, rp_persisted = True\<rparr> else r)
                      in case e of Some err \<Rightarrow> ((r', d'), Inl [err]) | None \<Rightarrow> ((r', d'), Inr nxt))"

subsection \<open>The stored configuration is canonical and valid\<close>

definition stored_ok :: "CaseTables \<Rightarrow> Registry \<Rightarrow> Config \<Rightarrow> bool" where
  "stored_ok tables reg cfg \<longleftrightarrow> Normalize tables reg cfg = cfg \<and> Validate tables cfg = []"

lemma normal_selection:
  assumes "Normalize tables reg cfg = cfg"
    and "TrimSpace (sel_ActiveCampusID s) = sel_ActiveCampusID s" "TrimSpace (sel_DefaultCampusID s) = sel_DefaultCampusID s"
      "TrimSpace (sel_ActiveHotspotID s) = sel_ActiveHotspotID s" "TrimSpace (sel_DefaultHotspotID s) = sel_DefaultHotspotID s"
  shows "Normalize tables reg (cfg\<lparr>cf_Selection := s, cf_Revision := r\<rparr>) = cfg\<lparr>cf_Selection := s, cf_Revision := r\<rparr>"
proof -
  have "Normalize tables reg (cfg\<lparr>cf_Selection := s, cf_Revision := r\<rparr>) = (Normalize tables reg cfg)\<lparr>cf_Selection := s, cf_Revision := r\<rparr>"
    using assms(2-5) by (simp add: Normalize_def Let_def)
  then show ?thesis using assms(1) by simp
qed

lemma trimmed_choice:
  assumes "\<forall>c \<in> set (i # fs). TrimSpace c = c"
  shows "TrimSpace (repairPointer i known fs) = repairPointer i known fs"
proof (cases "repairPointer i known fs = []")
  case False
  then have "repairPointer i known fs \<in> set (i # fs)" using repair_choice by blast
  with assms show ?thesis by blast
qed simp

lemma first_trimmed: "\<forall>c \<in> set ids. TrimSpace c = c \<Longrightarrow> TrimSpace (first_of ids) = first_of ids"
  by (cases ids) (simp_all add: first_of_def)

lemma next_config_normal:
  assumes "case_laws tables"
  shows "Normalize tables reg (next_config tables reg current edited) = next_config tables reg current edited"
proof -
  define n where "n = Normalize tables reg (edited\<lparr>cf_SchemaVersion := ConfigSchemaVersion\<rparr>)"
  have n: "Normalize tables reg n = n" unfolding n_def by (rule Normalize_idem [OF assms])
  have sel: "TrimSpace (sel_ActiveCampusID (cf_Selection n)) = sel_ActiveCampusID (cf_Selection n)"
    "TrimSpace (sel_DefaultCampusID (cf_Selection n)) = sel_DefaultCampusID (cf_Selection n)"
    "TrimSpace (sel_ActiveHotspotID (cf_Selection n)) = sel_ActiveHotspotID (cf_Selection n)"
    "TrimSpace (sel_DefaultHotspotID (cf_Selection n)) = sel_DefaultHotspotID (cf_Selection n)"
    by (simp_all add: n_def Normalize_def Let_def)
  have ids: "\<forall>i \<in> set (campusIDs n). TrimSpace i = i" "\<forall>i \<in> set (hotspotIDs n). TrimSpace i = i"
    by (auto simp: n_def Normalize_def Let_def campusIDs_def hotspotIDs_def NormalizeCampusAccount_def NormalizeHotspot_def IsWired_def)
  define s where "s = cf_Selection (RepairSelection n)"
  have s1: "RepairSelection n = n\<lparr>cf_Selection := s\<rparr>" by (simp add: s_def RepairSelection_def Let_def)
  have s: "TrimSpace (sel_ActiveCampusID s) = sel_ActiveCampusID s" "TrimSpace (sel_DefaultCampusID s) = sel_DefaultCampusID s"
    "TrimSpace (sel_ActiveHotspotID s) = sel_ActiveHotspotID s" "TrimSpace (sel_DefaultHotspotID s) = sel_DefaultHotspotID s"
    by (simp_all add: s_def RepairSelection_def Let_def trimmed_choice sel first_trimmed [OF ids(1)] first_trimmed [OF ids(2)])
  show ?thesis
    unfolding next_config_def n_def [symmetric] s1 by (rule normal_selection [OF n s])
qed

subsection \<open>Memory and file agree\<close>

text \<open>
  \<open>clean\<close> marks the configurations whose text JSON carries without change (valid UTF-8 throughout);
  every configuration that arrives as JSON is one.
\<close>

definition json_faithful :: "(Config \<Rightarrow> bool) \<Rightarrow> (Config \<Rightarrow> gerror + string) \<Rightarrow> (string \<Rightarrow> gerror list + Config) \<Rightarrow> bool" where
  "json_faithful clean marshal decode \<longleftrightarrow> (\<forall>cfg data. clean cfg \<and> marshal cfg = Inr data \<longrightarrow> decode data = Inr cfg)"

definition agree :: "CaseTables \<Rightarrow> Registry \<Rightarrow> (string \<Rightarrow> gerror list + Config) \<Rightarrow> Repository \<times> Disk \<Rightarrow> bool" where
  "agree tables reg decode state \<longleftrightarrow> Open tables reg decode (snd state) = Inr (fst state)"

inductive update_step :: "CaseTables \<Rightarrow> Registry \<Rightarrow> (Config \<Rightarrow> bool) \<Rightarrow> (Config \<Rightarrow> gerror + string) \<Rightarrow>
    Repository \<times> Disk \<Rightarrow> Repository \<times> Disk \<Rightarrow> bool"
  for tables reg clean marshal where
  "Update tables reg marshal fault short expected change s = (t, result) \<Longrightarrow> clean (rp_current (fst t)) \<Longrightarrow>
     update_step tables reg clean marshal s t"

lemma Parse_marshalled:
  assumes "json_faithful clean marshal decode" and "clean cfg" and "marshal cfg = Inr data" and "stored_ok tables reg cfg"
  shows "Parse tables reg decode data = Inr cfg"
  using assms by (simp add: Parse_def json_faithful_def stored_ok_def)

text \<open>The outcome of an update, with everything that can stop it folded into one case distinction.\<close>

lemma Update_cases:
  assumes "Update tables reg marshal fault short expected change (r, d) = ((r', d'), result)"
  obtains
    (unchanged) "r' = r" "dk_target d' = dk_target d" "\<exists>e. result = Inl e"
  | (written) f edited data where "change = Some f" "expected = cf_Revision (rp_current r)"
      "cf_Revision (rp_current r) \<noteq> maxRevision" "f (rp_current r) = Inr edited"
      "Validate tables (next_config tables reg (rp_current r) edited) = []"
      "marshal (next_config tables reg (rp_current r) edited) = Inr data"
      "r' = \<lparr>rp_current = next_config tables reg (rp_current r) edited, rp_persisted = True\<rparr>" "dk_target d' = Some data"
      "result = Inr (next_config tables reg (rp_current r) edited) \<or> result = Inl [write_error]"
proof (cases "\<exists>f edited data. change = Some f \<and> expected = cf_Revision (rp_current r) \<and> cf_Revision (rp_current r) \<noteq> maxRevision \<and>
    f (rp_current r) = Inr edited \<and> Validate tables (next_config tables reg (rp_current r) edited) = [] \<and>
    marshal (next_config tables reg (rp_current r) edited) = Inr data")
  case False
  have "r' = r \<and> d' = d \<and> (\<exists>e. result = Inl e)"
  proof (cases change)
    case None
    then show ?thesis using assms by (auto simp: Update_def)
  next
    case (Some f)
    show ?thesis
    proof (cases "f (rp_current r)")
      case (Inl e)
      then show ?thesis using assms Some by (auto simp: Update_def split: if_splits dest: sym)
    next
      case (Inr edited)
      let ?n = "next_config tables reg (rp_current r) edited"
      show ?thesis
      proof (cases "marshal ?n")
        case (Inl e)
        then show ?thesis using assms Some Inr by (auto simp: Update_def Let_def split: if_splits)
      next
        case (Inr data)
        then have "expected \<noteq> cf_Revision (rp_current r) \<or> cf_Revision (rp_current r) = maxRevision \<or> Validate tables ?n \<noteq> []"
          using False Some \<open>f (rp_current r) = Inr edited\<close> by blast
        then show ?thesis using assms Some \<open>f (rp_current r) = Inr edited\<close> by (auto simp: Update_def Let_def split: if_splits)
      qed
    qed
  qed
  then show thesis using unchanged by simp
next
  case True
  then obtain f edited data where g: "change = Some f" "expected = cf_Revision (rp_current r)"
      "cf_Revision (rp_current r) \<noteq> maxRevision" "f (rp_current r) = Inr edited"
      "Validate tables (next_config tables reg (rp_current r) edited) = []"
      "marshal (next_config tables reg (rp_current r) edited) = Inr data" by blast
  obtain d1 c e where w: "writeAtomic fault short data d = (d1, c, e)" using prod_cases3 by blast
  note t = writeAtomic_target [OF w]
  have e: "e = None \<or> e = Some write_error"
    using w by (auto simp: writeAtomic_def abandon_def Let_def split: if_splits)
  have res: "d' = d1" "r' = (if visible_commit c then \<lparr>rp_current = next_config tables reg (rp_current r) edited, rp_persisted = True\<rparr> else r)"
    "result = (case e of Some err \<Rightarrow> Inl [err] | None \<Rightarrow> Inr (next_config tables reg (rp_current r) edited))"
    using assms g w by (auto simp: Update_def Let_def split: option.splits)
  show thesis
  proof (cases "visible_commit c")
    case True
    show thesis by (rule written [OF g]) (use True res t e in \<open>auto split: option.splits\<close>)
  next
    case False
    then have "c \<noteq> commitDurable" by (simp add: visible_commit_def)
    with t e have "e = Some write_error" by auto
    then show thesis by (intro unchanged) (use False res t in auto)
  qed
qed

lemma agree_step:
  assumes "case_laws tables" and "json_faithful clean marshal decode"
    and "agree tables reg decode s" and "update_step tables reg clean marshal s t"
  shows "agree tables reg decode t"
proof -
  obtain r d r' d' where st: "s = (r, d)" "t = (r', d')" by (metis surj_pair)
  from assms(4) obtain fault short expected change result
    where u: "Update tables reg marshal fault short expected change (r, d) = ((r', d'), result)" and clean: "clean (rp_current r')"
    by cases (auto simp: st)
  from u show ?thesis
  proof (cases rule: Update_cases)
    case unchanged
    with assms(3) show ?thesis by (simp add: agree_def st Open_def)
  next
    case (written f edited data)
    let ?n = "next_config tables reg (rp_current r) edited"
    have "stored_ok tables reg ?n" using written(5) next_config_normal [OF assms(1)] by (simp add: stored_ok_def)
    then have "Parse tables reg decode data = Inr ?n"
      using Parse_marshalled [OF assms(2)] clean written(6,7) by simp
    with written(7,8) show ?thesis by (simp add: agree_def st Open_def)
  qed
qed


lemma next_revision: "cf_Revision (next_config tables reg c e) = cf_Revision c + 1"
  by (simp add: next_config_def)

text \<open>
  C12: updates are compare-and-set. An update succeeds only for the writer that read the current revision;
  it stores a valid, canonical configuration with the next revision, in memory and on disk. A failed
  update either changed nothing, neither memory nor file, or put the new configuration in both. And
  once the revision has moved on, a second writer with the old one is refused and changes nothing.
\<close>

theorem update_compare_and_set:
  assumes "case_laws tables" and "Update tables reg marshal fault short expected change (r, d) = ((r', d'), result)"
  shows "(\<forall>cfg. result = Inr cfg \<longrightarrow> expected = cf_Revision (rp_current r) \<and> cf_Revision cfg = expected + 1 \<and>
       rp_current r' = cfg \<and> rp_persisted r' \<and> stored_ok tables reg cfg \<and>
       (\<exists>data. marshal cfg = Inr data \<and> dk_target d' = Some data)) \<and>
    (\<forall>e. result = Inl e \<longrightarrow> (r' = r \<and> dk_target d' = dk_target d) \<or>
       (cf_Revision (rp_current r') = expected + 1 \<and> stored_ok tables reg (rp_current r') \<and>
        (\<exists>data. marshal (rp_current r') = Inr data \<and> dk_target d' = Some data))) \<and>
    (cf_Revision (rp_current r') \<noteq> expected \<longrightarrow>
       (\<forall>fault' short' f. Update tables reg marshal fault' short' expected (Some f) (r', d') =
          ((r', d'), Inl [FieldErrorf CodeConflict ''revision''])))"
proof -
  have "(\<forall>cfg. result = Inr cfg \<longrightarrow> expected = cf_Revision (rp_current r) \<and> cf_Revision cfg = expected + 1 \<and>
       rp_current r' = cfg \<and> rp_persisted r' \<and> stored_ok tables reg cfg \<and>
       (\<exists>data. marshal cfg = Inr data \<and> dk_target d' = Some data)) \<and>
    (\<forall>e. result = Inl e \<longrightarrow> (r' = r \<and> dk_target d' = dk_target d) \<or>
       (cf_Revision (rp_current r') = expected + 1 \<and> stored_ok tables reg (rp_current r') \<and>
        (\<exists>data. marshal (rp_current r') = Inr data \<and> dk_target d' = Some data)))"
    using assms(2)
  proof (cases rule: Update_cases)
    case unchanged
    then show ?thesis by auto
  next
    case (written f edited data)
    then show ?thesis
      using next_config_normal [OF assms(1), of reg "rp_current r" edited] next_revision [of tables reg "rp_current r" edited]
      by (auto simp: stored_ok_def)
  qed
  moreover have "Update tables reg marshal fault' short' expected (Some f) (r', d') = ((r', d'), Inl [FieldErrorf CodeConflict ''revision''])"
    if "cf_Revision (rp_current r') \<noteq> expected" for fault' short' f
    using that by (simp add: Update_def)
  ultimately show ?thesis by blast
qed

subsection \<open>Instances\<close>

definition no_fault :: "Stage \<Rightarrow> bool" where "no_fault s = False"

definition toy_marshal :: "Config \<Rightarrow> gerror + string" where "toy_marshal cfg = Inr (FormatUint (cf_Revision cfg))"

definition empty_disk :: Disk where "empty_disk = \<lparr>dk_target = None, dk_temps = []\<rparr>"

definition fresh_repository :: Repository where
  "fresh_repository = \<lparr>rp_current = Normalize ascii_tables NewRegistry Defaults, rp_persisted = False\<rparr>"

lemma Defaults_normal: "Normalize ascii_tables NewRegistry Defaults = Defaults"
proof -
  have "ToLower ascii_tables (TrimSpace CheckInternet) = CheckInternet" by (rule fold_word) (simp_all add: CheckInternet_def)
  moreover have "TrimSpace ''INFO'' = ''INFO''" by (rule TrimSpace_visible) (simp add: visible_def)
  moreover have "ToUpper ascii_tables ''INFO'' = ''INFO''" by (simp add: ToUpper_def ascii_def upper_char_def)
  moreover have "DefaultSchool \<noteq> []" by (simp add: DefaultSchool_def)
  ultimately show ?thesis
    by (simp add: Normalize_def Let_def Defaults_def FilterSchoolExtra_def school_trim)
qed

lemma Defaults_valid: "Validate ascii_tables Defaults = []"
  unfolding Validate_Nil
  by (simp add: config_ok_def Defaults_def DefaultSchool_def defaults_ok_def retry_ok_def checks_ok_def Level_Valid_def
      LogLevels_def CheckMode_Valid_def selection_ok_def pointer_ok_def ManagedWiredAccounts_def MaxNameBytes_def
      MaxCooldownSeconds_def)

lemma config_ok_revision: "config_ok tables (cfg\<lparr>cf_Revision := n\<rparr>) = config_ok tables cfg"
  by (simp add: config_ok_def selection_ok_def ManagedWiredAccounts_def)

lemma sample_update:
  "Update ascii_tables NewRegistry toy_marshal no_fault 0 0 (Some Inr) (fresh_repository, empty_disk) =
     ((\<lparr>rp_current = Defaults\<lparr>cf_Revision := 1\<rparr>, rp_persisted = True\<rparr>, empty_disk\<lparr>dk_target := Some ''1''\<rparr>),
      Inr (Defaults\<lparr>cf_Revision := 1\<rparr>))"
proof -
  have v: "Defaults\<lparr>cf_SchemaVersion := ConfigSchemaVersion\<rparr> = Defaults" by (simp add: Defaults_def)
  have "RepairSelection Defaults = Defaults"
    by (simp add: RepairSelection_def Let_def Defaults_def campusIDs_def hotspotIDs_def first_of_def repairPointer_def)
  then have n: "next_config ascii_tables NewRegistry Defaults Defaults = Defaults\<lparr>cf_Revision := 1\<rparr>"
    unfolding next_config_def v Defaults_normal by (simp add: Defaults_def)
  have "Validate ascii_tables (Defaults\<lparr>cf_Revision := 1\<rparr>) = []"
    using Defaults_valid unfolding Validate_Nil config_ok_revision .
  moreover have "cf_Revision Defaults = 0" by (simp add: Defaults_def)
  ultimately show ?thesis
    by (simp add: Update_def fresh_repository_def Defaults_normal n maxRevision_def toy_marshal_def writeAtomic_def no_fault_def
        visible_commit_def FormatUint.simps Let_def)
qed

theorem update_compare_and_set_witness:
  "\<exists>r' d' cfg. Update ascii_tables NewRegistry toy_marshal no_fault 0 0 (Some Inr) (fresh_repository, empty_disk) = ((r', d'), Inr cfg) \<and>
     cf_Revision cfg = 1 \<and> stored_ok ascii_tables NewRegistry cfg \<and>
     Update ascii_tables NewRegistry toy_marshal no_fault 0 0 (Some Inr) (r', d') = ((r', d'), Inl [FieldErrorf CodeConflict ''revision''])"
proof -
  from update_compare_and_set [OF ascii_tables_laws sample_update]
  have "stored_ok ascii_tables NewRegistry (Defaults\<lparr>cf_Revision := 1\<rparr>)"
    and "Update ascii_tables NewRegistry toy_marshal no_fault 0 0 (Some Inr)
       (\<lparr>rp_current = Defaults\<lparr>cf_Revision := 1\<rparr>, rp_persisted = True\<rparr>, empty_disk\<lparr>dk_target := Some ''1''\<rparr>) =
       ((\<lparr>rp_current = Defaults\<lparr>cf_Revision := 1\<rparr>, rp_persisted = True\<rparr>, empty_disk\<lparr>dk_target := Some ''1''\<rparr>),
        Inl [FieldErrorf CodeConflict ''revision''])"
    by simp_all
  with sample_update show ?thesis by fastforce
qed

definition toy_decode :: "string \<Rightarrow> gerror list + Config" where
  "toy_decode data = Inr (Defaults\<lparr>cf_Revision := parse_dec data\<rparr>)"

definition only_revision :: "Config \<Rightarrow> bool" where
  "only_revision cfg \<longleftrightarrow> cfg = Defaults\<lparr>cf_Revision := cf_Revision cfg\<rparr>"


end
