(* ===== verification/Maintain_Model.thy ===== *)
theory Maintain_Model
  imports Policy_Managed Policy_Pause Policy_Retry Action_Model
begin

text \<open>
  The loop that decides when to authenticate: \<open>application/maintain.go\<close>, its mailbox of finished
  actions \<open>application/maintenance_results.go\<close>, and the scheduled move to the hotspot and back
  \<open>application/quiet_schedule.go\<close>.

  The loop is a single writer, so every operation is a function on one state. The three callbacks of
  \<open>MaintainerOptions\<close> are the fields of \<open>MaintEnv\<close>; \<open>submit\<close> is another component's stateful
  operation, so it acts on a state of its own, \<open>mt_coord\<close>, of any type. What the callbacks were
  handed is recorded: \<open>mt_sent\<close> are the submitted requests, \<open>mt_events\<close> the emitted events (their
  Chinese message is determined by the kind and the pause set and is left out). A settings snapshot
  and the clock reading are arguments of the operation that takes them. \<open>mt_results\<close> and
  \<open>mt_accounts\<close> are Go maps. The atomic counters \<open>keys\<close> and \<open>resultOrder\<close> are unbounded: a \<open>uint64\<close>
  that grows by one per submission does not wrap within the life of a device.

  \<open>Sweep.Succeeded\<close> writes to a map that is nil in the zero value, which would panic; an operation
  that reaches it returns \<^const>\<open>None\<close> for the panic.
\<close>

subsection \<open>State\<close>

record accountState =
  as_failures :: int
  as_dueAt :: instant
  as_inFlight :: string
  as_sweepAction :: string
  as_sweepDueAt :: instant

definition zero_account :: accountState where
  "zero_account = \<lparr>as_failures = 0, as_dueAt = 0, as_inFlight = [], as_sweepAction = [], as_sweepDueAt = 0\<rparr>"

record quietSwitchState =
  qw_occurrence :: string
  qw_hotspotID :: string
  qw_inFlight :: string
  qw_done :: bool
  qw_owned :: bool
  qw_dueAt :: instant

definition zero_quiet_switch :: quietSwitchState where
  "zero_quiet_switch = \<lparr>qw_occurrence = [], qw_hotspotID = [], qw_inFlight = [], qw_done = False,
     qw_owned = False, qw_dueAt = 0\<rparr>"

record maintenanceResult =
  mr_action :: Action
  mr_order :: nat

datatype EventKind =
    EventPauseChanged | EventLineConflict | EventMaintainQueued | EventSweepQueued | EventBackoff
  | EventRoundCooldown

record MaintenanceEvent =
  me_Kind :: EventKind
  me_AccountID :: string
  me_Conflicts :: "LineConflict list"
  me_Pause :: PauseSet
  me_At :: instant

record 'c Maintainer =
  mt_results :: "maintenanceResult gomap"
  mt_resultOrder :: nat
  mt_resultReady :: bool
  mt_changes :: bool
  mt_started :: bool
  mt_keys :: nat
  mt_pause :: PauseSet
  mt_sweep :: Sweep
  mt_accounts :: "accountState gomap"
  mt_reported :: string
  mt_occurrence :: string
  mt_revision :: nat
  mt_quietSwitch :: quietSwitchState
  mt_coord :: 'c
  mt_sent :: "Request list"
  mt_events :: "MaintenanceEvent list"

record 'c MaintEnv =
  mo_submit :: "Request \<Rightarrow> 'c \<Rightarrow> 'c \<times> (gerror + Receipt)"
  mo_line :: "Request \<Rightarrow> string"
  mo_manuallyPaused :: "Config \<Rightarrow> string \<Rightarrow> bool"

definition zero_request :: Request where
  "zero_request = \<lparr>r_Kind = KindUnknown [], r_AccountID = [], r_HotspotID = [], r_Interface = [],
     r_ProbeURL = [], r_ProbeSSID = [], r_ProbeMode = [], r_ProbeSchool = [], r_ProbeACID = [], r_Owner = [],
     r_SetupJob = [], r_PrivateJSON = [], r_privateDigest = [], r_IdempotencyKey = [],
     r_IgnoreQuiet = False, r_CheckRevision = False, r_ConfigRevision = 0\<rparr>"

subsection \<open>Small steps\<close>

definition emit :: "MaintenanceEvent \<Rightarrow> 'c Maintainer \<Rightarrow> 'c Maintainer" where
  "emit event m = m\<lparr>mt_events := mt_events m @ [event]\<rparr>"

definition event_of :: "EventKind \<Rightarrow> string \<Rightarrow> instant \<Rightarrow> MaintenanceEvent" where
  "event_of kind accountID now =
     \<lparr>me_Kind = kind, me_AccountID = accountID, me_Conflicts = [], me_Pause = 0, me_At = now\<rparr>"

text \<open>
  \<open>stateFor\<close> returns a pointer into the map. \<open>account_of\<close> reads through it, \<open>set_account\<close> writes
  through it, and \<open>stateFor\<close> itself is the insertion of a fresh state for an unknown account.
\<close>

definition account_of :: "string \<Rightarrow> 'c Maintainer \<Rightarrow> accountState" where
  "account_of i m = (case map_of (mt_accounts m) i of None \<Rightarrow> zero_account | Some s \<Rightarrow> s)"

definition set_account :: "string \<Rightarrow> accountState \<Rightarrow> 'c Maintainer \<Rightarrow> 'c Maintainer" where
  "set_account i s m = m\<lparr>mt_accounts := AList.update i s (mt_accounts m)\<rparr>"

definition stateFor :: "string \<Rightarrow> 'c Maintainer \<Rightarrow> accountState \<times> 'c Maintainer" where
  "stateFor accountID m =
     (case map_of (mt_accounts m) accountID of
        Some state \<Rightarrow> (state, m)
      | None \<Rightarrow> (zero_account, set_account accountID zero_account m))"

definition fresh_key :: "string \<Rightarrow> string \<Rightarrow> 'c Maintainer \<Rightarrow> string \<times> 'c Maintainer" where
  "fresh_key pre accountID m =
     (let n = mt_keys m + 1
      in (pre @ '':'' @ accountID @ '':'' @ formatID n, m\<lparr>mt_keys := n\<rparr>))"

definition call_submit :: "'c MaintEnv \<Rightarrow> Request \<Rightarrow> 'c Maintainer \<Rightarrow> 'c Maintainer \<times> (gerror + Receipt)" where
  "call_submit env request m =
     (let (c, answer) = mo_submit env request (mt_coord m)
      in (m\<lparr>mt_coord := c, mt_sent := mt_sent m @ [request]\<rparr>, answer))"

definition checkInterval :: "Config \<Rightarrow> duration" where
  "checkInterval cfg =
     (let seconds = ch_IntervalSeconds (cf_Checks cfg);
          seconds = (if seconds \<le> 0 then 60 else seconds)
      in seconds * second)"

subsection \<open>Ordinary maintenance\<close>

definition queue_request :: "'c MaintEnv \<Rightarrow> Request \<Rightarrow> EventKind \<Rightarrow> instant \<Rightarrow> 'c Maintainer \<Rightarrow> 'c Maintainer" where
  "queue_request env request kind now m =
     (case call_submit env request m of
        (m, Inl err) \<Rightarrow> m
      | (m, Inr receipt) \<Rightarrow>
          let i = r_AccountID request
          in emit (event_of kind i now)
               (set_account i ((account_of i m)\<lparr>as_inFlight := rc_ActionID receipt\<rparr>) m))"

definition conflict_signature :: "LineConflict list \<Rightarrow> string" where
  "conflict_signature conflicts =
     concat (map (\<lambda>c. lc_Line c @ '':'' @ concat (map (\<lambda>i. i @ '','') (lc_AccountIDs c)) @ '';'') conflicts)"

definition reportConflicts ::
    "'c MaintEnv \<Rightarrow> Target list \<Rightarrow> instant \<Rightarrow> 'c Maintainer \<Rightarrow> string list \<times> 'c Maintainer" where
  "reportConflicts env targets now m =
     (let conflicts = Conflicts targets
            (\<lambda>t. mo_line env (zero_request\<lparr>r_Kind := KindMaintain, r_AccountID := tg_AccountID t\<rparr>));
          blocked = concat (map lc_AccountIDs conflicts);
          signature = conflict_signature conflicts;
          m = (if signature \<noteq> mt_reported m then
                 let m = m\<lparr>mt_reported := signature\<rparr>
                 in if conflicts \<noteq> [] then
                      emit \<lparr>me_Kind = EventLineConflict, me_AccountID = [], me_Conflicts = conflicts,
                        me_Pause = 0, me_At = now\<rparr> m
                    else m
               else m)
      in (blocked, m))"

definition maintain_request :: "Config \<Rightarrow> string \<Rightarrow> string \<Rightarrow> Request" where
  "maintain_request cfg accountID key = zero_request\<lparr>r_Kind := KindMaintain, r_CheckRevision := True,
     r_ConfigRevision := cf_Revision cfg, r_AccountID := accountID, r_IdempotencyKey := key\<rparr>"

definition maintain_target ::
    "'c MaintEnv \<Rightarrow> Config \<Rightarrow> instant \<Rightarrow> string list \<Rightarrow> Target \<Rightarrow> 'c Maintainer \<Rightarrow> 'c Maintainer" where
  "maintain_target env cfg now blocked target m =
     (let i = tg_AccountID target in
      if mo_manuallyPaused env cfg i then m
      else if i = sel_ActiveCampusID (cf_Selection cfg) \<and> qw_owned (mt_quietSwitch m) then m
      else if i \<in> set blocked then m
      else
        let (state, m) = stateFor i m in
        if as_inFlight state \<noteq> [] \<or> now < as_dueAt state then m
        else
          let (key, m) = fresh_key ''maintain'' i m
          in queue_request env (maintain_request cfg i key) EventMaintainQueued now m)"

definition maintain :: "'c MaintEnv \<Rightarrow> Config \<Rightarrow> instant \<Rightarrow> 'c Maintainer \<Rightarrow> 'c Maintainer" where
  "maintain env cfg now m =
     (let targets = ForcedLogoutTargets cfg in
      if targets = [] then m
      else
        let (blocked, m) = reportConflicts env targets now m
        in fold (maintain_target env cfg now blocked) targets m)"

subsection \<open>The quiet-hours sweep\<close>

definition sweep_request :: "Config \<Rightarrow> string \<Rightarrow> string \<Rightarrow> Request" where
  "sweep_request cfg accountID key = zero_request\<lparr>r_Kind := KindForcedLogout, r_CheckRevision := True,
     r_ConfigRevision := cf_Revision cfg, r_AccountID := accountID, r_IdempotencyKey := key\<rparr>"

definition sweep_target ::
    "'c MaintEnv \<Rightarrow> Config \<Rightarrow> QuietState \<Rightarrow> instant \<Rightarrow> Target \<Rightarrow> 'c Maintainer \<Rightarrow> 'c Maintainer" where
  "sweep_target env cfg quiet now target m =
     (let i = tg_AccountID target in
      if mo_manuallyPaused env cfg i then m
      else
        let (state, m) = stateFor i m in
        if as_sweepAction state \<noteq> [] \<or> as_inFlight state \<noteq> [] \<or> now < as_sweepDueAt state then m
        else
          let (key, m) = fresh_key (''sweep:'' @ qs_Occurrence quiet @ '':'' @ FormatUint (cf_Revision cfg)) i m
          in case call_submit env (sweep_request cfg i key) m of
               (m, Inl err) \<Rightarrow> m
             | (m, Inr receipt) \<Rightarrow>
                 emit (event_of EventSweepQueued i now)
                   (set_account i ((account_of i m)\<lparr>as_sweepAction := rc_ActionID receipt\<rparr>) m))"

definition sweepQuietHours ::
    "'c MaintEnv \<Rightarrow> Config \<Rightarrow> QuietState \<Rightarrow> instant \<Rightarrow> 'c Maintainer \<Rightarrow> 'c Maintainer" where
  "sweepQuietHours env cfg quiet now m =
     (let m = m\<lparr>mt_occurrence := qs_Occurrence quiet\<rparr>;
          (sweep, pending) = Pending (qs_Occurrence quiet) (ForcedLogoutTargets cfg) (mt_sweep m);
          m = m\<lparr>mt_sweep := sweep\<rparr>
      in fold (sweep_target env cfg quiet now) pending m)"

subsection \<open>The scheduled hotspot\<close>

record QuietResume =
  qr_Revision :: nat
  qr_Occurrence :: string
  qr_AccountID :: string
  qr_HotspotID :: string
  qr_StartedAt :: instant
  qr_SweepPending :: bool

definition QuietResume_Matches :: "QuietResume \<Rightarrow> Config \<Rightarrow> instant \<Rightarrow> bool" where
  "QuietResume_Matches r cfg now =
     (if qr_Revision r \<noteq> cf_Revision cfg \<or> \<not> cf_Enabled cfg \<or> \<not> fo_Enabled (cf_Failover cfg) \<or>
         qr_AccountID r \<noteq> sel_ActiveCampusID (cf_Selection cfg) \<or> now < qr_StartedAt r then False
      else if CampusAccountByID cfg (qr_AccountID r) = None then False
      else if HotspotByID cfg (qr_HotspotID r) = None then False
      else
        let t = EvaluateQuiet (cf_Quiet cfg) (qr_StartedAt r); current = EvaluateQuiet (cf_Quiet cfg) now
        in qs_Active t \<and> qs_HasNext t \<and> qs_Occurrence t = qr_Occurrence r \<and>
           now < qs_Next t + 24 * hour \<and> (\<not> qs_Active current \<or> qs_Occurrence current = qr_Occurrence r))"

definition set_quiet :: "quietSwitchState \<Rightarrow> 'c Maintainer \<Rightarrow> 'c Maintainer" where
  "set_quiet s m = m\<lparr>mt_quietSwitch := s\<rparr>"

definition quiet_request :: "Kind \<Rightarrow> Config \<Rightarrow> string \<Rightarrow> string \<Rightarrow> Request" where
  "quiet_request kind cfg hotspotID key = zero_request\<lparr>r_Kind := kind,
     r_AccountID := sel_ActiveCampusID (cf_Selection cfg), r_HotspotID := hotspotID, r_CheckRevision := True,
     r_ConfigRevision := cf_Revision cfg, r_IdempotencyKey := key\<rparr>"

definition submit_quiet :: "'c MaintEnv \<Rightarrow> Kind \<Rightarrow> Config \<Rightarrow> 'c Maintainer \<Rightarrow> 'c Maintainer" where
  "submit_quiet env kind cfg m =
     (let s = mt_quietSwitch m in
      if HotspotByID cfg (qw_hotspotID s) = None then m
      else
        let (key, m) = fresh_key (kind_string kind) (sel_ActiveCampusID (cf_Selection cfg)) m
        in case call_submit env (quiet_request kind cfg (qw_hotspotID s) key) m of
             (m, Inl err) \<Rightarrow> m
           | (m, Inr receipt) \<Rightarrow> set_quiet (s\<lparr>qw_inFlight := rc_ActionID receipt\<rparr>) m)"

definition scheduleQuietSwitch ::
    "'c MaintEnv \<Rightarrow> Config \<Rightarrow> QuietState \<Rightarrow> instant \<Rightarrow> 'c Maintainer \<Rightarrow> 'c Maintainer" where
  "scheduleQuietSwitch env cfg quiet now m =
     (let s = mt_quietSwitch m; active = sel_ActiveCampusID (cf_Selection cfg) in
      if mo_manuallyPaused env cfg active then set_quiet (s\<lparr>qw_owned := False, qw_done := True\<rparr>) m
      else if \<not> cf_Enabled cfg \<or> \<not> fo_Enabled (cf_Failover cfg) then set_quiet (s\<lparr>qw_owned := False\<rparr>) m
      else
        let s = (if qs_Active quiet \<and> qw_occurrence s \<noteq> qs_Occurrence quiet
                 then zero_quiet_switch\<lparr>qw_occurrence := qs_Occurrence quiet\<rparr> else s);
            m = set_quiet s m in
        if qw_inFlight s \<noteq> [] \<or> now < qw_dueAt s then m
        else if CampusAccountByID cfg active = None then m
        else if qs_Active quiet then
          (if qw_done s then m
           else
             let (m, waiting) =
                   (if qs_ForceLogout quiet then
                      let (sweep, pending) = Pending (qs_Occurrence quiet) (ForcedLogoutTargets cfg) (mt_sweep m)
                      in (m\<lparr>mt_sweep := sweep\<rparr>,
                          \<exists>t \<in> set pending. \<not> mo_manuallyPaused env cfg (tg_AccountID t))
                    else (m, False)) in
             if waiting then m
             else
               let hotspot = sel_ActiveHotspotID (cf_Selection cfg);
                   hotspot = (if hotspot = [] then sel_DefaultHotspotID (cf_Selection cfg) else hotspot)
               in submit_quiet env KindQuietHotspot cfg (set_quiet (s\<lparr>qw_hotspotID := hotspot\<rparr>) m))
        else if \<not> qw_owned s then m
        else submit_quiet env KindQuietCampus cfg m)"

subsection \<open>One pass\<close>

definition consider_wake :: "'c MaintEnv \<Rightarrow> Config \<Rightarrow> 'c Maintainer \<Rightarrow> string \<times> accountState \<Rightarrow> instant \<Rightarrow> instant" where
  "consider_wake env cfg m = (\<lambda>(i, state) soonest.
     if mo_manuallyPaused env cfg i then soonest
     else if i = sel_ActiveCampusID (cf_Selection cfg) \<and> qw_owned (mt_quietSwitch m) then soonest
     else if as_inFlight state \<noteq> [] \<or> as_dueAt state = 0 then soonest
     else if as_dueAt state < soonest then as_dueAt state else soonest)"

definition nextWake :: "'c MaintEnv \<Rightarrow> Config \<Rightarrow> QuietState \<Rightarrow> instant \<Rightarrow> 'c Maintainer \<Rightarrow> instant" where
  "nextWake env cfg quiet now m =
     (let soonest = now + checkInterval cfg;
          soonest = (if qs_HasNext quiet \<and> qs_Next quiet < soonest then qs_Next quiet else soonest)
      in if \<not> AllowsMaintenance (mt_pause m) then soonest
         else
           let soonest = fold (consider_wake env cfg m) (mt_accounts m) soonest
           in if soonest < now then now else soonest)"

definition reset_revision :: "Config \<Rightarrow> 'c Maintainer \<Rightarrow> 'c Maintainer" where
  "reset_revision cfg m =
     (if cf_Revision cfg \<noteq> mt_revision m then
        m\<lparr>mt_accounts := [], mt_sweep := zero_sweep, mt_occurrence := [], mt_reported := [],
          mt_revision := cf_Revision cfg, mt_quietSwitch := zero_quiet_switch\<rparr>
      else m)"

definition update_pause :: "Config \<Rightarrow> QuietState \<Rightarrow> instant \<Rightarrow> 'c Maintainer \<Rightarrow> 'c Maintainer" where
  "update_pause cfg quiet now m =
     (let pause = Derive 0 (cf_Enabled cfg) (qs_Active quiet) in
      if pause \<noteq> mt_pause m then
        emit \<lparr>me_Kind = EventPauseChanged, me_AccountID = [], me_Conflicts = [], me_Pause = pause, me_At = now\<rparr>
          (m\<lparr>mt_pause := pause\<rparr>)
      else m\<lparr>mt_pause := pause\<rparr>)"

definition tick :: "'c MaintEnv \<Rightarrow> Config \<Rightarrow> instant \<Rightarrow> 'c Maintainer \<Rightarrow> 'c Maintainer \<times> instant" where
  "tick env cfg now m =
     (let m = reset_revision cfg m;
          quiet = EvaluateQuiet (cf_Quiet cfg) now;
          m = update_pause cfg quiet now m;
          m = (if cf_Enabled cfg \<and> qs_Active quiet \<and> qs_ForceLogout quiet
               then sweepQuietHours env cfg quiet now m else m);
          m = scheduleQuietSwitch env cfg quiet now m;
          m = (if AllowsMaintenance (mt_pause m) then maintain env cfg now m else m)
      in (m, nextWake env cfg quiet now m))"

subsection \<open>Finished actions\<close>

definition applyQuietSwitch :: "Action \<Rightarrow> Config \<Rightarrow> instant \<Rightarrow> 'c Maintainer \<Rightarrow> 'c Maintainer \<times> bool" where
  "applyQuietSwitch action cfg now m =
     (let s = mt_quietSwitch m; kind = r_Kind (a_Request action) in
      if kind = KindSwitchCampus \<or> kind = KindSwitchHotspot then
        (if a_State action = StateSucceeded then
           let s = s\<lparr>qw_owned := False, qw_done := True\<rparr>;
               quiet = EvaluateQuiet (cf_Quiet cfg) (a_StartedAt action);
               s = (if kind = KindSwitchHotspot \<and> cf_Enabled cfg \<and> fo_Enabled (cf_Failover cfg) \<and> qs_Active quiet
                    then zero_quiet_switch\<lparr>qw_occurrence := qs_Occurrence quiet,
                           qw_hotspotID := r_HotspotID (a_Request action), qw_done := True, qw_owned := True\<rparr>
                    else s)
           in set_quiet s m
         else m, False)
      else if kind \<noteq> KindQuietHotspot \<and> kind \<noteq> KindQuietCampus then (m, False)
      else if a_ID action \<noteq> qw_inFlight s then (m, True)
      else
        let s = s\<lparr>qw_inFlight := [], qw_dueAt := now + max (30 * second) (checkInterval cfg)\<rparr>;
            s = (if a_State action = StateCancelled \<or> a_State action = StateInterrupted
                 then s\<lparr>qw_done := True, qw_owned := False\<rparr>
                 else if a_State action = StateSucceeded
                 then s\<lparr>qw_done := True, qw_owned := (kind = KindQuietHotspot \<and> \<not> a_MaintenanceDeferred action),
                        qw_dueAt := 0\<rparr>
                 else s)
        in (set_quiet s m, True))"

definition apply_failure :: "Config \<Rightarrow> string \<Rightarrow> accountState \<Rightarrow> instant \<Rightarrow> 'c Maintainer \<Rightarrow> 'c Maintainer" where
  "apply_failure cfg accountID state now m =
     (let plan = PlanFrom (cf_Retry cfg);
          failures = Failures_Next (as_failures state) in
      if RoundExhausted plan failures then
        emit (event_of EventRoundCooldown accountID now)
          (set_account accountID (state\<lparr>as_failures := 0, as_dueAt := now + RoundCooldown plan\<rparr>) m)
      else
        emit (event_of EventBackoff accountID now)
          (set_account accountID (state\<lparr>as_failures := failures, as_dueAt := now + Plan_Wait plan failures\<rparr>) m))"

definition apply_owned :: "Action \<Rightarrow> Config \<Rightarrow> string \<Rightarrow> accountState \<Rightarrow> instant \<Rightarrow> 'c Maintainer \<Rightarrow> 'c Maintainer" where
  "apply_owned action cfg accountID state now m =
     (let state = state\<lparr>as_inFlight := []\<rparr>; later = now + checkInterval cfg in
      if a_MaintenanceDeferred action then set_account accountID (state\<lparr>as_dueAt := later\<rparr>) m
      else case a_State action of
        StateSucceeded \<Rightarrow> set_account accountID (state\<lparr>as_failures := 0, as_dueAt := later\<rparr>) m
      | StateCancelled \<Rightarrow> set_account accountID (state\<lparr>as_dueAt := later\<rparr>) m
      | StateInterrupted \<Rightarrow> set_account accountID (state\<lparr>as_dueAt := later\<rparr>) m
      | _ \<Rightarrow> apply_failure cfg accountID state now m)"

definition apply_sweep :: "Action \<Rightarrow> Config \<Rightarrow> string \<Rightarrow> accountState \<Rightarrow> instant \<Rightarrow> 'c Maintainer \<Rightarrow> 'c Maintainer option" where
  "apply_sweep action cfg accountID state now m =
     (let m = set_account accountID (state\<lparr>as_sweepAction := [], as_sweepDueAt := now + checkInterval cfg\<rparr>) m in
      if a_State action = StateSucceeded \<and> \<not> a_MaintenanceDeferred action
      then map_option (\<lambda>sweep. m\<lparr>mt_sweep := sweep\<rparr>) (Succeeded (mt_occurrence m) accountID (mt_sweep m))
      else Some m)"

definition apply_result :: "Action \<Rightarrow> Config \<Rightarrow> instant \<Rightarrow> 'c Maintainer \<Rightarrow> 'c Maintainer option" where
  "apply_result action cfg now m =
     (if r_CheckRevision (a_Request action) \<and> r_ConfigRevision (a_Request action) \<noteq> cf_Revision cfg then Some m
      else case applyQuietSwitch action cfg now m of
        (m, True) \<Rightarrow> Some m
      | (m, False) \<Rightarrow>
          let accountID = r_AccountID (a_Request action) in
          if accountID = [] then Some m
          else
            let (state, m) = stateFor accountID m in
            if a_ID action = as_sweepAction state then apply_sweep action cfg accountID state now m
            else if a_ID action \<noteq> as_inFlight state then Some m
            else Some (apply_owned action cfg accountID state now m))"

subsection \<open>The mailbox\<close>

definition manual_switch :: string where "manual_switch = ''manual-switch''"

definition slot_key :: "Action \<Rightarrow> string option" where
  "slot_key action =
     (let kind = r_Kind (a_Request action) in
      if kind = KindMaintain \<or> kind = KindForcedLogout \<or> kind = KindQuietHotspot \<or> kind = KindQuietCampus
      then Some (kind_string kind @ '':'' @ r_AccountID (a_Request action))
      else if kind = KindSwitchCampus \<or> kind = KindSwitchHotspot
      then Some (if a_State action = StateSucceeded then manual_switch else [])
      else if kind = KindLogin \<or> kind = KindRelogin \<or> kind = KindLogout then Some []
      else None)"

definition outdated :: "Config \<Rightarrow> Request \<Rightarrow> bool" where
  "outdated cfg r \<longleftrightarrow> CampusAccountByID cfg (r_AccountID r) = None \<or>
     (r_CheckRevision r \<and> r_ConfigRevision r \<noteq> cf_Revision cfg)"

definition store_result :: "Config \<Rightarrow> string \<Rightarrow> Action \<Rightarrow> 'c Maintainer \<Rightarrow> 'c Maintainer" where
  "store_result cfg key action m =
     (let kept = filter (\<lambda>(slot, previous). slot = manual_switch \<or> \<not> outdated cfg (a_Request (mr_action previous)))
                   (mt_results m);
          m = m\<lparr>mt_results := kept\<rparr> in
      case map_of kept key of
        Some previous \<Rightarrow>
          if a_ordinal (mr_action previous) \<le> a_ordinal action then
            m\<lparr>mt_resultOrder := mt_resultOrder m + 1,
              mt_results := AList.update key \<lparr>mr_action = action\<lparr>a_Timings := [], a_ResultJSON := []\<rparr>,
                 mr_order = mt_resultOrder m + 1\<rparr> kept\<rparr>
          else m
      | None \<Rightarrow>
          m\<lparr>mt_resultOrder := mt_resultOrder m + 1,
            mt_results := AList.update key \<lparr>mr_action = action\<lparr>a_Timings := [], a_ResultJSON := []\<rparr>,
               mr_order = mt_resultOrder m + 1\<rparr> kept\<rparr>)"

definition Observe :: "Config \<Rightarrow> Action \<Rightarrow> 'c Maintainer \<Rightarrow> 'c Maintainer" where
  "Observe cfg action m =
     (if \<not> Terminal (a_State action) then m
      else case slot_key action of
        None \<Rightarrow> m
      | Some key \<Rightarrow>
          if key = [] then m\<lparr>mt_resultReady := True\<rparr>
          else if key \<noteq> manual_switch \<and> outdated cfg (a_Request action) then m
          else (store_result cfg key action m)\<lparr>mt_resultReady := True\<rparr>)"

definition takeResults :: "'c Maintainer \<Rightarrow> 'c Maintainer \<times> Action list" where
  "takeResults m =
     (m\<lparr>mt_results := []\<rparr>, map mr_action (sort_key mr_order (map snd (mt_results m))))"

subsection \<open>Construction and the loop\<close>

definition ConfigurationChanged :: "'c Maintainer \<Rightarrow> 'c Maintainer" where
  "ConfigurationChanged m = m\<lparr>mt_changes := True\<rparr>"

definition mark_swept :: "Config \<Rightarrow> string \<Rightarrow> Sweep \<Rightarrow> Sweep option" where
  "mark_swept cfg occurrence sweep =
     fold (\<lambda>target s. Option.bind s (Succeeded occurrence (tg_AccountID target))) (ForcedLogoutTargets cfg) (Some sweep)"

definition NewMaintainer :: "'c \<Rightarrow> Config \<Rightarrow> instant \<Rightarrow> QuietResume option \<Rightarrow> 'c Maintainer option" where
  "NewMaintainer coord cfg now resumeQuiet =
     (let m = \<lparr>mt_results = [], mt_resultOrder = 0, mt_resultReady = False, mt_changes = False,
          mt_started = False, mt_keys = 0, mt_pause = 0, mt_sweep = zero_sweep, mt_accounts = [],
          mt_reported = [], mt_occurrence = [], mt_revision = cf_Revision cfg,
          mt_quietSwitch = zero_quiet_switch, mt_coord = coord, mt_sent = [], mt_events = []\<rparr> in
      case resumeQuiet of
        None \<Rightarrow> Some m
      | Some resume \<Rightarrow>
          if \<not> QuietResume_Matches resume cfg now then Some m
          else
            let m = m\<lparr>mt_quietSwitch := zero_quiet_switch\<lparr>qw_occurrence := qr_Occurrence resume,
                        qw_hotspotID := qr_HotspotID resume, qw_done := True, qw_owned := True\<rparr>,
                      mt_occurrence := qr_Occurrence resume\<rparr>
            in if qc_ForceLogout (cf_Quiet cfg) \<and> \<not> qr_SweepPending resume
               then map_option (\<lambda>sweep. m\<lparr>mt_sweep := sweep\<rparr>) (mark_swept cfg (qr_Occurrence resume) (mt_sweep m))
               else Some m)"

text \<open>
  \<open>Run\<close> alternates a pass with a wait. \<open>RunStarts\<close> is its guard; \<open>deliver\<close> is what it does when the
  mailbox woke it, with the settings snapshot and the clock reading each \<open>apply\<close> takes given by
  \<open>readings\<close>. The other two ways out of the wait, the change signal and the timer, change nothing but
  the signal. The last rule is the coordinator working on its own between the calls. \<open>accepted\<close> is what is known of the
  configurations the settings hand out.
\<close>

definition RunStarts :: "'c Maintainer \<Rightarrow> gerror + 'c Maintainer" where
  "RunStarts m = (if mt_started m then Inl (Errorf CodeConflict) else Inr (m\<lparr>mt_started := True\<rparr>))"

fun apply_all :: "(nat \<Rightarrow> Config \<times> instant) \<Rightarrow> nat \<Rightarrow> Action list \<Rightarrow> 'c Maintainer \<Rightarrow> 'c Maintainer option" where
  "apply_all readings n [] m = Some m"
| "apply_all readings n (a # rest) m =
     Option.bind (apply_result a (fst (readings n)) (snd (readings n)) m) (apply_all readings (Suc n) rest)"

definition deliver :: "(nat \<Rightarrow> Config \<times> instant) \<Rightarrow> 'c Maintainer \<Rightarrow> 'c Maintainer option" where
  "deliver readings m =
     (let (m, pending) = takeResults (m\<lparr>mt_resultReady := False\<rparr>) in apply_all readings 0 pending m)"

definition receipts_named :: "'c MaintEnv \<Rightarrow> bool" where
  "receipts_named env \<longleftrightarrow> (\<forall>r c c' receipt. mo_submit env r c = (c', Inr receipt) \<longrightarrow> rc_ActionID receipt \<noteq> [])"

inductive loop_step :: "(Config \<Rightarrow> bool) \<Rightarrow> 'c Maintainer \<Rightarrow> 'c Maintainer \<Rightarrow> bool" for accepted where
  loop_tick: "receipts_named env \<Longrightarrow> accepted cfg \<Longrightarrow> loop_step accepted m (fst (tick env cfg now m))"
| loop_deliver: "deliver readings m = Some m' \<Longrightarrow> loop_step accepted m m'"
| loop_change: "loop_step accepted m (m\<lparr>mt_changes := False\<rparr>)"
| loop_observe: "a_ID action \<noteq> [] \<Longrightarrow> accepted cfg \<Longrightarrow> loop_step accepted m (Observe cfg action m)"
| loop_signal: "loop_step accepted m (ConfigurationChanged m)"
| loop_world: "loop_step accepted m (m\<lparr>mt_coord := c\<rparr>)"

definition loop_start :: "'c Maintainer \<Rightarrow> bool" where
  "loop_start m \<longleftrightarrow> (\<exists>coord cfg now resume. NewMaintainer coord cfg now resume = Some m)"

inductive_cases loop_stepE: "loop_step accepted m m'"

end
