(* ===== verification/Maintain_Props.thy ===== *)
theory Maintain_Props
  imports Maintain_Model Config_Validate
begin

text \<open>
  What the maintenance loop submits: which requests, under which keys, and when. \<open>sends P m m'\<close> is the
  contract all its operations share: they only append to the submitted requests, each new one satisfies
  \<open>P\<close>, and the running numbers in the keys keep growing.
\<close>

subsection \<open>The number at the end of a key\<close>

definition key_number :: "string \<Rightarrow> nat" where
  "key_number s = parse_dec (rev (takeWhile is_digit (rev s)))"

lemma takeWhile_digits: "list_all is_digit ds \<Longrightarrow> \<not> is_digit c \<Longrightarrow> takeWhile is_digit (ds @ c # rest) = ds"
  by (induction ds) auto

lemma key_number_formatID [simp]: "key_number (p @ formatID n) = n"
proof -
  have "list_all is_digit (rev (FormatUint n))" by (auto simp: list_all_iff dest: FormatUint_digits)
  then show ?thesis
    using takeWhile_digits [of "rev (FormatUint n)" "CHR ''a''" "rev p"]
    by (simp add: key_number_def formatID_def is_digit_def)
qed

definition numbers :: "Request list \<Rightarrow> nat list" where
  "numbers rs = map (\<lambda>r. key_number (r_IdempotencyKey r)) rs"

definition sends :: "(Request \<Rightarrow> bool) \<Rightarrow> 'c Maintainer \<Rightarrow> 'c Maintainer \<Rightarrow> bool" where
  "sends P m m' \<longleftrightarrow> mt_keys m \<le> mt_keys m' \<and> (\<exists>new. mt_sent m' = mt_sent m @ new \<and> list_all P new \<and>
     sorted_wrt (<) (numbers new) \<and> (\<forall>n \<in> set (numbers new). mt_keys m < n \<and> n \<le> mt_keys m'))"

lemma sends_refl [intro, simp]: "sends P m m"
  by (simp add: sends_def numbers_def)

lemma sends_frame: "mt_sent m' = mt_sent m \<Longrightarrow> mt_keys m' = mt_keys m \<Longrightarrow> sends P m m'"
  by (simp add: sends_def numbers_def)

lemma sends_trans [trans]:
  assumes "sends P m m'" and "sends P m' m''"
  shows "sends P m m''"
proof -
  obtain xs ys where "mt_sent m' = mt_sent m @ xs" "list_all P xs" "sorted_wrt (<) (numbers xs)"
      "\<forall>n \<in> set (numbers xs). mt_keys m < n \<and> n \<le> mt_keys m'"
      "mt_sent m'' = mt_sent m' @ ys" "list_all P ys" "sorted_wrt (<) (numbers ys)"
      "\<forall>n \<in> set (numbers ys). mt_keys m' < n \<and> n \<le> mt_keys m''" and "mt_keys m \<le> mt_keys m'" "mt_keys m' \<le> mt_keys m''"
    using assms by (auto simp: sends_def)
  then show ?thesis
    by (auto simp: sends_def numbers_def sorted_wrt_append intro!: exI [of _ "xs @ ys"]) force+
qed

lemma sends_mono: "sends P m m' \<Longrightarrow> (\<And>r. P r \<Longrightarrow> Q r) \<Longrightarrow> sends Q m m'"
  by (auto simp: sends_def list_all_iff)

lemma sends_fold:
  assumes "\<And>x m. x \<in> set xs \<Longrightarrow> sends P m (f x m)"
  shows "sends P m (fold f xs m)"
  using assms
proof (induction xs arbitrary: m)
  case (Cons x xs)
  have "sends P m (f x m)" "sends P (f x m) (fold f xs (f x m))" using Cons by auto
  then show ?case by (auto intro: sends_trans)
qed simp

subsection \<open>What the small steps leave alone\<close>

lemma small_frames [simp]:
  "mt_sent (emit e m) = mt_sent m" "mt_keys (emit e m) = mt_keys m" "mt_accounts (emit e m) = mt_accounts m"
  "mt_quietSwitch (emit e m) = mt_quietSwitch m" "mt_pause (emit e m) = mt_pause m"
  "mt_sweep (emit e m) = mt_sweep m" "mt_occurrence (emit e m) = mt_occurrence m"
  "mt_revision (emit e m) = mt_revision m" "mt_coord (emit e m) = mt_coord m" "mt_results (emit e m) = mt_results m"
  "mt_resultOrder (emit e m) = mt_resultOrder m"
  "mt_sent (set_account i s m) = mt_sent m" "mt_keys (set_account i s m) = mt_keys m"
  "mt_accounts (set_account i s m) = AList.update i s (mt_accounts m)"
  "mt_quietSwitch (set_account i s m) = mt_quietSwitch m" "mt_pause (set_account i s m) = mt_pause m"
  "mt_sweep (set_account i s m) = mt_sweep m" "mt_occurrence (set_account i s m) = mt_occurrence m"
  "mt_revision (set_account i s m) = mt_revision m" "mt_coord (set_account i s m) = mt_coord m"
  "mt_results (set_account i s m) = mt_results m" "mt_resultOrder (set_account i s m) = mt_resultOrder m"
  "mt_sent (set_quiet q m) = mt_sent m" "mt_keys (set_quiet q m) = mt_keys m" "mt_accounts (set_quiet q m) = mt_accounts m"
  "mt_quietSwitch (set_quiet q m) = q" "mt_pause (set_quiet q m) = mt_pause m"
  "mt_sweep (set_quiet q m) = mt_sweep m" "mt_occurrence (set_quiet q m) = mt_occurrence m"
  "mt_revision (set_quiet q m) = mt_revision m" "mt_coord (set_quiet q m) = mt_coord m"
  "mt_results (set_quiet q m) = mt_results m" "mt_resultOrder (set_quiet q m) = mt_resultOrder m"
  by (simp_all add: emit_def set_account_def set_quiet_def)

lemma account_of_set [simp]: "account_of j (set_account i s m) = (if j = i then s else account_of j m)"
  by (simp add: account_of_def update_conv')

lemma account_of_emit [simp]: "account_of i (emit e m) = account_of i m"
  by (simp add: account_of_def)

lemma account_of_set_quiet [simp]: "account_of i (set_quiet q m) = account_of i m"
  by (simp add: account_of_def)

lemma account_of_updates [simp]:
  "account_of i (m\<lparr>mt_keys := n\<rparr>) = account_of i m" "account_of i (m\<lparr>mt_coord := c\<rparr>) = account_of i m"
  "account_of i (m\<lparr>mt_sent := r\<rparr>) = account_of i m" "account_of i (m\<lparr>mt_sweep := w\<rparr>) = account_of i m"
  "account_of i (m\<lparr>mt_occurrence := q\<rparr>) = account_of i m" "account_of i (m\<lparr>mt_pause := p\<rparr>) = account_of i m"
  by (simp_all add: account_of_def)

lemma stateFor_eq: "stateFor i m =
    (account_of i m, if map_of (mt_accounts m) i = None then set_account i zero_account m else m)"
  by (simp add: stateFor_def account_of_def split: option.splits)

lemma account_of_stateFor [simp]: "account_of j (snd (stateFor i m)) = account_of j m"
  by (auto simp: stateFor_eq account_of_def update_conv')

lemma stateFor_frames [simp]:
  "mt_sent (snd (stateFor i m)) = mt_sent m" "mt_keys (snd (stateFor i m)) = mt_keys m"
  "mt_quietSwitch (snd (stateFor i m)) = mt_quietSwitch m" "mt_pause (snd (stateFor i m)) = mt_pause m"
  "mt_sweep (snd (stateFor i m)) = mt_sweep m" "mt_occurrence (snd (stateFor i m)) = mt_occurrence m"
  "mt_revision (snd (stateFor i m)) = mt_revision m" "mt_coord (snd (stateFor i m)) = mt_coord m"
  "mt_results (snd (stateFor i m)) = mt_results m" "fst (stateFor i m) = account_of i m"
  by (simp_all add: stateFor_eq)

subsection \<open>One submission\<close>

lemma call_submit_eq:
  "call_submit env r m = (m\<lparr>mt_coord := fst (mo_submit env r (mt_coord m)), mt_sent := mt_sent m @ [r]\<rparr>,
     snd (mo_submit env r (mt_coord m)))"
  by (simp add: call_submit_def split_beta)

lemma sends_one:
  assumes "P r" and "r_IdempotencyKey r = fst (fresh_key p i m)" and "mt_sent m' = mt_sent m @ [r]"
    and "mt_keys m' = mt_keys m + 1"
  shows "sends P m m'"
proof -
  have "numbers [r] = [mt_keys m + 1]"
    using assms(2) key_number_formatID [of "p @ '':'' @ i @ '':''" "mt_keys m + 1"]
    by (simp add: fresh_key_def Let_def numbers_def)
  then show ?thesis using assms(1,3,4) by (auto simp: sends_def intro!: exI [of _ "[r]"])
qed

lemma snd_fresh_key [simp]: "snd (fresh_key p i m) = m\<lparr>mt_keys := mt_keys m + 1\<rparr>"
  by (simp add: fresh_key_def Let_def)

lemma queue_request_frames [simp]:
  "mt_sent (queue_request env r k now m) = mt_sent m @ [r]" "mt_keys (queue_request env r k now m) = mt_keys m"
  "mt_quietSwitch (queue_request env r k now m) = mt_quietSwitch m"
  "mt_pause (queue_request env r k now m) = mt_pause m"
  "mt_sweep (queue_request env r k now m) = mt_sweep m"
  "mt_occurrence (queue_request env r k now m) = mt_occurrence m"
  "mt_revision (queue_request env r k now m) = mt_revision m"
  "mt_results (queue_request env r k now m) = mt_results m"
  by (simp_all add: queue_request_def call_submit_eq Let_def split: sum.splits)

lemma account_of_queue: "j \<noteq> r_AccountID r \<Longrightarrow> account_of j (queue_request env r k now m) = account_of j m"
  by (simp add: queue_request_def call_submit_eq Let_def account_of_def update_conv' split: sum.splits)

text \<open>
  A pass over a list of targets: a step that submits for its own target exactly when \<open>E\<close> holds of it,
  and does not affect \<open>E\<close> elsewhere, submits for exactly the targets that satisfied \<open>E\<close> at the start.
\<close>

lemma fold_sent:
  assumes step: "\<And>t m. \<exists>r. mt_sent (f t m) = mt_sent m @ (if E m (tg_AccountID t) then [r] else []) \<and>
      r_AccountID r = tg_AccountID t \<and> P r"
    and local: "\<And>t m j. j \<noteq> tg_AccountID t \<Longrightarrow> E (f t m) j = E m j"
    and "distinct (map tg_AccountID ts)"
  shows "\<exists>new. mt_sent (fold f ts m) = mt_sent m @ new \<and>
     map r_AccountID new = filter (E m) (map tg_AccountID ts) \<and> list_all P new"
  using assms(3)
proof (induction ts arbitrary: m)
  case (Cons t ts)
  obtain r where r: "mt_sent (f t m) = mt_sent m @ (if E m (tg_AccountID t) then [r] else [])"
      "r_AccountID r = tg_AccountID t" "P r"
    using step by blast
  obtain new where new: "mt_sent (fold f ts (f t m)) = mt_sent (f t m) @ new"
      "map r_AccountID new = filter (E (f t m)) (map tg_AccountID ts)" "list_all P new"
    using Cons.IH [of "f t m"] Cons.prems by auto
  have "filter (E (f t m)) (map tg_AccountID ts) = filter (E m) (map tg_AccountID ts)"
  proof (rule filter_cong [OF refl])
    fix j
    assume "j \<in> set (map tg_AccountID ts)"
    with Cons.prems have "j \<noteq> tg_AccountID t" by (cases "j = tg_AccountID t") simp_all
    then show "E (f t m) j = E m j" by (rule local)
  qed
  then show ?case using new r
    by (intro exI [of _ "(if E m (tg_AccountID t) then [r] else []) @ new"]) auto
qed simp

subsection \<open>Which accounts a pass attempts\<close>

definition eligible :: "'c MaintEnv \<Rightarrow> Config \<Rightarrow> instant \<Rightarrow> string list \<Rightarrow> 'c Maintainer \<Rightarrow> string \<Rightarrow> bool" where
  "eligible env cfg now blocked m i \<longleftrightarrow> \<not> mo_manuallyPaused env cfg i \<and>
     \<not> (i = sel_ActiveCampusID (cf_Selection cfg) \<and> qw_owned (mt_quietSwitch m)) \<and> i \<notin> set blocked \<and>
     as_inFlight (account_of i m) = [] \<and> as_dueAt (account_of i m) \<le> now"

lemma maintain_target_eq:
  "maintain_target env cfg now blocked t m =
     (let i = tg_AccountID t in
      if mo_manuallyPaused env cfg i \<or> (i = sel_ActiveCampusID (cf_Selection cfg) \<and> qw_owned (mt_quietSwitch m)) \<or>
         i \<in> set blocked then m
      else if eligible env cfg now blocked m i then
        queue_request env (maintain_request cfg i (fst (fresh_key ''maintain'' i (snd (stateFor i m)))))
          EventMaintainQueued now ((snd (stateFor i m))\<lparr>mt_keys := mt_keys m + 1\<rparr>)
      else snd (stateFor i m))"
proof -
  have "mt_keys (snd (stateFor i m)) = mt_keys m" for i by simp
  then show ?thesis
    by (auto simp: maintain_target_def eligible_def Let_def fresh_key_def split_beta)
qed

lemma maintain_request_simps [simp]:
  "r_Kind (maintain_request cfg i k) = KindMaintain" "r_AccountID (maintain_request cfg i k) = i"
  "r_IdempotencyKey (maintain_request cfg i k) = k" "r_ConfigRevision (maintain_request cfg i k) = cf_Revision cfg"
  "r_CheckRevision (maintain_request cfg i k)"
  by (simp_all add: maintain_request_def)

lemma maintain_target_frames [simp]:
  "mt_quietSwitch (maintain_target env cfg now blocked t m) = mt_quietSwitch m"
  "mt_pause (maintain_target env cfg now blocked t m) = mt_pause m"
  "mt_sweep (maintain_target env cfg now blocked t m) = mt_sweep m"
  "mt_occurrence (maintain_target env cfg now blocked t m) = mt_occurrence m"
  "mt_revision (maintain_target env cfg now blocked t m) = mt_revision m"
  "mt_results (maintain_target env cfg now blocked t m) = mt_results m"
  by (simp_all add: maintain_target_eq Let_def)

lemma account_of_maintain_target:
  "j \<noteq> tg_AccountID t \<Longrightarrow> account_of j (maintain_target env cfg now blocked t m) = account_of j m"
  using account_of_stateFor [of j "tg_AccountID t" m]
  by (simp add: maintain_target_eq Let_def account_of_queue)

lemma maintain_target_sent:
  "\<exists>key. mt_sent (maintain_target env cfg now blocked t m) = mt_sent m @
     (if eligible env cfg now blocked m (tg_AccountID t) then [maintain_request cfg (tg_AccountID t) key] else [])"
  by (auto simp: maintain_target_eq Let_def eligible_def)

lemma sends_maintain_target:
  "sends (\<lambda>r. \<exists>key. r = maintain_request cfg (tg_AccountID t) key \<and> key \<noteq> []) m (maintain_target env cfg now blocked t m)"
proof (cases "eligible env cfg now blocked m (tg_AccountID t)")
  case True
  then have skip: "\<not> (mo_manuallyPaused env cfg (tg_AccountID t) \<or>
      (tg_AccountID t = sel_ActiveCampusID (cf_Selection cfg) \<and> qw_owned (mt_quietSwitch m)) \<or>
      tg_AccountID t \<in> set blocked)"
    by (auto simp: eligible_def)
  show ?thesis
    by (rule sends_one [of _ "maintain_request cfg (tg_AccountID t) (fst (fresh_key ''maintain'' (tg_AccountID t) m))"
        "''maintain''" "tg_AccountID t"])
      (use True skip in \<open>auto simp: maintain_target_eq Let_def fresh_key_def\<close>)
next
  case False
  then show ?thesis by (auto simp: maintain_target_eq Let_def intro: sends_frame)
qed

lemma maintain_fold_sent:
  assumes "distinct (map tg_AccountID ts)"
  shows "\<exists>new. mt_sent (fold (maintain_target env cfg now blocked) ts m) = mt_sent m @ new \<and>
     map r_AccountID new = filter (eligible env cfg now blocked m) (map tg_AccountID ts) \<and>
     list_all (\<lambda>r. r_Kind r = KindMaintain \<and> r_ConfigRevision r = cf_Revision cfg) new"
proof (rule fold_sent [OF _ _ assms])
  show "\<exists>r. mt_sent (maintain_target env cfg now blocked t m) = mt_sent m @
      (if eligible env cfg now blocked m (tg_AccountID t) then [r] else []) \<and>
      r_AccountID r = tg_AccountID t \<and> r_Kind r = KindMaintain \<and> r_ConfigRevision r = cf_Revision cfg" for t m
    using maintain_target_sent [of env cfg now blocked t m] maintain_request_simps by metis
  show "eligible env cfg now blocked (maintain_target env cfg now blocked t m) j = eligible env cfg now blocked m j"
    if "j \<noteq> tg_AccountID t" for t m j
    using account_of_maintain_target [OF that, of env cfg now blocked m] by (simp add: eligible_def)
qed

text \<open>The accounts that share a line with another target.\<close>

definition line_of :: "'c MaintEnv \<Rightarrow> string \<Rightarrow> string" where
  "line_of env i = mo_line env (zero_request\<lparr>r_Kind := KindMaintain, r_AccountID := i\<rparr>)"

definition contested :: "'c MaintEnv \<Rightarrow> Config \<Rightarrow> string list" where
  "contested env cfg = concat (map lc_AccountIDs (Conflicts (ForcedLogoutTargets cfg) (\<lambda>t. line_of env (tg_AccountID t))))"

lemma reportConflicts_blocked [simp]: "fst (reportConflicts env (ForcedLogoutTargets cfg) now m) = contested env cfg"
  by (simp add: reportConflicts_def Let_def contested_def line_of_def)

lemma reportConflicts_frames [simp]:
  "mt_sent (snd (reportConflicts env ts now m)) = mt_sent m" "mt_keys (snd (reportConflicts env ts now m)) = mt_keys m"
  "mt_accounts (snd (reportConflicts env ts now m)) = mt_accounts m"
  "mt_quietSwitch (snd (reportConflicts env ts now m)) = mt_quietSwitch m"
  "mt_pause (snd (reportConflicts env ts now m)) = mt_pause m"
  "mt_sweep (snd (reportConflicts env ts now m)) = mt_sweep m"
  "mt_occurrence (snd (reportConflicts env ts now m)) = mt_occurrence m"
  "mt_revision (snd (reportConflicts env ts now m)) = mt_revision m"
  "mt_coord (snd (reportConflicts env ts now m)) = mt_coord m"
  "mt_results (snd (reportConflicts env ts now m)) = mt_results m"
  by (simp_all add: reportConflicts_def Let_def)

subsection \<open>Which accounts a sweep logs out\<close>

definition sweepable :: "'c MaintEnv \<Rightarrow> Config \<Rightarrow> instant \<Rightarrow> 'c Maintainer \<Rightarrow> string \<Rightarrow> bool" where
  "sweepable env cfg now m i \<longleftrightarrow> \<not> mo_manuallyPaused env cfg i \<and> as_sweepAction (account_of i m) = [] \<and>
     as_inFlight (account_of i m) = [] \<and> as_sweepDueAt (account_of i m) \<le> now"

lemma sweep_request_simps [simp]:
  "r_Kind (sweep_request cfg i k) = KindForcedLogout" "r_AccountID (sweep_request cfg i k) = i"
  "r_IdempotencyKey (sweep_request cfg i k) = k" "r_ConfigRevision (sweep_request cfg i k) = cf_Revision cfg"
  "r_CheckRevision (sweep_request cfg i k)"
  by (simp_all add: sweep_request_def)

definition sweep_prefix :: "Config \<Rightarrow> QuietState \<Rightarrow> string" where
  "sweep_prefix cfg quiet = ''sweep:'' @ qs_Occurrence quiet @ '':'' @ FormatUint (cf_Revision cfg)"

lemma sweep_target_eq:
  "sweep_target env cfg quiet now t m =
     (let i = tg_AccountID t; m' = snd (stateFor i m); r = sweep_request cfg i (fst (fresh_key (sweep_prefix cfg quiet) i m));
          answer = mo_submit env r (mt_coord m);
          sent = m'\<lparr>mt_keys := mt_keys m + 1, mt_coord := fst answer, mt_sent := mt_sent m @ [r]\<rparr> in
      if mo_manuallyPaused env cfg i then m
      else if \<not> sweepable env cfg now m i then m'
      else case snd answer of
        Inl err \<Rightarrow> sent
      | Inr receipt \<Rightarrow> emit (event_of EventSweepQueued i now)
          (set_account i ((account_of i m)\<lparr>as_sweepAction := rc_ActionID receipt\<rparr>) sent))"
  by (auto simp: sweep_target_def sweepable_def Let_def fresh_key_def split_beta call_submit_eq sweep_prefix_def
      split: sum.splits)

lemma sweep_target_frames [simp]:
  "mt_quietSwitch (sweep_target env cfg quiet now t m) = mt_quietSwitch m"
  "mt_pause (sweep_target env cfg quiet now t m) = mt_pause m"
  "mt_sweep (sweep_target env cfg quiet now t m) = mt_sweep m"
  "mt_occurrence (sweep_target env cfg quiet now t m) = mt_occurrence m"
  "mt_revision (sweep_target env cfg quiet now t m) = mt_revision m"
  "mt_results (sweep_target env cfg quiet now t m) = mt_results m"
  by (simp_all add: sweep_target_eq Let_def split: sum.splits)

lemma account_of_sweep_target:
  "j \<noteq> tg_AccountID t \<Longrightarrow> account_of j (sweep_target env cfg quiet now t m) = account_of j m"
  by (simp add: sweep_target_eq Let_def split: sum.splits)

lemma sweep_inFlight [simp]:
  "as_inFlight (account_of j (sweep_target env cfg quiet now t m)) = as_inFlight (account_of j m)"
  "as_dueAt (account_of j (sweep_target env cfg quiet now t m)) = as_dueAt (account_of j m)"
  by (simp_all add: sweep_target_eq Let_def split: sum.splits)

lemma sweep_target_sent:
  "\<exists>r. mt_sent (sweep_target env cfg quiet now t m) =
     mt_sent m @ (if sweepable env cfg now m (tg_AccountID t) then [r] else []) \<and>
     r_AccountID r = tg_AccountID t \<and> r_Kind r = KindForcedLogout \<and> r_ConfigRevision r = cf_Revision cfg"
  by (intro exI [of _ "sweep_request cfg (tg_AccountID t) (fst (fresh_key (sweep_prefix cfg quiet) (tg_AccountID t) m))"])
    (auto simp: sweep_target_eq Let_def sweepable_def split: sum.splits)

lemma sends_sweep_target:
  "sends (\<lambda>r. \<exists>key. r = sweep_request cfg (tg_AccountID t) key \<and> key \<noteq> []) m (sweep_target env cfg quiet now t m)"
proof (cases "sweepable env cfg now m (tg_AccountID t)")
  case True
  then have np: "\<not> mo_manuallyPaused env cfg (tg_AccountID t)" by (simp add: sweepable_def)
  show ?thesis
    by (rule sends_one [of _ "sweep_request cfg (tg_AccountID t) (fst (fresh_key (sweep_prefix cfg quiet) (tg_AccountID t) m))"
        "sweep_prefix cfg quiet" "tg_AccountID t"])
      (use True np in \<open>auto simp: sweep_target_eq Let_def fresh_key_def split: sum.splits\<close>)
next
  case False
  then show ?thesis by (auto simp: sweep_target_eq Let_def intro: sends_frame)
qed

lemma sweep_fold_sent:
  assumes "distinct (map tg_AccountID ts)"
  shows "\<exists>new. mt_sent (fold (sweep_target env cfg quiet now) ts m) = mt_sent m @ new \<and>
     map r_AccountID new = filter (sweepable env cfg now m) (map tg_AccountID ts) \<and>
     list_all (\<lambda>r. r_Kind r = KindForcedLogout \<and> r_ConfigRevision r = cf_Revision cfg) new"
  by (rule fold_sent [OF sweep_target_sent _ assms]) (simp add: sweepable_def account_of_sweep_target)

lemma fold_frame: "(\<And>x m. g (f x m) = g m) \<Longrightarrow> g (fold f xs m) = g m"
  by (induction xs arbitrary: m) simp_all

lemmas fold_frames =
  fold_frame [of mt_quietSwitch] fold_frame [of mt_pause] fold_frame [of mt_sweep] fold_frame [of mt_occurrence]
  fold_frame [of mt_revision] fold_frame [of mt_results]

subsection \<open>The scheduled move\<close>

lemma quiet_request_simps [simp]:
  "r_Kind (quiet_request k cfg h key) = k" "r_AccountID (quiet_request k cfg h key) = sel_ActiveCampusID (cf_Selection cfg)"
  "r_HotspotID (quiet_request k cfg h key) = h" "r_IdempotencyKey (quiet_request k cfg h key) = key"
  "r_ConfigRevision (quiet_request k cfg h key) = cf_Revision cfg" "r_CheckRevision (quiet_request k cfg h key)"
  by (simp_all add: quiet_request_def)

lemma submit_quiet_frames [simp]:
  "mt_accounts (submit_quiet env k cfg m) = mt_accounts m" "mt_pause (submit_quiet env k cfg m) = mt_pause m"
  "mt_sweep (submit_quiet env k cfg m) = mt_sweep m" "mt_occurrence (submit_quiet env k cfg m) = mt_occurrence m"
  "mt_revision (submit_quiet env k cfg m) = mt_revision m" "mt_results (submit_quiet env k cfg m) = mt_results m"
  "qw_owned (mt_quietSwitch (submit_quiet env k cfg m)) = qw_owned (mt_quietSwitch m)"
  by (simp_all add: submit_quiet_def Let_def call_submit_eq split_beta split: sum.splits)

lemma submit_quiet_sent:
  "mt_sent (submit_quiet env k cfg m) = mt_sent m @
     (if HotspotByID cfg (qw_hotspotID (mt_quietSwitch m)) = None then []
      else [quiet_request k cfg (qw_hotspotID (mt_quietSwitch m))
              (fst (fresh_key (kind_string k) (sel_ActiveCampusID (cf_Selection cfg)) m))])"
  by (auto simp: submit_quiet_def Let_def call_submit_eq split_beta split: sum.splits)

lemma sends_submit_quiet:
  "sends (\<lambda>r. \<exists>h key. r = quiet_request k cfg h key \<and> key \<noteq> [] \<and> HotspotByID cfg h \<noteq> None) m (submit_quiet env k cfg m)"
proof (cases "HotspotByID cfg (qw_hotspotID (mt_quietSwitch m)) = None")
  case True
  then show ?thesis by (simp add: submit_quiet_def)
next
  case False
  show ?thesis
    by (rule sends_one [of _ "quiet_request k cfg (qw_hotspotID (mt_quietSwitch m))
        (fst (fresh_key (kind_string k) (sel_ActiveCampusID (cf_Selection cfg)) m))" "kind_string k"])
      (use False in \<open>auto simp: submit_quiet_sent fresh_key_def Let_def,
        auto simp: submit_quiet_def Let_def call_submit_eq fresh_key_def split: sum.splits\<close>)
qed

lemma schedule_frames [simp]:
  "mt_accounts (scheduleQuietSwitch env cfg quiet now m) = mt_accounts m"
  "mt_pause (scheduleQuietSwitch env cfg quiet now m) = mt_pause m"
  "mt_occurrence (scheduleQuietSwitch env cfg quiet now m) = mt_occurrence m"
  "mt_revision (scheduleQuietSwitch env cfg quiet now m) = mt_revision m"
  "mt_results (scheduleQuietSwitch env cfg quiet now m) = mt_results m"
  by (simp_all add: scheduleQuietSwitch_def Let_def split_beta)

lemma account_of_schedule [simp]: "account_of i (scheduleQuietSwitch env cfg quiet now m) = account_of i m"
  by (simp add: account_of_def)

lemma schedule_sweep:
  "mt_sweep (scheduleQuietSwitch env cfg quiet now m) = mt_sweep m \<or>
   mt_sweep (scheduleQuietSwitch env cfg quiet now m) = enter_occurrence (qs_Occurrence quiet) (mt_sweep m)"
  by (simp add: scheduleQuietSwitch_def Let_def split_beta Pending_def)

lemma schedule_owned:
  "\<not> qs_Active quiet \<Longrightarrow> qw_owned (mt_quietSwitch (scheduleQuietSwitch env cfg quiet now m)) =
     (qw_owned (mt_quietSwitch m) \<and> \<not> mo_manuallyPaused env cfg (sel_ActiveCampusID (cf_Selection cfg)) \<and>
      cf_Enabled cfg \<and> fo_Enabled (cf_Failover cfg))"
  by (simp add: scheduleQuietSwitch_def Let_def)

text \<open>What a scheduled move must have: the account, the hotspot, and a finished sweep before leaving.\<close>

definition sweep_finished :: "'c MaintEnv \<Rightarrow> Config \<Rightarrow> QuietState \<Rightarrow> Sweep \<Rightarrow> bool" where
  "sweep_finished env cfg quiet sweep \<longleftrightarrow> (\<forall>t \<in> set (ForcedLogoutTargets cfg).
     mo_manuallyPaused env cfg (tg_AccountID t) \<or> is_done (enter_occurrence (qs_Occurrence quiet) sweep) (tg_AccountID t))"

definition quiet_ok :: "'c MaintEnv \<Rightarrow> Config \<Rightarrow> QuietState \<Rightarrow> Sweep \<Rightarrow> Request \<Rightarrow> bool" where
  "quiet_ok env cfg quiet sweep r \<longleftrightarrow> (\<exists>k h key. r = quiet_request k cfg h key \<and> key \<noteq> [] \<and> HotspotByID cfg h \<noteq> None \<and>
     CampusAccountByID cfg (sel_ActiveCampusID (cf_Selection cfg)) \<noteq> None \<and> cf_Enabled cfg \<and> fo_Enabled (cf_Failover cfg) \<and>
     (k = KindQuietCampus \<and> \<not> qs_Active quiet \<or>
      k = KindQuietHotspot \<and> qs_Active quiet \<and> (qs_ForceLogout quiet \<longrightarrow> sweep_finished env cfg quiet sweep)))"

lemma sends_from: "sends P m0 m' \<Longrightarrow> mt_sent m0 = mt_sent m \<Longrightarrow> mt_keys m0 = mt_keys m \<Longrightarrow> sends P m m'"
  by (simp add: sends_def)

lemma sends_schedule:
  "sends (quiet_ok env cfg quiet (mt_sweep m)) m (scheduleQuietSwitch env cfg quiet now m)"
proof -
  let ?active = "sel_ActiveCampusID (cf_Selection cfg)"
  define s where "s = (if qs_Active quiet \<and> qw_occurrence (mt_quietSwitch m) \<noteq> qs_Occurrence quiet
      then zero_quiet_switch\<lparr>qw_occurrence := qs_Occurrence quiet\<rparr> else mt_quietSwitch m)"
  define hot where "hot = (if sel_ActiveHotspotID (cf_Selection cfg) = [] then sel_DefaultHotspotID (cf_Selection cfg)
      else sel_ActiveHotspotID (cf_Selection cfg))"
  define sw where "sw = enter_occurrence (qs_Occurrence quiet) (mt_sweep m)"
  show ?thesis
  proof (cases "mo_manuallyPaused env cfg ?active \<or> \<not> cf_Enabled cfg \<or> \<not> fo_Enabled (cf_Failover cfg) \<or>
      qw_inFlight s \<noteq> [] \<or> now < qw_dueAt s \<or> CampusAccountByID cfg ?active = None")
    case True
    then show ?thesis by (intro sends_frame) (auto simp: scheduleQuietSwitch_def Let_def s_def)
  next
    case False
    show ?thesis
    proof (cases "qs_Active quiet")
      case False
      with \<open>\<not> (_ \<or> _)\<close> have eq: "scheduleQuietSwitch env cfg quiet now m =
          (if qw_owned s then submit_quiet env KindQuietCampus cfg (set_quiet s m) else set_quiet s m)"
        by (auto simp: scheduleQuietSwitch_def Let_def s_def)
      have "sends (quiet_ok env cfg quiet (mt_sweep m)) (set_quiet s m) (submit_quiet env KindQuietCampus cfg (set_quiet s m))"
        by (rule sends_mono [OF sends_submit_quiet]) (use False \<open>\<not> (_ \<or> _)\<close> in \<open>auto simp: quiet_ok_def\<close>)
      then show ?thesis unfolding eq by (auto intro: sends_frame sends_from)
    next
      case True
      define waiting where "waiting \<longleftrightarrow> qs_ForceLogout quiet \<and> \<not> sweep_finished env cfg quiet (mt_sweep m)"
      define m0 where "m0 = (if qs_ForceLogout quiet then (set_quiet s m)\<lparr>mt_sweep := sw\<rparr> else set_quiet s m)"
      have m0: "mt_sent m0 = mt_sent m" "mt_keys m0 = mt_keys m" by (simp_all add: m0_def)
      have eq: "scheduleQuietSwitch env cfg quiet now m = (if qw_done s then set_quiet s m else if waiting then m0
          else submit_quiet env KindQuietHotspot cfg (set_quiet (s\<lparr>qw_hotspotID := hot\<rparr>) m0))"
      proof -
        have pend: "(\<exists>t \<in> set (snd (Pending (qs_Occurrence quiet) (ForcedLogoutTargets cfg) (mt_sweep (set_quiet s m)))).
            \<not> mo_manuallyPaused env cfg (tg_AccountID t)) \<longleftrightarrow> \<not> sweep_finished env cfg quiet (mt_sweep m)"
          by (auto simp: Pending_def sweep_finished_def Let_def)
        have sweep: "fst (Pending (qs_Occurrence quiet) (ForcedLogoutTargets cfg) (mt_sweep (set_quiet s m))) = sw"
          by (simp add: Pending_def sw_def Let_def)
        have go: "mo_manuallyPaused env cfg ?active = False" "cf_Enabled cfg = True" "fo_Enabled (cf_Failover cfg) = True"
            "qw_inFlight s = []" "(now < qw_dueAt s) = False" "(CampusAccountByID cfg ?active = None) = False"
          using False by simp_all
        show ?thesis
          unfolding scheduleQuietSwitch_def Let_def s_def [symmetric] hot_def [symmetric] split_beta pend sweep go
          by (simp add: True m0_def waiting_def)
      qed
      have "sends (quiet_ok env cfg quiet (mt_sweep m)) m (submit_quiet env KindQuietHotspot cfg (set_quiet q m0))"
        if "\<not> waiting" for q
        by (rule sends_from [OF sends_mono [OF sends_submit_quiet [of KindQuietHotspot cfg "set_quiet q m0"]]]) (use True that \<open>\<not> (_ \<or> _)\<close> m0 in \<open>auto simp: quiet_ok_def waiting_def\<close>)
      then show ?thesis unfolding eq using m0 by (auto intro: sends_frame)
    qed
  qed
qed

subsection \<open>One pass as a whole\<close>

lemma reset_frames [simp]:
  "mt_sent (reset_revision cfg m) = mt_sent m" "mt_keys (reset_revision cfg m) = mt_keys m"
  "mt_pause (reset_revision cfg m) = mt_pause m" "mt_revision (reset_revision cfg m) = cf_Revision cfg"
  "mt_results (reset_revision cfg m) = mt_results m" "mt_coord (reset_revision cfg m) = mt_coord m"
  by (simp_all add: reset_revision_def)

lemma update_pause_frames [simp]:
  "mt_sent (update_pause cfg quiet now m) = mt_sent m" "mt_keys (update_pause cfg quiet now m) = mt_keys m"
  "mt_accounts (update_pause cfg quiet now m) = mt_accounts m" "mt_sweep (update_pause cfg quiet now m) = mt_sweep m"
  "mt_quietSwitch (update_pause cfg quiet now m) = mt_quietSwitch m"
  "mt_occurrence (update_pause cfg quiet now m) = mt_occurrence m"
  "mt_revision (update_pause cfg quiet now m) = mt_revision m" "mt_results (update_pause cfg quiet now m) = mt_results m"
  "mt_pause (update_pause cfg quiet now m) = Derive 0 (cf_Enabled cfg) (qs_Active quiet)"
  "mt_coord (update_pause cfg quiet now m) = mt_coord m"
  by (simp_all add: update_pause_def Let_def)

lemma Derive_zero: "Derive 0 enabled active = 0 \<longleftrightarrow> enabled \<and> \<not> active"
  by (simp add: Derive_def Let_def derivedReasons_def With_def Without_def pause_bit_def pauseOrder_def)

lemma AllowsMaintenance_pass [simp]:
  "AllowsMaintenance (Derive 0 enabled active) \<longleftrightarrow> enabled \<and> \<not> active"
  by (simp add: AllowsMaintenance_def Empty_def Derive_zero)

lemma account_of_pause [simp]: "account_of i (update_pause cfg quiet now m) = account_of i m"
  by (simp add: account_of_def)

text \<open>The state in which a pass reaches its three submitting parts, and what it does to the rest.\<close>

definition quiet_at :: "Config \<Rightarrow> instant \<Rightarrow> QuietState" where
  "quiet_at cfg now = EvaluateQuiet (cf_Quiet cfg) now"

lemma quiet_occurrence: "qs_Active (quiet_at cfg now) \<Longrightarrow> qs_Occurrence (quiet_at cfg now) \<noteq> []"
  using quiet_state_exact by (simp add: quiet_at_def)

definition pass_start :: "Config \<Rightarrow> instant \<Rightarrow> 'c Maintainer \<Rightarrow> 'c Maintainer" where
  "pass_start cfg now m = update_pause cfg (quiet_at cfg now) now (reset_revision cfg m)"

definition sweeping :: "Config \<Rightarrow> instant \<Rightarrow> bool" where
  "sweeping cfg now \<longleftrightarrow> cf_Enabled cfg \<and> qs_Active (quiet_at cfg now) \<and> qs_ForceLogout (quiet_at cfg now)"

definition pass_swept :: "'c MaintEnv \<Rightarrow> Config \<Rightarrow> instant \<Rightarrow> 'c Maintainer \<Rightarrow> 'c Maintainer" where
  "pass_swept env cfg now m = (if sweeping cfg now then sweepQuietHours env cfg (quiet_at cfg now) now (pass_start cfg now m)
     else pass_start cfg now m)"

definition pass_moved :: "'c MaintEnv \<Rightarrow> Config \<Rightarrow> instant \<Rightarrow> 'c Maintainer \<Rightarrow> 'c Maintainer" where
  "pass_moved env cfg now m = scheduleQuietSwitch env cfg (quiet_at cfg now) now (pass_swept env cfg now m)"

lemma sweepQuietHours_frames [simp]:
  "mt_pause (sweepQuietHours env cfg quiet now m) = mt_pause m"
  "mt_quietSwitch (sweepQuietHours env cfg quiet now m) = mt_quietSwitch m"
  "mt_occurrence (sweepQuietHours env cfg quiet now m) = qs_Occurrence quiet"
  "mt_revision (sweepQuietHours env cfg quiet now m) = mt_revision m"
  "mt_results (sweepQuietHours env cfg quiet now m) = mt_results m"
  "mt_sweep (sweepQuietHours env cfg quiet now m) = enter_occurrence (qs_Occurrence quiet) (mt_sweep m)"
  by (simp_all add: sweepQuietHours_def Let_def Pending_def fold_frames)

lemma pass_pause [simp]: "AllowsMaintenance (mt_pause (pass_moved env cfg now m)) \<longleftrightarrow>
    cf_Enabled cfg \<and> \<not> qs_Active (quiet_at cfg now)"
  by (simp add: pass_moved_def pass_swept_def pass_start_def)

lemma tick_state:
  "fst (tick env cfg now m) = (if cf_Enabled cfg \<and> \<not> qs_Active (quiet_at cfg now)
     then maintain env cfg now (pass_moved env cfg now m) else pass_moved env cfg now m)"
proof -
  have "fst (tick env cfg now m) = (if AllowsMaintenance (mt_pause (pass_moved env cfg now m))
      then maintain env cfg now (pass_moved env cfg now m) else pass_moved env cfg now m)"
    unfolding tick_def Let_def pass_moved_def pass_swept_def pass_start_def sweeping_def quiet_at_def fst_conv ..
  then show ?thesis by simp
qed

lemma tick_wake: "snd (tick env cfg now m) = nextWake env cfg (quiet_at cfg now) now (fst (tick env cfg now m))"
  by (simp add: tick_def Let_def quiet_at_def)

definition sent_by :: "'c Maintainer \<Rightarrow> 'c Maintainer \<Rightarrow> Request list" where
  "sent_by m m' = drop (length (mt_sent m)) (mt_sent m')"

lemma sent_by_append: "mt_sent m' = mt_sent m @ new \<Longrightarrow> sent_by m m' = new"
  by (simp add: sent_by_def)

lemma FLT_distinct: "distinct (map ca_ID (cf_CampusAccounts cfg)) \<Longrightarrow> distinct (map tg_AccountID (ForcedLogoutTargets cfg))"
proof -
  assume d: "distinct (map ca_ID (cf_CampusAccounts cfg))"
  have "distinct (map tg_AccountID (Managed cfg))"
    using d by (simp add: Managed_def ManagedWiredAccounts_def comp_def distinct_map_filter)
  then show ?thesis
    by (auto simp: ForcedLogoutTargets_def Let_def CampusAccountByID_def find_Some_iff split: option.splits)
qed

definition due :: "'c MaintEnv \<Rightarrow> Config \<Rightarrow> instant \<Rightarrow> 'c Maintainer \<Rightarrow> string \<Rightarrow> bool" where
  "due env cfg now m i \<longleftrightarrow> \<not> mo_manuallyPaused env cfg i \<and>
     \<not> (i = sel_ActiveCampusID (cf_Selection cfg) \<and> fo_Enabled (cf_Failover cfg) \<and> qw_owned (mt_quietSwitch m)) \<and>
     i \<notin> set (contested env cfg) \<and> as_inFlight (account_of i m) = [] \<and> as_dueAt (account_of i m) \<le> now"

definition unswept :: "Config \<Rightarrow> instant \<Rightarrow> 'c Maintainer \<Rightarrow> string \<Rightarrow> bool" where
  "unswept cfg now m i \<longleftrightarrow> \<not> is_done (enter_occurrence (qs_Occurrence (quiet_at cfg now)) (mt_sweep m)) i"

lemma maintain_sent:
  assumes "distinct (map ca_ID (cf_CampusAccounts cfg))"
  shows "\<exists>new. mt_sent (maintain env cfg now m) = mt_sent m @ new \<and>
     map r_AccountID new = filter (eligible env cfg now (contested env cfg) m) (map tg_AccountID (ForcedLogoutTargets cfg)) \<and>
     list_all (\<lambda>r. r_Kind r = KindMaintain \<and> r_ConfigRevision r = cf_Revision cfg) new"
proof (cases "ForcedLogoutTargets cfg = []")
  case False
  let ?m = "snd (reportConflicts env (ForcedLogoutTargets cfg) now m)"
  have "eligible env cfg now (contested env cfg) ?m = eligible env cfg now (contested env cfg) m"
    by (simp add: fun_eq_iff eligible_def account_of_def)
  then show ?thesis
    using maintain_fold_sent [OF FLT_distinct [OF assms], of env cfg now "contested env cfg" ?m] False
    by (simp add: maintain_def Let_def split_beta)
qed (simp add: maintain_def)

lemma sweep_sent:
  assumes "distinct (map ca_ID (cf_CampusAccounts cfg))"
  shows "\<exists>new. mt_sent (sweepQuietHours env cfg (quiet_at cfg now) now m) = mt_sent m @ new \<and>
     map r_AccountID new = filter (sweepable env cfg now m)
       (filter (unswept cfg now m) (map tg_AccountID (ForcedLogoutTargets cfg))) \<and>
     list_all (\<lambda>r. r_Kind r = KindForcedLogout \<and> r_ConfigRevision r = cf_Revision cfg) new"
proof -
  let ?q = "quiet_at cfg now" and ?sw = "enter_occurrence (qs_Occurrence (quiet_at cfg now)) (mt_sweep m)"
  let ?m = "m\<lparr>mt_occurrence := qs_Occurrence ?q, mt_sweep := ?sw\<rparr>"
  let ?ts = "filter (\<lambda>t. \<not> is_done ?sw (tg_AccountID t)) (ForcedLogoutTargets cfg)"
  have ids: "map tg_AccountID ?ts = filter (unswept cfg now m) (map tg_AccountID (ForcedLogoutTargets cfg))"
    by (simp add: filter_map comp_def unswept_def)
  have "distinct (map tg_AccountID ?ts)" unfolding ids using FLT_distinct [OF assms] by simp
  moreover have "sweepable env cfg now ?m = sweepable env cfg now m"
    by (simp add: fun_eq_iff sweepable_def account_of_def)
  ultimately show ?thesis
    using sweep_fold_sent [of ?ts env cfg ?q now ?m] by (simp add: sweepQuietHours_def Pending_def Let_def ids)
qed

end
