(* ===== verification/Maintain_Claims.thy ===== *)
theory Maintain_Claims
  imports Maintain_Props Coordinator
begin

text \<open>
  What the maintenance loop guarantees: which accounts a pass attempts and logs out, that its requests are
  well formed and never reuse a key, when it wakes up, and that it never leaves for the hotspot before the
  logout sweep is finished.
\<close>

lemma filter_none: "list_all (\<lambda>r. r_Kind r = k) rs \<Longrightarrow> k \<noteq> k' \<Longrightarrow> filter (\<lambda>r. r_Kind r = k') rs = []"
  by (induction rs) auto

lemma filter_kind: "list_all (\<lambda>r. r_Kind r = k) rs \<Longrightarrow> filter (\<lambda>r. r_Kind r = k) rs = rs"
  by (induction rs) auto

lemma list_all_kind: "list_all (\<lambda>r. r_Kind r = k \<and> P r) rs \<Longrightarrow> list_all (\<lambda>r. r_Kind r = k) rs"
  by (auto simp: list_all_iff)

lemma sends_sent: "sends P m m' \<Longrightarrow> \<exists>new. mt_sent m' = mt_sent m @ new \<and> list_all P new"
  by (auto simp: sends_def)

lemma schedule_other_kinds:
  assumes "k \<noteq> KindQuietHotspot" and "k \<noteq> KindQuietCampus"
  shows "\<exists>new. mt_sent (scheduleQuietSwitch env cfg quiet now m) = mt_sent m @ new \<and> filter (\<lambda>r. r_Kind r = k) new = []"
proof -
  obtain new where "mt_sent (scheduleQuietSwitch env cfg quiet now m) = mt_sent m @ new"
      "list_all (quiet_ok env cfg quiet (mt_sweep m)) new"
    using sends_sent [OF sends_schedule] by blast
  then show ?thesis using assms by (force simp: list_all_iff quiet_ok_def filter_empty_conv)
qed

lemma pass_swept_sent:
  assumes "distinct (map ca_ID (cf_CampusAccounts cfg))"
  shows "\<exists>new. mt_sent (pass_swept env cfg now m) = mt_sent m @ new \<and> list_all (\<lambda>r. r_Kind r = KindForcedLogout) new \<and>
    map r_AccountID new = (if sweeping cfg now
     then filter (\<lambda>i. unswept cfg now (reset_revision cfg m) i \<and> sweepable env cfg now (reset_revision cfg m) i)
       (map tg_AccountID (ForcedLogoutTargets cfg)) else [])"
proof (cases "sweeping cfg now")
  case True
  let ?s = "pass_start cfg now m"
  have "unswept cfg now ?s = unswept cfg now (reset_revision cfg m)"
      "sweepable env cfg now ?s = sweepable env cfg now (reset_revision cfg m)" "mt_sent ?s = mt_sent m"
    by (simp_all add: fun_eq_iff unswept_def sweepable_def pass_start_def)
  with sweep_sent [OF assms, of env now ?s] True show ?thesis
    by (auto simp: pass_swept_def dest: list_all_kind)
qed (simp add: pass_swept_def pass_start_def)

lemma maintain_kind_sent:
  assumes "distinct (map ca_ID (cf_CampusAccounts cfg))"
  shows "\<exists>new. mt_sent (maintain env cfg now m) = mt_sent m @ new \<and> list_all (\<lambda>r. r_Kind r = KindMaintain) new \<and>
     map r_AccountID new = filter (eligible env cfg now (contested env cfg) m) (map tg_AccountID (ForcedLogoutTargets cfg))"
  using maintain_sent [OF assms, of env now m] by (auto dest: list_all_kind)

text \<open>
  C15: a pass submits an ordinary attempt for exactly the accounts that are due, in order. While the
  service is disabled or quiet hours are on it submits none; otherwise, for every maintained account and
  the active one, it submits one attempt if and only if nobody paused the account by hand, the account is
  not waiting for the scheduled return from the hotspot, no other target shares its line, it has no
  attempt in flight, and its wait is over. All judged in the state the pass starts from, after a changed
  configuration has reset it.
\<close>

theorem pass_attempts_due_accounts:
  assumes "distinct (map ca_ID (cf_CampusAccounts cfg))"
  shows "map r_AccountID (filter (\<lambda>r. r_Kind r = KindMaintain) (sent_by m (fst (tick env cfg now m)))) =
    (if cf_Enabled cfg \<and> \<not> qs_Active (quiet_at cfg now)
     then filter (due env cfg now (reset_revision cfg m)) (map tg_AccountID (ForcedLogoutTargets cfg)) else [])"
proof -
  let ?q = "quiet_at cfg now" and ?s = "pass_start cfg now m" and ?w = "pass_swept env cfg now m" and ?v = "pass_moved env cfg now m"
  obtain a where a: "mt_sent ?w = mt_sent m @ a" "filter (\<lambda>r. r_Kind r = KindMaintain) a = []"
    using pass_swept_sent [OF assms, of env now m] filter_none [of KindForcedLogout _ KindMaintain] by auto
  obtain b where b: "mt_sent ?v = mt_sent ?w @ b" "filter (\<lambda>r. r_Kind r = KindMaintain) b = []"
    using schedule_other_kinds [of KindMaintain env cfg ?q now ?w] by (auto simp: pass_moved_def)
  show ?thesis
  proof (cases "cf_Enabled cfg \<and> \<not> qs_Active ?q")
    case False
    then show ?thesis using a b by (auto simp: tick_state sent_by_def)
  next
    case True
    then have "sweeping cfg now = False" by (simp add: sweeping_def)
    then have v: "account_of i ?v = account_of i (reset_revision cfg m)"
        "qw_owned (mt_quietSwitch ?v) = (qw_owned (mt_quietSwitch (reset_revision cfg m)) \<and>
           \<not> mo_manuallyPaused env cfg (sel_ActiveCampusID (cf_Selection cfg)) \<and> fo_Enabled (cf_Failover cfg))" for i
      using True schedule_owned [of ?q env cfg now ?w] by (simp_all add: pass_moved_def pass_swept_def pass_start_def)
    have "eligible env cfg now (contested env cfg) ?v = due env cfg now (reset_revision cfg m)"
      by (auto simp: fun_eq_iff eligible_def due_def v)
    moreover obtain c where "mt_sent (maintain env cfg now ?v) = mt_sent ?v @ c"
        "map r_AccountID c = filter (eligible env cfg now (contested env cfg) ?v) (map tg_AccountID (ForcedLogoutTargets cfg))"
        "filter (\<lambda>r. r_Kind r = KindMaintain) c = c"
      using maintain_kind_sent [OF assms, of env now ?v] filter_kind by blast
    ultimately show ?thesis using a b True by (auto simp: tick_state sent_by_def)
  qed
qed

text \<open>
  Inside quiet hours that ask for it, a pass queues a forced logout for exactly the targets that have
  not been logged out in this visit, are not paused by hand, have neither a logout nor an attempt in
  flight, and whose wait after the last logout try is over; at any other time it queues none.
\<close>

theorem sweep_logs_out_pending_accounts:
  assumes "distinct (map ca_ID (cf_CampusAccounts cfg))"
  shows "map r_AccountID (filter (\<lambda>r. r_Kind r = KindForcedLogout) (sent_by m (fst (tick env cfg now m)))) =
    (if sweeping cfg now
     then filter (\<lambda>i. unswept cfg now (reset_revision cfg m) i \<and> sweepable env cfg now (reset_revision cfg m) i)
       (map tg_AccountID (ForcedLogoutTargets cfg)) else [])"
proof -
  let ?q = "quiet_at cfg now" and ?s = "pass_start cfg now m" and ?w = "pass_swept env cfg now m" and ?v = "pass_moved env cfg now m"
  let ?L = "filter (\<lambda>r. r_Kind r = KindForcedLogout)"
  obtain a where a: "mt_sent ?w = mt_sent m @ a" "?L a = a" "map r_AccountID a = (if sweeping cfg now
     then filter (\<lambda>i. unswept cfg now (reset_revision cfg m) i \<and> sweepable env cfg now (reset_revision cfg m) i)
       (map tg_AccountID (ForcedLogoutTargets cfg)) else [])"
    using pass_swept_sent [OF assms, of env now m] filter_kind by blast
  obtain b where b: "mt_sent ?v = mt_sent ?w @ b" "?L b = []"
    using schedule_other_kinds [of KindForcedLogout env cfg ?q now ?w] by (auto simp: pass_moved_def)
  obtain c where c: "mt_sent (maintain env cfg now ?v) = mt_sent ?v @ c" "?L c = []"
    using maintain_kind_sent [OF assms, of env now ?v] filter_none [of KindMaintain _ KindForcedLogout] by blast
  have "?L (sent_by m (fst (tick env cfg now m))) = a"
    using a(1,2) b c by (simp add: tick_state sent_by_def)
  then show ?thesis using a(3) by simp
qed

subsection \<open>Every request is well formed, every key is new\<close>

lemma valid_requests:
  assumes "key \<noteq> []"
  shows "i \<noteq> [] \<Longrightarrow> Request_Validate (maintain_request cfg i key) = None"
    and "i \<noteq> [] \<Longrightarrow> Request_Validate (sweep_request cfg i key) = None"
    and "sel_ActiveCampusID (cf_Selection cfg) \<noteq> [] \<Longrightarrow> h \<noteq> [] \<Longrightarrow> k = KindQuietHotspot \<or> k = KindQuietCampus \<Longrightarrow>
      Request_Validate (quiet_request k cfg h key) = None"
  using assms
  by (auto simp: Request_Validate_def maintain_request_def sweep_request_def quiet_request_def zero_request_def
      Kind_Valid_def kinds_def WifiSetup_def Discovery_def Let_def ContainsAny_def)

definition named :: "Config \<Rightarrow> bool" where
  "named cfg \<longleftrightarrow> (\<forall>a \<in> set (cf_CampusAccounts cfg). ca_ID a \<noteq> []) \<and> (\<forall>h \<in> set (cf_HotspotProfiles cfg). hp_ID h \<noteq> [])"

lemma Validate_named: "Validate tables cfg = [] \<Longrightarrow> named cfg \<and> distinct (map ca_ID (cf_CampusAccounts cfg))"
  by (auto simp: Validate_Nil config_ok_def account_ok_def hotspot_ok_def named_def)

lemma FLT_named: "named cfg \<Longrightarrow> t \<in> set (ForcedLogoutTargets cfg) \<Longrightarrow> tg_AccountID t \<noteq> []"
  by (auto simp: named_def ForcedLogoutTargets_def Managed_def ManagedWiredAccounts_def CampusAccountByID_def Let_def
      find_Some_iff split: if_splits option.splits)

lemma sends_maintain:
  assumes "named cfg"
  shows "sends (\<lambda>r. Request_Validate r = None) m (maintain env cfg now m)"
proof (cases "ForcedLogoutTargets cfg = []")
  case False
  have "sends (\<lambda>r. Request_Validate r = None) m' (maintain_target env cfg now blocked t m')"
    if "t \<in> set (ForcedLogoutTargets cfg)" for t m' blocked
    by (rule sends_mono [OF sends_maintain_target]) (use valid_requests(1) FLT_named [OF assms that] in auto)
  then have all: "sends (\<lambda>r. Request_Validate r = None) m0 (fold (maintain_target env cfg now blocked) (ForcedLogoutTargets cfg) m0)"
    for blocked m0 by (rule sends_fold)
  then show ?thesis using False by (simp add: maintain_def Let_def split_beta sends_from [OF all])
qed (simp add: maintain_def)

lemma sends_sweep:
  assumes "named cfg"
  shows "sends (\<lambda>r. Request_Validate r = None) m (sweepQuietHours env cfg quiet now m)"
proof -
  have "sends (\<lambda>r. Request_Validate r = None) m' (sweep_target env cfg quiet now t m')"
    if "t \<in> set (ForcedLogoutTargets cfg)" for t m'
    by (rule sends_mono [OF sends_sweep_target]) (use valid_requests(2) FLT_named [OF assms that] in auto)
  then have all: "sends (\<lambda>r. Request_Validate r = None) m0
      (fold (sweep_target env cfg quiet now) (filter P (ForcedLogoutTargets cfg)) m0)" for P m0
    by (intro sends_fold) simp
  then show ?thesis by (simp add: sweepQuietHours_def Pending_def Let_def sends_from [OF all])
qed

lemma sends_move:
  assumes "named cfg"
  shows "sends (\<lambda>r. Request_Validate r = None) m (scheduleQuietSwitch env cfg quiet now m)"
proof (rule sends_mono [OF sends_schedule])
  fix r
  assume "quiet_ok env cfg quiet (mt_sweep m) r"
  then obtain k h key where r: "r = quiet_request k cfg h key" "key \<noteq> []" "k = KindQuietHotspot \<or> k = KindQuietCampus"
      and found: "HotspotByID cfg h \<noteq> None" "CampusAccountByID cfg (sel_ActiveCampusID (cf_Selection cfg)) \<noteq> None"
    by (auto simp: quiet_ok_def)
  from found assms have "h \<noteq> []" "sel_ActiveCampusID (cf_Selection cfg) \<noteq> []"
    by (auto simp: named_def HotspotByID_def CampusAccountByID_def find_None_iff)
  with r show "Request_Validate r = None" by (simp add: valid_requests(3))
qed

lemma sends_tick:
  assumes "named cfg"
  shows "sends (\<lambda>r. Request_Validate r = None) m (fst (tick env cfg now m))"
proof -
  let ?P = "\<lambda>r. Request_Validate r = None"
  have "sends ?P m (pass_start cfg now m)" by (rule sends_frame) (simp_all add: pass_start_def)
  also have "sends ?P (pass_start cfg now m) (pass_swept env cfg now m)"
    by (simp add: pass_swept_def sends_sweep [OF assms])
  also have "sends ?P (pass_swept env cfg now m) (pass_moved env cfg now m)"
    by (simp add: pass_moved_def sends_move [OF assms])
  also have "sends ?P (pass_moved env cfg now m) (fst (tick env cfg now m))"
    by (simp add: tick_state sends_maintain [OF assms])
  finally show ?thesis .
qed

lemma apply_result_sent:
  "apply_result a cfg now m = Some m' \<Longrightarrow> mt_sent m' = mt_sent m \<and> mt_keys m' = mt_keys m"
  by (auto simp: apply_result_def applyQuietSwitch_def apply_sweep_def apply_owned_def apply_failure_def Let_def split_beta
      split: if_splits State.splits option.splits)

lemma apply_all_sent:
  "apply_all readings n as m = Some m' \<Longrightarrow> mt_sent m' = mt_sent m \<and> mt_keys m' = mt_keys m"
proof (induction as arbitrary: n m)
  case (Cons a as)
  then obtain m1 where "apply_result a (fst (readings n)) (snd (readings n)) m = Some m1"
      "apply_all readings (Suc n) as m1 = Some m'"
    by (auto simp: bind_eq_Some_conv)
  with Cons.IH apply_result_sent show ?case by metis
qed simp

lemma deliver_sent: "deliver readings m = Some m' \<Longrightarrow> mt_sent m' = mt_sent m \<and> mt_keys m' = mt_keys m"
  using apply_all_sent by (fastforce simp: deliver_def takeResults_def Let_def)

lemma Observe_sent [simp]:
  "mt_sent (Observe cfg a m) = mt_sent m" "mt_keys (Observe cfg a m) = mt_keys m"
  by (simp_all add: Observe_def store_result_def Let_def split: option.splits)

lemma loop_step_sends: "loop_step named m m' \<Longrightarrow> sends (\<lambda>r. Request_Validate r = None) m m'"
  by (induction rule: loop_step.induct) (auto intro: sends_tick sends_frame simp: ConfigurationChanged_def dest: deliver_sent)

definition keys_inv :: "'c Maintainer \<Rightarrow> bool" where
  "keys_inv m \<longleftrightarrow> list_all (\<lambda>r. Request_Validate r = None) (mt_sent m) \<and> sorted_wrt (<) (numbers (mt_sent m)) \<and>
     (\<forall>n \<in> set (numbers (mt_sent m)). n \<le> mt_keys m)"

lemma keys_inv_sends:
  assumes "keys_inv m" and "sends (\<lambda>r. Request_Validate r = None) m m'"
  shows "keys_inv m'"
proof -
  obtain new where new: "mt_sent m' = mt_sent m @ new" "list_all (\<lambda>r. Request_Validate r = None) new"
      "sorted_wrt (<) (numbers new)" "\<forall>n \<in> set (numbers new). mt_keys m < n \<and> n \<le> mt_keys m'" "mt_keys m \<le> mt_keys m'"
    using assms(2) by (auto simp: sends_def)
  have "numbers (mt_sent m') = numbers (mt_sent m) @ numbers new" by (simp add: numbers_def new(1))
  moreover have "x < y" if "x \<in> set (numbers (mt_sent m))" "y \<in> set (numbers new)" for x y
    using assms(1) new(4) that by (force simp: keys_inv_def)
  ultimately show ?thesis using assms(1) new by (force simp: keys_inv_def sorted_wrt_append)
qed

lemma new_maintainer_frames:
  assumes "NewMaintainer coord cfg now resume = Some m"
  shows "mt_sent m = []" and "mt_keys m = 0" and "mt_results m = []" and "mt_resultOrder m = 0" and "mt_accounts m = []"
  using assms by (auto simp: NewMaintainer_def Let_def split: option.splits if_splits)

interpretation loop_keys: state_machine loop_start "loop_step named" keys_inv
proof
  show "keys_inv m" if "loop_start m" for m :: "'c Maintainer"
    using that by (auto simp: loop_start_def keys_inv_def numbers_def dest: new_maintainer_frames)
  show "keys_inv m'" if "keys_inv m" "loop_step named m m'" for m m' :: "'c Maintainer"
    using keys_inv_sends that loop_step_sends by blast
qed

text \<open>
  On every run of the loop, with configurations that name their accounts and hotspots, every request
  it ever handed to the coordinator is well formed and no two of them carry the same idempotency key. So
  the coordinator never refuses one as malformed, and a retry after a failure is a new action instead of
  the cached result of the old one.
\<close>

theorem loop_requests_valid_and_fresh:
  assumes "loop_start m" and "(loop_step named)\<^sup>*\<^sup>* m m'"
  shows "distinct (map r_IdempotencyKey (mt_sent m')) \<and>
    list_all (\<lambda>r. Submit limits env r c = onSubmit limits env r c) (mt_sent m')"
proof -
  have inv: "keys_inv m'" using loop_keys.inv_reachable assms by blast
  then have "distinct (numbers (mt_sent m'))"
    by (auto simp: keys_inv_def strict_sorted_iff)
  then have "distinct (map r_IdempotencyKey (mt_sent m'))"
    using distinct_map [of key_number "map r_IdempotencyKey (mt_sent m')"] by (simp add: numbers_def comp_def)
  then show ?thesis using inv by (auto simp: keys_inv_def Submit_def list_all_iff)
qed

subsection \<open>When the loop wakes up\<close>

lemma consider_wake_le: "consider_wake env cfg m x w \<le> w"
  by (simp add: consider_wake_def split: prod.splits)

lemma fold_wake_le: "fold (consider_wake env cfg m) xs w \<le> w"
proof (induction xs arbitrary: w)
  case (Cons x xs)
  show ?case by (simp, rule order_trans [OF Cons.IH consider_wake_le])
qed simp

definition wakes_for :: "'c MaintEnv \<Rightarrow> Config \<Rightarrow> 'c Maintainer \<Rightarrow> string \<Rightarrow> accountState \<Rightarrow> bool" where
  "wakes_for env cfg m i state \<longleftrightarrow> \<not> mo_manuallyPaused env cfg i \<and>
     \<not> (i = sel_ActiveCampusID (cf_Selection cfg) \<and> qw_owned (mt_quietSwitch m)) \<and>
     as_inFlight state = [] \<and> as_dueAt state \<noteq> 0"

lemma fold_wake_due:
  "(i, state) \<in> set xs \<Longrightarrow> wakes_for env cfg m i state \<Longrightarrow> fold (consider_wake env cfg m) xs w \<le> as_dueAt state"
proof (induction xs arbitrary: w)
  case (Cons x xs)
  show ?case
  proof (cases "(i, state) \<in> set xs")
    case False
    with Cons.prems have "consider_wake env cfg m x w \<le> as_dueAt state"
      by (auto simp: consider_wake_def wakes_for_def)
    then show ?thesis using fold_wake_le [of env cfg m xs "consider_wake env cfg m x w"] by simp
  qed (use Cons in simp)
qed simp

lemma checkInterval_pos: "second \<le> checkInterval cfg"
  by (simp add: checkInterval_def Let_def second_def)

lemma quiet_next:
  assumes "window_ok (Window (cf_Quiet cfg))" and "0 \<le> now" and "qs_HasNext (quiet_at cfg now)"
  shows "now < qs_Next (quiet_at cfg now)"
proof -
  have "\<not> IsEmpty (Window (cf_Quiet cfg))"
    using assms(3) by (auto simp: quiet_at_def EvaluateQuiet_def zero_quiet_def Let_def NextBoundary_def split: if_splits)
  with NextBoundary_eq [OF assms(1) this assms(2)]
  have "NextBoundary (Window (cf_Quiet cfg)) now = Some (local_day now * day_ns - beijing_ns +
      next_offset (start_ns (Window (cf_Quiet cfg))) (end_ns (Window (cf_Quiet cfg))) (tod now))" by simp
  moreover have "tod now < next_offset (start_ns (Window (cf_Quiet cfg))) (end_ns (Window (cf_Quiet cfg))) (tod now)"
    using window_range [OF assms(1)] tod_range [of now] \<open>\<not> IsEmpty _\<close>
    by (intro next_offset_bounds(1)) (auto simp: IsEmpty_def start_ns_def end_ns_def minute_ns_def)
  ultimately show ?thesis using assms(3) instant_split [of now]
    by (auto simp: quiet_at_def EvaluateQuiet_def zero_quiet_def Let_def split: if_splits)
qed

text \<open>
  A pass always names an instant to wake up at that is not in the past and at most one check interval
  away; it never sleeps through the start or end of quiet hours, nor past the moment an idle account
  becomes due. While maintenance is suspended the instant lies strictly in the future, so the loop does
  not spin through quiet hours or while it is disabled.
\<close>

theorem wake_up_bounds:
  assumes "window_ok (Window (cf_Quiet cfg))" and "0 \<le> now"
  shows "now \<le> snd (tick env cfg now m) \<and> snd (tick env cfg now m) \<le> now + checkInterval cfg \<and>
    (qs_HasNext (quiet_at cfg now) \<longrightarrow> snd (tick env cfg now m) \<le> qs_Next (quiet_at cfg now)) \<and>
    (\<not> AllowsMaintenance (mt_pause (fst (tick env cfg now m))) \<longrightarrow> now < snd (tick env cfg now m)) \<and>
    (AllowsMaintenance (mt_pause (fst (tick env cfg now m))) \<longrightarrow>
      (\<forall>(i, state) \<in> set (mt_accounts (fst (tick env cfg now m))).
        wakes_for env cfg (fst (tick env cfg now m)) i state \<longrightarrow>
        snd (tick env cfg now m) \<le> max now (as_dueAt state)))"
proof -
  let ?m = "fst (tick env cfg now m)" and ?q = "quiet_at cfg now"
  define w0 where "w0 = (if qs_HasNext ?q \<and> qs_Next ?q < now + checkInterval cfg then qs_Next ?q else now + checkInterval cfg)"
  define w where "w = fold (consider_wake env cfg ?m) (mt_accounts ?m) w0"
  have wake: "snd (tick env cfg now m) = (if \<not> AllowsMaintenance (mt_pause ?m) then w0 else max now w)"
    by (simp add: tick_wake nextWake_def Let_def w0_def w_def max_def)
  have pos: "0 < checkInterval cfg" using checkInterval_pos [of cfg] by (simp add: second_def)
  then have "now < w0" using quiet_next [OF assms] by (simp add: w0_def)
  moreover have "w \<le> w0" unfolding w_def by (rule fold_wake_le)
  moreover have "w0 \<le> now + checkInterval cfg" "qs_HasNext ?q \<Longrightarrow> w0 \<le> qs_Next ?q" by (auto simp: w0_def)
  moreover have "w \<le> max now (as_dueAt state)" if "(i, state) \<in> set (mt_accounts ?m)" "wakes_for env cfg ?m i state" for i state
    unfolding w_def le_max_iff_disj using fold_wake_due [OF that] by blast
  ultimately show ?thesis unfolding wake by (auto intro: order_trans)
qed

subsection \<open>A refused submission\<close>

definition refusing :: "'c MaintEnv \<Rightarrow> bool" where
  "refusing env \<longleftrightarrow> (\<forall>r c. case snd (mo_submit env r c) of Inl _ \<Rightarrow> True | Inr _ \<Rightarrow> False)"

definition overdue :: "'c MaintEnv \<Rightarrow> Config \<Rightarrow> instant \<Rightarrow> string \<Rightarrow> 'c Maintainer \<Rightarrow> bool" where
  "overdue env cfg now i m \<longleftrightarrow> cf_Revision cfg = mt_revision m \<and>
     (case map_of (mt_accounts m) i of None \<Rightarrow> False
      | Some state \<Rightarrow> as_inFlight state = [] \<and> as_dueAt state \<noteq> 0 \<and> as_dueAt state \<le> now) \<and>
     \<not> mo_manuallyPaused env cfg i \<and> \<not> (i = sel_ActiveCampusID (cf_Selection cfg) \<and> qw_owned (mt_quietSwitch m))"

lemma known_stateFor: "map_of (mt_accounts m) i = Some s \<Longrightarrow> map_of (mt_accounts (snd (stateFor j m))) i = Some s"
  by (auto simp: stateFor_eq update_conv')

lemma refusing_target:
  assumes "refusing env" and "map_of (mt_accounts m) i = Some s"
  shows "map_of (mt_accounts (maintain_target env cfg now blocked t m)) i = Some s"
proof -
  have "mt_accounts (queue_request env r k now m0) = mt_accounts m0" for r k m0
    using assms(1) by (auto simp: refusing_def queue_request_def call_submit_eq split: sum.splits)
  then show ?thesis using assms(2) by (simp add: maintain_target_eq Let_def known_stateFor)
qed

lemma refusing_maintain:
  assumes "refusing env" and "map_of (mt_accounts m) i = Some s"
  shows "map_of (mt_accounts (maintain env cfg now m)) i = Some s"
proof -
  have "map_of (mt_accounts m0) i = Some s \<Longrightarrow>
      map_of (mt_accounts (fold (maintain_target env cfg now blocked) ts m0)) i = Some s" for blocked ts m0
    by (induction ts arbitrary: m0) (simp_all add: refusing_target [OF assms(1)])
  then show ?thesis using assms(2) by (simp add: maintain_def Let_def split_beta)
qed

lemma maintain_quiet [simp]: "mt_quietSwitch (maintain env cfg now m) = mt_quietSwitch m"
    "mt_revision (maintain env cfg now m) = mt_revision m" "mt_pause (maintain env cfg now m) = mt_pause m"
    "mt_sweep (maintain env cfg now m) = mt_sweep m" "mt_occurrence (maintain env cfg now m) = mt_occurrence m"
    "mt_results (maintain env cfg now m) = mt_results m"
  by (simp_all add: maintain_def Let_def split_beta fold_frames)

lemma refused_tick:
  assumes "refusing env" and "cf_Enabled cfg" and "\<not> qs_Active (quiet_at cfg now)" and "overdue env cfg now i m"
  shows "overdue env cfg now i (fst (tick env cfg now m)) \<and> snd (tick env cfg now m) = now"
proof -
  let ?v = "pass_moved env cfg now m" and ?m = "fst (tick env cfg now m)"
  obtain s where s: "map_of (mt_accounts m) i = Some s" "as_inFlight s = []" "as_dueAt s \<noteq> 0" "as_dueAt s \<le> now"
      "cf_Revision cfg = mt_revision m" "\<not> mo_manuallyPaused env cfg i"
      "\<not> (i = sel_ActiveCampusID (cf_Selection cfg) \<and> qw_owned (mt_quietSwitch m))"
    using assms(4) by (auto simp: overdue_def split: option.splits)
  have tick: "?m = maintain env cfg now ?v" using assms(2,3) by (simp add: tick_state)
  have start: "pass_swept env cfg now m = update_pause cfg (quiet_at cfg now) now m"
    using assms(3) s(5) by (simp add: pass_swept_def pass_start_def sweeping_def reset_revision_def)
  have acc: "map_of (mt_accounts ?m) i = Some s"
    unfolding tick using s(1) start by (intro refusing_maintain [OF assms(1)]) (simp add: pass_moved_def)
  have own: "\<not> (i = sel_ActiveCampusID (cf_Selection cfg) \<and> qw_owned (mt_quietSwitch ?m))"
    using s(7) schedule_owned [OF assms(3), of env cfg now "pass_swept env cfg now m"] start
    by (auto simp: tick pass_moved_def)
  have over: "overdue env cfg now i ?m"
    using acc own s start by (simp add: overdue_def) (simp add: tick pass_moved_def)
  have "(i, s) \<in> set (mt_accounts ?m)" using acc by (rule map_of_SomeD)
  moreover have "wakes_for env cfg ?m i s" using own s by (simp add: wakes_for_def)
  ultimately have "\<not> fold (consider_wake env cfg ?m) (mt_accounts ?m) w < now \<Longrightarrow>
      fold (consider_wake env cfg ?m) (mt_accounts ?m) w = now" for w
    using fold_wake_due [of i s "mt_accounts ?m" env cfg ?m w] s(4) by linarith
  moreover have "AllowsMaintenance (mt_pause ?m)" using assms(2,3) pass_pause [of env cfg now m] by (simp add: tick)
  ultimately have "snd (tick env cfg now m) = now" by (simp add: tick_wake nextWake_def Let_def)
  with over show ?thesis by simp
qed

text \<open>
  C17: when the coordinator refuses a submission (its queue is full, or it is stopping), the loop does not
  wait. If an account that has been attempted before is overdue, and the coordinator keeps refusing, every
  pass asks to be woken at once: however often the loop runs at that instant, it never sleeps.
\<close>

theorem refused_submission_spins:
  assumes "refusing env" and "cf_Enabled cfg" and "\<not> qs_Active (quiet_at cfg now)" and "overdue env cfg now i m"
  shows "snd (tick env cfg now (((\<lambda>s. fst (tick env cfg now s)) ^^ n) m)) = now"
proof -
  have "overdue env cfg now i (((\<lambda>s. fst (tick env cfg now s)) ^^ n) m)"
    by (induction n) (simp_all add: assms(4) refused_tick [OF assms(1-3)])
  then show ?thesis using refused_tick [OF assms(1-3)] by blast
qed

text \<open>
  The scheduled move to the hotspot is submitted only inside quiet hours, with the service and the
  failover enabled, for the active account and a hotspot that exists; and when the quiet hours ask for a
  forced logout, only after every target that nobody paused by hand has been logged out in this visit.
\<close>

theorem hotspot_only_after_sweep:
  assumes "r \<in> set (sent_by m (fst (tick env cfg now m)))" and "r_Kind r = KindQuietHotspot"
    and "distinct (map ca_ID (cf_CampusAccounts cfg))"
  shows "qs_Active (quiet_at cfg now) \<and> cf_Enabled cfg \<and> fo_Enabled (cf_Failover cfg) \<and>
    r_AccountID r = sel_ActiveCampusID (cf_Selection cfg) \<and> HotspotByID cfg (r_HotspotID r) \<noteq> None \<and>
    (qs_ForceLogout (quiet_at cfg now) \<longrightarrow> (\<forall>t \<in> set (ForcedLogoutTargets cfg).
       mo_manuallyPaused env cfg (tg_AccountID t) \<or> is_done (mt_sweep (fst (tick env cfg now m))) (tg_AccountID t)))"
proof -
  let ?q = "quiet_at cfg now" and ?w = "pass_swept env cfg now m" and ?v = "pass_moved env cfg now m"
  obtain a where a: "mt_sent ?w = mt_sent m @ a" "list_all (\<lambda>r. r_Kind r = KindForcedLogout) a"
    using pass_swept_sent [OF assms(3), of env now m] by blast
  obtain b where b: "mt_sent ?v = mt_sent ?w @ b" "list_all (quiet_ok env cfg ?q (mt_sweep ?w)) b"
    using sends_sent [OF sends_schedule] by (metis pass_moved_def)
  obtain c where c: "mt_sent (maintain env cfg now ?v) = mt_sent ?v @ c" "list_all (\<lambda>r. r_Kind r = KindMaintain) c"
    using maintain_kind_sent [OF assms(3), of env now ?v] by blast
  have "sent_by m (fst (tick env cfg now m)) = a @ b \<or> sent_by m (fst (tick env cfg now m)) = a @ b @ c"
    using a(1) b(1) c(1) by (auto simp: tick_state sent_by_def)
  then have "r \<in> set b" using assms(1,2) a(2) c(2) by (auto simp: list_all_iff)
  then have ok: "quiet_ok env cfg ?q (mt_sweep ?w) r" using b(2) by (simp add: list_all_iff)
  then have act: "qs_Active ?q" "cf_Enabled cfg" using assms(2) by (auto simp: quiet_ok_def)
  have "mt_sweep (fst (tick env cfg now m)) = enter_occurrence (qs_Occurrence ?q) (mt_sweep ?w)" if "qs_ForceLogout ?q"
    using schedule_sweep [of env cfg ?q now ?w] act that
    by (auto simp: tick_state pass_moved_def pass_swept_def sweeping_def enter_occurrence_def)
  then show ?thesis using ok act assms(2) by (auto simp: quiet_ok_def sweep_finished_def)
qed

subsection \<open>Instances\<close>

text \<open>Two accounts by day and by night, under a coordinator that accepts everything and one that is full.\<close>

definition by_day :: Config where
  "by_day = two_lines\<lparr>cf_Enabled := True,
     cf_Quiet := \<lparr>qc_Enabled = False, qc_Start = w_Start night, qc_End = w_End night, qc_ForceLogout = True\<rparr>\<rparr>"

definition by_night :: Config where
  "by_night = two_lines\<lparr>cf_Enabled := True,
     cf_Selection := \<lparr>sel_ActiveCampusID = ''c2'', sel_DefaultCampusID = [], sel_ActiveHotspotID = ''h1'', sel_DefaultHotspotID = []\<rparr>,
     cf_HotspotProfiles := [zero_hotspot\<lparr>hp_ID := ''h1''\<rparr>],
     cf_Quiet := \<lparr>qc_Enabled = True, qc_Start = w_Start night, qc_End = w_End night, qc_ForceLogout = True\<rparr>\<rparr>"

definition accepting :: "nat MaintEnv" where
  "accepting = \<lparr>mo_submit = (\<lambda>r c. (c + 1, Inr \<lparr>rc_ActionID = formatID c, rc_State = StateQueued, rc_Duplicate = False\<rparr>)),
     mo_line = r_AccountID, mo_manuallyPaused = (\<lambda>cfg i. False)\<rparr>"

definition full :: "nat MaintEnv" where
  "full = accepting\<lparr>mo_submit := (\<lambda>r c. (c, Inl (Errorf CodeBusy)))\<rparr>"

definition fresh_loop :: "nat Maintainer" where
  "fresh_loop = the (NewMaintainer 0 by_day 5 None)"

lemma accepting_simps [simp]:
  "mo_manuallyPaused accepting cfg i = False" "mo_manuallyPaused full cfg i = False"
  "mo_line accepting r = r_AccountID r" "mo_line full r = r_AccountID r"
  "mo_submit accepting r c = (c + 1, Inr \<lparr>rc_ActionID = formatID c, rc_State = StateQueued, rc_Duplicate = False\<rparr>)"
  "mo_submit full r c = (c, Inl (Errorf CodeBusy))"
  by (simp_all add: accepting_def full_def)

lemmas two_line_defs = two_lines_def by_day_def by_night_def Defaults_def zero_campus_def zero_hotspot_def

lemma demo_targets:
  "map tg_AccountID (ForcedLogoutTargets by_day) = [''c1'', ''c2'']"
  "map tg_AccountID (ForcedLogoutTargets by_night) = [''c1'', ''c2'']"
  by (simp_all add: two_line_defs ForcedLogoutTargets_def Managed_def ManagedWiredAccounts_def IsWired_def AccessModeWired_def
      AccessModeWiFi_def CampusAccountByID_def Let_def)

lemma demo_distinct: "distinct (map ca_ID (cf_CampusAccounts by_day))" "distinct (map ca_ID (cf_CampusAccounts by_night))"
  by (simp_all add: two_line_defs)

lemma demo_contested: "contested accepting by_day = []" "contested full by_day = []"
  by (simp_all add: contested_def two_line_defs ForcedLogoutTargets_def Managed_def ManagedWiredAccounts_def IsWired_def
      AccessModeWired_def AccessModeWiFi_def CampusAccountByID_def Let_def Conflicts_def add_to_line_def line_of_def
      zero_request_def)

lemma demo_quiet: "\<not> qs_Active (quiet_at by_day now)" "cf_Enabled by_day" "cf_Enabled by_night"
  by (simp_all add: quiet_at_def EvaluateQuiet_def zero_quiet_def by_day_def by_night_def)

lemma demo_night: "qs_Active (quiet_at by_night late_evening)" "qs_ForceLogout (quiet_at by_night late_evening)"
proof -
  have "Window (cf_Quiet by_night) = night" by (simp add: by_night_def Window_def night_def)
  then show "qs_Active (quiet_at by_night late_evening)" "qs_ForceLogout (quiet_at by_night late_evening)"
    using quiet_state_exact [of "cf_Quiet by_night" late_evening] night_inside by (simp_all add: quiet_at_def by_night_def)
qed

lemma fresh_loop_simps:
  "mt_accounts fresh_loop = []" "mt_quietSwitch fresh_loop = zero_quiet_switch" "mt_sweep fresh_loop = zero_sweep"
  "mt_revision fresh_loop = 0" "mt_sent fresh_loop = []"
  by (simp_all add: fresh_loop_def NewMaintainer_def Let_def two_line_defs)

lemma fresh_loop_reset: "reset_revision by_day fresh_loop = fresh_loop" "reset_revision by_night fresh_loop = fresh_loop"
  by (simp_all add: reset_revision_def fresh_loop_simps two_line_defs)

theorem pass_attempts_due_accounts_witness:
  "map r_AccountID (filter (\<lambda>r. r_Kind r = KindMaintain) (sent_by fresh_loop (fst (tick accepting by_day 10 fresh_loop)))) =
     [''c1'', ''c2'']"
  using pass_attempts_due_accounts [OF demo_distinct(1), of fresh_loop accepting 10]
  by (simp add: demo_quiet demo_targets fresh_loop_reset due_def demo_contested account_of_def fresh_loop_simps
      zero_account_def zero_quiet_switch_def)

theorem sweep_logs_out_pending_accounts_witness:
  "map r_AccountID (filter (\<lambda>r. r_Kind r = KindForcedLogout)
     (sent_by fresh_loop (fst (tick accepting by_night late_evening fresh_loop)))) = [''c1'', ''c2'']"
proof -
  have "sweeping by_night late_evening" by (simp add: sweeping_def demo_night demo_quiet)
  moreover have "unswept by_night late_evening fresh_loop i" for i
    using quiet_occurrence [OF demo_night(1)]
    by (simp add: unswept_def enter_occurrence_def is_done_def fresh_loop_simps zero_sweep_def)
  moreover have "sweepable accepting by_night late_evening fresh_loop i" for i
    by (simp add: sweepable_def account_of_def fresh_loop_simps zero_account_def late_evening_def day_ns_def beijing_ns_def)
  ultimately show ?thesis
    using sweep_logs_out_pending_accounts [OF demo_distinct(2), of fresh_loop accepting late_evening]
    by (simp add: demo_targets fresh_loop_reset)
qed

lemma accepting_named: "receipts_named accepting" "named by_day"
  by (auto simp: receipts_named_def formatID_def named_def two_line_defs)

theorem loop_requests_valid_and_fresh_witness:
  "distinct (map r_IdempotencyKey (mt_sent (fst (tick accepting by_day 10 fresh_loop)))) \<and>
   (\<forall>limits env c. list_all (\<lambda>r. Submit limits env r c = onSubmit limits env r c)
      (mt_sent (fst (tick accepting by_day 10 fresh_loop))))"
proof -
  have "loop_start fresh_loop"
    unfolding loop_start_def
    by (rule exI [of _ 0], rule exI [of _ by_day], rule exI [of _ 5], rule exI [of _ None])
      (simp add: fresh_loop_def NewMaintainer_def Let_def)
  moreover have "(loop_step named)\<^sup>*\<^sup>* fresh_loop (fst (tick accepting by_day 10 fresh_loop))"
    using loop_tick [of accepting named by_day fresh_loop 10] accepting_named by blast
  ultimately show ?thesis using loop_requests_valid_and_fresh by blast
qed

theorem wake_up_bounds_witness:
  "10 \<le> snd (tick accepting by_day 10 fresh_loop) \<and> snd (tick accepting by_day 10 fresh_loop) \<le> 10 + 60 * second"
proof -
  have "window_ok (Window (cf_Quiet by_day))" using night_ok by (simp add: by_day_def Window_def night_def)
  then show ?thesis using wake_up_bounds [of by_day 10 accepting fresh_loop]
    by (simp add: checkInterval_def two_line_defs)
qed

definition overdue_loop :: "nat Maintainer" where
  "overdue_loop = set_account ''c1'' (zero_account\<lparr>as_dueAt := 7\<rparr>) fresh_loop"

theorem refused_submission_spins_witness:
  "snd (tick full by_day 10 (((\<lambda>s. fst (tick full by_day 10 s)) ^^ 3) overdue_loop)) = 10"
proof (rule refused_submission_spins)
  show "refusing full" by (simp add: refusing_def)
  show "overdue full by_day 10 ''c1'' overdue_loop"
    by (simp add: overdue_def overdue_loop_def fresh_loop_simps zero_account_def two_line_defs)
qed (simp_all add: demo_quiet)

definition rested_loop :: "nat Maintainer" where
  "rested_loop = fresh_loop\<lparr>mt_sweep := \<lparr>sw_occurrence = qs_Occurrence (quiet_at by_night late_evening),
     sw_done = Some [''c1'', ''c2'']\<rparr>\<rparr>"

lemma rested_sends_move:
  "sent_by rested_loop (fst (tick accepting by_night late_evening rested_loop)) =
     [quiet_request KindQuietHotspot by_night ''h1'' ''quiet_hotspot:c2:a1'']"
proof -
  let ?q = "quiet_at by_night late_evening"
  have ts: "ForcedLogoutTargets by_night = [
      \<lparr>tg_AccountID = ''c1'', tg_Line = ''wan'', tg_Wireless = False, tg_Managed = True, tg_Active = False\<rparr>,
      \<lparr>tg_AccountID = ''c2'', tg_Line = [], tg_Wireless = True, tg_Managed = False, tg_Active = True\<rparr>]"
    by (simp add: two_line_defs ForcedLogoutTargets_def Managed_def ManagedWiredAccounts_def IsWired_def AccessModeWired_def
        AccessModeWiFi_def CampusAccountByID_def Let_def)
  have sweep: "mt_sent (pass_swept accepting by_night late_evening rested_loop) = []"
      "mt_keys (pass_swept accepting by_night late_evening rested_loop) = 0"
      "mt_quietSwitch (pass_swept accepting by_night late_evening rested_loop) = zero_quiet_switch"
      "mt_sweep (pass_swept accepting by_night late_evening rested_loop) = mt_sweep rested_loop"
    by (simp_all add: pass_swept_def sweepQuietHours_def Pending_def Let_def ts pass_start_def reset_revision_def
        rested_loop_def fresh_loop_simps enter_occurrence_def is_done_def)
      (simp_all add: fresh_loop_def NewMaintainer_def Let_def two_line_defs)
  have occ: "qs_Occurrence ?q \<noteq> []" "[] \<noteq> qs_Occurrence ?q"
    using quiet_occurrence [OF demo_night(1)] by (simp_all add: not_sym)
  have sel: "sel_ActiveCampusID (cf_Selection by_night) = ''c2''" "sel_ActiveHotspotID (cf_Selection by_night) = ''h1''"
      "fo_Enabled (cf_Failover by_night)" "CampusAccountByID by_night ''c2'' \<noteq> None" "HotspotByID by_night ''h1'' \<noteq> None"
      "\<not> late_evening < 0" "FormatUint (Suc 0) = ''1''" "0 \<le> late_evening"
    by (simp_all add: two_line_defs CampusAccountByID_def HotspotByID_def late_evening_def day_ns_def beijing_ns_def FormatUint.simps)
  define w where "w = pass_swept accepting by_night late_evening rested_loop"
  have w: "mt_sent w = []" "mt_keys w = 0" "mt_quietSwitch w = zero_quiet_switch"
      "mt_sweep w = \<lparr>sw_occurrence = qs_Occurrence ?q, sw_done = Some [''c1'', ''c2'']\<rparr>"
    using sweep by (simp_all add: w_def rested_loop_def)
  have "mt_sent (scheduleQuietSwitch accepting by_night ?q late_evening w) =
      [quiet_request KindQuietHotspot by_night ''h1'' ''quiet_hotspot:c2:a1'']"
    unfolding scheduleQuietSwitch_def Let_def
    by (simp add: sel w occ demo_night demo_quiet zero_quiet_switch_def Pending_def ts enter_occurrence_def is_done_def Let_def
        submit_quiet_sent fresh_key_def formatID_def)
  then show ?thesis
    by (simp add: tick_state demo_night demo_quiet pass_moved_def sent_by_def w_def) (simp add: rested_loop_def fresh_loop_simps)
qed

theorem hotspot_only_after_sweep_witness:
  "qs_Active (quiet_at by_night late_evening) \<and> HotspotByID by_night ''h1'' \<noteq> None \<and>
   r_Kind (hd (sent_by rested_loop (fst (tick accepting by_night late_evening rested_loop)))) = KindQuietHotspot"
  using hotspot_only_after_sweep [of "quiet_request KindQuietHotspot by_night ''h1'' ''quiet_hotspot:c2:a1''" rested_loop
      accepting by_night late_evening]
  by (simp add: rested_sends_move demo_distinct)

end
