(* ===== verification/Maintain_Results.thy ===== *)
theory Maintain_Results
  imports Maintain_Claims
begin

text \<open>
  What the loop does with finished actions: the mailbox keeps the newest result of every slot and stays
  small, a finished attempt always makes its account due again within a bounded time, and no delivery can
  reach the panic of an unallocated sweep record.
\<close>

subsection \<open>A finished attempt\<close>

definition longest_wait :: "Config \<Rightarrow> duration" where
  "longest_wait cfg = (let plan = PlanFrom (cf_Retry cfg) in
     max (checkInterval cfg) (max (RoundCooldown plan) (clampInterval (Seconds_Duration (bo_Base (rp_Backoff plan))))))"

definition owned_attempt :: "Action \<Rightarrow> Config \<Rightarrow> 'c Maintainer \<Rightarrow> bool" where
  "owned_attempt a cfg m \<longleftrightarrow> (let i = r_AccountID (a_Request a) in
     i \<noteq> [] \<and> r_Kind (a_Request a) = KindMaintain \<and> Terminal (a_State a) \<and>
     (r_CheckRevision (a_Request a) \<longrightarrow> r_ConfigRevision (a_Request a) = cf_Revision cfg) \<and>
     a_ID a = as_inFlight (account_of i m) \<and> a_ID a \<noteq> as_sweepAction (account_of i m))"

lemma Plan_Wait_longest:
  assumes "plan_ok (PlanFrom (cf_Retry cfg))"
  shows "Plan_Wait (PlanFrom (cf_Retry cfg)) n \<le> longest_wait cfg"
  using Backoff_Wait_cap [OF assms, of n] by (simp add: longest_wait_def Let_def Plan_Wait_def le_max_iff_disj)

lemma waits_positive: "0 < checkInterval cfg" "0 < Plan_Wait p n" "0 < RoundCooldown p"
  using checkInterval_pos [of cfg] Plan_Wait_floor [of p n] clamp_floor [of "Seconds_Duration (bo_Cap (rp_Backoff p))"]
  by (simp_all add: second_def MinimumInterval_def millisecond_def RoundCooldown_def)

lemma apply_owned_eq:
  assumes "owned_attempt a cfg m"
  shows "apply_result a cfg now m = Some (apply_owned a cfg (r_AccountID (a_Request a)) (account_of (r_AccountID (a_Request a)) m) now
     (snd (stateFor (r_AccountID (a_Request a)) m)))"
  using assms by (auto simp: owned_attempt_def Let_def apply_result_def applyQuietSwitch_def split_beta)

text \<open>
  A finished attempt always frees its account and makes it due again, strictly later than now and
  within a bounded time: after one check interval when it succeeded, was deferred, cancelled or
  interrupted; after the backoff of the failure count when it failed; after the cooldown, with a fresh
  round, when the round is exhausted. A managed line never stops being retried, and no other account is
  touched.
\<close>

theorem finished_attempt_reschedules:
  assumes "owned_attempt a cfg m" and "plan_ok (PlanFrom (cf_Retry cfg))"
  shows "\<exists>m'. apply_result a cfg now m = Some m' \<and>
    (let i = r_AccountID (a_Request a); s = account_of i m; s' = account_of i m'; plan = PlanFrom (cf_Retry cfg);
         n = Failures_Next (as_failures s); failed = (a_State a = StateFailed \<and> \<not> a_MaintenanceDeferred a) in
     as_inFlight s' = [] \<and> now < as_dueAt s' \<and> as_dueAt s' \<le> now + longest_wait cfg \<and>
     as_dueAt s' = now + (if \<not> failed then checkInterval cfg
        else if RoundExhausted plan n then RoundCooldown plan else Plan_Wait plan n) \<and>
     as_failures s' = (if failed then (if RoundExhausted plan n then 0 else n)
        else if a_State a = StateSucceeded \<and> \<not> a_MaintenanceDeferred a then 0 else as_failures s) \<and>
     (\<forall>j. j \<noteq> i \<longrightarrow> account_of j m' = account_of j m))"
proof -
  let ?i = "r_AccountID (a_Request a)" and ?p = "PlanFrom (cf_Retry cfg)"
  let ?m = "apply_owned a cfg ?i (account_of ?i m) now (snd (stateFor ?i m))"
  have T: "Terminal (a_State a)" using assms(1) by (simp add: owned_attempt_def Let_def)
  have bounds: "checkInterval cfg \<le> longest_wait cfg" "RoundCooldown ?p \<le> longest_wait cfg"
    by (simp_all add: longest_wait_def Let_def)
  have "apply_result a cfg now m = Some ?m" by (rule apply_owned_eq [OF assms(1)])
  moreover have "account_of j ?m = account_of j m" if "j \<noteq> ?i" for j
    using that by (simp add: apply_owned_def apply_failure_def Let_def split: State.split)
  ultimately show ?thesis
    using T waits_positive(1) [of cfg] waits_positive(2,3) [of ?p] bounds Plan_Wait_longest [OF assms(2)]
    by (cases "a_State a") (auto simp: apply_owned_def apply_failure_def Let_def)
qed

text \<open>
  A result the loop does not own leaves every account and the sweep record as they were: a manual action
  never moves the backoff.
\<close>

theorem foreign_result_ignored:
  assumes "a_ID a \<noteq> as_inFlight (account_of (r_AccountID (a_Request a)) m)"
    and "a_ID a \<noteq> as_sweepAction (account_of (r_AccountID (a_Request a)) m)"
  shows "\<exists>m'. apply_result a cfg now m = Some m' \<and> mt_sweep m' = mt_sweep m \<and> (\<forall>j. account_of j m' = account_of j m)"
proof -
  obtain m1 b where q: "applyQuietSwitch a cfg now m = (m1, b)" by fastforce
  then have "mt_sweep m1 = mt_sweep m" "account_of j m1 = account_of j m" for j
    by (auto simp: applyQuietSwitch_def Let_def split: if_splits)
  then show ?thesis using assms q
    by (cases b) (auto simp: apply_result_def Let_def split_beta)
qed

subsection \<open>The mailbox\<close>

definition box_inv :: "'c Maintainer \<Rightarrow> bool" where
  "box_inv m \<longleftrightarrow> distinct (mkeys (mt_results m)) \<and>
     (\<forall>(slot, r) \<in> set (mt_results m). slot_key (mr_action r) = Some slot \<and> slot \<noteq> [] \<and> a_ID (mr_action r) \<noteq> [])"

lemma slot_key_cleared [simp]: "slot_key (a\<lparr>a_Timings := ts, a_ResultJSON := j\<rparr>) = slot_key a"
  by (simp add: slot_key_def Let_def)

definition keep :: "Config \<Rightarrow> string \<times> maintenanceResult \<Rightarrow> bool" where
  "keep cfg = (\<lambda>(slot, previous). slot = manual_switch \<or> \<not> outdated cfg (a_Request (mr_action previous)))"

definition stored :: "Action \<Rightarrow> 'c Maintainer \<Rightarrow> maintenanceResult" where
  "stored a m = \<lparr>mr_action = a\<lparr>a_Timings := [], a_ResultJSON := []\<rparr>, mr_order = mt_resultOrder m + 1\<rparr>"

lemma store_result_results:
  "mt_results (store_result cfg key a m) =
     (case map_of (filter (keep cfg) (mt_results m)) key of
        Some previous \<Rightarrow> if a_ordinal (mr_action previous) \<le> a_ordinal a
          then AList.update key (stored a m) (filter (keep cfg) (mt_results m)) else filter (keep cfg) (mt_results m)
      | None \<Rightarrow> AList.update key (stored a m) (filter (keep cfg) (mt_results m)))"
  by (simp add: store_result_def Let_def keep_def stored_def split: option.splits)

lemma Observe_results:
  "mt_results (Observe cfg a m) = mt_results m \<or>
   (\<exists>key. slot_key a = Some key \<and> key \<noteq> [] \<and> Terminal (a_State a) \<and> (key = manual_switch \<or> \<not> outdated cfg (a_Request a)) \<and>
     mt_results (Observe cfg a m) = mt_results (store_result cfg key a m))"
  by (auto simp: Observe_def split: option.splits)

lemma update_set: "(k, v) \<in> set (AList.update k' v' xs) \<Longrightarrow> (k, v) = (k', v') \<or> (k, v) \<in> set xs"
  by (induction xs) (auto split: if_splits)

lemma box_inv_store:
  assumes "box_inv m" and "slot_key a = Some key" and "key \<noteq> []" and "a_ID a \<noteq> []"
  shows "box_inv (store_result cfg key a m)"
proof -
  let ?k = "filter (keep cfg) (mt_results m)"
  have d: "distinct (mkeys ?k)" using assms(1) by (simp add: box_inv_def mkeys_def distinct_map_filter)
  then have "distinct (mkeys (AList.update key v ?k))" for v by (simp add: mkeys_def distinct_update)
  moreover have "slot_key (mr_action r) = Some slot \<and> slot \<noteq> [] \<and> a_ID (mr_action r) \<noteq> []"
    if "(slot, r) \<in> set (AList.update key (stored a m) ?k)" for slot r
    using update_set [OF that] assms by (auto simp: box_inv_def stored_def)
  ultimately show ?thesis using assms(1) d
    by (auto simp: box_inv_def store_result_results split: option.splits)
qed

lemma box_inv_Observe: "box_inv m \<Longrightarrow> a_ID a \<noteq> [] \<Longrightarrow> box_inv (Observe cfg a m)"
  using Observe_results [of cfg a m] box_inv_store [of m a _ cfg] by (auto simp: box_inv_def)

text \<open>The slots a configuration can own: four automatic kinds per account, and the manual switch.\<close>

definition slots :: "Config \<Rightarrow> string set" where
  "slots cfg = insert manual_switch
     ((\<lambda>(k, i). kind_string k @ '':'' @ i) ` ({KindMaintain, KindForcedLogout, KindQuietHotspot, KindQuietCampus} \<times>
        set (map ca_ID (cf_CampusAccounts cfg))))"

lemma card_slots: "finite (slots cfg)" "card (slots cfg) \<le> 4 * length (cf_CampusAccounts cfg) + 1"
proof -
  let ?K = "{KindMaintain, KindForcedLogout, KindQuietHotspot, KindQuietCampus}"
  let ?I = "set (map ca_ID (cf_CampusAccounts cfg))"
  show "finite (slots cfg)" by (simp add: slots_def)
  have "card ((\<lambda>(k, i). kind_string k @ '':'' @ i) ` (?K \<times> ?I)) \<le> card (?K \<times> ?I)" by (rule card_image_le) simp
  also have "\<dots> = 4 * card ?I" by (simp add: card_cartesian_product)
  also have "\<dots> \<le> 4 * length (cf_CampusAccounts cfg)" using card_length [of "map ca_ID (cf_CampusAccounts cfg)"] by simp
  finally show "card (slots cfg) \<le> 4 * length (cf_CampusAccounts cfg) + 1"
    unfolding slots_def using card_insert_le_m1 by (simp add: card_insert_if)
qed

lemma own_slot:
  assumes "slot_key a = Some key" and "key \<noteq> []" and "key = manual_switch \<or> \<not> outdated cfg (a_Request a)"
  shows "key \<in> slots cfg"
proof (cases "key = manual_switch")
  case False
  let ?k = "r_Kind (a_Request a)" and ?i = "r_AccountID (a_Request a)"
  have "?k \<in> {KindMaintain, KindForcedLogout, KindQuietHotspot, KindQuietCampus} \<and> key = kind_string ?k @ '':'' @ ?i"
    using assms(1,2) False by (auto simp: slot_key_def Let_def simp del: kind_string.simps append.simps split: if_splits)
  moreover have "?i \<in> set (map ca_ID (cf_CampusAccounts cfg))"
    using assms(3) False by (force simp: outdated_def CampusAccountByID_def find_None_iff)
  ultimately show ?thesis unfolding slots_def by (intro insertI2 image_eqI [where x = "(?k, ?i)"]) simp_all
qed (simp add: slots_def)

lemma store_small:
  assumes "box_inv m" and "slot_key a = Some key" and "key \<noteq> []" and "a_ID a \<noteq> []"
    and "key = manual_switch \<or> \<not> outdated cfg (a_Request a)"
  shows "length (mt_results (store_result cfg key a m)) \<le> 4 * length (cf_CampusAccounts cfg) + 1"
proof -
  have kept: "set (mkeys (filter (keep cfg) (mt_results m))) \<subseteq> slots cfg"
    using assms(1) own_slot [of _ _ cfg] by (fastforce simp: mkeys_def keep_def box_inv_def)
  have upd: "set (mkeys (AList.update key v xs)) = insert key (set (mkeys xs))" for v :: maintenanceResult and xs
    by (simp add: mkeys_def dom_update)
  have "set (mkeys (mt_results (store_result cfg key a m))) \<subseteq> slots cfg"
    using kept own_slot [OF assms(2,3,5)] by (auto simp: store_result_results upd split: option.splits)
  then have "card (set (mkeys (mt_results (store_result cfg key a m)))) \<le> card (slots cfg)"
    using card_slots(1) by (rule card_mono [rotated])
  moreover have "distinct (mkeys (mt_results (store_result cfg key a m)))"
    using box_inv_store [OF assms(1-4)] by (simp add: box_inv_def)
  ultimately show ?thesis using card_slots(2) [of cfg] by (simp add: distinct_card)
qed

subsection \<open>The sweep record is always allocated before it is written\<close>

definition sweep_ok :: "'c Maintainer \<Rightarrow> bool" where
  "sweep_ok m \<longleftrightarrow> (sw_occurrence (mt_sweep m) \<noteq> [] \<longrightarrow> sw_done (mt_sweep m) \<noteq> None) \<and>
     (\<forall>i. as_sweepAction (account_of i m) \<noteq> [] \<longrightarrow> mt_occurrence m \<noteq> [])"

lemma sweep_ok_cong:
  "mt_sweep m' = mt_sweep m \<Longrightarrow> mt_occurrence m' = mt_occurrence m \<Longrightarrow> (\<And>i. as_sweepAction (account_of i m') = as_sweepAction (account_of i m)) \<Longrightarrow>
   sweep_ok m \<Longrightarrow> sweep_ok m'"
  by (simp add: sweep_ok_def)

lemma allocated_enter: "sw_occurrence w \<noteq> [] \<longrightarrow> sw_done w \<noteq> None \<Longrightarrow>
    sw_occurrence (enter_occurrence i w) \<noteq> [] \<longrightarrow> sw_done (enter_occurrence i w) \<noteq> None"
  by (simp add: enter_occurrence_def)

lemma maintain_target_sweepAction [simp]:
  "as_sweepAction (account_of j (maintain_target env cfg now blocked t m)) = as_sweepAction (account_of j m)"
proof -
  have "as_sweepAction (account_of j (queue_request env r k now m0)) = as_sweepAction (account_of j m0)" for r k m0
    by (simp add: queue_request_def call_submit_eq Let_def split: sum.splits)
  then show ?thesis by (simp add: maintain_target_eq Let_def)
qed

lemma maintain_sweepAction [simp]:
  "as_sweepAction (account_of j (maintain env cfg now m)) = as_sweepAction (account_of j m)"
proof -
  have "as_sweepAction (account_of j (fold (maintain_target env cfg now blocked) ts m0)) = as_sweepAction (account_of j m0)"
    for blocked ts m0 by (rule fold_frame) simp
  then show ?thesis by (simp add: maintain_def Let_def split_beta account_of_def)
qed

lemma sweep_ok_tick:
  assumes "sweep_ok m"
  shows "sweep_ok (fst (tick env cfg now m))"
proof -
  have "sweep_ok (pass_start cfg now m)"
    using assms by (simp add: sweep_ok_def pass_start_def reset_revision_def account_of_def zero_account_def zero_sweep_def)
  then have "sweep_ok (pass_swept env cfg now m)"
    using allocated_enter [of "mt_sweep (pass_start cfg now m)"] quiet_occurrence [of cfg now]
    by (simp add: sweep_ok_def pass_swept_def sweeping_def)
  then have "sweep_ok (pass_moved env cfg now m)"
    using schedule_sweep [of env cfg "quiet_at cfg now" now "pass_swept env cfg now m"]
      allocated_enter [of "mt_sweep (pass_swept env cfg now m)"]
    by (auto simp: sweep_ok_def pass_moved_def)
  then show ?thesis by (auto simp: tick_state intro: sweep_ok_cong)
qed

lemma Succeeded_allocated:
  assumes "sw_occurrence w \<noteq> [] \<longrightarrow> sw_done w \<noteq> None" and "i \<noteq> []"
  shows "\<exists>w'. Succeeded i a w = Some w' \<and> sw_done w' \<noteq> None"
  using assms by (auto simp: Succeeded_def Let_def enter_occurrence_def split: option.splits)

lemma applyQuietSwitch_frames [simp]:
  "account_of j (fst (applyQuietSwitch a cfg now m)) = account_of j m"
  "mt_sweep (fst (applyQuietSwitch a cfg now m)) = mt_sweep m"
  "mt_occurrence (fst (applyQuietSwitch a cfg now m)) = mt_occurrence m"
  "mt_results (fst (applyQuietSwitch a cfg now m)) = mt_results m"
  by (simp_all add: applyQuietSwitch_def Let_def)

lemma apply_owned_frames [simp]:
  "mt_sweep (apply_owned a cfg i s now m) = mt_sweep m" "mt_occurrence (apply_owned a cfg i s now m) = mt_occurrence m"
  "mt_results (apply_owned a cfg i s now m) = mt_results m"
  "as_sweepAction (account_of j (apply_owned a cfg i s now m)) = (if j = i then as_sweepAction s else as_sweepAction (account_of j m))"
  by (simp_all add: apply_owned_def apply_failure_def Let_def split: State.splits)

lemma apply_sweep_ok:
  assumes "sweep_ok m" and "mt_occurrence m \<noteq> []"
  shows "\<exists>m'. apply_sweep a cfg i s now m = Some m' \<and> sweep_ok m' \<and> mt_results m' = mt_results m"
proof -
  obtain w where w: "Succeeded (mt_occurrence m) i (mt_sweep m) = Some w" "sw_done w \<noteq> None"
    using Succeeded_allocated [of "mt_sweep m" "mt_occurrence m" i] assms by (auto simp: sweep_ok_def)
  show ?thesis using assms w by (auto simp: apply_sweep_def Let_def sweep_ok_def)
qed

lemma apply_result_ok:
  assumes "sweep_ok m" and "a_ID a \<noteq> []"
  shows "\<exists>m'. apply_result a cfg now m = Some m' \<and> sweep_ok m' \<and> mt_results m' = mt_results m"
proof -
  let ?i = "r_AccountID (a_Request a)"
  obtain m1 b where q: "applyQuietSwitch a cfg now m = (m1, b)" by fastforce
  have ok1: "sweep_ok m1" "mt_results m1 = mt_results m" "account_of j m1 = account_of j m"
      "mt_occurrence m1 = mt_occurrence m" for j
    using assms(1) applyQuietSwitch_frames(1) [of _ a cfg now m] applyQuietSwitch_frames(2-4) [of a cfg now m] q by (auto intro: sweep_ok_cong)
  let ?m = "snd (stateFor ?i m1)"
  have ok2: "sweep_ok ?m" using ok1(1) by (auto intro: sweep_ok_cong)
  show ?thesis
  proof (cases "a_ID a = as_sweepAction (account_of ?i m)")
    case True
    with assms have "mt_occurrence ?m \<noteq> []" using ok1(4) by (auto simp: sweep_ok_def)
    from apply_sweep_ok [OF ok2 this, of a cfg ?i "account_of ?i m1" now] show ?thesis
      using assms(1) ok1 q True by (cases b) (auto simp: apply_result_def Let_def split_beta)
  next
    case False
    have "sweep_ok (apply_owned a cfg ?i (account_of ?i m1) now ?m)"
      using ok2 by (rule sweep_ok_cong [rotated 3]) simp_all
    then show ?thesis using assms(1) ok1 ok2 q False
      by (cases b) (auto simp: apply_result_def Let_def split_beta)
  qed
qed

lemma apply_all_ok:
  assumes "sweep_ok m" and "list_all (\<lambda>a. a_ID a \<noteq> []) as"
  shows "\<exists>m'. apply_all readings n as m = Some m' \<and> sweep_ok m' \<and> mt_results m' = mt_results m"
  using assms
proof (induction as arbitrary: n m)
  case (Cons a as)
  from apply_result_ok [of m a "fst (readings n)" "snd (readings n)"] Cons.prems obtain m1 where
    "apply_result a (fst (readings n)) (snd (readings n)) m = Some m1" "sweep_ok m1" "mt_results m1 = mt_results m" by auto
  with Cons.IH [of m1 "Suc n"] Cons.prems show ?case by auto
qed simp

lemma deliver_ok:
  assumes "sweep_ok m" and "box_inv m"
  shows "\<exists>m'. deliver readings m = Some m' \<and> sweep_ok m' \<and> mt_results m' = []"
proof -
  let ?m = "fst (takeResults (m\<lparr>mt_resultReady := False\<rparr>))" and ?as = "snd (takeResults (m\<lparr>mt_resultReady := False\<rparr>))"
  have "sweep_ok ?m" using assms(1) by (simp add: sweep_ok_def takeResults_def account_of_def)
  moreover have "list_all (\<lambda>a. a_ID a \<noteq> []) ?as"
    using assms(2) by (fastforce simp: list_all_iff takeResults_def box_inv_def)
  ultimately show ?thesis using apply_all_ok [of ?m ?as readings 0]
    by (simp add: deliver_def Let_def split_beta) (simp add: takeResults_def)
qed

subsection \<open>Every run\<close>

definition few_accounts :: "Config \<Rightarrow> bool" where
  "few_accounts cfg \<longleftrightarrow> length (cf_CampusAccounts cfg) \<le> MaxCampusAccounts"

definition results_inv :: "'c Maintainer \<Rightarrow> bool" where
  "results_inv m \<longleftrightarrow> box_inv m \<and> sweep_ok m \<and> length (mt_results m) \<le> 4 * MaxCampusAccounts + 1"

lemma tick_results [simp]: "mt_results (fst (tick env cfg now m)) = mt_results m"
  by (simp add: tick_state pass_moved_def pass_swept_def pass_start_def)

lemma results_inv_cong:
  "mt_results m' = mt_results m \<Longrightarrow> sweep_ok m' \<Longrightarrow> results_inv m \<Longrightarrow> results_inv m'"
  by (simp add: results_inv_def box_inv_def)

lemma Observe_frames [simp]:
  "mt_sweep (Observe cfg a m) = mt_sweep m" "mt_occurrence (Observe cfg a m) = mt_occurrence m"
  "mt_accounts (Observe cfg a m) = mt_accounts m"
  by (simp_all add: Observe_def store_result_def Let_def split: option.splits)

lemma results_inv_Observe:
  assumes "results_inv m" and "a_ID a \<noteq> []" and "few_accounts cfg"
  shows "results_inv (Observe cfg a m)"
proof -
  have "sweep_ok (Observe cfg a m)" using assms(1) by (auto simp: results_inv_def account_of_def intro: sweep_ok_cong)
  moreover have "length (mt_results (Observe cfg a m)) \<le> 4 * MaxCampusAccounts + 1"
    using Observe_results [of cfg a m] store_small [of m a _ cfg] assms by (auto simp: results_inv_def few_accounts_def)
  moreover have "box_inv (Observe cfg a m)" using assms(1,2) by (intro box_inv_Observe) (simp_all add: results_inv_def)
  ultimately show ?thesis by (simp add: results_inv_def)
qed

lemma results_inv_step:
  assumes "loop_step few_accounts m m'" and "results_inv m"
  shows "results_inv m'"
  using assms
proof (induction rule: loop_step.induct)
  case (loop_tick env cfg m now)
  then show ?case by (auto simp: results_inv_def box_inv_def sweep_ok_tick)
next
  case (loop_deliver readings m m')
  then show ?case using deliver_ok [of m readings] by (auto simp: results_inv_def box_inv_def)
next
  case (loop_observe action cfg m)
  then show ?case by (simp add: results_inv_Observe)
qed (auto simp: results_inv_def box_inv_def sweep_ok_def account_of_def ConfigurationChanged_def)

lemma mark_swept_ok:
  assumes "occ \<noteq> []" and "sw_occurrence w \<noteq> [] \<longrightarrow> sw_done w \<noteq> None"
  shows "\<exists>w'. mark_swept cfg occ w = Some w' \<and> (sw_occurrence w' \<noteq> [] \<longrightarrow> sw_done w' \<noteq> None)"
proof -
  have "\<exists>w'. fold (\<lambda>target s. Option.bind s (Succeeded occ (tg_AccountID target))) ts (Some w) = Some w' \<and>
      (sw_occurrence w' \<noteq> [] \<longrightarrow> sw_done w' \<noteq> None)" for ts :: "Target list"
    using assms(2)
  proof (induction ts arbitrary: w)
    case (Cons t ts)
    obtain w1 where "Succeeded occ (tg_AccountID t) w = Some w1" "sw_done w1 \<noteq> None"
      using Succeeded_allocated [OF Cons.prems assms(1)] by blast
    then show ?case using Cons.IH [of w1] by simp
  qed simp
  then show ?thesis by (simp add: mark_swept_def)
qed

lemma NewMaintainer_ok: "\<exists>m. NewMaintainer coord cfg now resume = Some m \<and> results_inv m"
proof -
  have occ: "qr_Occurrence r \<noteq> []" if "QuietResume_Matches r cfg now" for r
    using that quiet_occurrence [of cfg "qr_StartedAt r"]
    by (auto simp: QuietResume_Matches_def Let_def quiet_at_def split: if_splits)
  have zero: "sw_occurrence zero_sweep \<noteq> [] \<longrightarrow> sw_done zero_sweep \<noteq> None" by (simp add: zero_sweep_def)
  show ?thesis
    using mark_swept_ok [OF occ zero, of _ cfg]
    by (cases resume)
      (fastforce simp: NewMaintainer_def Let_def results_inv_def box_inv_def sweep_ok_def account_of_def zero_account_def zero_sweep_def)+
qed

interpretation loop_results: state_machine loop_start "loop_step few_accounts" results_inv
proof
  show "results_inv m" if "loop_start m" for m :: "'c Maintainer"
  proof -
    from that obtain coord cfg now resume where "NewMaintainer coord cfg now resume = Some m" by (auto simp: loop_start_def)
    with NewMaintainer_ok [of coord cfg now resume] show ?thesis by simp
  qed
  show "results_inv m'" if "results_inv m" "loop_step few_accounts m m'" for m m' :: "'c Maintainer"
    using results_inv_step that by blast
qed

text \<open>
  The mailbox stays small and delivery always completes. With at most the allowed number of accounts
  configured, on every run of the loop the mailbox holds at most four results per account and one manual
  switch, and delivering it never panics: a sweep record is always allocated before a success is written
  to it. Building the loop, also from a resume record, never panics either.
\<close>

theorem delivery_total_and_mailbox_bounded:
  assumes "loop_start m" and "(loop_step few_accounts)\<^sup>*\<^sup>* m m'"
  shows "length (mt_results m') \<le> 4 * MaxCampusAccounts + 1 \<and>
    (\<forall>readings. \<exists>m''. deliver readings m' = Some m'' \<and> mt_results m'' = []) \<and>
    (\<forall>cfg now resume. NewMaintainer (mt_coord m') cfg now resume \<noteq> None)"
proof -
  have "results_inv m'" using loop_results.inv_reachable assms by blast
  then show ?thesis using deliver_ok [of m'] NewMaintainer_ok [of "mt_coord m'"] by (fastforce simp: results_inv_def)
qed

subsection \<open>No finished action is lost\<close>

definition holds :: "Config \<Rightarrow> string \<Rightarrow> nat \<Rightarrow> 'c Maintainer \<Rightarrow> bool" where
  "holds cfg key n m \<longleftrightarrow> (\<exists>r. map_of (mt_results m) key = Some r \<and> n \<le> a_ordinal (mr_action r) \<and> keep cfg (key, r))"

lemma map_of_filter: "distinct (mkeys xs) \<Longrightarrow> map_of xs k = Some v \<Longrightarrow> P (k, v) \<Longrightarrow> map_of (filter P xs) k = Some v"
  by (simp add: mkeys_def distinct_map_filter map_of_eq_Some_iff)

lemma store_holds:
  assumes "key = manual_switch \<or> \<not> outdated cfg (a_Request a)"
  shows "holds cfg key (a_ordinal a) (store_result cfg key a m)"
proof -
  have k: "keep cfg (key, stored a m)" using assms by (simp add: keep_def stored_def)
  show ?thesis
  proof (cases "map_of (filter (keep cfg) (mt_results m)) key")
    case (Some r)
    then have "keep cfg (key, r)" using map_of_SomeD by fastforce
    with Some k show ?thesis by (auto simp: holds_def store_result_results update_conv' stored_def)
  qed (use k in \<open>auto simp: holds_def store_result_results update_conv' stored_def\<close>)
qed

lemma holds_Observe:
  assumes "box_inv m" and "holds cfg key n m"
  shows "holds cfg key n (Observe cfg a m)"
proof -
  obtain r where r: "map_of (mt_results m) key = Some r" "n \<le> a_ordinal (mr_action r)" "keep cfg (key, r)"
    using assms(2) by (auto simp: holds_def)
  have f: "map_of (filter (keep cfg) (mt_results m)) key = Some r"
    using assms(1) r by (intro map_of_filter) (simp_all add: box_inv_def)
  consider "mt_results (Observe cfg a m) = mt_results m" | key' where "key' = manual_switch \<or> \<not> outdated cfg (a_Request a)"
      "mt_results (Observe cfg a m) = mt_results (store_result cfg key' a m)"
    using Observe_results [of cfg a m] by blast
  then show ?thesis
  proof cases
    case 1
    then show ?thesis using r by (simp add: holds_def)
  next
    case 2
    have "keep cfg (key, stored a m)" if "key = key'" using 2(1) that by (simp add: keep_def stored_def)
    then show ?thesis using 2 f r
      by (cases "key = key'") (auto simp: holds_def store_result_results update_conv' stored_def split: option.splits)
  qed
qed

lemma Observe_holds:
  assumes "Terminal (a_State a)" and "slot_key a = Some key" and "key \<noteq> []"
    and "key = manual_switch \<or> \<not> outdated cfg (a_Request a)"
  shows "holds cfg key (a_ordinal a) (Observe cfg a m)"
proof -
  have "mt_results (Observe cfg a m) = mt_results (store_result cfg key a m)"
    using assms by (auto simp: Observe_def)
  then show ?thesis using store_holds [OF assms(4), of m] by (simp add: holds_def)
qed

lemma fold_Observe_holds:
  "box_inv m \<Longrightarrow> list_all (\<lambda>a. a_ID a \<noteq> []) as \<Longrightarrow> holds cfg key n m \<Longrightarrow> holds cfg key n (fold (Observe cfg) as m)"
  by (induction as arbitrary: m) (simp_all add: holds_Observe box_inv_Observe)

lemma fold_Observe_box: "box_inv m \<Longrightarrow> list_all (\<lambda>a. a_ID a \<noteq> []) as \<Longrightarrow> box_inv (fold (Observe cfg) as m)"
  by (induction as arbitrary: m) (simp_all add: box_inv_Observe)


subsection \<open>Instances\<close>

definition failed_attempt :: Action where
  "failed_attempt = \<lparr>a_ID = ''x1'', a_Request = maintain_request by_day ''c1'' ''k'', a_Line = [], a_State = StateFailed,
     a_Phase = PhaseNone, a_Message = NoMessage, a_Code = None, a_ResultJSON = [], a_QueuedAt = 5, a_StartedAt = 6,
     a_EndedAt = 7, a_Timings = [], a_WorkerMilliseconds = 0, a_Sequence = 1, a_MaintenanceDeferred = False,
     a_Connectivity = None, a_ordinal = 1, a_retired = False\<rparr>"

definition waiting_loop :: "nat Maintainer" where
  "waiting_loop = set_account ''c1'' (zero_account\<lparr>as_inFlight := ''x1''\<rparr>) fresh_loop"

theorem finished_attempt_reschedules_witness:
  "\<exists>m'. apply_result failed_attempt by_day 100 waiting_loop = Some m' \<and> as_failures (account_of ''c1'' m') = 1 \<and>
     100 < as_dueAt (account_of ''c1'' m')"
proof -
  have "owned_attempt failed_attempt by_day waiting_loop"
    by (simp add: owned_attempt_def failed_attempt_def waiting_loop_def zero_account_def Let_def)
  moreover have "plan_ok (PlanFrom (cf_Retry by_day))"
    by (simp add: plan_ok_def PlanFrom_def checkSeconds_def maxSecondsValue_def two_line_defs)
  ultimately show ?thesis
    using finished_attempt_reschedules [of failed_attempt by_day waiting_loop 100]
    by (auto simp: failed_attempt_def waiting_loop_def Let_def zero_account_def Failures_Next_def MaxFailures_def
        RoundExhausted_def RoundLimit_def PlanFrom_def two_line_defs)
qed

lemma fresh_loop_start: "loop_start fresh_loop"
  unfolding loop_start_def
  by (rule exI [of _ 0], rule exI [of _ by_day], rule exI [of _ 5], rule exI [of _ None])
    (simp add: fresh_loop_def NewMaintainer_def Let_def)

lemma by_day_few: "few_accounts by_day"
  by (simp add: few_accounts_def MaxCampusAccounts_def two_line_defs)

theorem delivery_total_and_mailbox_bounded_witness:
  "length (mt_results (Observe by_day failed_attempt fresh_loop)) \<le> 129 \<and>
   (\<forall>readings. \<exists>m''. deliver readings (Observe by_day failed_attempt fresh_loop) = Some m'' \<and> mt_results m'' = [])"
proof -
  have "loop_step few_accounts fresh_loop (Observe by_day failed_attempt fresh_loop)"
    by (rule loop_observe) (simp_all add: by_day_few failed_attempt_def)
  then have "(loop_step few_accounts)\<^sup>*\<^sup>* fresh_loop (Observe by_day failed_attempt fresh_loop)" by blast
  from delivery_total_and_mailbox_bounded [OF fresh_loop_start this] show ?thesis
    by (simp add: MaxCampusAccounts_def)
qed


end
