(* ===== verification/Uci_Store.thy ===== *)
theory Uci_Store
  imports Prelude Go_Text
begin

text \<open>
  The configuration store a wireless change writes to: the interface \<open>Store\<close> of
  \<open>wireless/transaction.go\<close> and its implementation \<open>UCIStore\<close> of \<open>wireless/store.go\<close>, with the parsed
  package of \<open>openwrt/uci.go\<close> it reads.

  A package file is the configuration \<open>uci export\<close> prints of it (a list of sections). What the sources
  only call is a field of \<open>UciTool\<close>: the \<open>uci batch\<close> program, what \<open>uci export\<close> shows of a package with
  uncommitted changes (\<open>ut_overlay\<close>), the JSON encoding of a list, and which
  of the file operations and commands fails (\<open>ut_fault\<close>); a failing operation has no effect, except
  \<open>CommitSync\<close>, which fails after the rename became visible, and \<open>CommitRemove\<close>, which fails after the
  publication.
\<close>

subsection \<open>Keys, values, changes\<close>

record UciKey =
  uk_Section :: string
  uk_Option :: string

definition IsSection :: "UciKey \<Rightarrow> bool" where
  "IsSection k \<longleftrightarrow> uk_Option k = []"

record UciValue =
  uv_Text :: string
  uv_Present :: bool
  uv_IsList :: bool

definition absent :: UciValue where
  "absent = \<lparr>uv_Text = [], uv_Present = False, uv_IsList = False\<rparr>"

record UciChange =
  uc_Key :: UciKey
  uc_Text :: string
  uc_IsList :: bool
  uc_Delete :: bool

definition keyString :: "UciKey \<Rightarrow> string" where
  "keyString key = (if IsSection key then uk_Section key else uk_Section key @ ''.'' @ uk_Option key)"

subsection \<open>A parsed package\<close>

record UCIOption =
  ux_Text :: string
  ux_List :: "string list"
  ux_IsList :: bool

record UCISection =
  ss_Name :: string
  ss_Type :: string
  ss_options :: "(string \<times> UCIOption) list"

type_synonym UCIConfig = "UCISection list"

definition Section :: "UCIConfig \<Rightarrow> string \<Rightarrow> UCISection option" where
  "Section c name = find (\<lambda>s. ss_Name s = name) c"

definition UCISection_Lookup :: "UCISection \<Rightarrow> string \<Rightarrow> UCIOption option" where
  "UCISection_Lookup s option = map_of (ss_options s) option"

definition OptionNames :: "UCISection \<Rightarrow> string list" where
  "OptionNames s = map fst (ss_options s)"

datatype UciCommand = CmdSet UciKey string | CmdDelete UciKey | CmdAddList UciKey string

datatype StoreOp =
    ReadShow | KeysShow | StagePrepare | StageCopy | StageExisting | StageUnchanged | StageCommit | StageShow
  | CommitReadLive | CommitReadCandidate | CommitReplace | CommitSync | CommitRemove | PendingRun | ReloadRun

record UciTool =
  ut_Marshal :: "string list \<Rightarrow> string"
  ut_Unmarshal :: "string \<Rightarrow> string list option"
  ut_batch :: "UciCommand list \<Rightarrow> UCIConfig \<Rightarrow> UCIConfig option"
  ut_overlay :: "string list \<Rightarrow> UCIConfig \<Rightarrow> UCIConfig"
  ut_fault :: "StoreOp \<Rightarrow> bool"

subsection \<open>Names and values that can be written\<close>

definition name_char :: "char \<Rightarrow> bool" where
  "name_char c \<longleftrightarrow> (let n = of_char c :: nat in
     (97 \<le> n \<and> n \<le> 122) \<or> (65 \<le> n \<and> n \<le> 90) \<or> (48 \<le> n \<and> n \<le> 57) \<or> n = 95)"

definition IsLogicalInterfaceName :: "string \<Rightarrow> bool" where
  "IsLogicalInterfaceName name = (if name = [] \<or> length name > 32 then False else list_all name_char name)"

definition checkName :: "string \<Rightarrow> gerror option" where
  "checkName name = (if \<not> IsLogicalInterfaceName name then Some (Errorf CodeInvalidArgument) else None)"

definition checkKey :: "UciKey \<Rightarrow> gerror option" where
  "checkKey key =
     (case checkName (uk_Section key) of
        Some err \<Rightarrow> Some err
      | None \<Rightarrow> if IsSection key then None else checkName (uk_Option key))"

definition quote_escape :: string where
  "quote_escape = [CHR 0x27, CHR 0x5C, CHR 0x27, CHR 0x27]"

definition quoteBatch :: "string \<Rightarrow> gerror + string" where
  "quoteBatch text =
     (if ContainsAny text [CHR 0x00, CHR 0x0D, CHR 0x0A] then Inl (Errorf CodeInvalidArgument)
      else Inr ([CHR 0x27] @ concat (map (\<lambda>c. if c = CHR 0x27 then quote_escape else [c]) text) @ [CHR 0x27]))"

fun check_items :: "string list \<Rightarrow> gerror option" where
  "check_items [] = None"
| "check_items (item # rest) =
     (if item = [] then Some (Errorf CodeInvalidArgument)
      else case quoteBatch item of Inl err \<Rightarrow> Some err | Inr _ \<Rightarrow> check_items rest)"

definition listItems :: "UciTool \<Rightarrow> string \<Rightarrow> gerror + string list" where
  "listItems t text =
     (case ut_Unmarshal t text of
        None \<Rightarrow> Inl (Errorf CodeInvalidArgument)
      | Some items \<Rightarrow> if items = [] then Inl (Errorf CodeInvalidArgument)
          else case check_items items of Some err \<Rightarrow> Inl err | None \<Rightarrow> Inr items)"

definition check_change :: "UciTool \<Rightarrow> UciChange \<Rightarrow> gerror option" where
  "check_change t change =
     (case checkKey (uc_Key change) of
        Some err \<Rightarrow> Some err
      | None \<Rightarrow>
          let text = (if uc_IsList change then
                        (if uc_Delete change \<or> IsSection (uc_Key change) then Some (Errorf CodeInvalidArgument)
                         else case listItems t (uc_Text change) of Inl err \<Rightarrow> Some err | Inr _ \<Rightarrow> None)
                      else if \<not> uc_Delete change then
                        (case quoteBatch (uc_Text change) of Inl err \<Rightarrow> Some err | Inr _ \<Rightarrow> None)
                      else None) in
          if text \<noteq> None then text
          else if \<not> uc_Delete change \<and> uc_Text change = [] then Some (Errorf CodeInvalidArgument)
          else None)"

fun checkWritable :: "UciTool \<Rightarrow> UciChange list \<Rightarrow> gerror option" where
  "checkWritable t [] = None"
| "checkWritable t (change # rest) =
     (case check_change t change of Some err \<Rightarrow> Some err | None \<Rightarrow> checkWritable t rest)"

definition ordered :: "UciChange list \<Rightarrow> UciChange list" where
  "ordered changes =
     filter (\<lambda>c. IsSection (uc_Key c) \<and> \<not> uc_Delete c) changes @
     filter (\<lambda>c. \<not> IsSection (uc_Key c)) changes @
     filter (\<lambda>c. IsSection (uc_Key c) \<and> uc_Delete c) changes"

subsection \<open>The store\<close>

text \<open>
  \<open>su_live\<close> is the system's configuration directory (\<^const>\<open>None\<close>: no such package), \<open>su_staged\<close> the
  candidate with the live file it was built from, \<open>su_pending\<close> the uncommitted changes in the system's
  delta directory.
\<close>

record UCIStore =
  su_live :: "string \<Rightarrow> UCIConfig option"
  su_staged :: "string \<Rightarrow> (UCIConfig \<times> UCIConfig) option"
  su_pending :: "string \<Rightarrow> string list"

definition read_value :: "UciTool \<Rightarrow> UCIConfig \<Rightarrow> UciKey \<Rightarrow> UciValue" where
  "read_value t config key =
     (case Section config (uk_Section key) of
        None \<Rightarrow> absent
      | Some section \<Rightarrow>
          if IsSection key then \<lparr>uv_Text = ss_Type section, uv_Present = True, uv_IsList = False\<rparr>
          else case UCISection_Lookup section (uk_Option key) of
            None \<Rightarrow> absent
          | Some option \<Rightarrow>
              if ux_IsList option then \<lparr>uv_Text = ut_Marshal t (ux_List option), uv_Present = True, uv_IsList = True\<rparr>
              else if ux_Text option = [] then absent
              else \<lparr>uv_Text = ux_Text option, uv_Present = True, uv_IsList = False\<rparr>)"

fun read_values :: "UciTool \<Rightarrow> UCIConfig \<Rightarrow> UciKey list \<Rightarrow> gerror + (UciKey \<times> UciValue) list" where
  "read_values t config [] = Inr []"
| "read_values t config (key # rest) =
     (case checkKey key of
        Some err \<Rightarrow> Inl err
      | None \<Rightarrow> (case read_values t config rest of
                   Inl err \<Rightarrow> Inl err | Inr values \<Rightarrow> Inr ((key, read_value t config key) # values)))"

definition show_live :: "UciTool \<Rightarrow> StoreOp \<Rightarrow> string \<Rightarrow> UCIStore \<Rightarrow> gerror + UCIConfig" where
  "show_live t op pkg s =
     (if ut_fault t op then Inl (Errorf CodeInternal)
      else case su_live s pkg of None \<Rightarrow> Inl (Errorf CodeNotFound) | Some config \<Rightarrow> Inr (ut_overlay t (su_pending s pkg) config))"

definition UCIStore_Read :: "UciTool \<Rightarrow> string \<Rightarrow> UciKey list \<Rightarrow> UCIStore \<Rightarrow> gerror + (UciKey \<times> UciValue) list" where
  "UCIStore_Read t pkg keys s =
     (case checkName pkg of
        Some err \<Rightarrow> Inl err
      | None \<Rightarrow> (case show_live t ReadShow pkg s of Inl err \<Rightarrow> Inl err | Inr config \<Rightarrow> read_values t config keys))"

definition UCIStore_SectionKeys :: "UciTool \<Rightarrow> string \<Rightarrow> string \<Rightarrow> UCIStore \<Rightarrow> gerror + UciKey list" where
  "UCIStore_SectionKeys t pkg section s =
     (case checkName pkg of
        Some err \<Rightarrow> Inl err
      | None \<Rightarrow> (case checkName section of
          Some err \<Rightarrow> Inl err
        | None \<Rightarrow> (case show_live t KeysShow pkg s of
            Inl err \<Rightarrow> Inl err
          | Inr config \<Rightarrow> Inr (case Section config section of
                None \<Rightarrow> []
              | Some found \<Rightarrow> map (\<lambda>option. \<lparr>uk_Section = section, uk_Option = option\<rparr>) (OptionNames found)))))"

definition existingKeys :: "UCIConfig \<Rightarrow> string list" where
  "existingKeys config = concat (map (\<lambda>s. ss_Name s # map (\<lambda>option. ss_Name s @ ''.'' @ option) (OptionNames s)) config)"

definition change_matches :: "UciTool \<Rightarrow> UCIConfig \<Rightarrow> UciChange \<Rightarrow> bool" where
  "change_matches t candidate change =
     (let found = Section candidate (uk_Section (uc_Key change)) in
      if IsSection (uc_Key change) then
        (if uc_Delete change then found = None
         else case found of None \<Rightarrow> False | Some section \<Rightarrow> ss_Type section = uc_Text change)
      else
        let option = (case found of None \<Rightarrow> None | Some section \<Rightarrow> UCISection_Lookup section (uk_Option (uc_Key change)));
            is_list = (case option of None \<Rightarrow> False | Some v \<Rightarrow> ux_IsList v);
            text = (case option of None \<Rightarrow> [] | Some v \<Rightarrow> if ux_IsList v then ut_Marshal t (ux_List v) else ux_Text v) in
        if is_list \<noteq> uc_IsList change \<and> \<not> uc_Delete change then False
        else \<not> (uc_Delete change \<and> option \<noteq> None \<or> \<not> uc_Delete change \<and> (option = None \<or> text \<noteq> uc_Text change)))"

definition candidateMatches :: "UciTool \<Rightarrow> UCIConfig \<Rightarrow> UciChange list \<Rightarrow> bool" where
  "candidateMatches t candidate changes = list_all (change_matches t candidate) changes"

definition batch_of :: "UciTool \<Rightarrow> string list \<Rightarrow> UciChange \<Rightarrow> UciCommand list" where
  "batch_of t existing change =
     (let key = uc_Key change; known = keyString key \<in> set existing in
      if uc_Delete change \<and> \<not> known then []
      else if uc_IsList change then
        (if known then [CmdDelete key] else []) @
        (case listItems t (uc_Text change) of Inl _ \<Rightarrow> [] | Inr items \<Rightarrow> map (CmdAddList key) items)
      else if uc_Delete change then [CmdDelete key]
      else [CmdSet key (uc_Text change)])"

definition build_candidate :: "UciTool \<Rightarrow> UciChange list \<Rightarrow> UCIConfig \<Rightarrow> gerror + UCIConfig" where
  "build_candidate t changes before =
     (if ut_fault t StageExisting \<or> ut_fault t StageUnchanged then Inl (Errorf CodeInternal)
      else if candidateMatches t before changes then Inr before
      else
        let batch = concat (map (batch_of t (existingKeys before)) (ordered changes)) in
        case (if batch = [] then Some before else ut_batch t batch before) of
          None \<Rightarrow> Inl (Errorf CodeInternal)
        | Some candidate \<Rightarrow>
            if ut_fault t StageCommit \<or> ut_fault t StageShow then Inl (Errorf CodeInternal)
            else if \<not> candidateMatches t candidate changes then Inl (Errorf CodeInternal)
            else Inr candidate)"

definition UCIStore_Stage :: "UciTool \<Rightarrow> string \<Rightarrow> UciChange list \<Rightarrow> UCIStore \<Rightarrow> UCIStore \<times> gerror option" where
  "UCIStore_Stage t pkg changes s =
     (case checkName pkg of
        Some err \<Rightarrow> (s, Some err)
      | None \<Rightarrow>
          let s = s\<lparr>su_staged := (su_staged s)(pkg := None)\<rparr> in
          if changes = [] then (s, Some (Errorf CodeInvalidArgument))
          else case checkWritable t changes of
            Some err \<Rightarrow> (s, Some err)
          | None \<Rightarrow>
              if ut_fault t StagePrepare then (s, Some (Errorf CodeInternal))
              else case su_live s pkg of
                None \<Rightarrow> (s, Some (Errorf CodeNotFound))
              | Some before \<Rightarrow>
                  if ut_fault t StageCopy then (s, Some (Errorf CodeInternal))
                  else case build_candidate t changes before of
                    Inl err \<Rightarrow> (s, Some err)
                  | Inr candidate \<Rightarrow> (s\<lparr>su_staged := (su_staged s)(pkg := Some (before, candidate))\<rparr>, None))"

definition UCIStore_Commit :: "UciTool \<Rightarrow> string \<Rightarrow> UCIStore \<Rightarrow> UCIStore \<times> gerror option" where
  "UCIStore_Commit t pkg s =
     (case checkName pkg of
        Some err \<Rightarrow> (s, Some err)
      | None \<Rightarrow> (case su_staged s pkg of
          None \<Rightarrow> (s, Some (Errorf CodeInternal))
        | Some (before, candidate) \<Rightarrow>
            let removed = s\<lparr>su_staged := (su_staged s)(pkg := None)\<rparr>;
                answer = (if ut_fault t CommitRemove then Some (Errorf CodeInternal) else None) in
            if ut_fault t CommitReadLive \<or> su_live s pkg = None then (s, Some (Errorf CodeInternal))
            else if su_live s pkg \<noteq> Some before then (s, Some (Errorf CodeConflict))
            else if ut_fault t CommitReadCandidate then (s, Some (Errorf CodeInternal))
            else if candidate = before then (removed, answer)
            else if ut_fault t CommitReplace then (s, Some (Errorf CodeInternal))
            else if ut_fault t CommitSync
            then (s\<lparr>su_live := (su_live s)(pkg := Some candidate)\<rparr>, Some (Errorf CodeInternal))
            else (removed\<lparr>su_live := (su_live s)(pkg := Some candidate)\<rparr>, answer)))"

definition UCIStore_PendingChanges :: "UciTool \<Rightarrow> string \<Rightarrow> UCIStore \<Rightarrow> gerror + string list" where
  "UCIStore_PendingChanges t pkg s =
     (case checkName pkg of
        Some err \<Rightarrow> Inl err
      | None \<Rightarrow> if ut_fault t PendingRun then Inl (Errorf CodeInternal)
          else if su_live s pkg = None then Inl (Errorf CodeNotFound) else Inr (su_pending s pkg))"

definition UCIStore_Reload :: "UciTool \<Rightarrow> UCIStore \<Rightarrow> UCIStore \<times> gerror option" where
  "UCIStore_Reload t s = (s, if ut_fault t ReloadRun then Some (Errorf CodeInternal) else None)"

end
