(* ===== verification/Wireless_Tx.thy ===== *)
theory Wireless_Tx
  imports Uci_Store
begin

text \<open>
  A wireless change as a transaction that can be undone: \<open>wireless/journal.go\<close> and
  \<open>wireless/transaction.go\<close>.

  The world is the store's state and the two private files. A file is absent, unreadable, or holds a
  record (the JSON encoding is left out). \<open>te_fault\<close> says how each file operation goes: it succeeds, it
  fails without effect, or it took effect and still reported a failure. Every operation of the source
  stops at the first failure, so a power cut between two effects is the run in which the later one fails
  without effect. SHA-256, the random salt and the clock are fields of \<open>TxEnv\<close>; the store is the record
  of its operations, as in the interface \<open>Store\<close>.
\<close>

datatype TxPhase =
    PhasePlanned | PhaseBackedUp | PhaseApplied | PhaseAwaitingConfirm | PhaseCommitted | PhaseRollingBack
  | PhaseRolledBack | PhaseRecoveryRequired

definition TxTerminal :: "TxPhase \<Rightarrow> bool" where
  "TxTerminal p = (case p of PhaseCommitted \<Rightarrow> True | PhaseRolledBack \<Rightarrow> True | PhaseRecoveryRequired \<Rightarrow> True | _ \<Rightarrow> False)"

record JEntry =
  je_Key :: UciKey
  je_BeforeHash :: string
  je_BeforePresent :: bool
  je_AfterHash :: string
  je_AfterDeleted :: bool
  je_BeforeList :: bool
  je_AfterList :: bool

record Journal =
  jn_Version :: int
  jn_TaskID :: string
  jn_Phase :: TxPhase
  jn_Package :: string
  jn_ConfigRevision :: nat
  jn_Salt :: string
  jn_Entries :: "JEntry list"
  jn_StartedAt :: instant
  jn_ExpiresAt :: instant

definition JournalVersion :: int where "JournalVersion = 2"

record Backup =
  bk_TaskID :: string
  bk_Values :: "string gomap"

record TxPlan =
  tp_TaskID :: string
  tp_Package :: string
  tp_Changes :: "UciChange list"
  tp_ConfigRevision :: nat
  tp_ConfirmWithin :: duration

record TxOutcome =
  to_Phase :: "TxPhase option"
  to_Restored :: "UciKey list"
  to_Conflicts :: "UciKey list"
  to_Removed :: "UciKey list"

definition zero_outcome :: TxOutcome where
  "zero_outcome = \<lparr>to_Phase = None, to_Restored = [], to_Conflicts = [], to_Removed = []\<rparr>"

definition outcome_at :: "TxPhase \<Rightarrow> TxOutcome" where
  "outcome_at p = zero_outcome\<lparr>to_Phase := Some p\<rparr>"

record 's StoreOps =
  st_Read :: "string \<Rightarrow> UciKey list \<Rightarrow> 's \<Rightarrow> gerror + (UciKey \<times> UciValue) list"
  st_SectionKeys :: "string \<Rightarrow> string \<Rightarrow> 's \<Rightarrow> gerror + UciKey list"
  st_Stage :: "string \<Rightarrow> UciChange list \<Rightarrow> 's \<Rightarrow> 's \<times> gerror option"
  st_Commit :: "string \<Rightarrow> 's \<Rightarrow> 's \<times> gerror option"
  st_PendingChanges :: "string \<Rightarrow> 's \<Rightarrow> gerror + string list"
  st_Reload :: "'s \<Rightarrow> 's \<times> gerror option"

datatype 'a File = NoFile | Damaged | Stored 'a

datatype FileOp = ReadJournal | ReadBackup | SaveJournalAt TxPhase | SaveBackupOp | RemoveBackup | RemoveJournal
datatype FileFault = FileFine | FileRefused | FileLost

record TxEnv =
  te_Sum256 :: "string \<Rightarrow> string"
  te_salt :: "string option"
  te_now :: instant
  te_tool :: UciTool
  te_fault :: "FileOp \<Rightarrow> FileFault"

record 's TxWorld =
  tx_store :: 's
  tx_journal :: "Journal File"
  tx_backup :: "Backup File"

definition Hash :: "TxEnv \<Rightarrow> Journal \<Rightarrow> string \<Rightarrow> string" where
  "Hash env j text = EncodeToString (te_Sum256 env (jn_Salt j @ [CHR 0x00] @ text))"

subsection \<open>The private files\<close>

definition file_error :: "TxEnv \<Rightarrow> FileOp \<Rightarrow> gerror option" where
  "file_error env op = (if te_fault env op = FileFine then None else Some (Errorf CodeInternal))"

definition SaveJournal :: "TxEnv \<Rightarrow> Journal \<Rightarrow> 's TxWorld \<Rightarrow> 's TxWorld \<times> gerror option" where
  "SaveJournal env j w =
     (let op = SaveJournalAt (jn_Phase j)
      in (if te_fault env op = FileRefused then w else w\<lparr>tx_journal := Stored j\<rparr>, file_error env op))"

definition SaveBackup :: "TxEnv \<Rightarrow> Backup \<Rightarrow> 's TxWorld \<Rightarrow> 's TxWorld \<times> gerror option" where
  "SaveBackup env b w =
     (if te_fault env SaveBackupOp = FileRefused then w else w\<lparr>tx_backup := Stored b\<rparr>, file_error env SaveBackupOp)"

text \<open>The answer of \<open>LoadJournal\<close>: the record, whether a file was there at all, and the failure.\<close>

definition LoadJournal :: "TxEnv \<Rightarrow> 's TxWorld \<Rightarrow> Journal option \<times> bool \<times> gerror option" where
  "LoadJournal env w =
     (if te_fault env ReadJournal \<noteq> FileFine then (None, False, Some (Errorf CodeInternal))
      else case tx_journal w of
        NoFile \<Rightarrow> (None, False, None)
      | Damaged \<Rightarrow> (None, False, Some (Errorf CodeInternal))
      | Stored j \<Rightarrow>
          if jn_Version j \<noteq> JournalVersion \<and> jn_Version j \<noteq> 1
          then (None, True, Some (Errorf CodeRecoveryRequired))
          else (Some j, True, None))"

definition LoadBackup :: "TxEnv \<Rightarrow> 's TxWorld \<Rightarrow> Backup option \<times> gerror option" where
  "LoadBackup env w =
     (if te_fault env ReadBackup \<noteq> FileFine then (None, Some (Errorf CodeInternal))
      else case tx_backup w of
        NoFile \<Rightarrow> (None, None)
      | Damaged \<Rightarrow> (None, Some (Errorf CodeInternal))
      | Stored b \<Rightarrow> (Some b, None))"

text \<open>\<open>Clear\<close> removes the backup, then the journal; removing a file that is not there is no failure.\<close>

definition Clear :: "TxEnv \<Rightarrow> 's TxWorld \<Rightarrow> 's TxWorld \<times> gerror option" where
  "Clear env w =
     (let gone = (tx_backup w = NoFile);
          w = (if te_fault env RemoveBackup = FileRefused then w else w\<lparr>tx_backup := NoFile\<rparr>) in
      if te_fault env RemoveBackup \<noteq> FileFine \<and> \<not> gone then (w, Some (Errorf CodeInternal))
      else
        let gone = (tx_journal w = NoFile);
            w = (if te_fault env RemoveJournal = FileRefused then w else w\<lparr>tx_journal := NoFile\<rparr>) in
        if te_fault env RemoveJournal \<noteq> FileFine \<and> \<not> gone then (w, Some (Errorf CodeInternal))
        else (w, None))"

subsection \<open>Beginning\<close>

definition value_at :: "(UciKey \<times> UciValue) list \<Rightarrow> UciKey \<Rightarrow> UciValue" where
  "value_at values key = (case map_of values key of None \<Rightarrow> absent | Some v \<Rightarrow> v)"

definition entry_of :: "TxEnv \<Rightarrow> Journal \<Rightarrow> UciValue \<Rightarrow> UciChange \<Rightarrow> JEntry" where
  "entry_of env j previous change = \<lparr>je_Key = uc_Key change,
     je_BeforeHash = (if uv_Present previous then Hash env j (uv_Text previous) else []),
     je_BeforePresent = uv_Present previous,
     je_AfterHash = (if \<not> uc_Delete change then Hash env j (uc_Text change) else []),
     je_AfterDeleted = uc_Delete change, je_BeforeList = uv_IsList previous, je_AfterList = uc_IsList change\<rparr>"

definition section_retyped :: "UciValue \<Rightarrow> UciChange \<Rightarrow> bool" where
  "section_retyped previous change \<longleftrightarrow> IsSection (uc_Key change) \<and> uv_Present previous \<and>
     (uc_Delete change \<or> uc_Text change \<noteq> uv_Text previous)"

definition backup_values :: "(UciKey \<times> UciValue) list \<Rightarrow> UciChange list \<Rightarrow> string gomap" where
  "backup_values before changes = fold (\<lambda>change values.
     if uv_Present (value_at before (uc_Key change))
     then AList.update (keyString (uc_Key change)) (uv_Text (value_at before (uc_Key change))) values else values) changes []"

definition plan_problem :: "TxEnv \<Rightarrow> TxPlan \<Rightarrow> gerror option" where
  "plan_problem env plan =
     (if tp_TaskID plan = [] \<or> tp_Package plan = [] \<or> tp_Changes plan = [] then Some (Errorf CodeInvalidArgument)
      else case checkWritable (te_tool env) (tp_Changes plan) of
        Some err \<Rightarrow> Some err
      | None \<Rightarrow> if \<not> distinct (map uc_Key (tp_Changes plan)) then Some (Errorf CodeInvalidArgument) else None)"

definition clear_previous :: "TxEnv \<Rightarrow> 's TxWorld \<Rightarrow> 's TxWorld \<times> gerror option" where
  "clear_previous env w =
     (case LoadJournal env w of
        (_, _, Some err) \<Rightarrow> (w, Some err)
      | (None, _, None) \<Rightarrow> (w, None)
      | (Some previous, _, None) \<Rightarrow>
          (case jn_Phase previous of
             PhaseCommitted \<Rightarrow> Clear env w
           | PhaseRolledBack \<Rightarrow> Clear env w
           | PhaseRecoveryRequired \<Rightarrow> (w, Some (Errorf CodeRecoveryRequired))
           | _ \<Rightarrow> (w, Some (Errorf CodeConflict))))"

definition new_journal :: "TxEnv \<Rightarrow> TxPlan \<Rightarrow> string \<Rightarrow> Journal" where
  "new_journal env plan salt = \<lparr>jn_Version = JournalVersion, jn_TaskID = tp_TaskID plan, jn_Phase = PhasePlanned,
     jn_Package = tp_Package plan, jn_ConfigRevision = tp_ConfigRevision plan, jn_Salt = salt, jn_Entries = [],
     jn_StartedAt = te_now env, jn_ExpiresAt = te_now env + tp_ConfirmWithin plan\<rparr>"

definition record_plan :: "TxEnv \<Rightarrow> TxPlan \<Rightarrow> string \<Rightarrow> (UciKey \<times> UciValue) list \<Rightarrow> 's TxWorld \<Rightarrow> 's TxWorld \<times> (gerror + Journal)" where
  "record_plan env plan salt before w =
     (let j = new_journal env plan salt; changes = tp_Changes plan in
      if list_ex (\<lambda>c. section_retyped (value_at before (uc_Key c)) c) changes then (w, Inl (Errorf CodeConflict))
      else
        let j = j\<lparr>jn_Entries := map (\<lambda>c. entry_of env j (value_at before (uc_Key c)) c) changes\<rparr>;
            b = \<lparr>bk_TaskID = tp_TaskID plan, bk_Values = backup_values before changes\<rparr> in
        case SaveBackup env b w of
          (w, Some err) \<Rightarrow> (w, Inl err)
        | (w, None) \<Rightarrow>
            let j = j\<lparr>jn_Phase := PhaseBackedUp\<rparr> in
            case SaveJournal env j w of (w, Some err) \<Rightarrow> (w, Inl err) | (w, None) \<Rightarrow> (w, Inr j))"

definition Begin :: "TxEnv \<Rightarrow> 's StoreOps \<Rightarrow> TxPlan \<Rightarrow> 's TxWorld \<Rightarrow> 's TxWorld \<times> (gerror + Journal)" where
  "Begin env st plan w =
     (case plan_problem env plan of
        Some err \<Rightarrow> (w, Inl err)
      | None \<Rightarrow> (case clear_previous env w of
          (w, Some err) \<Rightarrow> (w, Inl err)
        | (w, None) \<Rightarrow> (case st_PendingChanges st (tp_Package plan) (tx_store w) of
            Inl err \<Rightarrow> (w, Inl err)
          | Inr pending \<Rightarrow>
              if pending \<noteq> [] then (w, Inl (Errorf CodeConflict))
              else case te_salt env of
                None \<Rightarrow> (w, Inl (Errorf CodeInternal))
              | Some salt \<Rightarrow>
                  (case st_Read st (tp_Package plan) (map uc_Key (tp_Changes plan)) (tx_store w) of
                     Inl err \<Rightarrow> (w, Inl err)
                   | Inr before \<Rightarrow> record_plan env plan salt before w))))"

subsection \<open>Applying and confirming\<close>

definition setPhase :: "TxEnv \<Rightarrow> TxPhase \<Rightarrow> Journal \<Rightarrow> 's TxWorld \<Rightarrow> 's TxWorld \<times> Journal \<times> gerror option" where
  "setPhase env phase j w =
     (let j = j\<lparr>jn_Phase := phase\<rparr>; (w, err) = SaveJournal env j w in (w, j, err))"

definition planned_change :: "TxEnv \<Rightarrow> Journal \<Rightarrow> UciChange \<Rightarrow> bool" where
  "planned_change env j change \<longleftrightarrow> list_ex (\<lambda>entry. je_Key entry = uc_Key change \<and>
     je_AfterDeleted entry = uc_Delete change \<and> je_AfterList entry = uc_IsList change \<and>
     (uc_Delete change \<or> Hash env j (uc_Text change) = je_AfterHash entry)) (jn_Entries j)"

definition Apply :: "TxEnv \<Rightarrow> 's StoreOps \<Rightarrow> UciChange list \<Rightarrow> Journal \<Rightarrow> 's TxWorld \<Rightarrow> 's TxWorld \<times> Journal \<times> gerror option" where
  "Apply env st changes j w =
     (if jn_Phase j \<noteq> PhaseBackedUp then (w, j, Some (Errorf CodeConflict))
      else if length changes \<noteq> length (jn_Entries j) then (w, j, Some (Errorf CodeConflict))
      else if \<not> list_all (planned_change env j) changes \<or> \<not> distinct (map uc_Key changes)
      then (w, j, Some (Errorf CodeConflict))
      else case st_Stage st (jn_Package j) changes (tx_store w) of
        (s, Some err) \<Rightarrow> (w\<lparr>tx_store := s\<rparr>, j, Some err)
      | (s, None) \<Rightarrow> (case setPhase env PhaseApplied j (w\<lparr>tx_store := s\<rparr>) of
          (w, j, Some err) \<Rightarrow> (w, j, Some err)
        | (w, j, None) \<Rightarrow> (case st_Commit st (jn_Package j) (tx_store w) of
            (s, Some err) \<Rightarrow> (w\<lparr>tx_store := s\<rparr>, j, Some err)
          | (s, None) \<Rightarrow> (case st_Reload st s of (s, err) \<Rightarrow> (w\<lparr>tx_store := s\<rparr>, j, err)))))"

definition AwaitConfirm :: "TxEnv \<Rightarrow> Journal \<Rightarrow> 's TxWorld \<Rightarrow> 's TxWorld \<times> Journal \<times> gerror option" where
  "AwaitConfirm env j w =
     (if jn_Phase j \<noteq> PhaseApplied then (w, j, Some (Errorf CodeConflict))
      else setPhase env PhaseAwaitingConfirm j w)"

definition Confirm :: "TxEnv \<Rightarrow> Journal \<Rightarrow> 's TxWorld \<Rightarrow> 's TxWorld \<times> Journal \<times> gerror option" where
  "Confirm env j w =
     (if jn_Phase j = PhaseCommitted then (case Clear env w of (w, err) \<Rightarrow> (w, j, err))
      else if jn_Phase j \<noteq> PhaseApplied \<and> jn_Phase j \<noteq> PhaseAwaitingConfirm then (w, j, Some (Errorf CodeConflict))
      else case setPhase env PhaseCommitted j w of
        (w, j, Some err) \<Rightarrow> (w, j, Some err)
      | (w, j, None) \<Rightarrow> (case Clear env w of (w, err) \<Rightarrow> (w, j, err)))"

subsection \<open>Undoing\<close>

definition alreadyBefore :: "TxEnv \<Rightarrow> Journal \<Rightarrow> JEntry \<Rightarrow> UciValue \<Rightarrow> bool" where
  "alreadyBefore env j entry v =
     (if \<not> je_BeforePresent entry then \<not> uv_Present v
      else uv_Present v \<and> uv_IsList v = je_BeforeList entry \<and> Hash env j (uv_Text v) = je_BeforeHash entry)"

definition stillOurs :: "TxEnv \<Rightarrow> Journal \<Rightarrow> JEntry \<Rightarrow> UciValue \<Rightarrow> bool" where
  "stillOurs env j entry v =
     (if je_AfterDeleted entry then \<not> uv_Present v
      else if \<not> uv_Present v then False
      else uv_IsList v = je_AfterList entry \<and> Hash env j (uv_Text v) = je_AfterHash entry)"

definition owned_child :: "TxEnv \<Rightarrow> Journal \<Rightarrow> (UciKey \<times> UciValue) list \<Rightarrow> UciKey \<Rightarrow> bool" where
  "owned_child env j current child =
     (case find (\<lambda>item. je_Key item = child) (rev (jn_Entries j)) of
        None \<Rightarrow> False
      | Some item \<Rightarrow> stillOurs env j item (value_at current child) \<or> alreadyBefore env j item (value_at current child))"

fun blocked_sections :: "TxEnv \<Rightarrow> 's StoreOps \<Rightarrow> Journal \<Rightarrow> 's \<Rightarrow> (UciKey \<times> UciValue) list \<Rightarrow> JEntry list \<Rightarrow> gerror + string list" where
  "blocked_sections env st j s current [] = Inr []"
| "blocked_sections env st j s current (entry # rest) =
     (let skip = (\<not> IsSection (je_Key entry) \<or> je_BeforePresent entry \<or> \<not> uv_Present (value_at current (je_Key entry))) in
      case (if skip then Inr [] else st_SectionKeys st (jn_Package j) (uk_Section (je_Key entry)) s) of
        Inl err \<Rightarrow> Inl err
      | Inr children \<Rightarrow>
          (case blocked_sections env st j s current rest of
             Inl err \<Rightarrow> Inl err
           | Inr others \<Rightarrow> Inr ((if list_all (owned_child env j current) children then [] else [uk_Section (je_Key entry)]) @ others)))"

text \<open>One entry of the journal: leave it as a conflict, find it undone already, or restore it.\<close>

datatype Undo = UndoConflict | UndoNothing | UndoMismatch | UndoRestore UciChange | UndoRemove UciChange

definition undo_entry :: "TxEnv \<Rightarrow> Journal \<Rightarrow> Backup \<Rightarrow> string list \<Rightarrow> (UciKey \<times> UciValue) list \<Rightarrow> JEntry \<Rightarrow> Undo" where
  "undo_entry env j backup blocked current entry =
     (let key = je_Key entry; v = value_at current key in
      if IsSection key \<and> uk_Section key \<in> set blocked then UndoConflict
      else if alreadyBefore env j entry v then UndoNothing
      else if \<not> stillOurs env j entry v then UndoConflict
      else if je_BeforePresent entry then
        (case map_of (bk_Values backup) (keyString key) of
           None \<Rightarrow> UndoMismatch
         | Some previous \<Rightarrow>
             if bk_TaskID backup \<noteq> jn_TaskID j \<or> Hash env j previous \<noteq> je_BeforeHash entry then UndoMismatch
             else UndoRestore \<lparr>uc_Key = key, uc_Text = previous, uc_IsList = je_BeforeList entry, uc_Delete = False\<rparr>)
      else UndoRemove \<lparr>uc_Key = key, uc_Text = [], uc_IsList = False, uc_Delete = True\<rparr>)"

fun undo_all :: "(JEntry \<Rightarrow> Undo) \<Rightarrow> JEntry list \<Rightarrow> (TxOutcome \<times> UciChange list) option" where
  "undo_all f [] = Some (zero_outcome, [])"
| "undo_all f (entry # rest) =
     (if f entry = UndoMismatch then None
      else case undo_all f rest of
        None \<Rightarrow> None
      | Some (out, restore) \<Rightarrow>
          (case f entry of
             UndoConflict \<Rightarrow> Some (out\<lparr>to_Conflicts := je_Key entry # to_Conflicts out\<rparr>, restore)
           | UndoRestore change \<Rightarrow> Some (out\<lparr>to_Restored := je_Key entry # to_Restored out\<rparr>, change # restore)
           | UndoRemove change \<Rightarrow> Some (out\<lparr>to_Removed := je_Key entry # to_Removed out\<rparr>, change # restore)
           | _ \<Rightarrow> Some (out\<lparr>to_Restored := je_Key entry # to_Restored out\<rparr>, restore)))"

definition publish_undo :: "'s StoreOps \<Rightarrow> string \<Rightarrow> UciChange list \<Rightarrow> 's \<Rightarrow> 's \<times> gerror option" where
  "publish_undo st pkg restore s =
     (if restore = [] then (s, None)
      else case st_Stage st pkg restore s of
        (s, Some err) \<Rightarrow> (s, Some err)
      | (s, None) \<Rightarrow> (case st_Commit st pkg s of
          (s, Some err) \<Rightarrow> (s, Some err)
        | (s, None) \<Rightarrow> st_Reload st s))"

definition finish_rollback :: "TxEnv \<Rightarrow> Journal \<Rightarrow> TxOutcome \<Rightarrow> 's TxWorld \<Rightarrow> 's TxWorld \<times> TxOutcome \<times> gerror option" where
  "finish_rollback env j out w =
     (if to_Conflicts out \<noteq> [] then
        let out = out\<lparr>to_Phase := Some PhaseRecoveryRequired\<rparr>;
            (w, err) = SaveJournal env (j\<lparr>jn_Phase := PhaseRecoveryRequired\<rparr>) w
        in (w, out, case err of Some e \<Rightarrow> Some e | None \<Rightarrow> Some (Errorf CodeRecoveryRequired))
      else
        let out = out\<lparr>to_Phase := Some PhaseRolledBack\<rparr>; (w, err) = Clear env w in (w, out, err))"

definition undo_changes :: "TxEnv \<Rightarrow> 's StoreOps \<Rightarrow> Journal \<Rightarrow> Backup \<Rightarrow> 's TxWorld \<Rightarrow> 's TxWorld \<times> TxOutcome \<times> gerror option" where
  "undo_changes env st j backup w =
     (case st_Read st (jn_Package j) (map je_Key (jn_Entries j)) (tx_store w) of
        Inl err \<Rightarrow> (w, zero_outcome, Some err)
      | Inr current \<Rightarrow>
          (case blocked_sections env st j (tx_store w) current (jn_Entries j) of
             Inl err \<Rightarrow> (w, zero_outcome, Some err)
           | Inr blocked \<Rightarrow>
               (case undo_all (undo_entry env j backup blocked current) (jn_Entries j) of
                  None \<Rightarrow> (w, zero_outcome, Some (Errorf CodeRecoveryRequired))
                | Some (out, restore) \<Rightarrow>
                    (case publish_undo st (jn_Package j) restore (tx_store w) of
                       (s, Some err) \<Rightarrow> (w\<lparr>tx_store := s\<rparr>, zero_outcome, Some err)
                     | (s, None) \<Rightarrow> finish_rollback env j out (w\<lparr>tx_store := s\<rparr>)))))"

definition rollback :: "TxEnv \<Rightarrow> 's StoreOps \<Rightarrow> Journal \<Rightarrow> 's TxWorld \<Rightarrow> 's TxWorld \<times> TxOutcome \<times> gerror option" where
  "rollback env st j w =
     (if TxTerminal (jn_Phase j) then (w, outcome_at (jn_Phase j), None)
      else if jn_Phase j = PhasePlanned \<or> jn_Phase j = PhaseBackedUp
      then (case Clear env w of (w, err) \<Rightarrow> (w, outcome_at PhaseRolledBack, err))
      else
        let j = j\<lparr>jn_Phase := PhaseRollingBack\<rparr> in
        case SaveJournal env j w of
          (w, Some err) \<Rightarrow> (w, zero_outcome, Some err)
        | (w, None) \<Rightarrow>
            (case LoadBackup env w of
               (_, Some err) \<Rightarrow> (w, zero_outcome, Some err)
             | (None, None) \<Rightarrow>
                 (fst (SaveJournal env (j\<lparr>jn_Phase := PhaseRecoveryRequired\<rparr>) w),
                  outcome_at PhaseRecoveryRequired, Some (Errorf CodeRecoveryRequired))
             | (Some backup, None) \<Rightarrow> undo_changes env st j backup w))"

definition Recover :: "TxEnv \<Rightarrow> 's StoreOps \<Rightarrow> nat \<Rightarrow> 's TxWorld \<Rightarrow> 's TxWorld \<times> TxOutcome \<times> bool \<times> gerror option" where
  "Recover env st currentRevision w =
     (case LoadJournal env w of
        (_, present, Some err) \<Rightarrow> (w, zero_outcome, present, Some err)
      | (None, _, None) \<Rightarrow> (w, zero_outcome, False, None)
      | (Some j, _, None) \<Rightarrow>
          if jn_Phase j = PhaseRecoveryRequired
          then (w, outcome_at PhaseRecoveryRequired, True, Some (Errorf CodeRecoveryRequired))
          else if TxTerminal (jn_Phase j) then (case Clear env w of (w, err) \<Rightarrow> (w, outcome_at (jn_Phase j), True, err))
          else if jn_Phase j = PhasePlanned \<or> jn_Phase j = PhaseBackedUp
          then (case Clear env w of (w, err) \<Rightarrow> (w, outcome_at PhaseRolledBack, True, err))
          else if jn_ConfigRevision j \<noteq> currentRevision then
            (case SaveJournal env (j\<lparr>jn_Phase := PhaseRecoveryRequired\<rparr>) w of
               (w, Some err) \<Rightarrow> (w, zero_outcome, True, Some err)
             | (w, None) \<Rightarrow> (w, outcome_at PhaseRecoveryRequired, True, Some (Errorf CodeRecoveryRequired)))
          else if jn_Phase j = PhaseAwaitingConfirm \<and> te_now env < jn_ExpiresAt j
          then (w, outcome_at (jn_Phase j), True, None)
          else (case rollback env st j w of (w, out, err) \<Rightarrow> (w, out, True, err)))"

end
