(* ===== verification/Wireless_Laws.thy ===== *)
theory Wireless_Laws
  imports Wireless_Tx
begin

text \<open>
  What a transaction relies on: the contract of the interface \<open>Store\<close> as the locale \<open>config_store\<close>, and
  the store of \<open>wireless/store.go\<close> as its provider. The contract speaks about \<open>look\<close>, the value of every
  key of a package as the system sees it. Staging never changes it, publishing changes it to exactly
  the staged values or not at all, and reading tells the truth.

  The one thing the store cannot promise by itself is what the \<open>uci batch\<close> program does to keys nobody
  named. That is the law of \<open>uci_batch\<close>: a command changes its key only, except that deleting a section
  deletes its options.
\<close>

subsection \<open>What a list of changes means\<close>

definition section_key :: "UciKey \<Rightarrow> UciKey" where
  "section_key k = \<lparr>uk_Section = uk_Section k, uk_Option = []\<rparr>"

definition change_value :: "UciChange \<Rightarrow> UciValue" where
  "change_value c = (if uc_Delete c then absent else \<lparr>uv_Text = uc_Text c, uv_Present = True, uv_IsList = uc_IsList c\<rparr>)"

definition written :: "UciChange list \<Rightarrow> (UciKey \<Rightarrow> UciValue) \<Rightarrow> UciKey \<Rightarrow> UciValue" where
  "written cs before key =
     (case find (\<lambda>c. uc_Key c = key) cs of
        Some c \<Rightarrow> change_value c
      | None \<Rightarrow> if \<exists>c \<in> set cs. uc_Delete c \<and> uc_Key c = section_key key then absent else before key)"

lemma written_Nil [simp]: "written [] before = before"
  by (rule ext) (simp add: written_def)

lemma find_key: "distinct (map f xs) \<Longrightarrow> x \<in> set xs \<Longrightarrow> find (\<lambda>y. f y = f x) xs = Some x"
  by (induction xs) auto

lemma find_key_None: "k \<notin> f ` set xs \<Longrightarrow> find (\<lambda>y. f y = k) xs = None"
  by (auto simp: find_None_iff)

lemma written_named:
  "distinct (map uc_Key cs) \<Longrightarrow> c \<in> set cs \<Longrightarrow> written cs before (uc_Key c) = change_value c"
  by (simp add: written_def find_key)

lemma written_other:
  "k \<notin> uc_Key ` set cs \<Longrightarrow>
   written cs before k = (if \<exists>c \<in> set cs. uc_Delete c \<and> uc_Key c = section_key k then absent else before k)"
  by (simp add: written_def find_key_None)

lemma section_key_simps [simp]:
  "uk_Section (section_key k) = uk_Section k" "IsSection (section_key k)" "IsSection k \<Longrightarrow> section_key k = k"
  by (simp_all add: section_key_def IsSection_def)

subsection \<open>The contract\<close>

locale config_store =
  fixes st :: "'s StoreOps" and look :: "string \<Rightarrow> 's \<Rightarrow> UciKey \<Rightarrow> UciValue" and invar :: "'s \<Rightarrow> bool"
  assumes read_look: "invar s \<Longrightarrow> st_Read st pkg keys s = Inr vs \<Longrightarrow> k \<in> set keys \<Longrightarrow> value_at vs k = look pkg s k"
    and keys_look: "invar s \<Longrightarrow> st_SectionKeys st pkg (uk_Section k) s = Inr children \<Longrightarrow> \<not> IsSection k \<Longrightarrow>
      uv_Present (look pkg s k) \<Longrightarrow> k \<in> set children"
    and keys_present: "invar s \<Longrightarrow> st_SectionKeys st pkg sec s = Inr children \<Longrightarrow> k \<in> set children \<Longrightarrow>
      uk_Section k = sec \<and> \<not> IsSection k \<and> uv_Present (look pkg s k)"
    and look_absent: "\<not> uv_Present (look pkg s k) \<Longrightarrow> look pkg s k = absent"
    and look_section: "uv_Present (look pkg s k) \<Longrightarrow> uv_Present (look pkg s (section_key k))"
    and stage_look: "look q (fst (st_Stage st pkg cs s)) = look q s"
    and commit_other: "q \<noteq> pkg \<Longrightarrow> look q (fst (st_Commit st pkg s)) = look q s"
    and publish_look: "st_Stage st pkg cs s = (s1, None) \<Longrightarrow> distinct (map uc_Key cs) \<Longrightarrow> st_Commit st pkg s1 = (s2, e) \<Longrightarrow>
      e \<noteq> None \<and> look pkg s2 = look pkg s \<or> look pkg s2 = written cs (look pkg s)"
    and reload_look: "look q (fst (st_Reload st s)) = look q s"
    and invar_stage: "invar s \<Longrightarrow> invar (fst (st_Stage st pkg cs s))"
    and invar_commit: "invar s \<Longrightarrow> invar (fst (st_Commit st pkg s))"
    and invar_reload: "invar s \<Longrightarrow> invar (fst (st_Reload st s))"

subsection \<open>The UCI store keeps it\<close>

definition uci_ops :: "UciTool \<Rightarrow> UCIStore StoreOps" where
  "uci_ops t = \<lparr>st_Read = UCIStore_Read t, st_SectionKeys = UCIStore_SectionKeys t, st_Stage = UCIStore_Stage t,
     st_Commit = UCIStore_Commit t, st_PendingChanges = UCIStore_PendingChanges t, st_Reload = UCIStore_Reload t\<rparr>"

definition live_value :: "UciTool \<Rightarrow> string \<Rightarrow> UCIStore \<Rightarrow> UciKey \<Rightarrow> UciValue" where
  "live_value t pkg s k = (case su_live s pkg of None \<Rightarrow> absent | Some config \<Rightarrow> read_value t config k)"

lemma uci_ops_simps [simp]:
  "st_Read (uci_ops t) = UCIStore_Read t" "st_SectionKeys (uci_ops t) = UCIStore_SectionKeys t"
  "st_Stage (uci_ops t) = UCIStore_Stage t" "st_Commit (uci_ops t) = UCIStore_Commit t"
  "st_PendingChanges (uci_ops t) = UCIStore_PendingChanges t" "st_Reload (uci_ops t) = UCIStore_Reload t"
  by (simp_all add: uci_ops_def)

lemma absent_simps [simp]: "uv_Text absent = []" "\<not> uv_Present absent" "\<not> uv_IsList absent"
  by (simp_all add: absent_def)

fun touches :: "UciCommand \<Rightarrow> UciKey \<Rightarrow> bool" where
  "touches (CmdSet k v) key = (k = key)"
| "touches (CmdAddList k v) key = (k = key)"
| "touches (CmdDelete k) key = (k = key \<or> k = section_key key)"

text \<open>UCI has neither an unnamed option nor one that holds the empty string. A settled store has no
  uncommitted changes of somebody else either.\<close>

definition tidy :: "UCIConfig \<Rightarrow> bool" where
  "tidy config \<longleftrightarrow> list_all (\<lambda>s. list_all (\<lambda>(name, v). name \<noteq> [] \<and> (ux_IsList v \<or> ux_Text v \<noteq> [])) (ss_options s)) config"

definition store_tidy :: "UCIStore \<Rightarrow> bool" where
  "store_tidy s \<longleftrightarrow> (\<forall>pkg. su_pending s pkg = []) \<and> (\<forall>pkg config. su_live s pkg = Some config \<longrightarrow> tidy config) \<and>
     (\<forall>pkg config candidate. su_staged s pkg = Some (config, candidate) \<longrightarrow> tidy candidate)"

locale uci_batch =
  fixes t :: UciTool
  assumes batch_frame: "ut_batch t batch config = Some config' \<Longrightarrow> \<not> list_ex (\<lambda>cmd. touches cmd k) batch \<Longrightarrow>
    read_value t config' k = read_value t config k"
    and overlay_none: "ut_overlay t [] config = config"
    and batch_tidy: "ut_batch t batch config = Some config' \<Longrightarrow> tidy config \<Longrightarrow> tidy config'"

lemma read_values_exact:
  "read_values t config keys = Inr vs \<Longrightarrow> k \<in> set keys \<Longrightarrow> value_at vs k = read_value t config k"
  by (induction keys arbitrary: vs) (auto simp: value_at_def split: option.splits sum.splits if_splits)

lemma show_settled:
  "uci_batch t \<Longrightarrow> store_tidy s \<Longrightarrow> show_live t op pkg s =
    (if ut_fault t op then Inl (Errorf CodeInternal)
     else case su_live s pkg of None \<Rightarrow> Inl (Errorf CodeNotFound) | Some config \<Rightarrow> Inr config)"
  by (simp add: show_live_def store_tidy_def uci_batch.overlay_none cong: option.case_cong if_cong)

lemma live_read:
  "uci_batch t \<Longrightarrow> store_tidy s \<Longrightarrow> UCIStore_Read t pkg keys s = Inr vs \<Longrightarrow> k \<in> set keys \<Longrightarrow>
   value_at vs k = live_value t pkg s k"
  by (auto simp: UCIStore_Read_def show_settled live_value_def split: option.splits sum.splits if_splits
      intro: read_values_exact)

lemma live_keys:
  "uci_batch t \<Longrightarrow> store_tidy s \<Longrightarrow> UCIStore_SectionKeys t pkg (uk_Section k) s = Inr children \<Longrightarrow> \<not> IsSection k \<Longrightarrow>
   uv_Present (live_value t pkg s k) \<Longrightarrow> k \<in> set children"
  by (auto simp: UCIStore_SectionKeys_def show_settled live_value_def read_value_def UCISection_Lookup_def OptionNames_def
      split: option.splits sum.splits if_splits dest!: map_of_SomeD)
    (force simp: image_iff)+

lemma live_keys_present:
  assumes "store_tidy s" and "UCIStore_SectionKeys t pkg sec s = Inr children" and "k \<in> set children" and tool: "uci_batch t"
  shows "uk_Section k = sec \<and> \<not> IsSection k \<and> uv_Present (live_value t pkg s k)"
proof -
  obtain config found option where live: "su_live s pkg = Some config" and found: "Section config sec = Some found"
    and k: "k = \<lparr>uk_Section = sec, uk_Option = option\<rparr>" and "option \<in> fst ` set (ss_options found)"
    using assms(2,3) by (auto simp: UCIStore_SectionKeys_def show_settled [OF tool assms(1)] OptionNames_def image_iff
        split: option.splits sum.splits if_splits) force
  then obtain v where v: "map_of (ss_options found) option = Some v" by (metis map_of_eq_None_iff not_None_eq)
  have "found \<in> set config" using found by (auto simp: Section_def find_Some_iff)
  moreover have "tidy config" using assms(1) live by (simp add: store_tidy_def)
  ultimately have "option \<noteq> [] \<and> (ux_IsList v \<or> ux_Text v \<noteq> [])"
    using map_of_SomeD [OF v] by (fastforce simp: tidy_def list_all_iff)
  then show ?thesis by (auto simp: k IsSection_def live_value_def live read_value_def found UCISection_Lookup_def v)
qed

lemma read_value_absent: "\<not> uv_Present (read_value t config k) \<Longrightarrow> read_value t config k = absent"
  by (auto simp: read_value_def Let_def split: option.splits if_splits)

lemma read_value_section: "uv_Present (read_value t config k) \<Longrightarrow> uv_Present (read_value t config (section_key k))"
  by (auto simp: read_value_def split: option.splits if_splits)

lemma stage_live: "su_live (fst (UCIStore_Stage t pkg cs s)) = su_live s"
  by (simp add: UCIStore_Stage_def Let_def split: option.split sum.split)

lemma commit_live_other: "q \<noteq> pkg \<Longrightarrow> su_live (fst (UCIStore_Commit t pkg s)) q = su_live s q"
  by (simp add: UCIStore_Commit_def Let_def split: option.split)

text \<open>A change that matches the configuration reads as the value it asks for.\<close>

lemma writable_change:
  "checkWritable t cs = None \<Longrightarrow> c \<in> set cs \<Longrightarrow> check_change t c = None"
  by (induction cs) (auto split: option.splits)

lemma matches_value:
  assumes "change_matches t config c" and "check_change t c = None"
  shows "read_value t config (uc_Key c) = change_value c"
  using assms
  by (auto simp: change_matches_def check_change_def Let_def read_value_def change_value_def absent_def
      split: option.splits if_splits sum.splits)

lemma batch_of_touches:
  assumes "cmd \<in> set (batch_of t existing c)" and "touches cmd k" and "check_change t c = None"
  shows "uc_Key c = k \<or> uc_Delete c \<and> uc_Key c = section_key k"
proof -
  have "uc_Key c \<noteq> section_key k" if "uc_IsList c"
    using assms(3) that by (auto simp: check_change_def Let_def split: option.splits if_splits)
  with assms(1,2) show ?thesis by (auto simp: batch_of_def Let_def split: if_splits sum.splits)
qed

lemma ordered_set: "set (ordered cs) = set cs"
  by (auto simp: ordered_def)

lemma matching_is_written:
  assumes "candidateMatches t candidate cs" and "checkWritable t cs = None" and "distinct (map uc_Key cs)"
    and frame: "\<And>k. \<forall>c \<in> set cs. uc_Key c \<noteq> k \<and> \<not> (uc_Delete c \<and> uc_Key c = section_key k) \<Longrightarrow>
      read_value t candidate k = read_value t config k"
  shows "read_value t candidate = written cs (read_value t config)"
proof
  fix k
  have value_of: "read_value t candidate (uc_Key c) = change_value c" if "c \<in> set cs" for c
    using assms(1,2) that by (auto simp: candidateMatches_def list_all_iff intro: matches_value writable_change)
  consider (named) c where "c \<in> set cs" "uc_Key c = k"
    | (below) c where "k \<notin> uc_Key ` set cs" "c \<in> set cs" "uc_Delete c" "uc_Key c = section_key k"
    | (other) "\<forall>c \<in> set cs. uc_Key c \<noteq> k \<and> \<not> (uc_Delete c \<and> uc_Key c = section_key k)"
    by blast
  then show "read_value t candidate k = written cs (read_value t config) k"
  proof cases
    case named
    then show ?thesis using \<open>distinct (map uc_Key cs)\<close> written_named [of cs c] value_of [of c] by simp
  next
    case below
    then have "\<not> uv_Present (read_value t candidate (section_key k))" using value_of [of c] by (simp add: change_value_def)
    then have "read_value t candidate k = absent" using read_value_section read_value_absent by blast
    with below show ?thesis by (auto simp: written_other)
  next
    case other
    then have "k \<notin> uc_Key ` set cs" by blast
    with other frame [OF other] show ?thesis by (auto simp: written_other)
  qed
qed

lemma built_candidate:
  assumes "uci_batch t" and "build_candidate t cs config = Inr candidate" and "checkWritable t cs = None"
    and "distinct (map uc_Key cs)"
  shows "read_value t candidate = written cs (read_value t config)"
proof (rule matching_is_written [OF _ assms(3,4)])
  show "candidateMatches t candidate cs"
    using assms(2) by (auto simp: build_candidate_def Let_def split: if_splits option.splits)
  fix k
  assume apart: "\<forall>c \<in> set cs. uc_Key c \<noteq> k \<and> \<not> (uc_Delete c \<and> uc_Key c = section_key k)"
  let ?batch = "concat (map (batch_of t (existingKeys config)) (ordered cs))"
  have "\<not> list_ex (\<lambda>cmd. touches cmd k) ?batch"
    using apart assms(3) batch_of_touches writable_change by (fastforce simp: list_ex_iff ordered_set)
  then show "read_value t candidate k = read_value t config k"
    using assms(2) uci_batch.batch_frame [OF assms(1)]
    by (auto simp: build_candidate_def Let_def split: if_splits option.splits)
qed

lemma stage_staged:
  assumes "UCIStore_Stage t pkg cs s = (s1, None)"
  shows "checkName pkg = None \<and> (\<exists>config candidate. su_live s pkg = Some config \<and> su_live s1 = su_live s \<and>
    su_staged s1 pkg = Some (config, candidate) \<and> checkWritable t cs = None \<and> build_candidate t cs config = Inr candidate)"
  using assms by (auto simp: UCIStore_Stage_def Let_def split: option.splits sum.splits if_splits)

lemma publish_live:
  assumes "uci_batch t" and "UCIStore_Stage t pkg cs s = (s1, None)" and "distinct (map uc_Key cs)"
    and "UCIStore_Commit t pkg s1 = (s2, e)"
  shows "e \<noteq> None \<and> live_value t pkg s2 = live_value t pkg s \<or> live_value t pkg s2 = written cs (live_value t pkg s)"
proof -
  obtain config candidate where staged: "su_live s pkg = Some config" "su_live s1 = su_live s"
      "su_staged s1 pkg = Some (config, candidate)" "checkWritable t cs = None" "build_candidate t cs config = Inr candidate"
    using stage_staged [OF assms(2)] by blast
  then have target: "read_value t candidate = written cs (read_value t config)"
    using built_candidate [OF assms(1)] assms(3) by blast
  have live: "live_value t pkg s = read_value t config" using staged(1) by (auto simp: live_value_def)
  have "(e \<noteq> None \<and> su_live s2 pkg = Some config) \<or> su_live s2 pkg = Some candidate"
    using assms(4) staged(1-3) stage_staged [OF assms(2)] by (auto simp: UCIStore_Commit_def Let_def split: if_splits)
  then show ?thesis by (auto simp: live target [symmetric] live_value_def)
qed

lemma stage_tidy:
  assumes "uci_batch t" and "store_tidy s"
  shows "store_tidy (fst (UCIStore_Stage t pkg cs s))"
proof -
  have "tidy candidate" if "build_candidate t cs config = Inr candidate" "tidy config" for config candidate
    using that uci_batch.batch_tidy [OF assms(1)]
    by (auto simp: build_candidate_def Let_def split: if_splits option.splits)
  with assms(2) show ?thesis
    by (auto simp: UCIStore_Stage_def store_tidy_def Let_def split: option.split sum.split)
qed

lemma commit_tidy: "store_tidy s \<Longrightarrow> store_tidy (fst (UCIStore_Commit t pkg s))"
  by (auto simp: UCIStore_Commit_def store_tidy_def Let_def split: option.split)

sublocale uci_batch \<subseteq> uci: config_store "uci_ops t" "live_value t" store_tidy
proof
  show "value_at vs k = live_value t pkg s k" if "store_tidy s" "st_Read (uci_ops t) pkg keys s = Inr vs" "k \<in> set keys" for pkg keys s vs k
    using that live_read [OF uci_batch_axioms] by simp
  show "k \<in> set children" if "store_tidy s" "st_SectionKeys (uci_ops t) pkg (uk_Section k) s = Inr children" "\<not> IsSection k"
    "uv_Present (live_value t pkg s k)" for pkg k s children
    using that live_keys [OF uci_batch_axioms] by simp
  show "live_value t pkg s k = absent" if "\<not> uv_Present (live_value t pkg s k)" for pkg s k
    using that by (auto simp: live_value_def read_value_absent split: option.splits)
  show "uv_Present (live_value t pkg s (section_key k))" if "uv_Present (live_value t pkg s k)" for pkg s k
    using that by (auto simp: live_value_def read_value_section split: option.splits)
  show "live_value t q (fst (st_Stage (uci_ops t) pkg cs s)) = live_value t q s" for q pkg cs s
    by (rule ext) (simp add: live_value_def stage_live)
  show "live_value t q (fst (st_Commit (uci_ops t) pkg s)) = live_value t q s" if "q \<noteq> pkg" for q pkg s
    using that by (intro ext) (simp add: live_value_def commit_live_other)
  show "e \<noteq> None \<and> live_value t pkg s2 = live_value t pkg s \<or> live_value t pkg s2 = written cs (live_value t pkg s)"
    if "st_Stage (uci_ops t) pkg cs s = (s1, None)" "distinct (map uc_Key cs)" "st_Commit (uci_ops t) pkg s1 = (s2, e)"
    for pkg cs s s1 s2 e
    using publish_live [OF uci_batch_axioms] that by simp
  show "live_value t q (fst (st_Reload (uci_ops t) s)) = live_value t q s" for q s
    by (simp add: UCIStore_Reload_def)
  show "uk_Section k = sec \<and> \<not> IsSection k \<and> uv_Present (live_value t pkg s k)"
    if "store_tidy s" "st_SectionKeys (uci_ops t) pkg sec s = Inr children" "k \<in> set children" for s pkg sec children k
    using that live_keys_present [OF _ _ _ uci_batch_axioms] by simp
  show "store_tidy (fst (st_Stage (uci_ops t) pkg cs s))" if "store_tidy s" for pkg cs s
    using that stage_tidy [OF uci_batch_axioms] by simp
  show "store_tidy (fst (st_Commit (uci_ops t) pkg s))" if "store_tidy s" for pkg s
    using that commit_tidy by simp
  show "store_tidy (fst (st_Reload (uci_ops t) s))" if "store_tidy s" for s
    using that by (simp add: UCIStore_Reload_def)
qed

context uci_batch
begin

lemma uci_config_store: "config_store (uci_ops t) (live_value t) store_tidy"
  by (rule uci.config_store_axioms)

end

end
