(* ===== verification/Wireless_Undo.thy ===== *)
theory Wireless_Undo
  imports Wireless_Laws
begin

text \<open>
  What undoing a transaction does to the configuration, proved from the store's contract. \<open>undoable\<close> says
  that a journal and a backup were made by \<open>Begin\<close> for a list of changes and the values found then; it
  is established by \<open>Begin\<close> and never lost. The hash enters only through \<open>inj_on\<close>: the texts that are
  compared must not collide.
\<close>

definition canonical :: "(UciKey \<Rightarrow> UciValue) \<Rightarrow> bool" where
  "canonical f \<longleftrightarrow> (\<forall>k. (\<not> uv_Present (f k) \<longrightarrow> f k = absent) \<and> (uv_Present (f k) \<longrightarrow> uv_Present (f (section_key k))))"

definition undoable :: "TxEnv \<Rightarrow> UciChange list \<Rightarrow> (UciKey \<Rightarrow> UciValue) \<Rightarrow> Backup \<Rightarrow> Journal \<Rightarrow> bool" where
  "undoable env changes before b j \<longleftrightarrow>
     jn_Entries j = map (\<lambda>c. entry_of env j (before (uc_Key c)) c) changes \<and> distinct (map uc_Key changes) \<and>
     (\<forall>c \<in> set changes. \<not> section_retyped (before (uc_Key c)) c) \<and> bk_TaskID b = jn_TaskID j \<and>
     (\<forall>c \<in> set changes. uv_Present (before (uc_Key c)) \<longrightarrow>
        map_of (bk_Values b) (keyString (uc_Key c)) = Some (uv_Text (before (uc_Key c)))) \<and>
     canonical before"

lemma canonical_absent: "canonical f \<Longrightarrow> \<not> uv_Present (f k) \<Longrightarrow> f k = absent"
  by (simp add: canonical_def)

lemma canonical_below: "canonical f \<Longrightarrow> \<not> uv_Present (f (section_key k)) \<Longrightarrow> f k = absent"
  by (auto simp: canonical_def)

lemma undoableD:
  assumes "undoable env changes before b j"
  shows "jn_Entries j = map (\<lambda>c. entry_of env j (before (uc_Key c)) c) changes" "distinct (map uc_Key changes)"
    "canonical before" "bk_TaskID b = jn_TaskID j"
    "c \<in> set changes \<Longrightarrow> \<not> section_retyped (before (uc_Key c)) c"
    "c \<in> set changes \<Longrightarrow> uv_Present (before (uc_Key c)) \<Longrightarrow>
      map_of (bk_Values b) (keyString (uc_Key c)) = Some (uv_Text (before (uc_Key c)))"
  using assms by (auto simp: undoable_def)

lemma Hash_phase [simp]: "Hash env (j\<lparr>jn_Phase := p\<rparr>) = Hash env j"
  by (rule ext) (simp add: Hash_def)

lemma entry_of_phase [simp]: "entry_of env (j\<lparr>jn_Phase := p\<rparr>) = entry_of env j"
  by (intro ext) (simp add: entry_of_def)

lemma entry_of_simps [simp]:
  "je_Key (entry_of env j v c) = uc_Key c" "je_BeforePresent (entry_of env j v c) = uv_Present v"
  "je_BeforeList (entry_of env j v c) = uv_IsList v" "uv_Present v \<Longrightarrow> je_BeforeHash (entry_of env j v c) = Hash env j (uv_Text v)"
  by (simp_all add: entry_of_def)

lemma undoable_phase [simp]: "undoable env changes before b (j\<lparr>jn_Phase := p\<rparr>) = undoable env changes before b j"
  by (simp add: undoable_def)

text \<open>The texts whose hashes are compared for one change, and the two questions asked of a value.\<close>

definition apart :: "TxEnv \<Rightarrow> Journal \<Rightarrow> UciChange list \<Rightarrow> (UciKey \<Rightarrow> UciValue) \<Rightarrow> (UciKey \<Rightarrow> UciValue) \<Rightarrow> bool" where
  "apart env j changes before now \<longleftrightarrow> (\<forall>c \<in> set changes.
     inj_on (Hash env j) {uv_Text (before (uc_Key c)), uc_Text c, uv_Text (now (uc_Key c))})"

lemma alreadyBefore_exact:
  assumes "inj_on (Hash env j) {uv_Text v, x, uv_Text u}" and "\<not> uv_Present v \<longrightarrow> v = absent" and "\<not> uv_Present u \<longrightarrow> u = absent"
  shows "alreadyBefore env j (entry_of env j v c) u \<longleftrightarrow> u = v"
  using assms by (cases u; cases v) (auto simp: alreadyBefore_def entry_of_def absent_def inj_on_def)

lemma stillOurs_exact:
  assumes "inj_on (Hash env j) {x, uc_Text c, uv_Text u}" and "\<not> uv_Present u \<longrightarrow> u = absent"
  shows "stillOurs env j (entry_of env j v c) u \<longleftrightarrow> u = change_value c"
  using assms by (cases u) (auto simp: stillOurs_def entry_of_def change_value_def absent_def inj_on_def)

text \<open>The change that takes a key back to what was found.\<close>

definition undo_change :: "(UciKey \<Rightarrow> UciValue) \<Rightarrow> UciKey \<Rightarrow> UciChange" where
  "undo_change before k =
     (if uv_Present (before k)
      then \<lparr>uc_Key = k, uc_Text = uv_Text (before k), uc_IsList = uv_IsList (before k), uc_Delete = False\<rparr>
      else \<lparr>uc_Key = k, uc_Text = [], uc_IsList = False, uc_Delete = True\<rparr>)"

lemma undo_change_simps [simp]:
  "uc_Key (undo_change before k) = k" "uc_Delete (undo_change before k) \<longleftrightarrow> \<not> uv_Present (before k)"
  by (simp_all add: undo_change_def)

lemma undo_change_value: "canonical before \<Longrightarrow> change_value (undo_change before k) = before k"
  using canonical_absent [of before k] by (auto simp: undo_change_def change_value_def)

definition must_wait :: "(UciKey \<Rightarrow> UciValue) \<Rightarrow> (UciKey \<Rightarrow> UciValue) \<Rightarrow> string list \<Rightarrow> UciChange \<Rightarrow> bool" where
  "must_wait before now blocked c \<longleftrightarrow> IsSection (uc_Key c) \<and> uk_Section (uc_Key c) \<in> set blocked \<or>
     now (uc_Key c) \<noteq> before (uc_Key c) \<and> now (uc_Key c) \<noteq> change_value c"

lemma undo_entry_exact:
  assumes un: "undoable env changes before b j" and c: "c \<in> set changes" and "value_at current (uc_Key c) = now (uc_Key c)"
    and "apart env j changes before now" and "\<not> uv_Present (now (uc_Key c)) \<longrightarrow> now (uc_Key c) = absent"
  shows "undo_entry env j b blocked current (entry_of env j (before (uc_Key c)) c) =
    (if must_wait before now blocked c then UndoConflict
     else if now (uc_Key c) = before (uc_Key c) then UndoNothing
     else if uv_Present (before (uc_Key c)) then UndoRestore (undo_change before (uc_Key c))
     else UndoRemove (undo_change before (uc_Key c)))"
proof -
  let ?k = "uc_Key c"
  have inj: "inj_on (Hash env j) {uv_Text (before ?k), uc_Text c, uv_Text (now ?k)}"
    using assms(4) c by (auto simp: apart_def)
  have "\<not> uv_Present (before ?k) \<longrightarrow> before ?k = absent" using undoableD(3) [OF un] by (auto simp: canonical_def)
  then have already: "alreadyBefore env j (entry_of env j (before ?k) c) (now ?k) \<longleftrightarrow> now ?k = before ?k"
    using alreadyBefore_exact [OF inj] assms(5) by blast
  have ours: "stillOurs env j (entry_of env j (before ?k) c) (now ?k) \<longleftrightarrow> now ?k = change_value c"
    using stillOurs_exact [OF inj assms(5)] by blast
  show ?thesis
    using undoableD(4) [OF un] undoableD(6) [OF un c]
    unfolding undo_entry_def Let_def entry_of_simps(1-3) assms(3) already ours must_wait_def undo_change_def
    by (cases "uv_Present (before ?k)") simp_all
qed

lemma undo_all_exact:
  assumes "undo_all f es = Some (out, restore)"
  shows "to_Conflicts out = map je_Key (filter (\<lambda>e. f e = UndoConflict) es) \<and>
    restore = concat (map (\<lambda>e. case f e of UndoRestore c \<Rightarrow> [c] | UndoRemove c \<Rightarrow> [c] | _ \<Rightarrow> []) es) \<and> to_Phase out = None"
  using assms
proof (induction es arbitrary: out restore)
  case Nil
  then show ?case by (auto simp: zero_outcome_def)
next
  case (Cons e es)
  then show ?case by (cases "f e") (auto split: option.splits)
qed

lemma undo_all_defined: "(\<forall>e \<in> set es. f e \<noteq> UndoMismatch) \<Longrightarrow> undo_all f es \<noteq> None"
  by (induction es) (auto split: Undo.split)

lemma concat_filter: "concat (map (\<lambda>c. if p c then [h c] else []) xs) = map h (filter p xs)"
  by (induction xs) auto

lemma undo_all_changes:
  assumes "undoable env changes before b j" and "apart env j changes before now" and "canonical now"
    and "\<forall>c \<in> set changes. value_at current (uc_Key c) = now (uc_Key c)"
  shows "\<exists>out. undo_all (undo_entry env j b blocked current) (jn_Entries j) =
    Some (out, map (undo_change before) (filter (\<lambda>k. k \<notin> set (to_Conflicts out) \<and> now k \<noteq> before k) (map uc_Key changes))) \<and>
    to_Conflicts out = map uc_Key (filter (must_wait before now blocked) changes) \<and> to_Phase out = None"
proof -
  let ?f = "undo_entry env j b blocked current"
  let ?e = "\<lambda>c. entry_of env j (before (uc_Key c)) c"
  have step: "?f (?e c) = (if must_wait before now blocked c then UndoConflict
     else if now (uc_Key c) = before (uc_Key c) then UndoNothing
     else if uv_Present (before (uc_Key c)) then UndoRestore (undo_change before (uc_Key c))
     else UndoRemove (undo_change before (uc_Key c)))" if "c \<in> set changes" for c
    by (rule undo_entry_exact [OF assms(1) that _ assms(2)]) (use assms(3,4) that in \<open>auto simp: canonical_def\<close>)
  note entries = undoableD(1,2) [OF assms(1)]
  have "undo_all ?f (jn_Entries j) \<noteq> None" by (rule undo_all_defined) (auto simp: entries(1) step)
  then obtain out restore where res: "undo_all ?f (jn_Entries j) = Some (out, restore)" by auto
  have conflicts: "to_Conflicts out = map uc_Key (filter (must_wait before now blocked) changes)"
    using undo_all_exact [OF res] by (auto simp: entries(1) filter_map o_def step cong: filter_cong)
  have free: "uc_Key c \<notin> set (to_Conflicts out) \<longleftrightarrow> \<not> must_wait before now blocked c" if "c \<in> set changes" for c
    using that entries(2) by (auto simp: conflicts distinct_map inj_on_def)
  have "restore = concat (map (\<lambda>c. if uc_Key c \<notin> set (to_Conflicts out) \<and> now (uc_Key c) \<noteq> before (uc_Key c)
      then [undo_change before (uc_Key c)] else []) changes)"
    using undo_all_exact [OF res, THEN conjunct2, THEN conjunct1]
    by (simp only: entries(1) map_map o_def) (intro arg_cong [where f = concat] map_cong refl, simp add: step free)
  then have "restore = map (undo_change before) (filter (\<lambda>k. k \<notin> set (to_Conflicts out) \<and> now k \<noteq> before k) (map uc_Key changes))"
    by (simp add: concat_filter filter_map o_def)
  then show ?thesis using res conflicts undo_all_exact [OF res] by blast
qed

subsection \<open>Sections we created\<close>

lemma blocked_sections_exact:
  assumes "blocked_sections env st j s current es = Inr blocked"
  shows "sec \<in> set blocked \<longleftrightarrow> (\<exists>e \<in> set es. IsSection (je_Key e) \<and> uk_Section (je_Key e) = sec \<and> \<not> je_BeforePresent e \<and>
    uv_Present (value_at current (je_Key e)) \<and>
    (\<exists>children. st_SectionKeys st (jn_Package j) sec s = Inr children \<and> \<not> list_all (owned_child env j current) children))"
  using assms
proof (induction es arbitrary: blocked)
  case Nil
  then show ?case by simp
next
  case (Cons e es)
  then obtain rest where "blocked_sections env st j s current es = Inr rest"
    by (auto simp: Let_def split: sum.splits if_splits)
  with Cons show ?case by (auto simp: Let_def split: sum.splits if_splits)
qed

lemma blocked_sections_read:
  assumes "blocked_sections env st j s current es = Inr blocked" and "e \<in> set es" and "IsSection (je_Key e)"
    and "\<not> je_BeforePresent e" and "uv_Present (value_at current (je_Key e))"
  shows "\<exists>children. st_SectionKeys st (jn_Package j) (uk_Section (je_Key e)) s = Inr children"
  using assms
proof (induction es arbitrary: blocked)
  case Nil
  then show ?case by simp
next
  case (Cons d es)
  then obtain rest where "blocked_sections env st j s current es = Inr rest"
    by (auto simp: Let_def split: sum.splits if_splits)
  with Cons show ?case by (auto simp: Let_def split: sum.splits if_splits)
qed

lemma owned_child_exact:
  assumes un: "undoable env changes before b j" and "apart env j changes before now" and "canonical now"
    and "\<forall>c \<in> set changes. value_at current (uc_Key c) = now (uc_Key c)"
  shows "owned_child env j current k \<longleftrightarrow>
    (\<exists>c \<in> set changes. uc_Key c = k \<and> (now k = before k \<or> now k = change_value c))"
proof (cases "k \<in> uc_Key ` set changes")
  case True
  then obtain c where c: "c \<in> set changes" "uc_Key c = k" by blast
  let ?e = "\<lambda>c. entry_of env j (before (uc_Key c)) c"
  have "distinct (map je_Key (rev (jn_Entries j)))" using undoableD(1,2) [OF un] by (simp add: o_def flip: rev_map)
  moreover have "?e c \<in> set (rev (jn_Entries j))" using c(1) undoableD(1) [OF un] by simp
  ultimately have found: "find (\<lambda>e. je_Key e = k) (rev (jn_Entries j)) = Some (?e c)"
    using find_key [of je_Key _ "?e c"] c by simp
  have inj: "inj_on (Hash env j) {uv_Text (before k), uc_Text c, uv_Text (now k)}"
    using assms(2) c by (auto simp: apart_def)
  have canon: "\<not> uv_Present (now k) \<longrightarrow> now k = absent" "\<not> uv_Present (before k) \<longrightarrow> before k = absent"
    using assms(3) undoableD(3) [OF un] canonical_absent by blast+
  have "owned_child env j current k \<longleftrightarrow> now k = change_value c \<or> now k = before k"
    using assms(4) c alreadyBefore_exact [OF inj canon(2,1), of c] stillOurs_exact [OF inj canon(1), of "before k"]
    by (auto simp: owned_child_def found)
  moreover have "c' = c" if "c' \<in> set changes" "uc_Key c' = k" for c'
    using that c undoableD(2) [OF un] by (auto simp: distinct_map inj_on_def)
  ultimately show ?thesis using c by metis
next
  case False
  then have "find (\<lambda>e. je_Key e = k) (rev (jn_Entries j)) = None"
    using undoableD(1) [OF un] by (auto simp: find_None_iff)
  with False show ?thesis by (auto simp: owned_child_def)
qed

subsection \<open>The configuration after an undo\<close>

context config_store
begin

lemma look_canonical: "canonical (look pkg s)"
  using look_absent look_section by (auto simp: canonical_def)

text \<open>A section that is not blocked and was created by us holds nothing of anybody else.\<close>

lemma unblocked_section:
  assumes un: "undoable env changes before b j" and "apart env j changes before (look (jn_Package j) s)"
    and "\<forall>c \<in> set changes. value_at current (uc_Key c) = look (jn_Package j) s (uc_Key c)"
    and "blocked_sections env st j s current (jn_Entries j) = Inr blocked"
    and d: "d \<in> set changes" "uc_Key d = section_key k" "\<not> uv_Present (before (section_key k))"
      "uv_Present (look (jn_Package j) s (section_key k))" "uk_Section k \<notin> set blocked"
    and k: "\<not> IsSection k" "uv_Present (look (jn_Package j) s k)" and s: "invar s"
  shows "\<exists>c \<in> set changes. uc_Key c = k \<and>
    (look (jn_Package j) s k = before k \<or> look (jn_Package j) s k = change_value c)"
proof -
  let ?L = "look (jn_Package j) s"
  let ?d = "entry_of env j (before (uc_Key d)) d"
  have entry: "?d \<in> set (jn_Entries j)" using d(1) undoableD(1) [OF un] by simp
  have now: "uv_Present (value_at current (je_Key ?d))" using bspec [OF assms(3) d(1)] d by simp
  obtain children where children: "st_SectionKeys st (jn_Package j) (uk_Section k) s = Inr children"
    using blocked_sections_read [OF assms(4) entry _ _ now] d by auto
  then have "k \<in> set children" using k by (rule keys_look [OF s])
  moreover have "list_all (owned_child env j current) children"
    using blocked_sections_exact [OF assms(4), of "uk_Section k"] entry now d children by fastforce
  ultimately have "owned_child env j current k" by (simp add: list_all_iff)
  then show ?thesis using owned_child_exact [OF un assms(2) look_canonical assms(3)] by blast
qed

lemma undo_written:
  assumes un: "undoable env changes before b j" and ap: "apart env j changes before (look (jn_Package j) s)"
    and cur: "\<forall>c \<in> set changes. value_at current (uc_Key c) = look (jn_Package j) s (uc_Key c)"
    and bl: "blocked_sections env st j s current (jn_Entries j) = Inr blocked" and s: "invar s"
    and conflicts: "conflicts = map uc_Key (filter (must_wait before (look (jn_Package j) s) blocked) changes)"
    and restore: "restore = map (undo_change before)
      (filter (\<lambda>k. k \<notin> set conflicts \<and> look (jn_Package j) s k \<noteq> before k) (map uc_Key changes))"
  shows "written restore (look (jn_Package j) s) k =
    (if k \<in> uc_Key ` set changes \<and> k \<notin> set conflicts then before k else look (jn_Package j) s k)"
proof -
  let ?L = "look (jn_Package j) s"
  have keys: "map uc_Key restore = filter (\<lambda>k. k \<notin> set conflicts \<and> ?L k \<noteq> before k) (map uc_Key changes)"
    by (simp add: restore o_def)
  then have dist: "distinct (map uc_Key restore)" using undoableD(2) [OF un] by simp
  have named: "uc_Key ` set restore = {k \<in> uc_Key ` set changes. k \<notin> set conflicts \<and> ?L k \<noteq> before k}"
    using arg_cong [OF keys, of set] by auto
  have waits: "uc_Key c \<in> set conflicts \<longleftrightarrow> must_wait before ?L blocked c" if "c \<in> set changes" for c
    using that undoableD(2) [OF un] by (auto simp: conflicts distinct_map inj_on_def)
  have gone: "before k = absent \<and> (k \<notin> uc_Key ` set changes \<or> k \<in> set conflicts \<longrightarrow> ?L k = absent)"
    if "r \<in> set restore" "uc_Delete r" "uc_Key r = section_key k" and out: "k \<notin> uc_Key ` set restore" for r
  proof
    from that(1,3) have r: "r = undo_change before (section_key k)" by (auto simp: restore)
    with that(2) have new: "\<not> uv_Present (before (section_key k))" by simp
    then show "before k = absent" using undoableD(3) [OF un] by (rule canonical_below [rotated])
    have "section_key k \<in> uc_Key ` set restore" using that(1,3) by (metis image_eqI)
    with named obtain d where d: "d \<in> set changes" "uc_Key d = section_key k" "section_key k \<notin> set conflicts"
      "?L (section_key k) \<noteq> before (section_key k)" by auto
    then have "\<not> must_wait before ?L blocked d" using waits by metis
    then have "uk_Section k \<notin> set blocked" using d by (simp add: must_wait_def)
    moreover have "uv_Present (?L (section_key k))" using d(4) new canonical_absent [OF look_canonical] canonical_absent [OF undoableD(3) [OF un]] by metis
    moreover have opt: "\<not> IsSection k" using out \<open>section_key k \<in> uc_Key ` set restore\<close> by auto
    ultimately have owned: "\<exists>c \<in> set changes. uc_Key c = k \<and> (?L k = before k \<or> ?L k = change_value c)" if "uv_Present (?L k)"
      using unblocked_section [OF un ap cur bl d(1,2) new _ _ _ that s] by blast
    show "k \<notin> uc_Key ` set changes \<or> k \<in> set conflicts \<longrightarrow> ?L k = absent"
    proof (rule impI, rule ccontr)
      assume k: "k \<notin> uc_Key ` set changes \<or> k \<in> set conflicts" and "?L k \<noteq> absent"
      then have "uv_Present (?L k)" using canonical_absent [OF look_canonical] by blast
      then obtain c where "c \<in> set changes" "uc_Key c = k" "?L k = before k \<or> ?L k = change_value c" using owned by blast
      with opt have "\<not> must_wait before ?L blocked c" by (auto simp: must_wait_def)
      with k waits [OF \<open>c \<in> set changes\<close>] \<open>uc_Key c = k\<close> \<open>c \<in> set changes\<close> show False by blast
    qed
  qed
  show ?thesis
  proof (cases "k \<in> uc_Key ` set restore")
    case True
    then obtain r where "r \<in> set restore" "uc_Key r = k" by blast
    moreover from this have "r = undo_change before k" by (auto simp: restore)
    ultimately have "written restore ?L k = change_value (undo_change before k)"
      using written_named [OF dist, of r] by simp
    with True named show ?thesis by (auto simp: undo_change_value [OF undoableD(3) [OF un]])
  next
    case False
    then have "?L k = before k" if "k \<in> uc_Key ` set changes" "k \<notin> set conflicts" using named that by blast
    then show ?thesis using gone [OF _ _ _ False] by (auto simp: written_other [OF False])
  qed
qed

end

end
