(* ===== verification/Wireless_Recovery.thy ===== *)
theory Wireless_Recovery
  imports Wireless_Undo
begin

text \<open>
  Along the life of a transaction: what \<open>Begin\<close> leaves on disk, what \<open>Apply\<close> and a rollback do to the
  configuration at any fault, and the invariant that ties the files to the live configuration.
\<close>

subsection \<open>Names of keys\<close>

lemma name_char_dot: "\<not> name_char CHR ''.''"
  by (simp add: name_char_def)

lemma checked_name: "checkName n = None \<Longrightarrow> n \<noteq> [] \<and> CHR ''.'' \<notin> set n"
  using name_char_dot by (auto simp: checkName_def IsLogicalInterfaceName_def list_all_iff split: if_splits)

lemma checked_key:
  "checkKey k = None \<Longrightarrow> CHR ''.'' \<notin> set (uk_Section k) \<and> CHR ''.'' \<notin> set (uk_Option k)"
  by (auto simp: checkKey_def IsSection_def dest!: checked_name split: option.splits if_splits)

lemma cut_dot:
  "CHR ''.'' \<notin> set s \<Longrightarrow> takeWhile ((\<noteq>) CHR ''.'') (s @ CHR ''.'' # r) = s \<and> dropWhile ((\<noteq>) CHR ''.'') (s @ CHR ''.'' # r) = CHR ''.'' # r"
  by (induction s) auto

lemma cut_whole: "CHR ''.'' \<notin> set s \<Longrightarrow> takeWhile ((\<noteq>) CHR ''.'') s = s \<and> dropWhile ((\<noteq>) CHR ''.'') s = []"
  by (induction s) auto

lemma key_parts:
  assumes "checkKey k = None"
  shows "takeWhile ((\<noteq>) CHR ''.'') (keyString k) = uk_Section k \<and>
    drop 1 (dropWhile ((\<noteq>) CHR ''.'') (keyString k)) = uk_Option k"
proof (cases "uk_Option k")
  case Nil
  then have "keyString k = uk_Section k" by (simp add: keyString_def IsSection_def)
  moreover have "drop 1 [] = uk_Option k" using Nil by simp
  ultimately show ?thesis using cut_whole [of "uk_Section k"] checked_key [OF assms] by metis
next
  case (Cons c r)
  then have "keyString k = uk_Section k @ CHR ''.'' # uk_Option k" by (simp add: keyString_def IsSection_def)
  then show ?thesis using cut_dot [of "uk_Section k" "uk_Option k"] checked_key [OF assms] by simp
qed

lemma keyString_inj:
  assumes "checkKey k = None" and "checkKey k' = None" and "keyString k = keyString k'"
  shows "k = k'"
  using key_parts [OF assms(1)] key_parts [OF assms(2)] unfolding assms(3) by (intro UciKey.equality) simp_all

subsection \<open>The backup\<close>

definition backup_step :: "(UciKey \<times> UciValue) list \<Rightarrow> UciChange \<Rightarrow> string gomap \<Rightarrow> string gomap" where
  "backup_step before change acc =
     (if uv_Present (value_at before (uc_Key change))
      then AList.update (keyString (uc_Key change)) (uv_Text (value_at before (uc_Key change))) acc else acc)"

lemma backup_values_fold: "backup_values before changes = fold (backup_step before) changes []"
  by (simp add: backup_values_def backup_step_def [abs_def])

lemma backup_fold_other:
  "s \<notin> (keyString \<circ> uc_Key) ` set changes \<Longrightarrow> map_of (fold (backup_step before) changes acc) s = map_of acc s"
  by (induction changes arbitrary: acc) (auto simp: backup_step_def update_conv)

lemma backup_fold_holds:
  "inj_on keyString (uc_Key ` set changes) \<Longrightarrow> distinct (map uc_Key changes) \<Longrightarrow> c \<in> set changes \<Longrightarrow>
   uv_Present (value_at before (uc_Key c)) \<Longrightarrow>
   map_of (fold (backup_step before) changes acc) (keyString (uc_Key c)) = Some (uv_Text (value_at before (uc_Key c)))"
proof (induction changes arbitrary: acc)
  case Nil
  then show ?case by simp
next
  case (Cons d ds)
  show ?case
  proof (cases "c \<in> set ds")
    case True
    with Cons show ?thesis by (auto simp: inj_on_def)
  next
    case False
    then have "c = d" using Cons.prems(3) by simp
    then have "keyString (uc_Key c) \<notin> (keyString \<circ> uc_Key) ` set ds"
      using Cons.prems(1,2) by (auto simp: inj_on_def)
    then show ?thesis using Cons.prems(4) \<open>c = d\<close> by (simp add: backup_fold_other) (simp add: backup_step_def update_conv)
  qed
qed

lemma writable_key: "checkWritable t cs = None \<Longrightarrow> c \<in> set cs \<Longrightarrow> checkKey (uc_Key c) = None"
  using writable_change [of t cs c] by (auto simp: check_change_def split: option.splits)

lemma plan_problem_None:
  "plan_problem env plan = None \<Longrightarrow> tp_Changes plan \<noteq> [] \<and> distinct (map uc_Key (tp_Changes plan)) \<and>
   inj_on keyString (uc_Key ` set (tp_Changes plan))"
  by (auto simp: plan_problem_def inj_on_def split: if_splits option.splits intro: keyString_inj writable_key)

subsection \<open>Starting\<close>

lemma Clear_store [simp]: "tx_store (fst (Clear env w)) = tx_store w"
  by (simp add: Clear_def Let_def)

lemma SaveJournal_store [simp]:
  "tx_store (fst (SaveJournal env j w)) = tx_store w" "tx_backup (fst (SaveJournal env j w)) = tx_backup w"
  by (simp_all add: SaveJournal_def Let_def)

lemma Clear_eq: "Clear env w = (w', e) \<Longrightarrow> tx_store w' = tx_store w"
  by (metis Clear_store fst_conv)

lemma SaveJournal_eq: "SaveJournal env j w = (w', e) \<Longrightarrow> tx_store w' = tx_store w \<and> tx_backup w' = tx_backup w"
  by (metis SaveJournal_store fst_conv)

lemma SaveBackup_store [simp]:
  "tx_store (fst (SaveBackup env b w)) = tx_store w" "tx_journal (fst (SaveBackup env b w)) = tx_journal w"
  by (simp_all add: SaveBackup_def)

lemma clear_previous_store: "tx_store (fst (clear_previous env w)) = tx_store w"
  by (auto simp: clear_previous_def split: prod.split option.split TxPhase.split)

text \<open>A record that was saved without complaint is on disk.\<close>

lemma saved: "snd (SaveJournal env j w) = None \<Longrightarrow> tx_journal (fst (SaveJournal env j w)) = Stored j"
  by (auto simp: SaveJournal_def file_error_def Let_def split: if_splits)

lemma saved_backup: "snd (SaveBackup env b w) = None \<Longrightarrow> tx_backup (fst (SaveBackup env b w)) = Stored b"
  by (auto simp: SaveBackup_def file_error_def split: if_splits)

lemma entry_of_salt: "jn_Salt j = jn_Salt j' \<Longrightarrow> entry_of env j = entry_of env j'"
  by (intro ext) (simp add: entry_of_def Hash_def)

lemma record_plan_done:
  assumes "record_plan env plan salt vs w = (w', Inr j)"
  shows "\<exists>b. tx_store w' = tx_store w \<and> tx_journal w' = Stored j \<and> tx_backup w' = Stored b \<and>
    jn_Phase j = PhaseBackedUp \<and> jn_Package j = tp_Package plan \<and> jn_Version j = JournalVersion \<and>
    jn_Entries j = map (\<lambda>c. entry_of env j (value_at vs (uc_Key c)) c) (tp_Changes plan) \<and>
    bk_TaskID b = jn_TaskID j \<and> bk_Values b = backup_values vs (tp_Changes plan) \<and>
    (\<forall>c \<in> set (tp_Changes plan). \<not> section_retyped (value_at vs (uc_Key c)) c)"
proof -
  let ?j = "(new_journal env plan salt)\<lparr>jn_Entries := map (\<lambda>c. entry_of env (new_journal env plan salt) (value_at vs (uc_Key c)) c)
    (tp_Changes plan), jn_Phase := PhaseBackedUp\<rparr>"
  let ?b = "\<lparr>bk_TaskID = tp_TaskID plan, bk_Values = backup_values vs (tp_Changes plan)\<rparr>"
  have ok: "\<not> list_ex (\<lambda>c. section_retyped (value_at vs (uc_Key c)) c) (tp_Changes plan)"
    using assms by (auto simp: record_plan_def Let_def)
  with assms obtain w1 where w1: "SaveBackup env ?b w = (w1, None)" and w': "SaveJournal env ?j w1 = (w', None)" and j: "j = ?j"
    by (auto simp: record_plan_def Let_def split: prod.splits option.splits)
  have "tx_journal w' = Stored j" "tx_store w' = tx_store w" "tx_backup w' = Stored ?b"
    using saved [of env ?j w1] saved_backup [of env ?b w] SaveJournal_store [of env ?j w1] SaveBackup_store(1) [of env ?b w]
    unfolding w1 w' j by simp_all
  moreover have "entry_of env (new_journal env plan salt) = entry_of env j" by (rule entry_of_salt) (simp add: j)
  ultimately show ?thesis using ok by (intro exI [of _ ?b]) (auto simp: j new_journal_def list_ex_iff)
qed

context config_store
begin

lemma Begin_done:
  assumes "Begin env st plan w = (w', Inr j)" and "invar (tx_store w)"
  shows "\<exists>b. tx_store w' = tx_store w \<and> tx_journal w' = Stored j \<and> tx_backup w' = Stored b \<and>
    jn_Phase j = PhaseBackedUp \<and> jn_Package j = tp_Package plan \<and> jn_Version j = JournalVersion \<and>
    undoable env (tp_Changes plan) (look (tp_Package plan) (tx_store w)) b j"
proof -
  let ?cs = "tp_Changes plan" and ?L = "look (tp_Package plan) (tx_store w)"
  from assms(1) obtain w1 salt vs where plan: "plan_problem env plan = None" and w1: "clear_previous env w = (w1, None)"
    and vs: "st_Read st (tp_Package plan) (map uc_Key ?cs) (tx_store w1) = Inr vs"
    and rec: "record_plan env plan salt vs w1 = (w', Inr j)"
    by (auto simp: Begin_def split: option.splits prod.splits sum.splits if_splits)
  have s: "tx_store w1 = tx_store w" using clear_previous_store [of env w] by (simp add: w1)
  have val: "value_at vs (uc_Key c) = ?L (uc_Key c)" if "c \<in> set ?cs" for c
    using read_look [OF _ vs, of "uc_Key c"] that s assms(2) by simp
  obtain b where b: "tx_store w' = tx_store w1" "tx_journal w' = Stored j" "tx_backup w' = Stored b"
      "jn_Phase j = PhaseBackedUp" "jn_Package j = tp_Package plan" "jn_Version j = JournalVersion"
      "jn_Entries j = map (\<lambda>c. entry_of env j (value_at vs (uc_Key c)) c) ?cs" "bk_TaskID b = jn_TaskID j"
      "bk_Values b = backup_values vs ?cs" "\<forall>c \<in> set ?cs. \<not> section_retyped (value_at vs (uc_Key c)) c"
    using record_plan_done [OF rec] by blast
  have "map_of (bk_Values b) (keyString (uc_Key c)) = Some (uv_Text (?L (uc_Key c)))"
    if "c \<in> set ?cs" "uv_Present (?L (uc_Key c))" for c
    using plan_problem_None [OF plan] backup_fold_holds [of ?cs c vs "[]"] that by (simp add: b(9) backup_values_fold val)
  then have "undoable env ?cs ?L b j"
    using b plan_problem_None [OF plan] look_canonical by (auto simp: undoable_def val)
  with b s show ?thesis by auto
qed

end

subsection \<open>Undoing\<close>

definition undone :: "UciChange list \<Rightarrow> (UciKey \<Rightarrow> UciValue) \<Rightarrow> UciKey list \<Rightarrow> (UciKey \<Rightarrow> UciValue) \<Rightarrow> UciKey \<Rightarrow> UciValue" where
  "undone changes before conflicts now k =
     (if k \<in> uc_Key ` set changes \<and> k \<notin> set conflicts then before k else now k)"

text \<open>
  Which keys are left alone: every key somebody else has written, no option that still holds one of
  the two values we know, and of the sections only those with foreign content.
\<close>

definition conflict_list :: "UciChange list \<Rightarrow> (UciKey \<Rightarrow> UciValue) \<Rightarrow> (UciKey \<Rightarrow> UciValue) \<Rightarrow> UciKey list \<Rightarrow> bool" where
  "conflict_list changes before now conflicts \<longleftrightarrow> set conflicts \<subseteq> uc_Key ` set changes \<and>
     (\<forall>c \<in> set changes. let k = uc_Key c; foreign = (now k \<noteq> before k \<and> now k \<noteq> change_value c) in
        (foreign \<longrightarrow> k \<in> set conflicts) \<and> (k \<in> set conflicts \<and> \<not> IsSection k \<longrightarrow> foreign))"

lemma must_wait_list:
  assumes "distinct (map uc_Key changes)"
  shows "conflict_list changes before now (map uc_Key (filter (must_wait before now blocked) changes))"
  using assms by (auto simp: conflict_list_def must_wait_def Let_def distinct_map inj_on_def)

lemma finish_rollback_simps:
  assumes "finish_rollback env j out w = (w', out', e)"
  shows "tx_store w' = tx_store w" "to_Conflicts out' = to_Conflicts out"
    "to_Phase out' = Some (if to_Conflicts out \<noteq> [] then PhaseRecoveryRequired else PhaseRolledBack)"
    "to_Conflicts out \<noteq> [] \<Longrightarrow> w' = fst (SaveJournal env (j\<lparr>jn_Phase := PhaseRecoveryRequired\<rparr>) w) \<and> e \<noteq> None"
    "to_Conflicts out = [] \<Longrightarrow> (w', e) = Clear env w"
  using assms
  by (auto simp: finish_rollback_def Let_def split: if_splits prod.splits option.splits dest: SaveJournal_eq Clear_eq)

context config_store
begin

lemma publish_undo_effect:
  assumes "publish_undo st pkg restore s = (s', e)" and "distinct (map uc_Key restore)"
  shows "e \<noteq> None \<and> look pkg s' = look pkg s \<or> look pkg s' = written restore (look pkg s)"
proof -
  obtain s1 e1 where s1: "st_Stage st pkg restore s = (s1, e1)" by fastforce
  obtain s2 e2 where s2: "st_Commit st pkg s1 = (s2, e2)" by fastforce
  have look1: "look pkg s1 = look pkg s" using stage_look [of pkg pkg restore s] by (simp add: s1)
  have look3: "look pkg (fst (st_Reload st s2)) = look pkg s2" by (rule reload_look)
  have "e1 = None \<Longrightarrow> e2 \<noteq> None \<and> look pkg s2 = look pkg s \<or> look pkg s2 = written restore (look pkg s)"
    using publish_look [OF _ assms(2) s2, of s] s1 by blast
  then show ?thesis using assms(1) look1 look3
    by (auto simp: publish_undo_def s1 s2 split: if_splits option.splits)
qed

lemma publish_undo_frame:
  "q \<noteq> pkg \<Longrightarrow> look q (fst (publish_undo st pkg restore s)) = look q s"
  "invar s \<Longrightarrow> invar (fst (publish_undo st pkg restore s))"
  using stage_look [of q pkg restore s] commit_other [of q pkg "fst (st_Stage st pkg restore s)"]
    invar_stage [of s pkg restore] invar_commit [of "fst (st_Stage st pkg restore s)" pkg]
  by (auto simp: publish_undo_def reload_look invar_reload split: prod.splits option.splits)

text \<open>When only this transaction has written, nothing is in the way of undoing it.\<close>

lemma no_conflict:
  assumes un: "undoable env changes before b j" and ap: "apart env j changes before (look (jn_Package j) s)"
    and cur: "\<forall>c \<in> set changes. value_at current (uc_Key c) = look (jn_Package j) s (uc_Key c)"
    and bl: "blocked_sections env st j s current (jn_Entries j) = Inr blocked"
    and "invar s" and L: "look (jn_Package j) s = before \<or> look (jn_Package j) s = written changes before"
  shows "filter (must_wait before (look (jn_Package j) s) blocked) changes = []"
proof -
  let ?L = "look (jn_Package j) s"
  have known: "?L (uc_Key c) = before (uc_Key c) \<or> ?L (uc_Key c) = change_value c" if "c \<in> set changes" for c
    using L written_named [OF undoableD(2) [OF un] that] by metis
  have "sec \<notin> set blocked" for sec
  proof
    assume "sec \<in> set blocked"
    then obtain c children k where c: "c \<in> set changes" "IsSection (uc_Key c)" "uk_Section (uc_Key c) = sec"
        "\<not> uv_Present (before (uc_Key c))" "uv_Present (?L (uc_Key c))"
      and children: "st_SectionKeys st (jn_Package j) sec s = Inr children" "k \<in> set children" "\<not> owned_child env j current k"
      using blocked_sections_exact [OF bl, of sec] cur by (auto simp: undoableD(1) [OF un] list_all_iff)
    have k: "uk_Section k = sec" "uv_Present (?L k)" using keys_present [OF \<open>invar s\<close> children(1,2)] by auto
    then have "section_key k = uc_Key c" using c(2,3) by (intro UciKey.equality) (simp_all add: section_key_def IsSection_def)
    then have "before k = absent" using canonical_below [OF undoableD(3) [OF un]] c(4) by simp
    moreover have "k \<in> uc_Key ` set changes"
    proof (rule ccontr)
      assume "k \<notin> uc_Key ` set changes"
      then have "?L k = absent" using L \<open>before k = absent\<close> by (auto simp: written_other)
      with k show False by simp
    qed
    ultimately show False using owned_child_exact [OF un ap look_canonical cur, of k] children(3) known by blast
  qed
  then show ?thesis using known by (auto simp: must_wait_def filter_empty_conv)
qed

lemma undo_changes_effect:
  assumes un: "undoable env changes before b j" and ap: "apart env j changes before (look (jn_Package j) (tx_store w))"
    and res: "undo_changes env st j b w = (w', out, e)" and s: "invar (tx_store w)"
  obtains (none) "out = zero_outcome" "e \<noteq> None" "look (jn_Package j) (tx_store w') = look (jn_Package j) (tx_store w)"
      "tx_journal w' = tx_journal w" "tx_backup w' = tx_backup w"
  | (failed) conflicts where "out = zero_outcome" "e \<noteq> None"
      "look (jn_Package j) (tx_store w') = undone changes before conflicts (look (jn_Package j) (tx_store w))"
      "tx_journal w' = tx_journal w" "tx_backup w' = tx_backup w"
      "conflict_list changes before (look (jn_Package j) (tx_store w)) conflicts"
      "invar (tx_store w) \<and> (look (jn_Package j) (tx_store w) = before \<or>
         look (jn_Package j) (tx_store w) = written changes before) \<longrightarrow> conflicts = []"
  | (finished) out0 where "finish_rollback env j out0 (w\<lparr>tx_store := tx_store w'\<rparr>) = (w', out, e)"
      "look (jn_Package j) (tx_store w') = undone changes before (to_Conflicts out0) (look (jn_Package j) (tx_store w))"
      "conflict_list changes before (look (jn_Package j) (tx_store w)) (to_Conflicts out0)"
      "invar (tx_store w) \<and> (look (jn_Package j) (tx_store w) = before \<or>
         look (jn_Package j) (tx_store w) = written changes before) \<longrightarrow> to_Conflicts out0 = []"
proof -
  let ?L = "look (jn_Package j) (tx_store w)"
  consider (early) "w' = w" "out = zero_outcome" "e \<noteq> None" "\<not> (\<exists>current blocked.
      st_Read st (jn_Package j) (map je_Key (jn_Entries j)) (tx_store w) = Inr current \<and>
      blocked_sections env st j (tx_store w) current (jn_Entries j) = Inr blocked)"
    | (reads) current blocked where "st_Read st (jn_Package j) (map je_Key (jn_Entries j)) (tx_store w) = Inr current"
      "blocked_sections env st j (tx_store w) current (jn_Entries j) = Inr blocked"
    using res by (auto simp: undo_changes_def split: sum.splits)
  then show thesis
  proof cases
    case early
    then show thesis by (intro none) simp_all
  next
    case reads
    have cur: "\<forall>c \<in> set changes. value_at current (uc_Key c) = ?L (uc_Key c)"
      using read_look [OF s reads(1)] by (auto simp: undoableD(1) [OF un])
    obtain out0 restore where out0: "undo_all (undo_entry env j b blocked current) (jn_Entries j) = Some (out0, restore)"
      and restore: "restore = map (undo_change before) (filter (\<lambda>k. k \<notin> set (to_Conflicts out0) \<and> ?L k \<noteq> before k) (map uc_Key changes))"
      and conflicts: "to_Conflicts out0 = map uc_Key (filter (must_wait before ?L blocked) changes)"
      using undo_all_changes [OF un ap look_canonical cur] by blast
    have dist: "distinct (map uc_Key restore)" using undoableD(2) [OF un] by (simp add: restore o_def)
    have target: "written restore ?L = undone changes before (to_Conflicts out0) ?L"
      using undo_written [OF un ap cur reads(2) s conflicts restore] by (auto simp: undone_def)
    have free: "invar (tx_store w) \<and> (?L = before \<or> ?L = written changes before) \<longrightarrow> to_Conflicts out0 = []"
      using no_conflict [OF un ap cur reads(2)] by (simp add: conflicts)
    obtain s1 e1 where s1: "publish_undo st (jn_Package j) restore (tx_store w) = (s1, e1)" by fastforce
    note now = publish_undo_effect(1) [OF s1 dist, unfolded target]
    have step: "(w', out, e) = (case e1 of Some err \<Rightarrow> (w\<lparr>tx_store := s1\<rparr>, zero_outcome, Some err)
        | None \<Rightarrow> finish_rollback env j out0 (w\<lparr>tx_store := s1\<rparr>))"
      using res by (simp add: undo_changes_def reads out0 s1 split: option.splits)
    show thesis
    proof (cases e1)
      case None
      then have fin: "finish_rollback env j out0 (w\<lparr>tx_store := s1\<rparr>) = (w', out, e)" using step by simp
      moreover have "tx_store w' = s1" using finish_rollback_simps(1) [OF fin] by simp
      ultimately show thesis using None now free must_wait_list [OF undoableD(2) [OF un]]
        by (intro finished [of out0]) (simp_all add: conflicts)
    next
      case (Some err)
      then have "w' = w\<lparr>tx_store := s1\<rparr>" "out = zero_outcome" "e \<noteq> None" using step by simp_all
      moreover have "conflict_list changes before ?L (to_Conflicts out0)" using must_wait_list [OF undoableD(2) [OF un]] by (simp add: conflicts)
      ultimately show thesis using now free none failed [of "to_Conflicts out0"] by fastforce
    qed
  qed
qed

lemma undo_changes_frame:
  assumes "undo_changes env st j b w = (w', out, e)"
  shows "q \<noteq> jn_Package j \<Longrightarrow> look q (tx_store w') = look q (tx_store w)" and "invar (tx_store w) \<Longrightarrow> invar (tx_store w')"
proof -
  have "tx_store w' = tx_store w \<or> (\<exists>restore. tx_store w' = fst (publish_undo st (jn_Package j) restore (tx_store w)))"
    using assms by (simp add: undo_changes_def split: sum.splits option.splits prod.splits)
      (metis fst_conv finish_rollback_simps(1) TxWorld.select_convs(1) TxWorld.update_convs(1) TxWorld.surjective)+
  then show "q \<noteq> jn_Package j \<Longrightarrow> look q (tx_store w') = look q (tx_store w)" "invar (tx_store w) \<Longrightarrow> invar (tx_store w')"
    using publish_undo_frame by metis+
qed

end

end
