(* ===== verification/Wireless_Inv.thy ===== *)
theory Wireless_Inv
  imports Wireless_Recovery
begin

text \<open>
  The invariant of an unconfirmed wireless change, and that \<open>Apply\<close>, a rollback and a recovery keep it
  whatever file operation or command fails.
\<close>

subsection \<open>The invariant of a run\<close>

definition collision_free :: "TxEnv \<Rightarrow> Journal \<Rightarrow> UciChange list \<Rightarrow> (UciKey \<Rightarrow> UciValue) \<Rightarrow> bool" where
  "collision_free env j changes before \<longleftrightarrow> (\<forall>c \<in> set changes.
     inj_on (Hash env j) {uv_Text (before (uc_Key c)), uc_Text c, []})"

definition open_phase :: "TxPhase \<Rightarrow> bool" where
  "open_phase p \<longleftrightarrow> p = PhaseApplied \<or> p = PhaseAwaitingConfirm \<or> p = PhaseRollingBack \<or> p = PhaseRecoveryRequired"

text \<open>
  The live configuration is the one found or the one planned; as long as it is not the one found, a
  journal that leads back is on disk.
\<close>

definition tx_inv :: "(string \<Rightarrow> 's \<Rightarrow> UciKey \<Rightarrow> UciValue) \<Rightarrow> ('s \<Rightarrow> bool) \<Rightarrow> (string \<Rightarrow> UciKey \<Rightarrow> UciValue) \<Rightarrow>
    UciChange list \<Rightarrow> Backup \<Rightarrow> Journal \<Rightarrow> 's TxWorld \<Rightarrow> bool" where
  "tx_inv look invar found changes b j w \<longleftrightarrow>
     (let pkg = jn_Package j; s = tx_store w in
      invar s \<and> (\<forall>q. q \<noteq> pkg \<longrightarrow> look q s = found q) \<and>
      (look pkg s = found pkg \<or> look pkg s = written changes (found pkg)) \<and>
      (tx_backup w = Stored b \<or> tx_backup w = NoFile) \<and>
      (tx_journal w = NoFile \<and> look pkg s = found pkg \<or>
       (\<exists>p. tx_journal w = Stored (j\<lparr>jn_Phase := p\<rparr>) \<and> (p = PhaseBackedUp \<and> look pkg s = found pkg \<or> open_phase p))))"

lemma Clear_cases:
  assumes "Clear env w = (w', e)"
  shows "tx_store w' = tx_store w" "tx_backup w' = tx_backup w \<or> tx_backup w' = NoFile"
    "tx_journal w' = tx_journal w \<or> tx_journal w' = NoFile" "e = None \<Longrightarrow> tx_backup w' = NoFile \<and> tx_journal w' = NoFile"
  using assms by (cases "te_fault env RemoveBackup"; cases "te_fault env RemoveJournal"; auto simp: Clear_def Let_def split: if_splits)+

lemma SaveJournal_cases:
  assumes "SaveJournal env j w = (w', e)"
  shows "w' = w \<and> e \<noteq> None \<or> w' = w\<lparr>tx_journal := Stored j\<rparr>"
  using assms by (auto simp: SaveJournal_def file_error_def Let_def)

lemma apart_own:
  assumes "undoable env changes before b j" and "collision_free env j changes before"
    and "L = before \<or> L = written changes before"
  shows "apart env j changes before L"
  unfolding apart_def
proof
  fix c
  assume c: "c \<in> set changes"
  have "L (uc_Key c) = before (uc_Key c) \<or> L (uc_Key c) = change_value c"
    using assms(3) written_named [OF undoableD(2) [OF assms(1)] c] by metis
  then have "uv_Text (L (uc_Key c)) \<in> {uv_Text (before (uc_Key c)), uc_Text c, []}"
    by (cases "uc_Delete c") (auto simp: change_value_def simp del: insert_iff intro: insertI1 insertI2)
  moreover have "inj_on (Hash env j) {uv_Text (before (uc_Key c)), uc_Text c, []}"
    using assms(2) c by (simp add: collision_free_def)
  ultimately show "inj_on (Hash env j) {uv_Text (before (uc_Key c)), uc_Text c, uv_Text (L (uc_Key c))}"
    by (elim inj_on_subset) blast
qed

lemma undone_own:
  assumes "undoable env changes before b j" and "L = before \<or> L = written changes before"
  shows "undone changes before [] L = before"
proof
  fix k
  have "before k = absent" if "c \<in> set changes" "uc_Delete c" "uc_Key c = section_key k" for c
    using undoableD(5) [OF assms(1) that(1)] that canonical_below [OF undoableD(3) [OF assms(1)], of k]
    by (auto simp: section_retyped_def)
  then show "undone changes before [] L k = before k"
    using assms(2) by (auto simp: undone_def written_other)
qed

lemma tx_inv_Clear:
  assumes "tx_inv look invar found changes b j w" and "Clear env w = (w', e)"
    and "look (jn_Package j) (tx_store w) = found (jn_Package j)"
  shows "tx_inv look invar found changes b j w'"
  using assms Clear_cases [OF assms(2)] by (auto simp: tx_inv_def Let_def)

lemma tx_inv_save:
  assumes "tx_inv look invar found changes b j w" and "SaveJournal env (j\<lparr>jn_Phase := p\<rparr>) w = (w', e)" and "open_phase p"
  shows "tx_inv look invar found changes b j w'"
  using assms(1,3) SaveJournal_cases [OF assms(2)] by (auto simp: tx_inv_def Let_def)

context config_store
begin

lemma rollback_inv:
  assumes inv: "tx_inv look invar found changes b j w" and un: "undoable env changes (found (jn_Package j)) b j"
    and cf: "collision_free env j changes (found (jn_Package j))"
    and p: "p = PhaseBackedUp \<and> look (jn_Package j) (tx_store w) = found (jn_Package j) \<or> open_phase p"
    and res: "rollback env st (j\<lparr>jn_Phase := p\<rparr>) w = (w', out, e)"
  shows "tx_inv look invar found changes b j w' \<and> to_Conflicts out = [] \<and>
    (to_Phase out = Some PhaseRolledBack \<longrightarrow> look (jn_Package j) (tx_store w') = found (jn_Package j) \<and>
      (e = None \<longrightarrow> tx_journal w' = NoFile \<and> tx_backup w' = NoFile))"
proof -
  let ?L = "look (jn_Package j) (tx_store w)" and ?f = "found (jn_Package j)" and ?r = "j\<lparr>jn_Phase := PhaseRollingBack\<rparr>"
  consider (settled) "p = PhaseRecoveryRequired" | (early) "p = PhaseBackedUp" "?L = ?f"
    | (undo) "\<not> TxTerminal p" "p \<noteq> PhasePlanned" "p \<noteq> PhaseBackedUp"
    using p by (auto simp: open_phase_def TxTerminal_def)
  then show ?thesis
  proof cases
    case settled
    then have "w' = w" "out = outcome_at PhaseRecoveryRequired" using res by (simp_all add: rollback_def TxTerminal_def)
    with inv show ?thesis by (simp add: outcome_at_def zero_outcome_def)
  next
    case early
    then have cl: "Clear env w = (w', e)" and "out = outcome_at PhaseRolledBack"
      using res by (auto simp: rollback_def TxTerminal_def split: prod.splits)
    with early tx_inv_Clear [OF inv cl] Clear_cases [OF cl] show ?thesis by (simp add: outcome_at_def zero_outcome_def)
  next
    case undo
    obtain w1 e1 where w1: "SaveJournal env ?r w = (w1, e1)" by fastforce
    have inv1: "tx_inv look invar found changes b j w1" by (rule tx_inv_save [OF inv w1]) (simp add: open_phase_def)
    have s1: "tx_store w1 = tx_store w" "tx_backup w1 = tx_backup w" using SaveJournal_eq [OF w1] by auto
    have L: "?L = ?f \<or> ?L = written changes ?f" "invar (tx_store w)" "tx_backup w1 = Stored b \<or> tx_backup w1 = NoFile"
      using inv inv1 by (simp_all add: tx_inv_def Let_def)
    have stored: "e1 = None \<Longrightarrow> tx_journal w1 = Stored ?r" using saved [of env ?r w] w1 by simp
    consider (stopped) "w' = w1" "out = zero_outcome"
      | (lost) "w' = fst (SaveJournal env (j\<lparr>jn_Phase := PhaseRecoveryRequired\<rparr>) w1)" "out = outcome_at PhaseRecoveryRequired"
      | (undoing) "e1 = None" "undo_changes env st ?r b w1 = (w', out, e)"
      using res undo L(3) by (auto simp: rollback_def Let_def w1 LoadBackup_def split: option.splits if_splits File.splits)
    then show ?thesis
    proof cases
      case stopped
      with inv1 show ?thesis by (simp add: zero_outcome_def)
    next
      case lost
      have "tx_inv look invar found changes b j w'"
        by (rule tx_inv_save [OF inv1, of env PhaseRecoveryRequired _ "snd (SaveJournal env (j\<lparr>jn_Phase := PhaseRecoveryRequired\<rparr>) w1)"])
          (simp_all add: lost open_phase_def)
      then show ?thesis by (simp add: lost outcome_at_def zero_outcome_def)
    next
      case undoing
      have ap: "apart env ?r changes ?f (look (jn_Package ?r) (tx_store w1))"
        using apart_own [OF un cf L(1)] by (simp add: apart_def s1)
      have un': "undoable env changes ?f b ?r" using un by simp
      have frame: "\<forall>q. q \<noteq> jn_Package j \<longrightarrow> look q (tx_store w') = found q" "invar (tx_store w')"
        using undo_changes_frame [OF undoing(2)] inv1 by (simp_all add: tx_inv_def Let_def)
      have "invar (tx_store w1)" using L(2) s1(1) by simp
      with un' ap undoing(2) show ?thesis
      proof (cases rule: undo_changes_effect)
        case none
        then show ?thesis using inv1 frame by (auto simp: tx_inv_def Let_def zero_outcome_def)
      next
        case (failed conflicts)
        then have "look (jn_Package j) (tx_store w') = ?f" using undone_own [OF un L(1)] L by (auto simp: s1)
        then show ?thesis using failed inv1 frame by (auto simp: tx_inv_def Let_def zero_outcome_def)
      next
        case (finished out0)
        then have now: "look (jn_Package j) (tx_store w') = ?f" and clean: "to_Conflicts out0 = []"
          using undone_own [OF un L(1)] L by (auto simp: s1)
        have cl: "Clear env (w1\<lparr>tx_store := tx_store w'\<rparr>) = (w', e)"
          using finish_rollback_simps(5) [OF finished(1)] clean by simp
        have "tx_inv look invar found changes b j (w1\<lparr>tx_store := tx_store w'\<rparr>)"
          using inv1 frame now by (auto simp: tx_inv_def Let_def)
        from tx_inv_Clear [OF this cl] now Clear_cases(4) [OF cl] finish_rollback_simps(2) [OF finished(1)] clean
        show ?thesis by simp
      qed
    qed
  qed
qed

lemma Recover_inv:
  assumes inv: "tx_inv look invar found changes b j w" and un: "undoable env changes (found (jn_Package j)) b j"
    and cf: "collision_free env j changes (found (jn_Package j))"
    and res: "Recover env st revision w = (w', out, present, e)"
  shows "tx_inv look invar found changes b j w' \<and> to_Conflicts out = [] \<and>
    (to_Phase out = Some PhaseRolledBack \<longrightarrow> look (jn_Package j) (tx_store w') = found (jn_Package j) \<and>
      (e = None \<longrightarrow> tx_journal w' = NoFile \<and> tx_backup w' = NoFile))"
proof (cases "\<exists>p. LoadJournal env w = (Some (j\<lparr>jn_Phase := p\<rparr>), True, None) \<and> tx_journal w = Stored (j\<lparr>jn_Phase := p\<rparr>)")
  case False
  then have "w' = w \<and> out = zero_outcome"
    using res inv by (auto simp: Recover_def LoadJournal_def tx_inv_def Let_def split: if_splits)
  with inv show ?thesis by (simp add: zero_outcome_def)
next
  case True
  then obtain p where load: "LoadJournal env w = (Some (j\<lparr>jn_Phase := p\<rparr>), True, None)"
    and disk: "tx_journal w = Stored (j\<lparr>jn_Phase := p\<rparr>)" by blast
  have p: "p = PhaseBackedUp \<and> look (jn_Package j) (tx_store w) = found (jn_Package j) \<or> open_phase p"
    using inv by (auto simp: tx_inv_def Let_def disk dest: arg_cong [where f = jn_Phase])
  consider (kept) "w' = w" "to_Phase out \<noteq> Some PhaseRolledBack" "to_Conflicts out = []"
    | (early) "p = PhaseBackedUp" "Clear env w = (w', e)" "out = outcome_at PhaseRolledBack"
    | (moved) "SaveJournal env (j\<lparr>jn_Phase := PhaseRecoveryRequired\<rparr>) w = (w', snd (SaveJournal env (j\<lparr>jn_Phase := PhaseRecoveryRequired\<rparr>) w))"
      "to_Phase out \<noteq> Some PhaseRolledBack" "to_Conflicts out = []"
    | (undo) "rollback env st (j\<lparr>jn_Phase := p\<rparr>) w = (w', out, e)"
    using res p
    by (auto simp: Recover_def load open_phase_def TxTerminal_def outcome_at_def zero_outcome_def split: if_splits prod.splits option.splits)
  then show ?thesis
  proof cases
    case kept
    with inv show ?thesis by simp
  next
    case early
    then have "look (jn_Package j) (tx_store w) = found (jn_Package j)" using p by (simp add: open_phase_def)
    with early tx_inv_Clear [OF inv early(2)] Clear_cases [OF early(2)] show ?thesis
      by (simp add: outcome_at_def zero_outcome_def)
  next
    case moved
    then show ?thesis using tx_inv_save [OF inv moved(1)] by (simp add: open_phase_def)
  next
    case undo
    from rollback_inv [OF inv un cf p undo] show ?thesis .
  qed
qed

text \<open>\<open>Apply\<close> records the phase before it publishes.\<close>

lemma Apply_inv:
  assumes inv: "tx_inv look invar found changes b j w" and dist: "distinct (map uc_Key changes)"
    and p: "p = PhaseBackedUp \<and> look (jn_Package j) (tx_store w) = found (jn_Package j) \<or> p = PhaseApplied \<or> p = PhaseAwaitingConfirm"
    and res: "Apply env st changes (j\<lparr>jn_Phase := p\<rparr>) w = (w', j', e)"
  shows "tx_inv look invar found changes b j w' \<and> (\<exists>p. j' = j\<lparr>jn_Phase := p\<rparr> \<and>
    (p = PhaseBackedUp \<and> look (jn_Package j) (tx_store w') = found (jn_Package j) \<or> p = PhaseApplied \<or> p = PhaseAwaitingConfirm))"
proof -
  let ?pkg = "jn_Package j" and ?a = "j\<lparr>jn_Phase := PhaseApplied\<rparr>"
  obtain s1 e1 where s1: "st_Stage st ?pkg changes (tx_store w) = (s1, e1)" by fastforce
  obtain w2 e2 where w2: "SaveJournal env ?a (w\<lparr>tx_store := s1\<rparr>) = (w2, e2)" by fastforce
  obtain s3 e3 where s3: "st_Commit st ?pkg (tx_store w2) = (s3, e3)" by fastforce
  obtain s4 e4 where s4: "st_Reload st s3 = (s4, e4)" by fastforce
  have look1: "look q s1 = look q (tx_store w)" "invar s1" for q
    using stage_look [of q ?pkg changes "tx_store w"] invar_stage [of "tx_store w" ?pkg changes] inv by (simp_all add: s1 tx_inv_def Let_def)
  have inv1: "tx_inv look invar found changes b j (w\<lparr>tx_store := s1\<rparr>)" using inv look1 by (simp add: tx_inv_def Let_def)
  have inv2: "tx_inv look invar found changes b j w2" by (rule tx_inv_save [OF inv1 w2]) (simp add: open_phase_def)
  have store2: "tx_store w2 = s1" using SaveJournal_eq [OF w2] by simp
  have disk: "e2 = None \<Longrightarrow> tx_journal w2 = Stored ?a" using saved [of env ?a "w\<lparr>tx_store := s1\<rparr>"] w2 by simp
  have look3: "look q s3 = found q" if "q \<noteq> ?pkg" for q
    using commit_other [OF that, of s1] inv that look1 by (simp add: s3 [unfolded store2] tx_inv_def Let_def)
  have inv3: "invar s3" "invar s4" using invar_commit [of s1 ?pkg] invar_reload [of s3] look1 by (simp_all add: s3 [unfolded store2] s4)
  have look4: "look q s4 = look q s3" for q using reload_look [of q s3] by (simp add: s4)
  have live: "look ?pkg s3 = found ?pkg \<or> look ?pkg s3 = written changes (found ?pkg)"
    if "e1 = None" "look ?pkg (tx_store w) = found ?pkg"
    using publish_look [OF _ dist s3, of "tx_store w"] s1 store2 that by auto
  have published: "tx_inv look invar found changes b j (w2\<lparr>tx_store := s\<rparr>)"
    if "s = s3 \<or> s = s4" "e1 = None" "e2 = None" "look ?pkg (tx_store w) = found ?pkg" for s
    using inv2 that disk look3 look4 live inv3 by (auto simp: tx_inv_def Let_def open_phase_def)
  consider (refused) "w' = w" "j' = j\<lparr>jn_Phase := p\<rparr>" | (unstaged) "w' = w\<lparr>tx_store := s1\<rparr>" "j' = j\<lparr>jn_Phase := p\<rparr>"
    | (unsaved) "w' = w2" "j' = ?a"
    | (live) s where "w' = w2\<lparr>tx_store := s\<rparr>" "j' = ?a" "s = s3 \<or> s = s4" "e1 = None" "e2 = None" "p = PhaseBackedUp"
    using res w2 s3 s4 by (auto simp: Apply_def setPhase_def Let_def s1 split: if_splits option.splits)
  then show ?thesis
  proof cases
    case live
    then show ?thesis using published p by auto
  qed (use inv inv1 inv2 p look1 in auto)
qed

end

end
