(* ===== verification/Wireless_Props.thy ===== *)
theory Wireless_Props
  imports Wireless_Inv
begin

text \<open>
  The properties of a wireless transaction on the UCI store. A run is a sequence of what a process does
  with its own transaction, restarts, and recoveries at startup, each with faults of its own. What has to
  stay the same along a run is the hash function and the encoding of lists.
\<close>

subsection \<open>Runs\<close>

definition same_device :: "TxEnv \<Rightarrow> TxEnv \<Rightarrow> bool" where
  "same_device env0 env \<longleftrightarrow> te_Sum256 env = te_Sum256 env0 \<and> ut_Marshal (te_tool env) = ut_Marshal (te_tool env0) \<and>
     uci_batch (te_tool env)"

type_synonym tx_state = "UCIStore TxWorld \<times> Journal option"

inductive tx_step :: "TxEnv \<Rightarrow> UciChange list \<Rightarrow> tx_state \<Rightarrow> tx_state \<Rightarrow> bool" for env0 changes where
  tx_apply: "same_device env0 env \<Longrightarrow> Apply env (uci_ops (te_tool env)) changes j w = (w', j', e) \<Longrightarrow>
    tx_step env0 changes (w, Some j) (w', Some j')"
| tx_await: "AwaitConfirm env j w = (w', j', e) \<Longrightarrow> tx_step env0 changes (w, Some j) (w', Some j')"
| tx_rollback: "same_device env0 env \<Longrightarrow> rollback env (uci_ops (te_tool env)) j w = (w', out, e) \<Longrightarrow>
    tx_step env0 changes (w, Some j) (w', None)"
| tx_restart: "tx_step env0 changes (w, mem) (w, None)"
| tx_recover: "same_device env0 env \<Longrightarrow> Recover env (uci_ops (te_tool env)) revision w = (w', out, present, e) \<Longrightarrow>
    tx_step env0 changes (w, None) (w', None)"

definition live_config :: "TxEnv \<Rightarrow> string \<Rightarrow> UCIStore TxWorld \<Rightarrow> UciKey \<Rightarrow> UciValue" where
  "live_config env pkg w = live_value (te_tool env) pkg (tx_store w)"

lemma live_value_marshal: "ut_Marshal t = ut_Marshal t' \<Longrightarrow> live_value t = live_value t'"
  by (intro ext) (simp add: live_value_def read_value_def cong: option.case_cong if_cong)

lemma Hash_sum: "te_Sum256 env = te_Sum256 env' \<Longrightarrow> Hash env = Hash env'"
  by (intro ext) (simp add: Hash_def)

lemma undoable_sum:
  assumes "te_Sum256 env = te_Sum256 env'"
  shows "undoable env = undoable env'" and "collision_free env = collision_free env'" and "apart env = apart env'"
  unfolding undoable_def [abs_def] entry_of_def collision_free_def [abs_def] apart_def [abs_def] Hash_sum [OF assms]
  by (rule refl)+

lemma same_device_store:
  assumes "same_device env0 env"
  shows "config_store (uci_ops (te_tool env)) (live_value (te_tool env0)) store_tidy"
  using uci_batch.uci_config_store [of "te_tool env"] assms live_value_marshal [of "te_tool env0" "te_tool env"]
  by (simp add: same_device_def)

definition recover_all :: "(TxEnv \<times> nat) list \<Rightarrow> 's StoreOps \<Rightarrow> 's TxWorld \<Rightarrow> 's TxWorld" where
  "recover_all runs st w = fold (\<lambda>(env, revision) w. fst (Recover env st revision w)) runs w"

subsection \<open>The invariant of a run\<close>

definition mem_ok :: "TxEnv \<Rightarrow> (string \<Rightarrow> UciKey \<Rightarrow> UciValue) \<Rightarrow> Journal \<Rightarrow> UCIStore TxWorld \<Rightarrow> Journal option \<Rightarrow> bool" where
  "mem_ok env found j w mem \<longleftrightarrow> (case mem of None \<Rightarrow> True | Some j' \<Rightarrow> \<exists>p. j' = j\<lparr>jn_Phase := p\<rparr> \<and>
     (p = PhaseBackedUp \<and> live_config env (jn_Package j) w = found (jn_Package j) \<or> p = PhaseApplied \<or> p = PhaseAwaitingConfirm))"

definition run_inv :: "TxEnv \<Rightarrow> (string \<Rightarrow> UciKey \<Rightarrow> UciValue) \<Rightarrow> UciChange list \<Rightarrow> Backup \<Rightarrow> Journal \<Rightarrow> tx_state \<Rightarrow> bool" where
  "run_inv env found changes b j = (\<lambda>(w, mem).
     tx_inv (live_value (te_tool env)) store_tidy found changes b j w \<and> mem_ok env found j w mem)"

lemma AwaitConfirm_inv:
  assumes "tx_inv look invar found changes b j w" and "AwaitConfirm env (j\<lparr>jn_Phase := p\<rparr>) w = (w', j', e)"
  shows "tx_inv look invar found changes b j w' \<and> tx_store w' = tx_store w \<and>
    (j' = j\<lparr>jn_Phase := p\<rparr> \<or> j' = j\<lparr>jn_Phase := PhaseAwaitingConfirm\<rparr>)"
proof (cases "p = PhaseApplied")
  case True
  then have saved: "SaveJournal env (j\<lparr>jn_Phase := PhaseAwaitingConfirm\<rparr>) w = (w', e)" and "j' = j\<lparr>jn_Phase := PhaseAwaitingConfirm\<rparr>"
    using assms(2) by (auto simp: AwaitConfirm_def setPhase_def Let_def split: prod.splits)
  then show ?thesis using tx_inv_save [OF assms(1) saved] SaveJournal_eq [OF saved] by (simp add: open_phase_def)
next
  case False
  with assms show ?thesis by (auto simp: AwaitConfirm_def)
qed

lemma run_inv_Some:
  assumes "run_inv env found changes b j (w, Some j1)"
  obtains p where "j1 = j\<lparr>jn_Phase := p\<rparr>" "tx_inv (live_value (te_tool env)) store_tidy found changes b j w"
    "p = PhaseBackedUp \<and> live_value (te_tool env) (jn_Package j) (tx_store w) = found (jn_Package j) \<or>
     p = PhaseApplied \<or> p = PhaseAwaitingConfirm"
  using assms by (auto simp: run_inv_def mem_ok_def live_config_def)

lemma run_inv_None: "run_inv env found changes b j (w, None) = tx_inv (live_value (te_tool env)) store_tidy found changes b j w"
  by (simp add: run_inv_def mem_ok_def)

lemma run_step:
  assumes inv: "run_inv env0 found changes b j s" and step: "tx_step env0 changes s t"
    and un: "undoable env0 changes (found (jn_Package j)) b j" and cf: "collision_free env0 j changes (found (jn_Package j))"
  shows "run_inv env0 found changes b j t"
  using step
proof cases
  case (tx_apply env j1 w w' j' e)
  from inv [unfolded tx_apply(1)] show ?thesis
  proof (cases rule: run_inv_Some)
    case (1 p)
    from config_store.Apply_inv [OF same_device_store [OF tx_apply(3)] 1(2) undoableD(2) [OF un] 1(3) tx_apply(4) [unfolded 1(1)]]
    show ?thesis unfolding run_inv_def mem_ok_def live_config_def tx_apply(2) by simp
  qed
next
  case (tx_await env j1 w w' j' e)
  from inv [unfolded tx_await(1)] show ?thesis
  proof (cases rule: run_inv_Some)
    case (1 p)
    from AwaitConfirm_inv [OF 1(2) tx_await(3) [unfolded 1(1)]] 1(3)
    show ?thesis unfolding run_inv_def mem_ok_def live_config_def tx_await(2) by auto
  qed
next
  case (tx_rollback env j1 w w' out e)
  have sum: "te_Sum256 env = te_Sum256 env0" using tx_rollback(3) by (simp add: same_device_def)
  from inv [unfolded tx_rollback(1)] show ?thesis
  proof (cases rule: run_inv_Some)
    case (1 p)
    then have "p = PhaseBackedUp \<and> live_value (te_tool env0) (jn_Package j) (tx_store w) = found (jn_Package j) \<or> open_phase p"
      by (auto simp: open_phase_def)
    from config_store.rollback_inv [OF same_device_store [OF tx_rollback(3)] 1(2) _ _ this tx_rollback(4) [unfolded 1(1)]] un cf
    show ?thesis by (simp add: tx_rollback(2) run_inv_None undoable_sum [OF sum])
  qed
next
  case (tx_restart w mem)
  then show ?thesis using inv by (simp add: run_inv_def mem_ok_def)
next
  case (tx_recover env revision w w' out present e)
  have sum: "te_Sum256 env = te_Sum256 env0" using tx_recover(3) by (simp add: same_device_def)
  from config_store.Recover_inv [OF same_device_store [OF tx_recover(3)] inv [unfolded tx_recover(1) run_inv_None] _ _ tx_recover(4)] un cf
  show ?thesis by (simp add: tx_recover(2) run_inv_None undoable_sum [OF sum])
qed

lemma run_machine:
  assumes "undoable env0 changes (found (jn_Package j)) b j" and "collision_free env0 j changes (found (jn_Package j))"
  shows "state_machine (run_inv env0 found changes b j) (tx_step env0 changes) (run_inv env0 found changes b j)"
  using run_step assms by unfold_locales blast+

lemma Begin_run:
  assumes "Begin env (uci_ops (te_tool env)) plan w0 = (w, Inr j)" and "uci_batch (te_tool env)" and "store_tidy (tx_store w0)"
  shows "\<exists>b. undoable env (tp_Changes plan) (live_config env (jn_Package j) w0) b j \<and> jn_Package j = tp_Package plan \<and>
    run_inv env (\<lambda>q. live_config env q w0) (tp_Changes plan) b j (w, Some j) \<and> tx_backup w = Stored b"
proof -
  obtain b where "tx_store w = tx_store w0" "tx_journal w = Stored j" "tx_backup w = Stored b" "jn_Phase j = PhaseBackedUp"
      "jn_Package j = tp_Package plan" "undoable env (tp_Changes plan) (live_config env (tp_Package plan) w0) b j"
    using config_store.Begin_done [OF uci_batch.uci_config_store [OF assms(2)] assms(1,3)] by (auto simp: live_config_def [abs_def])
  moreover from this have "j\<lparr>jn_Phase := PhaseBackedUp\<rparr> = j" by simp
  ultimately show ?thesis using assms(3)
    by (intro exI [of _ b]) (auto simp: run_inv_def tx_inv_def mem_ok_def live_config_def [abs_def] Let_def intro!: exI [of _ PhaseBackedUp])
qed


text \<open>
  C19: an undo never touches what somebody else did. However the configuration was edited and committed after the change was
  recorded, and whatever fails on the way, a rollback leaves every key as it is or restores exactly the keys
  of this transaction that still hold one of the two values it knows; a key somebody else has written since
  is left as found and reported as a conflict, an option is reported only then, and keys that
  were never part of the transaction keep their values, also those put into a section the transaction created.
  The change counts as rolled back exactly when there is no conflict; otherwise the backup stays.
\<close>

theorem foreign_edits_survive_undo:
  assumes "Begin env (uci_ops (te_tool env)) plan w0 = (w1, Inr j)" and "uci_batch (te_tool env)" and "same_device env env'"
    and "tx_backup w = tx_backup w1" and "p = PhaseApplied \<or> p = PhaseAwaitingConfirm \<or> p = PhaseRollingBack"
    and "apart env j (tp_Changes plan) (live_config env (tp_Package plan) w0) (live_config env (tp_Package plan) w)"
    and "rollback env' (uci_ops (te_tool env')) (j\<lparr>jn_Phase := p\<rparr>) w = (w', out, e)"
    and "store_tidy (tx_store w0)" and "store_tidy (tx_store w)"
  shows "(let changes = tp_Changes plan; found = live_config env (tp_Package plan) w0;
      live = live_config env (tp_Package plan) w; live' = live_config env (tp_Package plan) w' in
    (\<forall>q. q \<noteq> tp_Package plan \<longrightarrow> live_config env q w' = live_config env q w) \<and>
    (to_Phase out = None \<and> live' = live \<or>
     (\<exists>conflicts. conflict_list changes found live conflicts \<and> live' = undone changes found conflicts live \<and>
       (to_Phase out \<noteq> None \<longrightarrow> to_Conflicts out = conflicts \<and>
         (to_Phase out = Some PhaseRolledBack \<longleftrightarrow> conflicts = []) \<and>
         (conflicts \<noteq> [] \<longrightarrow> e \<noteq> None \<and> tx_backup w' = tx_backup w)))))"
proof -
  let ?r = "j\<lparr>jn_Phase := PhaseRollingBack\<rparr>" and ?cs = "tp_Changes plan" and ?found = "live_config env (tp_Package plan) w0"
  obtain b where b: "tx_backup w1 = Stored b" and pkg: "jn_Package j = tp_Package plan" and un: "undoable env ?cs ?found b j"
    using config_store.Begin_done [OF uci_batch.uci_config_store [OF assms(2)] assms(1,8)] by (auto simp: live_config_def [abs_def])
  have sum: "te_Sum256 env' = te_Sum256 env" using assms(3) by (simp add: same_device_def)
  note store = same_device_store [OF assms(3)]
  obtain w2 e2 where w2: "SaveJournal env' ?r w = (w2, e2)" by fastforce
  have s2: "tx_store w2 = tx_store w" "tx_backup w2 = Stored b" using SaveJournal_eq [OF w2] assms(4) b by auto
  have phase: "\<not> TxTerminal p" "p \<noteq> PhasePlanned" "p \<noteq> PhaseBackedUp" using assms(5) by (auto simp: TxTerminal_def)
  consider (stopped) "tx_store w' = tx_store w" "out = zero_outcome" | (undoing) "undo_changes env' (uci_ops (te_tool env')) ?r b w2 = (w', out, e)"
    using assms(7) phase s2 by (auto simp: rollback_def Let_def w2 LoadBackup_def split: option.splits if_splits)
  then show ?thesis
  proof cases
    case stopped
    then show ?thesis by (simp add: live_config_def zero_outcome_def)
  next
    case undoing
    have un': "undoable env' ?cs ?found b ?r" using un by (simp add: undoable_sum [OF sum])
    have ap: "apart env' ?r ?cs ?found (live_value (te_tool env) (jn_Package ?r) (tx_store w2))"
      using assms(6) by (simp add: undoable_sum [OF sum] apart_def s2 pkg live_config_def [abs_def])
    have frame: "\<forall>q. q \<noteq> tp_Package plan \<longrightarrow> live_config env q w' = live_config env q w"
      using config_store.undo_changes_frame(1) [OF store undoing] by (auto simp: live_config_def pkg s2)
    have settled: "store_tidy (tx_store w2)" using assms(9) by (simp add: s2)
    show ?thesis
    proof (cases rule: config_store.undo_changes_effect [OF store un' ap undoing settled])
      case 1
      with frame show ?thesis by (simp add: live_config_def [abs_def] pkg s2 zero_outcome_def)
    next
      case (2 conflicts)
      then have "conflict_list ?cs ?found (live_config env (tp_Package plan) w) conflicts" "to_Phase out = None"
        "live_config env (tp_Package plan) w' = undone ?cs ?found conflicts (live_config env (tp_Package plan) w)"
        by (simp_all add: live_config_def [abs_def] pkg s2 zero_outcome_def)
      with frame show ?thesis unfolding Let_def by blast
    next
      case (3 out0)
      note fin = finish_rollback_simps [OF 3(1)]
      have "tx_backup w' = tx_backup w2" if "to_Conflicts out0 \<noteq> []"
        by (subst conjunct1 [OF fin(4) [OF that]]) simp
      then have "to_Conflicts out0 \<noteq> [] \<Longrightarrow> tx_backup w' = tx_backup w \<and> e \<noteq> None" using fin(4) assms(4) b s2(2) by simp
      moreover have "conflict_list ?cs ?found (live_config env (tp_Package plan) w) (to_Conflicts out)"
        "live_config env (tp_Package plan) w' = undone ?cs ?found (to_Conflicts out) (live_config env (tp_Package plan) w)"
        using 3 fin(2) by (simp_all add: live_config_def [abs_def] pkg s2)
      ultimately show ?thesis using frame fin(2,3) unfolding Let_def by auto
    qed
  qed
qed

definition settled :: "'s \<Rightarrow> 's TxWorld \<Rightarrow> bool" where
  "settled s w \<longleftrightarrow> tx_store w = s \<and> (tx_journal w = NoFile \<and> tx_backup w = NoFile \<or>
     (\<exists>j. tx_journal w = Stored j \<and> jn_Phase j = PhaseCommitted \<and> jn_Version j = JournalVersion))"

lemma Clear_order:
  "Clear env w = (w', e) \<Longrightarrow> tx_journal w' = NoFile \<and> tx_backup w' = NoFile \<or> tx_journal w' = tx_journal w"
  by (cases "te_fault env RemoveBackup"; cases "te_fault env RemoveJournal"; auto simp: Clear_def Let_def split: if_splits)

lemma Clear_settled: "settled s w \<Longrightarrow> Clear env w = (w', e) \<Longrightarrow> settled s w'"
  using Clear_order [of env w w' e] Clear_cases [of env w w' e] by (auto simp: settled_def)

lemma Recover_settled:
  assumes "settled s w"
  shows "settled s (fst (Recover env st revision w))"
    and "tx_journal w = NoFile \<Longrightarrow> fst (Recover env st revision w) = w"
  using assms Clear_settled [OF assms]
  by (auto simp: Recover_def LoadJournal_def TxTerminal_def settled_def split: if_splits File.splits prod.splits)

lemma recover_all_settled:
  "settled s w \<Longrightarrow> settled s (recover_all runs st w)"
  "settled s w \<Longrightarrow> tx_journal w = NoFile \<Longrightarrow> recover_all runs st w = w"
  by (induction runs arbitrary: w) (auto simp: recover_all_def Recover_settled)

lemma Recover_settled_fine:
  assumes "settled s w" and "\<forall>op. te_fault env op = FileFine"
  shows "case Recover env st revision w of (w', out, present, e) \<Rightarrow>
    e = None \<and> tx_journal w' = NoFile \<and> tx_backup w' = NoFile \<and> tx_store w' = s"
  using assms by (auto simp: settled_def Recover_def LoadJournal_def TxTerminal_def Clear_def Let_def JournalVersion_def)

lemma Confirm_settled:
  assumes "Confirm env j w = (w', j', e)" and "jn_Version j = JournalVersion"
    and "jn_Phase j = PhaseApplied \<or> jn_Phase j = PhaseAwaitingConfirm"
    and "e = None \<or> te_fault env (SaveJournalAt PhaseCommitted) \<noteq> FileRefused"
  shows "settled (tx_store w) w'" and "e = None \<Longrightarrow> tx_journal w' = NoFile \<and> tx_backup w' = NoFile"
proof -
  let ?c = "j\<lparr>jn_Phase := PhaseCommitted\<rparr>"
  obtain w1 e1 where w1: "SaveJournal env ?c w = (w1, e1)" by fastforce
  obtain w2 e2 where w2: "Clear env w1 = (w2, e2)" by fastforce
  have res: "if e1 = None then w' = w2 \<and> e = e2 else w' = w1 \<and> e = e1"
    using assms(1,3) w2 by (auto simp: Confirm_def setPhase_def Let_def w1 split: option.splits prod.splits)
  have "e1 = None \<or> te_fault env (SaveJournalAt PhaseCommitted) \<noteq> FileRefused" using res assms(4) by (auto split: if_splits)
  then have "w1 = w\<lparr>tx_journal := Stored ?c\<rparr>"
    using w1 by (auto simp: SaveJournal_def file_error_def Let_def split: if_splits)
  then have "settled (tx_store w) w1" using assms(2) by (simp add: settled_def)
  with res Clear_settled [OF this w2] Clear_cases(4) [OF w2]
  show "settled (tx_store w) w'" "e = None \<Longrightarrow> tx_journal w' = NoFile \<and> tx_backup w' = NoFile" by (auto split: if_splits)
qed

text \<open>
  C20: a success somebody was shown is never unwound. Once \<open>Confirm\<close> has answered without a failure, no
  sequence of later recoveries, under any faults, revisions or clock readings and for any store, changes the
  configuration or the files, and no new change is blocked by what the transaction left. When \<open>Confirm\<close>
  failed after the verdict reached the disk, recoveries still leave the store alone, and the first one whose
  file operations succeed removes both files.
\<close>

theorem confirmed_change_stays:
  assumes "Confirm env j w = (w', j', e)" and "jn_Version j = JournalVersion"
    and "jn_Phase j = PhaseApplied \<or> jn_Phase j = PhaseAwaitingConfirm"
    and "e = None \<or> te_fault env (SaveJournalAt PhaseCommitted) \<noteq> FileRefused"
  shows "tx_store (recover_all runs st w') = tx_store w \<and>
    (e = None \<longrightarrow> recover_all runs st w' = w' \<and> tx_journal w' = NoFile \<and> tx_backup w' = NoFile) \<and>
    (\<forall>env' revision. (\<forall>op. te_fault env' op = FileFine) \<longrightarrow>
      (case Recover env' st revision (recover_all runs st w') of (w'', out, present, e') \<Rightarrow>
         e' = None \<and> tx_journal w'' = NoFile \<and> tx_backup w'' = NoFile \<and> tx_store w'' = tx_store w))"
proof -
  note settled = Confirm_settled [OF assms]
  have "settled (tx_store w) (recover_all runs st w')" by (rule recover_all_settled(1) [OF settled(1)])
  moreover from this have "tx_store (recover_all runs st w') = tx_store w" by (simp add: settled_def)
  ultimately show ?thesis using settled(2) recover_all_settled(2) [OF settled(1)]
    by (intro conjI allI impI Recover_settled_fine) simp_all
qed

text \<open>
  C21: a cleanup that is cut short turns a finished rollback into one that needs a person. When a rollback has
  undone every entry and only the removal of the journal fails, it reports rolled back with a failure; the
  next recovery, with nothing failing any more and the configuration still as it was found, does not finish:
  it reports that a person has to look, and from then on every new wireless change is refused.
\<close>

theorem interrupted_cleanup_blocks:
  assumes "Recover env st revision w = (w', out, present, e)" and "to_Phase out = Some PhaseRolledBack"
    and "tx_journal w = Stored j" and "jn_Phase j = PhaseApplied" and "te_fault env RemoveJournal = FileRefused"
    and "te_fault env RemoveBackup = FileFine" and "\<forall>op. te_fault env' op = FileFine" and "plan_problem env' plan = None"
  shows "e \<noteq> None \<and>
    (case Recover env' st (jn_ConfigRevision j) w' of (w'', out', present', e') \<Rightarrow>
       to_Phase out' = Some PhaseRecoveryRequired \<and> e' = Some (Errorf CodeRecoveryRequired) \<and>
       tx_store w'' = tx_store w' \<and> Begin env' st plan w'' = (w'', Inl (Errorf CodeRecoveryRequired)))"
proof -
  let ?r = "j\<lparr>jn_Phase := PhaseRollingBack\<rparr>"
  have "jn_Version j = JournalVersion \<or> jn_Version j = 1" and "rollback env st j w = (w', out, e)"
    using assms(1-4) by (auto simp: Recover_def LoadJournal_def TxTerminal_def zero_outcome_def outcome_at_def
        split: if_splits prod.splits option.splits)
  then have version: "jn_Version j = JournalVersion \<or> jn_Version j = 1" and roll: "rollback env st j w = (w', out, e)" by auto
  obtain w1 e1 where w1: "SaveJournal env ?r w = (w1, e1)" by fastforce
  obtain b where "undo_changes env st ?r b w1 = (w', out, e)" and "e1 = None"
    using roll assms(2,4) by (auto simp: rollback_def TxTerminal_def Let_def w1 zero_outcome_def outcome_at_def
        split: option.splits prod.splits)
  then obtain out0 w2 where fin: "finish_rollback env ?r out0 w2 = (w', out, e)" and w2: "tx_journal w2 = Stored ?r"
    using assms(2) saved [of env ?r w] w1
    by (fastforce simp: undo_changes_def zero_outcome_def split: sum.splits option.splits prod.splits)
  then have "(w', e) = Clear env w2" using finish_rollback_simps(3,5) [OF fin] assms(2) by (auto split: if_splits)
  then have "tx_journal w' = Stored ?r" "tx_backup w' = NoFile" "e \<noteq> None"
    using assms(5,6) w2 by (auto simp: Clear_def Let_def)
  then show ?thesis using assms(7,8) version
    by (simp add: Recover_def LoadJournal_def rollback_def LoadBackup_def SaveJournal_def file_error_def TxTerminal_def
        Let_def outcome_at_def zero_outcome_def Begin_def clear_previous_def)
qed

end
