(* ===== verification/Wireless_Reference.thy ===== *)
theory Wireless_Reference
  imports Wireless_Laws
begin

text \<open>
  A small interpreter of \<open>uci batch\<close> commands that obeys the law the store relies on. It stands for the
  external program wherever a property is evaluated on concrete configurations, and shows that the law
  can be met.
\<close>

definition edit_section :: "string \<Rightarrow> (UCISection \<Rightarrow> UCISection) \<Rightarrow> UCIConfig \<Rightarrow> UCIConfig" where
  "edit_section sec f config = map (\<lambda>s. if ss_Name s = sec then f s else s) config"

definition set_option :: "string \<Rightarrow> UCIOption \<Rightarrow> UCISection \<Rightarrow> UCISection" where
  "set_option name v s = s\<lparr>ss_options := AList.update name v (ss_options s)\<rparr>"

definition add_item :: "string \<Rightarrow> string \<Rightarrow> UCISection \<Rightarrow> UCISection" where
  "add_item name v s =
     (let items = (case UCISection_Lookup s name of None \<Rightarrow> []
                   | Some old \<Rightarrow> if ux_IsList old then ux_List old else [ux_Text old])
      in set_option name \<lparr>ux_Text = [], ux_List = items @ [v], ux_IsList = True\<rparr> s)"

fun run_command :: "UciCommand \<Rightarrow> UCIConfig \<Rightarrow> UCIConfig option" where
  "run_command (CmdSet k v) config =
     (if v = [] then None
      else if IsSection k then
        Some (if Section config (uk_Section k) = None
              then config @ [\<lparr>ss_Name = uk_Section k, ss_Type = v, ss_options = []\<rparr>]
              else edit_section (uk_Section k) (\<lambda>s. s\<lparr>ss_Type := v\<rparr>) config)
      else if Section config (uk_Section k) = None then None
      else Some (edit_section (uk_Section k) (set_option (uk_Option k) \<lparr>ux_Text = v, ux_List = [], ux_IsList = False\<rparr>) config))"
| "run_command (CmdAddList k v) config =
     (if IsSection k \<or> Section config (uk_Section k) = None then None
      else Some (edit_section (uk_Section k) (add_item (uk_Option k) v) config))"
| "run_command (CmdDelete k) config =
     (if Section config (uk_Section k) = None then None
      else if IsSection k then Some (filter (\<lambda>s. ss_Name s \<noteq> uk_Section k) config)
      else Some (edit_section (uk_Section k) (\<lambda>s. s\<lparr>ss_options := AList.delete (uk_Option k) (ss_options s)\<rparr>) config))"

definition run_batch :: "UciCommand list \<Rightarrow> UCIConfig \<Rightarrow> UCIConfig option" where
  "run_batch batch config = fold (\<lambda>cmd acc. Option.bind acc (run_command cmd)) batch (Some config)"

definition reference_tool :: "(StoreOp \<Rightarrow> bool) \<Rightarrow> UciTool" where
  "reference_tool fault = \<lparr>ut_Marshal = concat, ut_Unmarshal = (\<lambda>text. Some [text]), ut_batch = run_batch,
     ut_overlay = (\<lambda>_ config. config), ut_fault = fault\<rparr>"

lemma Section_edit:
  "(\<And>s. ss_Name (f s) = ss_Name s) \<Longrightarrow>
   Section (edit_section sec f config) n = (if n = sec then map_option f (Section config n) else Section config n)"
  by (induction config) (auto simp: Section_def edit_section_def)

lemma Section_append: "Section (config @ [s]) n =
    (case Section config n of Some x \<Rightarrow> Some x | None \<Rightarrow> if ss_Name s = n then Some s else None)"
  by (induction config) (auto simp: Section_def)

lemma Section_filter: "Section (filter (\<lambda>s. ss_Name s \<noteq> m) config) n = (if n = m then None else Section config n)"
  by (induction config) (auto simp: Section_def)

lemma edited_names [simp]: "ss_Name (set_option n v s) = ss_Name s" "ss_Name (add_item n w s) = ss_Name s"
    "ss_Type (set_option n v s) = ss_Type s" "ss_Type (add_item n w s) = ss_Type s"
  by (simp_all add: set_option_def add_item_def Let_def)

lemma edited_lookup [simp]:
  "m \<noteq> n \<Longrightarrow> UCISection_Lookup (set_option n v s) m = UCISection_Lookup s m"
  "m \<noteq> n \<Longrightarrow> UCISection_Lookup (add_item n w s) m = UCISection_Lookup s m"
  by (simp_all add: set_option_def add_item_def UCISection_Lookup_def update_conv Let_def)

lemma lookup_type: "UCISection_Lookup (s\<lparr>ss_Type := v\<rparr>) n = UCISection_Lookup s n"
  by (simp add: UCISection_Lookup_def)

lemma key_cases: "k \<noteq> k' \<Longrightarrow> uk_Section k = uk_Section k' \<Longrightarrow> uk_Option k \<noteq> uk_Option k'" for k k' :: UciKey
  by (cases k; cases k') simp

lemma read_edit:
  assumes "\<And>s. ss_Name (f s) = ss_Name s" and "IsSection k \<Longrightarrow> \<forall>s. ss_Type (f s) = ss_Type s"
    and "\<And>s. \<not> IsSection k \<Longrightarrow> UCISection_Lookup (f s) (uk_Option k) = UCISection_Lookup s (uk_Option k)"
  shows "read_value t (edit_section (uk_Section k) f config) k = read_value t config k"
  using assms by (cases "Section config (uk_Section k)") (simp_all add: read_value_def Section_edit)

lemma read_retype: "uk_Option k \<noteq> [] \<Longrightarrow>
    read_value t (edit_section (uk_Section k) (\<lambda>s. s\<lparr>ss_Type := v\<rparr>) config) k = read_value t config k"
  by (rule read_edit) (simp_all add: IsSection_def lookup_type)

lemma read_edit_other:
  assumes "\<And>s. ss_Name (f s) = ss_Name s" and "sec \<noteq> uk_Section k"
  shows "read_value t (edit_section sec f config) k = read_value t config k"
  using assms by (simp add: read_value_def Section_edit)

lemma read_append: "Section config (uk_Section k') = None \<Longrightarrow> IsSection k' \<Longrightarrow> k' \<noteq> k \<Longrightarrow>
    read_value t (config @ [\<lparr>ss_Name = uk_Section k', ss_Type = v, ss_options = []\<rparr>]) k = read_value t config k"
  using key_cases [of k k'] by (auto simp: read_value_def Section_append IsSection_def UCISection_Lookup_def split: option.splits)

lemma command_frame:
  assumes "run_command cmd config = Some config'" and "\<not> touches cmd k"
  shows "read_value t config' k = read_value t config k"
proof (cases cmd)
  case (CmdSet k' v)
  then have k: "k' \<noteq> k" using assms(2) by simp
  then have "uk_Section k' = uk_Section k \<Longrightarrow> uk_Option k \<noteq> uk_Option k'" using key_cases [of k k'] by metis
  then show ?thesis using assms(1) CmdSet read_append [of config k' k]
    by (cases "uk_Section k' = uk_Section k"; cases "IsSection k'")
      (auto simp: IsSection_def read_retype read_edit read_edit_other split: if_splits)
next
  case (CmdAddList k' v)
  then have "uk_Section k' = uk_Section k \<Longrightarrow> uk_Option k \<noteq> uk_Option k'" using assms(2) key_cases [of k k'] by (metis touches.simps(2))
  then show ?thesis using assms(1) CmdAddList
    by (cases "uk_Section k' = uk_Section k") (auto simp: read_edit read_edit_other split: if_splits)
next
  case (CmdDelete k')
  have "k' = section_key k" if "IsSection k'" "uk_Section k' = uk_Section k"
    using that by (intro UciKey.equality) (simp_all add: section_key_def IsSection_def)
  then have other: "uk_Section k' \<noteq> uk_Section k" if "IsSection k'" using assms(2) CmdDelete that by auto
  have "uk_Section k' = uk_Section k \<Longrightarrow> uk_Option k \<noteq> uk_Option k'" using assms(2) CmdDelete key_cases [of k k'] by (metis touches.simps(3))
  then show ?thesis using assms(1) CmdDelete other
    by (cases "IsSection k'"; cases "uk_Section k' = uk_Section k")
      (auto simp: read_value_def [of _ "filter _ _"] read_value_def [of _ config] Section_filter UCISection_Lookup_def AList.delete_conv
        read_edit read_edit_other split: if_splits)
qed

definition tidy_section :: "UCISection \<Rightarrow> bool" where
  "tidy_section s \<longleftrightarrow> (\<forall>(name, v) \<in> set (ss_options s). name \<noteq> [] \<and> (ux_IsList v \<or> ux_Text v \<noteq> []))"

lemma tidy_alt: "tidy config \<longleftrightarrow> (\<forall>s \<in> set config. tidy_section s)"
  by (auto simp: tidy_def tidy_section_def list_all_iff)

lemma tidy_edit: "tidy config \<Longrightarrow> (\<And>s. tidy_section s \<Longrightarrow> tidy_section (f s)) \<Longrightarrow> tidy (edit_section sec f config)"
  by (auto simp: tidy_alt edit_section_def)

lemma in_update: "x \<in> set (AList.update k v xs) \<Longrightarrow> x = (k, v) \<or> x \<in> set xs"
  by (induction xs) (auto split: if_splits)

lemma tidy_set: "tidy_section s \<Longrightarrow> n \<noteq> [] \<Longrightarrow> ux_IsList v \<or> ux_Text v \<noteq> [] \<Longrightarrow> tidy_section (set_option n v s)"
  by (auto simp: tidy_section_def set_option_def dest!: in_update)

lemma in_delete: "x \<in> set (AList.delete k xs) \<Longrightarrow> x \<in> set xs"
  by (auto simp: AList.delete_eq)

lemma command_tidy: "run_command cmd config = Some config' \<Longrightarrow> tidy config \<Longrightarrow> tidy config'"
proof (cases cmd)
  case (CmdSet k v)
  assume "run_command cmd config = Some config'" "tidy config"
  then show ?thesis using CmdSet
    by (auto simp: IsSection_def split: if_splits intro!: tidy_edit tidy_set) (auto simp: tidy_alt tidy_section_def)
next
  case (CmdAddList k v)
  assume "run_command cmd config = Some config'" "tidy config"
  then show ?thesis using CmdAddList
    by (auto simp: IsSection_def add_item_def Let_def split: if_splits intro!: tidy_edit tidy_set)
next
  case (CmdDelete k)
  assume "run_command cmd config = Some config'" "tidy config"
  then show ?thesis using CmdDelete
    by (auto simp: IsSection_def split: if_splits intro!: tidy_edit) (auto simp: tidy_alt tidy_section_def dest!: in_delete)
qed

lemma run_batch_Cons:
  "run_batch (cmd # batch) config = (case run_command cmd config of None \<Rightarrow> None | Some config' \<Rightarrow> run_batch batch config')"
proof -
  have "fold (\<lambda>cmd acc. Option.bind acc (run_command cmd)) batch None = None" by (induction batch) simp_all
  then show ?thesis by (simp add: run_batch_def split: option.split)
qed

lemma run_batch_Nil: "run_batch [] config = Some config"
  by (simp add: run_batch_def)

lemma batch_laws:
  "run_batch batch config = Some config' \<Longrightarrow> \<not> list_ex (\<lambda>cmd. touches cmd k) batch \<Longrightarrow> read_value t config' k = read_value t config k"
  "run_batch batch config = Some config' \<Longrightarrow> tidy config \<Longrightarrow> tidy config'"
  by (induction batch arbitrary: config)
    (auto simp: run_batch_Cons run_batch_Nil split: option.splits dest: command_frame command_tidy)

interpretation reference: uci_batch "reference_tool fault"
  by unfold_locales (auto simp: reference_tool_def intro: batch_laws)

end
