(* ===== verification/Wireless_Demo.thy ===== *)
theory Wireless_Demo
  imports Wireless_Props Wireless_Reference
begin

text \<open>
  The properties of \<open>Wireless_Props\<close> at a concrete router: one radio, and a change that creates a client
  section with one option and moves the radio to another channel. The hash is the identity, which never
  collides; the tool is the interpreter of \<open>Wireless_Reference\<close>.
\<close>

definition demo_tool :: UciTool where "demo_tool = reference_tool (\<lambda>_. False)"

definition demo_env :: "(FileOp \<Rightarrow> FileFault) \<Rightarrow> TxEnv" where
  "demo_env fault = \<lparr>te_Sum256 = id, te_salt = Some ''s'', te_now = 0, te_tool = demo_tool, te_fault = fault\<rparr>"

abbreviation fine_env :: TxEnv where "fine_env \<equiv> demo_env (\<lambda>_. FileFine)"

definition demo_options :: "(string \<times> UCIOption) list" where
  "demo_options = [(''ch'', \<lparr>ux_Text = ''6'', ux_List = [], ux_IsList = False\<rparr>)]"

definition demo_world :: "UCIStore TxWorld" where
  "demo_world = \<lparr>tx_store = \<lparr>su_live = (\<lambda>p. if p = ''w'' then Some [\<lparr>ss_Name = ''r'', ss_Type = ''d'', ss_options = demo_options\<rparr>] else None),
     su_staged = (\<lambda>_. None), su_pending = (\<lambda>_. [])\<rparr>, tx_journal = NoFile, tx_backup = NoFile\<rparr>"

definition demo_key :: "string \<Rightarrow> string \<Rightarrow> UciKey" where
  "demo_key s opt = \<lparr>uk_Section = s, uk_Option = opt\<rparr>"

definition demo_set :: "UciKey \<Rightarrow> string \<Rightarrow> UciChange" where
  "demo_set k v = \<lparr>uc_Key = k, uc_Text = v, uc_IsList = False, uc_Delete = False\<rparr>"

definition demo_plan :: TxPlan where
  "demo_plan = \<lparr>tp_TaskID = ''t'', tp_Package = ''w'', tp_Changes = [demo_set (demo_key ''c'' []) ''i'',
     demo_set (demo_key ''c'' ''id'') ''net'', demo_set (demo_key ''r'' ''ch'') ''11''], tp_ConfigRevision = 1,
     tp_ConfirmWithin = 0\<rparr>"

definition demo_begun :: "UCIStore TxWorld" where
  "demo_begun = fst (Begin fine_env (uci_ops demo_tool) demo_plan demo_world)"

definition demo_journal :: Journal where
  "demo_journal = projr (snd (Begin fine_env (uci_ops demo_tool) demo_plan demo_world))"

definition demo_applied :: "UCIStore TxWorld \<times> Journal \<times> gerror option" where
  "demo_applied = Apply fine_env (uci_ops demo_tool) (tp_Changes demo_plan) demo_journal demo_begun"

lemma demo_begin_ok: "\<not> isl (snd (Begin fine_env (uci_ops demo_tool) demo_plan demo_world))"
  by code_simp

lemma demo_begin: "Begin fine_env (uci_ops (te_tool fine_env)) demo_plan demo_world = (demo_begun, Inr demo_journal)"
  using demo_begin_ok by (simp add: demo_begun_def demo_journal_def demo_env_def)

lemma demo_applied_ok: "snd (snd demo_applied) = None"
  by code_simp

lemma tx_env_simps [simp]:
  "te_tool (demo_env f) = demo_tool" "te_fault (demo_env f) = f" "te_Sum256 (demo_env f) = id"
  by (simp_all add: demo_env_def)

lemma demo_batch: "uci_batch demo_tool"
  unfolding demo_tool_def by (rule reference.uci_batch_axioms)

lemma demo_device: "same_device (demo_env f) (demo_env g)"
  by (simp add: same_device_def demo_batch)

lemma demo_inj: "inj_on (Hash (demo_env f) j) X"
  by (rule inj_onI) (auto simp: Hash_def dest!: hex.enc_inj [rotated 2])

lemma demo_apart: "apart (demo_env f) j changes before now" "collision_free (demo_env f) j changes before"
  unfolding apart_def collision_free_def using demo_inj by blast+

lemma demo_tidy: "store_tidy (tx_store demo_world)"
  by (simp add: store_tidy_def demo_world_def tidy_def demo_options_def)

lemma demo_step:
  "tx_step fine_env (tp_Changes demo_plan) (demo_begun, Some demo_journal) (fst demo_applied, Some (fst (snd demo_applied)))"
  by (rule tx_apply [OF demo_device [of _ "\<lambda>_. FileFine"], of _ _ _ _ _ "snd (snd demo_applied)"]) (simp add: demo_applied_def)

lemma demo_applied_tidy: "store_tidy (tx_store (fst demo_applied))"
proof -
  obtain b where "undoable fine_env (tp_Changes demo_plan) (live_config fine_env (jn_Package demo_journal) demo_world) b demo_journal"
    "run_inv fine_env (\<lambda>q. live_config fine_env q demo_world) (tp_Changes demo_plan) b demo_journal (demo_begun, Some demo_journal)"
    using Begin_run [OF demo_begin _ demo_tidy] demo_batch by auto
  from run_step [OF this(2) demo_step this(1) demo_apart(2)] show ?thesis by (simp add: run_inv_def tx_inv_def Let_def)
qed

definition demo_recovered :: "(FileOp \<Rightarrow> FileFault) \<Rightarrow> UCIStore TxWorld \<Rightarrow> UCIStore TxWorld \<times> TxOutcome \<times> bool \<times> gerror option" where
  "demo_recovered fault w = Recover (demo_env fault) (uci_ops demo_tool) 1 w"

lemma demo_recovered_back:
  "to_Phase (fst (snd (demo_recovered (\<lambda>_. FileFine) (fst demo_applied)))) = Some PhaseRolledBack"
  "snd (snd (snd (demo_recovered (\<lambda>_. FileFine) (fst demo_applied)))) = None"
  by code_simp+


text \<open>Somebody renames the network and puts an option of their own into the new section.\<close>

definition edited_world :: "UCIStore TxWorld" where
  "edited_world = (let w = fst demo_applied in w\<lparr>tx_store := (tx_store w)\<lparr>su_live := (su_live (tx_store w))(''w'' :=
     Some [\<lparr>ss_Name = ''r'', ss_Type = ''d'', ss_options = [(''ch'', \<lparr>ux_Text = ''11'', ux_List = [], ux_IsList = False\<rparr>)]\<rparr>,
           \<lparr>ss_Name = ''c'', ss_Type = ''i'', ss_options = [(''id'', \<lparr>ux_Text = ''new'', ux_List = [], ux_IsList = False\<rparr>),
              (''own'', \<lparr>ux_Text = ''x'', ux_List = [], ux_IsList = False\<rparr>)]\<rparr>])\<rparr>\<rparr>)"

definition edited_undone :: "UCIStore TxWorld \<times> TxOutcome \<times> gerror option" where
  "edited_undone = rollback fine_env (uci_ops demo_tool) (demo_journal\<lparr>jn_Phase := PhaseApplied\<rparr>) edited_world"

lemma edited_values:
  "to_Phase (fst (snd edited_undone)) = Some PhaseRecoveryRequired"
  "to_Conflicts (fst (snd edited_undone)) = [demo_key ''c'' [], demo_key ''c'' ''id'']"
  "uv_Text (live_config fine_env ''w'' demo_world (demo_key ''r'' ''ch'')) = ''6''"
  "uv_Text (live_config fine_env ''w'' edited_world (demo_key ''c'' ''own'')) = ''x''"
  by code_simp+

lemma edited_backup: "tx_backup edited_world = tx_backup demo_begun"
  by code_simp

lemma edited_tidy: "store_tidy (tx_store edited_world)"
  using demo_applied_tidy by (auto simp: edited_world_def Let_def store_tidy_def tidy_def)

lemma foreign_edits_survive_undo_witness:
  "uv_Text (live_config fine_env ''w'' (fst edited_undone) (demo_key ''r'' ''ch'')) = ''6'' \<and>
   uv_Text (live_config fine_env ''w'' (fst edited_undone) (demo_key ''c'' ''own'')) = ''x''"
proof -
  obtain w' out e where res: "edited_undone = (w', out, e)" by (metis prod_cases3)
  have pkg: "tp_Package demo_plan = ''w''" by (simp add: demo_plan_def)
  have "live_config fine_env ''w'' w' = undone (tp_Changes demo_plan) (live_config fine_env ''w'' demo_world) (to_Conflicts out)
      (live_config fine_env ''w'' edited_world)"
    using foreign_edits_survive_undo [OF demo_begin _ demo_device [of _ "\<lambda>_. FileFine"] edited_backup, of PhaseApplied w' out e]
      demo_batch demo_apart demo_tidy edited_tidy res edited_values(1)
    by (auto simp: Let_def pkg edited_undone_def)
  then show ?thesis using edited_values by (simp add: res undone_def demo_plan_def demo_set_def demo_key_def)
qed

definition demo_confirmed :: "UCIStore TxWorld \<times> Journal \<times> gerror option" where
  "demo_confirmed = Confirm fine_env (fst (snd demo_applied)) (fst demo_applied)"

lemma demo_confirmed_values:
  "snd (snd demo_confirmed) = None" "jn_Version (fst (snd demo_applied)) = JournalVersion"
  "jn_Phase (fst (snd demo_applied)) = PhaseApplied"
  by code_simp+

lemma confirmed_change_stays_witness:
  "recover_all [(fine_env, 1), (fine_env, 7)] (uci_ops demo_tool) (fst demo_confirmed) = fst demo_confirmed \<and>
   tx_store (fst demo_confirmed) = tx_store (fst demo_applied)"
proof -
  obtain w' j' e where res: "demo_confirmed = (w', j', e)" by (metis prod_cases3)
  note stays = confirmed_change_stays [OF res [unfolded demo_confirmed_def] demo_confirmed_values(2)]
  have "recover_all runs st w' = w' \<and> tx_store (recover_all runs st w') = tx_store (fst demo_applied)" for runs and st :: "UCIStore StoreOps"
    using stays [of runs st] demo_confirmed_values(1,3) unfolding res by (metis fst_conv snd_conv)
  from this [of "[(fine_env, 1), (fine_env, 7)]" "uci_ops demo_tool"] show ?thesis unfolding res fst_conv by metis
qed

definition keep_journal :: "FileOp \<Rightarrow> FileFault" where
  "keep_journal op = (if op = RemoveJournal then FileRefused else FileFine)"

lemma demo_interrupted:
  "to_Phase (fst (snd (demo_recovered keep_journal (fst demo_applied)))) = Some PhaseRolledBack"
  "(case tx_journal (fst demo_applied) of Stored j \<Rightarrow> jn_Phase j = PhaseApplied \<and> jn_ConfigRevision j = 1 | _ \<Rightarrow> False)"
  "plan_problem fine_env demo_plan = None"
  by code_simp+

lemma interrupted_cleanup_blocks_witness:
  "to_Phase (fst (snd (demo_recovered keep_journal (fst demo_applied)))) = Some PhaseRolledBack \<and>
   to_Phase (fst (snd (demo_recovered (\<lambda>_. FileFine) (fst (demo_recovered keep_journal (fst demo_applied)))))) =
     Some PhaseRecoveryRequired"
proof -
  obtain w' out present e where res: "demo_recovered keep_journal (fst demo_applied) = (w', out, present, e)" by (metis prod_cases4)
  obtain j where j: "tx_journal (fst demo_applied) = Stored j" "jn_Phase j = PhaseApplied" "jn_ConfigRevision j = 1"
    using demo_interrupted(2) by (auto split: File.splits)
  obtain w2 out2 present2 e2 where res2: "demo_recovered (\<lambda>_. FileFine) w' = (w2, out2, present2, e2)" by (metis prod_cases4)
  have "to_Phase out = Some PhaseRolledBack" using demo_interrupted(1) by (simp add: res)
  from interrupted_cleanup_blocks [OF res [unfolded demo_recovered_def] this j(1,2) _ _ _ demo_interrupted(3)]
  have "to_Phase out2 = Some PhaseRecoveryRequired"
    unfolding j(3) res2 [unfolded demo_recovered_def] by (simp add: keep_journal_def)
  then show ?thesis using demo_interrupted(1) unfolding res res2 fst_conv snd_conv by simp
qed

end
