(* ===== verification/Uci_Parse.thy ===== *)
theory Uci_Parse
  imports Uci_Store
begin

text \<open>
  Reading what \<open>uci\<close> prints: \<open>openwrt/uci.go\<close> and \<open>openwrt/uci_export.go\<close>. A position in the text is
  modelled by the text from there on. The scanner of one value is total by its shape; the three loops over
  records, whose step is decided by what the scanner left, are \<open>partial_function\<close>s, so that \<^const>\<open>None\<close>
  would mean that they never return.
\<close>

subsection \<open>Scanning a value\<close>

definition cut_at :: "char \<Rightarrow> string \<Rightarrow> (string \<times> string) option" where
  "cut_at c s = (if c \<in> set s then Some (takeWhile ((\<noteq>) c) s, tl (dropWhile ((\<noteq>) c) s)) else None)"

lemma cut_at_shorter: "cut_at c s = Some (a, b) \<Longrightarrow> length b < length s"
  by (induction s arbitrary: a b) (auto simp: cut_at_def split: if_splits)

definition flush :: "string list \<Rightarrow> string \<Rightarrow> bool \<Rightarrow> string list" where
  "flush items current started = (if started then items @ [current] else items)"

function scanValue :: "string list \<Rightarrow> string \<Rightarrow> bool \<Rightarrow> string \<Rightarrow> gerror + string list \<times> string" where
  "scanValue items current started [] = Inr (flush items current started, [])"
| "scanValue items current started (symbol # rest) =
     (if symbol = CHR 0x0A then Inr (flush items current started, rest)
      else if symbol = CHR '' '' \<or> symbol = CHR 0x09 then scanValue (flush items current started) [] False rest
      else if symbol = CHR 0x27 then
        (case cut_at (CHR 0x27) rest of
           None \<Rightarrow> Inl (Errorf CodeInternal)
         | Some (quoted, rest) \<Rightarrow> scanValue items (current @ quoted) True rest)
      else if symbol = CHR 0x5C then
        (case rest of
           [] \<Rightarrow> Inl (Errorf CodeInternal)
         | escaped # rest \<Rightarrow> scanValue items (current @ [escaped]) True rest)
      else scanValue items (current @ [symbol]) True rest)"
  by pat_completeness auto

termination
  by (relation "measure (\<lambda>(_, _, _, text). length text)") (auto dest: cut_at_shorter)

definition scan_value :: "string \<Rightarrow> gerror + string list \<times> string" where
  "scan_value text = scanValue [] [] False text"

text \<open>The key of an assignment must end on its own line.\<close>

definition line_of :: "string \<Rightarrow> string" where
  "line_of text = takeWhile ((\<noteq>) (CHR 0x0A)) text"

definition scanRecord :: "string \<Rightarrow> gerror + string \<times> string list \<times> string" where
  "scanRecord text =
     (case cut_at (CHR ''='') (line_of text) of
        None \<Rightarrow> Inl (Errorf CodeInternal)
      | Some (key, _) \<Rightarrow>
          (case scan_value (drop (length key + 1) text) of
             Inl err \<Rightarrow> Inl err
           | Inr (items, rest) \<Rightarrow> Inr (key, items, rest)))"

subsection \<open>Building the package\<close>

definition empty_section :: "string \<Rightarrow> UCISection" where
  "empty_section name = \<lparr>ss_Name = name, ss_Type = [], ss_options = []\<rparr>"

definition ensure :: "string \<Rightarrow> UCIConfig \<Rightarrow> UCIConfig" where
  "ensure name c = (if Section c name = None then c @ [empty_section name] else c)"

fun edit_first :: "string \<Rightarrow> (UCISection \<Rightarrow> UCISection) \<Rightarrow> UCIConfig \<Rightarrow> UCIConfig" where
  "edit_first name f [] = []"
| "edit_first name f (s # c) = (if ss_Name s = name then f s # c else s # edit_first name f c)"

definition at_section :: "string \<Rightarrow> (UCISection \<Rightarrow> UCISection) \<Rightarrow> UCIConfig \<Rightarrow> UCIConfig" where
  "at_section name f c = edit_first name f (ensure name c)"

definition put_option :: "string \<Rightarrow> UCIOption \<Rightarrow> UCISection \<Rightarrow> UCISection" where
  "put_option name v s = s\<lparr>ss_options := AList.update name v (ss_options s)\<rparr>"

definition plain :: "string \<Rightarrow> UCIOption" where
  "plain text = \<lparr>ux_Text = text, ux_List = [], ux_IsList = False\<rparr>"

definition items_option :: "string list \<Rightarrow> UCIOption" where
  "items_option items =
     (if length items > 1 then \<lparr>ux_Text = [], ux_List = items, ux_IsList = True\<rparr>
      else case items of [] \<Rightarrow> plain [] | item # _ \<Rightarrow> plain item)"

definition apply_assignment :: "string \<Rightarrow> string \<Rightarrow> string list \<Rightarrow> UCIConfig \<Rightarrow> gerror + UCIConfig" where
  "apply_assignment pkg key items c =
     (case cut_at (CHR ''.'') key of
        None \<Rightarrow> Inl (Errorf CodeInternal)
      | Some (head, rest) \<Rightarrow>
          if head \<noteq> pkg then Inl (Errorf CodeInternal)
          else
            let (name, option) = (case cut_at (CHR ''.'') rest of None \<Rightarrow> (rest, None) | Some (a, b) \<Rightarrow> (a, Some b)) in
            if name = [] then Inl (Errorf CodeInternal)
            else case option of
              None \<Rightarrow> Inr (at_section name (\<lambda>s. s\<lparr>ss_Type := (case items of [] \<Rightarrow> [] | item # _ \<Rightarrow> item)\<rparr>) c)
            | Some option \<Rightarrow> Inr (at_section name (put_option option (items_option items)) c))"

definition isAnonymousSectionName :: "string \<Rightarrow> bool" where
  "isAnonymousSectionName name =
     (if prefix ''@'' name \<and> suffix '']'' name then True
      else case CutPrefix name ''cfg'' of
        None \<Rightarrow> False
      | Some rest \<Rightarrow> rest \<noteq> [] \<and> list_all (\<lambda>c. let n = of_char c :: nat in
          (48 \<le> n \<and> n \<le> 57) \<or> (97 \<le> n \<and> n \<le> 102) \<or> (65 \<le> n \<and> n \<le> 70)) rest)"

definition UCISection_Get :: "UCISection \<Rightarrow> string \<Rightarrow> string" where
  "UCISection_Get s option =
     (case UCISection_Lookup s option of
        None \<Rightarrow> []
      | Some v \<Rightarrow> if ux_IsList v then (case ux_List v of [] \<Rightarrow> [] | item # _ \<Rightarrow> item) else ux_Text v)"

definition SectionsOfType :: "UCIConfig \<Rightarrow> string \<Rightarrow> UCISection list" where
  "SectionsOfType c sectionType = filter (\<lambda>s. ss_Type s = sectionType) c"

subsection \<open>The loops over records\<close>

text \<open>\<open>ParseUCIShow\<close> reads assignments until only white space is left.\<close>

partial_function (option) show_loop :: "string \<Rightarrow> string \<Rightarrow> UCIConfig \<Rightarrow> (gerror + UCIConfig) option" where
  "show_loop pkg text c =
     (case text of
        [] \<Rightarrow> Some (Inr c)
      | symbol # rest \<Rightarrow>
          if symbol = CHR 0x0A then show_loop pkg rest c
          else if TrimSpace text = [] then Some (Inr c)
          else (case scanRecord text of
                  Inl err \<Rightarrow> Some (Inl err)
                | Inr record \<Rightarrow>
                    (case apply_assignment pkg (fst record) (fst (snd record)) c of
                       Inl err \<Rightarrow> Some (Inl err)
                     | Inr c \<Rightarrow> show_loop pkg (snd (snd record)) c)))"

definition ParseUCIShow :: "string \<Rightarrow> string \<Rightarrow> (gerror + UCIConfig) option" where
  "ParseUCIShow pkg data = show_loop pkg data []"

datatype UCIChangeKind = UCIChangeSet | UCIChangeDelete | UCIChangeAppend

record UCIPending =
  up_Kind :: UCIChangeKind
  up_Key :: string
  up_Value :: string

definition CutSuffix :: "string \<Rightarrow> string \<Rightarrow> string option" where
  "CutSuffix s p = (if suffix p s then Some (take (length s - length p) s) else None)"

definition deletion_of :: "string \<Rightarrow> gerror + UCIPending" where
  "deletion_of line =
     (case CutPrefix (TrimSpace line) ''-'' of
        None \<Rightarrow> Inl (Errorf CodeInternal)
      | Some name \<Rightarrow> if name = [] then Inl (Errorf CodeInternal)
          else Inr \<lparr>up_Kind = UCIChangeDelete, up_Key = name, up_Value = []\<rparr>)"

definition pending_of :: "string \<Rightarrow> string list \<Rightarrow> gerror + UCIPending" where
  "pending_of key items =
     (let key = TrimSpace key;
          (kind, key) = (case CutSuffix key ''+'' of None \<Rightarrow> (UCIChangeSet, key) | Some trimmed \<Rightarrow> (UCIChangeAppend, trimmed)) in
      if key = [] then Inl (Errorf CodeInternal)
      else Inr \<lparr>up_Kind = kind, up_Key = key, up_Value = (case items of [] \<Rightarrow> [] | item # _ \<Rightarrow> item)\<rparr>)"

text \<open>One record of \<open>uci changes\<close>: the change and the text after it.\<close>

definition scan_pending :: "string \<Rightarrow> gerror + UCIPending \<times> string" where
  "scan_pending text =
     (if CHR ''='' \<notin> set (line_of text)
      then (case deletion_of (line_of text) of
              Inl err \<Rightarrow> Inl err | Inr change \<Rightarrow> Inr (change, drop (length (line_of text) + 1) text))
      else (case scanRecord text of
              Inl err \<Rightarrow> Inl err
            | Inr (key, items, rest) \<Rightarrow>
                (case pending_of key items of Inl err \<Rightarrow> Inl err | Inr change \<Rightarrow> Inr (change, rest))))"

partial_function (option) changes_loop :: "string \<Rightarrow> UCIPending list \<Rightarrow> (gerror + UCIPending list) option" where
  "changes_loop text changes =
     (case text of
        [] \<Rightarrow> Some (Inr changes)
      | symbol # rest \<Rightarrow>
          if symbol = CHR 0x0A then changes_loop rest changes
          else if TrimSpace text = [] then Some (Inr changes)
          else (case scan_pending text of
                  Inl err \<Rightarrow> Some (Inl err)
                | Inr found \<Rightarrow> changes_loop (snd found) (changes @ [fst found])))"

definition ParseUCIChanges :: "string \<Rightarrow> (gerror + UCIPending list) option" where
  "ParseUCIChanges data = changes_loop data []"

record ExportState =
  es_config :: UCIConfig
  es_section :: string
  es_seenPackage :: bool

definition export_option :: "bool \<Rightarrow> string \<Rightarrow> string \<Rightarrow> ExportState \<Rightarrow> gerror + ExportState" where
  "export_option is_list name text st =
     (let section = es_section st;
          previous = (case Section (es_config st) section of None \<Rightarrow> None | Some s \<Rightarrow> UCISection_Lookup s name);
          put = (\<lambda>v. st\<lparr>es_config := at_section section (put_option name v) (es_config st)\<rparr>) in
      if \<not> is_list then
        (if previous \<noteq> None then Inl (Errorf CodeInternal)
         else if text = [] then Inr st
         else Inr (put (plain text)))
      else (case previous of
              None \<Rightarrow> Inr (put \<lparr>ux_Text = [], ux_List = [text], ux_IsList = True\<rparr>)
            | Some v \<Rightarrow> if \<not> ux_IsList v then Inl (Errorf CodeInternal)
                else Inr (put (v\<lparr>ux_List := ux_List v @ [text]\<rparr>))))"

definition export_package :: "string \<Rightarrow> string list \<Rightarrow> ExportState \<Rightarrow> gerror + ExportState" where
  "export_package pkg args st =
     (if es_seenPackage st \<or> args \<noteq> [pkg] then Inl (Errorf CodeInternal) else Inr (st\<lparr>es_seenPackage := True\<rparr>))"

definition export_config :: "string list \<Rightarrow> ExportState \<Rightarrow> gerror + ExportState" where
  "export_config args st =
     (case args of
        [sectionType, name] \<Rightarrow>
          if \<not> es_seenPackage st \<or> sectionType = [] \<or> \<not> IsLogicalInterfaceName name \<or> Section (es_config st) name \<noteq> None
          then Inl (Errorf CodeInternal)
          else Inr (st\<lparr>es_section := name,
                 es_config := at_section name (\<lambda>s. s\<lparr>ss_Type := sectionType\<rparr>) (es_config st)\<rparr>)
      | _ \<Rightarrow> Inl (Errorf CodeInternal))"

definition export_value :: "bool \<Rightarrow> string list \<Rightarrow> ExportState \<Rightarrow> gerror + ExportState" where
  "export_value is_list args st =
     (case args of
        [name, text] \<Rightarrow>
          if es_section st = [] \<or> \<not> IsLogicalInterfaceName name then Inl (Errorf CodeInternal)
          else export_option is_list name text st
      | _ \<Rightarrow> Inl (Errorf CodeInternal))"

definition export_step :: "string \<Rightarrow> string list \<Rightarrow> ExportState \<Rightarrow> gerror + ExportState" where
  "export_step pkg words st =
     (case words of
        [] \<Rightarrow> Inr st
      | w # args \<Rightarrow>
          if w = ''package'' then export_package pkg args st
          else if w = ''config'' then export_config args st
          else if w = ''option'' then export_value False args st
          else if w = ''list'' then export_value True args st
          else Inl (Errorf CodeInternal))"

partial_function (option) export_loop :: "string \<Rightarrow> string \<Rightarrow> ExportState \<Rightarrow> (gerror + ExportState) option" where
  "export_loop pkg text st =
     (if text = [] then Some (Inr st)
      else (case scan_value text of
              Inl err \<Rightarrow> Some (Inl err)
            | Inr found \<Rightarrow>
                (case export_step pkg (fst found) st of
                   Inl err \<Rightarrow> Some (Inl err)
                 | Inr st \<Rightarrow> export_loop pkg (snd found) st)))"

definition export_start :: ExportState where
  "export_start = \<lparr>es_config = [], es_section = [], es_seenPackage = False\<rparr>"

definition ParseUCIExport :: "string \<Rightarrow> string \<Rightarrow> (gerror + UCIConfig) option" where
  "ParseUCIExport pkg data =
     (case export_loop pkg data export_start of
        None \<Rightarrow> None
      | Some (Inl err) \<Rightarrow> Some (Inl err)
      | Some (Inr st) \<Rightarrow>
          if \<not> es_seenPackage st \<or> CHR 0x00 \<in> set data then Some (Inl (Errorf CodeInternal))
          else Some (Inr (es_config st)))"

end
