(* ===== verification/Uci_Parse_Props.thy ===== *)
theory Uci_Parse_Props
  imports Uci_Parse Wireless_Laws
begin

text \<open>
  The readers of \<open>uci\<close> output always return, what the export reader accepts is well formed, and no value
  can be mistaken for another option: printing a package in the format of \<open>uci -n export\<close>, with every
  value quoted the way \<open>quoteBatch\<close> quotes, and reading it gives the package back.
\<close>

subsection \<open>Progress\<close>

lemma scanValue_shorter:
  "scanValue items current started t = Inr (found, rest) \<Longrightarrow>
   length rest \<le> length t \<and> (t \<noteq> [] \<longrightarrow> length rest < length t)"
proof (induction items current started t rule: scanValue.induct)
  case (2 items current started symbol t)
  then show ?case
    by (auto split: if_splits option.splits list.splits dest!: cut_at_shorter) force+
qed simp

lemma scan_value_shorter: "scan_value t = Inr (found, rest) \<Longrightarrow> t \<noteq> [] \<Longrightarrow> length rest < length t"
  using scanValue_shorter by (auto simp: scan_value_def)

lemma scanRecord_shorter: "scanRecord t = Inr (key, items, rest) \<Longrightarrow> length rest < length t"
proof -
  assume "scanRecord t = Inr (key, items, rest)"
  then obtain v where cut: "cut_at (CHR ''='') (line_of t) = Some (key, v)"
    and scan: "scan_value (drop (length key + 1) t) = Inr (items, rest)"
    by (auto simp: scanRecord_def split: option.splits sum.splits)
  have "t \<noteq> []" using cut by (auto simp: cut_at_def line_of_def split: if_splits)
  moreover have "length rest \<le> length (drop (length key + 1) t)"
    using scanValue_shorter [OF scan [unfolded scan_value_def]] by blast
  ultimately show ?thesis by (cases t) auto
qed

lemma scan_pending_shorter: "scan_pending t = Inr (change, rest) \<Longrightarrow> t \<noteq> [] \<Longrightarrow> length rest < length t"
  by (cases t) (auto simp: scan_pending_def split: if_splits sum.splits dest!: scanRecord_shorter)

lemma show_loop_returns: "\<exists>r. show_loop pkg t c = Some r"
proof (induction "length t" arbitrary: t c rule: less_induct)
  case less
  show ?case
    by (subst show_loop.simps) (auto split: list.split sum.split intro: less dest: scanRecord_shorter)
qed

lemma changes_loop_returns: "\<exists>r. changes_loop t found = Some r"
proof (induction "length t" arbitrary: t found rule: less_induct)
  case less
  show ?case
    by (subst changes_loop.simps) (auto split: list.split sum.split intro: less dest: scan_pending_shorter)
qed

lemma export_loop_returns: "\<exists>r. export_loop pkg t st = Some r"
proof (induction "length t" arbitrary: t st rule: less_induct)
  case less
  show ?case
    by (subst export_loop.simps) (auto split: sum.split intro: less dest: scan_value_shorter)
qed

text \<open>
  C22: the readers of \<open>uci\<close> output return for every input: each step of the three loops leaves strictly
  less t, whatever the t contains, unclosed quotes and trailing backslashes included.
\<close>

theorem uci_readers_return:
  "(\<exists>r. ParseUCIShow pkg data = Some r) \<and> (\<exists>r. ParseUCIExport pkg data = Some r) \<and> (\<exists>r. ParseUCIChanges data = Some r)"
proof -
  obtain r where "export_loop pkg data export_start = Some r" using export_loop_returns by blast
  then have "\<exists>r. ParseUCIExport pkg data = Some r" by (cases r) (simp_all add: ParseUCIExport_def)
  then show ?thesis using show_loop_returns changes_loop_returns by (simp add: ParseUCIShow_def ParseUCIChanges_def)
qed

subsection \<open>What the export reader accepts\<close>

definition option_ok :: "string \<times> UCIOption \<Rightarrow> bool" where
  "option_ok = (\<lambda>(name, v). IsLogicalInterfaceName name \<and>
     (if ux_IsList v then ux_List v \<noteq> [] \<and> ux_Text v = [] else ux_List v = [] \<and> ux_Text v \<noteq> []))"

definition section_ok :: "UCISection \<Rightarrow> bool" where
  "section_ok s \<longleftrightarrow> IsLogicalInterfaceName (ss_Name s) \<and> ss_Type s \<noteq> [] \<and>
     distinct (map fst (ss_options s)) \<and> list_all option_ok (ss_options s)"

definition package_ok :: "UCIConfig \<Rightarrow> bool" where
  "package_ok c \<longleftrightarrow> distinct (map ss_Name c) \<and> list_all section_ok c"

lemma Section_None: "Section c name = None \<longleftrightarrow> name \<notin> ss_Name ` set c"
  by (auto simp: Section_def find_None_iff)

lemma Section_Some: "Section c name = Some s \<Longrightarrow> s \<in> set c \<and> ss_Name s = name"
  by (auto simp: Section_def find_Some_iff)

lemma edit_first_names: "(\<And>s. ss_Name (f s) = ss_Name s) \<Longrightarrow> map ss_Name (edit_first name f c) = map ss_Name c"
  by (induction c) auto

lemma edit_first_all:
  "list_all P c \<Longrightarrow> (\<And>s. s \<in> set c \<Longrightarrow> ss_Name s = name \<Longrightarrow> P s \<Longrightarrow> P (f s)) \<Longrightarrow> list_all P (edit_first name f c)"
  by (induction c) auto

lemma ensure_present: "name \<in> ss_Name ` set c \<Longrightarrow> ensure name c = c"
  by (simp add: ensure_def Section_None)

lemma all_update: "list_all P al \<Longrightarrow> P (k, v) \<Longrightarrow> list_all P (AList.update k v al)"
  by (induction al) auto

lemma put_option_ok: "section_ok s \<Longrightarrow> option_ok (name, v) \<Longrightarrow> section_ok (put_option name v s)"
  by (simp add: section_ok_def put_option_def distinct_update all_update)

definition export_ok :: "ExportState \<Rightarrow> bool" where
  "export_ok st \<longleftrightarrow> package_ok (es_config st) \<and> (es_section st \<noteq> [] \<longrightarrow> es_section st \<in> ss_Name ` set (es_config st))"

lemma at_section_put_ok:
  assumes "package_ok c" and "name \<in> ss_Name ` set c" and "option_ok (n, v)"
  shows "package_ok (at_section name (put_option n v) c)" and "ss_Name ` set (at_section name (put_option n v) c) = ss_Name ` set c"
proof -
  have names: "map ss_Name (at_section name (put_option n v) c) = map ss_Name c"
    using assms(2) by (simp add: at_section_def ensure_present edit_first_names put_option_def)
  then show "package_ok (at_section name (put_option n v) c)"
    using assms put_option_ok by (auto simp: package_ok_def at_section_def ensure_present intro!: edit_first_all)
  show "ss_Name ` set (at_section name (put_option n v) c) = ss_Name ` set c"
    using arg_cong [OF names, of set] by simp
qed

lemma export_option_ok:
  assumes "export_ok st" and "export_option is_list name t st = Inr st'" and "es_section st \<noteq> []" and "IsLogicalInterfaceName name"
  shows "export_ok st'"
proof -
  have sec: "es_section st \<in> ss_Name ` set (es_config st)" and ok: "package_ok (es_config st)" using assms by (simp_all add: export_ok_def)
  have put: "export_ok (st\<lparr>es_config := at_section (es_section st) (put_option name v) (es_config st)\<rparr>)" if "option_ok (name, v)" for v
    using at_section_put_ok [OF ok sec that] sec by (simp add: export_ok_def)
  have found: "ux_List v \<noteq> [] \<and> ux_Text v = []"
    if "Section (es_config st) (es_section st) = Some s" "UCISection_Lookup s name = Some v" "ux_IsList v" for s v
  proof -
    have "section_ok s" using ok Section_Some [OF that(1)] by (simp add: package_ok_def list_all_iff)
    moreover have "(name, v) \<in> set (ss_options s)" using that(2) by (simp add: UCISection_Lookup_def map_of_SomeD)
    ultimately have "option_ok (name, v)" by (simp add: section_ok_def list_all_iff)
    then show ?thesis using that(3) by (simp add: option_ok_def)
  qed
  show ?thesis
  proof (cases "is_list")
    case False
    then show ?thesis using assms(2) put [of "plain t"] assms(1,4)
      by (simp add: export_option_def Let_def option_ok_def plain_def split: if_splits)
  next
    case True
    obtain s where s: "Section (es_config st) (es_section st) = Some s"
      using sec Section_None [of "es_config st" "es_section st"] by blast
    show ?thesis
    proof (cases "UCISection_Lookup s name")
      case None
      then show ?thesis using assms(2,4) put [of "\<lparr>ux_Text = [], ux_List = [t], ux_IsList = True\<rparr>"] True s
        by (simp add: export_option_def Let_def option_ok_def)
    next
      case (Some v)
      then have "ux_IsList v" and st': "st' = st\<lparr>es_config := at_section (es_section st) (put_option name (v\<lparr>ux_List := ux_List v @ [t]\<rparr>)) (es_config st)\<rparr>"
        using assms(2) True s by (simp_all add: export_option_def Let_def split: if_splits)
      with found [OF s Some] show ?thesis unfolding st' using assms(4) by (intro put) (simp add: option_ok_def)
    qed
  qed
qed

lemma export_config_ok:
  assumes "package_ok c" and "Section c name = None" and "IsLogicalInterfaceName name" and "t \<noteq> []"
  shows "at_section name (\<lambda>s. s\<lparr>ss_Type := t\<rparr>) c = c @ [\<lparr>ss_Name = name, ss_Type = t, ss_options = []\<rparr>]"
proof -
  have "edit_first name f (c @ [empty_section name]) = c @ [f (empty_section name)]" if "name \<notin> ss_Name ` set c" for f
    using that by (induction c) (auto simp: empty_section_def)
  then show ?thesis using assms(2) by (simp add: at_section_def ensure_def Section_None) (simp add: empty_section_def)
qed

lemma export_package_ok: "export_ok st \<Longrightarrow> export_package pkg args st = Inr st' \<Longrightarrow> export_ok st'"
  by (auto simp: export_package_def export_ok_def split: if_splits)

lemma export_section_ok:
  assumes "export_ok st" and "export_config args st = Inr st'"
  shows "export_ok st'"
proof -
  obtain t name where "Section (es_config st) name = None" "IsLogicalInterfaceName name" "t \<noteq> []"
      "st' = st\<lparr>es_section := name, es_config := at_section name (\<lambda>s. s\<lparr>ss_Type := t\<rparr>) (es_config st)\<rparr>"
    using assms(2) by (auto simp: export_config_def split: list.splits if_splits)
  then show ?thesis using assms(1) export_config_ok [of "es_config st" name t]
    by (auto simp: export_ok_def package_ok_def section_ok_def Section_None)
qed

lemma export_value_ok:
  assumes "export_ok st" and "export_value is_list args st = Inr st'"
  shows "export_ok st'"
proof -
  obtain name t where "es_section st \<noteq> []" "IsLogicalInterfaceName name" "export_option is_list name t st = Inr st'"
    using assms(2) by (auto simp: export_value_def split: list.splits if_splits)
  then show ?thesis using export_option_ok assms(1) by blast
qed

lemma export_step_ok: "export_ok st \<Longrightarrow> export_step pkg words st = Inr st' \<Longrightarrow> export_ok st'"
  by (cases words)
    (auto simp: export_step_def split: if_split_asm intro: export_package_ok export_section_ok export_value_ok)

lemma export_loop_ok: "export_loop pkg t st = Some (Inr st') \<Longrightarrow> export_ok st \<Longrightarrow> export_ok st'"
proof (induction "length t" arbitrary: t st rule: less_induct)
  case less
  show ?case
  proof (cases "t = []")
    case True
    with less.prems show ?thesis by (simp add: export_loop.simps)
  next
    case False
    with less.prems obtain words rest st1 where "scan_value t = Inr (words, rest)" "export_step pkg words st = Inr st1"
      and "export_loop pkg rest st1 = Some (Inr st')"
      by (subst (asm) export_loop.simps) (auto split: sum.splits)
    with less False show ?thesis using scan_value_shorter export_step_ok by blast
  qed
qed

lemma package_ok_tidy: "package_ok c \<Longrightarrow> tidy c"
proof -
  have "list_all (\<lambda>(name, v). name \<noteq> [] \<and> (ux_IsList v \<or> ux_Text v \<noteq> [])) (ss_options s)" if "section_ok s" for s
    using that by (auto simp: section_ok_def option_ok_def IsLogicalInterfaceName_def list_all_iff split: if_splits)
  moreover assume "package_ok c"
  ultimately show "tidy c" unfolding package_ok_def tidy_def list_all_iff [of section_ok]
    by (simp add: list_all_iff [of _ c])
qed

lemma scanValue_error: "scanValue items current started t = Inl err \<Longrightarrow> e_code err = CodeInternal"
proof (induction items current started t rule: scanValue.induct)
  case (2 items current started symbol t)
  then show ?case
    by (cases "cut_at CHR 0x27 t"; cases t) (auto split: if_split_asm prod.splits)
qed simp

lemma export_option_error: "export_option is_list name t st = Inl err \<Longrightarrow> e_code err = CodeInternal"
  by (auto simp: export_option_def Let_def split: if_splits option.splits)

lemma export_step_error: "export_step pkg words st = Inl err \<Longrightarrow> e_code err = CodeInternal"
  using export_option_error
  by (cases words)
    (auto simp: export_step_def export_package_def export_config_def export_value_def split: if_split_asm list.split_asm)

lemma export_loop_error: "export_loop pkg t st = Some (Inl err) \<Longrightarrow> e_code err = CodeInternal"
proof (induction "length t" arbitrary: t st rule: less_induct)
  case less
  then have "t \<noteq> []" by (auto simp: export_loop.simps)
  with less.prems consider "scan_value t = Inl err"
    | words rest where "scan_value t = Inr (words, rest)" "export_step pkg words st = Inl err"
    | words rest st1 where "scan_value t = Inr (words, rest)" "export_loop pkg rest st1 = Some (Inl err)"
    by (subst (asm) export_loop.simps) (auto split: sum.splits)
  then show ?case
  proof cases
    case 1
    then show ?thesis unfolding scan_value_def by (rule scanValue_error)
  next
    case 2
    then show ?thesis using export_step_error by blast
  next
    case 3
    then show ?thesis using less(1) scan_value_shorter [OF _ \<open>t \<noteq> []\<close>] by blast
  qed
qed

text \<open>
  C23: whatever the output says, a package the export reader accepts is one UCI can hold: section names are
  valid and distinct, every section has a type, option names are valid and distinct within their section, a
  scalar is never empty and a list never without items. So the reads of a transaction rest on a tidy
  configuration, and a present value is never empty.
\<close>

theorem export_reader_well_formed:
  "case ParseUCIExport pkg data of None \<Rightarrow> False | Some (Inl err) \<Rightarrow> e_code err = CodeInternal
   | Some (Inr c) \<Rightarrow> package_ok c \<and> tidy c"
proof -
  obtain r where r: "export_loop pkg data export_start = Some r" using export_loop_returns by blast
  have start: "export_ok export_start" by (simp add: export_ok_def export_start_def package_ok_def)
  show ?thesis
  proof (cases r)
    case (Inl err)
    then show ?thesis using r export_loop_error by (simp add: ParseUCIExport_def)
  next
    case (Inr st)
    then have "package_ok (es_config st)" using r export_loop_ok [OF _ start] by (simp add: export_ok_def)
    then show ?thesis using r Inr package_ok_tidy by (simp add: ParseUCIExport_def)
  qed
qed

subsection \<open>Reading back what was printed\<close>

text \<open>
  The format of \<open>uci -n export\<close>: one line per section and per value, the type and the option name bare, the
  section name and the value quoted, a quote inside a value written by closing, escaping and reopening.
\<close>

definition single_quoted :: "string \<Rightarrow> string" where
  "single_quoted t = [CHR 0x27] @ concat (map (\<lambda>c. if c = CHR 0x27 then quote_escape else [c]) t) @ [CHR 0x27]"

definition print_line :: "string \<Rightarrow> string \<Rightarrow> string \<Rightarrow> string" where
  "print_line word name t = word @ '' '' @ name @ '' '' @ single_quoted t @ [CHR 0x0A]"

definition print_option :: "string \<times> UCIOption \<Rightarrow> string" where
  "print_option = (\<lambda>(name, v).
     if ux_IsList v then concat (map (\<lambda>item. [CHR 0x09] @ print_line ''list'' name item) (ux_List v))
     else [CHR 0x09] @ print_line ''option'' name (ux_Text v))"

definition print_section :: "UCISection \<Rightarrow> string" where
  "print_section s = [CHR 0x0A] @ print_line ''config'' (ss_Type s) (ss_Name s) @ concat (map print_option (ss_options s))"

definition print_package :: "string \<Rightarrow> UCIConfig \<Rightarrow> string" where
  "print_package pkg c = ''package '' @ pkg @ [CHR 0x0A] @ concat (map print_section c)"

lemma quoteBatch_quotes: "quoteBatch t = Inr q \<Longrightarrow> q = single_quoted t"
  by (auto simp: quoteBatch_def single_quoted_def split: if_splits)

definition bare :: "string \<Rightarrow> bool" where
  "bare w \<longleftrightarrow> w \<noteq> [] \<and> list_all (\<lambda>c. c \<noteq> CHR 0x0A \<and> c \<noteq> CHR '' '' \<and> c \<noteq> CHR 0x09 \<and> c \<noteq> CHR 0x27 \<and> c \<noteq> CHR 0x5C) w"

lemma scan_bare:
  "list_all (\<lambda>c. c \<noteq> CHR 0x0A \<and> c \<noteq> CHR '' '' \<and> c \<noteq> CHR 0x09 \<and> c \<noteq> CHR 0x27 \<and> c \<noteq> CHR 0x5C) w \<Longrightarrow>
   scanValue items current started (w @ rest) = scanValue items (current @ w) (started \<or> w \<noteq> []) rest"
  by (induction w arbitrary: current started) (simp_all)

lemma cut_at_append: "c \<notin> set a \<Longrightarrow> cut_at c (a @ c # b) = Some (a, b)"
  by (induction a) (auto simp: cut_at_def)

lemma scan_quoted:
  "scanValue items current started (single_quoted t @ rest) = scanValue items (current @ t) True rest"
proof (induction "length t" arbitrary: t current started rule: less_induct)
  case less
  let ?esc = "\<lambda>t. concat (map (\<lambda>c. if c = CHR 0x27 then quote_escape else [c]) t)"
  have plain: "?esc a = a" if "CHR 0x27 \<notin> set a" for a using that by (induction a) auto
  show ?case
  proof (cases "CHR 0x27 \<in> set t")
    case False
    then show ?thesis using cut_at_append [OF False, of rest] by (simp add: single_quoted_def plain)
  next
    case True
    then obtain a b where t: "t = a @ CHR 0x27 # b" and a: "CHR 0x27 \<notin> set a" by (metis split_list_first)
    have "single_quoted t @ rest = CHR 0x27 # a @ CHR 0x27 # CHR 0x5C # CHR 0x27 # single_quoted b @ rest"
      by (simp add: single_quoted_def t plain [OF a] quote_escape_def)
    then have "scanValue items current started (single_quoted t @ rest) =
        scanValue items (current @ a @ [CHR 0x27]) True (single_quoted b @ rest)"
      using cut_at_append [OF a, of "CHR 0x5C # CHR 0x27 # single_quoted b @ rest"] by simp
    also have "\<dots> = scanValue items ((current @ a @ [CHR 0x27]) @ b) True rest"
      by (rule less) (simp add: t)
    finally show ?thesis by (simp add: t)
  qed
qed

lemma scan_line: "bare w \<Longrightarrow> bare n \<Longrightarrow> scan_value (print_line w n t @ rest) = Inr ([w, n, t], rest)"
  by (simp add: scan_value_def print_line_def bare_def scan_bare flush_def scan_quoted)

lemma scan_tab: "scan_value (CHR 0x09 # t) = scan_value t"
  by (simp add: scan_value_def flush_def)

lemma name_char_bare: "name_char c \<Longrightarrow> c \<noteq> CHR 0x0A \<and> c \<noteq> CHR '' '' \<and> c \<noteq> CHR 0x09 \<and> c \<noteq> CHR 0x27 \<and> c \<noteq> CHR 0x5C"
  by (auto simp: name_char_def)

lemma logical_bare: "IsLogicalInterfaceName n \<Longrightarrow> bare n"
  using name_char_bare by (auto simp: IsLogicalInterfaceName_def bare_def list_all_iff split: if_splits)

lemma bare_words [simp]: "bare ''option''" "bare ''list''" "bare ''config''" "bare ''package''"
  by (simp_all add: bare_def)

lemma at_last:
  assumes "name \<notin> ss_Name ` set c" and "ss_Name s = name"
  shows "at_section name f (c @ [s]) = c @ [f s]" and "Section (c @ [s]) name = Some s"
proof -
  have "edit_first name f (c @ [s]) = c @ [f s]" using assms by (induction c) auto
  then show "at_section name f (c @ [s]) = c @ [f s]" using assms by (simp add: at_section_def ensure_present)
  show "Section (c @ [s]) name = Some s" using assms by (induction c) (auto simp: Section_def)
qed

lemma update_fresh: "k \<notin> fst ` set al \<Longrightarrow> AList.update k v al = al @ [(k, v)]"
  by (induction al) auto

lemma update_last: "k \<notin> fst ` set al \<Longrightarrow> AList.update k v (al @ [(k, w)]) = al @ [(k, v)]"
  by (induction al) auto

text \<open>The state of the reader inside the section \<open>name\<close>, with the options read so far.\<close>

definition reading :: "UCIConfig \<Rightarrow> string \<Rightarrow> string \<Rightarrow> (string \<times> UCIOption) list \<Rightarrow> ExportState" where
  "reading c name t opts = \<lparr>es_config = c @ [\<lparr>ss_Name = name, ss_Type = t, ss_options = opts\<rparr>], es_section = name,
     es_seenPackage = True\<rparr>"

lemma export_loop_line:
  "bare w \<Longrightarrow> bare n \<Longrightarrow> export_loop pkg (print_line w n t @ rest) st =
    (case export_step pkg [w, n, t] st of Inl err \<Rightarrow> Some (Inl err) | Inr st \<Rightarrow> export_loop pkg rest st)"
  by (subst export_loop.simps) (simp add: scan_line split: sum.split, simp add: print_line_def)

lemma export_loop_tab: "t \<noteq> [] \<Longrightarrow> export_loop pkg (CHR 0x09 # t) st = export_loop pkg t st"
  by (subst (1 2) export_loop.simps) (simp add: scan_tab)

lemma export_loop_newline: "export_loop pkg (CHR 0x0A # t) st = export_loop pkg t st"
  by (subst export_loop.simps) (simp add: scan_value_def flush_def export_step_def)

lemma export_loop_value:
  assumes "IsLogicalInterfaceName n" and "IsLogicalInterfaceName name" and "name \<notin> ss_Name ` set c"
  shows "export_loop pkg ([CHR 0x09] @ print_line ''option'' n x @ rest) (reading c name t opts) =
      (case export_option False n x (reading c name t opts) of Inl err \<Rightarrow> Some (Inl err) | Inr st \<Rightarrow> export_loop pkg rest st)"
    and "export_loop pkg ([CHR 0x09] @ print_line ''list'' n x @ rest) (reading c name t opts) =
      (case export_option True n x (reading c name t opts) of Inl err \<Rightarrow> Some (Inl err) | Inr st \<Rightarrow> export_loop pkg rest st)"
proof -
  have "name \<noteq> []" using assms(2) by (auto simp: IsLogicalInterfaceName_def)
  then show "export_loop pkg ([CHR 0x09] @ print_line ''option'' n x @ rest) (reading c name t opts) =
      (case export_option False n x (reading c name t opts) of Inl err \<Rightarrow> Some (Inl err) | Inr st \<Rightarrow> export_loop pkg rest st)"
    "export_loop pkg ([CHR 0x09] @ print_line ''list'' n x @ rest) (reading c name t opts) =
      (case export_option True n x (reading c name t opts) of Inl err \<Rightarrow> Some (Inl err) | Inr st \<Rightarrow> export_loop pkg rest st)"
    using export_loop_line [of "''option''" n pkg x rest] export_loop_line [of "''list''" n pkg x rest] logical_bare [OF assms(1)] assms(1)
    by (simp_all add: export_loop_tab print_line_def [of _ _ x] export_step_def export_value_def reading_def)
qed

lemma put_reading:
  assumes "name \<notin> ss_Name ` set c"
  shows "(reading c name t opts)\<lparr>es_config := at_section name (put_option n v) (es_config (reading c name t opts))\<rparr> =
    reading c name t (AList.update n v opts)"
  using at_last(1) [OF assms] by (simp add: reading_def put_option_def)

lemma read_option:
  assumes "option_ok (n, v)" and "IsLogicalInterfaceName name" and new: "name \<notin> ss_Name ` set c" and fresh: "n \<notin> fst ` set opts"
  shows "export_loop pkg (print_option (n, v) @ rest) (reading c name t opts) = export_loop pkg rest (reading c name t (opts @ [(n, v)]))"
proof -
  have n: "IsLogicalInterfaceName n" using assms(1) by (simp add: option_ok_def)
  have found: "Section (es_config (reading c name t opts)) name = Some \<lparr>ss_Name = name, ss_Type = t, ss_options = opts\<rparr>" for opts
    using at_last(2) [OF new] by (simp add: reading_def)
  have sec: "es_section (reading c name t opts) = name" for opts by (simp add: reading_def)
  note put = put_reading [OF new]
  have none: "map_of opts n = None" using fresh by (simp add: map_of_eq_None_iff)
  show ?thesis
  proof (cases "ux_IsList v")
    case False
    then have v: "v = plain (ux_Text v)" "ux_Text v \<noteq> []" using assms(1) by (cases v; simp add: option_ok_def plain_def)+
    have "export_option False n (ux_Text v) (reading c name t opts) = Inr (reading c name t (opts @ [(n, v)]))"
      using v fresh by (simp add: export_option_def Let_def sec found UCISection_Lookup_def none put update_fresh)
    then show ?thesis using False export_loop_value(1) [OF n assms(2) new] by (simp add: print_option_def)
  next
    case True
    let ?v = "\<lambda>items. \<lparr>ux_Text = [], ux_List = items, ux_IsList = True\<rparr>"
    have v: "v = ?v (ux_List v)" and some: "ux_List v \<noteq> []" using assms(1) True by (cases v; simp add: option_ok_def)+
    let ?line = "\<lambda>item. [CHR 0x09] @ print_line ''list'' n item"
    have more: "export_loop pkg (concat (map ?line items) @ rest) (reading c name t (opts @ [(n, ?v done_items)])) =
        export_loop pkg rest (reading c name t (opts @ [(n, ?v (done_items @ items))]))" for items done_items
    proof (induction items arbitrary: done_items)
      case (Cons item items)
      have "export_option True n item (reading c name t (opts @ [(n, ?v done_items)])) =
          Inr (reading c name t (opts @ [(n, ?v (done_items @ [item]))]))"
        using fresh by (simp add: export_option_def Let_def sec found UCISection_Lookup_def map_add_def none put update_last)
      then show ?case using export_loop_value(2) [OF n assms(2) new] Cons [of "done_items @ [item]"] by simp
    qed simp
    obtain item items where items: "ux_List v = item # items" using some by (cases "ux_List v") auto
    have "export_option True n item (reading c name t opts) = Inr (reading c name t (opts @ [(n, ?v [item])]))"
      using fresh by (simp add: export_option_def Let_def sec found UCISection_Lookup_def none put update_fresh)
    then show ?thesis using True export_loop_value(2) [OF n assms(2) new] more [of items "[item]"]
      by (simp add: print_option_def items v [unfolded items])
  qed
qed

lemma read_options:
  assumes "list_all option_ok new_opts" and "distinct (map fst (opts @ new_opts))" and "IsLogicalInterfaceName name"
    and "name \<notin> ss_Name ` set c"
  shows "export_loop pkg (concat (map print_option new_opts) @ rest) (reading c name t opts) =
    export_loop pkg rest (reading c name t (opts @ new_opts))"
  using assms(1,2)
proof (induction new_opts arbitrary: opts)
  case (Cons o1 more_opts)
  obtain n v where o1: "o1 = (n, v)" by fastforce
  have "n \<notin> fst ` set opts" using Cons.prems(2) by (auto simp: o1)
  with Cons o1 assms(3,4) read_option [of n v name c opts pkg "concat (map print_option more_opts) @ rest" t]
  show ?case by simp
qed simp

definition between :: "UCIConfig \<Rightarrow> string \<Rightarrow> ExportState" where
  "between c sec = \<lparr>es_config = c, es_section = sec, es_seenPackage = True\<rparr>"

lemma read_section:
  assumes "section_ok s" and "bare (ss_Type s)" and "ss_Name s \<notin> ss_Name ` set c"
  shows "export_loop pkg (print_section s @ rest) (between c sec) = export_loop pkg rest (between (c @ [s]) (ss_Name s))"
proof -
  have ok: "IsLogicalInterfaceName (ss_Name s)" "ss_Type s \<noteq> []" "list_all option_ok (ss_options s)" "distinct (map fst (ss_options s))"
    using assms(1) by (simp_all add: section_ok_def)
  have none: "Section c (ss_Name s) = None" using assms(3) by (simp add: Section_None)
  have start: "(between c sec)\<lparr>es_section := ss_Name s, es_config := at_section (ss_Name s) (\<lambda>x. x\<lparr>ss_Type := ss_Type s\<rparr>) c\<rparr> =
      reading c (ss_Name s) (ss_Type s) []"
    by (simp add: between_def reading_def export_config_ok [OF _ none] at_section_def ensure_def none)
      (use assms(3) in \<open>induction c, auto simp: empty_section_def\<close>)
  have "export_loop pkg (print_line ''config'' (ss_Type s) (ss_Name s) @ concat (map print_option (ss_options s)) @ rest) (between c sec) =
      export_loop pkg (concat (map print_option (ss_options s)) @ rest) (reading c (ss_Name s) (ss_Type s) [])"
    unfolding export_loop_line [OF bare_words(3) assms(2)] start [symmetric]
    using ok none by (simp add: export_step_def export_config_def between_def)
  also have "\<dots> = export_loop pkg rest (reading c (ss_Name s) (ss_Type s) (ss_options s))"
    using read_options [OF ok(3) _ ok(1) assms(3), of "[]"] ok(4) by simp
  also have "reading c (ss_Name s) (ss_Type s) (ss_options s) = between (c @ [s]) (ss_Name s)"
    by (simp add: reading_def between_def)
  finally show ?thesis by (simp add: print_section_def export_loop_newline)
qed

lemma read_sections:
  assumes "list_all section_ok cs" and "list_all (\<lambda>s. bare (ss_Type s)) cs" and "distinct (map ss_Name (c @ cs))"
  shows "\<exists>sec'. export_loop pkg (concat (map print_section cs) @ rest) (between c sec) = export_loop pkg rest (between (c @ cs) sec')"
  using assms
proof (induction cs arbitrary: c sec)
  case (Cons s cs)
  have "ss_Name s \<notin> ss_Name ` set c" using Cons.prems(3) by auto
  with Cons.prems have "export_loop pkg (concat (map print_section (s # cs)) @ rest) (between c sec) =
      export_loop pkg (concat (map print_section cs) @ rest) (between (c @ [s]) (ss_Name s))"
    using read_section [of s c pkg "concat (map print_section cs) @ rest" sec] by simp
  with Cons.IH [of "c @ [s]" "ss_Name s"] Cons.prems show ?case by simp
qed auto

text \<open>
  C24: no value can pass for another option. A well-formed package printed the way \<open>uci -n export\<close> prints it,
  with values that may contain newlines, quotes, backslashes or text shaped like another line, is read back
  exactly: the same sections in the same order, the same options, scalars as scalars and lists as lists.
\<close>

theorem export_reader_round_trip:
  assumes "package_ok c" and "bare pkg" and "list_all (\<lambda>s. bare (ss_Type s)) c" and "CHR 0x00 \<notin> set (print_package pkg c)"
  shows "ParseUCIExport pkg (print_package pkg c) = Some (Inr c)"
proof -
  have head: "scan_value (''package '' @ pkg @ [CHR 0x0A] @ rest) = Inr ([''package'', pkg], rest)" for rest
    using assms(2) scan_bare [of "''package''" "[]" "[]" False "'' '' @ pkg @ [CHR 0x0A] @ rest"]
      scan_bare [of pkg "[''package'']" "[]" False "[CHR 0x0A] @ rest"]
    by (simp add: scan_value_def flush_def bare_def)
  have "export_loop pkg (print_package pkg c) export_start = export_loop pkg (concat (map print_section c) @ []) (between [] [])"
    unfolding print_package_def
    by (subst export_loop.simps) (simp only: head sum.case append_Nil2, simp add: export_step_def export_package_def export_start_def between_def)
  moreover obtain sec where "export_loop pkg (concat (map print_section c) @ []) (between [] []) = export_loop pkg [] (between c sec)"
    using read_sections [of c "[]" pkg "[]" "[]"] assms(1,3) by (auto simp: package_ok_def)
  ultimately show ?thesis using assms(4) by (simp add: ParseUCIExport_def export_loop.simps [of pkg "[]"] between_def)
qed

definition tricky_package :: UCIConfig where
  "tricky_package = [\<lparr>ss_Name = ''r'', ss_Type = ''d'', ss_options =
     [(''key'', plain ([CHR 0x27, CHR 0x0A] @ ''option x'' @ [CHR 0x5C])),
      (''l'', \<lparr>ux_Text = [], ux_List = [''a b'', []], ux_IsList = True\<rparr>)]\<rparr>]"

lemma export_reader_round_trip_witness:
  "ParseUCIExport ''w'' (print_package ''w'' tricky_package) = Some (Inr tricky_package)"
proof (rule export_reader_round_trip)
  show "package_ok tricky_package" by code_simp
  show "bare ''w''" by code_simp
  show "list_all (\<lambda>s. bare (ss_Type s)) tricky_package" by code_simp
  show "CHR 0x00 \<notin> set (print_package ''w'' tricky_package)" by code_simp
qed

end
