(* ===== verification/Control_Model.thy ===== *)
theory Control_Model
  imports Prelude Go_Text Go_Utf8 Go_Sort
begin

text \<open>
  The control socket: \<open>control/protocol.go\<close>, \<open>methods.go\<close>, \<open>frame.go\<close>, \<open>dispatch.go\<close>, and the error
  values of \<open>domain/errors.go\<close> it renders. A connection is what its two library objects answer: the
  \<open>n\<close>-th \<open>ReadSlice\<close> of the buffered reader and the \<open>n\<close>-th \<open>Write\<close> of the writer. \<open>encoding/json\<close> is the
  record \<open>JsonLib\<close>. A handler acts on a state of any type. The two loops, reading a line and writing a
  frame, are \<open>partial_function\<close>s: \<^const>\<open>None\<close> would mean that they never return. Deadlines only make the
  library objects answer with an error earlier, so they do not appear.
\<close>

subsection \<open>Errors\<close>

text \<open>
  An error is this program's own problem with its wrapped cause, a set of such problems, one of the
  library's three sentinels, or a foreign error with a text and what it unwraps to. The code is
  \<^const>\<open>None\<close> for the empty one.
\<close>

record DomainError =
  er_Code :: "ErrorCode option"
  er_Field :: string
  er_Message :: string

datatype goerr =
    SingleErr DomainError "goerr list"
  | SetErr "ErrorCode option" "DomainError list"
  | ContextCanceled | ContextDeadlineExceeded | OsDeadlineExceeded
  | ForeignErr string "goerr list"

definition code_string :: "ErrorCode \<Rightarrow> string" where
  "code_string c = (case c of
     CodeInvalidArgument \<Rightarrow> ''InvalidArgument'' | CodeInvalidConfig \<Rightarrow> ''InvalidConfig'' | CodeConflict \<Rightarrow> ''Conflict''
   | CodeBusy \<Rightarrow> ''Busy'' | CodeNotFound \<Rightarrow> ''NotFound'' | CodeServiceStopped \<Rightarrow> ''ServiceStopped''
   | CodeCancelled \<Rightarrow> ''Cancelled'' | CodeDeadlineExceeded \<Rightarrow> ''DeadlineExceeded''
   | CodeBindingUnavailable \<Rightarrow> ''BindingUnavailable'' | CodeBindingChanged \<Rightarrow> ''BindingChanged''
   | CodeDNSFailure \<Rightarrow> ''DNSFailure'' | CodeTransportFailure \<Rightarrow> ''TransportFailure'' | CodeTLSFailure \<Rightarrow> ''TLSFailure''
   | CodePortalHTMLResponse \<Rightarrow> ''PortalHTMLResponse'' | CodeProtocolInvalid \<Rightarrow> ''ProtocolInvalid''
   | CodeAuthRejected \<Rightarrow> ''AuthRejected'' | CodeOnlineIdentityMismatch \<Rightarrow> ''OnlineIdentityMismatch''
   | CodeRecoveryRequired \<Rightarrow> ''RecoveryRequired'' | CodeUnsupportedCapability \<Rightarrow> ''UnsupportedCapability''
   | CodeChecksumMismatch \<Rightarrow> ''ChecksumMismatch'' | CodePackageIncompatible \<Rightarrow> ''PackageIncompatible''
   | CodeInstallFailed \<Rightarrow> ''InstallFailed'' | CodeInternal \<Rightarrow> ''Internal'')"

definition code_text :: "ErrorCode option \<Rightarrow> string" where
  "code_text c = (case c of None \<Rightarrow> [] | Some c \<Rightarrow> code_string c)"

definition Error_Error :: "DomainError \<Rightarrow> string" where
  "Error_Error e =
     (if er_Field e = [] then code_text (er_Code e) @ '': '' @ er_Message e
      else code_text (er_Code e) @ '': '' @ er_Field e @ '': '' @ er_Message e)"

definition join_with :: "string \<Rightarrow> string list \<Rightarrow> string" where
  "join_with sep parts = (case parts of [] \<Rightarrow> [] | p # ps \<Rightarrow> p @ concat (map (\<lambda>q. sep @ q) ps))"

definition Errors_Error :: "DomainError list \<Rightarrow> string" where
  "Errors_Error items = join_with ''; '' (map Error_Error items)"

definition Errors_Fields :: "DomainError list \<Rightarrow> string list" where
  "Errors_Fields items = filter (\<lambda>f. f \<noteq> []) (map er_Field items)"

definition Errors_Add :: "ErrorCode option \<Rightarrow> DomainError \<Rightarrow> DomainError list \<Rightarrow> DomainError list" where
  "Errors_Add code item items = items @ [if er_Code item = None then item\<lparr>er_Code := code\<rparr> else item]"

definition Errors_Err :: "ErrorCode option \<Rightarrow> DomainError list \<Rightarrow> goerr option" where
  "Errors_Err code items = (if items = [] then None else Some (SetErr code items))"

text \<open>What \<open>errors.AsType\<close> and \<open>errors.Is\<close> find, walking the chain depth first.\<close>

fun asErrorSet :: "goerr \<Rightarrow> (ErrorCode option \<times> DomainError list) option"
  and asErrorSets :: "goerr list \<Rightarrow> (ErrorCode option \<times> DomainError list) option" where
  "asErrorSet (SingleErr e causes) = asErrorSets causes"
| "asErrorSet (SetErr code items) = Some (code, items)"
| "asErrorSet ContextCanceled = None"
| "asErrorSet ContextDeadlineExceeded = None"
| "asErrorSet OsDeadlineExceeded = None"
| "asErrorSet (ForeignErr text causes) = asErrorSets causes"
| "asErrorSets [] = None"
| "asErrorSets (e # es) = (case asErrorSet e of None \<Rightarrow> asErrorSets es | Some found \<Rightarrow> Some found)"

fun asError :: "goerr \<Rightarrow> DomainError option" and asErrors :: "goerr list \<Rightarrow> DomainError option" where
  "asError (SingleErr e causes) = Some e"
| "asError (SetErr code items) = (case items of [] \<Rightarrow> None | e # _ \<Rightarrow> Some e)"
| "asError ContextCanceled = None"
| "asError ContextDeadlineExceeded = None"
| "asError OsDeadlineExceeded = None"
| "asError (ForeignErr text causes) = asErrors causes"
| "asErrors [] = None"
| "asErrors (e # es) = (case asError e of None \<Rightarrow> asErrors es | Some found \<Rightarrow> Some found)"

fun errors_Is :: "goerr \<Rightarrow> goerr \<Rightarrow> bool" and errors_Is_any :: "goerr list \<Rightarrow> goerr \<Rightarrow> bool" where
  "errors_Is (SingleErr e causes) target = errors_Is_any causes target"
| "errors_Is (SetErr code items) target = False"
| "errors_Is ContextCanceled target = (target = ContextCanceled)"
| "errors_Is ContextDeadlineExceeded target = (target = ContextDeadlineExceeded)"
| "errors_Is OsDeadlineExceeded target = (target = OsDeadlineExceeded)"
| "errors_Is (ForeignErr text causes) target = errors_Is_any causes target"
| "errors_Is_any [] target = False"
| "errors_Is_any (e # es) target = (errors_Is e target \<or> errors_Is_any es target)"

definition err :: "ErrorCode \<Rightarrow> string \<Rightarrow> goerr" where
  "err code message = SingleErr \<lparr>er_Code = Some code, er_Field = [], er_Message = message\<rparr> []"

subsection \<open>Requests, responses, payloads\<close>

definition RPCVersion :: int where "RPCVersion = 1"
definition MaxRequestBytes :: nat where "MaxRequestBytes = 1024 * 1024 + 4096"
definition MaxResponseBytes :: nat where "MaxResponseBytes = 1024 * 1024"

record RPCRequest =
  rq_RPCVersion :: int
  rq_RequestID :: string
  rq_Method :: string
  rq_Params :: string

record ErrorPayload =
  ep_Code :: string
  ep_Message :: string
  ep_Details :: "string gomap"
  ep_Retryable :: bool

record Response =
  rs_RPCVersion :: int
  rs_RequestID :: string
  rs_OK :: bool
  rs_Result :: string
  rs_Error :: "ErrorPayload option"

definition detailKeys :: "string list" where
  "detailKeys = [''field'', ''expected_revision'', ''actual_revision'', ''action_id'', ''job_id'',
     ''retry_after_seconds'', ''limit'', ''capability'', ''interface'']"

definition sanitizeDetails :: "string gomap \<Rightarrow> string gomap" where
  "sanitizeDetails details = filter (\<lambda>(key, _). key \<in> set detailKeys) details"

definition retryableCodes :: "ErrorCode list" where
  "retryableCodes = [CodeBusy, CodeDeadlineExceeded, CodeServiceStopped, CodeBindingUnavailable, CodeBindingChanged,
     CodeDNSFailure, CodeTransportFailure, CodeTLSFailure]"

definition Retryable :: "ErrorCode \<Rightarrow> bool" where
  "Retryable code \<longleftrightarrow> code \<in> set retryableCodes"

definition InternalMessage :: string where "InternalMessage = ''internal service error''"
definition CancelledMessage :: string where "CancelledMessage = ''cancelled''"
definition TimeoutMessage :: string where "TimeoutMessage = ''timed out''"

definition classify :: "goerr \<Rightarrow> ErrorCode option \<times> string \<times> string gomap" where
  "classify e =
     (case asErrorSet e of
        Some (code, items) \<Rightarrow>
          (code, Errors_Error items, (case Errors_Fields items of [] \<Rightarrow> [] | f # _ \<Rightarrow> [(''field'', f)]))
      | None \<Rightarrow>
          (case asError e of
             Some single \<Rightarrow>
               (er_Code single, er_Message single, if er_Field single \<noteq> [] then [(''field'', er_Field single)] else [])
           | None \<Rightarrow>
               if errors_Is e ContextCanceled then (Some CodeCancelled, CancelledMessage, [])
               else if errors_Is e ContextDeadlineExceeded \<or> errors_Is e OsDeadlineExceeded
               then (Some CodeDeadlineExceeded, TimeoutMessage, [])
               else (Some CodeInternal, InternalMessage, [])))"

definition NewErrorPayload :: "goerr \<Rightarrow> ErrorPayload" where
  "NewErrorPayload e =
     (let (code, message, details) = classify e;
          code = (case code of None \<Rightarrow> CodeInternal | Some c \<Rightarrow> c)
      in \<lparr>ep_Code = code_string code, ep_Message = message, ep_Details = sanitizeDetails details,
          ep_Retryable = Retryable code\<rparr>)"

record JsonLib =
  js_Decode :: "string \<Rightarrow> (RPCRequest \<times> bool) option"
  js_Marshal :: "Response \<Rightarrow> string option"

definition NewSuccess :: "string \<Rightarrow> string option \<Rightarrow> goerr + Response" where
  "NewSuccess requestID encoded =
     (case encoded of
        None \<Rightarrow> Inl (err CodeInvalidArgument ''result cannot be serialised'')
      | Some data \<Rightarrow> Inr \<lparr>rs_RPCVersion = RPCVersion, rs_RequestID = requestID, rs_OK = True, rs_Result = data, rs_Error = None\<rparr>)"

definition NewFailure :: "string \<Rightarrow> goerr \<Rightarrow> Response" where
  "NewFailure requestID e = \<lparr>rs_RPCVersion = RPCVersion, rs_RequestID = requestID, rs_OK = False,
     rs_Result = ''null'', rs_Error = Some (NewErrorPayload e)\<rparr>"

subsection \<open>The catalogue\<close>

text \<open>The notes of the catalogue are for a reader and are left out.\<close>

datatype MethodKind = MethodKindRead | MethodKindMutate | MethodKindTask

definition catalogue :: "(string \<times> MethodKind) list" where
  "catalogue =
    [(''status.get'', MethodKindRead), (''schema.get'', MethodKindRead), (''capabilities.get'', MethodKindRead),
     (''version.get'', MethodKindRead), (''config.get'', MethodKindRead), (''config.export'', MethodKindRead),
     (''config.import'', MethodKindMutate), (''config.validate'', MethodKindRead), (''config.apply'', MethodKindMutate),
     (''campus.get'', MethodKindRead), (''campus.upsert'', MethodKindMutate), (''campus.remove'', MethodKindMutate),
     (''campus.set_default'', MethodKindMutate), (''hotspot.get'', MethodKindRead), (''hotspot.upsert'', MethodKindMutate),
     (''hotspot.remove'', MethodKindMutate), (''hotspot.set_default'', MethodKindMutate), (''action.submit'', MethodKindMutate),
     (''action.get'', MethodKindRead), (''action.cancel'', MethodKindMutate), (''presets.list'', MethodKindRead),
     (''presets.refresh'', MethodKindTask), (''user_presets.get'', MethodKindRead), (''user_presets.set'', MethodKindMutate),
     (''detect.environment'', MethodKindTask), (''detect.acid'', MethodKindTask), (''detect.operators'', MethodKindTask),
     (''detect.identity'', MethodKindTask), (''detect.verify'', MethodKindTask), (''setup_wifi.start'', MethodKindTask),
     (''setup_wifi.status'', MethodKindRead), (''setup_wifi.cancel'', MethodKindMutate), (''setup_wifi.commit'', MethodKindMutate),
     (''setup_wifi.account'', MethodKindMutate), (''log.tail'', MethodKindRead), (''log.download'', MethodKindRead),
     (''log.clear'', MethodKindMutate), (''update.check'', MethodKindTask), (''update.start'', MethodKindTask),
     (''update.status'', MethodKindRead), (''schools.list'', MethodKindRead), (''schools.inspect'', MethodKindRead),
     (''school.command'', MethodKindMutate)]"

definition Method_Lookup :: "string \<Rightarrow> (string \<times> MethodKind) option" where
  "Method_Lookup name = find (\<lambda>m. fst m = name) catalogue"

definition cut_dot :: "string \<Rightarrow> (string \<times> string) option" where
  "cut_dot s = (if CHR ''.'' \<in> set s then Some (takeWhile ((\<noteq>) (CHR ''.'')) s, tl (dropWhile ((\<noteq>) (CHR ''.'')) s)) else None)"

fun validate_methods :: "string list \<Rightarrow> (string \<times> MethodKind) list \<Rightarrow> bool" where
  "validate_methods seen [] = True"
| "validate_methods seen (m # rest) =
     (case cut_dot (fst m) of
        None \<Rightarrow> False
      | Some (family, action) \<Rightarrow>
          if family = [] \<or> action = [] then False
          else if fst m \<in> set seen then False
          else validate_methods (fst m # seen) rest)"

definition validateCatalogue :: "(string \<times> MethodKind) list \<Rightarrow> bool" where
  "validateCatalogue methods = validate_methods [] methods"

definition MethodNames :: "string list" where
  "MethodNames = sort_strings (map fst catalogue)"

subsection \<open>The registry and the dispatcher\<close>

text \<open>
  A handler answers with the JSON text of its result, \<^const>\<open>None\<close> when it cannot be serialised; no result
  is the text \<open>null\<close>. \<open>Register\<close> returns \<^const>\<open>None\<close> for the panic.
\<close>

type_synonym 's Handler = "string \<Rightarrow> 's \<Rightarrow> 's \<times> (goerr + string option)"

record 's RPCRegistry =
  rr_handlers :: "'s Handler gomap"

definition NewRPCRegistry :: "'s RPCRegistry" where
  "NewRPCRegistry = \<lparr>rr_handlers = []\<rparr>"

definition RPC_Register :: "string \<Rightarrow> 's Handler option \<Rightarrow> 's RPCRegistry \<Rightarrow> 's RPCRegistry option" where
  "RPC_Register name handler r =
     (if Method_Lookup name = None then None
      else if map_of (rr_handlers r) name \<noteq> None then None
      else case handler of None \<Rightarrow> None | Some h \<Rightarrow> Some (r\<lparr>rr_handlers := AList.update name h (rr_handlers r)\<rparr>))"

definition Registered :: "'s RPCRegistry \<Rightarrow> string \<Rightarrow> bool" where
  "Registered r name \<longleftrightarrow> map_of (rr_handlers r) name \<noteq> None"

definition Missing :: "'s RPCRegistry \<Rightarrow> string list" where
  "Missing r = filter (\<lambda>name. \<not> Registered r name) MethodNames"

definition RPC_Dispatch :: "'s RPCRegistry \<Rightarrow> RPCRequest \<Rightarrow> 's \<Rightarrow> 's \<times> Response" where
  "RPC_Dispatch r request s =
     (case Method_Lookup (rq_Method request) of
        None \<Rightarrow> (s, NewFailure (rq_RequestID request) (err CodeNotFound ''unknown method''))
      | Some method \<Rightarrow>
          (case map_of (rr_handlers r) (fst method) of
             None \<Rightarrow> (s, NewFailure (rq_RequestID request) (err CodeUnsupportedCapability ''method not implemented''))
           | Some handler \<Rightarrow>
               (case handler (rq_Params request) s of
                  (s, Inl e) \<Rightarrow> (s, NewFailure (rq_RequestID request) e)
                | (s, Inr encoded) \<Rightarrow>
                    (case NewSuccess (rq_RequestID request) encoded of
                       Inl e \<Rightarrow> (s, NewFailure (rq_RequestID request) e)
                     | Inr response \<Rightarrow> (s, response)))))"

definition DecodeParams :: "(string \<Rightarrow> ('p \<times> bool) option) \<Rightarrow> string \<Rightarrow> 'p \<Rightarrow> goerr + 'p" where
  "DecodeParams decode raw target =
     (if raw = [] \<or> raw = ''null'' then Inr target
      else case decode raw of
        None \<Rightarrow> Inl (err CodeInvalidArgument ''invalid parameters'')
      | Some (v, at_end) \<Rightarrow> if at_end then Inr v else Inl (err CodeInvalidArgument ''content after params''))"

subsection \<open>Frames\<close>

datatype ReadErr = ErrBufferFull | ReadEOF | ReadFailed goerr
datatype LineErr = ErrClosed | LineFailed goerr

type_synonym reader = "nat \<Rightarrow> string \<times> ReadErr option"
type_synonym writer = "nat \<Rightarrow> string \<Rightarrow> nat \<times> goerr option"

definition trim_newlines :: "string \<Rightarrow> string" where
  "trim_newlines s = rev (dropWhile ((=) (CHR 0x0A)) (rev s))"

text \<open>\<open>readLine\<close> from the \<open>n\<close>-th read on; the answer carries the number of reads used.\<close>

partial_function (option) readLine :: "reader \<Rightarrow> nat \<Rightarrow> nat \<Rightarrow> string \<Rightarrow> ((LineErr + string) \<times> nat) option" where
  "readLine reads limit n buffer =
     (let chunk = fst (reads n) in
      if length buffer + length chunk > limit
      then Some (Inl (LineFailed (err CodeInvalidArgument ''request too long'')), Suc n)
      else (case snd (reads n) of
              None \<Rightarrow> Some (Inr (trim_newlines (buffer @ chunk)), Suc n)
            | Some e \<Rightarrow>
                (case e of
                   ErrBufferFull \<Rightarrow> readLine reads limit (Suc n) (buffer @ chunk)
                 | ReadEOF \<Rightarrow> Some (Inl (if buffer @ chunk = [] then ErrClosed
                                  else LineFailed (err CodeInvalidArgument ''request ended before its newline'')), Suc n)
                 | ReadFailed cause \<Rightarrow> Some (Inl (LineFailed cause), Suc n))))"

function utf8_Valid :: "string \<Rightarrow> bool" where
  "utf8_Valid s = (if s = [] then True
     else case DecodeRune s of (r, width) \<Rightarrow>
       if r = RuneError \<and> width \<le> 1 then False else utf8_Valid (drop (max 1 width) s))"
  by pat_completeness auto

termination
  by (relation "measure length") auto

declare utf8_Valid.simps [simp del]

definition DecodeRequest :: "JsonLib \<Rightarrow> string \<Rightarrow> goerr + RPCRequest" where
  "DecodeRequest js line =
     (if \<not> utf8_Valid line then Inl (err CodeInvalidArgument ''not UTF-8'')
      else case js_Decode js line of
        None \<Rightarrow> Inl (err CodeInvalidArgument ''not a JSON object'')
      | Some (request, at_end) \<Rightarrow>
          if \<not> at_end then Inl (err CodeInvalidArgument ''more than one object'')
          else if rq_RPCVersion request \<noteq> RPCVersion then Inl (err CodeUnsupportedCapability ''protocol version'')
          else if rq_RequestID request = [] then Inl (err CodeInvalidArgument ''empty request_id'')
          else if length (rq_RequestID request) > 128 then Inl (err CodeInvalidArgument ''request_id too long'')
          else if rq_Method request = [] then Inl (err CodeInvalidArgument ''empty method'')
          else Inr request)"

definition marshal_failed :: goerr where "marshal_failed = ForeignErr ''json'' []"
definition ErrShortWrite :: goerr where "ErrShortWrite = ForeignErr ''short write'' []"

definition marshal_or :: "JsonLib \<Rightarrow> Response \<Rightarrow> goerr + string" where
  "marshal_or js response = (case js_Marshal js response of None \<Rightarrow> Inl marshal_failed | Some data \<Rightarrow> Inr data)"

definition encode_response :: "JsonLib \<Rightarrow> Response \<Rightarrow> goerr + string" where
  "encode_response js response =
     (let failure = (\<lambda>message. marshal_or js (NewFailure (rs_RequestID response) (err CodeInvalidArgument message))) in
      case (case js_Marshal js response of None \<Rightarrow> failure ''response cannot be serialised'' | Some data \<Rightarrow> Inr data) of
        Inl e \<Rightarrow> Inl e
      | Inr encoded \<Rightarrow>
          (case (if length encoded + 1 > MaxResponseBytes then failure ''response too long'' else Inr encoded) of
             Inl e \<Rightarrow> Inl e
           | Inr encoded \<Rightarrow>
               if CHR 0x0A \<in> set encoded then Inl (err CodeInvalidArgument ''newline in response'')
               else Inr (encoded @ [CHR 0x0A])))"

text \<open>The loop of \<open>WriteResponse\<close>; the answer carries what reached the peer.\<close>

partial_function (option) write_frame :: "writer \<Rightarrow> nat \<Rightarrow> string \<Rightarrow> string \<Rightarrow> (string \<times> goerr option) option" where
  "write_frame w n frame sent =
     (if frame = [] then Some (sent, None)
      else let written = fst (w n frame) in
        case snd (w n frame) of
          Some e \<Rightarrow> Some (sent @ take written frame, Some e)
        | None \<Rightarrow> if written = 0 then Some (sent, Some ErrShortWrite)
            else write_frame w (Suc n) (drop written frame) (sent @ take written frame))"

definition WriteResponse :: "JsonLib \<Rightarrow> writer \<Rightarrow> Response \<Rightarrow> (string \<times> goerr option) option" where
  "WriteResponse js w response =
     (case encode_response js response of
        Inl e \<Rightarrow> Some ([], Some e)
      | Inr frame \<Rightarrow> write_frame w 0 frame [])"

definition respond :: "JsonLib \<Rightarrow> writer \<Rightarrow> 's \<Rightarrow> Response \<Rightarrow> ('s \<times> string \<times> goerr option) option" where
  "respond js w s response = (case WriteResponse js w response of None \<Rightarrow> None | Some (sent, e) \<Rightarrow> Some (s, sent, e))"

definition ServeConn :: "JsonLib \<Rightarrow> reader \<Rightarrow> writer \<Rightarrow> 's RPCRegistry \<Rightarrow> 's \<Rightarrow> ('s \<times> string \<times> goerr option) option" where
  "ServeConn js reads w r s =
     (case readLine reads MaxRequestBytes 0 [] of
        None \<Rightarrow> None
      | Some (Inl ErrClosed, _) \<Rightarrow> Some (s, [], None)
      | Some (Inl (LineFailed e), _) \<Rightarrow> respond js w s (NewFailure [] e)
      | Some (Inr line, _) \<Rightarrow>
          (case DecodeRequest js line of
             Inl e \<Rightarrow> respond js w s (NewFailure [] e)
           | Inr request \<Rightarrow> (case RPC_Dispatch r request s of (s, response) \<Rightarrow> respond js w s response)))"

end
