(* ===== verification/Control_Props.thy ===== *)
theory Control_Props
  imports Control_Model
begin

text \<open>
  A connection is always answered or dropped, with one frame at most, whatever the peer sends; and what
  an error tells the peer is exactly what this program wrote for a person.
\<close>

subsection \<open>Reading a line\<close>

text \<open>What \<open>bufio.Reader\<close> and \<open>io.Writer\<close> promise.\<close>

definition buffered :: "reader \<Rightarrow> bool" where
  "buffered reads \<longleftrightarrow> (\<forall>n. snd (reads n) = Some ErrBufferFull \<longrightarrow> fst (reads n) \<noteq> [])"

definition honest_writer :: "writer \<Rightarrow> bool" where
  "honest_writer w \<longleftrightarrow> (\<forall>n frame. fst (w n frame) \<le> length frame)"

lemma readLine_returns:
  assumes "buffered reads" and "length buffer \<le> limit"
  shows "\<exists>r m. readLine reads limit n buffer = Some (r, m) \<and> m \<le> n + (limit - length buffer) + 1 \<and>
    (case r of Inr line \<Rightarrow> length line \<le> limit | Inl _ \<Rightarrow> True)"
  using assms(2)
proof (induction "limit - length buffer" arbitrary: n buffer rule: less_induct)
  case less
  let ?chunk = "fst (reads n)"
  have trim: "length (trim_newlines s) \<le> length s" for s
    using length_dropWhile_le [of "(=) (CHR 0x0A)" "rev s"] by (simp add: trim_newlines_def)
  show ?case
  proof (cases "length buffer + length ?chunk \<le> limit \<and> snd (reads n) = Some ErrBufferFull")
    case True
    then have "?chunk \<noteq> []" using assms(1) by (simp add: buffered_def)
    then have "limit - length (buffer @ ?chunk) < limit - length buffer" "length (buffer @ ?chunk) \<le> limit"
      using True by (cases ?chunk; simp)+
    from less.hyps [OF this, of "Suc n"] this True show ?thesis
      by (subst readLine.simps) (fastforce simp: Let_def)
  next
    case False
    then show ?thesis using less.prems trim [of "buffer @ ?chunk"]
      by (subst readLine.simps) (auto simp: Let_def split: option.split ReadErr.split)
  qed
qed

lemma write_frame_returns:
  assumes "honest_writer w"
  shows "\<exists>out e. write_frame w n frame sent = Some (sent @ out, e) \<and> prefix out frame \<and> (e = None \<longrightarrow> out = frame)"
proof (induction "length frame" arbitrary: n frame sent rule: less_induct)
  case less
  show ?case
  proof (cases "frame = [] \<or> fst (w n frame) = 0 \<or> snd (w n frame) \<noteq> None")
    case True
    then show ?thesis by (subst write_frame.simps) (auto simp: Let_def take_is_prefix split: option.split)
  next
    case False
    then have "length (drop (fst (w n frame)) frame) < length frame" by simp
    from less [OF this, of "Suc n" "sent @ take (fst (w n frame)) frame"]
    obtain out e where "write_frame w (Suc n) (drop (fst (w n frame)) frame) (sent @ take (fst (w n frame)) frame) =
        Some ((sent @ take (fst (w n frame)) frame) @ out, e)" "prefix out (drop (fst (w n frame)) frame)"
        "e = None \<longrightarrow> out = drop (fst (w n frame)) frame" by blast
    moreover from this(2) have "prefix (take (fst (w n frame)) frame @ out) frame"
      by (metis append_take_drop_id same_prefix_prefix)
    ultimately show ?thesis using False
      by (subst write_frame.simps) (auto simp: Let_def intro!: exI [of _ "take (fst (w n frame)) frame @ out"])
  qed
qed

subsection \<open>One connection\<close>

text \<open>
  What is relied on of \<open>encoding/json\<close>: the failure that replaces a reply is encoded, and small enough for
  one frame, when its request id is no longer than a request may carry.
\<close>

definition failures_fit :: "JsonLib \<Rightarrow> bool" where
  "failures_fit js \<longleftrightarrow> (\<forall>i m. length i \<le> 128 \<longrightarrow>
     (case js_Marshal js (NewFailure i (err CodeInvalidArgument m)) of
        None \<Rightarrow> False | Some d \<Rightarrow> length m \<le> 64 \<longrightarrow> length d + 1 \<le> MaxResponseBytes))"

definition one_frame :: "string \<Rightarrow> bool" where
  "one_frame frame \<longleftrightarrow> length frame \<le> MaxResponseBytes \<and> (\<exists>body. frame = body @ [CHR 0x0A] \<and> CHR 0x0A \<notin> set body)"

lemma encode_response_frame:
  assumes "failures_fit js" and "length (rs_RequestID response) \<le> 128"
  shows "case encode_response js response of Inl e \<Rightarrow> True | Inr frame \<Rightarrow> one_frame frame"
proof -
  have small: "length d + 1 \<le> MaxResponseBytes"
    if "js_Marshal js (NewFailure (rs_RequestID response) (err CodeInvalidArgument m)) = Some d" "length m \<le> 64" for m d
    using assms that by (auto simp: failures_fit_def split: option.splits dest: spec2 [of _ "rs_RequestID response" m])
  show ?thesis using small [of "''response cannot be serialised''"] small [of "''response too long''"]
    by (auto simp: encode_response_def marshal_or_def one_frame_def Let_def split: option.splits sum.splits if_splits)
qed

lemma DecodeRequest_id: "DecodeRequest js line = Inr request \<Longrightarrow> length (rq_RequestID request) \<le> 128"
  by (auto simp: DecodeRequest_def split: if_splits option.splits prod.splits)

lemma NewFailure_id [simp]: "rs_RequestID (NewFailure i e) = i"
  by (simp add: NewFailure_def)

lemma RPC_Dispatch_id: "rs_RequestID (snd (RPC_Dispatch r request s)) = rq_RequestID request"
  by (auto simp: RPC_Dispatch_def NewSuccess_def split: option.split prod.split sum.split)

lemma RPC_Dispatch_state:
  "fst (RPC_Dispatch r request s) = s \<or>
   (\<exists>kind h. (rq_Method request, kind) \<in> set catalogue \<and> map_of (rr_handlers r) (rq_Method request) = Some h \<and>
      fst (RPC_Dispatch r request s) = fst (h (rq_Params request) s))"
proof -
  have found: "(rq_Method request, snd m) \<in> set catalogue \<and> fst m = rq_Method request"
    if "Method_Lookup (rq_Method request) = Some m" for m
    using that unfolding Method_Lookup_def by (metis (mono_tags, lifting) find_Some_iff nth_mem prod.collapse)
  show ?thesis
  proof (cases "Method_Lookup (rq_Method request)")
    case None
    then show ?thesis by (simp add: RPC_Dispatch_def)
  next
    case (Some m)
    show ?thesis
    proof (cases "map_of (rr_handlers r) (rq_Method request)")
      case None
      then show ?thesis using Some found [OF Some] by (simp add: RPC_Dispatch_def)
    next
      case (Some h)
      have "fst (RPC_Dispatch r request s) = fst (h (rq_Params request) s)"
        using Some \<open>Method_Lookup _ = Some m\<close> found [of m] by (simp add: RPC_Dispatch_def split: prod.split sum.split)
      then show ?thesis using Some found [OF \<open>Method_Lookup _ = Some m\<close>] by blast
    qed
  qed
qed

lemma respond_returns:
  assumes "honest_writer w" and "failures_fit js" and "length (rs_RequestID response) \<le> 128"
  shows "\<exists>sent e. respond js w s response = Some (s, sent, e) \<and>
    (sent = [] \<or> (\<exists>frame. one_frame frame \<and> prefix sent frame)) \<and> (e = None \<longrightarrow> one_frame sent)"
proof (cases "encode_response js response")
  case (Inl e)
  then show ?thesis by (simp add: respond_def WriteResponse_def)
next
  case (Inr frame)
  then have "one_frame frame" using encode_response_frame [OF assms(2,3)] by simp
  moreover obtain out e where "write_frame w 0 frame [] = Some (out, e)" "prefix out frame" "e = None \<longrightarrow> out = frame"
    using write_frame_returns [OF assms(1), of 0 frame "[]"] by auto
  ultimately show ?thesis using Inr by (auto simp: respond_def WriteResponse_def)
qed

lemma ServeConn_cases:
  assumes "readLine reads MaxRequestBytes 0 [] = Some (result, m)"
  obtains (closed) "ServeConn js reads w r s = Some (s, [], None)"
    | (refused) e where "ServeConn js reads w r s = respond js w s (NewFailure [] e)"
    | (handled) request where "ServeConn js reads w r s = (case RPC_Dispatch r request s of (s', response) \<Rightarrow> respond js w s' response)"
      "length (rq_RequestID request) \<le> 128"
proof (cases result)
  case (Inl e)
  show ?thesis
  proof (cases e)
    case ErrClosed
    show ?thesis by (rule closed) (simp add: ServeConn_def assms Inl ErrClosed)
  next
    case (LineFailed f)
    show ?thesis by (rule refused [of f]) (simp add: ServeConn_def assms Inl LineFailed)
  qed
next
  case read: (Inr body)
  show ?thesis
  proof (cases "DecodeRequest js body")
    case (Inl e)
    show ?thesis by (rule refused [of e]) (simp add: ServeConn_def assms read Inl)
  next
    case (Inr request)
    show ?thesis
      by (rule handled [of request]) (simp_all add: ServeConn_def assms read Inr DecodeRequest_id [OF Inr])
  qed
qed

lemma ServeConn_returns:
  assumes "honest_writer w" and "failures_fit js" and "readLine reads MaxRequestBytes 0 [] = Some (result, m)"
  shows "\<exists>s' sent e. ServeConn js reads w r s = Some (s', sent, e) \<and>
      (sent = [] \<or> (\<exists>frame. one_frame frame \<and> prefix sent frame)) \<and>
      (e = None \<longrightarrow> sent = [] \<or> one_frame sent) \<and>
      (s' = s \<or> (\<exists>name kind h params. (name, kind) \<in> set catalogue \<and> map_of (rr_handlers r) name = Some h \<and>
         s' = fst (h params s)))"
  using assms(3)
proof (cases rule: ServeConn_cases [where js = js and w = w and r = r and s = s])
  case closed
  then show ?thesis by simp
next
  case (refused e)
  then show ?thesis using respond_returns [OF assms(1,2), of "NewFailure [] e" s] by auto
next
  case (handled request)
  obtain s' response where d: "RPC_Dispatch r request s = (s', response)" by fastforce
  then have "length (rs_RequestID response) \<le> 128" using RPC_Dispatch_id [of r request s] handled(2) by simp
  from respond_returns [OF assms(1,2) this, of s'] obtain sent e where "respond js w s' response = Some (s', sent, e)"
      "sent = [] \<or> (\<exists>frame. one_frame frame \<and> prefix sent frame)" "e = None \<longrightarrow> sent = [] \<or> one_frame sent"
    by auto
  moreover have "s' = s \<or> (\<exists>name kind h params. (name, kind) \<in> set catalogue \<and> map_of (rr_handlers r) name = Some h \<and>
      s' = fst (h params s))"
    using RPC_Dispatch_state [of r request s] unfolding d fst_conv by blast
  ultimately show ?thesis unfolding handled(1) d prod.case by blast
qed


subsection \<open>What an error tells the peer\<close>

text \<open>An error with every text that is not this program's own erased.\<close>

fun redact :: "goerr \<Rightarrow> goerr" where
  "redact (SingleErr e causes) = SingleErr e (map redact causes)"
| "redact (ForeignErr t causes) = ForeignErr [] (map redact causes)"
| "redact e = e"

lemma redact_classes:
  "asErrorSet (redact e) = asErrorSet e" "asErrorSets (map redact es) = asErrorSets es"
  by (induction e and es rule: asErrorSet_asErrorSets.induct) (simp_all split: option.split)

lemma redact_single:
  "asError (redact e) = asError e" "asErrors (map redact es) = asErrors es"
  by (induction e and es rule: asError_asErrors.induct) (simp_all split: list.split option.split)

lemma redact_sentinel:
  assumes "target \<in> {ContextCanceled, ContextDeadlineExceeded, OsDeadlineExceeded}"
  shows "errors_Is (redact e) target = errors_Is e target"
    and "errors_Is_any (map redact es) target = errors_Is_any es target"
  using assms by (induction e target and es target rule: errors_Is_errors_Is_any.induct) auto

lemma classify_redact: "classify (redact e) = classify e"
  unfolding classify_def redact_classes(1) redact_single(1)
  by (subst redact_sentinel(1), simp)+ (rule refl)

lemma code_string_inject [simp]: "code_string c = code_string d \<longleftrightarrow> c = d"
proof
  assume *: "code_string c = code_string d"
  have inj: "inj_on code_string {CodeInvalidArgument, CodeInvalidConfig, CodeConflict, CodeBusy, CodeNotFound,
      CodeServiceStopped, CodeCancelled, CodeDeadlineExceeded, CodeBindingUnavailable, CodeBindingChanged,
      CodeDNSFailure, CodeTransportFailure, CodeTLSFailure, CodePortalHTMLResponse, CodeProtocolInvalid,
      CodeAuthRejected, CodeOnlineIdentityMismatch, CodeRecoveryRequired, CodeUnsupportedCapability,
      CodeChecksumMismatch, CodePackageIncompatible, CodeInstallFailed, CodeInternal}" (is "inj_on _ ?all")
    by (simp add: code_string_def)
  have all: "c \<in> ?all" for c by (cases c) simp_all
  from inj * all [of c] all [of d] show "c = d" by (rule inj_onD)
qed simp

lemma classify_details: "set (snd (snd (classify e))) \<subseteq> {(''field'', f) | f. f \<noteq> []}"
proof (cases "asErrorSet e")
  case None
  then show ?thesis by (auto simp: classify_def split: option.split)
next
  case (Some found)
  obtain code items where found: "found = (code, items)" by fastforce
  have "f \<noteq> []" if "Errors_Fields items = f # fs" for f fs
  proof -
    have "f \<in> set (Errors_Fields items)" using that by simp
    then show ?thesis unfolding Errors_Fields_def by simp
  qed
  then show ?thesis using Some found by (auto simp: classify_def split: list.split dest: sym)
qed



subsection \<open>A concrete connection\<close>

text \<open>
  A library that reads \<open>g\<close> as a request and writes the code of a failure; a peer whose request arrives in
  two chunks and who reads two bytes at a time; a counting handler.
\<close>

definition demo_js :: JsonLib where
  "demo_js = \<lparr>js_Decode = (\<lambda>l. if l = ''g'' then Some (\<lparr>rq_RPCVersion = 1, rq_RequestID = ''r'', rq_Method = ''status.get'', rq_Params = ''null''\<rparr>, True) else None),
     js_Marshal = (\<lambda>r. Some (if rs_OK r then rs_Result r else ''e''))\<rparr>"

definition demo_reads :: "string \<Rightarrow> reader" where
  "demo_reads c n = (if n = 0 then (c, Some ErrBufferFull) else ([CHR 0x0A], None))"

definition demo_writer :: writer where
  "demo_writer n frame = (min 2 (length frame), None)"

definition demo_registry :: "nat RPCRegistry" where
  "demo_registry = \<lparr>rr_handlers = [(''status.get'', \<lambda>params s. (Suc s, Inr (Some ''41'')))]\<rparr>"


end
