(* ===== verification/Wifi_Choice.thy ===== *)
theory Wifi_Choice
  imports Config_Normalize "HOL-Library.Word"
begin

unbundle bit_operations_syntax

text \<open>
  Which access point a wireless account joins: \<open>wifi/security.go\<close> and \<open>wifi/select.go\<close>. A \<open>Security\<close> is
  the set of bits of an \<open>uint8\<close>. A refusal is a problem of this program together with the diagnosis its
  message gives, one constructor per message of the source. \<open>strings.EqualFold\<close> is exact on ASCII strings
  and follows the Unicode folding (the argument \<open>fold\<close>) on others; case mapping is as in
  \<open>Config_Normalize\<close>. \<open>slices.SortFunc\<close> is insertion sort; Go leaves the order of equal elements open, and
  nothing proved below depends on it.
\<close>

subsection \<open>Security sets\<close>

type_synonym Security = "8 word"

definition SecurityUnknown :: Security where "SecurityUnknown = 0"
definition SecurityOpen :: Security where "SecurityOpen = 1"
definition SecurityWEP :: Security where "SecurityWEP = 2"
definition SecurityPSK :: Security where "SecurityPSK = 4"
definition SecuritySAE :: Security where "SecuritySAE = 8"
definition SecurityEnterprise :: Security where "SecurityEnterprise = 16"

lemmas security_bits = SecurityUnknown_def SecurityOpen_def SecurityWEP_def SecurityPSK_def SecuritySAE_def SecurityEnterprise_def

definition Protected :: "Security \<Rightarrow> bool" where
  "Protected s \<longleftrightarrow> s AND (SecurityWEP OR SecurityPSK OR SecuritySAE OR SecurityEnterprise) \<noteq> 0"

definition Accepts :: "Security \<Rightarrow> Security \<Rightarrow> bool" where
  "Accepts s offered \<longleftrightarrow> s AND offered \<noteq> 0"

definition before_plus :: "string \<Rightarrow> string" where
  "before_plus v = takeWhile (\<lambda>c. c \<noteq> CHR ''+'') v"

definition ParseSecurity :: "CaseTables \<Rightarrow> string \<Rightarrow> Security" where
  "ParseSecurity tables encryption =
     (let v = before_plus (ToLower tables (TrimSpace encryption)) in
      if v \<in> {[], ''none''} then SecurityOpen
      else if v = ''owe'' then SecurityOpen
      else if v \<in> {''wep'', ''wep-open'', ''wep-shared''} then SecurityWEP
      else if v \<in> {''psk'', ''psk2'', ''psk-mixed''} then SecurityPSK
      else if v = ''sae'' then SecuritySAE
      else if v = ''sae-mixed'' then SecurityPSK OR SecuritySAE
      else if v \<in> {''wpa'', ''wpa2'', ''wpa-mixed''} then SecurityEnterprise
      else if v \<in> {''wpa3'', ''wpa3-mixed''} then SecurityEnterprise
      else SecurityUnknown)"

definition suite_bit :: "CaseTables \<Rightarrow> string \<Rightarrow> Security" where
  "suite_bit tables suite =
     (let v = ToLower tables (TrimSpace suite) in
      if v = ''psk'' then SecurityPSK
      else if v = ''sae'' then SecuritySAE
      else if v \<in> {''802.1x'', ''8021x'', ''eap''} then SecurityEnterprise
      else if v \<in> {''none'', ''open''} then SecurityOpen
      else if v = ''owe'' then SecurityOpen
      else 0)"

definition ClassifyScan :: "CaseTables \<Rightarrow> bool \<Rightarrow> string list \<Rightarrow> int list \<Rightarrow> Security" where
  "ClassifyScan tables enabled authSuites wpaVersions =
     (if \<not> enabled then SecurityOpen
      else
        let found = fold (\<lambda>suite found. found OR suite_bit tables suite) authSuites 0 in
        if found \<noteq> SecurityUnknown then found
        else if wpaVersions = [] then SecurityWEP else SecurityUnknown)"

subsection \<open>Candidates, targets, decisions\<close>

definition UnassociatedBSSID :: string where "UnassociatedBSSID = ''00:00:00:00:00:00''"

definition EqualFold :: "(string \<Rightarrow> string \<Rightarrow> bool) \<Rightarrow> string \<Rightarrow> string \<Rightarrow> bool" where
  "EqualFold eq a b = (if ascii a \<and> ascii b then map lower_char a = map lower_char b else eq a b)"

record Candidate =
  cn_SSID :: string
  cn_BSSID :: string
  cn_Signal :: int
  cn_Security :: Security
  cn_Radio :: string

definition zero_candidate :: Candidate where
  "zero_candidate = \<lparr>cn_SSID = [], cn_BSSID = [], cn_Signal = 0, cn_Security = 0, cn_Radio = []\<rparr>"

definition Measured :: "Candidate \<Rightarrow> bool" where
  "Measured c \<longleftrightarrow> cn_Signal c < 0"

record WifiTarget =
  wt_SSID :: string
  wt_Security :: Security
  wt_Policy :: string
  wt_PinnedBSSID :: string

record Decision =
  dc_SSID :: string
  dc_BSSID :: string
  dc_Pinned :: bool
  dc_Chosen :: Candidate

datatype Diagnosis =
    NoSSIDConfigured | UnrecognisedEncryption | UnknownPolicy | NoFixedBSSID
  | NameNotSeen | OnlyOpenSeen | OtherSecuritySeen Security
  | FixedOtherName string | FixedOtherSecurity Security | FixedNotSeen

type_synonym wifi_error = "gerror \<times> Diagnosis"

definition Target_Matches :: "WifiTarget \<Rightarrow> Candidate \<Rightarrow> bool" where
  "Target_Matches t c \<longleftrightarrow> cn_SSID c = wt_SSID t \<and> Accepts (wt_Security t) (cn_Security c)"

definition NeedsScan :: "WifiTarget \<Rightarrow> bool" where
  "NeedsScan t \<longleftrightarrow> wt_Policy t \<noteq> APSelectionAuto"

fun matches :: "WifiTarget \<Rightarrow> Candidate list \<Rightarrow> Candidate list" where
  "matches target [] = []"
| "matches target (c # cs) = (if Target_Matches target c then c # matches target cs else matches target cs)"

definition noCandidate :: "WifiTarget \<Rightarrow> Candidate list \<Rightarrow> wifi_error" where
  "noCandidate target candidates =
     (let sameName = filter (\<lambda>c. cn_SSID c = wt_SSID target) candidates in
      if sameName = [] then (Errorf CodeNotFound, NameNotSeen)
      else
        let offered = fold (\<lambda>c offered. offered OR cn_Security c) sameName SecurityUnknown in
        if Protected (wt_Security target) \<and> \<not> Protected offered then (Errorf CodeNotFound, OnlyOpenSeen)
        else (Errorf CodeNotFound, OtherSecuritySeen offered))"

subsection \<open>The strongest access point\<close>

definition cmp_int :: "int \<Rightarrow> int \<Rightarrow> int" where
  "cmp_int a b = (if a < b then -1 else if a > b then 1 else 0)"

definition cmp_string :: "string \<Rightarrow> string \<Rightarrow> int" where
  "cmp_string a b = (if bytes_key a < bytes_key b then -1 else if bytes_key a > bytes_key b then 1 else 0)"

definition byStrength :: "Candidate \<Rightarrow> Candidate \<Rightarrow> int" where
  "byStrength a b =
     (if Measured a \<noteq> Measured b then (if Measured a then -1 else 1)
      else if cn_Signal a \<noteq> cn_Signal b then cmp_int (cn_Signal b) (cn_Signal a)
      else cmp_string (cn_BSSID a) (cn_BSSID b))"

fun insert_by :: "('a \<Rightarrow> 'a \<Rightarrow> int) \<Rightarrow> 'a \<Rightarrow> 'a list \<Rightarrow> 'a list" where
  "insert_by cmp x [] = [x]"
| "insert_by cmp x (y # ys) = (if cmp x y \<le> 0 then x # y # ys else y # insert_by cmp x ys)"

definition SortFunc :: "('a \<Rightarrow> 'a \<Rightarrow> int) \<Rightarrow> 'a list \<Rightarrow> 'a list" where
  "SortFunc cmp xs = foldr (insert_by cmp) xs []"

definition selectStrongest :: "WifiTarget \<Rightarrow> Candidate list \<Rightarrow> wifi_error + Decision" where
  "selectStrongest target candidates =
     (case SortFunc byStrength (matches target candidates) of
        [] \<Rightarrow> Inl (noCandidate target candidates)
      | best # _ \<Rightarrow> Inr \<lparr>dc_SSID = wt_SSID target, dc_BSSID = cn_BSSID best, dc_Pinned = True, dc_Chosen = best\<rparr>)"

subsection \<open>The fixed access point\<close>

definition selectFixed :: "CaseTables \<Rightarrow> (string \<Rightarrow> string \<Rightarrow> bool) \<Rightarrow> WifiTarget \<Rightarrow> Candidate list \<Rightarrow> wifi_error + Decision" where
  "selectFixed tables eq target candidates =
     (let pinned = ToLower tables (TrimSpace (wt_PinnedBSSID target)) in
      if pinned = [] \<or> pinned = UnassociatedBSSID then Inl (FieldErrorf CodeInvalidConfig ''bssid'', NoFixedBSSID)
      else case find (\<lambda>c. EqualFold eq (cn_BSSID c) pinned) (matches target candidates) of
        Some c \<Rightarrow> Inr \<lparr>dc_SSID = wt_SSID target, dc_BSSID = pinned, dc_Pinned = True, dc_Chosen = c\<rparr>
      | None \<Rightarrow>
          (case find (\<lambda>c. EqualFold eq (cn_BSSID c) pinned) candidates of
             None \<Rightarrow> Inl (Errorf CodeNotFound, FixedNotSeen)
           | Some c \<Rightarrow>
               if cn_SSID c \<noteq> wt_SSID target then Inl (Errorf CodeNotFound, FixedOtherName (cn_SSID c))
               else Inl (Errorf CodeNotFound, FixedOtherSecurity (cn_Security c))))"

definition Select :: "CaseTables \<Rightarrow> (string \<Rightarrow> string \<Rightarrow> bool) \<Rightarrow> WifiTarget \<Rightarrow> Candidate list \<Rightarrow> wifi_error + Decision" where
  "Select tables eq target candidates =
     (if wt_SSID target = [] then Inl (FieldErrorf CodeInvalidConfig ''ssid'', NoSSIDConfigured)
      else if wt_Security target = SecurityUnknown
      then Inl (FieldErrorf CodeInvalidConfig ''encryption'', UnrecognisedEncryption)
      else if wt_Policy target = APSelectionAuto
      then Inr \<lparr>dc_SSID = wt_SSID target, dc_BSSID = [], dc_Pinned = False, dc_Chosen = zero_candidate\<rparr>
      else if wt_Policy target = APSelectionStrongest then selectStrongest target candidates
      else if wt_Policy target = APSelectionFixed then selectFixed tables eq target candidates
      else Inl (FieldErrorf CodeInvalidConfig ''ap_selection'', UnknownPolicy))"

subsection \<open>The association that is there already\<close>

record Association =
  as_SSID :: string
  as_BSSID :: string
  as_Encrypted :: bool
  as_HasIPv4 :: bool

definition Joined :: "(string \<Rightarrow> string \<Rightarrow> bool) \<Rightarrow> Association \<Rightarrow> bool" where
  "Joined eq a \<longleftrightarrow> as_SSID a \<noteq> [] \<and> as_BSSID a \<noteq> [] \<and> \<not> EqualFold eq (as_BSSID a) UnassociatedBSSID"

definition Satisfied :: "(string \<Rightarrow> string \<Rightarrow> bool) \<Rightarrow> WifiTarget \<Rightarrow> Association \<Rightarrow> bool" where
  "Satisfied eq t observed =
     (if \<not> Joined eq observed \<or> \<not> as_HasIPv4 observed then False
      else if as_SSID observed \<noteq> wt_SSID t then False
      else if Protected (wt_Security t) \<and> \<not> as_Encrypted observed then False
      else if wt_Policy t = APSelectionFixed then EqualFold eq (as_BSSID observed) (TrimSpace (wt_PinnedBSSID t))
      else True)"

definition ShouldReselect :: "(string \<Rightarrow> string \<Rightarrow> bool) \<Rightarrow> WifiTarget \<Rightarrow> Association \<Rightarrow> bool" where
  "ShouldReselect eq target observed \<longleftrightarrow> \<not> Satisfied eq target observed"

end
