(* ===== verification/Wifi_Choice_Props.thy ===== *)
theory Wifi_Choice_Props
  imports Wifi_Choice "HOL-Library.Product_Lexorder" "HOL-Library.Multiset"
begin

unbundle bit_operations_syntax

text \<open>
  What the choice of an access point guarantees: no downgrade to an open network, the strongest measured
  candidate, and an answer that does not depend on the order of the scan.
\<close>

subsection \<open>The order of strength\<close>

definition rank :: "Candidate \<Rightarrow> nat \<times> int \<times> nat list" where
  "rank c = (if Measured c then 0 else 1, - cn_Signal c, bytes_key (cn_BSSID c))"

lemma byStrength_rank: "byStrength a b \<le> 0 \<longleftrightarrow> rank a \<le> rank b"
  by (auto simp: byStrength_def rank_def cmp_int_def cmp_string_def less_eq_prod_def not_less)

lemma insert_by_set: "set (insert_by cmp x xs) = insert x (set xs)"
  by (induction xs) auto

lemma insert_by_hd: "\<exists>y ys. insert_by cmp x xs = y # ys"
  by (cases xs) auto

lemma insert_by_sorted:
  "sorted_wrt (\<lambda>a b. rank a \<le> rank b) xs \<Longrightarrow> sorted_wrt (\<lambda>a b. rank a \<le> rank b) (insert_by byStrength x xs)"
proof (induction xs)
  case (Cons y ys)
  then show ?case
    by (auto simp: byStrength_rank insert_by_set not_le intro: order_trans less_imp_le)
qed simp

lemma SortFunc_set: "set (SortFunc cmp xs) = set xs"
  by (induction xs) (simp_all add: SortFunc_def insert_by_set)

lemma SortFunc_sorted: "sorted_wrt (\<lambda>a b. rank a \<le> rank b) (SortFunc byStrength xs)"
  by (induction xs) (simp_all add: SortFunc_def insert_by_sorted)

lemma SortFunc_best:
  assumes "SortFunc byStrength xs = best # rest"
  shows "best \<in> set xs" and "c \<in> set xs \<Longrightarrow> rank best \<le> rank c"
proof -
  have "set xs = insert best (set rest)" using SortFunc_set [of byStrength xs] assms by simp
  moreover have "r \<in> set rest \<Longrightarrow> rank best \<le> rank r" for r
    using SortFunc_sorted [of xs] assms by simp
  ultimately show "best \<in> set xs" and "c \<in> set xs \<Longrightarrow> rank best \<le> rank c" by auto
qed

lemma matches_filter: "matches target cs = filter (Target_Matches target) cs"
  by (induction cs) auto

lemma selectStrongest_cases:
  obtains (none) "filter (Target_Matches t) cs = []" "selectStrongest t cs = Inl (noCandidate t cs)"
  | (best) best where "best \<in> set cs" "Target_Matches t best"
      "\<And>c. c \<in> set cs \<Longrightarrow> Target_Matches t c \<Longrightarrow> rank best \<le> rank c"
      "selectStrongest t cs = Inr \<lparr>dc_SSID = wt_SSID t, dc_BSSID = cn_BSSID best, dc_Pinned = True, dc_Chosen = best\<rparr>"
proof (cases "SortFunc byStrength (matches t cs)")
  case Nil
  then have "matches t cs = []" using SortFunc_set [of byStrength "matches t cs"] by auto
  then show ?thesis using Nil by (intro none) (simp_all add: matches_filter selectStrongest_def)
next
  case (Cons b bs)
  note top = SortFunc_best [OF Cons]
  show ?thesis
    by (rule best [of b]) (use top in \<open>simp_all add: matches_filter selectStrongest_def Cons [unfolded matches_filter]\<close>)
qed

lemma selectFixed_cases:
  obtains (refused) e where "selectFixed tables eq t cs = Inl e"
  | (found) c where "c \<in> set cs" "Target_Matches t c" "EqualFold eq (cn_BSSID c) (ToLower tables (TrimSpace (wt_PinnedBSSID t)))"
      "selectFixed tables eq t cs = Inr \<lparr>dc_SSID = wt_SSID t, dc_BSSID = ToLower tables (TrimSpace (wt_PinnedBSSID t)), dc_Pinned = True, dc_Chosen = c\<rparr>"
proof (cases "selectFixed tables eq t cs")
  case (Inl e)
  then show ?thesis by (rule refused)
next
  case (Inr d)
  then obtain c where "find (\<lambda>c. EqualFold eq (cn_BSSID c) (ToLower tables (TrimSpace (wt_PinnedBSSID t)))) (matches t cs) = Some c"
      "d = \<lparr>dc_SSID = wt_SSID t, dc_BSSID = ToLower tables (TrimSpace (wt_PinnedBSSID t)), dc_Pinned = True, dc_Chosen = c\<rparr>"
    by (auto simp: selectFixed_def Let_def split: if_splits option.splits)
  then show ?thesis using Inr
    by (intro found [of c]) (auto simp: matches_filter find_Some_iff dest: nth_mem)
qed

subsection \<open>No downgrade\<close>

lemma bits_disjoint:
  "SecurityOpen AND (SecurityWEP OR SecurityPSK OR SecuritySAE OR SecurityEnterprise) = 0"
  by (simp add: security_bits)

lemma ParseSecurity_values:
  "ParseSecurity tables e \<in> {SecurityUnknown, SecurityOpen, SecurityWEP, SecurityPSK, SecuritySAE, SecurityPSK OR SecuritySAE, SecurityEnterprise}"
  by (simp add: ParseSecurity_def Let_def)

lemma ParseSecurity_Protected:
  assumes "Protected (ParseSecurity tables e)" and "Accepts (ParseSecurity tables e) offered"
  shows "Protected offered"
proof -
  let ?mask = "SecurityWEP OR SecurityPSK OR SecuritySAE OR SecurityEnterprise"
  have "ParseSecurity tables e AND ?mask = ParseSecurity tables e"
    using ParseSecurity_values [of tables e] assms(1) by (auto simp: security_bits Protected_def)
  then have "ParseSecurity tables e AND offered = ParseSecurity tables e AND (?mask AND offered)"
    by (metis and.assoc)
  then have "?mask AND offered \<noteq> 0" using assms(2) by (auto simp: Accepts_def)
  then show ?thesis by (simp add: Protected_def and.commute)
qed

text \<open>
  C32: no downgrade, and the strongest one. When an access point is chosen for an account, it was in the scan,
  carries the account's name and shares a way of authenticating with it; an account whose configured
  encryption needs a credential is never sent to a network that needs none, however strong it is. Under
  \<open>strongest\<close> no other matching candidate has a usable better signal, an unmeasured one is chosen only when
  every matching one is unmeasured; under \<open>fixed\<close> the answer is the pinned access point and nothing else.
\<close>

theorem chosen_access_point_safe:
  assumes "wt_Security t = ParseSecurity tables e" and "Select tables eq t cs = Inr d"
  shows "dc_SSID d = wt_SSID t \<and> (if dc_Pinned d then
      dc_Chosen d \<in> set cs \<and> cn_SSID (dc_Chosen d) = wt_SSID t \<and> Accepts (wt_Security t) (cn_Security (dc_Chosen d)) \<and>
      (Protected (wt_Security t) \<longrightarrow> Protected (cn_Security (dc_Chosen d))) \<and>
      (if wt_Policy t = APSelectionStrongest then
         dc_BSSID d = cn_BSSID (dc_Chosen d) \<and>
         (\<forall>c \<in> set cs. Target_Matches t c \<longrightarrow>
            (Measured c \<longrightarrow> Measured (dc_Chosen d) \<and> cn_Signal c \<le> cn_Signal (dc_Chosen d)))
       else wt_Policy t = APSelectionFixed \<and> dc_BSSID d = ToLower tables (TrimSpace (wt_PinnedBSSID t)) \<and>
         EqualFold eq (cn_BSSID (dc_Chosen d)) (dc_BSSID d))
    else wt_Policy t = APSelectionAuto \<and> dc_BSSID d = [])"
proof -
  have safe: "Target_Matches t c \<Longrightarrow> Protected (wt_Security t) \<Longrightarrow> Protected (cn_Security c)" for c
    using ParseSecurity_Protected [of tables e] assms(1) by (simp add: Target_Matches_def)
  consider (auto) "wt_Policy t = APSelectionAuto" "d = \<lparr>dc_SSID = wt_SSID t, dc_BSSID = [], dc_Pinned = False, dc_Chosen = zero_candidate\<rparr>"
    | (strongest) "wt_Policy t = APSelectionStrongest" "selectStrongest t cs = Inr d"
    | (fixed) "wt_Policy t = APSelectionFixed" "wt_Policy t \<noteq> APSelectionStrongest" "selectFixed tables eq t cs = Inr d"
    using assms(2) by (auto simp: Select_def split: if_splits)
  then show ?thesis
  proof cases
    case auto
    then show ?thesis by simp
  next
    case strongest
    show ?thesis
    proof (cases rule: selectStrongest_cases [of t cs])
      case none
      then show ?thesis using strongest by simp
    next
      case (best b)
      have "Measured c \<longrightarrow> Measured b \<and> cn_Signal c \<le> cn_Signal b" if "c \<in> set cs" "Target_Matches t c" for c
        using best(3) [OF that] by (auto simp: rank_def less_eq_prod_def split: if_splits)
      then show ?thesis using best strongest safe [of b] by (auto simp: Target_Matches_def)
    qed
  next
    case fixed
    show ?thesis
    proof (cases rule: selectFixed_cases [of tables eq t cs])
      case (refused e)
      then show ?thesis using fixed by simp
    next
      case (found c)
      then show ?thesis using fixed safe [of c] by (auto simp: Target_Matches_def)
    qed
  qed
qed

subsection \<open>One scan, one answer\<close>

definition settled :: "wifi_error + Decision \<Rightarrow> gerror + string \<times> string \<times> bool" where
  "settled r = (case r of Inl e \<Rightarrow> Inl (fst e) | Inr d \<Rightarrow> Inr (dc_SSID d, dc_BSSID d, dc_Pinned d))"

lemma fst_noCandidate: "fst (noCandidate t cs) = Errorf CodeNotFound"
  by (simp add: noCandidate_def Let_def)

lemma settled_strongest:
  assumes "set cs = set cs'"
  shows "settled (selectStrongest t cs) = settled (selectStrongest t cs')"
proof (cases rule: selectStrongest_cases [of t cs])
  case none
  then have "filter (Target_Matches t) cs' = []" using assms by (simp add: filter_empty_conv)
  then have "selectStrongest t cs' = Inl (noCandidate t cs')"
    by (simp add: selectStrongest_def matches_filter SortFunc_def)
  then show ?thesis using none by (simp add: settled_def fst_noCandidate)
next
  case (best b)
  show ?thesis
  proof (cases rule: selectStrongest_cases [of t cs'])
    case none
    then show ?thesis using best assms by (auto simp: filter_empty_conv)
  next
    case best': (best b')
    have "rank b = rank b'" using best(1-3) best'(1-3) assms by (intro order_antisym) auto
    then have "cn_BSSID b = cn_BSSID b'"
      by (simp add: rank_def map_injective inj_on_def)
    then show ?thesis using best(4) best'(4) by (simp add: settled_def)
  qed
qed

lemma find_None_set: "find P xs = None \<longleftrightarrow> (\<forall>x \<in> set xs. \<not> P x)"
  by (auto simp: find_None_iff)

lemma find_Some_set: "find P xs = Some x \<Longrightarrow> x \<in> set xs \<and> P x"
  by (auto simp: find_Some_iff)

lemma settled_fixed:
  assumes "set cs = set cs'"
  shows "settled (selectFixed tables eq t cs) = settled (selectFixed tables eq t cs')"
proof -
  let ?p = "ToLower tables (TrimSpace (wt_PinnedBSSID t))"
  let ?r = "\<lambda>cs. if ?p = [] \<or> ?p = UnassociatedBSSID then Inl (FieldErrorf CodeInvalidConfig ''bssid'')
     else if \<exists>c \<in> set cs. Target_Matches t c \<and> EqualFold eq (cn_BSSID c) ?p then Inr (wt_SSID t, ?p, True)
     else Inl (Errorf CodeNotFound)"
  have "settled (selectFixed tables eq t cs) = ?r cs" for cs
  proof (cases "find (\<lambda>c. EqualFold eq (cn_BSSID c) ?p) (matches t cs)")
    case None
    then have no: "\<not> (\<exists>c \<in> set cs. Target_Matches t c \<and> EqualFold eq (cn_BSSID c) ?p)"
      by (auto simp: find_None_set matches_filter)
    then have "?r cs = (if ?p = [] \<or> ?p = UnassociatedBSSID then Inl (FieldErrorf CodeInvalidConfig ''bssid'') else Inl (Errorf CodeNotFound))"
      by (simp only: no if_False)
    moreover have "settled (selectFixed tables eq t cs) =
        (if ?p = [] \<or> ?p = UnassociatedBSSID then Inl (FieldErrorf CodeInvalidConfig ''bssid'') else Inl (Errorf CodeNotFound))"
      using None by (simp add: selectFixed_def settled_def Let_def split: option.split)
    ultimately show ?thesis by simp
  next
    case (Some c)
    then have "\<exists>c \<in> set cs. Target_Matches t c \<and> EqualFold eq (cn_BSSID c) ?p"
      using find_Some_set [OF Some] by (auto simp: matches_filter)
    with Some show ?thesis by (simp add: selectFixed_def settled_def Let_def)
  qed
  with assms show ?thesis by simp
qed

text \<open>
  C33: one scan, one answer. The network, the access point that is pinned and whether one is pinned, and the
  kind of refusal, depend only on which candidates were seen, not on the order or the number of times the
  radio listed them.
\<close>

theorem choice_ignores_scan_order:
  assumes "set cs = set cs'"
  shows "settled (Select tables eq t cs) = settled (Select tables eq t cs')"
  using settled_strongest [OF assms] settled_fixed [OF assms] by (simp add: Select_def settled_def)

subsection \<open>Instances\<close>

definition campus_scan :: "Candidate list" where
  "campus_scan =
    [\<lparr>cn_SSID = ''campus'', cn_BSSID = ''02:00:00:00:00:09'', cn_Signal = -30, cn_Security = SecurityOpen, cn_Radio = ''radio0''\<rparr>,
     \<lparr>cn_SSID = ''campus'', cn_BSSID = ''02:00:00:00:00:02'', cn_Signal = -50, cn_Security = SecurityPSK, cn_Radio = ''radio0''\<rparr>,
     \<lparr>cn_SSID = ''campus'', cn_BSSID = ''02:00:00:00:00:01'', cn_Signal = 0, cn_Security = SecurityPSK, cn_Radio = ''radio0''\<rparr>]"

definition ascii_tables :: CaseTables where
  "ascii_tables = \<lparr>cs_lower = (\<lambda>s. s), cs_upper = (\<lambda>s. s)\<rparr>"

definition psk_target :: WifiTarget where
  "psk_target = \<lparr>wt_SSID = ''campus'', wt_Security = SecurityPSK, wt_Policy = APSelectionStrongest, wt_PinnedBSSID = []\<rparr>"

lemma psk_choice: "Select ascii_tables (=) psk_target campus_scan =
    Inr \<lparr>dc_SSID = ''campus'', dc_BSSID = ''02:00:00:00:00:02'', dc_Pinned = True, dc_Chosen = campus_scan ! 1\<rparr>"
  by code_simp

lemma chosen_access_point_safe_witness:
  "Protected (cn_Security (campus_scan ! 1)) \<and> \<not> Protected (cn_Security (campus_scan ! 0)) \<and> campus_scan ! 1 \<in> set campus_scan"
proof -
  have "wt_Security psk_target = ParseSecurity ascii_tables ''psk2''" by code_simp
  moreover have "Protected (wt_Security psk_target)" by code_simp
  moreover have "\<not> Protected (cn_Security (campus_scan ! 0))" by code_simp
  ultimately show ?thesis using chosen_access_point_safe [OF _ psk_choice, of "''psk2''"] by simp
qed

lemma choice_ignores_scan_order_witness:
  "settled (Select ascii_tables (=) psk_target (rev campus_scan)) = Inr (''campus'', ''02:00:00:00:00:02'', True)"
  using choice_ignores_scan_order [of "rev campus_scan" campus_scan ascii_tables "(=)" psk_target]
  by (simp add: psk_choice settled_def)

end
