(* ===== verification/Auth_Model.thy ===== *)
theory Auth_Model
  imports Srun_Login Srun_Response Config_Normalize Domain_States "HOL-Library.State_Monad"
begin

text \<open>
  One authentication attempt against a gateway: \<open>auth/gateway.go\<close>, \<open>auth/result.go\<close>,
  \<open>auth/transaction.go\<close>. The transaction keeps no state of its own, so its operations are programs of the
  state monad over whatever world the caller has: the record \<open>AuthLine\<close> says how that world performs a
  request, reads the clock and names a callback. What the sources only call is an argument: \<open>encoding/json\<close>
  and \<open>net/url\<close> (the record \<open>AuthLib\<close>) and the digests (\<open>Digests\<close>). An error is a \<open>cause\<close>: a problem of this
  program at the head of its chain, or something else.
\<close>

subsection \<open>Errors of a worker\<close>

datatype cause = Problem gerror | Foreign

definition CodeOf :: "cause \<Rightarrow> ErrorCode option" where
  "CodeOf c = (case c of Problem e \<Rightarrow> Some (e_code e) | Foreign \<Rightarrow> None)"

abbreviation problem :: "ErrorCode \<Rightarrow> cause" where
  "problem c \<equiv> Problem (Errorf c)"

subsection \<open>Requests\<close>

record Gateway =
  gw_BaseURL :: string
  gw_ACID :: string

definition challengePath :: string where "challengePath = ''/cgi-bin/get_challenge''"
definition portalPath :: string where "portalPath = ''/cgi-bin/srun_portal''"
definition onlinePath :: string where "onlinePath = ''/cgi-bin/rad_user_info''"
definition logoutPath :: string where "logoutPath = ''/cgi-bin/rad_user_dm''"

record GatewayAnswer =
  ga_Error :: string
  ga_ErrorMsg :: string
  ga_ClientIP :: string
  ga_OnlineIP :: string
  ga_UserName :: string
  ga_Domain :: string
  ga_ResultValue :: string

record ChallengeAnswer =
  ch_Challenge :: string
  ch_ClientIP :: string
  ch_OnlineIP :: string

text \<open>
  \<open>al_ParseURL\<close> gives scheme and host of an absolute URL; \<open>al_RequestOK\<close> says whether a request can be built
  for a URL; \<open>al_scan\<close> is the JSON value scanner of the JSONP reader.
\<close>

record AuthLib =
  al_ParseURL :: "string \<Rightarrow> (string \<times> string) option"
  al_RequestOK :: "string \<Rightarrow> bool"
  al_scan :: "string \<Rightarrow> (string \<times> string) option"
  al_Answer :: "string \<Rightarrow> GatewayAnswer option"
  al_Challenge :: "string \<Rightarrow> ChallengeAnswer option"
  al_tables :: CaseTables
  al_fold :: "string \<Rightarrow> string \<Rightarrow> bool"

record Digests =
  dg_hmac_md5 :: "string \<Rightarrow> string \<Rightarrow> string"
  dg_sha1 :: "string \<Rightarrow> string"

definition ParseGateway :: "AuthLib \<Rightarrow> string \<Rightarrow> string \<Rightarrow> gerror + Gateway" where
  "ParseGateway lib baseURL acID =
     (let trimmed = TrimSpace baseURL in
      if trimmed = [] then Inl (FieldErrorf CodeInvalidConfig ''base_url'')
      else case al_ParseURL lib trimmed of
        None \<Rightarrow> Inl (FieldErrorf CodeInvalidConfig ''base_url'')
      | Some (scheme, host) \<Rightarrow>
          if scheme \<noteq> ''http'' \<and> scheme \<noteq> ''https'' then Inl (FieldErrorf CodeInvalidConfig ''base_url'')
          else if host = [] then Inl (FieldErrorf CodeInvalidConfig ''base_url'')
          else Inr \<lparr>gw_BaseURL = scheme @ ''://'' @ host, gw_ACID = TrimSpace acID\<rparr>)"

text \<open>\<open>url.Values\<close> with one value per key, and its \<open>Encode\<close>: sorted by key, both sides escaped.\<close>

definition unreserved :: "char \<Rightarrow> bool" where
  "unreserved c \<longleftrightarrow> (let n = of_char c :: nat in
     (97 \<le> n \<and> n \<le> 122) \<or> (65 \<le> n \<and> n \<le> 90) \<or> (48 \<le> n \<and> n \<le> 57) \<or> c \<in> set ''-_.~'')"

definition upper_hex :: "nat \<Rightarrow> char" where
  "upper_hex n = ''0123456789ABCDEF'' ! n"

definition escape_byte :: "char \<Rightarrow> string" where
  "escape_byte c =
     (if unreserved c then [c]
      else if c = CHR '' '' then ''+''
      else let n = of_char c :: nat in [CHR ''%'', upper_hex (n div 16), upper_hex (n mod 16)])"

definition QueryEscape :: "string \<Rightarrow> string" where
  "QueryEscape s = concat (map escape_byte s)"

definition encode_pair :: "string \<times> string \<Rightarrow> string" where
  "encode_pair kv = QueryEscape (fst kv) @ ''='' @ QueryEscape (snd kv)"

fun join_amp :: "string list \<Rightarrow> string" where
  "join_amp [] = []"
| "join_amp [p] = p"
| "join_amp (p # ps) = p @ ''&'' @ join_amp ps"

definition Values_Encode :: "(string \<times> string) list \<Rightarrow> string" where
  "Values_Encode query = join_amp (map encode_pair (sort_key (\<lambda>kv. bytes_key (fst kv)) query))"

definition challengeURL :: "Gateway \<Rightarrow> string \<Rightarrow> int \<Rightarrow> string \<Rightarrow> string" where
  "challengeURL g username milliseconds callback =
     gw_BaseURL g @ challengePath @ ''?'' @ Values_Encode
       [(''callback'', callback), (''username'', username), (''_'', FormatInt milliseconds)]"

record LoginParams =
  lp_callback :: string
  lp_username :: string
  lp_wirePassword :: string
  lp_ip :: string
  lp_checksum :: string
  lp_info :: string
  lp_n :: string
  lp_loginType :: string
  lp_os :: string
  lp_name :: string
  lp_doubleStack :: string
  lp_milliseconds :: int

definition login_query :: "Gateway \<Rightarrow> LoginParams \<Rightarrow> (string \<times> string) list" where
  "login_query g p =
     [(''callback'', lp_callback p), (''action'', ''login''), (''username'', lp_username p),
      (''password'', lp_wirePassword p), (''ac_id'', gw_ACID g), (''ip'', lp_ip p), (''chksum'', lp_checksum p),
      (''info'', lp_info p), (''n'', lp_n p), (''type'', lp_loginType p), (''os'', lp_os p), (''name'', lp_name p),
      (''double_stack'', lp_doubleStack p), (''_'', FormatInt (lp_milliseconds p))]"

definition loginURL :: "Gateway \<Rightarrow> LoginParams \<Rightarrow> string" where
  "loginURL g p = gw_BaseURL g @ portalPath @ ''?'' @ Values_Encode (login_query g p)"

definition logout_query :: "string \<Rightarrow> string \<Rightarrow> string \<Rightarrow> int \<Rightarrow> string \<Rightarrow> (string \<times> string) list" where
  "logout_query username ip sign seconds callback =
     [(''callback'', callback), (''time'', FormatInt seconds), (''unbind'', LogoutUnbind), (''ip'', ip),
      (''username'', username), (''sign'', sign)]"

definition logoutURL :: "Gateway \<Rightarrow> string \<Rightarrow> string \<Rightarrow> string \<Rightarrow> int \<Rightarrow> string \<Rightarrow> string" where
  "logoutURL g username ip sign seconds callback =
     gw_BaseURL g @ logoutPath @ ''?'' @ Values_Encode (logout_query username ip sign seconds callback)"

definition onlineURL :: "Gateway \<Rightarrow> int \<Rightarrow> string \<Rightarrow> string" where
  "onlineURL g milliseconds callback =
     gw_BaseURL g @ onlinePath @ ''?'' @ Values_Encode [(''callback'', callback), (''_'', FormatInt milliseconds)]"

subsection \<open>What an answer says\<close>

record AuthResult =
  rr_State :: AuthState
  rr_AlreadyOnline :: bool
  rr_GatewayCode :: string
  rr_GatewayMessage :: string
  rr_Identity :: string
  rr_ClientIP :: string

record Identity =
  id_Present :: bool
  id_Username :: string
  id_SessionUsername :: string
  id_ClientIP :: string
  id_MatchesExpected :: bool

definition Identity_State :: "Identity \<Rightarrow> AuthState" where
  "Identity_State i =
     (if \<not> id_Present i then AuthOffline else if id_MatchesExpected i then AuthVerifiedSelf else AuthVerifiedOther)"

definition nobody :: Identity where
  "nobody = \<lparr>id_Present = False, id_Username = [], id_SessionUsername = [], id_ClientIP = [], id_MatchesExpected = False\<rparr>"

definition trimIdentity :: "string \<Rightarrow> string" where
  "trimIdentity v = TrimSpace v"

definition trim_quotes :: "string \<Rightarrow> string" where
  "trim_quotes s = rev (dropWhile ((=) (CHR 0x22)) (rev (dropWhile ((=) (CHR 0x22)) s)))"

definition answer_code :: "GatewayAnswer \<Rightarrow> string" where
  "answer_code a = (let trimmed = TrimSpace (ga_Error a) in
     if trimmed \<noteq> [] then trimmed else trim_quotes (ga_ResultValue a))"

definition answer_identity :: "GatewayAnswer \<Rightarrow> string" where
  "answer_identity a =
     (let name = trimIdentity (ga_UserName a); realm = trimIdentity (ga_Domain a) in
      if name = [] \<or> realm = [] \<or> CHR ''@'' \<in> set name then name else name @ ''@'' @ realm)"

fun firstNonBlank :: "string list \<Rightarrow> string" where
  "firstNonBlank [] = []"
| "firstNonBlank (v # vs) = (let trimmed = TrimSpace v in if trimmed \<noteq> [] then trimmed else firstNonBlank vs)"

definition equal_fold :: "AuthLib \<Rightarrow> string \<Rightarrow> string \<Rightarrow> bool" where
  "equal_fold lib a b = (if ascii a \<and> ascii b then map lower_char a = map lower_char b else al_fold lib a b)"

definition isOK :: "AuthLib \<Rightarrow> string \<Rightarrow> bool" where
  "isOK lib code = equal_fold lib (TrimSpace code) ''ok''"

text \<open>The Chinese markers, in UTF-8: online already; not online, in two spellings.\<close>

definition alreadyOnlineMarkers :: "string list" where
  "alreadyOnlineMarkers = [''ip_already_online_error'', ''already online'', ''already_online'', ''e2620'',
     [CHR 0xE5, CHR 0xB7, CHR 0xB2, CHR 0xE5, CHR 0x9C, CHR 0xA8, CHR 0xE7, CHR 0xBA, CHR 0xBF]]"

definition offlineMarkers :: "string list" where
  "offlineMarkers = [''not_online_error'', ''not_online'',
     [CHR 0xE6, CHR 0x9C, CHR 0xAA, CHR 0xE5, CHR 0x9C, CHR 0xA8, CHR 0xE7, CHR 0xBA, CHR 0xBF],
     [CHR 0xE4, CHR 0xB8, CHR 0x8D, CHR 0xE5, CHR 0x9C, CHR 0xA8, CHR 0xE7, CHR 0xBA, CHR 0xBF]]"

definition isAlreadyOnline :: "AuthLib \<Rightarrow> string \<Rightarrow> string \<Rightarrow> bool" where
  "isAlreadyOnline lib code message =
     (let haystack = ToLower (al_tables lib) (code @ '' '' @ message)
      in list_ex (contains_sub haystack) alreadyOnlineMarkers)"

definition isConfirmedOffline :: "AuthLib \<Rightarrow> string \<Rightarrow> string \<Rightarrow> bool" where
  "isConfirmedOffline lib code message =
     (let haystack = ToLower (al_tables lib) (TrimSpace code @ '' '' @ TrimSpace message)
      in list_ex (contains_sub haystack) offlineMarkers)"

definition interpret_answer :: "AuthLib \<Rightarrow> GatewayAnswer \<Rightarrow> AuthResult" where
  "interpret_answer lib answer =
     (let result = \<lparr>rr_State = AuthUnknown, rr_AlreadyOnline = False, rr_GatewayCode = answer_code answer,
            rr_GatewayMessage = TrimSpace (ga_ErrorMsg answer), rr_Identity = answer_identity answer,
            rr_ClientIP = firstNonBlank [ga_ClientIP answer, ga_OnlineIP answer]\<rparr> in
      if isOK lib (rr_GatewayCode result) then result\<lparr>rr_State := AuthAccepted\<rparr>
      else if isAlreadyOnline lib (rr_GatewayCode result) (rr_GatewayMessage result)
      then result\<lparr>rr_AlreadyOnline := True, rr_State := AuthUnknown\<rparr>
      else result\<lparr>rr_State := AuthRejected\<rparr>)"

definition interpret_reply :: "AuthLib \<Rightarrow> string \<Rightarrow> cause + AuthResult" where
  "interpret_reply lib payload =
     (case al_Answer lib payload of None \<Rightarrow> Inl (problem CodeProtocolInvalid) | Some a \<Rightarrow> Inr (interpret_answer lib a))"

definition bareAccount :: "string \<Rightarrow> string" where
  "bareAccount v =
     (let at_sign = length (takeWhile (\<lambda>c. c \<noteq> CHR ''@'') v) in
      if CHR ''@'' \<in> set v \<and> at_sign > 0 then take at_sign v else v)"

definition realmOf :: "string \<Rightarrow> string" where
  "realmOf v =
     (let at_sign = length (takeWhile (\<lambda>c. c \<noteq> CHR ''@'') v) in
      if CHR ''@'' \<in> set v \<and> at_sign > 0 then drop (Suc at_sign) v else [])"

definition sameAccount :: "AuthLib \<Rightarrow> string \<Rightarrow> string \<Rightarrow> bool" where
  "sameAccount lib reported expected =
     (let reported = trimIdentity reported; expected = trimIdentity expected in
      if reported = [] \<or> expected = [] then False
      else if reported = expected then True
      else if bareAccount reported \<noteq> bareAccount expected then False
      else if realmOf reported = [] \<or> realmOf expected = [] then True
      else equal_fold lib (realmOf reported) (realmOf expected))"

definition read_identity :: "AuthLib \<Rightarrow> GatewayAnswer \<Rightarrow> string \<Rightarrow> cause + Identity" where
  "read_identity lib answer expected =
     (let code = answer_code answer; username = answer_identity answer in
      if isConfirmedOffline lib code (ga_ErrorMsg answer) then Inr nobody
      else if username \<noteq> [] then
        Inr \<lparr>id_Present = True, id_Username = username, id_SessionUsername = trimIdentity (ga_UserName answer),
          id_ClientIP = firstNonBlank [ga_ClientIP answer, ga_OnlineIP answer],
          id_MatchesExpected = sameAccount lib username expected\<rparr>
      else if isOK lib code \<or> code = [] then Inr nobody
      else Inl (problem CodeProtocolInvalid))"

definition readIdentity :: "AuthLib \<Rightarrow> string \<Rightarrow> string \<Rightarrow> cause + Identity" where
  "readIdentity lib payload expected =
     (case al_Answer lib payload of None \<Rightarrow> Inl (problem CodeProtocolInvalid) | Some a \<Rightarrow> read_identity lib a expected)"

end
