(* ===== verification/Auth_Transaction.thy ===== *)
theory Auth_Transaction
  imports Auth_Model
begin

text \<open>
  The requests of one attempt, \<open>auth/transaction.go\<close>, as programs of the state monad over the caller's world
  \<open>'s\<close>: \<open>ln_Do\<close> performs a request and delivers the bytes of the answer and whether reading them broke off
  within the bytes that are read, \<open>ln_now\<close> and \<open>ln_callback\<close> are the injected clock and callback name.
\<close>

record 's AuthLine =
  ln_Do :: "string \<Rightarrow> ('s, cause + string \<times> bool) state"
  ln_SourceAddr :: string
  ln_now :: "('s, instant) state"
  ln_callback :: "('s, string) state"

record Credentials =
  cr_Username :: string
  cr_Password :: string

record Shape =
  sh_N :: string
  sh_Type :: string
  sh_Enc :: string
  sh_InfoPrefix :: string
  sh_OS :: string
  sh_Name :: string
  sh_DoubleStack :: bool
  sh_Alphabet :: string

record Challenge =
  cl_Token :: string
  cl_ClientIP :: string

definition MaxAuthenticationBody :: int where "MaxAuthenticationBody = 64 * 1024"

definition UnixMilli :: "instant \<Rightarrow> int" where "UnixMilli t = t div millisecond"
definition UnixSeconds :: "instant \<Rightarrow> int" where "UnixSeconds t = t div second"

definition ReadBounded :: "string \<times> bool \<Rightarrow> int \<Rightarrow> cause + string" where
  "ReadBounded reader limit =
     (if limit \<le> 0 then Inl (problem CodeInternal)
      else if snd reader then Inl (problem CodeTransportFailure)
      else if int (length (fst reader)) > limit then Inl (problem CodeProtocolInvalid)
      else Inr (fst reader))"

definition read_reply :: "AuthLib \<Rightarrow> cause + string \<times> bool \<Rightarrow> cause + string" where
  "read_reply lib response =
     (case response of
        Inl err \<Rightarrow> Inl err
      | Inr reader \<Rightarrow>
          (case ReadBounded reader MaxAuthenticationBody of
             Inl err \<Rightarrow> Inl err
           | Inr body \<Rightarrow>
               (case snd (ParseJSONP (al_scan lib) body MaxAuthenticationBody) of
                  Inl e \<Rightarrow> Inl (Problem e)
                | Inr payload \<Rightarrow> Inr payload)))"

definition tx_get :: "AuthLib \<Rightarrow> 's AuthLine \<Rightarrow> string \<Rightarrow> ('s, cause + string) state" where
  "tx_get lib line target =
     (if \<not> al_RequestOK lib target then State_Monad.return (Inl (problem CodeInternal))
      else do {
        response \<leftarrow> ln_Do line target;
        State_Monad.return (read_reply lib response)
      })"

subsection \<open>The challenge\<close>

definition read_challenge :: "AuthLib \<Rightarrow> string \<Rightarrow> cause + Challenge" where
  "read_challenge lib payload =
     (case al_Challenge lib payload of
        None \<Rightarrow> Inl (problem CodeProtocolInvalid)
      | Some answer \<Rightarrow>
          if ch_Challenge answer = [] then Inl (problem CodeProtocolInvalid)
          else
            let address = ch_ClientIP answer; address = (if address = [] then ch_OnlineIP answer else address)
            in Inr \<lparr>cl_Token = ch_Challenge answer, cl_ClientIP = address\<rparr>)"

definition tx_Challenge :: "AuthLib \<Rightarrow> 's AuthLine \<Rightarrow> Gateway \<Rightarrow> string \<Rightarrow> ('s, cause + Challenge) state" where
  "tx_Challenge lib line gateway username = do {
     t \<leftarrow> ln_now line;
     callback \<leftarrow> ln_callback line;
     payload \<leftarrow> tx_get lib line (challengeURL gateway username (UnixMilli t) callback);
     State_Monad.return (case payload of Inl err \<Rightarrow> Inl err | Inr p \<Rightarrow> read_challenge lib p)
   }"

subsection \<open>The login\<close>

definition or_default :: "string \<Rightarrow> string \<Rightarrow> string" where
  "or_default v fallback = (if v = [] then fallback else v)"

definition withDefaults :: "Shape \<Rightarrow> Shape" where
  "withDefaults s = s\<lparr>sh_N := or_default (sh_N s) ''200'', sh_Type := or_default (sh_Type s) ''1'',
     sh_Enc := or_default (sh_Enc s) ''srun_bx1'', sh_InfoPrefix := NormalizePrefix (sh_InfoPrefix s) DefaultInfoPrefix,
     sh_OS := or_default (sh_OS s) ''Windows 10'', sh_Name := or_default (sh_Name s) ''Windows''\<rparr>"

definition boolWire :: "bool \<Rightarrow> string" where
  "boolWire b = (if b then ''1'' else ''0'')"

definition HMACMD5Hex :: "Digests \<Rightarrow> string \<Rightarrow> string \<Rightarrow> string" where
  "HMACMD5Hex dg token password = EncodeToString (dg_hmac_md5 dg token password)"

definition login_alphabet :: "Shape \<Rightarrow> gerror + string option" where
  "login_alphabet shape =
     (if sh_Alphabet shape \<noteq> [] then
        (case NewAlphabet (sh_Alphabet shape) of Inl e \<Rightarrow> Inl e | Inr table \<Rightarrow> Inr (Some table))
      else Inr None)"

text \<open>The fields of the login request that do not depend on the clock or the callback.\<close>

definition login_fields :: "Digests \<Rightarrow> Gateway \<Rightarrow> Credentials \<Rightarrow> Shape \<Rightarrow> string \<Rightarrow> string \<Rightarrow> cause + LoginParams" where
  "login_fields dg gateway creds shape address token =
     (let digest = HMACMD5Hex dg token (cr_Password creds) in
      case EncodeInfo \<lparr>in_Username = cr_Username creds, in_Password = cr_Password creds, in_IP = address,
             in_ACID = gw_ACID gateway, in_EncVer = sh_Enc shape\<rparr> of
        Inl e \<Rightarrow> Inl (Problem e)
      | Inr infoJSON \<Rightarrow>
          (case login_alphabet shape of
             Inl e \<Rightarrow> Inl (Problem e)
           | Inr alphabet \<Rightarrow>
               let encrypted = EncryptedInfo (sh_InfoPrefix shape) infoJSON token alphabet;
                   checksum = Checksum (dg_sha1 dg) \<lparr>ck_token = token, ck_username = cr_Username creds, ck_hmd5 = digest,
                     ck_acID = gw_ACID gateway, ck_ip = address, ck_n = sh_N shape, ck_loginType = sh_Type shape, ck_info = encrypted\<rparr>
               in Inr \<lparr>lp_callback = [], lp_username = cr_Username creds, lp_wirePassword = WirePasswordPrefix @ digest,
                    lp_ip = address, lp_checksum = checksum, lp_info = encrypted, lp_n = sh_N shape, lp_loginType = sh_Type shape,
                    lp_os = sh_OS shape, lp_name = sh_Name shape, lp_doubleStack = boolWire (sh_DoubleStack shape), lp_milliseconds = 0\<rparr>))"

definition tx_Login ::
  "AuthLib \<Rightarrow> Digests \<Rightarrow> 's AuthLine \<Rightarrow> Gateway \<Rightarrow> Credentials \<Rightarrow> Shape \<Rightarrow> Challenge \<Rightarrow> ('s, cause + AuthResult) state" where
  "tx_Login lib dg line gateway creds shape challenge =
     (if cr_Username creds = [] then State_Monad.return (Inl (Problem (FieldErrorf CodeInvalidArgument ''user_id'')))
      else if cl_Token challenge = [] then State_Monad.return (Inl (problem CodeInternal))
      else
        let address = (if cl_ClientIP challenge = [] then ln_SourceAddr line else cl_ClientIP challenge) in
        case login_fields dg gateway creds (withDefaults shape) address (cl_Token challenge) of
          Inl err \<Rightarrow> State_Monad.return (Inl err)
        | Inr params \<Rightarrow> do {
            callback \<leftarrow> ln_callback line;
            t \<leftarrow> ln_now line;
            payload \<leftarrow> tx_get lib line (loginURL gateway (params\<lparr>lp_callback := callback, lp_milliseconds := UnixMilli t\<rparr>));
            State_Monad.return (case payload of Inl err \<Rightarrow> Inl err | Inr p \<Rightarrow> interpret_reply lib p)
          })"

subsection \<open>Who is online, and ending a session\<close>

definition tx_Online :: "AuthLib \<Rightarrow> 's AuthLine \<Rightarrow> Gateway \<Rightarrow> string \<Rightarrow> ('s, cause + Identity) state" where
  "tx_Online lib line gateway expected = do {
     t \<leftarrow> ln_now line;
     callback \<leftarrow> ln_callback line;
     payload \<leftarrow> tx_get lib line (onlineURL gateway (UnixMilli t) callback);
     State_Monad.return (case payload of Inl err \<Rightarrow> Inl err | Inr p \<Rightarrow> readIdentity lib p expected)
   }"

definition tx_Logout :: "AuthLib \<Rightarrow> Digests \<Rightarrow> 's AuthLine \<Rightarrow> Gateway \<Rightarrow> string \<Rightarrow> string \<Rightarrow> ('s, cause + AuthResult) state" where
  "tx_Logout lib dg line gateway username ip =
     (if username = [] then State_Monad.return (Inl (Problem (FieldErrorf CodeInvalidArgument ''user_id'')))
      else
        let ip = (if ip = [] then ln_SourceAddr line else ip) in do {
        t \<leftarrow> ln_now line;
        let seconds = UnixSeconds t;
        let sign = LogoutSign (dg_sha1 dg) seconds username ip;
        callback \<leftarrow> ln_callback line;
        payload \<leftarrow> tx_get lib line (logoutURL gateway username ip sign seconds callback);
        State_Monad.return (case payload of Inl err \<Rightarrow> Inl err | Inr p \<Rightarrow> interpret_reply lib p)
      })"

end
