(* ===== verification/Auth_Query.thy ===== *)
theory Auth_Query
  imports Auth_Transaction
begin

text \<open>
  The query strings of the requests, read back: the decoding of \<open>application/x-www-form-urlencoded\<close> as the
  gateway does it. Whatever characters a user name, a password digest or a callback holds, every request says
  exactly the fields it was built from.
\<close>

subsection \<open>The decoder\<close>

definition hex_value :: "char \<Rightarrow> nat option" where
  "hex_value c = (let n = of_char c :: nat in
     if 48 \<le> n \<and> n \<le> 57 then Some (n - 48) else if 65 \<le> n \<and> n \<le> 70 then Some (n - 55) else None)"

fun unescape :: "string \<Rightarrow> string option" where
  "unescape [] = Some []"
| "unescape (c # cs) =
     (if c = CHR ''+'' then map_option ((#) (CHR '' '')) (unescape cs)
      else if c = CHR ''%'' then
        (case cs of
           a # b # rest \<Rightarrow> (case (hex_value a, hex_value b) of
               (Some m, Some n) \<Rightarrow> map_option ((#) (char_of (16 * m + n))) (unescape rest)
             | _ \<Rightarrow> None)
         | _ \<Rightarrow> None)
      else map_option ((#) c) (unescape cs))"

fun split_at_char :: "char \<Rightarrow> string \<Rightarrow> string list" where
  "split_at_char d [] = [[]]"
| "split_at_char d (c # cs) =
     (if c = d then [] # split_at_char d cs
      else case split_at_char d cs of w # ws \<Rightarrow> (c # w) # ws | [] \<Rightarrow> [[c]])"

definition decode_pair :: "string \<Rightarrow> (string \<times> string) option" where
  "decode_pair p = (case split_at_char (CHR ''='') p of
     [k, v] \<Rightarrow> (case (unescape k, unescape v) of (Some k', Some v') \<Rightarrow> Some (k', v') | _ \<Rightarrow> None)
   | _ \<Rightarrow> None)"

definition decode_query :: "string \<Rightarrow> (string \<times> string) option list" where
  "decode_query q = map decode_pair (split_at_char (CHR ''&'') q)"

subsection \<open>Escaping\<close>

lemma hex_value_upper: "n < 16 \<Longrightarrow> hex_value (upper_hex n) = Some n"
proof -
  assume "n < 16"
  then have "n \<in> set [0..<16]" by simp
  moreover have "list_all (\<lambda>n. hex_value (upper_hex n) = Some n) [0..<16]" by code_simp
  ultimately show ?thesis unfolding list_all_iff by blast
qed

lemma char_nibbles: "(of_char c :: nat) div 16 < 16" "(of_char c :: nat) mod 16 < 16"
proof -
  have "(of_char c :: nat) < 16 * 16" by simp
  then show "(of_char c :: nat) div 16 < 16" by (rule less_mult_imp_div_less)
qed simp

lemma unescape_byte: "unescape (escape_byte c @ cs) = map_option ((#) c) (unescape cs)"
proof -
  let ?n = "of_char c :: nat"
  consider "unreserved c" | "\<not> unreserved c" "c = CHR '' ''" | "\<not> unreserved c" "c \<noteq> CHR '' ''" by blast
  then show ?thesis
  proof cases
    case 1
    then have "c \<noteq> CHR ''+''" "c \<noteq> CHR ''%''" by (auto simp: unreserved_def Let_def)
    with 1 show ?thesis by (simp add: escape_byte_def)
  next
    case 2 then show ?thesis by (simp add: escape_byte_def)
  next
    case 3
    have "char_of (16 * (?n div 16) + ?n mod 16) = c" by simp
    moreover have "hex_value (upper_hex (?n div 16)) = Some (?n div 16)" "hex_value (upper_hex (?n mod 16)) = Some (?n mod 16)"
      by (rule hex_value_upper, rule char_nibbles)+
    ultimately show ?thesis using 3 by (simp add: escape_byte_def Let_def)
  qed
qed

lemma unescape_escape: "unescape (QueryEscape s) = Some s"
  by (induction s) (simp_all add: QueryEscape_def unescape_byte)

text \<open>Neither separator survives the escaping.\<close>

lemma upper_hex_safe: "n < 16 \<Longrightarrow> upper_hex n \<noteq> CHR ''&'' \<and> upper_hex n \<noteq> CHR ''=''"
proof -
  assume "n < 16"
  then have "n \<in> set [0..<16]" by simp
  moreover have "list_all (\<lambda>n. upper_hex n \<noteq> CHR ''&'' \<and> upper_hex n \<noteq> CHR ''='') [0..<16]" by code_simp
  ultimately show ?thesis unfolding list_all_iff by blast
qed

lemma escape_byte_safe: "CHR ''&'' \<notin> set (escape_byte c)" "CHR ''='' \<notin> set (escape_byte c)"
proof -
  note upper_hex_safe [OF char_nibbles(1) [of c]] upper_hex_safe [OF char_nibbles(2) [of c]]
  moreover have "unreserved c \<Longrightarrow> c \<noteq> CHR ''&'' \<and> c \<noteq> CHR ''=''" by (auto simp: unreserved_def Let_def)
  ultimately show "CHR ''&'' \<notin> set (escape_byte c)" "CHR ''='' \<notin> set (escape_byte c)"
    by (auto simp: escape_byte_def Let_def)
qed

lemma QueryEscape_safe: "CHR ''&'' \<notin> set (QueryEscape s)" "CHR ''='' \<notin> set (QueryEscape s)"
  by (auto simp: QueryEscape_def escape_byte_safe)

subsection \<open>Splitting\<close>

lemma split_at_char_one: "d \<notin> set w \<Longrightarrow> split_at_char d w = [w]"
  by (induction w) auto

lemma split_at_char_append: "d \<notin> set w \<Longrightarrow> split_at_char d (w @ d # rest) = w # split_at_char d rest"
  by (induction w) auto

lemma encode_pair_safe: "CHR ''&'' \<notin> set (encode_pair kv)"
  by (simp add: encode_pair_def QueryEscape_safe)

lemma decode_pair_encode: "decode_pair (encode_pair kv) = Some kv"
  by (simp add: decode_pair_def encode_pair_def split_at_char_append split_at_char_one QueryEscape_safe unescape_escape)

lemma split_join: "ps \<noteq> [] \<Longrightarrow> \<forall>p\<in>set ps. CHR ''&'' \<notin> set p \<Longrightarrow> split_at_char (CHR ''&'') (join_amp ps) = ps"
  by (induction ps rule: join_amp.induct) (auto simp: split_at_char_one split_at_char_append)

lemma decoded_query:
  assumes "query \<noteq> []"
  shows "decode_query (Values_Encode query) = map Some (sort_key (\<lambda>kv. bytes_key (fst kv)) query)"
proof -
  have ne: "sort_key (\<lambda>kv. bytes_key (fst kv)) query \<noteq> []"
    using assms by (metis set_empty set_sort)
  have "split_at_char (CHR ''&'') (Values_Encode query) = map encode_pair (sort_key (\<lambda>kv. bytes_key (fst kv)) query)"
    unfolding Values_Encode_def by (rule split_join) (use ne in \<open>auto simp: encode_pair_safe\<close>)
  then show ?thesis by (simp add: decode_query_def decode_pair_encode comp_def)
qed

text \<open>The query a URL carries after its first question mark.\<close>

definition query_of :: "string \<Rightarrow> string" where
  "query_of url = drop 1 (dropWhile (\<lambda>c. c \<noteq> CHR ''?'') url)"

lemma query_of_append: "CHR ''?'' \<notin> set base \<Longrightarrow> query_of (base @ CHR ''?'' # q) = q"
  by (induction base) (auto simp: query_of_def)

definition fields_of :: "string \<Rightarrow> (string \<times> string) option set" where
  "fields_of url = set (decode_query (query_of url))"

lemma fields_of_encode:
  "query \<noteq> [] \<Longrightarrow> CHR ''?'' \<notin> set base \<Longrightarrow> fields_of (base @ ''?'' @ Values_Encode query) = Some ` set query"
  by (simp add: fields_of_def query_of_append decoded_query)



end
