(* ===== verification/Worker_World.thy ===== *)
theory Worker_World
  imports Auth_Transaction Wifi_Choice Action_Model Policy_Managed
begin

text \<open>
  What the workers of \<open>application/authworker.go\<close> act on. The outside (netifd through \<open>Binder\<close>, the bound
  transports of \<open>Lines\<close>, the saved configuration of \<open>Settings\<close>, the radio of \<open>Wireless\<close>, clocks, probes,
  cancellation) is the record \<open>Env\<close>: the \<open>n\<close>-th use of it is answered by its functions at \<open>n\<close>, so
  everything may change between two uses, also the configuration. The state of the worker is the record
  \<open>World\<close>: its generation counter, which other actions may raise at any use of the outside (\<open>ev_bump\<close>), the
  binding each account was last seen on, and, for the statements about a run, the log of what it did.
  Bindings are \<open>domain/binding.go\<close>.
\<close>

subsection \<open>Addresses and bindings\<close>

datatype Addr = NoAddr | Addr4 nat nat nat nat | Addr6 string

definition Addr_String :: "Addr \<Rightarrow> string" where
  "Addr_String a = (case a of
     NoAddr \<Rightarrow> ''invalid IP''
   | Addr4 a b c d \<Rightarrow> FormatUint a @ ''.'' @ FormatUint b @ ''.'' @ FormatUint c @ ''.'' @ FormatUint d
   | Addr6 t \<Rightarrow> t)"

definition IsLoopback :: "Addr \<Rightarrow> bool" where
  "IsLoopback a = (case a of NoAddr \<Rightarrow> False | Addr4 a _ _ _ \<Rightarrow> a = 127 | Addr6 t \<Rightarrow> t = ''::1'')"

record Binding =
  bd_LogicalIface :: string
  bd_L3Device :: string
  bd_IfIndex :: int
  bd_SourceIPv4 :: Addr
  bd_DNSServers :: "Addr list"
  bd_Generation :: nat

definition zero_binding :: Binding where
  "zero_binding = \<lparr>bd_LogicalIface = [], bd_L3Device = [], bd_IfIndex = 0, bd_SourceIPv4 = NoAddr, bd_DNSServers = [], bd_Generation = 0\<rparr>"

definition Binding_Ready :: "Binding \<Rightarrow> bool" where
  "Binding_Ready b \<longleftrightarrow> bd_L3Device b \<noteq> [] \<and> (case bd_SourceIPv4 b of Addr4 _ _ _ _ \<Rightarrow> True | _ \<Rightarrow> False)"

definition DNSIsLoopbackOnly :: "Binding \<Rightarrow> bool" where
  "DNSIsLoopbackOnly b \<longleftrightarrow> bd_DNSServers b \<noteq> [] \<and> list_all IsLoopback (bd_DNSServers b)"

definition sameLine :: "Binding \<Rightarrow> Binding \<Rightarrow> bool" where
  "sameLine b b' \<longleftrightarrow> bd_L3Device b = bd_L3Device b' \<and> bd_IfIndex b = bd_IfIndex b' \<and>
     bd_SourceIPv4 b = bd_SourceIPv4 b' \<and> bd_DNSServers b = bd_DNSServers b'"

subsection \<open>The outside\<close>

text \<open>One bound transport: whose it is, the binding it was opened on, the address it sends from.\<close>

record LineRef =
  lr_Account :: string
  lr_Binding :: Binding
  lr_Source :: string

record WirelessPlan =
  wp_Radio :: string
  wp_SSID :: string
  wp_Encryption :: string
  wp_Key :: string
  wp_BSSID :: string

record ProbeReport =
  pr_Level :: Connectivity
  pr_Summary :: string
  pr_LastFailure :: string

datatype CtxErr = CtxCanceled | CtxDeadline

datatype Event =
    EvPhase Phase
  | EvResolve string "cause + Binding"
  | EvOpen string Binding
  | EvRetire string nat
  | EvRequest LineRef string
  | EvChallenge string "cause + Challenge"
  | EvLogin Credentials Challenge "cause + AuthResult"
  | EvOnline string "cause + Identity"
  | EvLogout string "cause + AuthResult"
  | EvAssociation string "cause + Association"
  | EvScan string
  | EvApply WirelessPlan
  | EvWirelessRetire
  | EvProbe bool
  | EvWait int

record World =
  wd_n :: nat
  wd_generation :: nat
  wd_seen :: "Binding gomap"
  wd_log :: "Event list"

record Env =
  ev_config :: "nat \<Rightarrow> Config"
  ev_revision :: "nat \<Rightarrow> nat"
  ev_clock :: "nat \<Rightarrow> instant"
  ev_time :: "nat \<Rightarrow> instant"
  ev_callback :: "nat \<Rightarrow> string"
  ev_ctx :: "nat \<Rightarrow> CtxErr option"
  ev_resolve :: "nat \<Rightarrow> string \<Rightarrow> cause + Binding"
  ev_link :: "nat \<Rightarrow> string \<Rightarrow> cause + LinkState"
  ev_open :: "nat \<Rightarrow> string \<Rightarrow> Binding \<Rightarrow> cause + string"
  ev_do :: "nat \<Rightarrow> LineRef \<Rightarrow> string \<Rightarrow> cause + string \<times> bool"
  ev_hasWireless :: bool
  ev_association :: "nat \<Rightarrow> string \<Rightarrow> cause + Association"
  ev_scan :: "nat \<Rightarrow> string \<Rightarrow> cause + Candidate list"
  ev_apply :: "nat \<Rightarrow> WirelessPlan \<Rightarrow> cause option"
  ev_wretire :: "nat \<Rightarrow> cause option"
  ev_hasSystemProbe :: bool
  ev_probe :: "nat \<Rightarrow> bool \<Rightarrow> ProbeReport \<times> cause option"
  ev_bump :: "nat \<Rightarrow> nat"
  ev_lib :: AuthLib
  ev_digests :: Digests

text \<open>One use of the outside, with what the log says of it.\<close>

definition outside :: "Env \<Rightarrow> (nat \<Rightarrow> 'a) \<Rightarrow> ('a \<Rightarrow> Event list) \<Rightarrow> (World, 'a) state" where
  "outside env f ev = State (\<lambda>w. let answer = f (wd_n w) in
     (answer, w\<lparr>wd_n := Suc (wd_n w), wd_generation := wd_generation w + ev_bump env (wd_n w), wd_log := wd_log w @ ev answer\<rparr>))"

definition logged :: "Event \<Rightarrow> (World, unit) state" where
  "logged e = State (\<lambda>w. ((), w\<lparr>wd_log := wd_log w @ [e]\<rparr>))"

definition report :: "Phase \<Rightarrow> (World, unit) state" where
  "report phase = logged (EvPhase phase)"

definition snapshot :: "Env \<Rightarrow> (World, Config) state" where
  "snapshot env = outside env (ev_config env) (\<lambda>_. [])"

definition clock_now :: "Env \<Rightarrow> (World, instant) state" where
  "clock_now env = outside env (ev_clock env) (\<lambda>_. [])"

definition association :: "Env \<Rightarrow> string \<Rightarrow> (World, cause + Association) state" where
  "association env radio = outside env (\<lambda>n. ev_association env n radio) (\<lambda>r. [EvAssociation radio r])"

definition resolve :: "Env \<Rightarrow> string \<Rightarrow> (World, cause + Binding) state" where
  "resolve env iface = outside env (\<lambda>n. ev_resolve env n iface) (\<lambda>r. [EvResolve iface r])"

definition next_generation :: "(World, nat) state" where
  "next_generation = State (\<lambda>w. let g = wd_generation w + 1 in (g, w\<lparr>wd_generation := g\<rparr>))"

definition seen_of :: "string \<Rightarrow> (World, Binding option) state" where
  "seen_of account = State (\<lambda>w. (map_of (wd_seen w) account, w))"

definition set_seen :: "string \<Rightarrow> Binding option \<Rightarrow> (World, unit) state" where
  "set_seen account b = State (\<lambda>w. ((), w\<lparr>wd_seen :=
     (case b of None \<Rightarrow> AList.delete account (wd_seen w) | Some b \<Rightarrow> AList.update account b (wd_seen w))\<rparr>))"

definition probe :: "Env \<Rightarrow> bool \<Rightarrow> (World, ProbeReport \<times> cause option) state" where
  "probe env system = outside env (\<lambda>n. ev_probe env n system) (\<lambda>_. [EvProbe system])"

text \<open>The line an attempt sends over, as the transaction sees it.\<close>

definition bound_line :: "Env \<Rightarrow> LineRef \<Rightarrow> World AuthLine" where
  "bound_line env line =
     \<lparr>ln_Do = (\<lambda>url. outside env (\<lambda>n. ev_do env n line url) (\<lambda>_. [EvRequest line url])),
      ln_SourceAddr = lr_Source line,
      ln_now = outside env (ev_time env) (\<lambda>_. []),
      ln_callback = outside env (ev_callback env) (\<lambda>_. [])\<rparr>"

end
