(* ===== verification/Worker_Session.thy ===== *)
theory Worker_Session
  imports Worker_World
begin

text \<open>
  The sessions of \<open>application/authworker.go\<close>, \<open>terminal.go\<close> and \<open>connectivity.go\<close>: preparing an attempt,
  logging in, verifying whose session is on the line, ending one. One definition per method, in the state
  monad. The Chinese text of a message is stood for by a short English one. \<open>terminalChecks\<close> is the
  primitive recursion on the checks that are left.
\<close>

subsection \<open>Outcomes and observations\<close>

record Attempt =
  at_account :: CampusAccount
  at_username :: string
  at_shape :: Shape
  at_manual :: bool
  at_checkMode :: string
  at_checks :: ChecksConfig
  at_kind :: Kind
  at_multiWAN :: bool
  at_confirmTerminal :: bool
  at_revision :: nat
  at_binding :: Binding
  at_line :: LineRef
  at_gateway :: Gateway
  at_sequence :: nat

definition userMessage :: "cause \<Rightarrow> Message" where
  "userMessage c = (case c of Problem e \<Rightarrow> MsgOfError e | Foreign \<Rightarrow> MsgText ''unclassified error'')"

definition plain_outcome :: "State \<Rightarrow> Message \<Rightarrow> ErrorCode option \<Rightarrow> Outcome" where
  "plain_outcome state message code = \<lparr>o_State = state, o_Message = message, o_Code = code,
     o_MaintenanceDeferred = False, o_Observation = None, o_ResultJSON = [], o_Connectivity = None\<rparr>"

definition code_or_internal :: "cause \<Rightarrow> ErrorCode" where
  "code_or_internal c = (case CodeOf c of None \<Rightarrow> CodeInternal | Some code \<Rightarrow> code)"

definition failure :: "cause \<Rightarrow> Outcome" where
  "failure c = plain_outcome StateFailed (userMessage c) (Some (code_or_internal c))"

definition observation :: "Env \<Rightarrow> Attempt \<Rightarrow> AuthState \<Rightarrow> Connectivity \<Rightarrow> string \<Rightarrow> (World, Observation) state" where
  "observation env p auth connectivity identity = do {
     t \<leftarrow> clock_now env;
     let b = at_binding p;
     State_Monad.return \<lparr>ob_AccountID = ca_ID (at_account p), ob_Revision = at_revision p,
       ob_Generation = bd_Generation b, ob_Sequence = at_sequence p,
       ob_Link = (if Binding_Ready b then LinkReady else LinkMissing), ob_Auth = auth,
       ob_Connectivity = connectivity, ob_Identity = identity,
       ob_Line = \<lparr>lv_Iface = bd_LogicalIface b, lv_Device = bd_L3Device b,
         lv_Address = (if bd_SourceIPv4 b \<noteq> NoAddr then Addr_String (bd_SourceIPv4 b) else [])\<rparr>,
       ob_At = t\<rparr>
   }"

definition with_observation :: "Env \<Rightarrow> Attempt \<Rightarrow> Outcome \<Rightarrow> AuthState \<Rightarrow> Connectivity \<Rightarrow> string \<Rightarrow> (World, Outcome) state" where
  "with_observation env p out auth connectivity identity = do {
     ob \<leftarrow> observation env p auth connectivity identity;
     State_Monad.return (out\<lparr>o_Observation := Some ob\<rparr>)
   }"

definition succeeded :: "Env \<Rightarrow> Attempt \<Rightarrow> string \<Rightarrow> string \<Rightarrow> (World, Outcome) state" where
  "succeeded env p message identity =
     with_observation env p (plain_outcome StateSucceeded (MsgText message) None) AuthVerifiedSelf ConnectivityPortalReachable identity"

definition wentOffline :: "Env \<Rightarrow> Attempt \<Rightarrow> string \<Rightarrow> (World, Outcome) state" where
  "wentOffline env p message =
     with_observation env p (plain_outcome StateSucceeded (MsgText message) None) AuthOffline ConnectivityPortalReachable []"

definition unconfirmed :: "Env \<Rightarrow> Attempt \<Rightarrow> string \<Rightarrow> string \<Rightarrow> (World, Outcome) state" where
  "unconfirmed env p message identity =
     with_observation env p (plain_outcome StateFailed (MsgText message) (Some CodeDeadlineExceeded)) AuthUnknown ConnectivityPortalReachable identity"

definition failed :: "Env \<Rightarrow> Attempt \<Rightarrow> cause \<Rightarrow> AuthState \<Rightarrow> string \<Rightarrow> (World, Outcome) state" where
  "failed env p c auth identity =
     with_observation env p (failure c) auth
       (if auth \<noteq> AuthUnknown then ConnectivityPortalReachable else ConnectivityUnknown) identity"

subsection \<open>The line\<close>

definition lineInterface :: "Config \<Rightarrow> CampusAccount \<Rightarrow> gerror + string" where
  "lineInterface cfg account =
     (if IsWired account then
        (if ca_WiredIface account = [] then Inl (FieldErrorf CodeInvalidConfig ''wired_iface'') else Inr (ca_WiredIface account))
      else if cf_STAIface cfg = [] then Inl (FieldErrorf CodeInvalidConfig ''sta_iface'')
      else Inr (cf_STAIface cfg))"

definition invalidateLine :: "string \<Rightarrow> nat \<Rightarrow> (World, unit) state" where
  "invalidateLine account generation = do {
     previous \<leftarrow> seen_of account;
     (case previous of
        None \<Rightarrow> State_Monad.return ()
      | Some b \<Rightarrow>
          if bd_Generation b \<noteq> generation then State_Monad.return ()
          else do {
            set_seen account None;
            retired \<leftarrow> next_generation;
            logged (EvRetire account retired)
          })
   }"

text \<open>The binding, and the error when there is one.\<close>

definition settle_line :: "string \<Rightarrow> Binding option \<Rightarrow> Binding \<Rightarrow> (World, Binding) state" where
  "settle_line account previous binding =
     (let moved = (case previous of None \<Rightarrow> True | Some b \<Rightarrow> \<not> sameLine b binding) in do {
        generation \<leftarrow> (if moved \<and> previous \<noteq> None then next_generation else State_Monad.return (bd_Generation binding));
        let binding = binding\<lparr>bd_Generation := generation\<rparr>;
        set_seen account (Some binding);
        (if moved then logged (EvRetire account generation) else State_Monad.return ());
        State_Monad.return binding
      })"

definition observeLine :: "Env \<Rightarrow> string \<Rightarrow> string \<Rightarrow> (World, Binding \<times> cause option) state" where
  "observeLine env account iface = do {
     previous \<leftarrow> seen_of account;
     stamp \<leftarrow> (case previous of None \<Rightarrow> next_generation | Some b \<Rightarrow> State_Monad.return (bd_Generation b));
     answer \<leftarrow> resolve env iface;
     (case answer of
        Inl err \<Rightarrow> do {
          invalidateLine account stamp;
          State_Monad.return (zero_binding\<lparr>bd_Generation := stamp\<rparr>, Some err)
        }
      | Inr binding \<Rightarrow> do {
          binding \<leftarrow> settle_line account previous (binding\<lparr>bd_Generation := stamp\<rparr>);
          State_Monad.return (binding, None)
        })
   }"

definition confirmUnchanged :: "Env \<Rightarrow> Attempt \<Rightarrow> (World, cause option) state" where
  "confirmUnchanged env p = do {
     cfg \<leftarrow> snapshot env;
     (case lineInterface cfg (at_account p) of
        Inl e \<Rightarrow> State_Monad.return (Some (Problem e))
      | Inr iface \<Rightarrow> do {
          now \<leftarrow> resolve env iface;
          (case now of
             Inl err \<Rightarrow> do {
               invalidateLine (ca_ID (at_account p)) (bd_Generation (at_binding p));
               State_Monad.return (Some err)
             }
           | Inr b \<Rightarrow>
               if \<not> sameLine b (at_binding p) then do {
                 invalidateLine (ca_ID (at_account p)) (bd_Generation (at_binding p));
                 State_Monad.return (Some (problem CodeBindingChanged))
               }
               else State_Monad.return None)
        })
   }"

definition linkFailure :: "Env \<Rightarrow> Attempt \<Rightarrow> string \<Rightarrow> cause \<Rightarrow> (World, Outcome) state" where
  "linkFailure env p iface c = do {
     observed \<leftarrow> (if iface = [] then State_Monad.return (Inl Foreign) else outside env (\<lambda>n. ev_link env n iface) (\<lambda>_. []));
     let link = (case observed of Inl _ \<Rightarrow> LinkMissing | Inr s \<Rightarrow> s);
     out \<leftarrow> failed env p c AuthUnknown [];
     State_Monad.return (out\<lparr>o_Observation := map_option (\<lambda>ob. ob\<lparr>ob_Link := link, ob_Connectivity := ConnectivityUnknown\<rparr>) (o_Observation out)\<rparr>)
   }"

subsection \<open>The transaction of an attempt\<close>

definition online :: "Env \<Rightarrow> Attempt \<Rightarrow> (World, cause + Identity) state" where
  "online env p = do {
     r \<leftarrow> tx_Online (ev_lib env) (bound_line env (at_line p)) (at_gateway p) (at_username p);
     logged (EvOnline (at_username p) r);
     State_Monad.return r
   }"

definition logout_session :: "Env \<Rightarrow> Attempt \<Rightarrow> string \<Rightarrow> string \<Rightarrow> (World, cause + AuthResult) state" where
  "logout_session env p username ip = do {
     r \<leftarrow> tx_Logout (ev_lib env) (ev_digests env) (bound_line env (at_line p)) (at_gateway p) username ip;
     logged (EvLogout username r);
     State_Monad.return r
   }"

definition send_login :: "Env \<Rightarrow> Attempt \<Rightarrow> Challenge \<Rightarrow> (World, cause + AuthResult) state" where
  "send_login env p challenge =
     (let creds = \<lparr>cr_Username = at_username p, cr_Password = ca_Password (at_account p)\<rparr> in do {
        r \<leftarrow> tx_Login (ev_lib env) (ev_digests env) (bound_line env (at_line p)) (at_gateway p) creds (at_shape p) challenge;
        logged (EvLogin creds challenge r);
        State_Monad.return r
      })"

definition fetch_challenge :: "Env \<Rightarrow> Attempt \<Rightarrow> (World, cause + Challenge) state" where
  "fetch_challenge env p = do {
     r \<leftarrow> tx_Challenge (ev_lib env) (bound_line env (at_line p)) (at_gateway p) (at_username p);
     logged (EvChallenge (at_username p) r);
     State_Monad.return r
   }"

definition attemptLogin :: "Env \<Rightarrow> Attempt \<Rightarrow> (World, cause + AuthResult) state" where
  "attemptLogin env p = do {
     report PhaseChallenge;
     challenge \<leftarrow> fetch_challenge env p;
     (case challenge of
        Inl err \<Rightarrow> State_Monad.return (Inl err)
      | Inr challenge \<Rightarrow> do {
          changed \<leftarrow> confirmUnchanged env p;
          (case changed of
             Some err \<Rightarrow> State_Monad.return (Inl err)
           | None \<Rightarrow> do {
               report PhaseLogin;
               send_login env p challenge
             })
        })
   }"

end
