(* ===== verification/Worker_Radio.thy ===== *)
theory Worker_Radio
  imports Worker_Session
begin

text \<open>
  Moving the managed radio: \<open>application/switch.go\<close>, without the switches that end in an authentication.
\<close>

record Destination =
  de_what :: string
  de_label :: string
  de_plan :: WirelessPlan
  de_want :: WifiTarget

definition hotspotDestination :: "Env \<Rightarrow> HotspotProfile \<Rightarrow> gerror + Destination" where
  "hotspotDestination env hotspot =
     (if hp_SSID hotspot = [] then Inl (FieldErrorf CodeInvalidConfig ''ssid'')
      else Inr \<lparr>de_what = ''hotspot'', de_label = (if hp_Label hotspot = [] then hp_SSID hotspot else hp_Label hotspot),
        de_plan = \<lparr>wp_Radio = hp_Radio hotspot, wp_SSID = hp_SSID hotspot, wp_Encryption = hp_Encryption hotspot,
          wp_Key = hp_Key hotspot, wp_BSSID = []\<rparr>,
        de_want = \<lparr>wt_SSID = hp_SSID hotspot, wt_Security = ParseSecurity (al_tables (ev_lib env)) (hp_Encryption hotspot),
          wt_Policy = APSelectionAuto, wt_PinnedBSSID = []\<rparr>\<rparr>)"

definition campusDestination :: "Env \<Rightarrow> CampusAccount \<Rightarrow> gerror + Destination" where
  "campusDestination env account =
     (if IsWired account then Inl (Errorf CodeInvalidArgument)
      else if ca_SSID account = [] then Inl (FieldErrorf CodeInvalidConfig ''ssid'')
      else Inr \<lparr>de_what = ''campus network'', de_label = (if ca_Label account = [] then ca_SSID account else ca_Label account),
        de_plan = \<lparr>wp_Radio = ca_Radio account, wp_SSID = ca_SSID account, wp_Encryption = ca_Encryption account,
          wp_Key = ca_Key account, wp_BSSID = []\<rparr>,
        de_want = \<lparr>wt_SSID = ca_SSID account, wt_Security = ParseSecurity (al_tables (ev_lib env)) (ca_Encryption account),
          wt_Policy = ca_APSelection account, wt_PinnedBSSID = ca_BSSID account\<rparr>\<rparr>)"

abbreviation satisfied :: "Env \<Rightarrow> WifiTarget \<Rightarrow> Association \<Rightarrow> bool" where
  "satisfied env \<equiv> Satisfied (al_fold (ev_lib env))"

definition choose_and_apply :: "Env \<Rightarrow> Destination \<Rightarrow> Candidate list \<Rightarrow> (World, cause option) state" where
  "choose_and_apply env dest candidates =
     (case Select (al_tables (ev_lib env)) (al_fold (ev_lib env)) (de_want dest) candidates of
        Inl e \<Rightarrow> State_Monad.return (Some (Problem (fst e)))
      | Inr decision \<Rightarrow>
          let plan = (de_plan dest)\<lparr>wp_BSSID := dc_BSSID decision\<rparr>
          in outside env (\<lambda>n. ev_apply env n plan) (\<lambda>_. [EvApply plan]))"

definition moveTo :: "Env \<Rightarrow> Destination \<Rightarrow> (World, cause option) state" where
  "moveTo env dest = do {
     report PhaseSwitch;
     observed \<leftarrow> association env (wp_Radio (de_plan dest));
     (if (case observed of Inl _ \<Rightarrow> False | Inr a \<Rightarrow> \<not> ShouldReselect (al_fold (ev_lib env)) (de_want dest) a)
      then do { report PhaseReuse; State_Monad.return None }
      else if \<not> NeedsScan (de_want dest) then choose_and_apply env dest []
      else do {
        candidates \<leftarrow> outside env (\<lambda>n. ev_scan env n (wp_Radio (de_plan dest))) (\<lambda>_. [EvScan (wp_Radio (de_plan dest))]);
        (case candidates of
           Inl err \<Rightarrow> State_Monad.return (Some err)
         | Inr cs \<Rightarrow> choose_and_apply env dest cs)
      })
   }"

text \<open>
  The loop of \<open>deferOnHotspot\<close> over the hotspots; each radio is read once, \<open>seen\<close> holds what was read.
\<close>

definition deferred_on_hotspot :: Outcome where
  "deferred_on_hotspot = (plain_outcome StateFailed (MsgText ''connected to a configured hotspot'') (Some CodeBusy))\<lparr>o_MaintenanceDeferred := True\<rparr>"

definition read_radio :: "Env \<Rightarrow> Association gomap \<Rightarrow> string \<Rightarrow> (World, cause + Association) state" where
  "read_radio env seen radio = (case map_of seen radio of Some a \<Rightarrow> State_Monad.return (Inr a) | None \<Rightarrow> association env radio)"

primrec defer_loop :: "Env \<Rightarrow> CampusAccount \<Rightarrow> HotspotProfile list \<Rightarrow> Association gomap \<Rightarrow> (World, Outcome option) state" where
  "defer_loop env account [] seen = State_Monad.return None"
| "defer_loop env account (hotspot # rest) seen =
     (if hp_Radio hotspot = [] \<or> hp_SSID hotspot = [] \<or> (hp_Radio hotspot = ca_Radio account \<and> hp_SSID hotspot = ca_SSID account)
      then defer_loop env account rest seen
      else do {
        observed \<leftarrow> read_radio env seen (hp_Radio hotspot);
        (case observed of
           Inl err \<Rightarrow> State_Monad.return (Some (failure err))
         | Inr a \<Rightarrow>
             if Joined (al_fold (ev_lib env)) a \<and> as_SSID a = hp_SSID hotspot
             then State_Monad.return (Some deferred_on_hotspot)
             else defer_loop env account rest (AList.update (hp_Radio hotspot) a seen))
      })"

definition deferOnHotspot :: "Env \<Rightarrow> Config \<Rightarrow> CampusAccount \<Rightarrow> (World, Outcome option) state" where
  "deferOnHotspot env cfg account = defer_loop env account (cf_HotspotProfiles cfg) []"

definition zero_shape :: Shape where
  "zero_shape = \<lparr>sh_N = [], sh_Type = [], sh_Enc = [], sh_InfoPrefix = [], sh_OS = [], sh_Name = [], sh_DoubleStack = False, sh_Alphabet = []\<rparr>"

definition bare_attempt :: "CampusAccount \<Rightarrow> nat \<Rightarrow> nat \<Rightarrow> Binding \<Rightarrow> Attempt" where
  "bare_attempt account revision seqno binding =
     \<lparr>at_account = account, at_username = [], at_shape = zero_shape, at_manual = False, at_checkMode = [],
      at_checks = cf_Checks Defaults, at_kind = KindUnknown [], at_multiWAN = False, at_confirmTerminal = False,
      at_revision = revision, at_binding = binding, at_line = \<lparr>lr_Account = [], lr_Binding = zero_binding, lr_Source = []\<rparr>,
      at_gateway = \<lparr>gw_BaseURL = [], gw_ACID = []\<rparr>, at_sequence = seqno\<rparr>"

definition radio_unconfirmed :: "Env \<Rightarrow> CampusAccount \<Rightarrow> nat \<Rightarrow> nat \<Rightarrow> nat \<Rightarrow> Outcome \<Rightarrow> (World, Outcome option) state" where
  "radio_unconfirmed env account revision seqno generation out = do {
     invalidateLine (ca_ID account) generation;
     out \<leftarrow> with_observation env (bare_attempt account revision seqno (zero_binding\<lparr>bd_Generation := generation\<rparr>))
       out AuthUnknown ConnectivityUnknown [];
     State_Monad.return (Some out)
   }"

definition radio_generation :: "string \<Rightarrow> (World, nat) state" where
  "radio_generation account = do {
     previous \<leftarrow> seen_of account;
     let generation = (case previous of None \<Rightarrow> 0 | Some b \<Rightarrow> bd_Generation b);
     (if generation = 0 then next_generation else State_Monad.return generation)
   }"

definition ensureWirelessLine :: "Env \<Rightarrow> Action \<Rightarrow> (World, Outcome option) state" where
  "ensureWirelessLine env action =
     (if \<not> ev_hasWireless env then State_Monad.return None
      else do {
        cfg \<leftarrow> snapshot env;
        (case CampusAccountByID cfg (r_AccountID (a_Request action)) of
           None \<Rightarrow> State_Monad.return None
         | Some account \<Rightarrow>
             if IsWired account then State_Monad.return None
             else do {
               revision \<leftarrow> outside env (ev_revision env) (\<lambda>_. []);
               generation \<leftarrow> radio_generation (ca_ID account);
               deferred \<leftarrow> (if r_Kind (a_Request action) = KindMaintain then deferOnHotspot env cfg account else State_Monad.return None);
               (case deferred of
                  Some out \<Rightarrow> radio_unconfirmed env account revision (a_Sequence action) generation out
                | None \<Rightarrow>
                    (case campusDestination env account of
                       Inl e \<Rightarrow> radio_unconfirmed env account revision (a_Sequence action) generation (failure (Problem e))
                     | Inr dest \<Rightarrow> do {
                         moved \<leftarrow> moveTo env dest;
                         (case moved of
                            Some err \<Rightarrow> radio_unconfirmed env account revision (a_Sequence action) generation
                              ((failure err)\<lparr>o_Message := MsgText ''cannot reach the campus network''\<rparr>)
                          | None \<Rightarrow> State_Monad.return None)
                       }))
             })
      })"

end
