(* ===== verification/Worker_Auth.thy ===== *)
theory Worker_Auth
  imports Worker_Radio
begin

text \<open>
  Login, verification, logout, the switches and \<open>Run\<close>: the rest of \<open>application/authworker.go\<close>,
  \<open>connectivity.go\<close>, \<open>terminal.go\<close>, \<open>switch.go\<close>, \<open>hotspot_connectivity.go\<close>, \<open>manual_logout.go\<close> and
  \<open>quiet_switch.go\<close>.
\<close>

subsection \<open>Preparing an attempt\<close>

definition shapeOf :: "EffectiveLoginShape \<Rightarrow> Shape" where
  "shapeOf login = \<lparr>sh_N = el_N login, sh_Type = el_Type login, sh_Enc = el_Enc login, sh_InfoPrefix = el_InfoPrefix login,
     sh_OS = el_OS login, sh_Name = el_Name login, sh_DoubleStack = el_DoubleStack login, sh_Alphabet = el_Alphabet login\<rparr>"

definition new_attempt :: "Config \<Rightarrow> nat \<Rightarrow> CampusAccount \<Rightarrow> Action \<Rightarrow> Attempt" where
  "new_attempt cfg revision account action =
     (let kind = r_Kind (a_Request action) in
      (bare_attempt account revision (a_Sequence action) zero_binding)
        \<lparr>at_username := EffectiveUsername account, at_shape := shapeOf (EffectiveLogin cfg account), at_manual := Manual kind,
         at_checkMode := ch_Mode (cf_Checks cfg), at_checks := cf_Checks cfg, at_kind := kind,
         at_multiWAN := cf_MultiWANEnabled cfg, at_confirmTerminal := (kind = KindForcedLogout \<or> kind = KindQuietCampus)\<rparr>)"

definition open_line :: "Env \<Rightarrow> Attempt \<Rightarrow> Gateway \<Rightarrow> (World, cause + LineRef) state" where
  "open_line env p gateway =
     (let account = ca_ID (at_account p); b = at_binding p in do {
        r \<leftarrow> outside env (\<lambda>n. ev_open env n account b) (\<lambda>_. [EvOpen account b]);
        State_Monad.return (case r of Inl err \<Rightarrow> Inl err
          | Inr source \<Rightarrow> Inr \<lparr>lr_Account = account, lr_Binding = b, lr_Source = source\<rparr>)
      })"

definition prepare_line :: "Env \<Rightarrow> Attempt \<Rightarrow> (World, Outcome + Attempt) state" where
  "prepare_line env p =
     (case ParseGateway (ev_lib env) (ca_BaseURL (at_account p)) (ca_ACID (at_account p)) of
        Inl e \<Rightarrow> do { out \<leftarrow> failed env p (Problem e) AuthUnknown []; State_Monad.return (Inl out) }
      | Inr gateway \<Rightarrow> do {
          line \<leftarrow> open_line env p gateway;
          (case line of
             Inl err \<Rightarrow> do { out \<leftarrow> failed env (p\<lparr>at_gateway := gateway\<rparr>) err AuthUnknown []; State_Monad.return (Inl out) }
           | Inr line \<Rightarrow> State_Monad.return (Inr (p\<lparr>at_gateway := gateway, at_line := line\<rparr>)))
        })"

definition prepare :: "Env \<Rightarrow> Action \<Rightarrow> (World, Outcome + Attempt) state" where
  "prepare env action = do {
     cfg \<leftarrow> snapshot env;
     revision \<leftarrow> outside env (ev_revision env) (\<lambda>_. []);
     (case CampusAccountByID cfg (r_AccountID (a_Request action)) of
        None \<Rightarrow> State_Monad.return (Inl (plain_outcome StateFailed (MsgText ''no such account'') (Some CodeNotFound)))
      | Some account \<Rightarrow>
          let p = new_attempt cfg revision account action in
          (case lineInterface cfg account of
             Inl e \<Rightarrow> do { out \<leftarrow> linkFailure env p [] (Problem e); State_Monad.return (Inl out) }
           | Inr iface \<Rightarrow> do {
               report PhaseWaitingLink;
               observed \<leftarrow> observeLine env (ca_ID account) iface;
               let p = p\<lparr>at_binding := fst observed\<rparr>;
               (case snd observed of
                  Some err \<Rightarrow> do { out \<leftarrow> linkFailure env p iface err; State_Monad.return (Inl out) }
                | None \<Rightarrow> prepare_line env p)
             }))
   }"

subsection \<open>Connectivity\<close>

definition systemFallback :: "Env \<Rightarrow> Attempt \<Rightarrow> bool \<times> string" where
  "systemFallback env p =
     (if \<not> ev_hasSystemProbe env then (False, ''unavailable'')
      else if at_multiWAN p then (False, ''skipped_multi_wan'')
      else if at_kind p = KindSwitchCampus \<or> at_kind p = KindQuietCampus then (False, ''skipped_switch'')
      else (True, ''used''))"

definition zero_diagnosis :: ConnectivityDiagnosis where
  "zero_diagnosis = \<lparr>cd_Via = [], cd_Bound = [], cd_BoundLast = [], cd_System = [], cd_Fallback = []\<rparr>"

text \<open>The check over the bound line, then over the router's own route when that may speak for it.\<close>

definition ask_system :: "Env \<Rightarrow> Connectivity \<Rightarrow> ConnectivityDiagnosis \<Rightarrow> (World, Connectivity \<times> ConnectivityDiagnosis) state" where
  "ask_system env level diagnosis = do {
     r \<leftarrow> probe env True;
     let diagnosis = diagnosis\<lparr>cd_System := pr_Summary (fst r)\<rparr>;
     State_Monad.return
       (if snd r = None \<and> pr_Level (fst r) = ConnectivityInternetReachable
        then (pr_Level (fst r), diagnosis\<lparr>cd_Via := ''system''\<rparr>) else (level, diagnosis))
   }"

definition check_internet :: "Env \<Rightarrow> Attempt \<Rightarrow> (World, Connectivity \<times> ConnectivityDiagnosis \<times> cause option) state" where
  "check_internet env p = do {
     r \<leftarrow> probe env False;
     let level = pr_Level (fst r);
     let diagnosis = zero_diagnosis\<lparr>cd_Bound := pr_Summary (fst r), cd_BoundLast := pr_LastFailure (fst r),
           cd_Via := (if snd r = None \<and> level = ConnectivityInternetReachable then ''bound'' else [])\<rparr>;
     (if snd r = None \<and> level \<noteq> ConnectivityInternetReachable then do {
        let allowed = systemFallback env p;
        let diagnosis = diagnosis\<lparr>cd_Fallback := snd allowed\<rparr>;
        asked \<leftarrow> (if fst allowed then ask_system env level diagnosis else State_Monad.return (level, diagnosis));
        State_Monad.return (fst asked, snd asked, None)
      }
      else State_Monad.return (level, diagnosis, snd r))
   }"

definition on_observation :: "(Observation \<Rightarrow> Observation) \<Rightarrow> Outcome \<Rightarrow> Outcome" where
  "on_observation f out = out\<lparr>o_Observation := map_option f (o_Observation out)\<rparr>"

definition checked_mode :: "Env \<Rightarrow> Attempt \<Rightarrow> Outcome \<Rightarrow> (World, Outcome \<times> cause option) state" where
  "checked_mode env p out =
     (if at_checkMode p = CheckInternet then do {
        r \<leftarrow> check_internet env p;
        let level = fst r;
        let err = snd (snd r);
        let out = out\<lparr>o_Connectivity := Some (fst (snd r))\<rparr>;
        let out = (if level \<noteq> ConnectivityUnknown then on_observation (\<lambda>ob. ob\<lparr>ob_Connectivity := level\<rparr>) out else out);
        State_Monad.return (out, if err = None \<and> level \<noteq> ConnectivityInternetReachable then Some (problem CodeTransportFailure) else err)
      }
      else if at_checkMode p = CheckPortal then State_Monad.return (out, None)
      else if at_checkMode p = CheckSSID then
        State_Monad.return (out, if \<not> IsWired (at_account p) \<and> \<not> ev_hasWireless env then Some (problem CodeUnsupportedCapability) else None)
      else State_Monad.return (out, Some (problem CodeInvalidConfig)))"

definition apply_check :: "Outcome \<Rightarrow> cause option \<Rightarrow> Outcome" where
  "apply_check out err =
     (case err of
        None \<Rightarrow> out
      | Some c \<Rightarrow>
          let out = out\<lparr>o_State := StateFailed, o_Code := Some (case CodeOf c of None \<Rightarrow> CodeTransportFailure | Some code \<Rightarrow> code),
                o_Message := userMessage c\<rparr> in
          if CodeOf c = Some CodeBindingChanged \<or> CodeOf c = Some CodeBindingUnavailable
          then on_observation (\<lambda>ob. ob\<lparr>ob_Auth := AuthUnknown, ob_Connectivity := ConnectivityUnknown, ob_Identity := []\<rparr>) out
          else out)"

definition still_associated :: "Env \<Rightarrow> Attempt \<Rightarrow> (World, cause option) state" where
  "still_associated env p =
     (if IsWired (at_account p) \<or> \<not> ev_hasWireless env then State_Monad.return None
      else case campusDestination env (at_account p) of
        Inl e \<Rightarrow> State_Monad.return (Some (Problem e))
      | Inr dest \<Rightarrow> do {
          observed \<leftarrow> association env (ca_Radio (at_account p));
          State_Monad.return (case observed of
            Inl err \<Rightarrow> Some err
          | Inr a \<Rightarrow> if \<not> satisfied env (de_want dest) a then Some (problem CodeBindingChanged) else None)
        })"

definition verifyConnectivity :: "Env \<Rightarrow> Attempt \<Rightarrow> string \<Rightarrow> string \<Rightarrow> (World, Outcome) state" where
  "verifyConnectivity env p message identity = do {
     out \<leftarrow> succeeded env p message identity;
     checked \<leftarrow> checked_mode env p out;
     changed \<leftarrow> confirmUnchanged env p;
     (case changed of
        Some err \<Rightarrow> failed env p err AuthUnknown []
      | None \<Rightarrow> do {
          moved \<leftarrow> still_associated env p;
          (case moved of
             Some err \<Rightarrow> failed env p err AuthUnknown []
           | None \<Rightarrow> State_Monad.return (apply_check (fst checked) (snd checked)))
        })
   }"

subsection \<open>Whose session it is\<close>

definition checkExisting :: "Env \<Rightarrow> Attempt \<Rightarrow> (World, Outcome option) state" where
  "checkExisting env p = do {
     report PhaseVerify;
     identity \<leftarrow> online env p;
     (case identity of
        Inl err \<Rightarrow> do { out \<leftarrow> failed env p err AuthUnknown []; State_Monad.return (Some out) }
      | Inr i \<Rightarrow>
          (case Identity_State i of
             AuthVerifiedSelf \<Rightarrow> do {
               out \<leftarrow> verifyConnectivity env p ''already online'' (id_Username i);
               State_Monad.return (Some out)
             }
           | AuthVerifiedOther \<Rightarrow> do {
               out \<leftarrow> failed env p (problem CodeOnlineIdentityMismatch) AuthVerifiedOther (id_Username i);
               State_Monad.return (Some out)
             }
           | _ \<Rightarrow> State_Monad.return None))
   }"

definition verifyOnce :: "Env \<Rightarrow> Attempt \<Rightarrow> Identity option \<Rightarrow> (World, Outcome) state" where
  "verifyOnce env p known = do {
     report PhaseVerify;
     identity \<leftarrow> (case known of Some i \<Rightarrow> State_Monad.return (Inr i) | None \<Rightarrow> online env p);
     (case identity of
        Inl err \<Rightarrow> failed env p err AuthAccepted []
      | Inr i \<Rightarrow>
          (case Identity_State i of
             AuthVerifiedSelf \<Rightarrow> verifyConnectivity env p ''authenticated'' (id_Username i)
           | AuthVerifiedOther \<Rightarrow> failed env p (problem CodeOnlineIdentityMismatch) AuthVerifiedOther (id_Username i)
           | _ \<Rightarrow> failed env p (problem CodeDeadlineExceeded) AuthAccepted []))
   }"

subsection \<open>Bounded confirmation\<close>

definition MaxTerminalAttempts :: int where "MaxTerminalAttempts = 20"
definition MaxTerminalIntervalSeconds :: int where "MaxTerminalIntervalSeconds = 60"

definition terminal_count :: "Attempt \<Rightarrow> int" where
  "terminal_count p = (if at_manual p \<or> at_confirmTerminal p
     then max 1 (min MaxTerminalAttempts (ch_TerminalAttempts (at_checks p))) else 1)"

definition terminal_interval :: "Attempt \<Rightarrow> duration" where
  "terminal_interval p = max 1 (min MaxTerminalIntervalSeconds (ch_TerminalIntervalSeconds (at_checks p))) * second"

definition ctx_err :: "Env \<Rightarrow> (World, CtxErr option) state" where
  "ctx_err env = outside env (ev_ctx env) (\<lambda>_. [])"

definition ctx_problem :: "CtxErr \<Rightarrow> cause" where
  "ctx_problem e = problem (if e = CtxDeadline then CodeDeadlineExceeded else CodeCancelled)"

text \<open>
  One round: is the action cancelled, does the line still stand (not asked before the first check), check.
  \<open>more\<close> is what follows a check that may be repeated.
\<close>

definition terminal_round ::
  "Env \<Rightarrow> Attempt \<Rightarrow> (World, Outcome \<times> bool) state \<Rightarrow> bool \<Rightarrow> (World, Outcome) state option \<Rightarrow> (World, Outcome) state" where
  "terminal_round env p check first rest = do {
     stopped \<leftarrow> ctx_err env;
     (case stopped of
        Some e \<Rightarrow> failed env p (ctx_problem e) AuthUnknown []
      | None \<Rightarrow> do {
          changed \<leftarrow> (if first then State_Monad.return None else confirmUnchanged env p);
          (case changed of
             Some err \<Rightarrow> failed env p err AuthUnknown []
           | None \<Rightarrow> do {
               r \<leftarrow> check;
               (if \<not> snd r then State_Monad.return (fst r)
                else case rest of
                  None \<Rightarrow> State_Monad.return (fst r)
                | Some again \<Rightarrow> do {
                    t \<leftarrow> clock_now env;
                    logged (EvWait (terminal_interval p));
                    again
                  })
             })
        })
   }"

primrec terminal_loop :: "Env \<Rightarrow> Attempt \<Rightarrow> (World, Outcome \<times> bool) state \<Rightarrow> nat \<Rightarrow> (World, Outcome) state" where
  "terminal_loop env p check 0 = terminal_round env p check False None"
| "terminal_loop env p check (Suc n) = terminal_round env p check False (Some (terminal_loop env p check n))"

definition terminalChecks ::
  "Env \<Rightarrow> Attempt \<Rightarrow> (World, Outcome \<times> bool) state \<Rightarrow> (World, Outcome \<times> bool) state \<Rightarrow> (World, Outcome) state" where
  "terminalChecks env p check_first check =
     (let left = nat (terminal_count p) - 1 in
      terminal_round env p check_first True (if left = 0 then None else Some (terminal_loop env p check (left - 1))))"

definition retryableTerminal :: "Outcome \<Rightarrow> bool" where
  "retryableTerminal out \<longleftrightarrow> o_State out = StateFailed \<and>
     o_Code out \<in> {Some CodeTransportFailure, Some CodeDNSFailure, Some CodeDeadlineExceeded}"

definition session_check :: "Env \<Rightarrow> Attempt \<Rightarrow> Identity option \<Rightarrow> (World, Outcome \<times> bool) state" where
  "session_check env p known = do {
     out \<leftarrow> verifyOnce env p known;
     State_Monad.return (out, retryableTerminal out)
   }"

definition verifySession :: "Env \<Rightarrow> Attempt \<Rightarrow> Identity option \<Rightarrow> (World, Outcome) state" where
  "verifySession env p known = terminalChecks env p (session_check env p known) (session_check env p None)"

definition logout_check :: "Env \<Rightarrow> Attempt \<Rightarrow> string \<Rightarrow> (World, Outcome \<times> bool) state" where
  "logout_check env p identity = do {
     report PhaseVerify;
     after_logout \<leftarrow> online env p;
     changed \<leftarrow> confirmUnchanged env p;
     (case changed of
        Some err \<Rightarrow> do { out \<leftarrow> failed env p err AuthUnknown []; State_Monad.return (out, False) }
      | None \<Rightarrow>
          (case after_logout of
             Inl err \<Rightarrow> do {
               out \<leftarrow> unconfirmed env p ''logout sent, not confirmed'' identity;
               State_Monad.return (out, CodeOf err \<in> {Some CodeTransportFailure, Some CodeDNSFailure, Some CodeDeadlineExceeded})
             }
           | Inr i \<Rightarrow>
               if \<not> id_Present i then do { out \<leftarrow> wentOffline env p ''logged out''; State_Monad.return (out, False) }
               else do {
                 out \<leftarrow> failed env p (problem CodeConflict) (Identity_State i) (id_Username i);
                 State_Monad.return (out, id_Username i = identity)
               }))
   }"

definition verifyLogout :: "Env \<Rightarrow> Attempt \<Rightarrow> string \<Rightarrow> (World, Outcome) state" where
  "verifyLogout env p identity = terminalChecks env p (logout_check env p identity) (logout_check env p identity)"

subsection \<open>Logging in\<close>

definition clearAndRetry :: "Env \<Rightarrow> Attempt \<Rightarrow> string \<Rightarrow> string \<Rightarrow> (World, Outcome) state" where
  "clearAndRetry env p sessionUsername identity = do {
     report PhaseLogout;
     cleared \<leftarrow> logout_session env p sessionUsername [];
     (case cleared of
        Inl err \<Rightarrow> failed env p err AuthVerifiedOther identity
      | Inr r \<Rightarrow>
          if rr_State r = AuthRejected then failed env p (problem CodeConflict) AuthVerifiedOther identity
          else do {
            result \<leftarrow> attemptLogin env p;
            (case result of
               Inl err \<Rightarrow> failed env p err AuthAuthenticating []
             | Inr r \<Rightarrow>
                 if rr_AlreadyOnline r then failed env p (problem CodeConflict) AuthAccepted identity
                 else if rr_State r = AuthRejected then failed env p (problem CodeAuthRejected) AuthRejected (rr_Identity r)
                 else verifySession env p None)
          })
   }"

definition settleAlreadyOnline :: "Env \<Rightarrow> Attempt \<Rightarrow> (World, Outcome) state" where
  "settleAlreadyOnline env p = do {
     report PhaseVerify;
     identity \<leftarrow> online env p;
     (case identity of
        Inl err \<Rightarrow> failed env p err AuthAccepted []
      | Inr i \<Rightarrow>
          (case Identity_State i of
             AuthVerifiedSelf \<Rightarrow> verifySession env p (Some i)
           | AuthVerifiedOther \<Rightarrow>
               if \<not> at_manual p then failed env p (problem CodeOnlineIdentityMismatch) AuthVerifiedOther (id_Username i)
               else clearAndRetry env p (id_SessionUsername i) (id_Username i)
           | _ \<Rightarrow> clearAndRetry env p (ca_UserID (at_account p)) (at_username p)))
   }"

definition login_or_settle :: "Env \<Rightarrow> Attempt \<Rightarrow> (World, Outcome) state" where
  "login_or_settle env p = do {
     result \<leftarrow> attemptLogin env p;
     (case result of
        Inl err \<Rightarrow> failed env p err AuthAuthenticating []
      | Inr r \<Rightarrow>
          if rr_AlreadyOnline r then settleAlreadyOnline env p
          else if rr_State r = AuthRejected then failed env p (problem CodeAuthRejected) AuthRejected (rr_Identity r)
          else verifySession env p None)
   }"

definition authenticate :: "Env \<Rightarrow> Action \<Rightarrow> (World, Outcome) state" where
  "authenticate env action = do {
     stopped \<leftarrow> ensureWirelessLine env action;
     (case stopped of
        Some out \<Rightarrow> State_Monad.return out
      | None \<Rightarrow> do {
          prepared \<leftarrow> prepare env action;
          (case prepared of
             Inl out \<Rightarrow> State_Monad.return out
           | Inr p \<Rightarrow> do {
               existing \<leftarrow> (if r_Kind (a_Request action) = KindMaintain \<or> r_Kind (a_Request action) = KindQuietCampus
                 then checkExisting env p else State_Monad.return None);
               (case existing of Some out \<Rightarrow> State_Monad.return out | None \<Rightarrow> login_or_settle env p)
             })
        })
   }"

subsection \<open>Ending a session\<close>

definition logout_radio :: "Env \<Rightarrow> Action \<Rightarrow> (World, Outcome option) state" where
  "logout_radio env action =
     (if \<not> ev_hasWireless env then State_Monad.return None
      else do {
        cfg \<leftarrow> snapshot env;
        (case CampusAccountByID cfg (r_AccountID (a_Request action)) of
           None \<Rightarrow> State_Monad.return None
         | Some account \<Rightarrow>
             if IsWired account then State_Monad.return None
             else do {
               observed \<leftarrow> association env (ca_Radio account);
               State_Monad.return (case observed of
                 Inl err \<Rightarrow> Some (failure err)
               | Inr a \<Rightarrow>
                   (case campusDestination env account of
                      Inl e \<Rightarrow> Some (failure (Problem e))
                    | Inr dest \<Rightarrow>
                        if \<not> satisfied env (de_want dest) a then
                          (if r_Kind (a_Request action) = KindForcedLogout
                           then Some (plain_outcome StateSucceeded (MsgText ''campus network not joined, nothing sent'') None)
                           else Some (failure (problem CodeBindingUnavailable)))
                        else None))
             })
      })"

definition end_session :: "Env \<Rightarrow> Attempt \<Rightarrow> Identity \<Rightarrow> (World, Outcome) state" where
  "end_session env p i = do {
     report PhaseLogout;
     result \<leftarrow> logout_session env p (id_SessionUsername i) (id_ClientIP i);
     (case result of
        Inl err \<Rightarrow> failed env p err (Identity_State i) (id_Username i)
      | Inr r \<Rightarrow>
          if rr_State r = AuthRejected then failed env p (problem CodeAuthRejected) (Identity_State i) (id_Username i)
          else verifyLogout env p (id_Username i))
   }"

definition logout :: "Env \<Rightarrow> Action \<Rightarrow> (World, Outcome) state" where
  "logout env action = do {
     stopped \<leftarrow> logout_radio env action;
     (case stopped of
        Some out \<Rightarrow> State_Monad.return out
      | None \<Rightarrow> do {
          prepared \<leftarrow> prepare env action;
          (case prepared of
             Inl out \<Rightarrow> State_Monad.return out
           | Inr p \<Rightarrow> do {
               report PhaseVerify;
               identity \<leftarrow> online env p;
               (case identity of
                  Inl err \<Rightarrow> failed env p err AuthUnknown []
                | Inr i \<Rightarrow>
                    if \<not> id_Present i then wentOffline env p ''no session on this line''
                    else if \<not> id_MatchesExpected i \<and> \<not> at_manual p
                    then failed env p (problem CodeOnlineIdentityMismatch) AuthVerifiedOther (id_Username i)
                    else end_session env p i)
             })
        })
   }"

end
