(* ===== verification/Worker_Run.thy ===== *)
theory Worker_Run
  imports Worker_Auth
begin

text \<open>
  The switches between campus and hotspot and the dispatch of an action to its worker:
  \<open>application/switch.go\<close>, \<open>hotspot_connectivity.go\<close>, \<open>manual_logout.go\<close>, \<open>quiet_switch.go\<close> and
  \<open>Authenticator.Run\<close>.
\<close>

subsection \<open>To the campus network\<close>

definition line_moved :: "cause option \<Rightarrow> Binding \<Rightarrow> Observation \<Rightarrow> Observation" where
  "line_moved err now ob =
     (let ob = ob\<lparr>ob_Auth := AuthUnknown, ob_Connectivity := ConnectivityUnknown\<rparr> in
      if err \<noteq> None then ob\<lparr>ob_Link := LinkMissing\<rparr> else ob\<lparr>ob_Generation := bd_Generation now\<rparr>)"

definition retire_radio :: "Env \<Rightarrow> CampusAccount \<Rightarrow> Outcome \<Rightarrow> (World, Outcome) state" where
  "retire_radio env account out = do {
     previous \<leftarrow> seen_of (ca_ID account);
     let b = (case previous of None \<Rightarrow> zero_binding | Some b \<Rightarrow> b);
     report PhaseRetire;
     err \<leftarrow> outside env (ev_wretire env) (\<lambda>_. [EvWirelessRetire]);
     let out = (case err of None \<Rightarrow> out
       | Some c \<Rightarrow> out\<lparr>o_State := StateFailed, o_Code := Some CodeRecoveryRequired,
           o_Message := MsgText ''wired account online, radio not confirmed retired''\<rparr>);
     now \<leftarrow> observeLine env (ca_ID account) (ca_WiredIface account);
     State_Monad.return
       (if snd now \<noteq> None \<or> \<not> sameLine b (fst now)
        then on_observation (line_moved (snd now) (fst now))
          (out\<lparr>o_State := StateFailed, o_Code := Some CodeBindingChanged, o_Message := MsgText ''the wired line changed''\<rparr>)
        else out)
   }"

definition switchCampus :: "Env \<Rightarrow> Action \<Rightarrow> (World, Outcome) state" where
  "switchCampus env action =
     (if \<not> ev_hasWireless env then State_Monad.return (failure (problem CodeUnsupportedCapability))
      else do {
        out \<leftarrow> authenticate env action;
        (if o_State out \<noteq> StateSucceeded then State_Monad.return out
         else do {
           cfg \<leftarrow> snapshot env;
           (case CampusAccountByID cfg (r_AccountID (a_Request action)) of
              Some account \<Rightarrow> if IsWired account then retire_radio env account out else State_Monad.return out
            | None \<Rightarrow> State_Monad.return out)
         })
      })"

subsection \<open>To a hotspot\<close>

definition hotspot_target :: "Env \<Rightarrow> HotspotProfile \<Rightarrow> WifiTarget" where
  "hotspot_target env hotspot = \<lparr>wt_SSID = hp_SSID hotspot,
     wt_Security = ParseSecurity (al_tables (ev_lib env)) (hp_Encryption hotspot),
     wt_Policy = APSelectionAuto, wt_PinnedBSSID = []\<rparr>"

definition probed_hotspot :: "Env \<Rightarrow> Config \<Rightarrow> HotspotProfile \<Rightarrow> Binding \<Rightarrow> (World, Connectivity \<times> cause option) state" where
  "probed_hotspot env cfg hotspot b = do {
     r \<leftarrow> probe env False;
     now \<leftarrow> resolve env (cf_STAIface cfg);
     (case now of
        Inl err \<Rightarrow> State_Monad.return (ConnectivityUnknown, Some err)
      | Inr b' \<Rightarrow>
          if \<not> sameLine b b' then State_Monad.return (ConnectivityUnknown, Some (problem CodeBindingChanged))
          else do {
            observed \<leftarrow> association env (hp_Radio hotspot);
            State_Monad.return (case observed of
              Inl err \<Rightarrow> (ConnectivityUnknown, Some err)
            | Inr a \<Rightarrow> if \<not> satisfied env (hotspot_target env hotspot) a
                then (ConnectivityUnknown, Some (problem CodeBindingChanged)) else (pr_Level (fst r), snd r))
          })
   }"

definition checkHotspot :: "Env \<Rightarrow> Config \<Rightarrow> HotspotProfile \<Rightarrow> (World, Connectivity \<times> cause option) state" where
  "checkHotspot env cfg hotspot =
     (if cf_STAIface cfg = [] then State_Monad.return (ConnectivityUnknown, Some (problem CodeBindingUnavailable))
      else
        let key = ''hotspot:'' @ hp_ID hotspot in do {
        observed \<leftarrow> observeLine env key (cf_STAIface cfg);
        let b = fst observed;
        (case snd observed of
           Some err \<Rightarrow> State_Monad.return (ConnectivityUnknown, Some err)
         | None \<Rightarrow>
             if \<not> Binding_Ready b then State_Monad.return (ConnectivityUnknown, Some (problem CodeBindingUnavailable))
             else do {
               line \<leftarrow> outside env (\<lambda>n. ev_open env n key b) (\<lambda>_. [EvOpen key b]);
               (case line of
                  Inl err \<Rightarrow> State_Monad.return (ConnectivityUnknown, Some err)
                | Inr source \<Rightarrow> probed_hotspot env cfg hotspot b)
             })
      })"

definition failBack :: "Env \<Rightarrow> Config \<Rightarrow> Destination \<Rightarrow> cause \<Rightarrow> (World, Outcome) state" where
  "failBack env cfg dest c =
     (let out = (failure c)\<lparr>o_Message := MsgText ''switch failed''\<rparr> in
      if \<not> fo_HotspotFailbackEnabled (cf_Failover cfg) then State_Monad.return out
      else case CampusAccountByID cfg (sel_ActiveCampusID (cf_Selection cfg)) of
        None \<Rightarrow> State_Monad.return out
      | Some account \<Rightarrow>
          (case campusDestination env account of
             Inl e \<Rightarrow> State_Monad.return out
           | Inr previous \<Rightarrow> do {
               err \<leftarrow> moveTo env previous;
               State_Monad.return (case err of
                 Some e \<Rightarrow> (plain_outcome StateFailed (MsgText ''switch and return failed'') (Some CodeRecoveryRequired))
                   \<lparr>o_Observation := o_Observation out\<rparr>
               | None \<Rightarrow> out\<lparr>o_Message := MsgText ''switch failed, back on campus''\<rparr>)
             }))"

definition checked_switch :: "Env \<Rightarrow> Config \<Rightarrow> HotspotProfile \<Rightarrow> Destination \<Rightarrow> (World, Outcome) state" where
  "checked_switch env cfg hotspot dest = do {
     report PhaseVerify;
     r \<leftarrow> checkHotspot env cfg hotspot;
     (case snd r of
        Some err \<Rightarrow> failBack env cfg dest err
      | None \<Rightarrow>
          if fst r \<noteq> ConnectivityInternetReachable then
            (if fo_HotspotFailbackEnabled (cf_Failover cfg) then failBack env cfg dest (problem CodeTransportFailure)
             else State_Monad.return (plain_outcome StateSucceeded (MsgText ''on the hotspot, internet not confirmed'') None))
          else State_Monad.return (plain_outcome StateSucceeded (MsgText ''switched'') None))
   }"

definition switchHotspot :: "Env \<Rightarrow> Action \<Rightarrow> (World, Outcome) state" where
  "switchHotspot env action = do {
     cfg \<leftarrow> snapshot env;
     (case HotspotByID cfg (r_HotspotID (a_Request action)) of
        None \<Rightarrow> State_Monad.return (plain_outcome StateFailed (MsgText ''no such hotspot'') (Some CodeNotFound))
      | Some hotspot \<Rightarrow>
          (case hotspotDestination env hotspot of
             Inl e \<Rightarrow> State_Monad.return (failure (Problem e))
           | Inr dest \<Rightarrow>
               if \<not> ev_hasWireless env
               then State_Monad.return (plain_outcome StateFailed (MsgText ''radio not managed'') (Some CodeUnsupportedCapability))
               else do {
                 err \<leftarrow> moveTo env dest;
                 (case err of Some e \<Rightarrow> failBack env cfg dest e | None \<Rightarrow> checked_switch env cfg hotspot dest)
               }))
   }"

subsection \<open>Manual logout\<close>

definition stale_observation :: "cause option \<Rightarrow> Binding \<Rightarrow> Observation \<Rightarrow> Observation" where
  "stale_observation err current ob =
     (let ob = ob\<lparr>ob_Auth := AuthUnknown, ob_Connectivity := ConnectivityUnknown, ob_Identity := []\<rparr> in
      if err \<noteq> None
      then ob\<lparr>ob_Link := LinkMissing, ob_Line := (ob_Line ob)\<lparr>lv_Device := [], lv_Address := []\<rparr>\<rparr>
      else ob\<lparr>ob_Generation := bd_Generation current,
        ob_Line := (ob_Line ob)\<lparr>lv_Device := bd_L3Device current, lv_Address := Addr_String (bd_SourceIPv4 current)\<rparr>\<rparr>)"

definition refresh_after_switch :: "Env \<Rightarrow> Config \<Rightarrow> string \<Rightarrow> Outcome \<Rightarrow> (World, Outcome) state" where
  "refresh_after_switch env cfg accountID out =
     (case o_Observation out of
        None \<Rightarrow> State_Monad.return out
      | Some ob \<Rightarrow>
          let account = (case CampusAccountByID cfg accountID of None \<Rightarrow> zero_campus | Some a \<Rightarrow> a) in do {
          current \<leftarrow> (case lineInterface cfg account of
            Inl e \<Rightarrow> State_Monad.return (zero_binding, Some (Problem e))
          | Inr iface \<Rightarrow> observeLine env (ca_ID account) iface);
          State_Monad.return
            (if \<not> IsWired account \<or> snd current \<noteq> None \<or> bd_Generation (fst current) \<noteq> ob_Generation ob
             then out\<lparr>o_Observation := Some (stale_observation (snd current) (fst current) ob)\<rparr> else out)
        })"

definition manualLogout :: "Env \<Rightarrow> Action \<Rightarrow> (World, Outcome) state" where
  "manualLogout env action = do {
     cfg \<leftarrow> snapshot env;
     out \<leftarrow> logout env action;
     (if o_State out \<noteq> StateSucceeded \<or> \<not> fo_Enabled (cf_Failover cfg) \<or>
         sel_ActiveCampusID (cf_Selection cfg) \<noteq> r_AccountID (a_Request action)
      then State_Monad.return out
      else
        let target = (if sel_ActiveHotspotID (cf_Selection cfg) = [] then sel_DefaultHotspotID (cf_Selection cfg)
              else sel_ActiveHotspotID (cf_Selection cfg)) in
        case HotspotByID cfg target of
          None \<Rightarrow> State_Monad.return (out\<lparr>o_Message := MsgText ''logged out, no hotspot configured''\<rparr>)
        | Some _ \<Rightarrow> do {
            switched \<leftarrow> switchHotspot env (action\<lparr>a_Request := (a_Request action)\<lparr>r_HotspotID := target\<rparr>\<rparr>);
            refresh_after_switch env cfg (r_AccountID (a_Request action))
              (switched\<lparr>o_Message := MsgText ''logged out, then switched'', o_Observation := o_Observation out\<rparr>)
          })
   }"

subsection \<open>Quiet switches\<close>

definition quietSwitchDeferred :: "string \<Rightarrow> Outcome" where
  "quietSwitchDeferred message = (plain_outcome StateSucceeded (MsgText message) None)\<lparr>o_MaintenanceDeferred := True\<rparr>"

definition hotspot_kept :: "Env \<Rightarrow> HotspotProfile \<Rightarrow> cause + Association \<Rightarrow> cause + bool" where
  "hotspot_kept env hotspot observed =
     (case observed of
        Inl err \<Rightarrow> Inl err
      | Inr a \<Rightarrow> (case hotspotDestination env hotspot of
          Inl e \<Rightarrow> Inl (Problem e) | Inr dest \<Rightarrow> Inr (satisfied env (de_want dest) a)))"

definition enter_quiet :: "Env \<Rightarrow> Action \<Rightarrow> Config \<Rightarrow> CampusAccount \<Rightarrow> HotspotProfile \<Rightarrow> (World, Outcome) state" where
  "enter_quiet env action cfg account hotspot = do {
     stop \<leftarrow> deferOnHotspot env cfg account;
     (case stop of
        None \<Rightarrow> switchHotspot env action
      | Some out \<Rightarrow>
          if \<not> o_MaintenanceDeferred out then State_Monad.return out
          else do {
            observed \<leftarrow> association env (hp_Radio hotspot);
            State_Monad.return (case hotspot_kept env hotspot observed of
              Inl err \<Rightarrow> failure err
            | Inr kept \<Rightarrow> if kept then plain_outcome StateSucceeded (MsgText ''hotspot kept'') None
                else quietSwitchDeferred ''another hotspot is in use'')
          })
   }"

definition leave_quiet :: "Env \<Rightarrow> Action \<Rightarrow> HotspotProfile \<Rightarrow> (World, Outcome) state" where
  "leave_quiet env action hotspot = do {
     observed \<leftarrow> association env (hp_Radio hotspot);
     (case hotspot_kept env hotspot observed of
        Inl err \<Rightarrow> State_Monad.return (failure err)
      | Inr kept \<Rightarrow> if \<not> kept then State_Monad.return (quietSwitchDeferred ''the connection was changed'')
          else switchCampus env action)
   }"

definition quietSwitch :: "Env \<Rightarrow> Action \<Rightarrow> (World, Outcome) state" where
  "quietSwitch env action = do {
     cfg \<leftarrow> snapshot env;
     t \<leftarrow> clock_now env;
     let inside = qs_Active (EvaluateQuiet (cf_Quiet cfg) t);
     let entering = (r_Kind (a_Request action) = KindQuietHotspot);
     (if \<not> cf_Enabled cfg \<or> \<not> fo_Enabled (cf_Failover cfg) \<or> inside \<noteq> entering
      then State_Monad.return (quietSwitchDeferred ''conditions changed'')
      else case (CampusAccountByID cfg (r_AccountID (a_Request action)), HotspotByID cfg (r_HotspotID (a_Request action))) of
        (Some account, Some hotspot) \<Rightarrow>
          if sel_ActiveCampusID (cf_Selection cfg) \<noteq> ca_ID account
          then State_Monad.return (quietSwitchDeferred ''account or hotspot changed'')
          else if \<not> ev_hasWireless env then State_Monad.return (failure (problem CodeUnsupportedCapability))
          else if entering then enter_quiet env action cfg account hotspot
          else leave_quiet env action hotspot
      | _ \<Rightarrow> State_Monad.return (quietSwitchDeferred ''account or hotspot changed''))
   }"

subsection \<open>An action\<close>

text \<open>The guard before anything is sent: the account exists, and quiet hours are over or overridden.\<close>

definition guarded_kind :: "Kind \<Rightarrow> bool" where
  "guarded_kind kind \<longleftrightarrow> kind = KindLogin \<or> kind = KindRelogin \<or> kind = KindMaintain \<or> kind = KindSwitchCampus"

definition run_guard :: "Env \<Rightarrow> Action \<Rightarrow> (World, Outcome option) state" where
  "run_guard env action =
     (if \<not> guarded_kind (r_Kind (a_Request action)) then State_Monad.return None
      else do {
        cfg \<leftarrow> snapshot env;
        (if CampusAccountByID cfg (r_AccountID (a_Request action)) = None
         then State_Monad.return (Some (failure (problem CodeNotFound)))
         else if r_IgnoreQuiet (a_Request action) then State_Monad.return None
         else do {
           t \<leftarrow> clock_now env;
           State_Monad.return (if qs_Active (EvaluateQuiet (cf_Quiet cfg) t) then Some (failure (problem CodeBusy)) else None)
         })
      })"

definition forced_logout :: "Env \<Rightarrow> Action \<Rightarrow> (World, Outcome) state" where
  "forced_logout env action = do {
     cfg \<leftarrow> snapshot env;
     t \<leftarrow> clock_now env;
     let quiet = EvaluateQuiet (cf_Quiet cfg) t;
     (if \<not> cf_Enabled cfg \<or> \<not> qs_Active quiet \<or> \<not> qs_ForceLogout quiet
      then State_Monad.return (quietSwitchDeferred ''conditions changed, no logout sent'')
      else logout env action)
   }"

definition run_kind :: "Env \<Rightarrow> Action \<Rightarrow> (World, Outcome) state" where
  "run_kind env action =
     (case r_Kind (a_Request action) of
        KindQuietHotspot \<Rightarrow> quietSwitch env action
      | KindQuietCampus \<Rightarrow> quietSwitch env action
      | KindLogin \<Rightarrow> authenticate env action
      | KindRelogin \<Rightarrow> authenticate env action
      | KindMaintain \<Rightarrow> authenticate env action
      | KindSwitchCampus \<Rightarrow> switchCampus env action
      | KindForcedLogout \<Rightarrow> forced_logout env action
      | KindLogout \<Rightarrow> manualLogout env action
      | KindSwitchHotspot \<Rightarrow> switchHotspot env action
      | _ \<Rightarrow> State_Monad.return (plain_outcome StateFailed (MsgText ''no worker for this action'') (Some CodeUnsupportedCapability)))"

definition Authenticator_Run :: "Env \<Rightarrow> Action \<Rightarrow> (World, Outcome) state" where
  "Authenticator_Run env action = do {
     stopped \<leftarrow> run_guard env action;
     (case stopped of Some out \<Rightarrow> State_Monad.return out | None \<Rightarrow> run_kind env action)
   }"

definition HandledHere :: "Kind list" where
  "HandledHere = [KindQuietHotspot, KindQuietCampus, KindLogin, KindRelogin, KindMaintain, KindSwitchCampus,
     KindForcedLogout, KindLogout, KindSwitchHotspot]"

definition RoutedElsewhere :: "Kind list" where
  "RoutedElsewhere = [KindPresetsRefresh, KindDetectACID, KindDetectEnvironment, KindDetectOperators, KindDetectIdentity,
     KindDetectVerify, KindWifiSetupStart, KindWifiSetupCancel]"

definition NewAuthenticator :: World where
  "NewAuthenticator = \<lparr>wd_n = 0, wd_generation = 0, wd_seen = [], wd_log = []\<rparr>"

end
