(* ===== verification/Worker_Protocol.thy ===== *)
theory Worker_Protocol
  imports Worker_Run
begin

text \<open>
  What a worker may do with a session, as an automaton over the log of a run, and the calculus that shows
  that a worker follows it. The automaton is the abstract specification: credentials go out once per
  challenge, over the line the transport was opened on, re-read after the challenge; a second login only
  after a session was ended; one session at most is ended, and which one is settled by the last answer of
  the line itself.
\<close>

datatype Stage = Idle | Challenged Challenge | Confirmed Challenge

record Protocol =
  pt_opened :: "Binding option"
  pt_stage :: Stage
  pt_last :: "Identity option"
  pt_reread :: bool
  pt_logins :: nat
  pt_logouts :: nat

definition protocol_start :: Protocol where
  "protocol_start = \<lparr>pt_opened = None, pt_stage = Idle, pt_last = None, pt_reread = False, pt_logins = 0, pt_logouts = 0\<rparr>"

text \<open>Whether the action is a user's, and the names of its own account.\<close>

record Rules =
  ru_manual :: bool
  ru_own :: "string set"

definition on_line :: "Protocol \<Rightarrow> cause + Binding \<Rightarrow> bool" where
  "on_line s r = (case (r, pt_opened s) of (Inr b, Some opened) \<Rightarrow> sameLine b opened | _ \<Rightarrow> False)"

definition may_end :: "Rules \<Rightarrow> Identity option \<Rightarrow> string \<Rightarrow> bool" where
  "may_end ru answer name = (case answer of
     None \<Rightarrow> False
   | Some i \<Rightarrow> if id_Present i then name = id_SessionUsername i \<and> (ru_manual ru \<or> id_MatchesExpected i)
       else name \<in> ru_own ru)"

fun protocol_step :: "Rules \<Rightarrow> Protocol \<Rightarrow> Event \<Rightarrow> Protocol option" where
  "protocol_step ru s (EvOpen account b) = Some (s\<lparr>pt_opened := Some b, pt_stage := Idle, pt_reread := False\<rparr>)"
| "protocol_step ru s (EvResolve iface r) = Some (s\<lparr>pt_reread := on_line s r,
     pt_stage := (case pt_stage s of Challenged c \<Rightarrow> if on_line s r then Confirmed c else Idle | _ \<Rightarrow> Idle)\<rparr>)"
| "protocol_step ru s (EvChallenge name r) =
     Some (s\<lparr>pt_stage := (case r of Inl _ \<Rightarrow> Idle | Inr c \<Rightarrow> Challenged c)\<rparr>)"
| "protocol_step ru s (EvLogin creds challenge r) =
     (if pt_stage s = Confirmed challenge \<and> pt_logins s \<le> pt_logouts s
      then Some (s\<lparr>pt_stage := Idle, pt_logins := Suc (pt_logins s)\<rparr>) else None)"
| "protocol_step ru s (EvOnline name r) =
     Some (s\<lparr>pt_last := (case r of Inl _ \<Rightarrow> None | Inr i \<Rightarrow> Some i), pt_reread := False\<rparr>)"
| "protocol_step ru s (EvLogout name r) =
     (if may_end ru (pt_last s) name \<and> pt_logouts s = 0 then Some (s\<lparr>pt_logouts := 1\<rparr>) else None)"
| "protocol_step ru s _ = Some s"

fun protocol_run :: "Rules \<Rightarrow> Protocol \<Rightarrow> Event list \<Rightarrow> Protocol option" where
  "protocol_run ru s [] = Some s"
| "protocol_run ru s (e # es) = (case protocol_step ru s e of None \<Rightarrow> None | Some s' \<Rightarrow> protocol_run ru s' es)"

lemma protocol_run_append:
  "protocol_run ru s (es @ es') = (case protocol_run ru s es of None \<Rightarrow> None | Some s' \<Rightarrow> protocol_run ru s' es')"
  by (induction es arbitrary: s) (simp_all split: option.split)

subsection \<open>The calculus\<close>

text \<open>Run from any world, \<open>m\<close> appends events the automaton takes from \<open>s\<close> to a state where \<open>Q\<close> holds.\<close>

definition wp :: "Rules \<Rightarrow> (World, 'a) state \<Rightarrow> ('a \<Rightarrow> Protocol \<Rightarrow> bool) \<Rightarrow> Protocol \<Rightarrow> bool" where
  "wp ru m Q s \<longleftrightarrow> (\<forall>w. \<exists>es s'. wd_log (snd (run_state m w)) = wd_log w @ es \<and>
     protocol_run ru s es = Some s' \<and> Q (fst (run_state m w)) s')"

lemma wpI:
  "(\<And>w. \<exists>es s'. wd_log (snd (run_state m w)) = wd_log w @ es \<and> protocol_run ru s es = Some s' \<and> Q (fst (run_state m w)) s') \<Longrightarrow> wp ru m Q s"
  by (simp add: wp_def)

named_theorems wp_rules

lemma wp_return [simp]: "wp ru (State_Monad.return a) Q s \<longleftrightarrow> Q a s"
  by (auto simp: wp_def intro: exI [of _ "[]"])

lemma wp_bind [wp_rules]:
  assumes "wp ru m (\<lambda>a. wp ru (f a) Q) s"
  shows "wp ru (State_Monad.bind m f) Q s"
proof (rule wpI)
  fix w
  obtain a w' where m: "run_state m w = (a, w')" by fastforce
  with assms obtain es s' where 1: "wd_log w' = wd_log w @ es" "protocol_run ru s es = Some s'" "wp ru (f a) Q s'"
    unfolding wp_def [of ru m] by (metis fst_conv snd_conv)
  from 1(3) obtain es' s'' where 2: "wd_log (snd (run_state (f a) w')) = wd_log w' @ es'"
      "protocol_run ru s' es' = Some s''" "Q (fst (run_state (f a) w')) s''"
    unfolding wp_def by blast
  show "\<exists>es s'. wd_log (snd (run_state (State_Monad.bind m f) w)) = wd_log w @ es \<and> protocol_run ru s es = Some s' \<and>
      Q (fst (run_state (State_Monad.bind m f) w)) s'"
    by (rule exI [of _ "es @ es'"], rule exI [of _ s'']) (simp add: m 1 2 protocol_run_append)
qed

lemma wp_mono: "wp ru m Q s \<Longrightarrow> (\<And>a s'. Q a s' \<Longrightarrow> Q' a s') \<Longrightarrow> wp ru m Q' s"
  unfolding wp_def by blast

lemma wp_logged [simp]:
  "wp ru (logged e) Q s \<longleftrightarrow> (case protocol_step ru s e of None \<Rightarrow> False | Some s' \<Rightarrow> Q () s')"
  by (auto simp: wp_def logged_def split: option.splits)

lemma wp_outside [wp_rules]:
  assumes "\<And>n. \<exists>s'. protocol_run ru s (ev (f n)) = Some s' \<and> Q (f n) s'"
  shows "wp ru (outside env f ev) Q s"
proof (rule wpI)
  fix w :: World
  obtain s' where "protocol_run ru s (ev (f (wd_n w))) = Some s'" "Q (f (wd_n w)) s'" using assms by blast
  then show "\<exists>es s'. wd_log (snd (run_state (outside env f ev) w)) = wd_log w @ es \<and> protocol_run ru s es = Some s' \<and>
      Q (fst (run_state (outside env f ev) w)) s'"
    by (simp add: outside_def Let_def)
qed

text \<open>Steps on the worker's own memory say nothing in the log.\<close>

lemma wp_silent:
  assumes "\<And>w. wd_log (snd (run_state m w)) = wd_log w" and "\<And>a. Q a s"
  shows "wp ru m Q s"
  by (rule wpI) (simp add: assms)

lemma wp_memory [wp_rules]:
  "(\<And>a. Q a s) \<Longrightarrow> wp ru (seen_of account) Q s"
  "(\<And>a. Q' a s) \<Longrightarrow> wp ru (set_seen account b) Q' s"
  "(\<And>a. Q'' a s) \<Longrightarrow> wp ru next_generation Q'' s"
  by (rule wp_silent; simp add: seen_of_def set_seen_def next_generation_def Let_def)+

lemma wp_if [wp_rules]: "(b \<Longrightarrow> wp ru m Q s) \<Longrightarrow> (\<not> b \<Longrightarrow> wp ru m' Q s) \<Longrightarrow> wp ru (if b then m else m') Q s"
  by simp

lemma wp_option [wp_rules]:
  "(x = None \<Longrightarrow> wp ru m Q s) \<Longrightarrow> (\<And>a. x = Some a \<Longrightarrow> wp ru (f a) Q s) \<Longrightarrow> wp ru (case x of None \<Rightarrow> m | Some a \<Rightarrow> f a) Q s"
  by (cases x) simp_all

lemma wp_sum [wp_rules]:
  "(\<And>a. x = Inl a \<Longrightarrow> wp ru (g a) Q s) \<Longrightarrow> (\<And>b. x = Inr b \<Longrightarrow> wp ru (h b) Q s) \<Longrightarrow> wp ru (case x of Inl a \<Rightarrow> g a | Inr b \<Rightarrow> h b) Q s"
  by (cases x) simp_all

lemma wp_let [wp_rules]: "wp ru (f a) Q s \<Longrightarrow> wp ru (Let a f) Q s"
  by simp

lemma wp_report [wp_rules]: "Q () s \<Longrightarrow> wp ru (report phase) Q s"
  by (simp add: report_def)

lemma wp_snapshot [wp_rules]: "(\<And>n. Q (ev_config env n) s) \<Longrightarrow> wp ru (snapshot env) Q s"
  unfolding snapshot_def by (rule wp_outside) simp

lemma wp_clock [wp_rules]: "(\<And>t. Q t s) \<Longrightarrow> wp ru (clock_now env) Q s"
  unfolding clock_now_def by (rule wp_outside) simp

lemma wp_association [wp_rules]: "(\<And>r. Q r s) \<Longrightarrow> wp ru (association env radio) Q s"
  unfolding association_def by (rule wp_outside) simp

lemma wp_probe [wp_rules]: "(\<And>r. Q r s) \<Longrightarrow> wp ru (probe env system) Q s"
  unfolding probe_def by (rule wp_outside) simp

lemma wp_ctx [wp_rules]: "(\<And>r. Q r s) \<Longrightarrow> wp ru (ctx_err env) Q s"
  unfolding ctx_err_def by (rule wp_outside) simp

text \<open>Reading the line forgets an unconfirmed challenge, or confirms it.\<close>

definition reread :: "Protocol \<Rightarrow> cause + Binding \<Rightarrow> Protocol" where
  "reread s r = s\<lparr>pt_reread := on_line s r,
     pt_stage := (case pt_stage s of Challenged c \<Rightarrow> if on_line s r then Confirmed c else Idle | _ \<Rightarrow> Idle)\<rparr>"

lemma wp_resolve [wp_rules]: "(\<And>r. Q r (reread s r)) \<Longrightarrow> wp ru (resolve env iface) Q s"
  unfolding resolve_def reread_def by (rule wp_outside) simp

end
