(* ===== verification/Worker_Specs.thy ===== *)
theory Worker_Specs
  imports Worker_Protocol
begin

text \<open>What each operation of a worker does to the protocol, and what its outcome then says.\<close>

definition shows_auth :: "Outcome \<Rightarrow> AuthState \<Rightarrow> string \<Rightarrow> bool" where
  "shows_auth out auth identity \<longleftrightarrow> (\<exists>ob. o_Observation out = Some ob \<and> ob_Auth ob = auth \<and> ob_Identity ob = identity)"

lemma plain_outcome_simps [simp]:
  "o_State (plain_outcome st m c) = st" "o_Code (plain_outcome st m c) = c"
  "o_MaintenanceDeferred (plain_outcome st m c) = False" "o_Observation (plain_outcome st m c) = None"
  by (simp_all add: plain_outcome_def)

lemma failure_simps [simp]: "o_State (failure c) = StateFailed" "o_MaintenanceDeferred (failure c) = False" "o_Observation (failure c) = None"
  by (simp_all add: failure_def)

lemma wp_observation [wp_rules]:
  "(\<And>ob. ob_Auth ob = auth \<Longrightarrow> ob_Identity ob = identity \<Longrightarrow> Q ob s) \<Longrightarrow> wp ru (observation env p auth connectivity identity) Q s"
  unfolding observation_def by (intro wp_rules) simp

lemma wp_with_observation [wp_rules]:
  "(\<And>ob. ob_Auth ob = auth \<Longrightarrow> ob_Identity ob = identity \<Longrightarrow> Q (out\<lparr>o_Observation := Some ob\<rparr>) s) \<Longrightarrow>
   wp ru (with_observation env p out auth connectivity identity) Q s"
  unfolding with_observation_def by (intro wp_rules) simp

lemma wp_failed [wp_rules]:
  "(\<And>out. o_State out = StateFailed \<Longrightarrow> Q out s) \<Longrightarrow> wp ru (failed env p c auth identity) Q s"
  unfolding failed_def by (intro wp_rules) simp

lemma wp_unconfirmed [wp_rules]:
  "(\<And>out. o_State out = StateFailed \<Longrightarrow> Q out s) \<Longrightarrow> wp ru (unconfirmed env p m identity) Q s"
  unfolding unconfirmed_def by (intro wp_rules) simp

lemma wp_succeeded [wp_rules]:
  "(\<And>out. o_State out = StateSucceeded \<Longrightarrow> shows_auth out AuthVerifiedSelf identity \<Longrightarrow> Q out s) \<Longrightarrow> wp ru (succeeded env p m identity) Q s"
  unfolding succeeded_def by (intro wp_rules) (simp add: shows_auth_def)

lemma wp_wentOffline [wp_rules]:
  "(\<And>out. o_State out = StateSucceeded \<Longrightarrow> shows_auth out AuthOffline [] \<Longrightarrow> Q out s) \<Longrightarrow> wp ru (wentOffline env p m) Q s"
  unfolding wentOffline_def by (intro wp_rules) (simp add: shows_auth_def)

subsection \<open>The line\<close>

lemma wp_invalidateLine [wp_rules]: "Q () s \<Longrightarrow> wp ru (invalidateLine account generation) Q s"
  unfolding invalidateLine_def by (intro wp_rules) simp_all

lemma wp_settle_line [wp_rules]: "(\<And>b. Q b s) \<Longrightarrow> wp ru (settle_line account previous binding) Q s"
  unfolding settle_line_def by (cases previous) (simp_all, (intro wp_rules conjI impI; simp)+)

lemma wp_observeLine [wp_rules]: "(\<And>a r. Q a (reread s r)) \<Longrightarrow> wp ru (observeLine env account iface) Q s"
  unfolding observeLine_def by (intro wp_rules; simp; intro wp_rules; simp; intro wp_rules; simp)

lemma wp_confirmUnchanged [wp_rules]:
  assumes "pt_opened s = Some (at_binding p)" and "\<And>e. Q (Some e) s" and "\<And>e r. Q (Some e) (reread s r)"
    and "\<And>r. on_line s r \<Longrightarrow> Q None (reread s r)"
  shows "wp ru (confirmUnchanged env p) Q s"
  unfolding confirmUnchanged_def using assms by (intro wp_rules) (simp_all add: on_line_def)

lemma wp_linkFailure [wp_rules]:
  assumes "\<And>out. o_State out = StateFailed \<Longrightarrow> Q out s"
  shows "wp ru (linkFailure env p iface c) Q s"
  unfolding linkFailure_def by (intro wp_rules | auto intro!: assms)+

subsection \<open>Requests\<close>

lemma wp_line [wp_rules]:
  "(\<And>r. Q r s) \<Longrightarrow> wp ru (ln_Do (bound_line env line) url) Q s"
  "(\<And>t. Q' t s) \<Longrightarrow> wp ru (ln_now (bound_line env line)) Q' s"
  "(\<And>c. Q'' c s) \<Longrightarrow> wp ru (ln_callback (bound_line env line)) Q'' s"
  unfolding bound_line_def by (simp; intro wp_outside; simp)+

lemma wp_tx_get [wp_rules]: "(\<And>r. Q r s) \<Longrightarrow> wp ru (tx_get lib (bound_line env line) url) Q s"
  unfolding tx_get_def by (intro wp_rules) simp_all

lemma wp_online [wp_rules]:
  assumes "\<And>r. Q r (s\<lparr>pt_last := (case r of Inl _ \<Rightarrow> None | Inr i \<Rightarrow> Some i), pt_reread := False\<rparr>)"
  shows "wp ru (online env p) Q s"
  unfolding online_def tx_Online_def by (auto intro!: wp_rules assms)

lemma wp_fetch_challenge [wp_rules]:
  assumes "\<And>r. Q r (s\<lparr>pt_stage := (case r of Inl _ \<Rightarrow> Idle | Inr c \<Rightarrow> Challenged c)\<rparr>)"
  shows "wp ru (fetch_challenge env p) Q s"
  unfolding fetch_challenge_def tx_Challenge_def by (auto intro!: wp_rules assms)

lemma wp_send_login [wp_rules]:
  assumes "pt_stage s = Confirmed c" and "pt_logins s \<le> pt_logouts s"
    and "\<And>r. Q r (s\<lparr>pt_stage := Idle, pt_logins := Suc (pt_logins s)\<rparr>)"
  shows "wp ru (send_login env p c) Q s"
  unfolding send_login_def tx_Login_def Let_def by (auto simp: assms(1,2) intro!: wp_rules assms(3))

lemma wp_logout_session [wp_rules]:
  assumes "may_end ru (pt_last s) name" and "pt_logouts s = 0" and "\<And>r. Q r (s\<lparr>pt_logouts := 1\<rparr>)"
  shows "wp ru (logout_session env p name ip) Q s"
  unfolding logout_session_def tx_Logout_def Let_def using assms by (auto intro!: wp_rules simp del: One_nat_def)

lemma wp_attemptLogin [wp_rules]:
  assumes "pt_opened s = Some (at_binding p)" and "pt_logins s \<le> pt_logouts s"
    and "\<And>r s'. pt_opened s' = pt_opened s \<Longrightarrow> pt_last s' = pt_last s \<Longrightarrow> pt_logouts s' = pt_logouts s \<Longrightarrow>
      pt_logins s' \<le> Suc (pt_logins s) \<Longrightarrow> Q r s'"
  shows "wp ru (attemptLogin env p) Q s"
  unfolding attemptLogin_def
  by (auto intro!: wp_rules assms simp: assms(1,2) reread_def on_line_def)

end
