(* ===== verification/Worker_Verify.thy ===== *)
theory Worker_Verify
  imports Worker_Specs
begin

text \<open>
  The protocol kept by whole actions: preparing, verifying, confirming, logging in, ending a session. Each
  lemma gives what holds of every outcome and of the protocol when the operation returns.
\<close>

text \<open>Nothing was sent that opens or ends a session.\<close>

definition same_run :: "Protocol \<Rightarrow> Protocol \<Rightarrow> bool" where
  "same_run s s' \<longleftrightarrow> pt_opened s' = pt_opened s \<and> pt_logins s' = pt_logins s \<and> pt_logouts s' = pt_logouts s"

lemma same_run_refl [simp]: "same_run s s" by (simp add: same_run_def)

lemma same_run_trans: "same_run s s' \<Longrightarrow> same_run s' s'' \<Longrightarrow> same_run s s''" by (simp add: same_run_def)

lemma same_run_reread [simp]: "same_run s (reread s' r) = same_run s s'" by (simp add: same_run_def reread_def)

lemma same_run_last [simp]: "same_run s (s'\<lparr>pt_last := l, pt_reread := b\<rparr>) = same_run s s'" by (simp add: same_run_def)

lemma reread_fields [simp]:
  "pt_opened (reread s r) = pt_opened s" "pt_last (reread s r) = pt_last s"
  "pt_reread (reread s r) = on_line s r" "pt_logins (reread s r) = pt_logins s" "pt_logouts (reread s r) = pt_logouts s"
  by (simp_all add: reread_def)

text \<open>What an outcome may say: the account's own session, found by the last answer of an unchanged line.\<close>

definition verified :: "Outcome \<Rightarrow> Protocol \<Rightarrow> bool" where
  "verified out s \<longleftrightarrow> (\<exists>i. pt_last s = Some i \<and> id_Present i \<and> id_MatchesExpected i \<and> pt_reread s \<and>
     shows_auth out AuthVerifiedSelf (id_Username i))"

definition offline_shown :: "Outcome \<Rightarrow> Protocol \<Rightarrow> bool" where
  "offline_shown out s \<longleftrightarrow> (\<exists>i. pt_last s = Some i \<and> \<not> id_Present i \<and> shows_auth out AuthOffline [])"

definition trustworthy :: "(Outcome \<Rightarrow> Protocol \<Rightarrow> bool) \<Rightarrow> Outcome \<Rightarrow> Protocol \<Rightarrow> bool" where
  "trustworthy good out s \<longleftrightarrow> (o_State out = StateSucceeded \<longrightarrow> good out s)"

lemma trustworthy_failed [simp]: "o_State out = StateFailed \<Longrightarrow> trustworthy good out s"
  by (simp add: trustworthy_def)

subsection \<open>Connectivity\<close>

lemma wp_checked_mode [wp_rules]:
  assumes "\<And>out' e. o_State out' = o_State out \<Longrightarrow> (\<And>a i. shows_auth out a i \<Longrightarrow> shows_auth out' a i) \<Longrightarrow> Q (out', e) s"
  shows "wp ru (checked_mode env p out) Q s"
  unfolding checked_mode_def check_internet_def ask_system_def Let_def
  by (auto intro!: wp_rules assms simp: shows_auth_def on_observation_def)

lemma apply_check_succeeded [simp]:
  "o_State (apply_check out e) = StateSucceeded \<longleftrightarrow> e = None \<and> o_State out = StateSucceeded"
  "apply_check out None = out"
  by (auto simp: apply_check_def on_observation_def Let_def split: option.splits)

lemma wp_still_associated [wp_rules]: "(\<And>r. Q r s) \<Longrightarrow> wp ru (still_associated env p) Q s"
  unfolding still_associated_def by (auto intro!: wp_rules)

lemma wp_verifyConnectivity:
  assumes "pt_opened s = Some (at_binding p)" and "pt_last s = Some i" and "id_Present i" and "id_MatchesExpected i"
  shows "wp ru (verifyConnectivity env p message (id_Username i)) (\<lambda>out s'. same_run s s' \<and> trustworthy verified out s') s"
  unfolding verifyConnectivity_def
  by (auto intro!: wp_rules simp: assms trustworthy_def verified_def)

subsection \<open>Verification and confirmation\<close>

lemma wp_identity [wp_rules]:
  "(id_Present i \<Longrightarrow> id_MatchesExpected i \<Longrightarrow> wp ru m Q s) \<Longrightarrow> (id_Present i \<Longrightarrow> \<not> id_MatchesExpected i \<Longrightarrow> wp ru m' Q s) \<Longrightarrow>
   (\<not> id_Present i \<Longrightarrow> wp ru m'' Q s) \<Longrightarrow>
   wp ru (case Identity_State i of AuthVerifiedSelf \<Rightarrow> m | AuthVerifiedOther \<Rightarrow> m' | _ \<Rightarrow> m'') Q s"
  by (auto simp: Identity_State_def)

abbreviation checked :: "(Outcome \<Rightarrow> Protocol \<Rightarrow> bool) \<Rightarrow> Protocol \<Rightarrow> Outcome \<Rightarrow> Protocol \<Rightarrow> bool" where
  "checked good s out s' \<equiv> same_run s s' \<and> trustworthy good out s'"

lemma wp_verified_self:
  assumes "pt_opened s = Some (at_binding p)" and "same_run s s'" and "pt_last s' = Some i" and "id_Present i" and "id_MatchesExpected i"
  shows "wp ru (verifyConnectivity env p message (id_Username i)) (checked verified s) s'"
  by (rule wp_mono [OF wp_verifyConnectivity]) (use assms in \<open>auto simp: same_run_def\<close>)

lemma wp_verifyOnce:
  assumes "pt_opened s = Some (at_binding p)" and "same_run s s'" and "\<And>i. known = Some i \<Longrightarrow> pt_last s' = Some i"
  shows "wp ru (verifyOnce env p known) (checked verified s) s'"
  unfolding verifyOnce_def
  by (cases known) (use assms in \<open>auto intro!: wp_rules wp_verified_self\<close>)

text \<open>A check that never sends, repeated: at every length the outcome stays trustworthy.\<close>

lemma wp_terminal_round:
  assumes "pt_opened s = Some (at_binding p)" and "same_run s s'"
    and "\<And>r. wp ru check (\<lambda>r. checked good s (fst r)) (if first then s' else reread s' r)"
    and "\<And>s' again. rest = Some again \<Longrightarrow> same_run s s' \<Longrightarrow> wp ru again (checked good s) s'"
  shows "wp ru (terminal_round env p check first rest) (checked good s) s'"
proof -
  have "pt_opened s' = Some (at_binding p)" using assms(1,2) by (simp add: same_run_def)
  moreover have "wp ru check (\<lambda>r. wp ru (if \<not> snd r then State_Monad.return (fst r)
         else case rest of None \<Rightarrow> State_Monad.return (fst r)
         | Some again \<Rightarrow> do { t \<leftarrow> clock_now env; logged (EvWait (terminal_interval p)); again }) (checked good s))
      (if first then s' else reread s' r)" for r
    by (rule wp_mono [OF assms(3)]) (cases rest; auto intro!: wp_rules assms(4))
  ultimately show ?thesis
    unfolding terminal_round_def by (cases first) (use assms(2) in \<open>auto intro!: wp_rules\<close>)
qed

lemma wp_terminal_loop:
  assumes "pt_opened s = Some (at_binding p)" and "same_run s s'"
    and "\<And>s'. same_run s s' \<Longrightarrow> wp ru check (\<lambda>r. checked good s (fst r)) s'"
  shows "wp ru (terminal_loop env p check n) (checked good s) s'"
  using assms(2) by (induction n arbitrary: s') (auto intro!: wp_terminal_round assms(1,3))

lemma wp_terminalChecks:
  assumes "pt_opened s = Some (at_binding p)" and "wp ru check_first (\<lambda>r. checked good s (fst r)) s"
    and "\<And>s'. same_run s s' \<Longrightarrow> wp ru check (\<lambda>r. checked good s (fst r)) s'"
  shows "wp ru (terminalChecks env p check_first check) (checked good s) s"
  unfolding terminalChecks_def Let_def
  by (rule wp_terminal_round) (use assms in \<open>auto intro!: wp_terminal_loop split: if_splits\<close>)

lemma wp_verifySession:
  assumes "pt_opened s = Some (at_binding p)" and "\<And>i. known = Some i \<Longrightarrow> pt_last s = Some i"
  shows "wp ru (verifySession env p known) (checked verified s) s"
  unfolding verifySession_def
  by (rule wp_terminalChecks) (use assms in \<open>auto simp: session_check_def intro!: wp_rules wp_mono [OF wp_verifyOnce]\<close>)

lemma wp_logout_check:
  assumes "pt_opened s = Some (at_binding p)" and "same_run s s'"
  shows "wp ru (logout_check env p identity) (\<lambda>r. checked offline_shown s (fst r)) s'"
proof -
  have "pt_opened s' = Some (at_binding p)" using assms by (simp add: same_run_def)
  with assms(2) show ?thesis
    unfolding logout_check_def by (auto intro!: wp_rules simp: trustworthy_def offline_shown_def)
qed

lemma wp_verifyLogout:
  "pt_opened s = Some (at_binding p) \<Longrightarrow> wp ru (verifyLogout env p identity) (checked offline_shown s) s"
  unfolding verifyLogout_def by (rule wp_terminalChecks) (auto intro!: wp_logout_check)

subsection \<open>Logging in\<close>

text \<open>The account may end a session only by the rules of the run.\<close>

definition plays_by :: "Rules \<Rightarrow> Attempt \<Rightarrow> bool" where
  "plays_by ru p \<longleftrightarrow> (at_manual p \<longrightarrow> ru_manual ru) \<and> ca_UserID (at_account p) \<in> ru_own ru"

abbreviation trusted :: "(Outcome \<Rightarrow> Protocol \<Rightarrow> bool) \<Rightarrow> Outcome \<Rightarrow> Protocol \<Rightarrow> bool" where
  "trusted good out s \<equiv> trustworthy good out s"

lemma wp_verify_trusted:
  assumes "pt_opened s = Some (at_binding p)" and "\<And>i. known = Some i \<Longrightarrow> pt_last s = Some i"
  shows "wp ru (verifySession env p known) (trusted verified) s"
  by (rule wp_mono [OF wp_verifySession]) (use assms in auto)

lemma wp_clearAndRetry:
  assumes "pt_opened s = Some (at_binding p)" and "pt_logins s \<le> 1" and "pt_logouts s = 0"
    and "may_end ru (pt_last s) name"
  shows "wp ru (clearAndRetry env p name identity) (trusted verified) s"
  unfolding clearAndRetry_def using assms by (auto intro!: wp_rules wp_verify_trusted)

lemma wp_settleAlreadyOnline:
  assumes "pt_opened s = Some (at_binding p)" and "pt_logins s \<le> 1" and "pt_logouts s = 0" and "plays_by ru p"
  shows "wp ru (settleAlreadyOnline env p) (trusted verified) s"
  unfolding settleAlreadyOnline_def
  using assms by (auto intro!: wp_rules wp_verify_trusted wp_clearAndRetry simp: may_end_def plays_by_def)

lemma wp_login_or_settle:
  assumes "pt_opened s = Some (at_binding p)" and "pt_logins s = 0" and "pt_logouts s = 0" and "plays_by ru p"
  shows "wp ru (login_or_settle env p) (trusted verified) s"
  unfolding login_or_settle_def using assms by (auto intro!: wp_rules wp_verify_trusted wp_settleAlreadyOnline)

lemma wp_checkExisting:
  assumes "pt_opened s = Some (at_binding p)"
  shows "wp ru (checkExisting env p) (\<lambda>r s'. same_run s s' \<and> (\<forall>out. r = Some out \<longrightarrow> trustworthy verified out s')) s"
  unfolding checkExisting_def
  by (auto intro!: wp_rules wp_mono [OF wp_verified_self [OF assms]] simp: assms)

lemma wp_end_session:
  assumes "pt_opened s = Some (at_binding p)" and "pt_logouts s = 0" and "may_end ru (pt_last s) (id_SessionUsername i)"
  shows "wp ru (end_session env p i) (trusted offline_shown) s"
  unfolding end_session_def
  using assms by (auto intro!: wp_rules wp_mono [OF wp_verifyLogout])

subsection \<open>The radio\<close>

lemma wp_moveTo [wp_rules]: "(\<And>r. Q r s) \<Longrightarrow> wp ru (moveTo env dest) Q s"
  unfolding moveTo_def choose_and_apply_def Let_def by (auto intro!: wp_rules)

lemma wp_defer_loop:
  "(\<And>r. (\<forall>out. r = Some out \<longrightarrow> o_State out = StateFailed) \<Longrightarrow> Q r s) \<Longrightarrow> wp ru (defer_loop env account hotspots seen) Q s"
  by (induction hotspots arbitrary: seen) (auto intro!: wp_rules simp: read_radio_def deferred_on_hotspot_def)

lemma wp_deferOnHotspot [wp_rules]:
  "(\<And>r. (\<forall>out. r = Some out \<longrightarrow> o_State out = StateFailed) \<Longrightarrow> Q r s) \<Longrightarrow> wp ru (deferOnHotspot env cfg account) Q s"
  unfolding deferOnHotspot_def by (rule wp_defer_loop)

lemma wp_radio_unconfirmed [wp_rules]:
  "(\<And>out'. o_State out' = o_State out \<Longrightarrow> Q (Some out') s) \<Longrightarrow> wp ru (radio_unconfirmed env account revision seqno generation out) Q s"
  unfolding radio_unconfirmed_def by (auto intro!: wp_rules)

lemma wp_radio_generation [wp_rules]: "(\<And>n. Q n s) \<Longrightarrow> wp ru (radio_generation account) Q s"
  unfolding radio_generation_def Let_def by (auto intro!: wp_rules)

lemma wp_ensureWirelessLine [wp_rules]:
  "(\<And>r. (\<forall>out. r = Some out \<longrightarrow> o_State out = StateFailed) \<Longrightarrow> Q r s) \<Longrightarrow> wp ru (ensureWirelessLine env action) Q s"
  unfolding ensureWirelessLine_def by (auto intro!: wp_rules)

end
