(* ===== verification/Worker_Actions.thy ===== *)
theory Worker_Actions
  imports Worker_Verify
begin

text \<open>
  Every action of the worker follows the protocol: from any world, whatever the outside answers, the events
  it adds to the log are accepted, and what it reports is trustworthy.
\<close>

text \<open>Whether a user asked for the action, and the names its account has in some saved configuration.\<close>

definition worker_rules :: "Env \<Rightarrow> Action \<Rightarrow> Rules" where
  "worker_rules env action = \<lparr>ru_manual = Manual (r_Kind (a_Request action)),
     ru_own = {ca_UserID account | account n. CampusAccountByID (ev_config env n) (r_AccountID (a_Request action)) = Some account}\<rparr>"

lemma shows_worker_rules [simp]:
  "worker_rules env (action\<lparr>a_Request := (a_Request action)\<lparr>r_HotspotID := h\<rparr>\<rparr>) = worker_rules env action"
  by (simp add: worker_rules_def)

lemma new_attempt_simps [simp]:
  "at_manual (new_attempt cfg revision account action) = Manual (r_Kind (a_Request action))"
  "at_account (new_attempt cfg revision account action) = account"
  by (simp_all add: new_attempt_def bare_attempt_def Let_def)

lemma wp_prepare_line:
  assumes "\<And>out s'. o_State out = StateFailed \<Longrightarrow> Q (Inl out) s'"
    and "\<And>gateway line s'. pt_opened s' = Some (at_binding p) \<Longrightarrow> pt_logins s' = pt_logins s \<Longrightarrow> pt_logouts s' = pt_logouts s \<Longrightarrow>
      Q (Inr (p\<lparr>at_gateway := gateway, at_line := line\<rparr>)) s'"
  shows "wp ru (prepare_line env p) Q s"
  unfolding prepare_line_def open_line_def Let_def by (auto intro!: wp_rules assms split: sum.split)

definition ready :: "Env \<Rightarrow> Action \<Rightarrow> Protocol \<Rightarrow> Outcome + Attempt \<Rightarrow> Protocol \<Rightarrow> bool" where
  "ready env action s r s' = (case r of
     Inl out \<Rightarrow> o_State out = StateFailed
   | Inr p \<Rightarrow> pt_opened s' = Some (at_binding p) \<and> pt_logins s' = pt_logins s \<and> pt_logouts s' = pt_logouts s \<and>
       plays_by (worker_rules env action) p)"

lemma plays_by_updates [simp]:
  "plays_by ru (p\<lparr>at_binding := b\<rparr>) = plays_by ru p"
  "plays_by ru (p\<lparr>at_gateway := g\<rparr>) = plays_by ru p"
  "plays_by ru (p\<lparr>at_line := l\<rparr>) = plays_by ru p"
  by (simp_all add: plays_by_def)

lemma plays_by_new:
  "CampusAccountByID (ev_config env n) (r_AccountID (a_Request action)) = Some account \<Longrightarrow>
   plays_by (worker_rules env action) (new_attempt cfg revision account action)"
  by (auto simp: plays_by_def worker_rules_def)

lemma wp_prepare: "wp ru (prepare env action) (ready env action s) s"
  unfolding prepare_def Let_def
  by (auto intro!: wp_rules wp_prepare_line plays_by_new simp: ready_def)

lemma wp_prepared [wp_rules]:
  assumes "\<And>out s'. o_State out = StateFailed \<Longrightarrow> Q (Inl out) s'"
    and "\<And>p s'. pt_opened s' = Some (at_binding p) \<Longrightarrow> pt_logins s' = pt_logins s \<Longrightarrow> pt_logouts s' = pt_logouts s \<Longrightarrow>
      plays_by (worker_rules env action) p \<Longrightarrow> Q (Inr p) s'"
  shows "wp ru (prepare env action) Q s"
  by (rule wp_mono [OF wp_prepare]) (auto simp: ready_def assms split: sum.splits)

lemma wp_existing:
  assumes "pt_opened s = Some (at_binding p)" and "pt_logins s = 0" and "pt_logouts s = 0" and "plays_by ru p"
  shows "wp ru (checkExisting env p) (\<lambda>a. wp ru (case a of None \<Rightarrow> login_or_settle env p | Some x \<Rightarrow> State_Monad.return x)
    (trusted verified)) s"
  by (rule wp_mono [OF wp_checkExisting [OF assms(1)]])
    (use assms in \<open>auto intro!: wp_login_or_settle wp_rules simp: same_run_def\<close>)

lemma wp_authenticate:
  assumes "pt_logins s = 0" and "pt_logouts s = 0"
  shows "wp (worker_rules env action) (authenticate env action) (trusted verified) s"
  unfolding authenticate_def by (auto intro!: wp_rules wp_existing wp_login_or_settle simp: assms)

text \<open>A forced logout on another network reports that nothing was sent, without an observation.\<close>

definition logout_shown :: "Outcome \<Rightarrow> Protocol \<Rightarrow> bool" where
  "logout_shown out s \<longleftrightarrow> offline_shown out s \<or> o_Observation out = None"

lemma wp_logout_radio [wp_rules]:
  "(\<And>r. (\<forall>out. r = Some out \<longrightarrow> o_Observation out = None) \<Longrightarrow> Q r s) \<Longrightarrow> wp ru (logout_radio env action) Q s"
  unfolding logout_radio_def by (auto intro!: wp_rules split: sum.splits)

lemma logout_shown_offline: "trustworthy offline_shown out s \<Longrightarrow> trustworthy logout_shown out s"
  by (simp add: trustworthy_def logout_shown_def)

lemma trustworthy_logout:
  "o_State out = StateFailed \<or> o_Observation out = None \<or>
     (\<exists>i. pt_last s = Some i \<and> \<not> id_Present i \<and> shows_auth out AuthOffline []) \<Longrightarrow> trustworthy logout_shown out s"
  by (auto simp: trustworthy_def logout_shown_def offline_shown_def)

lemma wp_end_shown:
  assumes "pt_opened s = Some (at_binding p)" and "pt_logouts s = 0" and "may_end ru (pt_last s) (id_SessionUsername i)"
  shows "wp ru (end_session env p i) (trusted logout_shown) s"
  by (rule wp_mono [OF wp_end_session]) (use assms logout_shown_offline in auto)

lemma wp_logout:
  assumes "pt_logins s = 0" and "pt_logouts s = 0"
  shows "wp (worker_rules env action) (logout env action) (trusted logout_shown) s"
  unfolding logout_def
  by (auto intro!: wp_rules wp_end_shown trustworthy_logout
    simp: assms may_end_def plays_by_def)

subsection \<open>The switches and the dispatch\<close>

abbreviation followed :: "Outcome \<Rightarrow> Protocol \<Rightarrow> bool" where "followed \<equiv> \<lambda>_ _. True"

lemma wp_retire_radio [wp_rules]: "(\<And>a s. Q a s) \<Longrightarrow> wp ru (retire_radio env account out) Q s"
  unfolding retire_radio_def Let_def by (auto intro!: wp_rules)

lemma wp_switchCampus:
  assumes "pt_logins s = 0" and "pt_logouts s = 0"
  shows "wp (worker_rules env action) (switchCampus env action) followed s"
  unfolding switchCampus_def by (auto intro!: wp_rules wp_mono [OF wp_authenticate] simp: assms)

lemma wp_checkHotspot [wp_rules]:
  assumes "\<And>a s. Q a s"
  shows "wp ru (checkHotspot env cfg hotspot) Q s"
  unfolding checkHotspot_def probed_hotspot_def Let_def by (auto intro!: wp_rules assms)

lemma wp_failBack [wp_rules]: "(\<And>a s. Q a s) \<Longrightarrow> wp ru (failBack env cfg dest c) Q s"
  unfolding failBack_def Let_def by (auto intro!: wp_rules)

lemma wp_switchHotspot [wp_rules]: "(\<And>a s. Q a s) \<Longrightarrow> wp ru (switchHotspot env action) Q s"
  unfolding switchHotspot_def checked_switch_def by (auto intro!: wp_rules)

lemma wp_refresh_after_switch [wp_rules]: "(\<And>a s. Q a s) \<Longrightarrow> wp ru (refresh_after_switch env cfg account out) Q s"
  unfolding refresh_after_switch_def Let_def by (auto intro!: wp_rules)

lemma wp_manualLogout:
  assumes "pt_logins s = 0" and "pt_logouts s = 0"
  shows "wp (worker_rules env action) (manualLogout env action) followed s"
  unfolding manualLogout_def Let_def by (auto intro!: wp_rules wp_mono [OF wp_logout] simp: assms)

lemma wp_quietSwitch:
  assumes "pt_logins s = 0" and "pt_logouts s = 0"
  shows "wp (worker_rules env action) (quietSwitch env action) followed s"
  unfolding quietSwitch_def enter_quiet_def leave_quiet_def Let_def
  by (auto intro!: wp_rules wp_switchCampus split: option.splits sum.splits simp: assms)

lemma wp_forced_logout:
  assumes "pt_logins s = 0" and "pt_logouts s = 0"
  shows "wp (worker_rules env action) (forced_logout env action) followed s"
  unfolding forced_logout_def Let_def by (auto intro!: wp_rules wp_mono [OF wp_logout] simp: assms)

lemma wp_run_kind:
  assumes "pt_logins s = 0" and "pt_logouts s = 0"
  shows "wp (worker_rules env action) (run_kind env action) followed s"
  unfolding run_kind_def
  by (cases "r_Kind (a_Request action)")
    (auto intro!: wp_rules wp_quietSwitch wp_forced_logout wp_manualLogout wp_switchCampus
      wp_mono [OF wp_authenticate] simp: assms)

lemma wp_run_guard [wp_rules]: "(\<And>r. Q r s) \<Longrightarrow> wp ru (run_guard env action) Q s"
  unfolding run_guard_def Let_def by (auto intro!: wp_rules)

lemma wp_Run: "wp (worker_rules env action) (Authenticator_Run env action) followed protocol_start"
  unfolding Authenticator_Run_def by (auto intro!: wp_rules wp_run_kind simp: protocol_start_def)

end
