(* ===== verification/Worker_Claims.thy ===== *)
theory Worker_Claims
  imports Worker_Actions
begin

text \<open>
  What the protocol means for a run of the worker, over its log alone: which sessions it ends, when a
  password leaves the router, and what a reported success rests on.
\<close>

text \<open>The events a run adds.\<close>

definition worker_log :: "Env \<Rightarrow> Action \<Rightarrow> World \<Rightarrow> Event list" where
  "worker_log env action w = drop (length (wd_log w)) (wd_log (snd (run_state (Authenticator_Run env action) w)))"

text \<open>Who was on the line by the last answer, and the binding the last transport was opened on.\<close>

primrec answer_after :: "Event list \<Rightarrow> Identity option \<Rightarrow> Identity option" where
  "answer_after [] known = known"
| "answer_after (e # es) known = answer_after es
     (case e of EvOnline _ r \<Rightarrow> (case r of Inl _ \<Rightarrow> None | Inr i \<Rightarrow> Some i) | _ \<Rightarrow> known)"

primrec opened_after :: "Event list \<Rightarrow> Binding option \<Rightarrow> Binding option" where
  "opened_after [] b = b"
| "opened_after (e # es) b = opened_after es (case e of EvOpen _ b' \<Rightarrow> Some b' | _ \<Rightarrow> b)"

definition last_answer :: "Event list \<Rightarrow> Identity option" where "last_answer es = answer_after es None"
definition last_opened :: "Event list \<Rightarrow> Binding option" where "last_opened es = opened_after es None"

fun is_login :: "Event \<Rightarrow> bool" where "is_login (EvLogin _ _ _) = True" | "is_login _ = False"
fun is_logout :: "Event \<Rightarrow> bool" where "is_logout (EvLogout _ _) = True" | "is_logout _ = False"

text \<open>The events that bear on a challenge, and those that bear on an answer of the line.\<close>

fun touches_challenge :: "Event \<Rightarrow> bool" where
  "touches_challenge (EvChallenge _ _) = True" | "touches_challenge (EvResolve _ _) = True"
| "touches_challenge (EvOpen _ _) = True" | "touches_challenge (EvLogin _ _ _) = True" | "touches_challenge _ = False"

fun touches_answer :: "Event \<Rightarrow> bool" where
  "touches_answer (EvOnline _ _) = True" | "touches_answer (EvResolve _ _) = True"
| "touches_answer (EvOpen _ _) = True" | "touches_answer _ = False"

subsection \<open>What an accepted log says\<close>

lemma run_last: "protocol_run ru s es = Some s' \<Longrightarrow> pt_last s' = answer_after es (pt_last s)"
proof (induction es arbitrary: s)
  case (Cons e es) then show ?case by (cases e) (auto split: option.splits if_splits)
qed simp

lemma run_opened: "protocol_run ru s es = Some s' \<Longrightarrow> pt_opened s' = opened_after es (pt_opened s)"
proof (induction es arbitrary: s)
  case (Cons e es) then show ?case by (cases e) (auto split: option.splits if_splits)
qed simp

lemma run_counts:
  "protocol_run ru s es = Some s' \<Longrightarrow> pt_logins s' = pt_logins s + length (filter is_login es)"
  "protocol_run ru s es = Some s' \<Longrightarrow> pt_logouts s' = pt_logouts s + length (filter is_logout es)"
proof (induction es arbitrary: s)
  case (Cons e es)
  { case 1 then show ?case using Cons.IH(1) by (cases e) (auto split: option.splits if_splits) }
  { case 2 then show ?case using Cons.IH(2) by (cases e) (auto split: option.splits if_splits) }
qed simp_all

text \<open>The run up to one event, and that event.\<close>

lemma run_split:
  assumes "protocol_run ru protocol_start (pre @ e # post) = Some s'"
  obtains s s'' where "protocol_run ru protocol_start pre = Some s" "protocol_step ru s e = Some s''" "protocol_run ru s'' post = Some s'"
  using assms by (auto simp: protocol_run_append split: option.splits)

lemma run_from_start:
  assumes "protocol_run ru protocol_start es = Some s"
  shows "pt_last s = last_answer es" "pt_opened s = last_opened es"
    "pt_logins s = length (filter is_login es)" "pt_logouts s = length (filter is_logout es)"
  using run_last [OF assms] run_opened [OF assms] run_counts [OF assms]
  by (simp_all add: protocol_start_def last_answer_def last_opened_def)

text \<open>A challenge in hand was the last to come, and a confirmed one was followed by a reading of its line.\<close>

definition line_confirmed :: "Event list \<Rightarrow> Event list \<Rightarrow> bool" where
  "line_confirmed es line \<longleftrightarrow> (\<exists>iface b opened. line = [EvResolve iface (Inr b)] \<and> last_opened es = Some opened \<and> sameLine b opened)"

definition challenge_in_hand :: "Event list \<Rightarrow> Challenge \<Rightarrow> (Event list \<Rightarrow> bool) \<Rightarrow> bool" where
  "challenge_in_hand es c P \<longleftrightarrow> (\<exists>pre name mid. es = pre @ EvChallenge name (Inr c) # mid \<and> P (filter touches_challenge mid))"

lemma challenge_in_hand_snoc:
  "challenge_in_hand es c P \<Longrightarrow> (\<And>line. P line \<Longrightarrow> P' (line @ filter touches_challenge [e])) \<Longrightarrow> challenge_in_hand (es @ [e]) c P'"
  unfolding challenge_in_hand_def by (metis append_Cons append_assoc filter_append)

lemma challenge_in_hand_now: "P [] \<Longrightarrow> challenge_in_hand (es @ [EvChallenge name (Inr c)]) c P"
  unfolding challenge_in_hand_def by (metis filter.simps(1) append_Nil2)

lemma on_lineD: "on_line s r \<Longrightarrow> \<exists>b opened. r = Inr b \<and> pt_opened s = Some opened \<and> sameLine b opened"
  by (auto simp: on_line_def split: sum.splits option.splits)

lemma last_opened_snoc: "last_opened (es @ [e]) = (case e of EvOpen _ b \<Rightarrow> Some b | _ \<Rightarrow> last_opened es)"
proof -
  have "opened_after (es @ [e]) b0 = (case e of EvOpen _ b \<Rightarrow> Some b | _ \<Rightarrow> opened_after es b0)" for b0
    by (induction es arbitrary: b0; cases e) simp_all
  then show ?thesis by (cases e) (simp_all add: last_opened_def)
qed

lemma run_stage:
  "protocol_run ru protocol_start es = Some s \<Longrightarrow>
     (\<forall>c. pt_stage s = Challenged c \<longrightarrow> challenge_in_hand es c (\<lambda>line. line = [])) \<and>
     (\<forall>c. pt_stage s = Confirmed c \<longrightarrow> challenge_in_hand es c (line_confirmed es))"
proof (induction es arbitrary: s rule: rev_induct)
  case Nil then show ?case by (auto simp: protocol_start_def)
next
  case (snoc e es)
  from snoc.prems obtain s0 where s0: "protocol_run ru protocol_start es = Some s0" and s: "protocol_step ru s0 e = Some s"
    by (auto simp: protocol_run_append split: option.splits)
  note IH = snoc.IH [OF s0]
  note opened = run_from_start(2) [OF s0]
  have confirm: "challenge_in_hand (es @ [e]) c (line_confirmed (es @ [e]))"
    if "challenge_in_hand es c (\<lambda>line. line = [])" "e = EvResolve iface r" "on_line s0 r" for c iface r
    by (rule challenge_in_hand_snoc [OF that(1)])
      (use that on_lineD [OF that(3)] opened in \<open>auto simp: line_confirmed_def last_opened_snoc\<close>)
  have keep: "challenge_in_hand (es @ [e]) c (line_confirmed (es @ [e]))"
    if "challenge_in_hand es c (line_confirmed es)" "\<not> touches_challenge e" for c
    by (rule challenge_in_hand_snoc [OF that(1)])
      (use that in \<open>cases e; auto simp: line_confirmed_def last_opened_snoc\<close>)
  have keep0: "challenge_in_hand (es @ [e]) c (\<lambda>line. line = [])"
    if "challenge_in_hand es c (\<lambda>line. line = [])" "\<not> touches_challenge e" for c
    by (rule challenge_in_hand_snoc [OF that(1)]) (use that in auto)
  show ?case
    using s IH confirm keep keep0 challenge_in_hand_now
    by (cases e) (auto split: if_splits sum.splits Stage.splits)
qed

text \<open>An answer followed by a reading of its line.\<close>

definition answer_reread :: "Event list \<Rightarrow> bool" where
  "answer_reread es \<longleftrightarrow> (\<exists>before_it iface b opened. filter touches_answer es = before_it @ [EvResolve iface (Inr b)] \<and>
     last_opened es = Some opened \<and> sameLine b opened)"

lemma run_reread:
  "protocol_run ru protocol_start es = Some s \<Longrightarrow> pt_reread s \<Longrightarrow> answer_reread es"
proof (induction es arbitrary: s rule: rev_induct)
  case Nil then show ?case by (auto simp: protocol_start_def)
next
  case (snoc e es)
  from snoc.prems obtain s0 where s0: "protocol_run ru protocol_start es = Some s0" and s: "protocol_step ru s0 e = Some s"
    by (auto simp: protocol_run_append split: option.splits)
  note IH = snoc.IH [OF s0]
  note opened = run_from_start(2) [OF s0]
  have "answer_reread (es @ [e])" if "\<not> touches_answer e" "answer_reread es"
    using that by (cases e) (auto simp: answer_reread_def last_opened_snoc)
  moreover have "answer_reread (es @ [e])" if "e = EvResolve iface r" "on_line s0 r" for iface r
    using that on_lineD [OF that(2)] opened by (auto simp: answer_reread_def last_opened_snoc)
  ultimately show ?case
    using s IH snoc.prems(2) by (cases e) (auto split: if_splits)
qed

lemma accepted_run:
  "\<exists>es s. wd_log (snd (run_state (Authenticator_Run env action) w)) = wd_log w @ es \<and>
     protocol_run (worker_rules env action) protocol_start es = Some s"
  using wp_Run [of env action] unfolding wp_def by blast

lemma worker_log_accepted: "\<exists>s. protocol_run (worker_rules env action) protocol_start (worker_log env action w) = Some s"
  using accepted_run [of env action w] by (auto simp: worker_log_def)

subsection \<open>The properties\<close>

text \<open>
  C27: Whatever the network, the gateway, the radio and the saved configuration answer, an action of the
  worker only appends to its log, and what it appends is accepted by the session protocol for the rules of
  that action.
\<close>
theorem worker_follows_protocol:
  "\<exists>es s. wd_log (snd (run_state (Authenticator_Run env action) w)) = wd_log w @ es \<and>
     protocol_run (worker_rules env action) protocol_start es = Some s"
  by (rule accepted_run)

text \<open>
  C28: An action ends at most one session, and only after the line itself has answered who is on it. When
  somebody is reported, the ended session is exactly that one, and unless a user asked for the action it is
  the account's own; when nobody is reported, it is the session of the account's own name.
\<close>
theorem sessions_of_others_kept:
  assumes "worker_log env action w = earlier @ EvLogout name r # later"
  shows "list_all (\<lambda>e. \<not> is_logout e) (earlier @ later) \<and>
    (\<exists>i. last_answer earlier = Some i \<and>
       (if id_Present i then name = id_SessionUsername i \<and> (id_MatchesExpected i \<or> Manual (r_Kind (a_Request action)))
        else \<exists>n account. CampusAccountByID (ev_config env n) (r_AccountID (a_Request action)) = Some account \<and>
          name = ca_UserID account))"
proof -
  obtain s' where run: "protocol_run (worker_rules env action) protocol_start (earlier @ EvLogout name r # later) = Some s'"
    using worker_log_accepted [of env action w] assms by auto
  then obtain s s'' where s: "protocol_run (worker_rules env action) protocol_start earlier = Some s"
      "protocol_step (worker_rules env action) s (EvLogout name r) = Some s''"
      "protocol_run (worker_rules env action) s'' later = Some s'"
    by (rule run_split)
  have step: "may_end (worker_rules env action) (last_answer earlier) name" "filter is_logout earlier = []" "pt_logouts s'' = 1"
    using s(2) run_from_start [OF s(1)] by (auto split: if_splits)
  have "filter is_logout later = []"
  proof (rule ccontr)
    assume "filter is_logout later \<noteq> []"
    then obtain e where "e \<in> set later" "is_logout e" by (auto simp: filter_empty_conv)
    then obtain name' r' mid rest where later: "later = mid @ EvLogout name' r' # rest"
      by (metis is_logout.elims(2) split_list)
    with s(3) obtain t where t: "protocol_run (worker_rules env action) s'' mid = Some t" "pt_logouts t = 0"
      by (auto simp: protocol_run_append split: option.splits if_splits)
    with run_counts(2) [OF t(1)] step(3) show False by simp
  qed
  with step show ?thesis
    by (auto simp: list_all_iff filter_empty_conv may_end_def worker_rules_def split: option.splits if_splits)
qed


text \<open>
  C30: A login that reports success rests on the line's last answer: it named a session of the account, the
  outcome shows exactly that session, and the line was read again after the answer and had not changed.
\<close>
theorem reported_login_verified:
  assumes "run_state (authenticate env action) w = (out, w')" and "o_State out = StateSucceeded"
  shows "\<exists>es i. wd_log w' = wd_log w @ es \<and> last_answer es = Some i \<and> id_Present i \<and> id_MatchesExpected i \<and>
    shows_auth out AuthVerifiedSelf (id_Username i) \<and> answer_reread es"
proof -
  have "wp (worker_rules env action) (authenticate env action) (trusted verified) protocol_start"
    by (rule wp_authenticate) (simp_all add: protocol_start_def)
  then obtain es s where "wd_log w' = wd_log w @ es" and run: "protocol_run (worker_rules env action) protocol_start es = Some s"
      and "verified out s"
    using assms unfolding wp_def by (metis fst_conv snd_conv trustworthy_def)
  then show ?thesis
    using run_from_start(1) [OF run] run_reread [OF run] by (auto simp: verified_def)
qed

end
