(* ===== verification/Worker_Demo.thy ===== *)
theory Worker_Demo
  imports Worker_Claims
begin

text \<open>
  A concrete run: one wired account, a gateway that answers every challenge, refuses every login and logout and
  reports the account's session. The witnesses of the worker's properties evaluate it.
\<close>

definition demo_account :: CampusAccount where
  "demo_account = zero_campus\<lparr>ca_ID := ''c'', ca_UserID := ''u'', ca_Password := ''p'', ca_AccessMode := AccessModeWired,
     ca_WiredIface := ''wan'', ca_BaseURL := ''http://g'', ca_ACID := ''1''\<rparr>"

definition demo_answer :: GatewayAnswer where
  "demo_answer = \<lparr>ga_Error = ''no'', ga_ErrorMsg = [], ga_ClientIP = ''10.0.0.2'', ga_OnlineIP = [], ga_UserName = ''u'',
     ga_Domain = [], ga_ResultValue = []\<rparr>"

definition demo_lib :: AuthLib where
  "demo_lib = \<lparr>al_ParseURL = (\<lambda>_. Some (''http'', ''g'')), al_RequestOK = (\<lambda>_. True), al_scan = (\<lambda>s. Some (s, [])),
     al_Answer = (\<lambda>_. Some demo_answer),
     al_Challenge = (\<lambda>_. Some \<lparr>ch_Challenge = ''t'', ch_ClientIP = [], ch_OnlineIP = []\<rparr>),
     al_tables = \<lparr>cs_lower = id, cs_upper = id\<rparr>, al_fold = (=)\<rparr>"

definition demo_binding :: Binding where
  "demo_binding = zero_binding\<lparr>bd_LogicalIface := ''wan'', bd_L3Device := ''eth0'', bd_IfIndex := 2, bd_SourceIPv4 := Addr4 10 0 0 2\<rparr>"

definition demo_env :: Env where
  "demo_env = \<lparr>ev_config = (\<lambda>_. Defaults\<lparr>cf_CampusAccounts := [demo_account]\<rparr>), ev_revision = (\<lambda>_. 1),
     ev_clock = (\<lambda>_. 0), ev_time = (\<lambda>_. 0), ev_callback = (\<lambda>_. ''j''), ev_ctx = (\<lambda>_. None),
     ev_resolve = (\<lambda>_ _. Inr demo_binding), ev_link = (\<lambda>_ _. Inr LinkReady), ev_open = (\<lambda>_ _ _. Inr ''10.0.0.2''),
     ev_do = (\<lambda>_ _ _. Inr (''{}'', False)), ev_hasWireless = False, ev_association = (\<lambda>_ _. Inl Foreign),
     ev_scan = (\<lambda>_ _. Inr []), ev_apply = (\<lambda>_ _. None), ev_wretire = (\<lambda>_. None), ev_hasSystemProbe = False,
     ev_probe = (\<lambda>_ _. (\<lparr>pr_Level = ConnectivityInternetReachable, pr_Summary = [], pr_LastFailure = []\<rparr>, None)),
     ev_bump = (\<lambda>_. 0), ev_lib = demo_lib,
     ev_digests = \<lparr>dg_hmac_md5 = (\<lambda>_ _. ''h''), dg_sha1 = (\<lambda>_. ''s'')\<rparr>\<rparr>"

definition demo_request :: "Kind \<Rightarrow> Request" where
  "demo_request kind = \<lparr>r_Kind = kind, r_AccountID = ''c'', r_HotspotID = [], r_Interface = [], r_ProbeURL = [], r_ProbeSSID = [],
     r_ProbeMode = [], r_ProbeSchool = [], r_ProbeACID = [], r_Owner = [], r_SetupJob = [], r_PrivateJSON = [], r_privateDigest = [],
     r_IdempotencyKey = [], r_IgnoreQuiet = False, r_CheckRevision = False, r_ConfigRevision = 0\<rparr>"

definition demo_action :: "Kind \<Rightarrow> Action" where
  "demo_action kind = \<lparr>a_ID = ''a'', a_Request = demo_request kind, a_Line = [], a_State = StateRunning, a_Phase = PhaseNone,
     a_Message = MsgText [], a_Code = None, a_ResultJSON = [], a_QueuedAt = 0, a_StartedAt = 0, a_EndedAt = 0, a_Timings = [],
     a_WorkerMilliseconds = 0, a_Sequence = 1, a_MaintenanceDeferred = False, a_Connectivity = None,
     a_ordinal = 0, a_retired = False\<rparr>"

definition demo_identity :: Identity where
  "demo_identity = \<lparr>id_Present = True, id_Username = ''u'', id_SessionUsername = ''u'', id_ClientIP = ''10.0.0.2'', id_MatchesExpected = True\<rparr>"

lemma demo_answers:
  "readIdentity demo_lib ''{}'' ''u'' = Inr demo_identity"
  "interpret_reply demo_lib ''{}'' = Inr \<lparr>rr_State = AuthRejected, rr_AlreadyOnline = False, rr_GatewayCode = ''no'',
     rr_GatewayMessage = [], rr_Identity = ''u'', rr_ClientIP = ''10.0.0.2''\<rparr>"
  "read_challenge demo_lib ''{}'' = Inr \<lparr>cl_Token = ''t'', cl_ClientIP = []\<rparr>"
  "read_reply demo_lib (Inr (''{}'', False)) = Inr ''{}''"
  "ParseGateway demo_lib ''http://g'' ''1'' = Inr \<lparr>gw_BaseURL = ''http://g'', gw_ACID = ''1''\<rparr>"
  by (code_simp, code_simp, code_simp, code_simp, code_simp)

lemma demo_account_facts:
  "EffectiveUsername demo_account = ''u''" "lineInterface (Defaults\<lparr>cf_CampusAccounts := [demo_account]\<rparr>) demo_account = Inr ''wan''"
  "CampusAccountByID (Defaults\<lparr>cf_CampusAccounts := [demo_account]\<rparr>) ''c'' = Some demo_account"
  "IsWired demo_account" "ca_ID demo_account = ''c''" "ca_BaseURL demo_account = ''http://g''" "ca_ACID demo_account = ''1''"
  by (code_simp, code_simp, code_simp, code_simp, code_simp, code_simp, code_simp)

lemma demo_awake: "qs_Active (EvaluateQuiet (cf_Quiet (Defaults\<lparr>cf_CampusAccounts := [demo_account]\<rparr>)) 0) = False"
  by code_simp

lemma demo_outside:
  "ev_config demo_env n = Defaults\<lparr>cf_CampusAccounts := [demo_account]\<rparr>" "ev_revision demo_env n = 1" "ev_clock demo_env n = 0"
  "ev_time demo_env n = 0" "ev_callback demo_env n = ''j''" "ev_ctx demo_env n = None" "ev_resolve demo_env n i = Inr demo_binding"
  "ev_open demo_env n account b = Inr ''10.0.0.2''" "ev_do demo_env n l url = Inr (''{}'', False)" "ev_hasWireless demo_env = False"
  "ev_hasSystemProbe demo_env = False" "ev_bump demo_env n = 0" "ev_lib demo_env = demo_lib"
  "ev_probe demo_env n system = (\<lparr>pr_Level = ConnectivityInternetReachable, pr_Summary = [], pr_LastFailure = []\<rparr>, None)"
  by (simp_all add: demo_env_def)

lemma demo_request_simps:
  "r_Kind (a_Request (demo_action kind)) = kind" "r_AccountID (a_Request (demo_action kind)) = ''c''"
  "r_IgnoreQuiet (a_Request (demo_action kind)) = False" "a_Sequence (demo_action kind) = 1"
  by (simp_all add: demo_action_def demo_request_def)

text \<open>Definitions unfolded only where they are run.\<close>

lemma run_bind: "run_state (State_Monad.bind m f) w = (case run_state m w of (a, w') \<Rightarrow> run_state (f a) w')"
  by (simp add: State_Monad.bind_def)

lemma run_outside:
  "run_state (outside demo_env f ev) w = (f (wd_n w), w\<lparr>wd_n := Suc (wd_n w), wd_log := wd_log w @ ev (f (wd_n w))\<rparr>)"
  by (simp add: outside_def Let_def demo_outside)

lemma run_logged: "run_state (logged e) w = ((), w\<lparr>wd_log := wd_log w @ [e]\<rparr>)"
  by (simp add: logged_def)

lemma run_memory:
  "run_state (seen_of account) w = (map_of (wd_seen w) account, w)"
  "run_state next_generation w = (wd_generation w + 1, w\<lparr>wd_generation := wd_generation w + 1\<rparr>)"
  by (simp_all add: seen_of_def next_generation_def Let_def)

lemma run_tx_get:
  "run_state (tx_get demo_lib (bound_line demo_env l) url) w =
     (Inr ''{}'', w\<lparr>wd_n := Suc (wd_n w), wd_log := wd_log w @ [EvRequest l url]\<rparr>)"
proof -
  have "al_RequestOK demo_lib url" by (simp add: demo_lib_def)
  then show ?thesis by (simp add: tx_get_def bound_line_def run_bind run_outside demo_outside demo_answers(4))
qed

lemma run_clocks:
  "run_state (ln_now (bound_line demo_env l)) w = (0, w\<lparr>wd_n := Suc (wd_n w)\<rparr>)"
  "run_state (ln_callback (bound_line demo_env l)) w = (''j'', w\<lparr>wd_n := Suc (wd_n w)\<rparr>)"
  by (simp_all add: bound_line_def run_outside demo_outside)

lemmas run_steps = run_bind run_outside run_logged run_memory run_tx_get run_clocks demo_outside demo_request_simps demo_answers

lemma run_online:
  assumes "at_username p = ''u''"
  shows "\<exists>n. run_state (online demo_env p) w = (Inr demo_identity,
     w\<lparr>wd_n := n, wd_log := wd_log w @ [EvRequest (at_line p) (onlineURL (at_gateway p) 0 ''j''), EvOnline ''u'' (Inr demo_identity)]\<rparr>)"
  by (simp add: online_def tx_Online_def run_steps assms UnixMilli_def) blast

lemma run_logout_session:
  obtains w' url where "run_state (logout_session demo_env p ''u'' ip) w = (interpret_reply demo_lib ''{}'', w')"
    "wd_log w' = wd_log w @ [EvRequest (at_line p) url, EvLogout ''u'' (interpret_reply demo_lib ''{}'')]"
proof -
  have "fst (run_state (logout_session demo_env p ''u'' ip) w) = interpret_reply demo_lib ''{}'' \<and>
    (\<exists>url. wd_log (snd (run_state (logout_session demo_env p ''u'' ip) w)) =
       wd_log w @ [EvRequest (at_line p) url, EvLogout ''u'' (interpret_reply demo_lib ''{}'')])"
    by (simp add: logout_session_def tx_Logout_def Let_def run_steps)
  then show thesis using that by (metis prod.collapse)
qed

text \<open>The attempt every action of the run prepares.\<close>

definition demo_line_binding :: Binding where
  "demo_line_binding = demo_binding\<lparr>bd_Generation := 1\<rparr>"

definition demo_attempt :: "Kind \<Rightarrow> Attempt" where
  "demo_attempt kind = (new_attempt (Defaults\<lparr>cf_CampusAccounts := [demo_account]\<rparr>) 1 demo_account (demo_action kind))
     \<lparr>at_binding := demo_line_binding, at_gateway := \<lparr>gw_BaseURL = ''http://g'', gw_ACID = ''1''\<rparr>,
      at_line := \<lparr>lr_Account = ''c'', lr_Binding = demo_line_binding, lr_Source = ''10.0.0.2''\<rparr>\<rparr>"

lemma demo_attempt_simps:
  "at_username (demo_attempt kind) = ''u''" "at_manual (demo_attempt kind) = Manual kind" "at_account (demo_attempt kind) = demo_account"
  "at_binding (demo_attempt kind) = demo_line_binding"
  "at_checkMode (demo_attempt kind) = CheckInternet" "at_line (demo_attempt kind) = \<lparr>lr_Account = ''c'', lr_Binding = demo_line_binding, lr_Source = ''10.0.0.2''\<rparr>"
  by (simp_all add: demo_attempt_def new_attempt_def bare_attempt_def Let_def demo_request_simps demo_account_facts) (simp add: Defaults_def)

lemma run_prepare:
  "\<exists>n. run_state (prepare demo_env (demo_action kind)) (NewAuthenticator\<lparr>wd_n := k\<rparr>) =
     (Inr (demo_attempt kind), \<lparr>wd_n = n, wd_generation = 1, wd_seen = [(''c'', demo_line_binding)],
        wd_log = [EvPhase PhaseWaitingLink, EvResolve ''wan'' (Inr demo_binding), EvRetire ''c'' 1, EvOpen ''c'' demo_line_binding]\<rparr>)"
  by (simp add: prepare_def prepare_line_def open_line_def observeLine_def settle_line_def snapshot_def resolve_def report_def
    set_seen_def NewAuthenticator_def run_steps demo_account_facts Let_def demo_attempt_def demo_line_binding_def)

lemma demo_reply: "interpret_reply demo_lib ''{}'' = Inr (\<lparr>rr_State = AuthRejected, rr_AlreadyOnline = False, rr_GatewayCode = ''no'',
     rr_GatewayMessage = [], rr_Identity = ''u'', rr_ClientIP = ''10.0.0.2''\<rparr>)"
  by (rule demo_answers)

lemma run_failed:
  obtains w' out where "run_state (failed demo_env p c auth identity) w = (out, w')" "wd_log w' = wd_log w" "o_State out = StateFailed"
proof -
  have "wd_log (snd (run_state (failed demo_env p c auth identity) w)) = wd_log w \<and>
      o_State (fst (run_state (failed demo_env p c auth identity) w)) = StateFailed"
    by (simp add: failed_def with_observation_def observation_def clock_now_def run_steps Let_def)
  then show thesis using that by (metis prod.collapse)
qed

lemma run_report: "run_state (report phase) w = ((), w\<lparr>wd_log := wd_log w @ [EvPhase phase]\<rparr>)"
  by (simp add: report_def run_logged)

lemma demo_identity_simps: "id_Present demo_identity" "id_MatchesExpected demo_identity" "id_SessionUsername demo_identity = ''u''"
  "id_Username demo_identity = ''u''" "Identity_State demo_identity = AuthVerifiedSelf"
  by (simp_all add: demo_identity_def Identity_State_def)

lemma run_end_session:
  obtains w' log out where "run_state (end_session demo_env (demo_attempt kind) demo_identity) w = (out, w')"
    "o_State out = StateFailed" "wd_log w' = log @ [EvLogout ''u'' (interpret_reply demo_lib ''{}'')]"
proof -
  define w0 where "w0 = w\<lparr>wd_log := wd_log w @ [EvPhase PhaseLogout]\<rparr>"
  obtain w1 url where 1: "run_state (logout_session demo_env (demo_attempt kind) ''u'' (id_ClientIP demo_identity)) w0 =
       (interpret_reply demo_lib ''{}'', w1)"
      "wd_log w1 = wd_log w0 @ [EvRequest (at_line (demo_attempt kind)) url, EvLogout ''u'' (interpret_reply demo_lib ''{}'')]"
    by (rule run_logout_session)
  obtain w2 out where 2: "run_state (failed demo_env (demo_attempt kind) (problem CodeAuthRejected) AuthVerifiedSelf ''u'') w1 = (out, w2)"
      "wd_log w2 = wd_log w1" "o_State out = StateFailed"
    by (rule run_failed)
  have "run_state (end_session demo_env (demo_attempt kind) demo_identity) w = (out, w2)"
    using 1(1) 2(1) by (simp add: end_session_def run_bind run_report demo_identity_simps demo_answers(2) flip: w0_def)
  with 1 2 that show thesis by simp
qed

lemma NewAuthenticator_simps: "wd_n NewAuthenticator = 0" "wd_log NewAuthenticator = []"
  "NewAuthenticator\<lparr>wd_n := k, wd_log := []\<rparr> = NewAuthenticator\<lparr>wd_n := k\<rparr>"
  by (simp_all add: NewAuthenticator_def)

text \<open>The world after the attempt is prepared, and after the line was asked.\<close>

lemma demo_prepared:
  obtains w where "run_state (prepare demo_env (demo_action kind)) (NewAuthenticator\<lparr>wd_n := k\<rparr>) = (Inr (demo_attempt kind), w)"
  using run_prepare by blast

lemma demo_online:
  obtains w' where "run_state (online demo_env (demo_attempt kind)) w = (Inr demo_identity, w')"
  using run_online [of "demo_attempt kind" w] demo_attempt_simps(1) by blast

lemma demo_logout_run:
  "\<exists>w' log out. run_state (logout demo_env (demo_action KindLogout)) (NewAuthenticator\<lparr>wd_n := k\<rparr>) = (out, w') \<and>
     o_State out = StateFailed \<and> wd_log w' = log @ [EvLogout ''u'' (interpret_reply demo_lib ''{}'')]"
proof -
  obtain w where 1: "run_state (prepare demo_env (demo_action KindLogout)) (NewAuthenticator\<lparr>wd_n := k\<rparr>) = (Inr (demo_attempt KindLogout), w)"
    by (rule demo_prepared)
  obtain w' where 2: "run_state (online demo_env (demo_attempt KindLogout)) (w\<lparr>wd_log := wd_log w @ [EvPhase PhaseVerify]\<rparr>) =
      (Inr demo_identity, w')"
    by (rule demo_online)
  obtain w'' log out where 3: "run_state (end_session demo_env (demo_attempt KindLogout) demo_identity) w' = (out, w'')"
      "o_State out = StateFailed" "wd_log w'' = log @ [EvLogout ''u'' (interpret_reply demo_lib ''{}'')]"
    by (rule run_end_session)
  have "run_state (logout demo_env (demo_action KindLogout)) (NewAuthenticator\<lparr>wd_n := k\<rparr>) =
      run_state (end_session demo_env (demo_attempt KindLogout) demo_identity) w'"
    by (simp add: logout_def logout_radio_def demo_outside run_bind 1 run_report 2 demo_identity_simps)
  with 3 show ?thesis by simp
qed

lemma demo_logout_log:
  "\<exists>earlier r. worker_log demo_env (demo_action KindLogout) NewAuthenticator = earlier @ [EvLogout ''u'' r]"
proof -
  obtain w' log out where "run_state (logout demo_env (demo_action KindLogout)) (NewAuthenticator\<lparr>wd_n := Suc 0\<rparr>) = (out, w')"
      "o_State out = StateFailed" "wd_log w' = log @ [EvLogout ''u'' (interpret_reply demo_lib ''{}'')]"
    using demo_logout_run by blast
  then have "run_state (manualLogout demo_env (demo_action KindLogout)) NewAuthenticator = (out, w')"
    by (simp add: manualLogout_def run_bind snapshot_def run_outside NewAuthenticator_simps)
  then have "snd (run_state (Authenticator_Run demo_env (demo_action KindLogout)) NewAuthenticator) = w'"
    by (simp add: Authenticator_Run_def run_bind run_guard_def guarded_kind_def demo_request_simps run_kind_def)
  with \<open>wd_log w' = _\<close> show ?thesis by (simp add: worker_log_def NewAuthenticator_simps)
qed

lemma run_confirm:
  obtains w' where "run_state (confirmUnchanged demo_env (demo_attempt kind)) w = (None, w')"
    "wd_log w' = wd_log w @ [EvResolve ''wan'' (Inr demo_binding)]"
proof -
  have "sameLine demo_binding demo_line_binding" by (simp add: sameLine_def demo_line_binding_def)
  then have "fst (run_state (confirmUnchanged demo_env (demo_attempt kind)) w) = None \<and>
      wd_log (snd (run_state (confirmUnchanged demo_env (demo_attempt kind)) w)) = wd_log w @ [EvResolve ''wan'' (Inr demo_binding)]"
    by (simp add: confirmUnchanged_def snapshot_def resolve_def run_steps demo_attempt_simps demo_account_facts)
  then show thesis using that by (metis prod.collapse)
qed

lemma run_challenge:
  obtains w' challenge where "run_state (fetch_challenge demo_env (demo_attempt kind)) w = (Inr challenge, w')"
proof -
  have "\<exists>challenge. fst (run_state (fetch_challenge demo_env (demo_attempt kind)) w) = Inr challenge"
    by (simp add: fetch_challenge_def tx_Challenge_def run_steps demo_attempt_simps)
  then show thesis using that by (metis prod.collapse)
qed

lemma run_send_login:
  obtains w' log creds r where "run_state (send_login demo_env (demo_attempt kind) challenge) w = (r, w')"
    "wd_log w' = log @ [EvLogin creds challenge r]" "r = interpret_reply demo_lib ''{}'' \<or> (\<exists>err. r = Inl err)"
proof -
  have "\<exists>log creds r. fst (run_state (send_login demo_env (demo_attempt kind) challenge) w) = r \<and>
      wd_log (snd (run_state (send_login demo_env (demo_attempt kind) challenge) w)) = log @ [EvLogin creds challenge r] \<and>
      (r = interpret_reply demo_lib ''{}'' \<or> (\<exists>err. r = Inl err))"
    by (auto simp: send_login_def tx_Login_def run_steps Let_def split: sum.split)
  then show thesis using that by (metis prod.collapse)
qed

lemma demo_login_run:
  obtains w' log creds c r out where "run_state (login_or_settle demo_env (demo_attempt kind)) w = (out, w')"
    "wd_log w' = log @ [EvLogin creds c r]"
proof -
  obtain w1 c where 1: "run_state (fetch_challenge demo_env (demo_attempt kind)) (w\<lparr>wd_log := wd_log w @ [EvPhase PhaseChallenge]\<rparr>) = (Inr c, w1)"
    by (rule run_challenge)
  obtain w2 where 2: "run_state (confirmUnchanged demo_env (demo_attempt kind)) w1 = (None, w2)" by (rule run_confirm)
  obtain w3 log creds r where 3: "run_state (send_login demo_env (demo_attempt kind) c) (w2\<lparr>wd_log := wd_log w2 @ [EvPhase PhaseLogin]\<rparr>) = (r, w3)"
      "wd_log w3 = log @ [EvLogin creds c r]" "r = interpret_reply demo_lib ''{}'' \<or> (\<exists>err. r = Inl err)"
    by (rule run_send_login)
  have "\<exists>c auth identity. run_state (login_or_settle demo_env (demo_attempt kind)) w =
      run_state (failed demo_env (demo_attempt kind) c auth identity) w3"
    using 3(1,3) by (auto simp: login_or_settle_def attemptLogin_def run_bind run_report 1 2 demo_answers(2)) (rule exI, rule exI, rule exI, rule refl)+
  with 3(2) that run_failed show thesis by metis
qed

lemma demo_login_log:
  "\<exists>earlier creds c r. worker_log demo_env (demo_action KindLogin) NewAuthenticator = earlier @ [EvLogin creds c r]"
proof -
  obtain w where 1: "run_state (prepare demo_env (demo_action KindLogin)) (NewAuthenticator\<lparr>wd_n := 2\<rparr>) = (Inr (demo_attempt KindLogin), w)"
    by (rule demo_prepared)
  obtain w' log creds c r out where 2: "run_state (login_or_settle demo_env (demo_attempt KindLogin)) w = (out, w')"
      "wd_log w' = log @ [EvLogin creds c r]"
    by (rule demo_login_run)
  have "run_state (run_guard demo_env (demo_action KindLogin)) NewAuthenticator = (None, NewAuthenticator\<lparr>wd_n := 2\<rparr>)"
    by (simp add: run_guard_def guarded_kind_def run_bind run_outside snapshot_def clock_now_def demo_outside demo_request_simps
      demo_account_facts demo_awake [simplified] NewAuthenticator_simps numeral_2_eq_2)
  then have "run_state (Authenticator_Run demo_env (demo_action KindLogin)) NewAuthenticator = (out, w')"
    by (simp add: Authenticator_Run_def run_bind run_kind_def demo_request_simps authenticate_def ensureWirelessLine_def
      demo_outside 1 2)
  with 2 show ?thesis by (simp add: worker_log_def NewAuthenticator_simps)
qed

lemma demo_maintain_run:
  obtains w' out where "run_state (authenticate demo_env (demo_action KindMaintain)) NewAuthenticator = (out, w')"
    "o_State out = StateSucceeded"
proof -
  obtain w where 1: "run_state (prepare demo_env (demo_action KindMaintain)) (NewAuthenticator\<lparr>wd_n := 0\<rparr>) = (Inr (demo_attempt KindMaintain), w)"
    by (rule demo_prepared)
  have start: "NewAuthenticator\<lparr>wd_n := 0\<rparr> = NewAuthenticator" by (simp add: NewAuthenticator_def)
  obtain w' where 2: "run_state (online demo_env (demo_attempt KindMaintain)) (w\<lparr>wd_log := wd_log w @ [EvPhase PhaseVerify]\<rparr>) =
      (Inr demo_identity, w')"
    by (rule demo_online)
  have "\<exists>out w''. run_state (do {
      out \<leftarrow> succeeded demo_env (demo_attempt KindMaintain) m identity;
      checked_mode demo_env (demo_attempt KindMaintain) out }) w' = ((out, None), w'') \<and> o_State out = StateSucceeded" for m identity
    by (simp add: succeeded_def with_observation_def observation_def checked_mode_def check_internet_def probe_def clock_now_def
      run_steps demo_attempt_simps Let_def on_observation_def)
  then obtain out w'' where 3: "run_state (do {
      out \<leftarrow> succeeded demo_env (demo_attempt KindMaintain) ''already online'' ''u'';
      checked_mode demo_env (demo_attempt KindMaintain) out }) w' = ((out, None), w'')" "o_State out = StateSucceeded"
    by blast
  obtain w3 where 4: "run_state (confirmUnchanged demo_env (demo_attempt KindMaintain)) w'' = (None, w3)" by (rule run_confirm)
  have "run_state (verifyConnectivity demo_env (demo_attempt KindMaintain) ''already online'' ''u'') w' = (out, w3)"
    using 3(1) by (simp add: verifyConnectivity_def run_bind 4 still_associated_def demo_attempt_simps demo_account_facts
      split: prod.splits)
  then have "run_state (authenticate demo_env (demo_action KindMaintain)) NewAuthenticator = (out, w3)"
    using 1 by (simp add: start authenticate_def ensureWirelessLine_def run_bind demo_outside demo_request_simps checkExisting_def
      run_report 2 demo_identity_simps)
  with 3(2) that show thesis by blast
qed

subsection \<open>The witnesses\<close>

theorem sessions_of_others_kept_witness:
  "\<exists>earlier name r. worker_log demo_env (demo_action KindLogout) NewAuthenticator = earlier @ EvLogout name r # [] \<and>
    list_all (\<lambda>e. \<not> is_logout e) (earlier @ []) \<and>
    (\<exists>i. last_answer earlier = Some i \<and>
       (if id_Present i then name = id_SessionUsername i \<and> (id_MatchesExpected i \<or> Manual (r_Kind (a_Request (demo_action KindLogout))))
        else \<exists>n account. CampusAccountByID (ev_config demo_env n) (r_AccountID (a_Request (demo_action KindLogout))) = Some account \<and>
          name = ca_UserID account))"
proof -
  obtain earlier r where "worker_log demo_env (demo_action KindLogout) NewAuthenticator = earlier @ EvLogout ''u'' r # []"
    using demo_logout_log by auto
  from this sessions_of_others_kept [OF this] show ?thesis by blast
qed


theorem reported_login_verified_witness:
  "\<exists>out w' es i. run_state (authenticate demo_env (demo_action KindMaintain)) NewAuthenticator = (out, w') \<and> o_State out = StateSucceeded \<and>
    wd_log w' = wd_log NewAuthenticator @ es \<and> last_answer es = Some i \<and> id_Present i \<and> id_MatchesExpected i \<and>
    shows_auth out AuthVerifiedSelf (id_Username i) \<and> answer_reread es"
proof -
  obtain w' out where "run_state (authenticate demo_env (demo_action KindMaintain)) NewAuthenticator = (out, w')" "o_State out = StateSucceeded"
    by (rule demo_maintain_run)
  from this reported_login_verified [OF this] show ?thesis by blast
qed

end
