(* ===== verification/Update_Version.thy ===== *)
theory Update_Version
  imports Auth_Model "HOL-Library.Word" "HOL-Library.Monad_Syntax" "HOL-Library.Product_Lexorder"
begin

text \<open>
  Release numbers: \<open>update/version.go\<close>. The four numbers are \<open>uint32\<close>; the pattern
  \<open>X.Y.Z(rcN)?\<close> without leading zeros is the parser \<open>version_parts\<close>.
\<close>

record Version =
  vn_Major :: "32 word"
  vn_Minor :: "32 word"
  vn_Patch :: "32 word"
  vn_RC :: "32 word"

subsection \<open>Parsing\<close>

definition positive_digits :: "string \<Rightarrow> bool" where
  "positive_digits s \<longleftrightarrow> s \<noteq> [] \<and> list_all is_digit s \<and> hd s \<noteq> CHR ''0''"

definition number_text :: "string \<Rightarrow> bool" where
  "number_text s \<longleftrightarrow> s = ''0'' \<or> positive_digits s"

definition take_number :: "string \<Rightarrow> (string \<times> string) option" where
  "take_number s = (if number_text (takeWhile is_digit s) then Some (takeWhile is_digit s, dropWhile is_digit s) else None)"

definition version_parts :: "string \<Rightarrow> (string \<times> string \<times> string \<times> string) option" where
  "version_parts s = do {
     (a, s) \<leftarrow> take_number s;
     s \<leftarrow> CutPrefix s ''.'';
     (b, s) \<leftarrow> take_number s;
     s \<leftarrow> CutPrefix s ''.'';
     (c, s) \<leftarrow> take_number s;
     (if s = [] then Some (a, b, c, [])
      else do {
        d \<leftarrow> CutPrefix s ''rc'';
        (if positive_digits d then Some (a, b, c, d) else None)
      })
   }"

definition incompatible :: gerror where "incompatible = Errorf CodePackageIncompatible"

text \<open>\<open>strconv.ParseUint\<close> on 32 bits; an absent group stays zero.\<close>

definition ParseUint32 :: "string \<Rightarrow> 32 word option" where
  "ParseUint32 s = (if parse_dec s < 2 ^ 32 then Some (of_nat (parse_dec s)) else None)"

definition ParseVersion :: "string \<Rightarrow> gerror + Version" where
  "ParseVersion text =
     (case version_parts text of
        None \<Rightarrow> Inl incompatible
      | Some (a, b, c, d) \<Rightarrow>
          (case (ParseUint32 a, ParseUint32 b, ParseUint32 c, if d = [] then Some 0 else ParseUint32 d) of
             (Some major, Some minor, Some patch, Some rc) \<Rightarrow>
               Inr \<lparr>vn_Major = major, vn_Minor = minor, vn_Patch = patch, vn_RC = rc\<rparr>
           | _ \<Rightarrow> Inl incompatible))"

definition triple :: "Version \<Rightarrow> string" where
  "triple v = FormatUint (unat (vn_Major v)) @ ''.'' @ FormatUint (unat (vn_Minor v)) @ ''.'' @ FormatUint (unat (vn_Patch v))"

definition Version_String :: "Version \<Rightarrow> string" where
  "Version_String v = (if vn_RC v \<noteq> 0 then triple v @ ''rc'' @ FormatUint (unat (vn_RC v)) else triple v)"

subsection \<open>Order, channel, native form\<close>

definition cmp_word :: "32 word \<Rightarrow> 32 word \<Rightarrow> int" where
  "cmp_word a b = (if a < b then -1 else if a = b then 0 else 1)"

definition Version_Compare :: "Version \<Rightarrow> Version \<Rightarrow> int" where
  "Version_Compare v other =
     (if cmp_word (vn_Major v) (vn_Major other) \<noteq> 0 then cmp_word (vn_Major v) (vn_Major other)
      else if cmp_word (vn_Minor v) (vn_Minor other) \<noteq> 0 then cmp_word (vn_Minor v) (vn_Minor other)
      else if cmp_word (vn_Patch v) (vn_Patch other) \<noteq> 0 then cmp_word (vn_Patch v) (vn_Patch other)
      else if vn_RC v = 0 \<and> vn_RC other \<noteq> 0 then 1
      else if vn_RC other = 0 \<and> vn_RC v \<noteq> 0 then -1
      else cmp_word (vn_RC v) (vn_RC other))"

definition ChannelRC :: string where "ChannelRC = ''rc''"
definition ChannelStable :: string where "ChannelStable = ''stable''"

definition Version_Channel :: "Version \<Rightarrow> string" where
  "Version_Channel v = (if vn_RC v \<noteq> 0 then ChannelRC else ChannelStable)"

definition NativeBase :: "Version \<Rightarrow> string \<Rightarrow> string" where
  "NativeBase v manager =
     (if vn_RC v \<noteq> 0 then triple v @ (if manager = ''apk'' then ''_rc'' else ''~rc'') @ FormatUint (unat (vn_RC v)) else triple v)"

subsection \<open>Numbers without leading zeros\<close>

lemma parse_dec_snoc: "parse_dec (s @ [c]) = 10 * parse_dec s + digit_val c"
  by (simp add: parse_dec_def)

lemma digit_char_val: "is_digit c \<Longrightarrow> digit_char (digit_val c) = c"
  by (simp add: is_digit_def digit_char_def digit_val_def)

lemma digit_val_lt: "is_digit c \<Longrightarrow> digit_val c < 10"
  by (auto simp: is_digit_def digit_val_def)

lemma FormatUint_small: "n < 10 \<Longrightarrow> FormatUint n = [digit_char n]"
  by (subst FormatUint.simps) simp

lemma FormatUint_snoc: "0 < n \<Longrightarrow> d < 10 \<Longrightarrow> FormatUint (10 * n + d) = FormatUint n @ [digit_char d]"
  by (subst FormatUint.simps) simp

lemma digit_val_zero: "is_digit c \<Longrightarrow> c \<noteq> CHR ''0'' \<Longrightarrow> 0 < digit_val c"
  using digit_char_val [of c] by (cases "digit_val c = 0") auto

lemma positive_FormatUint: "positive_digits s \<Longrightarrow> FormatUint (parse_dec s) = s \<and> 0 < parse_dec s"
proof (induction s rule: rev_induct)
  case (snoc c s)
  then have c: "is_digit c" by (simp add: positive_digits_def)
  show ?case
  proof (cases "s = []")
    case True
    with snoc.prems c show ?thesis
      by (simp add: positive_digits_def parse_dec_def FormatUint_small digit_val_lt digit_char_val digit_val_zero)
  next
    case False
    with snoc have "FormatUint (parse_dec s) = s" "0 < parse_dec s" by (auto simp: positive_digits_def)
    with c show ?thesis by (simp add: parse_dec_snoc FormatUint_snoc digit_val_lt digit_char_val)
  qed
qed (simp add: positive_digits_def)

lemma FormatUint_positive: "0 < n \<Longrightarrow> positive_digits (FormatUint n)"
proof (induction n rule: FormatUint.induct)
  case (1 n)
  show ?case
  proof (cases "n < 10")
    case True
    have "digit_char n \<noteq> CHR ''0''" using 1(2) True digit_val_char [of n] by (metis digit_chars(1) digit_val_char less_numeral_extra(3) zero_less_numeral)
    with True show ?thesis by (simp add: FormatUint_small positive_digits_def)
  next
    case False
    with 1 have "positive_digits (FormatUint (n div 10))" by simp
    with False show ?thesis by (subst FormatUint.simps) (simp add: positive_digits_def)
  qed
qed

lemma FormatUint_number: "number_text (FormatUint n)"
  by (cases "n = 0") (simp_all add: number_text_def FormatUint_positive FormatUint_small)

lemma number_FormatUint: "number_text s \<Longrightarrow> FormatUint (parse_dec s) = s"
  by (auto simp: number_text_def positive_FormatUint) (simp add: parse_dec_def digit_val_def FormatUint_small)

lemma number_digits: "number_text s \<Longrightarrow> list_all is_digit s"
  by (auto simp: number_text_def positive_digits_def is_digit_def)

subsection \<open>The texts of versions\<close>

lemma takeWhile_number:
  assumes "list_all is_digit a" and "r = [] \<or> \<not> is_digit (hd r)"
  shows "takeWhile is_digit (a @ r) = a" "dropWhile is_digit (a @ r) = r"
  using assms by (induction a) (cases r; auto)+

lemma take_number_append:
  "number_text a \<Longrightarrow> r = [] \<or> \<not> is_digit (hd r) \<Longrightarrow> take_number (a @ r) = Some (a, r)"
  by (simp add: take_number_def takeWhile_number number_digits)

lemma take_number_Some: "take_number s = Some (a, r) \<Longrightarrow> s = a @ r \<and> number_text a"
  by (auto simp: take_number_def split: if_splits)

lemma CutPrefix_Some: "CutPrefix s p = Some r \<longleftrightarrow> s = p @ r"
  by (auto simp: CutPrefix_def prefix_def)

lemma not_digit: "\<not> is_digit CHR ''.''" "\<not> is_digit CHR ''r''"
  by (simp_all add: is_digit_def)

definition version_text :: "string \<times> string \<times> string \<times> string \<Rightarrow> string" where
  "version_text p = (case p of (a, b, c, d) \<Rightarrow> a @ ''.'' @ b @ ''.'' @ c @ (if d = [] then [] else ''rc'' @ d))"

lemma version_parts_exact:
  "version_parts s = Some (a, b, c, d) \<longleftrightarrow> s = version_text (a, b, c, d) \<and> number_text a \<and> number_text b \<and> number_text c \<and>
     (d = [] \<or> positive_digits d)"
proof
  assume "version_parts s = Some (a, b, c, d)"
  then show "s = version_text (a, b, c, d) \<and> number_text a \<and> number_text b \<and> number_text c \<and> (d = [] \<or> positive_digits d)"
    by (auto simp: version_parts_def version_text_def CutPrefix_Some bind_eq_Some_conv dest!: take_number_Some split: if_splits)
      (auto simp: positive_digits_def)
next
  assume "s = version_text (a, b, c, d) \<and> number_text a \<and> number_text b \<and> number_text c \<and> (d = [] \<or> positive_digits d)"
  then show "version_parts s = Some (a, b, c, d)"
    by (auto simp: version_parts_def version_text_def take_number_append not_digit CutPrefix_def positive_digits_def)
qed

lemma ParseUint32_FormatUint: "ParseUint32 (FormatUint (unat w)) = Some w"
proof -
  have "unat w < 2 ^ 32" using unsigned_less [of w] by simp
  then show ?thesis by (simp add: ParseUint32_def)
qed

lemma ParseUint32_Some: "number_text s \<Longrightarrow> ParseUint32 s = Some w \<Longrightarrow> s = FormatUint (unat w)"
  using number_FormatUint [of s] by (auto simp: ParseUint32_def unat_of_nat split: if_splits)

text \<open>
  Reading and printing a release number are inverse: a text is read as a version exactly when it is the
  printed form of that version. So no two texts name the same release, a leading zero, a sign, an overflowing
  number or trailing text is refused, and a release tag rebuilt from a version is the tag that was read.
\<close>
lemma ParseVersion_exact: "ParseVersion t = Inr v \<longleftrightarrow> t = Version_String v"
proof
  assume "ParseVersion t = Inr v"
  then obtain a b c d where p: "version_parts t = Some (a, b, c, d)" and
    v: "ParseUint32 a = Some (vn_Major v)" "ParseUint32 b = Some (vn_Minor v)" "ParseUint32 c = Some (vn_Patch v)"
       "(if d = [] then Some 0 else ParseUint32 d) = Some (vn_RC v)"
    by (auto simp: ParseVersion_def split: option.splits)
  from p have t: "t = version_text (a, b, c, d)" and n: "number_text a" "number_text b" "number_text c" "d = [] \<or> positive_digits d"
    by (auto simp: version_parts_exact)
  have "d \<noteq> [] \<Longrightarrow> d = FormatUint (unat (vn_RC v)) \<and> vn_RC v \<noteq> 0"
    using n(4) v(4) ParseUint32_Some [of d "vn_RC v"] positive_FormatUint [of d] parse_FormatUint [of "unat (vn_RC v)"]
    by (auto simp: number_text_def)
  then show "t = Version_String v"
    using t v(4) ParseUint32_Some [OF n(1) v(1)] ParseUint32_Some [OF n(2) v(2)] ParseUint32_Some [OF n(3) v(3)]
    by (auto simp: version_text_def Version_String_def triple_def split: if_splits)
next
  assume t: "t = Version_String v"
  let ?d = "if vn_RC v = 0 then [] else FormatUint (unat (vn_RC v))"
  have "positive_digits (FormatUint (unat (vn_RC v)))" if "vn_RC v \<noteq> 0"
    using that by (intro FormatUint_positive) (simp add: unat_gt_0)
  then have "version_parts t = Some (FormatUint (unat (vn_Major v)), FormatUint (unat (vn_Minor v)), FormatUint (unat (vn_Patch v)), ?d)"
    unfolding version_parts_exact by (auto simp: t Version_String_def version_text_def triple_def FormatUint_number)
  then show "ParseVersion t = Inr v"
    by (simp add: ParseVersion_def ParseUint32_FormatUint)
qed

text \<open>The order is the lexicographic one on the numbers, a release after all of its candidates.\<close>

definition version_key :: "Version \<Rightarrow> nat \<times> nat \<times> nat \<times> nat" where
  "version_key v = (unat (vn_Major v), unat (vn_Minor v), unat (vn_Patch v), if vn_RC v = 0 then 2 ^ 32 else unat (vn_RC v))"

lemma rc_lt: "unat (w :: 32 word) < 2 ^ 32"
  using unsigned_less [of w] by simp

lemma Version_Compare_key:
  "Version_Compare a b < 0 \<longleftrightarrow> version_key a < version_key b"
  "Version_Compare a b > 0 \<longleftrightarrow> version_key b < version_key a"
  "Version_Compare a b = 0 \<longleftrightarrow> a = b"
  using rc_lt [of "vn_RC a"] rc_lt [of "vn_RC b"]
  by (auto simp: Version_Compare_def cmp_word_def version_key_def less_prod_def word_less_nat_alt word_unat_eq_iff)

end
