(* ===== verification/Update_Plan.thy ===== *)
theory Update_Plan
  imports Update_Version Wifi_Choice "HOL-Library.Sublist"
begin

text \<open>
  Release manifests and update plans: \<open>update/manifest.go\<close>, \<open>plan.go\<close>, \<open>check.go\<close> and the address rules of
  \<open>source.go\<close>. What the sources only call is the record \<open>UpdateLib\<close>: the strict JSON decoder, \<open>net/url\<close>, and
  the marshalled plan's SHA-256. Regular expressions are the predicates they denote. Byte counts are \<open>int\<close>:
  every one is checked against a limit of 16 MiB before it is added.
\<close>

subsection \<open>Manifests\<close>

definition Repository_name :: string where "Repository_name = ''matthewlu070111/smart-srun''"
definition MaxManifestBytes :: nat where "MaxManifestBytes = 262144"
definition MaxAssetBytes :: int where "MaxAssetBytes = 16777216"
definition MaxPayloadBytes :: int where "MaxPayloadBytes = 16777216"
definition MaxAssets :: nat where "MaxAssets = 256"

record Validation =
  va_Build :: bool
  va_ELF :: bool
  va_EmulatedCore :: bool
  va_OpenWrtInstall :: bool
  va_HardwareCore :: bool
  va_CampusAuth :: bool

record Asset =
  as_ID :: string
  as_Kind :: string
  as_PackageManager :: string
  as_Format :: string
  as_OpenWrtArch :: string
  as_PackageVersion :: string
  as_SDKRelease :: string
  as_Target :: string
  as_GOOS :: string
  as_GOARCH :: string
  as_URL :: string
  as_SHA256 :: string
  as_Bytes :: int
  as_InstalledBytes :: int
  as_FirmwareCompat :: "string list"
  as_Validation :: Validation

record Manifest =
  mf_SchemaVersion :: int
  mf_Release :: string
  mf_Channel :: string
  mf_SourceCommit :: string
  mf_Assets :: "Asset list"

text \<open>A manifest whose assets are still JSON text.\<close>

record RawManifest =
  rm_SchemaVersion :: int
  rm_Release :: string
  rm_Channel :: string
  rm_SourceCommit :: string
  rm_Assets :: "string list"

record ParsedURL =
  pu_Scheme :: string
  pu_Host :: string
  pu_HasUser :: bool
  pu_Path :: string
  pu_RawPath :: string
  pu_RawQuery :: string
  pu_Fragment :: string

subsection \<open>Patterns\<close>

definition between :: "char \<Rightarrow> char \<Rightarrow> char \<Rightarrow> bool" where
  "between a b c \<longleftrightarrow> (of_char a :: nat) \<le> of_char c \<and> (of_char c :: nat) \<le> of_char b"

definition alnum :: "char \<Rightarrow> bool" where
  "alnum c \<longleftrightarrow> is_digit c \<or> between (CHR ''a'') (CHR ''z'') c \<or> between (CHR ''A'') (CHR ''Z'') c"

definition lower_hex :: "char \<Rightarrow> bool" where
  "lower_hex c \<longleftrightarrow> is_digit c \<or> between (CHR ''a'') (CHR ''f'') c"

definition sha256Pattern :: "string \<Rightarrow> bool" where "sha256Pattern s \<longleftrightarrow> length s = 64 \<and> list_all lower_hex s"
definition commitPattern :: "string \<Rightarrow> bool" where "commitPattern s \<longleftrightarrow> length s = 40 \<and> list_all lower_hex s"

definition namePattern :: "string \<Rightarrow> bool" where
  "namePattern s \<longleftrightarrow> s \<noteq> [] \<and> length s \<le> 128 \<and> alnum (hd s) \<and> list_all (\<lambda>c. alnum c \<or> c \<in> set ''_.-'') s"

definition filenamePattern :: "string \<Rightarrow> bool" where
  "filenamePattern s \<longleftrightarrow> s \<noteq> [] \<and> length s \<le> 200 \<and> alnum (hd s) \<and> list_all (\<lambda>c. alnum c \<or> c \<in> set ''_.~+-'') s"

definition familyPattern :: "string \<Rightarrow> bool" where
  "familyPattern s \<longleftrightarrow> length s = 5 \<and> s ! 2 = CHR ''.'' \<and> list_all (\<lambda>i. is_digit (s ! i)) [0, 1, 3, 4]"

definition sdkPattern :: "string \<Rightarrow> bool" where
  "sdkPattern s \<longleftrightarrow> length s \<ge> 7 \<and> familyPattern (take 5 s) \<and> s ! 5 = CHR ''.'' \<and> list_all is_digit (drop 6 s)"

definition target_char :: "char \<Rightarrow> bool" where
  "target_char c \<longleftrightarrow> is_digit c \<or> between (CHR ''a'') (CHR ''z'') c \<or> c \<in> set ''_-''"

definition targetPattern :: "string \<Rightarrow> bool" where
  "targetPattern s \<longleftrightarrow> (let a = takeWhile target_char s; r = dropWhile target_char s in
     a \<noteq> [] \<and> (case r of c # b \<Rightarrow> c = CHR ''/'' \<and> b \<noteq> [] \<and> list_all target_char b | [] \<Rightarrow> False))"

definition positiveNumber :: "string \<Rightarrow> bool" where
  "positiveNumber v \<longleftrightarrow> v \<noteq> [] \<and> between (CHR ''1'') (CHR ''9'') (hd v) \<and> length v \<le> 9 \<and> list_all is_digit v"

subsection \<open>Assets\<close>

definition PackageName :: "Asset \<Rightarrow> string" where
  "PackageName a =
     (if as_Kind a = ''core'' then ''smart-srun''
      else if as_Kind a = ''luci'' then ''luci-app-smart-srun''
      else if as_Kind a = ''bundle'' then ''luci-app-smart-srun-bundle'' else [])"

definition common_arch :: "string \<Rightarrow> string" where
  "common_arch manager = (if manager = ''apk'' then ''noarch'' else ''all'')"

definition sizes_ok :: "Asset \<Rightarrow> bool" where
  "sizes_ok a \<longleftrightarrow> 0 < as_Bytes a \<and> as_Bytes a \<le> MaxAssetBytes \<and> 0 < as_InstalledBytes a \<and> as_InstalledBytes a \<le> MaxPayloadBytes"

definition fields_ok :: "Asset \<Rightarrow> bool" where
  "fields_ok a \<longleftrightarrow> PackageName a \<noteq> [] \<and> namePattern (as_ID a) \<and> namePattern (as_OpenWrtArch a) \<and> sha256Pattern (as_SHA256 a) \<and>
     sizes_ok a \<and> sdkPattern (as_SDKRelease a) \<and> targetPattern (as_Target a) \<and> as_GOOS a = ''linux'' \<and>
     namePattern (as_GOARCH a) \<and> as_FirmwareCompat a \<noteq> [] \<and> length (as_FirmwareCompat a) \<le> 8"

definition format_ok :: "Asset \<Rightarrow> bool" where
  "format_ok a \<longleftrightarrow> (as_PackageManager a = ''opkg'' \<and> as_Format a = ''ipk'') \<or> (as_PackageManager a = ''apk'' \<and> as_Format a = ''apk'')"

definition arch_ok :: "Asset \<Rightarrow> bool" where
  "arch_ok a \<longleftrightarrow> (if as_Kind a = ''luci'' then as_OpenWrtArch a = common_arch (as_PackageManager a)
     else as_OpenWrtArch a \<noteq> ''all'' \<and> as_OpenWrtArch a \<noteq> ''noarch'')"

text \<open>The native version: the release's, with a package revision.\<close>

definition native_of :: "Version \<Rightarrow> string \<Rightarrow> string \<Rightarrow> bool" where
  "native_of version manager native \<longleftrightarrow>
     (case CutPrefix native (NativeBase version manager @ ''-r'') of None \<Rightarrow> False | Some n \<Rightarrow> positiveNumber n)"

definition release_path :: "Version \<Rightarrow> string" where
  "release_path version = ''/'' @ Repository_name @ ''/releases/download/'' @ Version_String version @ ''/''"

definition url_ok :: "(string \<Rightarrow> ParsedURL option) \<Rightarrow> Version \<Rightarrow> Asset \<Rightarrow> bool" where
  "url_ok parse version a =
     (case parse (as_URL a) of
        None \<Rightarrow> False
      | Some u \<Rightarrow>
          pu_Scheme u = ''https'' \<and> pu_Host u = ''github.com'' \<and> \<not> pu_HasUser u \<and> pu_RawQuery u = [] \<and> pu_Fragment u = [] \<and>
          pu_RawPath u = [] \<and>
          (case CutPrefix (pu_Path u) (release_path version) of
             None \<Rightarrow> False
           | Some filename \<Rightarrow>
               \<not> ContainsAny filename ([CHR ''/'', CHR 0x5C, CHR 0x00, CHR 0x0D, CHR 0x0A, CHR 0x09, CHR '' '']) \<and>
               suffix (''.'' @ as_Format a) filename \<and>
               prefix (PackageName a @ (if as_Format a = ''ipk'' then ''_'' else ''-'')) filename))"

definition Asset_validate :: "(string \<Rightarrow> ParsedURL option) \<Rightarrow> Version \<Rightarrow> Asset \<Rightarrow> gerror option" where
  "Asset_validate parse version a =
     (if \<not> fields_ok a then Some incompatible
      else if \<not> format_ok a then Some incompatible
      else if \<not> arch_ok a then Some incompatible
      else if \<not> native_of version (as_PackageManager a) (as_PackageVersion a) then Some incompatible
      else if \<not> list_all familyPattern (as_FirmwareCompat a) then Some incompatible
      else if \<not> url_ok parse version a then Some incompatible
      else None)"

text \<open>The names the loop has seen: ids, addresses, and selections of kind, manager, architecture, firmware.\<close>

definition selection_of :: "Asset \<Rightarrow> string \<Rightarrow> string" where
  "selection_of a family = as_Kind a @ ''/'' @ as_PackageManager a @ ''/'' @ as_OpenWrtArch a @ ''/'' @ family"

fun add_selections :: "Asset \<Rightarrow> string list \<Rightarrow> string list \<Rightarrow> string list option" where
  "add_selections a [] seen = Some seen"
| "add_selections a (f # fs) seen =
     (if selection_of a f \<in> set seen then None else add_selections a fs (selection_of a f # seen))"

fun check_assets :: "(string \<Rightarrow> ParsedURL option) \<Rightarrow> Version \<Rightarrow> Asset list \<Rightarrow> string list \<Rightarrow> string list \<Rightarrow> string list \<Rightarrow> gerror option" where
  "check_assets parse version [] ids urls selections = None"
| "check_assets parse version (a # rest) ids urls selections =
     (case Asset_validate parse version a of
        Some e \<Rightarrow> Some e
      | None \<Rightarrow>
          if as_ID a \<in> set ids \<or> as_URL a \<in> set urls then Some incompatible
          else (case add_selections a (as_FirmwareCompat a) selections of
             None \<Rightarrow> Some incompatible
           | Some selections \<Rightarrow> check_assets parse version rest (as_ID a # ids) (as_URL a # urls) selections))"

definition Manifest_Validate :: "(string \<Rightarrow> ParsedURL option) \<Rightarrow> Manifest \<Rightarrow> gerror option" where
  "Manifest_Validate parse m =
     (case ParseVersion (mf_Release m) of
        Inl _ \<Rightarrow> Some incompatible
      | Inr version \<Rightarrow>
          if mf_SchemaVersion m \<noteq> 1 \<or> vn_Major version < 2 \<or> mf_Channel m \<noteq> Version_Channel version \<or>
             \<not> commitPattern (mf_SourceCommit m) \<or> mf_Assets m = [] \<or> length (mf_Assets m) > MaxAssets
          then Some incompatible
          else check_assets parse version (mf_Assets m) [] [] [])"

subsection \<open>The installation\<close>

record Inventory =
  iv_PackageManager :: string
  iv_Architecture :: string
  iv_FirmwareFamily :: string
  iv_DisplayVersion :: string
  iv_Packages :: "string gomap"

definition has_package :: "Inventory \<Rightarrow> string \<Rightarrow> bool" where
  "has_package i name \<longleftrightarrow> map_of (iv_Packages i) name \<noteq> None"

definition package_version :: "Inventory \<Rightarrow> string \<Rightarrow> string" where
  "package_version i name = (case map_of (iv_Packages i) name of None \<Rightarrow> [] | Some v \<Rightarrow> v)"

definition Inventory_Mode :: "Inventory \<Rightarrow> gerror + string" where
  "Inventory_Mode i =
     (let core = has_package i ''smart-srun''; luci = has_package i ''luci-app-smart-srun'';
          bundle = has_package i ''luci-app-smart-srun-bundle'' in
      if (bundle \<and> (core \<or> luci)) \<or> (\<not> bundle \<and> \<not> core) then Inl incompatible
      else if bundle then Inr ''bundle''
      else if luci then
        (if package_version i ''smart-srun'' \<noteq> package_version i ''luci-app-smart-srun''
         then Inl (Errorf CodeRecoveryRequired) else Inr ''split'')
      else Inr ''core'')"

definition known_package :: "string \<Rightarrow> bool" where
  "known_package name \<longleftrightarrow> name = ''smart-srun'' \<or> name = ''luci-app-smart-srun'' \<or> name = ''luci-app-smart-srun-bundle''"

definition Inventory_Validate :: "Inventory \<Rightarrow> gerror option" where
  "Inventory_Validate i =
     (case ParseVersion (iv_DisplayVersion i) of
        Inl e \<Rightarrow> Some e
      | Inr current \<Rightarrow>
          (case Inventory_Mode i of
             Inl e \<Rightarrow> Some e
           | Inr _ \<Rightarrow>
               if (iv_PackageManager i \<noteq> ''opkg'' \<and> iv_PackageManager i \<noteq> ''apk'') \<or> \<not> namePattern (iv_Architecture i) \<or>
                  iv_Architecture i = ''all'' \<or> iv_Architecture i = ''noarch'' \<or> \<not> familyPattern (iv_FirmwareFamily i)
               then Some incompatible
               else if list_all (\<lambda>(name, native). known_package name \<and> native_of current (iv_PackageManager i) native) (iv_Packages i)
               then None else Some incompatible))"

definition mode_kinds :: "string \<Rightarrow> string list" where
  "mode_kinds mode = (if mode = ''bundle'' then [''bundle''] else if mode = ''split'' then [''core'', ''luci''] else [''core''])"

definition asset_fits :: "Inventory \<Rightarrow> string \<Rightarrow> Asset \<Rightarrow> bool" where
  "asset_fits i kind a \<longleftrightarrow>
     (let arch = (if kind = ''luci'' then common_arch (iv_PackageManager i) else iv_Architecture i) in
      as_Kind a = kind \<and> as_PackageManager a = iv_PackageManager i \<and> as_OpenWrtArch a = arch \<and>
      iv_FirmwareFamily i \<in> set (as_FirmwareCompat a) \<and> va_Build (as_Validation a) \<and>
      (kind = ''luci'' \<or> va_ELF (as_Validation a)))"

definition compatibleAssets :: "Asset list \<Rightarrow> Inventory \<Rightarrow> string \<Rightarrow> Asset list" where
  "compatibleAssets assets i kind = filter (asset_fits i kind) assets"

end
