(* ===== verification/Update_Release.thy ===== *)
theory Update_Release
  imports Update_Plan
begin

text \<open>
  Choosing an update: \<open>BuildPlan\<close>, \<open>RecoveryAssets\<close> (\<open>update/plan.go\<close>), \<open>ValidatePlan\<close> (\<open>update/store.go\<close>),
  \<open>Check\<close> (\<open>update/check.go\<close>), \<open>LocalCandidate\<close> (\<open>update/stage.go\<close>), \<open>ParseManifest\<close> (\<open>update/manifest.go\<close>) and the
  release index and address rules of \<open>update/source.go\<close>. HTTP is an argument: what reading a URL delivered.
\<close>

record Plan =
  pl_ID :: string
  pl_Release :: string
  pl_SourceCommit :: string
  pl_InstallMode :: string
  pl_Inventory :: Inventory
  pl_Assets :: "Asset list"
  pl_DownloadBytes :: int
  pl_InstalledBytes :: int

record ReleaseEntry =
  re_Tag :: string
  re_Draft :: bool
  re_Prerelease :: bool

text \<open>
  \<open>ul_digest\<close> is the hex SHA-256 of the marshalled plan, \<open>ul_raw\<close> and \<open>ul_asset\<close> the strict decoder, \<open>ul_releases\<close>
  the decoder of the release index.
\<close>

record UpdateLib =
  ul_url :: "string \<Rightarrow> ParsedURL option"
  ul_digest :: "Plan \<Rightarrow> string option"
  ul_raw :: "string \<Rightarrow> RawManifest option"
  ul_asset :: "string \<Rightarrow> Asset option"
  ul_releases :: "string \<Rightarrow> ReleaseEntry list option"

subsection \<open>Manifests\<close>

fun decode_assets :: "(string \<Rightarrow> Asset option) \<Rightarrow> string list \<Rightarrow> Asset list option" where
  "decode_assets decode [] = Some []"
| "decode_assets decode (e # es) =
     (case decode e of None \<Rightarrow> None | Some a \<Rightarrow> map_option ((#) a) (decode_assets decode es))"

definition ParseManifest :: "UpdateLib \<Rightarrow> string \<Rightarrow> gerror + Manifest" where
  "ParseManifest lib data =
     (if data = [] \<or> length data > MaxManifestBytes then Inl incompatible
      else case ul_raw lib data of
        None \<Rightarrow> Inl incompatible
      | Some raw \<Rightarrow>
          (case decode_assets (ul_asset lib) (rm_Assets raw) of
             None \<Rightarrow> Inl incompatible
           | Some assets \<Rightarrow>
               let manifest = \<lparr>mf_SchemaVersion = rm_SchemaVersion raw, mf_Release = rm_Release raw, mf_Channel = rm_Channel raw,
                     mf_SourceCommit = rm_SourceCommit raw, mf_Assets = assets\<rparr> in
               (case Manifest_Validate (ul_url lib) manifest of Some e \<Rightarrow> Inl e | None \<Rightarrow> Inr manifest)))"

subsection \<open>Plans\<close>

fun plan_assets :: "Asset list \<Rightarrow> Inventory \<Rightarrow> string list \<Rightarrow> gerror + Asset list" where
  "plan_assets assets i [] = Inr []"
| "plan_assets assets i (kind # kinds) =
     (case compatibleAssets assets i kind of
        [a] \<Rightarrow> (case plan_assets assets i kinds of Inl e \<Rightarrow> Inl e | Inr rest \<Rightarrow> Inr (a # rest))
      | _ \<Rightarrow> Inl incompatible)"

definition versions_differ :: "Asset list \<Rightarrow> bool" where
  "versions_differ assets \<longleftrightarrow> length assets = 2 \<and> as_PackageVersion (assets ! 0) \<noteq> as_PackageVersion (assets ! 1)"

definition plan_of :: "UpdateLib \<Rightarrow> Manifest \<Rightarrow> Inventory \<Rightarrow> string \<Rightarrow> Asset list \<Rightarrow> gerror + Plan" where
  "plan_of lib m i mode assets =
     (let plan = \<lparr>pl_ID = [], pl_Release = mf_Release m, pl_SourceCommit = mf_SourceCommit m, pl_InstallMode = mode,
            pl_Inventory = i, pl_Assets = assets, pl_DownloadBytes = sum_list (map as_Bytes assets),
            pl_InstalledBytes = sum_list (map as_InstalledBytes assets)\<rparr> in
      if versions_differ assets then Inl incompatible
      else if pl_InstalledBytes plan > MaxPayloadBytes then Inl incompatible
      else case ul_digest lib plan of
        None \<Rightarrow> Inl (Errorf CodeInternal)
      | Some digest \<Rightarrow> Inr (plan\<lparr>pl_ID := digest\<rparr>))"

definition target_problem :: "Version \<Rightarrow> Version \<Rightarrow> string \<Rightarrow> gerror option" where
  "target_problem target current channel =
     (let channel = (if channel = [] then Version_Channel current else channel) in
      if vn_Major target \<noteq> vn_Major current then Some incompatible
      else if (channel \<noteq> ChannelStable \<and> channel \<noteq> ChannelRC) \<or> (channel = ChannelStable \<and> vn_RC target \<noteq> 0) then Some incompatible
      else if Version_Compare target current \<le> 0 then Some (Errorf CodeNotFound)
      else None)"

definition BuildPlan :: "UpdateLib \<Rightarrow> Manifest \<Rightarrow> Inventory \<Rightarrow> string \<Rightarrow> gerror + Plan" where
  "BuildPlan lib m i channel =
     (case Manifest_Validate (ul_url lib) m of
        Some e \<Rightarrow> Inl e
      | None \<Rightarrow>
        (case Inventory_Validate i of
           Some e \<Rightarrow> Inl e
         | None \<Rightarrow>
           (case (ParseVersion (iv_DisplayVersion i), ParseVersion (mf_Release m)) of
              (Inr current, Inr target) \<Rightarrow>
                (case target_problem target current channel of
                   Some e \<Rightarrow> Inl e
                 | None \<Rightarrow>
                   (case Inventory_Mode i of
                      Inl e \<Rightarrow> Inl e
                    | Inr mode \<Rightarrow>
                      (case plan_assets (mf_Assets m) i (mode_kinds mode) of
                         Inl e \<Rightarrow> Inl e
                       | Inr assets \<Rightarrow> plan_of lib m i mode assets)))
            | (Inl e, _) \<Rightarrow> Inl e
            | (_, Inl e) \<Rightarrow> Inl e)))"

fun recovery_assets :: "Asset list \<Rightarrow> Inventory \<Rightarrow> string list \<Rightarrow> gerror + Asset list" where
  "recovery_assets assets i [] = Inr []"
| "recovery_assets assets i (kind # kinds) =
     (case compatibleAssets assets i kind of
        [a] \<Rightarrow>
          if as_PackageVersion a \<noteq> package_version i (PackageName a) then Inl incompatible
          else (case recovery_assets assets i kinds of Inl e \<Rightarrow> Inl e | Inr rest \<Rightarrow> Inr (a # rest))
      | _ \<Rightarrow> Inl incompatible)"

definition RecoveryAssets :: "UpdateLib \<Rightarrow> Manifest \<Rightarrow> Inventory \<Rightarrow> gerror + Asset list" where
  "RecoveryAssets lib m i =
     (case Manifest_Validate (ul_url lib) m of
        Some e \<Rightarrow> Inl e
      | None \<Rightarrow>
          if mf_Release m \<noteq> iv_DisplayVersion i then Inl incompatible
          else (case Inventory_Mode i of
             Inl e \<Rightarrow> Inl e
           | Inr mode \<Rightarrow> recovery_assets (mf_Assets m) i (mode_kinds mode)))"

definition ValidatePlan :: "UpdateLib \<Rightarrow> Plan \<Rightarrow> gerror option" where
  "ValidatePlan lib plan =
     (case ParseVersion (pl_Release plan) of
        Inl e \<Rightarrow> Some e
      | Inr version \<Rightarrow>
          (case BuildPlan lib \<lparr>mf_SchemaVersion = 1, mf_Release = pl_Release plan, mf_Channel = Version_Channel version,
                  mf_SourceCommit = pl_SourceCommit plan, mf_Assets = pl_Assets plan\<rparr> (pl_Inventory plan) ''rc'' of
             Inl _ \<Rightarrow> Some incompatible
           | Inr rebuilt \<Rightarrow> if rebuilt \<noteq> plan then Some incompatible else None))"

subsection \<open>Candidates\<close>

record UpdateCandidate =
  uc_Plan :: Plan
  uc_Recovery :: Manifest
  uc_Local :: bool

definition LocalCandidate :: "UpdateLib \<Rightarrow> Manifest \<Rightarrow> Manifest \<Rightarrow> Inventory \<Rightarrow> gerror + UpdateCandidate" where
  "LocalCandidate lib manifest recovery i =
     (case BuildPlan lib manifest i ''rc'' of
        Inl e \<Rightarrow> Inl e
      | Inr plan \<Rightarrow>
          (case RecoveryAssets lib recovery i of
             Inl e \<Rightarrow> Inl e
           | Inr assets \<Rightarrow> Inr \<lparr>uc_Plan = plan, uc_Recovery = recovery\<lparr>mf_Assets := assets\<rparr>, uc_Local = True\<rparr>))"

record CheckResult =
  cr_OK :: bool
  cr_UpdateAvailable :: bool
  cr_PlanID :: string
  cr_CurrentVersion :: string
  cr_LatestVersion :: string
  cr_LatestTag :: string
  cr_InstallMode :: string
  cr_PackageFormat :: string
  cr_Code :: "ErrorCode option"

text \<open>A release source: the releases newer than the current one, and the \<open>n\<close>-th manifest asked for.\<close>

record ReleaseSource =
  rs_Candidates :: "Version \<Rightarrow> string \<Rightarrow> cause + Version list"
  rs_Manifest :: "nat \<Rightarrow> Version \<Rightarrow> cause + Manifest"

definition first_reason :: "gerror option \<Rightarrow> gerror \<Rightarrow> gerror option" where
  "first_reason rejected e = (case rejected of None \<Rightarrow> Some e | Some r \<Rightarrow> Some r)"

text \<open>
  The loop over the candidates: the first plan that can be built, why the first refused one was refused, and
  how many manifests were asked for.
\<close>

fun try_candidates ::
  "UpdateLib \<Rightarrow> ReleaseSource \<Rightarrow> Inventory \<Rightarrow> string \<Rightarrow> nat \<Rightarrow> gerror option \<Rightarrow> Version list \<Rightarrow> cause + Plan option \<times> gerror option \<times> nat" where
  "try_candidates lib source i channel n rejected [] = Inr (None, rejected, n)"
| "try_candidates lib source i channel n rejected (v # vs) =
     (case rs_Manifest source n v of
        Inl err \<Rightarrow>
          if CodeOf err = Some CodeNotFound then try_candidates lib source i channel (Suc n) (first_reason rejected incompatible) vs
          else Inl err
      | Inr manifest \<Rightarrow>
          (case BuildPlan lib manifest i channel of
             Inl e \<Rightarrow> try_candidates lib source i channel (Suc n) (first_reason rejected e) vs
           | Inr plan \<Rightarrow> Inr (Some plan, rejected, Suc n)))"

definition latest_of :: "Version list \<Rightarrow> string" where
  "latest_of versions = (case versions of [] \<Rightarrow> [] | v # _ \<Rightarrow> Version_String v)"

definition check_recovery :: "UpdateLib \<Rightarrow> ReleaseSource \<Rightarrow> Inventory \<Rightarrow> Version \<Rightarrow> Plan \<Rightarrow> nat \<Rightarrow> cause + UpdateCandidate" where
  "check_recovery lib source i current plan n =
     (case rs_Manifest source n current of
        Inl err \<Rightarrow> Inl (Problem incompatible)
      | Inr recovery \<Rightarrow>
          (case RecoveryAssets lib recovery i of
             Inl e \<Rightarrow> Inl (Problem e)
           | Inr assets \<Rightarrow> Inr \<lparr>uc_Plan = plan, uc_Recovery = recovery\<lparr>mf_Assets := assets\<rparr>, uc_Local = False\<rparr>))"

definition nothing_new :: "CheckResult \<Rightarrow> gerror option \<Rightarrow> CheckResult" where
  "nothing_new result rejected = result\<lparr>cr_OK := True, cr_Code := map_option e_code rejected\<rparr>"

definition found_update :: "CheckResult \<Rightarrow> Plan \<Rightarrow> CheckResult" where
  "found_update result plan = result\<lparr>cr_OK := True, cr_UpdateAvailable := True, cr_PlanID := pl_ID plan,
     cr_LatestVersion := pl_Release plan, cr_LatestTag := pl_Release plan, cr_InstallMode := pl_InstallMode plan,
     cr_PackageFormat := (case pl_Assets plan of [] \<Rightarrow> [] | a # _ \<Rightarrow> as_Format a)\<rparr>"

definition zero_result :: "string \<Rightarrow> CheckResult" where
  "zero_result current = \<lparr>cr_OK = False, cr_UpdateAvailable = False, cr_PlanID = [], cr_CurrentVersion = current,
     cr_LatestVersion = [], cr_LatestTag = [], cr_InstallMode = [], cr_PackageFormat = [], cr_Code = None\<rparr>"

text \<open>The candidate when there is one, the result, the error when there is one.\<close>

definition Update_Check ::
  "UpdateLib \<Rightarrow> ReleaseSource \<Rightarrow> Inventory \<Rightarrow> string \<Rightarrow> UpdateCandidate option \<times> CheckResult \<times> cause option" where
  "Update_Check lib source i channel =
     (let result = zero_result (iv_DisplayVersion i) in
      case Inventory_Validate i of
        Some e \<Rightarrow> (None, result, Some (Problem e))
      | None \<Rightarrow>
        (case ParseVersion (iv_DisplayVersion i) of
           Inl e \<Rightarrow> (None, result, Some (Problem e))
         | Inr current \<Rightarrow>
           (case rs_Candidates source current channel of
              Inl err \<Rightarrow> (None, result, Some err)
            | Inr versions \<Rightarrow>
              let result = result\<lparr>cr_LatestVersion := latest_of versions, cr_LatestTag := latest_of versions\<rparr> in
              (case try_candidates lib source i channel 0 None versions of
                 Inl err \<Rightarrow> (None, result, Some err)
               | Inr (plan, rejected, n) \<Rightarrow>
                 (case plan of
                    None \<Rightarrow> (None, nothing_new result rejected, None)
                  | Some plan \<Rightarrow>
                      if pl_ID plan = [] then (None, nothing_new result rejected, None)
                      else (case check_recovery lib source i current plan n of
                         Inl err \<Rightarrow> (None, result, Some err)
                       | Inr candidate \<Rightarrow> (Some candidate, found_update result plan, None)))))))"

subsection \<open>The release index and the addresses\<close>

fun split_slash :: "string \<Rightarrow> string list" where
  "split_slash [] = [[]]"
| "split_slash (c # cs) =
     (if c = CHR ''/'' then [] # split_slash cs
      else case split_slash cs of w # ws \<Rightarrow> (c # w) # ws | [] \<Rightarrow> [[c]])"

definition releaseAssetURL :: "UpdateLib \<Rightarrow> string \<Rightarrow> bool" where
  "releaseAssetURL lib raw =
     (case ul_url lib raw of
        None \<Rightarrow> False
      | Some u \<Rightarrow>
          pu_Scheme u = ''https'' \<and> pu_Host u = ''github.com'' \<and> \<not> pu_HasUser u \<and> pu_RawPath u = [] \<and> pu_RawQuery u = [] \<and>
          pu_Fragment u = [] \<and>
          (case CutPrefix (pu_Path u) (''/'' @ Repository_name @ ''/releases/download/'') of
             None \<Rightarrow> False
           | Some tail \<Rightarrow>
               (case split_slash tail of
                  [tag, filename] \<Rightarrow> filenamePattern filename \<and>
                    (case ParseVersion tag of Inl _ \<Rightarrow> False | Inr version \<Rightarrow> vn_Major version \<ge> 2)
                | _ \<Rightarrow> False)))"

text \<open>A redirect after \<open>hops\<close> requests to an already parsed URL.\<close>

definition checkRedirect :: "UpdateLib \<Rightarrow> nat \<Rightarrow> ParsedURL \<Rightarrow> string \<Rightarrow> gerror option" where
  "checkRedirect lib hops u raw =
     (if hops \<ge> 5 \<or> pu_Scheme u \<noteq> ''https'' \<or> pu_HasUser u \<or> pu_Fragment u \<noteq> [] then Some (Errorf CodeTransportFailure)
      else if pu_Host u = ''release-assets.githubusercontent.com'' \<or> pu_Host u = ''objects.githubusercontent.com'' then None
      else if pu_Host u = ''github.com'' \<and> releaseAssetURL lib raw then None
      else Some (Errorf CodeTransportFailure))"

definition wanted_release :: "Version \<Rightarrow> string \<Rightarrow> Version list \<Rightarrow> ReleaseEntry \<Rightarrow> Version option" where
  "wanted_release current channel seen r =
     (case ParseVersion (re_Tag r) of
        Inl _ \<Rightarrow> None
      | Inr v \<Rightarrow>
          if re_Draft r \<or> vn_Major v \<noteq> vn_Major current \<or> vn_Major v < 2 \<or> Version_Compare v current \<le> 0 \<or>
             (vn_RC v = 0 \<and> re_Prerelease r) \<or> (channel = ChannelStable \<and> vn_RC v \<noteq> 0) \<or> v \<in> set seen
          then None else Some v)"

fun collect_releases :: "Version \<Rightarrow> string \<Rightarrow> Version list \<Rightarrow> ReleaseEntry list \<Rightarrow> Version list" where
  "collect_releases current channel versions [] = versions"
| "collect_releases current channel versions (r # rs) =
     (case wanted_release current channel versions r of
        None \<Rightarrow> collect_releases current channel versions rs
      | Some v \<Rightarrow> collect_releases current channel (versions @ [v]) rs)"

definition newest_first :: "Version \<Rightarrow> Version \<Rightarrow> int" where
  "newest_first a b = Version_Compare b a"

definition Source_Candidates :: "UpdateLib \<Rightarrow> (unit \<Rightarrow> cause + string) \<Rightarrow> Version \<Rightarrow> string \<Rightarrow> cause + Version list" where
  "Source_Candidates lib read current channel =
     (let channel = (if channel = [] then Version_Channel current else channel) in
      if channel \<noteq> ChannelStable \<and> channel \<noteq> ChannelRC then Inl (problem CodeInvalidArgument)
      else case read () of
        Inl err \<Rightarrow> Inl err
      | Inr data \<Rightarrow>
          (case ul_releases lib data of
             None \<Rightarrow> Inl (Problem incompatible)
           | Some releases \<Rightarrow>
               if length releases > 100 then Inl (Problem incompatible)
               else Inr (take 10 (SortFunc newest_first (collect_releases current channel [] releases)))))"

definition manifest_url :: "Version \<Rightarrow> string" where
  "manifest_url version = ''https://github.com/'' @ Repository_name @ ''/releases/download/'' @ Version_String version @ ''/release-manifest.json''"

definition Source_Manifest :: "UpdateLib \<Rightarrow> (string \<Rightarrow> cause + string) \<Rightarrow> Version \<Rightarrow> cause + Manifest" where
  "Source_Manifest lib read version =
     (case read (manifest_url version) of
        Inl err \<Rightarrow> Inl err
      | Inr data \<Rightarrow>
          (case ParseManifest lib data of
             Inl _ \<Rightarrow> Inl (Problem incompatible)
           | Inr manifest \<Rightarrow> if mf_Release manifest \<noteq> Version_String version then Inl (Problem incompatible) else Inr manifest))"

end
