(* ===== verification/Update_Claims.thy ===== *)
theory Update_Claims
  imports Update_Release
begin

text \<open>What a validated manifest, a plan and an offered update promise.\<close>

subsection \<open>Manifests\<close>

definition selections :: "Asset \<Rightarrow> string list" where
  "selections a = map (selection_of a) (as_FirmwareCompat a)"

lemma add_selections_exact:
  "add_selections a fs seen = Some seen' \<longleftrightarrow>
     distinct (map (selection_of a) fs) \<and> set (map (selection_of a) fs) \<inter> set seen = {} \<and> seen' = rev (map (selection_of a) fs) @ seen"
  by (induction fs arbitrary: seen) auto

lemma add_selections_None: "add_selections a fs seen = None \<longleftrightarrow> \<not> (distinct (map (selection_of a) fs) \<and> set (map (selection_of a) fs) \<inter> set seen = {})"
  by (induction fs arbitrary: seen) auto

definition assets_sound :: "(string \<Rightarrow> ParsedURL option) \<Rightarrow> Version \<Rightarrow> Asset list \<Rightarrow> bool" where
  "assets_sound parse version assets \<longleftrightarrow> (\<forall>a\<in>set assets. Asset_validate parse version a = None) \<and> distinct (map as_ID assets) \<and>
     distinct (map as_URL assets) \<and> distinct (concat (map selections assets))"

lemma check_assets_exact:
  "check_assets parse version assets ids urls seen = None \<longleftrightarrow>
     assets_sound parse version assets \<and> set (map as_ID assets) \<inter> set ids = {} \<and> set (map as_URL assets) \<inter> set urls = {} \<and>
     set (concat (map selections assets)) \<inter> set seen = {}"
proof (induction assets arbitrary: ids urls seen)
  case Nil then show ?case by (simp add: assets_sound_def)
next
  case (Cons a assets)
  show ?case
  proof (cases "add_selections a (as_FirmwareCompat a) seen")
    case None
    have "\<not> (distinct (selections a) \<and> set (selections a) \<inter> set seen = {})"
      unfolding selections_def by (rule add_selections_None [THEN iffD1, OF None])
    with None show ?thesis by (auto simp: assets_sound_def split: option.splits)
  next
    case (Some seen')
    then have S: "distinct (selections a)" "set (selections a) \<inter> set seen = {}" "set seen' = set (selections a) \<union> set seen"
      unfolding selections_def by (auto simp: add_selections_exact)
    have step: "check_assets parse version (a # assets) ids urls seen = None \<longleftrightarrow> Asset_validate parse version a = None \<and>
        as_ID a \<notin> set ids \<and> as_URL a \<notin> set urls \<and>
        check_assets parse version assets (as_ID a # ids) (as_URL a # urls) seen' = None"
      by (simp add: Some split: option.split)
    have parts: "set (map f assets) \<inter> set (f a # xs) = {} \<longleftrightarrow> f a \<notin> set (map f assets) \<and> set (map f assets) \<inter> set xs = {}"
        for f :: "Asset \<Rightarrow> string" and xs by auto
    have sound: "assets_sound parse version (a # assets) \<longleftrightarrow> Asset_validate parse version a = None \<and> assets_sound parse version assets \<and>
        as_ID a \<notin> set (map as_ID assets) \<and> as_URL a \<notin> set (map as_URL assets) \<and>
        set (selections a) \<inter> set (concat (map selections assets)) = {}"
      using S(1) by (simp add: assets_sound_def conj_ac)
    show ?thesis
      unfolding step Cons.IH parts sound S(3) using S(2) by (auto simp del: set_concat)
  qed
qed

lemma Manifest_Validate_exact:
  "Manifest_Validate parse m = None \<longleftrightarrow> (\<exists>version. ParseVersion (mf_Release m) = Inr version \<and> mf_SchemaVersion m = 1 \<and>
     2 \<le> vn_Major version \<and> mf_Channel m = Version_Channel version \<and> commitPattern (mf_SourceCommit m) \<and> mf_Assets m \<noteq> [] \<and>
     length (mf_Assets m) \<le> MaxAssets \<and> assets_sound parse version (mf_Assets m))"
  by (auto simp: Manifest_Validate_def check_assets_exact not_le split: sum.splits)

lemma one_carrier:
  "distinct (concat (map g xs)) \<Longrightarrow> (\<And>x. P x \<Longrightarrow> k \<in> set (g x)) \<Longrightarrow> length (filter P xs) \<le> 1"
proof (induction xs)
  case (Cons x xs)
  show ?case
  proof (cases "P x")
    case True
    with Cons.prems have "k \<in> set (g x)" by blast
    with Cons.prems have "filter P xs = []" by (auto simp: filter_empty_conv)
    then show ?thesis by simp
  next
    case False with Cons show ?thesis by simp
  qed
qed simp

lemma fits_selection:
  "asset_fits i kind a \<Longrightarrow> kind @ ''/'' @ iv_PackageManager i @ ''/'' @ (if kind = ''luci'' then common_arch (iv_PackageManager i) else iv_Architecture i)
     @ ''/'' @ iv_FirmwareFamily i \<in> set (selections a)"
  by (auto simp: asset_fits_def selections_def selection_of_def Let_def)

text \<open>
  C34: Reading and printing a release number are inverse: a text is read as a version exactly when it is the
  printed form of that version. So no two texts name the same release, a leading zero, a sign, an overflowing
  number or trailing text is refused, and a release tag rebuilt from a version is the tag that was read.
\<close>
theorem version_text_exact: "ParseVersion t = Inr v \<longleftrightarrow> t = Version_String v"
  by (rule ParseVersion_exact)

text \<open>
  In a validated manifest no device has a choice: for every installation and every kind of package at most
  one asset fits, ids and addresses are unique, and every asset is a package of this repository's release,
  downloaded over https from its official address, within the size limits and for an architecture of its kind.
\<close>
theorem manifest_unambiguous:
  assumes "Manifest_Validate parse m = None"
  shows "length (compatibleAssets (mf_Assets m) i kind) \<le> 1 \<and> distinct (map as_ID (mf_Assets m)) \<and> distinct (map as_URL (mf_Assets m)) \<and>
    (\<exists>version. mf_Release m = Version_String version \<and> 2 \<le> vn_Major version \<and>
      (\<forall>a\<in>set (mf_Assets m). url_ok parse version a \<and> sizes_ok a \<and> arch_ok a \<and>
         native_of version (as_PackageManager a) (as_PackageVersion a)))"
proof -
  obtain version where v: "ParseVersion (mf_Release m) = Inr version" "2 \<le> vn_Major version" "assets_sound parse version (mf_Assets m)"
    using assms by (auto simp: Manifest_Validate_exact)
  then have s: "distinct (concat (map selections (mf_Assets m)))" by (simp add: assets_sound_def)
  have "length (compatibleAssets (mf_Assets m) i kind) \<le> 1"
    unfolding compatibleAssets_def by (rule one_carrier [OF s]) (rule fits_selection)
  moreover have "mf_Release m = Version_String version" using v(1) unfolding ParseVersion_exact .
  moreover have "\<forall>a\<in>set (mf_Assets m). url_ok parse version a \<and> sizes_ok a \<and> arch_ok a \<and>
      native_of version (as_PackageManager a) (as_PackageVersion a)"
    using v(3) by (auto simp: assets_sound_def Asset_validate_def fields_ok_def split: if_splits)
  ultimately show ?thesis using v by (auto simp: assets_sound_def)
qed

subsection \<open>Plans\<close>

lemma plan_assets_fit:
  "plan_assets assets i kinds = Inr chosen \<Longrightarrow>
     list_all2 (asset_fits i) kinds chosen \<and> set chosen \<subseteq> set assets \<and> list_all2 (\<lambda>kind a. compatibleAssets assets i kind = [a]) kinds chosen"
proof (induction kinds arbitrary: chosen)
  case (Cons kind kinds)
  then obtain a rest where a: "compatibleAssets assets i kind = [a]" "plan_assets assets i kinds = Inr rest" "chosen = a # rest"
    by (auto split: list.splits sum.splits)
  have "a \<in> set (compatibleAssets assets i kind)" using a(1) by simp
  then have "a \<in> set assets \<and> asset_fits i kind a" by (simp add: compatibleAssets_def)
  with Cons.IH [OF a(2)] a show ?case by simp
qed simp

lemma Inventory_Mode_kinds:
  "Inventory_Mode i = Inr mode \<Longrightarrow>
     (mode = ''bundle'' \<and> has_package i ''luci-app-smart-srun-bundle'' \<and> \<not> has_package i ''smart-srun'' \<and> \<not> has_package i ''luci-app-smart-srun'') \<or>
     (mode = ''split'' \<and> \<not> has_package i ''luci-app-smart-srun-bundle'' \<and> has_package i ''smart-srun'' \<and> has_package i ''luci-app-smart-srun'') \<or>
     (mode = ''core'' \<and> \<not> has_package i ''luci-app-smart-srun-bundle'' \<and> has_package i ''smart-srun'' \<and> \<not> has_package i ''luci-app-smart-srun'')"
  by (auto simp: Inventory_Mode_def Let_def split: if_splits)

text \<open>What a built plan was built from.\<close>

lemma BuildPlan_Inr:
  assumes "BuildPlan lib m i channel = Inr p"
  obtains current target assets where "Manifest_Validate (ul_url lib) m = None" "Inventory_Validate i = None"
    "ParseVersion (iv_DisplayVersion i) = Inr current" "ParseVersion (mf_Release m) = Inr target" "target_problem target current channel = None"
    "Inventory_Mode i = Inr (pl_InstallMode p)" "plan_assets (mf_Assets m) i (mode_kinds (pl_InstallMode p)) = Inr assets"
    "plan_of lib m i (pl_InstallMode p) assets = Inr p"
proof -
  obtain current target mode assets where *: "Manifest_Validate (ul_url lib) m = None" "Inventory_Validate i = None"
    "ParseVersion (iv_DisplayVersion i) = Inr current" "ParseVersion (mf_Release m) = Inr target" "target_problem target current channel = None"
    "Inventory_Mode i = Inr mode" "plan_assets (mf_Assets m) i (mode_kinds mode) = Inr assets" "plan_of lib m i mode assets = Inr p"
    using assms by (auto simp: BuildPlan_def split: option.splits sum.splits)
  moreover from *(8) have "mode = pl_InstallMode p" by (auto simp: plan_of_def Let_def split: if_splits option.splits)
  ultimately show thesis using that by blast
qed

lemma plan_of_Inr:
  "plan_of lib m i mode assets = Inr p \<Longrightarrow> pl_Release p = mf_Release m \<and> pl_SourceCommit p = mf_SourceCommit m \<and> pl_Inventory p = i \<and>
     pl_Assets p = assets \<and> pl_DownloadBytes p = sum_list (map as_Bytes assets) \<and> pl_InstalledBytes p = sum_list (map as_InstalledBytes assets) \<and>
     pl_InstalledBytes p \<le> MaxPayloadBytes \<and> \<not> versions_differ assets"
  by (auto simp: plan_of_def Let_def split: if_splits option.splits)

lemma sum_bounded: "(\<And>a. a \<in> set xs \<Longrightarrow> f a \<le> (b :: int)) \<Longrightarrow> sum_list (map f xs) \<le> int (length xs) * b"
  by (induction xs) (force simp: algebra_simps)+

lemma target_allowed:
  assumes "target_problem target current channel = None"
  shows "vn_Major target = vn_Major current" "version_key current < version_key target"
    "vn_RC target \<noteq> 0 \<Longrightarrow> channel = ChannelRC \<or> channel = [] \<and> vn_RC current \<noteq> 0"
  using assms Version_Compare_key(2) [of target current]
  by (auto simp: target_problem_def Let_def Version_Channel_def ChannelStable_def ChannelRC_def split: if_splits)

lemma plan_moves_forward:
  assumes "BuildPlan lib m i channel = Inr p"
  shows "\<exists>current target. iv_DisplayVersion i = Version_String current \<and> pl_Release p = Version_String target \<and>
    vn_Major target = vn_Major current \<and> version_key current < version_key target \<and>
    (vn_RC target \<noteq> 0 \<longrightarrow> channel = ChannelRC \<or> channel = [] \<and> vn_RC current \<noteq> 0) \<and>
    pl_Inventory p = i \<and> Inventory_Mode i = Inr (pl_InstallMode p) \<and>
    list_all2 (asset_fits i) (mode_kinds (pl_InstallMode p)) (pl_Assets p) \<and> \<not> versions_differ (pl_Assets p) \<and>
    (\<forall>a\<in>set (pl_Assets p). Asset_validate (ul_url lib) target a = None) \<and>
    pl_InstalledBytes p \<le> MaxPayloadBytes \<and> pl_DownloadBytes p \<le> 2 * MaxAssetBytes"
proof -
  obtain current target assets where b: "Manifest_Validate (ul_url lib) m = None" "ParseVersion (iv_DisplayVersion i) = Inr current"
      "ParseVersion (mf_Release m) = Inr target" "target_problem target current channel = None" "Inventory_Mode i = Inr (pl_InstallMode p)"
      "plan_assets (mf_Assets m) i (mode_kinds (pl_InstallMode p)) = Inr assets" "plan_of lib m i (pl_InstallMode p) assets = Inr p"
    by (rule BuildPlan_Inr [OF assms])
  note fit = plan_assets_fit [OF b(6)] and p = plan_of_Inr [OF b(7)]
  have valid: "\<forall>a\<in>set assets. Asset_validate (ul_url lib) target a = None"
    using b(1,3) fit by (auto simp: Manifest_Validate_exact assets_sound_def)
  have "length assets \<le> 2" using fit by (auto simp: mode_kinds_def dest!: list_all2_lengthD split: if_splits)
  moreover have "sum_list (map as_Bytes assets) \<le> int (length assets) * MaxAssetBytes"
    using valid by (intro sum_bounded) (auto simp: Asset_validate_def fields_ok_def sizes_ok_def split: if_splits)
  ultimately have "sum_list (map as_Bytes assets) \<le> 2 * MaxAssetBytes" by (simp add: MaxAssetBytes_def)
  moreover have "iv_DisplayVersion i = Version_String current" "mf_Release m = Version_String target"
    using b(2,3) unfolding ParseVersion_exact by simp_all
  ultimately show ?thesis
    using fit p valid b(5) target_allowed [OF b(4)] by auto
qed

text \<open>
  C35: A plan only moves an installation forward and never sideways: the target is a newer release of the same
  major version, a release candidate only when the caller asked for that channel or already runs one; the
  assets are exactly those of the installed packages, one per package, for this device's package manager,
  architecture and firmware, of one package version, all from the release's official address; and together
  they stay within the payload limit.
\<close>
theorem planned_update_safe:
  assumes "BuildPlan lib m i channel = Inr p"
  shows "\<exists>current target. iv_DisplayVersion i = Version_String current \<and> pl_Release p = Version_String target \<and>
    vn_Major target = vn_Major current \<and> version_key current < version_key target \<and>
    (vn_RC target \<noteq> 0 \<longrightarrow> channel = ChannelRC \<or> channel = [] \<and> vn_RC current \<noteq> 0) \<and>
    pl_Inventory p = i \<and> Inventory_Mode i = Inr (pl_InstallMode p) \<and>
    list_all2 (asset_fits i) (mode_kinds (pl_InstallMode p)) (pl_Assets p) \<and> \<not> versions_differ (pl_Assets p) \<and>
    (\<forall>a\<in>set (pl_Assets p). Asset_validate (ul_url lib) target a = None) \<and>
    pl_InstalledBytes p \<le> MaxPayloadBytes \<and> pl_DownloadBytes p \<le> 2 * MaxAssetBytes"
  by (rule plan_moves_forward [OF assms])

subsection \<open>Saving a plan\<close>

lemma distinct_concat_disjoint:
  "distinct (concat (map g xs)) \<Longrightarrow> a \<in> set xs \<Longrightarrow> b \<in> set xs \<Longrightarrow> a \<noteq> b \<Longrightarrow> set (g a) \<inter> set (g b) = {}"
  by (induction xs) auto

lemma assets_sound_sub:
  assumes "assets_sound parse version all_assets" and "set assets \<subseteq> set all_assets" and "distinct assets"
  shows "assets_sound parse version assets"
proof -
  have "inj_on as_ID (set all_assets)" "inj_on as_URL (set all_assets)"
    using assms(1) by (auto simp: assets_sound_def distinct_map)
  then have "distinct (map as_ID assets)" "distinct (map as_URL assets)"
    using assms(2,3) by (auto simp: distinct_map intro: inj_on_subset)
  moreover have "distinct (concat (map selections assets))"
    using assms(2,3)
  proof (induction assets)
    case (Cons a rest)
    have d: "distinct (concat (map selections all_assets))" using assms(1) by (simp add: assets_sound_def)
    have "set (selections a) \<inter> set (selections b) = {}" if "b \<in> set rest" for b
      using distinct_concat_disjoint [OF d, of a b] Cons.prems that by auto
    moreover have "distinct (selections a)" using d Cons.prems(1) by (auto simp: distinct_concat_iff)
    ultimately show ?case using Cons by auto
  qed simp
  ultimately show ?thesis using assms(1,2) by (auto simp: assets_sound_def)
qed

lemma fitting_distinct:
  assumes "list_all2 (asset_fits i) (mode_kinds mode) assets"
  shows "distinct assets" "assets \<noteq> []" "length assets \<le> 2"
  using assms by (auto simp: mode_kinds_def list_all2_Cons1 asset_fits_def Let_def split: if_splits)

lemma compatible_self:
  assumes "list_all2 (asset_fits i) (mode_kinds mode) assets"
  shows "plan_assets assets i (mode_kinds mode) = Inr assets"
  using assms
  by (auto simp: mode_kinds_def list_all2_Cons1 compatibleAssets_def asset_fits_def Let_def split: if_splits)

lemma plan_read_back:
  assumes "BuildPlan lib m i channel = Inr p"
  shows "ValidatePlan lib p = None"
proof -
  obtain current target assets where b: "Manifest_Validate (ul_url lib) m = None" "Inventory_Validate i = None"
      "ParseVersion (iv_DisplayVersion i) = Inr current"
      "ParseVersion (mf_Release m) = Inr target" "target_problem target current channel = None" "Inventory_Mode i = Inr (pl_InstallMode p)"
      "plan_assets (mf_Assets m) i (mode_kinds (pl_InstallMode p)) = Inr assets" "plan_of lib m i (pl_InstallMode p) assets = Inr p"
    by (rule BuildPlan_Inr [OF assms])
  note fit = plan_assets_fit [OF b(7)] and p = plan_of_Inr [OF b(8)]
  let ?m = "\<lparr>mf_SchemaVersion = 1, mf_Release = mf_Release m, mf_Channel = Version_Channel target,
     mf_SourceCommit = mf_SourceCommit m, mf_Assets = assets\<rparr>"
  have sound: "assets_sound (ul_url lib) target (mf_Assets m)" using b(1,4) by (auto simp: Manifest_Validate_exact)
  have "assets_sound (ul_url lib) target assets"
    by (rule assets_sound_sub [OF sound]) (use fit fitting_distinct in auto)
  then have "Manifest_Validate (ul_url lib) ?m = None"
    using b(1,4) fit fitting_distinct [of i "pl_InstallMode p" assets] by (auto simp: Manifest_Validate_exact MaxAssets_def)
  moreover have "target_problem target current ''rc'' = None"
    using b(5) by (auto simp: target_problem_def ChannelStable_def ChannelRC_def Let_def split: if_splits)
  moreover have "plan_of lib ?m i (pl_InstallMode p) assets = Inr p"
    using b(8) by (simp add: plan_of_def)
  ultimately have "BuildPlan lib ?m i ''rc'' = Inr p"
    using b(2,3,4,6) compatible_self [of i "pl_InstallMode p" assets] fit by (simp add: BuildPlan_def)
  then show ?thesis using b(4) p by (simp add: ValidatePlan_def)
qed

text \<open>
  A plan that was built is accepted when it is read back: rebuilding it from nothing but itself gives the
  same plan, whatever else the manifest held. So the plan that is saved, the one the user confirms and the one
  in the journal of the installation are one, and a changed byte in any of its fields is noticed.
\<close>
theorem built_plan_validates:
  assumes "BuildPlan lib m i channel = Inr p"
  shows "ValidatePlan lib p = None"
  by (rule plan_read_back [OF assms])

subsection \<open>Offered updates\<close>

lemma recovery_assets_exact:
  "recovery_assets assets i kinds = Inr chosen \<Longrightarrow>
     list_all2 (asset_fits i) kinds chosen \<and> (\<forall>a\<in>set chosen. as_PackageVersion a = package_version i (PackageName a))"
proof (induction kinds arbitrary: chosen)
  case (Cons kind kinds)
  then obtain a rest where a: "compatibleAssets assets i kind = [a]" "recovery_assets assets i kinds = Inr rest" "chosen = a # rest"
      "as_PackageVersion a = package_version i (PackageName a)"
    by (auto split: list.splits sum.splits if_splits)
  have "a \<in> set (compatibleAssets assets i kind)" using a(1) by simp
  then have "asset_fits i kind a" by (simp add: compatibleAssets_def)
  with Cons.IH [OF a(2)] a show ?case by simp
qed simp

definition asset_versions :: "Asset list \<Rightarrow> string gomap" where
  "asset_versions assets = map (\<lambda>a. (PackageName a, as_PackageVersion a)) assets"

lemma recovery_versions:
  assumes "Inventory_Validate i = None" and "Inventory_Mode i = Inr mode" and "recovery_assets assets i (mode_kinds mode) = Inr chosen"
  shows "map_of (asset_versions chosen) = map_of (iv_Packages i)"
proof
  fix name
  have known: "map_of (iv_Packages i) name = None" if "\<not> known_package name"
    using assms(1) that by (fastforce simp: Inventory_Validate_def list_all_iff map_of_eq_None_iff split: option.splits sum.splits if_splits)
  note r = recovery_assets_exact [OF assms(3)]
  note m = Inventory_Mode_kinds [OF assms(2)]
  have "known_package name \<or> map_of (iv_Packages i) name = None" by (cases "known_package name") (use known in auto)
  then show "map_of (asset_versions chosen) name = map_of (iv_Packages i) name"
    using m r unfolding known_package_def
    by (auto simp: mode_kinds_def list_all2_Cons1 asset_versions_def asset_fits_def PackageName_def has_package_def package_version_def
      Let_def)
qed

lemma try_candidates_plan:
  "try_candidates lib source i channel n rejected vs = Inr (Some p, r, k) \<Longrightarrow>
     \<exists>v m j. v \<in> set vs \<and> rs_Manifest source j v = Inr m \<and> BuildPlan lib m i channel = Inr p"
  by (induction vs arbitrary: n rejected) (fastforce split: sum.splits if_splits)+

text \<open>
  C36: An update is offered only when it can be taken back: its plan comes from the manifest of a listed release
  and is accepted when read back, and the recovery packages kept with it are, name by name and version by
  version, exactly the packages installed now.
\<close>
theorem offered_update_recoverable:
  assumes "Update_Check lib source i channel = (Some c, result, err)"
  shows "cr_UpdateAvailable result \<and> cr_PlanID result = pl_ID (uc_Plan c) \<and> pl_Inventory (uc_Plan c) = i \<and>
    ValidatePlan lib (uc_Plan c) = None \<and> mf_Release (uc_Recovery c) = iv_DisplayVersion i \<and>
    map_of (asset_versions (mf_Assets (uc_Recovery c))) = map_of (iv_Packages i)"
proof -
  obtain current versions p rejected n where u: "Inventory_Validate i = None" "ParseVersion (iv_DisplayVersion i) = Inr current"
      "try_candidates lib source i channel 0 None versions = Inr (Some p, rejected, n)" "check_recovery lib source i current p n = Inr c"
      "cr_UpdateAvailable result" "cr_PlanID result = pl_ID p"
    using assms by (auto simp: Update_Check_def found_update_def Let_def split: option.splits sum.splits if_splits)
  obtain m where m: "BuildPlan lib m i channel = Inr p" using try_candidates_plan [OF u(3)] by blast
  obtain recovery assets where r: "RecoveryAssets lib recovery i = Inr assets" "uc_Plan c = p"
      "uc_Recovery c = recovery\<lparr>mf_Assets := assets\<rparr>"
    using u(4) by (auto simp: check_recovery_def split: sum.splits)
  then obtain mode where "Inventory_Mode i = Inr mode" "recovery_assets (mf_Assets recovery) i (mode_kinds mode) = Inr assets"
      "mf_Release recovery = iv_DisplayVersion i"
    by (auto simp: RecoveryAssets_def split: option.splits sum.splits if_splits)
  with recovery_versions [OF u(1)] r(2,3) u(5,6) plan_read_back [OF m] plan_moves_forward [OF m] show ?thesis by auto
qed

end
