(* ===== verification/Update_Worker.thy ===== *)
theory Update_Worker
  imports Update_Release "HOL-Library.State_Monad"
begin

text \<open>
  The state of an update's own process and its preparation: \<open>update/store.go\<close> (\<open>Task\<close>, \<open>Status\<close>, \<open>ReadTask\<close>,
  \<open>Guard\<close>, \<open>ReadStatus\<close>) and \<open>update/worker.go\<close> (\<open>prepare\<close>, \<open>backupConfig\<close>, \<open>progress\<close>, \<open>fail\<close>). The journal file decides whether an
  update is pending; it is part of the worker's \<open>UWorld\<close>, with the log of the run. The outside (the package
  manager, the service, the network, the file system) is the record \<open>UEnv\<close>, whose \<open>n\<close>-th use is answered at
  \<open>n\<close>; a write may be refused, or be visible although it reports an error. Texts of messages are left out.
\<close>

record LocalPackage =
  pk_Asset :: Asset
  pk_Path :: string

record Task =
  tk_SchemaVersion :: int
  tk_JobID :: string
  tk_Plan :: Plan
  tk_Recovery :: Manifest
  tk_Phase :: string
  tk_Created :: bool
  tk_WasRunning :: bool
  tk_RecoveryReady :: bool
  tk_InstallStarted :: bool
  tk_Recover :: bool
  tk_Local :: bool

record UStatus =
  us_JobID :: string
  us_Running :: bool
  us_OK :: bool
  us_Phase :: string
  us_Code :: "ErrorCode option"
  us_CurrentVersion :: string
  us_LatestVersion :: string
  us_InstallMode :: string
  us_PackageFormat :: string
  us_Installed :: "string gomap"
  us_RecoveryDirectory :: string
  us_ConfigBackup :: string

datatype WriteEnd = WriteDone | WriteRefused | WriteUnsynced
datatype FileState = FileThere | FileMissing | FileError

datatype UEvent =
    UJournal Task bool
  | UStatusWritten UStatus bool
  | UReceipt bool
  | UDownload LocalPackage "cause option"
  | UVerify LocalPackage "cause option"
  | UBackup string "cause option"
  | UPrecheck "LocalPackage list" "cause option"
  | UStop "cause option"
  | UStart "cause option"
  | UHealth string "cause option"
  | UInstall "LocalPackage list" "cause option"
  | URecover "LocalPackage list" "cause option"
  | UVersions "cause + string gomap"
  | UIntent "cause + string \<times> bool"
  | URemove bool
  | UDropFiles string
  | UIntentWritten string bool

record UWorld =
  uw_n :: nat
  uw_journal :: "Task option"
  uw_status :: "UStatus option"
  uw_log :: "UEvent list"

record UEnv =
  ue_runtime :: string
  ue_config :: string
  ue_lib :: UpdateLib
  ue_lock :: "nat \<Rightarrow> cause option"
  ue_readable :: "nat \<Rightarrow> bool"
  ue_write :: "nat \<Rightarrow> WriteEnd"
  ue_inventory :: "nat \<Rightarrow> string \<Rightarrow> cause + Inventory"
  ue_space :: "nat \<Rightarrow> bool \<Rightarrow> Task \<Rightarrow> cause option"
  ue_directory :: "nat \<Rightarrow> string \<Rightarrow> cause option"
  ue_lstat :: "nat \<Rightarrow> string \<Rightarrow> FileState"
  ue_download :: "nat \<Rightarrow> LocalPackage \<Rightarrow> cause option"
  ue_verify :: "nat \<Rightarrow> LocalPackage \<Rightarrow> cause option"
  ue_backup :: "nat \<Rightarrow> string \<Rightarrow> cause option"
  ue_precheck :: "nat \<Rightarrow> LocalPackage list \<Rightarrow> cause option"
  ue_ctx :: "nat \<Rightarrow> bool"
  ue_stop :: "nat \<Rightarrow> cause option"
  ue_start :: "nat \<Rightarrow> cause option"
  ue_health :: "nat \<Rightarrow> string \<Rightarrow> cause option"
  ue_install :: "nat \<Rightarrow> LocalPackage list \<Rightarrow> cause option"
  ue_recover :: "nat \<Rightarrow> LocalPackage list \<Rightarrow> cause option"
  ue_versions :: "nat \<Rightarrow> cause + string gomap"
  ue_intent :: "nat \<Rightarrow> cause + string \<times> bool"
  ue_prune :: "nat \<Rightarrow> cause option"
  ue_cleanup :: "nat \<Rightarrow> cause option"
  ue_held :: "nat \<Rightarrow> cause + bool"
  ue_expired :: "nat \<Rightarrow> Task \<Rightarrow> bool"
  ue_id :: "nat \<Rightarrow> string"
  ue_copy :: "nat \<Rightarrow> cause option"
  ue_stage :: "nat \<Rightarrow> Task \<Rightarrow> cause option"
  ue_launch :: "nat \<Rightarrow> cause option"

definition ask :: "(nat \<Rightarrow> 'a) \<Rightarrow> ('a \<Rightarrow> UEvent list) \<Rightarrow> (UWorld, 'a) state" where
  "ask f ev = State (\<lambda>w. let a = f (uw_n w) in (a, w\<lparr>uw_n := Suc (uw_n w), uw_log := uw_log w @ ev a\<rparr>))"

definition storage :: cause where "storage = problem CodeRecoveryRequired"

subsection \<open>The files\<close>

text \<open>\<open>writePrivate\<close>: the new content appears with the rename; the directory is synced after it.\<close>

definition write_journal :: "UEnv \<Rightarrow> Task \<Rightarrow> (UWorld, cause option) state" where
  "write_journal env task = do {
     written \<leftarrow> ask (ue_write env) (\<lambda>e. [UJournal task (e \<noteq> WriteRefused)]);
     State (\<lambda>w. (if written = WriteDone then None else Some storage,
       if written = WriteRefused then w else w\<lparr>uw_journal := Some task\<rparr>))
   }"

definition write_status :: "UEnv \<Rightarrow> UStatus \<Rightarrow> (UWorld, cause option) state" where
  "write_status env status = do {
     written \<leftarrow> ask (ue_write env) (\<lambda>e. [UStatusWritten status (e \<noteq> WriteRefused)]);
     State (\<lambda>w. (if written = WriteDone then None else Some storage,
       if written = WriteRefused then w else w\<lparr>uw_status := Some status\<rparr>))
   }"

definition write_receipt :: "UEnv \<Rightarrow> (UWorld, cause option) state" where
  "write_receipt env = do {
     written \<leftarrow> ask (ue_write env) (\<lambda>e. [UReceipt (e \<noteq> WriteRefused)]);
     State_Monad.return (if written = WriteDone then None else Some storage)
   }"

text \<open>The wanted state of the service is only recorded here; the worker reads it again at its end.\<close>

definition write_intent :: "UEnv \<Rightarrow> string \<Rightarrow> (UWorld, cause option) state" where
  "write_intent env job = do {
     written \<leftarrow> ask (ue_write env) (\<lambda>e. [UIntentWritten job (e \<noteq> WriteRefused)]);
     State_Monad.return (if written = WriteDone then None else Some storage)
   }"

text \<open>\<open>os.Remove\<close> of the journal, then the sync of its directory.\<close>

definition remove_journal :: "UEnv \<Rightarrow> (UWorld, cause option) state" where
  "remove_journal env = do {
     removed \<leftarrow> ask (ue_write env) (\<lambda>e. [URemove (e \<noteq> WriteRefused)]);
     State (\<lambda>w. (if removed = WriteDone then None else Some storage,
       if removed = WriteRefused then w else w\<lparr>uw_journal := None\<rparr>))
   }"

definition task_phases :: "string list" where
  "task_phases = [''queued'', ''preparing'', ''installing'', ''verifying'', ''recovery_required'', ''recovering'']"

definition validID :: "string \<Rightarrow> bool" where
  "validID i \<longleftrightarrow> length i = 32 \<and> list_all lower_hex i"

definition task_valid :: "UpdateLib \<Rightarrow> Task \<Rightarrow> bool" where
  "task_valid lib task \<longleftrightarrow> tk_SchemaVersion task = 1 \<and> validID (tk_JobID task) \<and> tk_Created task \<and>
     ValidatePlan lib (tk_Plan task) = None \<and>
     (case RecoveryAssets lib (tk_Recovery task) (pl_Inventory (tk_Plan task)) of Inl _ \<Rightarrow> False | Inr _ \<Rightarrow> True) \<and>
     tk_Phase task \<in> set task_phases"

datatype TaskRead = TaskAbsent | TaskDamaged | TaskThere Task

definition ReadTask :: "UEnv \<Rightarrow> (UWorld, TaskRead) state" where
  "ReadTask env = do {
     readable \<leftarrow> ask (ue_readable env) (\<lambda>_. []);
     State (\<lambda>w. (case uw_journal w of
         None \<Rightarrow> TaskAbsent
       | Some task \<Rightarrow> if readable \<and> task_valid (ue_lib env) task then TaskThere task else TaskDamaged, w))
   }"

definition Guard :: "UEnv \<Rightarrow> (UWorld, cause option) state" where
  "Guard env = do {
     read \<leftarrow> ReadTask env;
     State_Monad.return (case read of TaskAbsent \<Rightarrow> None | TaskDamaged \<Rightarrow> Some storage | TaskThere _ \<Rightarrow> Some (problem CodeBusy))
   }"

definition Temporary :: "UEnv \<Rightarrow> string \<Rightarrow> string" where "Temporary env i = ue_runtime env @ ''/update-'' @ i"
definition Backup_dir :: "UEnv \<Rightarrow> string \<Rightarrow> string" where "Backup_dir env i = ue_config env @ ''/recovery/update-'' @ i"

definition packageFiles :: "string \<Rightarrow> Asset list \<Rightarrow> LocalPackage list" where
  "packageFiles directory assets =
     map (\<lambda>a. \<lparr>pk_Asset = a, pk_Path = directory @ ''/'' @ as_ID a @ ''.'' @ as_Format a\<rparr>) assets"

definition new_files :: "UEnv \<Rightarrow> Task \<Rightarrow> LocalPackage list" where
  "new_files env task = packageFiles (Temporary env (tk_JobID task)) (pl_Assets (tk_Plan task))"

definition old_files :: "UEnv \<Rightarrow> Task \<Rightarrow> LocalPackage list" where
  "old_files env task = packageFiles (Backup_dir env (tk_JobID task)) (mf_Assets (tk_Recovery task))"

subsection \<open>Progress and failure\<close>

definition taskStatus :: "Task \<Rightarrow> string \<Rightarrow> UStatus" where
  "taskStatus task phase = \<lparr>us_JobID = tk_JobID task, us_Running = True, us_OK = False, us_Phase = phase, us_Code = None,
     us_CurrentVersion = iv_DisplayVersion (pl_Inventory (tk_Plan task)), us_LatestVersion = pl_Release (tk_Plan task),
     us_InstallMode = pl_InstallMode (tk_Plan task),
     us_PackageFormat = (case pl_Assets (tk_Plan task) of [] \<Rightarrow> [] | a # _ \<Rightarrow> as_Format a),
     us_Installed = [], us_RecoveryDirectory = [], us_ConfigBackup = []\<rparr>"

definition idle_status :: UStatus where
  "idle_status = \<lparr>us_JobID = [], us_Running = False, us_OK = True, us_Phase = ''idle'', us_Code = None, us_CurrentVersion = [],
     us_LatestVersion = [], us_InstallMode = [], us_PackageFormat = [], us_Installed = [], us_RecoveryDirectory = [], us_ConfigBackup = []\<rparr>"

definition stopped_status :: "UStatus \<Rightarrow> UStatus" where
  "stopped_status status = status\<lparr>us_Running := False, us_OK := False, us_Phase := ''recovery_required'', us_Code := Some CodeRecoveryRequired\<rparr>"

text \<open>The status of a pending task: a task whose worker is gone is reported as one to recover.\<close>

definition task_status :: "UEnv \<Rightarrow> UStatus \<Rightarrow> Task \<Rightarrow> (UWorld, cause + UStatus) state" where
  "task_status env status task =
     (let status = (if us_JobID status \<noteq> tk_JobID task then taskStatus task ''queued'' else status) in do {
        held \<leftarrow> ask (ue_held env) (\<lambda>_. []);
        expired \<leftarrow> ask (\<lambda>n. ue_expired env n task) (\<lambda>_. []);
        State_Monad.return (case held of
            Inl err \<Rightarrow> Inl err
          | Inr held \<Rightarrow> Inr (if \<not> held \<and> expired then stopped_status status else status))
      })"

definition ReadStatus :: "UEnv \<Rightarrow> (UWorld, cause + UStatus) state" where
  "ReadStatus env = do {
     readable \<leftarrow> ask (ue_readable env) (\<lambda>_. []);
     found \<leftarrow> State (\<lambda>w. (uw_status w, w));
     read \<leftarrow> ReadTask env;
     (let status = (case found of None \<Rightarrow> idle_status | Some status \<Rightarrow> status) in
      if (found \<noteq> None \<and> \<not> readable) \<or> read = TaskDamaged \<or> (us_JobID status \<noteq> [] \<and> \<not> validID (us_JobID status))
      then State_Monad.return (Inl storage)
      else case read of TaskThere task \<Rightarrow> task_status env status task | _ \<Rightarrow> State_Monad.return (Inr status))
   }"

definition progress :: "UEnv \<Rightarrow> Task \<Rightarrow> string \<Rightarrow> (UWorld, Task \<times> cause option) state" where
  "progress env task phase =
     (let task = task\<lparr>tk_Phase := phase\<rparr> in do {
        e \<leftarrow> write_journal env task;
        (case e of
           Some err \<Rightarrow> State_Monad.return (task, Some err)
         | None \<Rightarrow> do {
             e \<leftarrow> write_status env (taskStatus task phase);
             State_Monad.return (task, e)
           })
      })"

definition status_code :: "cause \<Rightarrow> ErrorCode" where
  "status_code c = (case CodeOf c of None \<Rightarrow> CodeInternal | Some code \<Rightarrow> code)"

definition installed_versions :: "UEnv \<Rightarrow> (UWorld, cause + string gomap) state" where
  "installed_versions env = ask (ue_versions env) (\<lambda>r. [UVersions r])"

definition fail_task :: "UEnv \<Rightarrow> Task \<Rightarrow> cause \<Rightarrow> (UWorld, cause option) state" where
  "fail_task env task c =
     (let task = task\<lparr>tk_Phase := ''recovery_required''\<rparr> in do {
        versions \<leftarrow> installed_versions env;
        let status = (taskStatus task (tk_Phase task))\<lparr>us_Running := False, us_OK := False, us_Code := Some (status_code c),
              us_RecoveryDirectory := Backup_dir env (tk_JobID task),
              us_ConfigBackup := (if tk_RecoveryReady task then Backup_dir env (tk_JobID task) else []),
              us_Installed := (case versions of Inl _ \<Rightarrow> [] | Inr v \<Rightarrow> v)\<rparr>;
        e \<leftarrow> write_journal env task;
        (case e of
           Some err \<Rightarrow> State_Monad.return (Some err)
         | None \<Rightarrow> do {
             e \<leftarrow> write_status env status;
             State_Monad.return (case e of Some err \<Rightarrow> Some err | None \<Rightarrow> Some c)
           })
      })"

text \<open>One step whose failure fails the task.\<close>

definition or_fail :: "UEnv \<Rightarrow> Task \<Rightarrow> (UWorld, cause option) state \<Rightarrow> (UWorld, cause option) state \<Rightarrow> (UWorld, cause option) state" where
  "or_fail env task step next_step = do {
     e \<leftarrow> step;
     (case e of Some err \<Rightarrow> fail_task env task err | None \<Rightarrow> next_step)
   }"

subsection \<open>Preparation\<close>

definition verify_file :: "UEnv \<Rightarrow> LocalPackage \<Rightarrow> (UWorld, cause option) state" where
  "verify_file env file = ask (\<lambda>n. ue_verify env n file) (\<lambda>r. [UVerify file r])"

definition fetch_file :: "UEnv \<Rightarrow> Task \<Rightarrow> LocalPackage \<Rightarrow> (UWorld, cause option) state" where
  "fetch_file env task file = do {
     state \<leftarrow> ask (\<lambda>n. ue_lstat env n (pk_Path file)) (\<lambda>_. []);
     (case state of
        FileThere \<Rightarrow> State_Monad.return None
      | FileError \<Rightarrow> State_Monad.return (Some storage)
      | FileMissing \<Rightarrow>
          if tk_Local task then State_Monad.return (Some (Problem incompatible))
          else ask (\<lambda>n. ue_download env n file) (\<lambda>r. [UDownload file r]))
   }"

primrec prepare_files :: "UEnv \<Rightarrow> Task \<Rightarrow> LocalPackage list \<Rightarrow> (UWorld, cause option) state" where
  "prepare_files env task [] = State_Monad.return None"
| "prepare_files env task (file # files) = do {
     e \<leftarrow> fetch_file env task file;
     (case e of
        Some err \<Rightarrow> State_Monad.return (Some err)
      | None \<Rightarrow> do {
          e \<leftarrow> verify_file env file;
          (case e of Some err \<Rightarrow> State_Monad.return (Some err) | None \<Rightarrow> prepare_files env task files)
        })
   }"

primrec backup_files :: "UEnv \<Rightarrow> string list \<Rightarrow> (UWorld, cause option) state" where
  "backup_files env [] = State_Monad.return None"
| "backup_files env (name # names) = do {
     e \<leftarrow> ask (\<lambda>n. ue_backup env n name) (\<lambda>r. [UBackup name r]);
     (case e of Some err \<Rightarrow> State_Monad.return (Some err) | None \<Rightarrow> backup_files env names)
   }"

definition backupConfig :: "UEnv \<Rightarrow> (UWorld, cause option) state" where
  "backupConfig env = backup_files env [''config.json'', ''user-presets.json'']"

text \<open>The task as \<open>prepare\<close> leaves it, and its error.\<close>

definition mark_ready :: "UEnv \<Rightarrow> Task \<Rightarrow> (UWorld, Task \<times> cause option) state" where
  "mark_ready env task =
     (let task = task\<lparr>tk_RecoveryReady := True\<rparr> in do {
        e \<leftarrow> write_journal env task;
        (case e of
           Some err \<Rightarrow> State_Monad.return (task, Some err)
         | None \<Rightarrow> do {
             e \<leftarrow> ask (\<lambda>n. ue_precheck env n (new_files env task)) (\<lambda>r. [UPrecheck (new_files env task) r]);
             State_Monad.return (task, e)
           })
      })"

definition prepare_directories :: "UEnv \<Rightarrow> Task \<Rightarrow> (UWorld, cause option) state" where
  "prepare_directories env task = do {
     inventory \<leftarrow> ask (\<lambda>n. ue_inventory env n (iv_DisplayVersion (pl_Inventory (tk_Plan task)))) (\<lambda>_. []);
     (case inventory of
        Inl err \<Rightarrow> State_Monad.return (Some err)
      | Inr i \<Rightarrow>
          if i \<noteq> pl_Inventory (tk_Plan task) then State_Monad.return (Some (problem CodeConflict))
          else do {
            e \<leftarrow> ask (\<lambda>n. ue_space env n True task) (\<lambda>_. []);
            (case e of
               Some err \<Rightarrow> State_Monad.return (Some err)
             | None \<Rightarrow> ask (\<lambda>n. ue_directory env n (Temporary env (tk_JobID task))) (\<lambda>_. []))
          })
   }"

definition prepare_update :: "UEnv \<Rightarrow> Task \<Rightarrow> (UWorld, Task \<times> cause option) state" where
  "prepare_update env task = do {
     e \<leftarrow> prepare_directories env task;
     (case e of
        Some err \<Rightarrow> State_Monad.return (task, Some err)
      | None \<Rightarrow> do {
          e \<leftarrow> prepare_files env task (old_files env task @ new_files env task);
          (case e of
             Some err \<Rightarrow> State_Monad.return (task, Some err)
           | None \<Rightarrow> do {
               e \<leftarrow> backupConfig env;
               (case e of
                  Some err \<Rightarrow> State_Monad.return (task, Some err)
                | None \<Rightarrow> do {
                    e \<leftarrow> ask (\<lambda>n. ue_directory env n (Backup_dir env (tk_JobID task))) (\<lambda>_. []);
                    (case e of Some err \<Rightarrow> State_Monad.return (task, Some err) | None \<Rightarrow> mark_ready env task)
                  })
             })
        })
   }"

end
