(* ===== verification/Update_Run.thy ===== *)
theory Update_Run
  imports Update_Worker
begin

text \<open>
  The life of an update: \<open>Begin\<close> and \<open>QueueRecovery\<close>, which put a task into the journal, and the worker's \<open>Run\<close>
  with \<open>recover\<close> and \<open>finish\<close>, which carry it out (\<open>update/worker.go\<close>), and \<open>cleanupCompletedWorker\<close>
  (\<open>update/retention.go\<close>).
\<close>

subsection \<open>The end of a task\<close>

text \<open>The map the loop fills; of two assets of one package the later one counts.\<close>

definition expected_versions :: "Asset list \<Rightarrow> string gomap" where
  "expected_versions assets = rev (map (\<lambda>a. (PackageName a, as_PackageVersion a)) assets)"

definition maps_Equal :: "string gomap \<Rightarrow> string gomap \<Rightarrow> bool" where
  "maps_Equal m m' \<longleftrightarrow> list_all (\<lambda>k. map_of m k = map_of m' k) (map fst m @ map fst m')"

definition stop_service :: "UEnv \<Rightarrow> (UWorld, cause option) state" where
  "stop_service env = ask (ue_stop env) (\<lambda>r. [UStop r])"

definition start_service :: "UEnv \<Rightarrow> (UWorld, cause option) state" where
  "start_service env = ask (ue_start env) (\<lambda>r. [UStart r])"

definition health_check :: "UEnv \<Rightarrow> string \<Rightarrow> (UWorld, cause option) state" where
  "health_check env version = ask (\<lambda>n. ue_health env n version) (\<lambda>r. [UHealth version r])"

definition final_status :: "UEnv \<Rightarrow> Task \<Rightarrow> string \<Rightarrow> string gomap \<Rightarrow> UStatus" where
  "final_status env task phase versions = (taskStatus task phase)\<lparr>us_Running := False, us_OK := True, us_Installed := versions,
     us_RecoveryDirectory := Backup_dir env (tk_JobID task),
     us_ConfigBackup := (if tk_RecoveryReady task then Backup_dir env (tk_JobID task) else [])\<rparr>"

text \<open>From the final status on: the receipt, the journal, the old files.\<close>

definition close_task :: "UEnv \<Rightarrow> Task \<Rightarrow> UStatus \<Rightarrow> (UWorld, cause option) state" where
  "close_task env task status = do {
     e \<leftarrow> write_status env status;
     (case e of
        Some err \<Rightarrow> State_Monad.return (Some err)
      | None \<Rightarrow> or_fail env task (write_receipt env) (do {
          e \<leftarrow> remove_journal env;
          (case e of
             Some err \<Rightarrow> State_Monad.return (Some err)
           | None \<Rightarrow> do {
               e \<leftarrow> ask (ue_prune env) (\<lambda>_. []);
               (case e of None \<Rightarrow> State_Monad.return None | Some _ \<Rightarrow> write_status env status)
             })
        }))
   }"

text \<open>The service is left as it was wanted last.\<close>

definition restore_intent :: "UEnv \<Rightarrow> Task \<Rightarrow> (UWorld, cause option) state \<Rightarrow> (UWorld, cause option) state" where
  "restore_intent env task next_step = do {
     e \<leftarrow> ask (ue_lock env) (\<lambda>_. []);
     (case e of
        Some err \<Rightarrow> fail_task env task err
      | None \<Rightarrow> do {
          intent \<leftarrow> ask (ue_intent env) (\<lambda>r. [UIntent r]);
          (case intent of
             Inl err \<Rightarrow> fail_task env task storage
           | Inr (job, running) \<Rightarrow>
               if job \<noteq> tk_JobID task then fail_task env task storage
               else if running then next_step
               else or_fail env task (stop_service env) next_step)
        })
   }"

definition finish :: "UEnv \<Rightarrow> Task \<Rightarrow> string \<Rightarrow> Asset list \<Rightarrow> string \<Rightarrow> (UWorld, cause option) state" where
  "finish env task version assets phase = do {
     (task, e) \<leftarrow> progress env task ''verifying'';
     (case e of
        Some err \<Rightarrow> State_Monad.return (Some err)
      | None \<Rightarrow> do {
          versions \<leftarrow> installed_versions env;
          (case versions of
             Inl _ \<Rightarrow> fail_task env task (problem CodeInstallFailed)
           | Inr versions \<Rightarrow>
               if \<not> maps_Equal versions (expected_versions assets) then fail_task env task (problem CodeInstallFailed)
               else or_fail env task (start_service env)
                 (or_fail env task (health_check env version)
                   (restore_intent env task (close_task env task (final_status env task phase versions)))))
        })
   }"

subsection \<open>The worker\<close>

primrec verify_files :: "UEnv \<Rightarrow> LocalPackage list \<Rightarrow> (UWorld, cause option) state" where
  "verify_files env [] = State_Monad.return None"
| "verify_files env (file # files) = do {
     e \<leftarrow> verify_file env file;
     (case e of Some err \<Rightarrow> State_Monad.return (Some err) | None \<Rightarrow> verify_files env files)
   }"

definition install_packages :: "UEnv \<Rightarrow> LocalPackage list \<Rightarrow> (UWorld, cause option) state" where
  "install_packages env files = ask (\<lambda>n. ue_install env n files) (\<lambda>r. [UInstall files r])"

definition recover_packages :: "UEnv \<Rightarrow> LocalPackage list \<Rightarrow> (UWorld, cause option) state" where
  "recover_packages env files = ask (\<lambda>n. ue_recover env n files) (\<lambda>r. [URecover files r])"

definition recover_task :: "UEnv \<Rightarrow> Task \<Rightarrow> (UWorld, cause option) state" where
  "recover_task env task =
     (let version = iv_DisplayVersion (pl_Inventory (tk_Plan task)); assets = mf_Assets (tk_Recovery task) in
      if \<not> tk_InstallStarted task then finish env task version assets ''cancelled''
      else if \<not> tk_RecoveryReady task then fail_task env task (problem CodeRecoveryRequired)
      else do {
        (task, e) \<leftarrow> progress env task ''recovering'';
        (case e of
           Some err \<Rightarrow> State_Monad.return (Some err)
         | None \<Rightarrow>
             or_fail env task (verify_files env (old_files env task))
               (or_fail env task (stop_service env)
                 (or_fail env task (recover_packages env (old_files env task))
                   (finish env task version assets ''recovered''))))
      })"

text \<open>Past the durable boundary: the service is stopped, every file is verified again, then installed.\<close>

definition install_task :: "UEnv \<Rightarrow> Task \<Rightarrow> (UWorld, cause option) state" where
  "install_task env task = do {
     (task, e) \<leftarrow> progress env (task\<lparr>tk_InstallStarted := True\<rparr>) ''installing'';
     (case e of
        Some err \<Rightarrow> State_Monad.return (Some err)
      | None \<Rightarrow>
          or_fail env task (stop_service env)
            (or_fail env task (verify_files env (new_files env task))
              (or_fail env task (install_packages env (new_files env task))
                (finish env task (pl_Release (tk_Plan task)) (pl_Assets (tk_Plan task)) ''completed''))))
   }"

definition run_task :: "UEnv \<Rightarrow> Task \<Rightarrow> (UWorld, cause option) state" where
  "run_task env task =
     (if tk_Phase task \<noteq> ''queued'' then fail_task env task (problem CodeRecoveryRequired)
      else if tk_Recover task then recover_task env task
      else do {
        (task, e) \<leftarrow> progress env task ''preparing'';
        (case e of
           Some err \<Rightarrow> State_Monad.return (Some err)
         | None \<Rightarrow> do {
             (task, e) \<leftarrow> prepare_update env task;
             (case e of
                Some err \<Rightarrow> fail_task env task err
              | None \<Rightarrow> do {
                  cancelled \<leftarrow> ask (ue_ctx env) (\<lambda>_. []);
                  if cancelled then fail_task env task (problem CodeCancelled) else install_task env task
                })
           })
      })"

definition cleanupCompletedWorker :: "UEnv \<Rightarrow> (UWorld, cause option) state" where
  "cleanupCompletedWorker env = do {
     e \<leftarrow> Guard env;
     (case e of Some err \<Rightarrow> State_Monad.return (Some err) | None \<Rightarrow> ask (ue_cleanup env) (\<lambda>_. []))
   }"

text \<open>What \<open>Run\<close> does when its task ended well; it cannot change that result.\<close>

definition drop_worker :: "UEnv \<Rightarrow> (UWorld, unit) state" where
  "drop_worker env = do {
     e \<leftarrow> cleanupCompletedWorker env;
     (case e of
        None \<Rightarrow> State_Monad.return ()
      | Some _ \<Rightarrow> do {
          status \<leftarrow> ReadStatus env;
          (case status of
             Inl _ \<Rightarrow> State_Monad.return ()
           | Inr status \<Rightarrow> do { _ \<leftarrow> write_status env status; State_Monad.return () })
        })
   }"

definition Run_body :: "UEnv \<Rightarrow> (UWorld, cause option) state" where
  "Run_body env = do {
     read \<leftarrow> ReadTask env;
     (case read of TaskThere task \<Rightarrow> run_task env task | _ \<Rightarrow> State_Monad.return (Some storage))
   }"

definition Run :: "UEnv \<Rightarrow> (UWorld, cause option) state" where
  "Run env = do {
     e \<leftarrow> ask (ue_lock env) (\<lambda>_. []);
     (case e of
        Some err \<Rightarrow> State_Monad.return (Some err)
      | None \<Rightarrow> do {
          result \<leftarrow> Run_body env;
          (if result = None then do { _ \<leftarrow> drop_worker env; State_Monad.return result } else State_Monad.return result)
        })
   }"

subsection \<open>Starting a task\<close>

text \<open>\<open>os.Lstat\<close> of the old worker, which is dropped when it is there.\<close>

definition drop_stale :: "UEnv \<Rightarrow> (UWorld, cause option) state" where
  "drop_stale env = do {
     found \<leftarrow> ask (\<lambda>n. ue_lstat env n (ue_runtime env @ ''/update-worker'')) (\<lambda>_. []);
     (case found of
        FileThere \<Rightarrow> cleanupCompletedWorker env
      | FileMissing \<Rightarrow> State_Monad.return None
      | FileError \<Rightarrow> State_Monad.return (Some storage))
   }"

text \<open>One step of a function that returns its first error.\<close>

definition or_return :: "(UWorld, cause option) state \<Rightarrow> (UWorld, cause option) state \<Rightarrow> (UWorld, cause option) state" where
  "or_return step next_step = do {
     e \<leftarrow> step;
     (case e of Some err \<Rightarrow> State_Monad.return (Some err) | None \<Rightarrow> next_step)
   }"

definition begin_allowed :: "UEnv \<Rightarrow> UpdateCandidate \<Rightarrow> (UWorld, cause option) state" where
  "begin_allowed env candidate =
     or_return (Guard env) (do {
       held \<leftarrow> ask (ue_held env) (\<lambda>_. []);
       (case (held, ValidatePlan (ue_lib env) (uc_Plan candidate),
              RecoveryAssets (ue_lib env) (uc_Recovery candidate) (pl_Inventory (uc_Plan candidate))) of
          (Inr False, None, Inr _) \<Rightarrow> do {
            status \<leftarrow> ReadStatus env;
            (case status of
               Inl err \<Rightarrow> State_Monad.return (Some err)
             | Inr _ \<Rightarrow> or_return (ask (ue_prune env) (\<lambda>_. [])) (drop_stale env))
          }
        | (Inr False, Some e, _) \<Rightarrow> State_Monad.return (Some (Problem e))
        | (Inr False, None, Inl e) \<Rightarrow> State_Monad.return (Some (Problem e))
        | _ \<Rightarrow> State_Monad.return (Some (problem CodeBusy)))
     })"

definition new_task :: "UpdateCandidate \<Rightarrow> Asset list \<Rightarrow> string \<Rightarrow> bool \<Rightarrow> Task" where
  "new_task candidate recovery job running = \<lparr>tk_SchemaVersion = 1, tk_JobID = job, tk_Plan = uc_Plan candidate,
     tk_Recovery = (uc_Recovery candidate)\<lparr>mf_Assets := recovery\<rparr>, tk_Phase = ''queued'', tk_Created = True, tk_WasRunning = running,
     tk_RecoveryReady = False, tk_InstallStarted = False, tk_Recover = False, tk_Local = uc_Local candidate\<rparr>"

definition stage_task :: "UEnv \<Rightarrow> Task \<Rightarrow> (UWorld, cause option) state" where
  "stage_task env task =
     or_return (ask (\<lambda>n. ue_directory env n (ue_runtime env)) (\<lambda>_. []))
     (or_return (ask (\<lambda>n. ue_directory env n (Backup_dir env (tk_JobID task))) (\<lambda>_. []))
     (or_return (ask (\<lambda>n. ue_space env n False task) (\<lambda>_. []))
     (or_return (ask (ue_copy env) (\<lambda>_. []))
     (or_return (if tk_Local task then ask (\<lambda>n. ue_stage env n task) (\<lambda>_. []) else State_Monad.return None)
       (write_intent env (tk_JobID task))))))"

text \<open>The deferred clean-up of a task that failed: its files go, after the journal was written only when none is left.\<close>

definition drop_files :: "Task \<Rightarrow> (UWorld, unit) state" where
  "drop_files task = ask (\<lambda>_. ()) (\<lambda>_. [UDropFiles (tk_JobID task)])"

definition unless_journal :: "Task \<Rightarrow> (UWorld, unit) state" where
  "unless_journal task = do {
     journal \<leftarrow> State (\<lambda>w. (uw_journal w, w));
     (case journal of None \<Rightarrow> drop_files task | Some _ \<Rightarrow> State_Monad.return ())
   }"

text \<open>From the new task on; what fails before the journal is written drops the task's files.\<close>

definition begin_task :: "UEnv \<Rightarrow> Task \<Rightarrow> (UWorld, Task option \<times> cause option) state" where
  "begin_task env task = do {
     e \<leftarrow> stage_task env task;
     (case e of
        Some err \<Rightarrow> do { _ \<leftarrow> drop_files task; State_Monad.return (None, Some err) }
      | None \<Rightarrow> do {
          e \<leftarrow> write_journal env task;
          (case e of
             Some err \<Rightarrow> do { _ \<leftarrow> unless_journal task; State_Monad.return (None, Some err) }
           | None \<Rightarrow> do {
               e \<leftarrow> ask (ue_launch env) (\<lambda>_. []);
               State_Monad.return (Some task, if e = None then None else Some (problem CodeRecoveryRequired))
             })
        })
   }"

definition Begin :: "UEnv \<Rightarrow> UpdateCandidate \<Rightarrow> bool \<Rightarrow> (UWorld, Task option \<times> cause option) state" where
  "Begin env candidate running = do {
     e \<leftarrow> or_return (ask (ue_lock env) (\<lambda>_. [])) (begin_allowed env candidate);
     (case (e, RecoveryAssets (ue_lib env) (uc_Recovery candidate) (pl_Inventory (uc_Plan candidate))) of
        (None, Inr assets) \<Rightarrow> do {
          job \<leftarrow> ask (ue_id env) (\<lambda>_. []);
          begin_task env (new_task candidate assets job running)
        }
      | (Some err, _) \<Rightarrow> State_Monad.return (None, Some err)
      | (None, Inl e) \<Rightarrow> State_Monad.return (None, Some (Problem e)))
   }"

definition QueueRecovery :: "UEnv \<Rightarrow> (UWorld, Task option \<times> cause option) state" where
  "QueueRecovery env = do {
     e \<leftarrow> ask (ue_lock env) (\<lambda>_. []);
     (case e of
        Some err \<Rightarrow> State_Monad.return (None, Some err)
      | None \<Rightarrow> do {
          held \<leftarrow> ask (ue_held env) (\<lambda>_. []);
          (case held of
             Inl err \<Rightarrow> State_Monad.return (None, Some err)
           | Inr True \<Rightarrow> State_Monad.return (None, Some (problem CodeBusy))
           | Inr False \<Rightarrow> do {
               read \<leftarrow> ReadTask env;
               (case read of
                  TaskThere task \<Rightarrow>
                    (let task = task\<lparr>tk_Recover := True, tk_Phase := ''queued''\<rparr> in do {
                       e \<leftarrow> or_return (ask (ue_copy env) (\<lambda>_. []))
                         (or_return (write_journal env task) (write_status env (taskStatus task ''queued'')));
                       (case e of
                          Some err \<Rightarrow> State_Monad.return (None, Some err)
                        | None \<Rightarrow> do {
                            e \<leftarrow> ask (ue_launch env) (\<lambda>_. []);
                            State_Monad.return (Some task, e)
                          })
                     })
                | _ \<Rightarrow> State_Monad.return (None, Some storage))
             })
        })
   }"

end
