(* ===== verification/Update_Protocol.thy ===== *)
theory Update_Protocol
  imports Update_Run
begin

text \<open>
  What the worker of an update may do, as an automaton over the log of its run, and the calculus that shows
  that it follows it. The automaton is the specification: packages change only with verified files on both
  sides and a journal on flash that says so; a task is closed, and success reported, only after the installed
  versions and the service were checked.
\<close>

record Upd =
  ud_job :: "Task option"
  ud_status :: "UStatus option"
  ud_ever :: "LocalPackage list"
  ud_since :: "LocalPackage list"
  ud_backups :: "string list"
  ud_stopped :: bool
  ud_installed :: bool
  ud_versions :: "string gomap option"
  ud_healthy :: "string option"

definition upd_start :: "Task option \<Rightarrow> UStatus option \<Rightarrow> Upd" where
  "upd_start job status = \<lparr>ud_job = job, ud_status = status, ud_ever = [], ud_since = [], ud_backups = [], ud_stopped = False,
     ud_installed = False, ud_versions = None, ud_healthy = None\<rparr>"

definition config_files :: "string list" where "config_files = [''config.json'', ''user-presets.json'']"

definition same_task :: "Task \<Rightarrow> Task \<Rightarrow> bool" where
  "same_task t t' \<longleftrightarrow> tk_JobID t' = tk_JobID t \<and> tk_Plan t' = tk_Plan t \<and> tk_Recovery t' = tk_Recovery t"

text \<open>Both sides verified, the configuration saved (or absent).\<close>

definition prepared :: "UEnv \<Rightarrow> Upd \<Rightarrow> Task \<Rightarrow> bool" where
  "prepared env s t \<longleftrightarrow> set (old_files env t @ new_files env t) \<subseteq> set (ud_ever s) \<and> set config_files \<subseteq> set (ud_backups s)"

text \<open>A journal write keeps the task, takes nothing back, and crosses a boundary only when it may.\<close>

definition may_write :: "UEnv \<Rightarrow> Upd \<Rightarrow> Task \<Rightarrow> bool" where
  "may_write env s t' \<longleftrightarrow> (case ud_job s of
     None \<Rightarrow> False
   | Some t \<Rightarrow> same_task t t' \<and> (tk_InstallStarted t \<longrightarrow> tk_InstallStarted t') \<and> (tk_RecoveryReady t \<longrightarrow> tk_RecoveryReady t') \<and>
       (tk_RecoveryReady t \<or> \<not> tk_RecoveryReady t' \<or> prepared env s t') \<and>
       (tk_InstallStarted t \<or> \<not> tk_InstallStarted t' \<or> tk_RecoveryReady t \<and> prepared env s t'))"

definition may_change :: "Upd \<Rightarrow> bool" where
  "may_change s \<longleftrightarrow> ud_stopped s \<and> (case ud_job s of None \<Rightarrow> False | Some t \<Rightarrow> tk_InstallStarted t \<and> tk_RecoveryReady t)"

definition may_install :: "UEnv \<Rightarrow> Upd \<Rightarrow> LocalPackage list \<Rightarrow> bool" where
  "may_install env s files \<longleftrightarrow> may_change s \<and> set files \<subseteq> set (ud_since s) \<and>
     (case ud_job s of None \<Rightarrow> False | Some t \<Rightarrow> files = new_files env t \<and> prepared env s t)"

definition may_recover :: "UEnv \<Rightarrow> Upd \<Rightarrow> LocalPackage list \<Rightarrow> bool" where
  "may_recover env s files \<longleftrightarrow> may_change s \<and> set files \<subseteq> set (ud_ever s) \<and>
     (case ud_job s of None \<Rightarrow> False | Some t \<Rightarrow> files = old_files env t)"

text \<open>The release a task has to end on: the new one once packages were installed, the old one otherwise.\<close>

definition goal_assets :: "Upd \<Rightarrow> Task \<Rightarrow> Asset list" where
  "goal_assets s t = (if ud_installed s then pl_Assets (tk_Plan t) else mf_Assets (tk_Recovery t))"

definition goal_version :: "Upd \<Rightarrow> Task \<Rightarrow> string" where
  "goal_version s t = (if ud_installed s then pl_Release (tk_Plan t) else iv_DisplayVersion (pl_Inventory (tk_Plan t)))"

definition settled :: "Upd \<Rightarrow> Task \<Rightarrow> bool" where
  "settled s t \<longleftrightarrow> ud_healthy s = Some (goal_version s t) \<and>
     (case ud_versions s of None \<Rightarrow> False | Some v \<Rightarrow> maps_Equal v (expected_versions (goal_assets s t)))"

definition may_close :: "Upd \<Rightarrow> bool" where
  "may_close s \<longleftrightarrow> (case ud_job s of None \<Rightarrow> True | Some t \<Rightarrow> settled s t)"

fun upd_step :: "UEnv \<Rightarrow> Upd \<Rightarrow> UEvent \<Rightarrow> Upd option" where
  "upd_step env s (UJournal t vis) = (if may_write env s t then Some (if vis then s\<lparr>ud_job := Some t\<rparr> else s) else None)"
| "upd_step env s (UStatusWritten st vis) =
     (if us_OK st \<longrightarrow> may_close s then Some (if vis then s\<lparr>ud_status := Some st\<rparr> else s) else None)"
| "upd_step env s (UVerify f r) = Some (if r = None then s\<lparr>ud_ever := f # ud_ever s, ud_since := f # ud_since s\<rparr> else s)"
| "upd_step env s (UBackup name r) = Some (if r = None then s\<lparr>ud_backups := name # ud_backups s\<rparr> else s)"
| "upd_step env s (UStop r) = Some (if r = None then s\<lparr>ud_stopped := True, ud_since := []\<rparr> else s)"
| "upd_step env s (UStart r) = Some (s\<lparr>ud_stopped := False\<rparr>)"
| "upd_step env s (UHealth v r) = Some (s\<lparr>ud_healthy := if r = None then Some v else None\<rparr>)"
| "upd_step env s (UVersions r) = Some (s\<lparr>ud_versions := case r of Inl _ \<Rightarrow> None | Inr v \<Rightarrow> Some v\<rparr>)"
| "upd_step env s (UInstall files r) =
     (if may_install env s files then Some (s\<lparr>ud_installed := True, ud_versions := None, ud_healthy := None\<rparr>) else None)"
| "upd_step env s (URecover files r) =
     (if may_recover env s files then Some (s\<lparr>ud_installed := False, ud_versions := None, ud_healthy := None\<rparr>) else None)"
| "upd_step env s (URemove vis) = (if may_close s then Some (if vis then s\<lparr>ud_job := None\<rparr> else s) else None)"
| "upd_step env s (UDropFiles job) = None"
| "upd_step env s _ = Some s"

fun upd_run :: "UEnv \<Rightarrow> Upd \<Rightarrow> UEvent list \<Rightarrow> Upd option" where
  "upd_run env s [] = Some s"
| "upd_run env s (e # es) = (case upd_step env s e of None \<Rightarrow> None | Some s' \<Rightarrow> upd_run env s' es)"

lemma upd_run_append:
  "upd_run env s (es @ es') = (case upd_run env s es of None \<Rightarrow> None | Some s' \<Rightarrow> upd_run env s' es')"
  by (induction es arbitrary: s) (simp_all split: option.split)

subsection \<open>The calculus\<close>

definition agrees :: "UWorld \<Rightarrow> Upd \<Rightarrow> bool" where
  "agrees w s \<longleftrightarrow> uw_journal w = ud_job s \<and> uw_status w = ud_status s"

definition uwp :: "UEnv \<Rightarrow> (UWorld, 'a) state \<Rightarrow> ('a \<Rightarrow> Upd \<Rightarrow> bool) \<Rightarrow> Upd \<Rightarrow> bool" where
  "uwp env m Q s \<longleftrightarrow> (\<forall>w. agrees w s \<longrightarrow> (\<exists>es s'. uw_log (snd (run_state m w)) = uw_log w @ es \<and>
     upd_run env s es = Some s' \<and> agrees (snd (run_state m w)) s' \<and> Q (fst (run_state m w)) s'))"

lemma uwpI:
  "(\<And>w. agrees w s \<Longrightarrow> \<exists>es s'. uw_log (snd (run_state m w)) = uw_log w @ es \<and> upd_run env s es = Some s' \<and>
     agrees (snd (run_state m w)) s' \<and> Q (fst (run_state m w)) s') \<Longrightarrow> uwp env m Q s"
  by (simp add: uwp_def)

named_theorems uwp_rules

lemma uwp_return [simp]: "uwp env (State_Monad.return a) Q s \<longleftrightarrow> Q a s"
proof
  assume Q: "uwp env (State_Monad.return a) Q s"
  have "agrees \<lparr>uw_n = 0, uw_journal = ud_job s, uw_status = ud_status s, uw_log = []\<rparr> s" by (simp add: agrees_def)
  with Q show "Q a s" by (fastforce simp: uwp_def)
qed (auto simp: uwp_def intro: exI [of _ "[]"])

lemma uwp_bind [uwp_rules]:
  assumes "uwp env m (\<lambda>a. uwp env (f a) Q) s"
  shows "uwp env (State_Monad.bind m f) Q s"
proof (rule uwpI)
  fix w
  assume w: "agrees w s"
  obtain a w' where m: "run_state m w = (a, w')" by fastforce
  with assms w obtain es s' where 1: "uw_log w' = uw_log w @ es" "upd_run env s es = Some s'" "agrees w' s'" "uwp env (f a) Q s'"
    unfolding uwp_def [of env m] by (metis fst_conv snd_conv)
  from 1(3,4) obtain es' s'' where 2: "uw_log (snd (run_state (f a) w')) = uw_log w' @ es'" "upd_run env s' es' = Some s''"
      "agrees (snd (run_state (f a) w')) s''" "Q (fst (run_state (f a) w')) s''"
    unfolding uwp_def by blast
  show "\<exists>es s'. uw_log (snd (run_state (State_Monad.bind m f) w)) = uw_log w @ es \<and> upd_run env s es = Some s' \<and>
      agrees (snd (run_state (State_Monad.bind m f) w)) s' \<and> Q (fst (run_state (State_Monad.bind m f) w)) s'"
    by (rule exI [of _ "es @ es'"], rule exI [of _ s'']) (simp add: m 1 2 upd_run_append)
qed

lemma uwp_mono: "uwp env m Q s \<Longrightarrow> (\<And>a s'. Q a s' \<Longrightarrow> Q' a s') \<Longrightarrow> uwp env m Q' s"
  unfolding uwp_def by blast

lemma uwp_ask:
  assumes "\<And>n. \<exists>s'. upd_run env s (ev (f n)) = Some s' \<and> ud_job s' = ud_job s \<and> ud_status s' = ud_status s \<and> Q (f n) s'"
  shows "uwp env (ask f ev) Q s"
proof (rule uwpI)
  fix w
  assume w: "agrees w s"
  obtain s' where "upd_run env s (ev (f (uw_n w))) = Some s'" "ud_job s' = ud_job s" "ud_status s' = ud_status s" "Q (f (uw_n w)) s'"
    using assms by blast
  with w show "\<exists>es s'. uw_log (snd (run_state (ask f ev) w)) = uw_log w @ es \<and> upd_run env s es = Some s' \<and>
      agrees (snd (run_state (ask f ev) w)) s' \<and> Q (fst (run_state (ask f ev) w)) s'"
    by (simp add: ask_def Let_def agrees_def)
qed

lemma uwp_if [uwp_rules]: "(b \<Longrightarrow> uwp env m Q s) \<Longrightarrow> (\<not> b \<Longrightarrow> uwp env m' Q s) \<Longrightarrow> uwp env (if b then m else m') Q s"
  by simp

lemma uwp_option [uwp_rules]:
  "(x = None \<Longrightarrow> uwp env m Q s) \<Longrightarrow> (\<And>a. x = Some a \<Longrightarrow> uwp env (f a) Q s) \<Longrightarrow>
   uwp env (case x of None \<Rightarrow> m | Some a \<Rightarrow> f a) Q s"
  by (cases x) simp_all

lemma uwp_sum [uwp_rules]:
  "(\<And>a. x = Inl a \<Longrightarrow> uwp env (g a) Q s) \<Longrightarrow> (\<And>b. x = Inr b \<Longrightarrow> uwp env (h b) Q s) \<Longrightarrow>
   uwp env (case x of Inl a \<Rightarrow> g a | Inr b \<Rightarrow> h b) Q s"
  by (cases x) simp_all

lemma uwp_let [uwp_rules]: "uwp env (f a) Q s \<Longrightarrow> uwp env (Let a f) Q s"
  by simp

text \<open>A write of state, in terms of the automaton: refused, visible, or visible with an error.\<close>

lemma uwp_write_journal [uwp_rules]:
  assumes "may_write env s t" and "Q (Some storage) s" and "\<And>e. Q e (s\<lparr>ud_job := Some t\<rparr>)"
  shows "uwp env (write_journal env t) Q s"
proof (rule uwpI)
  fix w
  assume "agrees w s"
  then show "\<exists>es s'. uw_log (snd (run_state (write_journal env t) w)) = uw_log w @ es \<and> upd_run env s es = Some s' \<and>
      agrees (snd (run_state (write_journal env t) w)) s' \<and> Q (fst (run_state (write_journal env t) w)) s'"
    using assms by (auto simp: write_journal_def ask_def agrees_def Let_def intro!: exI [of _ "[UJournal t (ue_write env (uw_n w) \<noteq> WriteRefused)]"])
qed

lemma uwp_write_status [uwp_rules]:
  assumes "us_OK st \<Longrightarrow> may_close s" and "Q (Some storage) s" and "\<And>e. Q e (s\<lparr>ud_status := Some st\<rparr>)"
  shows "uwp env (write_status env st) Q s"
proof (rule uwpI)
  fix w
  assume "agrees w s"
  then show "\<exists>es s'. uw_log (snd (run_state (write_status env st) w)) = uw_log w @ es \<and> upd_run env s es = Some s' \<and>
      agrees (snd (run_state (write_status env st) w)) s' \<and> Q (fst (run_state (write_status env st) w)) s'"
    using assms by (auto simp: write_status_def ask_def agrees_def Let_def intro!: exI [of _ "[UStatusWritten st (ue_write env (uw_n w) \<noteq> WriteRefused)]"])
qed

lemma uwp_remove_journal [uwp_rules]:
  assumes "may_close s" and "Q (Some storage) s" and "\<And>e. Q e (s\<lparr>ud_job := None\<rparr>)"
  shows "uwp env (remove_journal env) Q s"
proof (rule uwpI)
  fix w
  assume "agrees w s"
  then show "\<exists>es s'. uw_log (snd (run_state (remove_journal env) w)) = uw_log w @ es \<and> upd_run env s es = Some s' \<and>
      agrees (snd (run_state (remove_journal env) w)) s' \<and> Q (fst (run_state (remove_journal env) w)) s'"
    using assms by (auto simp: remove_journal_def ask_def agrees_def Let_def intro!: exI [of _ "[URemove (ue_write env (uw_n w) \<noteq> WriteRefused)]"])
qed

lemma uwp_write_receipt [uwp_rules]: "(\<And>e. Q e s) \<Longrightarrow> uwp env (write_receipt env) Q s"
  unfolding write_receipt_def by (intro uwp_bind uwp_ask) simp

lemma uwp_ReadTask [uwp_rules]:
  assumes "ud_job s = None \<Longrightarrow> Q TaskAbsent s" and "Q TaskDamaged s"
    and "\<And>t. ud_job s = Some t \<Longrightarrow> task_valid (ue_lib env) t \<Longrightarrow> Q (TaskThere t) s"
  shows "uwp env (ReadTask env) Q s"
proof (rule uwpI)
  fix w
  assume "agrees w s"
  then show "\<exists>es s'. uw_log (snd (run_state (ReadTask env) w)) = uw_log w @ es \<and> upd_run env s es = Some s' \<and>
      agrees (snd (run_state (ReadTask env) w)) s' \<and> Q (fst (run_state (ReadTask env) w)) s'"
    using assms by (auto simp: ReadTask_def ask_def agrees_def Let_def intro!: exI [of _ "[]"] split: option.split)
qed

end
