(* ===== verification/Update_Props.thy ===== *)
theory Update_Props
  imports Update_Protocol
begin

text \<open>The worker of an update follows its protocol; what that means for an interrupted and for a completed run.\<close>

subsection \<open>Each step\<close>

lemma new_files_phase [simp]: "new_files env (t\<lparr>tk_Phase := p\<rparr>) = new_files env t" "old_files env (t\<lparr>tk_Phase := p\<rparr>) = old_files env t"
  by (simp_all add: new_files_def old_files_def)

lemma prepared_phase [simp]: "prepared env s (t\<lparr>tk_Phase := p\<rparr>) = prepared env s t"
  by (simp add: prepared_def)

lemma may_write_phase [simp]: "may_write env s (t\<lparr>tk_Phase := p\<rparr>) = may_write env s t"
  by (simp add: may_write_def same_task_def split: option.split)

lemma may_write_self: "ud_job s = Some t \<Longrightarrow> may_write env s t"
  by (simp add: may_write_def same_task_def)

text \<open>Permission to writeite does not depend on what the run has since learned.\<close>

lemma may_write_memory:
  "may_write env (s\<lparr>ud_versions := v\<rparr>) t = may_write env s t" "may_write env (s\<lparr>ud_healthy := h\<rparr>) t = may_write env s t"
  "may_write env (s\<lparr>ud_stopped := b\<rparr>) t = may_write env s t" "may_write env (s\<lparr>ud_since := fs\<rparr>) t = may_write env s t"
  "may_write env (s\<lparr>ud_status := st\<rparr>) t = may_write env s t" "may_write env (s\<lparr>ud_installed := b\<rparr>) t = may_write env s t"
  by (simp_all add: may_write_def prepared_def split: option.split)

lemma may_write_job: "may_write env (s\<lparr>ud_job := Some t\<rparr>) t" "may_write env (s\<lparr>ud_job := Some t, ud_status := st\<rparr>) t"
  by (simp_all add: may_write_def same_task_def)

lemma taskStatus_running [simp]: "\<not> us_OK (taskStatus task phase)" "us_Running (taskStatus task phase)"
  by (simp_all add: taskStatus_def)

lemma may_write_other_phase: "ud_job s = Some (t\<lparr>tk_Phase := p\<rparr>) \<Longrightarrow> may_write env s t"
  by (simp add: may_write_def same_task_def)

definition verified_more :: "LocalPackage list \<Rightarrow> Upd \<Rightarrow> Upd" where
  "verified_more files s = s\<lparr>ud_ever := rev files @ ud_ever s, ud_since := rev files @ ud_since s\<rparr>"

lemma verified_more_simps [simp]:
  "ud_job (verified_more fs s) = ud_job s" "ud_status (verified_more fs s) = ud_status s"
  "ud_backups (verified_more fs s) = ud_backups s" "ud_stopped (verified_more fs s) = ud_stopped s"
  "ud_installed (verified_more fs s) = ud_installed s" "ud_versions (verified_more fs s) = ud_versions s"
  "ud_healthy (verified_more fs s) = ud_healthy s" "verified_more [] s = s"
  "ud_ever (verified_more fs s) = rev fs @ ud_ever s" "ud_since (verified_more fs s) = rev fs @ ud_since s"
  "verified_more fs (verified_more [f] s) = verified_more (f # fs) s"
  by (simp_all add: verified_more_def)

lemma uwp_verify_file [uwp_rules]:
  assumes "\<And>err. Q (Some err) s" and "Q None (verified_more [f] s)"
  shows "uwp env (verify_file env f) Q s"
  unfolding verify_file_def
proof (rule uwp_ask)
  fix n show "\<exists>s'. upd_run env s [UVerify f (ue_verify env n f)] = Some s' \<and> ud_job s' = ud_job s \<and> ud_status s' = ud_status s \<and>
      Q (ue_verify env n f) s'"
    using assms by (cases "ue_verify env n f") (auto simp: verified_more_def)
qed

lemma uwp_verify_files:
  "(\<And>fs err. Q (Some err) (verified_more fs s)) \<Longrightarrow> Q None (verified_more files s) \<Longrightarrow> uwp env (verify_files env files) Q s"
proof (induction files arbitrary: s)
  case (Cons f files)
  have e: "Q (Some err) s" for err using Cons.prems(1) [of _ "[]"] by simp
  show ?case
    by (auto intro!: uwp_rules e Cons.IH Cons.prems simp: Cons.prems)
qed simp

lemma uwp_fetch_file [uwp_rules]: "(\<And>r. Q r s) \<Longrightarrow> uwp env (fetch_file env task f) Q s"
  unfolding fetch_file_def by (rule uwp_bind, rule uwp_ask) (auto intro!: uwp_ask split: FileState.split)

lemma uwp_prepare_files:
  "(\<And>fs err. Q (Some err) (verified_more fs s)) \<Longrightarrow> Q None (verified_more files s) \<Longrightarrow> uwp env (prepare_files env task files) Q s"
proof (induction files arbitrary: s)
  case (Cons f files)
  have e: "Q (Some err) s" for err using Cons.prems(1) [of _ "[]"] by simp
  show ?case
    by (auto intro!: uwp_rules e Cons.IH Cons.prems simp: Cons.prems)
qed simp

lemma uwp_backup_files:
  "(\<And>bs err. Q (Some err) (s\<lparr>ud_backups := bs\<rparr>)) \<Longrightarrow> Q None (s\<lparr>ud_backups := rev names @ ud_backups s\<rparr>) \<Longrightarrow>
   uwp env (backup_files env names) Q s"
proof (induction names arbitrary: s)
  case (Cons name names)
  have e: "Q (Some err) s" for err using Cons.prems(1) [of _ "ud_backups s"] by simp
  show ?case
    unfolding backup_files.simps
  proof (rule uwp_bind, rule uwp_ask)
    fix n
    have "uwp env (backup_files env names) Q (s\<lparr>ud_backups := name # ud_backups s\<rparr>)"
      by (rule Cons.IH) (use Cons.prems in simp_all)
    then show "\<exists>s'. upd_run env s [UBackup name (ue_backup env n name)] = Some s' \<and> ud_job s' = ud_job s \<and> ud_status s' = ud_status s \<and>
        uwp env (case ue_backup env n name of None \<Rightarrow> backup_files env names | Some err \<Rightarrow> State_Monad.return (Some err)) Q s'"
      using e by (cases "ue_backup env n name") auto
  qed
qed simp

lemma uwp_quiet [uwp_rules]: "(\<And>n. Q (f n) s) \<Longrightarrow> uwp env (ask f (\<lambda>_. [])) Q s"
  by (rule uwp_ask) simp

lemma uwp_installed_versions [uwp_rules]:
  "(\<And>r. Q r (s\<lparr>ud_versions := case r of Inl _ \<Rightarrow> None | Inr v \<Rightarrow> Some v\<rparr>)) \<Longrightarrow> uwp env (installed_versions env) Q s"
  unfolding installed_versions_def by (rule uwp_ask) simp

lemma uwp_stop [uwp_rules]:
  assumes "\<And>err. Q (Some err) s" and "Q None (s\<lparr>ud_stopped := True, ud_since := []\<rparr>)"
  shows "uwp env (stop_service env) Q s"
  unfolding stop_service_def
proof (rule uwp_ask)
  fix n show "\<exists>s'. upd_run env s [UStop (ue_stop env n)] = Some s' \<and> ud_job s' = ud_job s \<and> ud_status s' = ud_status s \<and> Q (ue_stop env n) s'"
    using assms by (cases "ue_stop env n") auto
qed

lemma uwp_start [uwp_rules]: "(\<And>r. Q r (s\<lparr>ud_stopped := False\<rparr>)) \<Longrightarrow> uwp env (start_service env) Q s"
  unfolding start_service_def by (rule uwp_ask) simp

lemma uwp_health [uwp_rules]:
  "(\<And>err. Q (Some err) (s\<lparr>ud_healthy := None\<rparr>)) \<Longrightarrow> Q None (s\<lparr>ud_healthy := Some v\<rparr>) \<Longrightarrow> uwp env (health_check env v) Q s"
  unfolding health_check_def by (rule uwp_ask) (auto split: option.split)

text \<open>A failed task always reports an error, whatever could still be written.\<close>

lemma uwp_fail_task [uwp_rules]:
  assumes "may_write env s task" and "\<And>err s. Q (Some err) s"
  shows "uwp env (fail_task env task c) Q s"
proof -
  have "may_write env (s\<lparr>ud_versions := v\<rparr>) task" for v
    using assms(1) by (simp add: may_write_memory)
  then show ?thesis
    unfolding fail_task_def by (auto intro!: uwp_rules assms(2) split: option.split)
qed

lemma uwp_or_fail:
  assumes "uwp env step (\<lambda>e s'. case e of Some _ \<Rightarrow> may_write env s' task | None \<Rightarrow> uwp env next_step Q s') s"
    and "\<And>err s. Q (Some err) s"
  shows "uwp env (or_fail env task step next_step) Q s"
  unfolding or_fail_def
  by (rule uwp_bind, rule uwp_mono [OF assms(1)]) (auto intro!: uwp_fail_task assms(2) split: option.splits)

lemma uwp_progress [uwp_rules]:
  assumes "may_write env s task" and "\<And>t err s. Q (t, Some err) s"
    and "\<And>t st. t = task\<lparr>tk_Phase := phase\<rparr> \<Longrightarrow> Q (t, None) (s\<lparr>ud_job := Some t, ud_status := Some st\<rparr>)"
  shows "uwp env (progress env task phase) Q s"
proof -
  have "Q (task\<lparr>tk_Phase := phase\<rparr>, e) (s\<lparr>ud_job := Some (task\<lparr>tk_Phase := phase\<rparr>), ud_status := Some st\<rparr>)" for e st
    using assms(2,3) by (cases e) auto
  then show ?thesis
    unfolding progress_def using assms(1,2) by (auto intro!: uwp_rules split: option.split)
qed

subsection \<open>The end of a task\<close>

text \<open>How a run that reports no error leaves the files: no journal, and a status that names what was verified.\<close>

definition ended :: "UEnv \<Rightarrow> Task \<Rightarrow> string \<Rightarrow> Asset list \<Rightarrow> Upd \<Rightarrow> bool" where
  "ended env t phase assets s \<longleftrightarrow> ud_job s = None \<and>
     (\<exists>t' v. same_task t t' \<and> ud_status s = Some (final_status env t' phase v) \<and> maps_Equal v (expected_versions assets))"

lemma uwp_close_task:
  assumes "may_close s" and "ud_job s = Some task" and "\<And>err s. Q (Some err) s"
    and "Q None (s\<lparr>ud_job := None, ud_status := Some status\<rparr>)"
  shows "uwp env (close_task env task status) Q s"
proof -
  have eq: "s\<lparr>ud_status := Some status, ud_job := None\<rparr> = s\<lparr>ud_job := None, ud_status := Some status\<rparr>"
    "s\<lparr>ud_job := None, ud_status := Some status, ud_status := Some status\<rparr> = s\<lparr>ud_job := None, ud_status := Some status\<rparr>"
    by (cases s; simp)+
  have Q: "Q e (s\<lparr>ud_job := None, ud_status := Some status\<rparr>)" for e
    by (cases e) (simp_all only: assms(3,4))
  have close: "may_close (s\<lparr>ud_status := x\<rparr>)" "may_close (s\<lparr>ud_status := x, ud_job := None\<rparr>)" for x
    using assms(1,2) by (auto simp: may_close_def settled_def goal_version_def goal_assets_def split: option.splits)
  have wr: "may_write env (s\<lparr>ud_status := x\<rparr>) task" for x
    using assms(2) by (simp add: may_write_self)
  have again: "uwp env (write_status env status) Q (s\<lparr>ud_status := Some status, ud_job := None\<rparr>)"
    unfolding eq(1) by (rule uwp_write_status) (simp_all only: eq(2) Q assms(3), simp add: may_close_def)
  have tail: "uwp env (remove_journal env \<bind> (\<lambda>e. case e of Some err \<Rightarrow> State_Monad.return (Some err) | None \<Rightarrow>
      ask (ue_prune env) (\<lambda>_. []) \<bind> (\<lambda>e. case e of None \<Rightarrow> State_Monad.return None | Some _ \<Rightarrow> write_status env status)))
      Q (s\<lparr>ud_status := Some status\<rparr>)" (is "uwp env (_ \<bind> ?rest) Q _")
  proof (rule uwp_bind, rule uwp_remove_journal)
    fix e show "uwp env (?rest e) Q (s\<lparr>ud_status := Some status, ud_job := None\<rparr>)"
      by (cases e; simp add: assms(3)) (rule uwp_bind, rule uwp_quiet, rule uwp_option, simp_all only: uwp_return eq Q again [unfolded eq(1)])
  qed (use close assms(3) in simp_all)
  show ?thesis
    unfolding close_task_def
  proof (rule uwp_bind, rule uwp_write_status)
    fix e
    have "uwp env (write_receipt env) (\<lambda>e s'. case e of Some _ \<Rightarrow> may_write env s' task | None \<Rightarrow> s' = s\<lparr>ud_status := Some status\<rparr>)
        (s\<lparr>ud_status := Some status\<rparr>)"
      by (rule uwp_write_receipt) (use wr in \<open>simp split: option.split\<close>)
    then show "uwp env (case e of Some err \<Rightarrow> State_Monad.return (Some err) | None \<Rightarrow> or_fail env task (write_receipt env)
        (remove_journal env \<bind> (\<lambda>e. case e of Some err \<Rightarrow> State_Monad.return (Some err) | None \<Rightarrow>
          ask (ue_prune env) (\<lambda>_. []) \<bind> (\<lambda>e. case e of None \<Rightarrow> State_Monad.return None | Some _ \<Rightarrow> write_status env status))))
        Q (s\<lparr>ud_status := Some status\<rparr>)"
      using assms(3) by (cases e) (auto intro!: uwp_or_fail tail elim!: uwp_mono split: option.splits)
  qed (use assms(1,3) in simp_all)
qed

lemma uwp_restore_intent:
  assumes "may_write env s task" and "\<And>err s. Q (Some err) s"
    and "uwp env next_step Q s" and "uwp env next_step Q (s\<lparr>ud_stopped := True, ud_since := []\<rparr>)"
  shows "uwp env (restore_intent env task next_step) Q s"
proof -
  have intent: "uwp env (ask (ue_intent env) (\<lambda>r. [UIntent r])) P s" if "\<And>r. P r s" for P
    by (rule uwp_ask) (simp add: that)
  show ?thesis
    unfolding restore_intent_def using assms
    by (auto intro!: uwp_rules uwp_or_fail intent simp: may_write_memory split: option.split)
qed

lemma uwp_finish:
  assumes "may_write env s task" and "\<And>err s. Q (Some err) s"
    and "assets = goal_assets s task" and "version = goal_version s task"
    and "\<And>s'. ended env task phase assets s' \<Longrightarrow> Q None s'"
  shows "uwp env (finish env task version assets phase) Q s"
  unfolding finish_def
proof (rule uwp_bind, rule uwp_progress [OF assms(1)])
  fix t err s show "uwp env (case (t, Some err) of (task, e) \<Rightarrow> case e of Some err \<Rightarrow> State_Monad.return (Some err) | None \<Rightarrow> X task) Q s" for X
    by (simp add: assms(2))
next
  fix t st
  assume t: "t = task\<lparr>tk_Phase := ''verifying''\<rparr>"
  let ?s = "s\<lparr>ud_job := Some t, ud_status := Some st\<rparr>"
  have finish: "uwp env (close_task env t (final_status env t phase v)) Q s'"
    if v: "maps_Equal v (expected_versions assets)"
      and s': "ud_job s' = Some t" "ud_versions s' = Some v" "ud_installed s' = ud_installed s" "ud_healthy s' = Some version" for s' v
  proof (rule uwp_close_task)
    show "may_close s'" using v s' assms(3,4) t by (auto simp: may_close_def settled_def goal_assets_def goal_version_def)
    show "ud_job s' = Some t" using s' by simp
    show "Q None (s'\<lparr>ud_job := None, ud_status := Some (final_status env t phase v)\<rparr>)"
      using v t by (intro assms(5)) (auto simp: ended_def same_task_def intro!: exI [of _ t] exI [of _ v])
  qed (rule assms(2))
  show "uwp env (case (t, None) of (task, e) \<Rightarrow> (case e of Some err \<Rightarrow> State_Monad.return (Some err) | None \<Rightarrow> do {
          versions \<leftarrow> installed_versions env;
          (case versions of
             Inl _ \<Rightarrow> fail_task env task (problem CodeInstallFailed)
           | Inr versions \<Rightarrow>
               if \<not> maps_Equal versions (expected_versions assets) then fail_task env task (problem CodeInstallFailed)
               else or_fail env task (start_service env)
                 (or_fail env task (health_check env version)
                   (restore_intent env task (close_task env task (final_status env task phase versions)))))
        })) Q ?s"
    using assms(2) finish
    by (auto intro!: uwp_rules uwp_or_fail uwp_restore_intent simp: may_write_memory may_write_job split: option.split)
qed

subsection \<open>Preparation\<close>

lemma uwp_prepare_directories [uwp_rules]: "(\<And>e. Q e s) \<Longrightarrow> uwp env (prepare_directories env task) Q s"
  unfolding prepare_directories_def by (rule uwp_bind, rule uwp_quiet) (auto intro!: uwp_rules split: sum.split)

text \<open>What preparation leaves: the task unless it got as far as the recovery point, and then the recovery point.\<close>

lemma uwp_mark_ready:
  assumes "prepared env s task" and "ud_job s = Some task"
    and "\<And>s' e. may_write env s' (task\<lparr>tk_RecoveryReady := True\<rparr>) \<Longrightarrow> Q (task\<lparr>tk_RecoveryReady := True\<rparr>, Some e) s'"
    and "\<And>t. t = task\<lparr>tk_RecoveryReady := True\<rparr> \<Longrightarrow> Q (t, None) (s\<lparr>ud_job := Some t\<rparr>)"
  shows "uwp env (mark_ready env task) Q s"
proof -
  let ?t = "task\<lparr>tk_RecoveryReady := True\<rparr>"
  have prep: "prepared env s ?t" using assms(1) by (simp add: prepared_def old_files_def new_files_def)
  then have wr: "may_write env s ?t" using assms(2) by (simp add: may_write_def same_task_def)
  have check: "uwp env (ask (\<lambda>n. ue_precheck env n fs) (\<lambda>r. [UPrecheck fs r])) P s'" if "\<And>r. P r s'" for P s' fs
    by (rule uwp_ask) (simp add: that)
  have Q: "Q (?t, e) (s\<lparr>ud_job := Some ?t\<rparr>)" for e
    by (cases e) (use assms(3,4) may_write_job in auto)
  show ?thesis
    unfolding mark_ready_def Let_def
  proof (rule uwp_bind, rule uwp_write_journal [OF wr])
    fix e
    show "uwp env (case e of Some err \<Rightarrow> State_Monad.return (?t, Some err) | None \<Rightarrow>
        ask (\<lambda>n. ue_precheck env n (new_files env ?t)) (\<lambda>r. [UPrecheck (new_files env ?t) r]) \<bind>
          (\<lambda>e. State_Monad.return (?t, e))) Q (s\<lparr>ud_job := Some ?t\<rparr>)"
      by (cases e) (auto intro!: uwp_bind check simp: Q)
  qed (use assms(3) wr in simp)
qed

lemma uwp_prepare_update:
  assumes "ud_job s = Some task"
    and "\<And>s' t e. may_write env s' t \<Longrightarrow> Q (t, Some e) s'"
    and "\<And>s' t. t = task\<lparr>tk_RecoveryReady := True\<rparr> \<Longrightarrow> ud_job s' = Some t \<Longrightarrow> prepared env s' t \<Longrightarrow> ud_installed s' = ud_installed s \<Longrightarrow> Q (t, None) s'"
  shows "uwp env (prepare_update env task) Q s"
proof -
  have early: "Q (task, Some e) s'" if "ud_job s' = Some task" for e s'
    using that by (intro assms(2) may_write_self)
  let ?files = "old_files env task @ new_files env task"
  let ?s = "\<lambda>s. (verified_more ?files s)\<lparr>ud_backups := rev config_files @ ud_backups s\<rparr>"
  have ready: "uwp env (mark_ready env task) Q (?s s)"
  proof (rule uwp_mark_ready)
    show "prepared env (?s s) task" by (auto simp: prepared_def)
    fix t assume t: "t = task\<lparr>tk_RecoveryReady := True\<rparr>"
    show "Q (t, None) (?s s\<lparr>ud_job := Some t\<rparr>)"
      by (rule assms(3) [OF t]) (auto simp: prepared_def old_files_def new_files_def t)
  qed (use assms(1,2) in auto)
  show ?thesis
    unfolding prepare_update_def backupConfig_def
    by (auto intro!: uwp_bind uwp_prepare_directories uwp_option uwp_prepare_files uwp_backup_files uwp_quiet early
        simp: assms(1) ready [unfolded config_files_def, simplified] simp del: backup_files.simps)
qed

subsection \<open>The worker\<close>

text \<open>A run without an error ends its task on one of its two releases.\<close>

definition ended_well :: "UEnv \<Rightarrow> Task \<Rightarrow> Upd \<Rightarrow> bool" where
  "ended_well env t s \<longleftrightarrow> ended env t ''completed'' (pl_Assets (tk_Plan t)) s \<and> \<not> tk_Recover t \<or>
     ended env t ''recovered'' (mf_Assets (tk_Recovery t)) s \<and> tk_Recover t \<and> tk_InstallStarted t \<or>
     ended env t ''cancelled'' (mf_Assets (tk_Recovery t)) s \<and> tk_Recover t \<and> \<not> tk_InstallStarted t"

lemma ended_same: "same_task t t' \<Longrightarrow> ended env t' phase assets s \<Longrightarrow> ended env t phase assets s"
  by (auto simp: ended_def same_task_def)

lemma uwp_install_packages:
  assumes "may_install env s files" and "\<And>e. Q e (s\<lparr>ud_installed := True, ud_versions := None, ud_healthy := None\<rparr>)"
  shows "uwp env (install_packages env files) Q s"
  unfolding install_packages_def by (rule uwp_ask) (simp add: assms)

lemma uwp_recover_packages:
  assumes "may_recover env s files" and "\<And>e. Q e (s\<lparr>ud_installed := False, ud_versions := None, ud_healthy := None\<rparr>)"
  shows "uwp env (recover_packages env files) Q s"
  unfolding recover_packages_def by (rule uwp_ask) (simp add: assms)

lemma may_write_verified [simp]: "may_write env s task \<Longrightarrow> may_write env (verified_more fs s) task"
  by (auto simp: may_write_def prepared_def split: option.splits)

lemma uwp_install_task:
  assumes "ud_job s = Some t" and "tk_RecoveryReady t" and "prepared env s t"
    and "\<And>err s. Q (Some err) s" and "\<And>s'. ended env t ''completed'' (pl_Assets (tk_Plan t)) s' \<Longrightarrow> Q None s'"
  shows "uwp env (install_task env t) Q s"
  unfolding install_task_def
proof (rule uwp_bind, rule uwp_progress)
  show "may_write env s (t\<lparr>tk_InstallStarted := True\<rparr>)"
    using assms(1-3) by (simp add: may_write_def same_task_def prepared_def old_files_def new_files_def)
next
  fix t' st
  assume t': "t' = t\<lparr>tk_InstallStarted := True, tk_Phase := ''installing''\<rparr>"
  let ?s = "s\<lparr>ud_job := Some t', ud_status := Some st\<rparr>"
  have prep: "prepared env (s\<lparr>ud_job := j, ud_status := u, ud_stopped := b, ud_since := fs\<rparr>) t'" for j u b fs
    using assms(3) t' by (simp add: prepared_def old_files_def new_files_def)
  have install: "uwp env (or_fail env t' (install_packages env (new_files env t'))
      (finish env t' (pl_Release (tk_Plan t')) (pl_Assets (tk_Plan t')) ''completed'')) Q
      (verified_more (new_files env t') (?s\<lparr>ud_stopped := True, ud_since := []\<rparr>))" (is "uwp env _ Q ?v")
  proof (rule uwp_or_fail, rule uwp_install_packages)
    show "may_install env ?v (new_files env t')"
      using prep assms(2) by (auto simp: may_install_def may_change_def t' prepared_def)
    fix e
    let ?i = "?v\<lparr>ud_installed := True, ud_versions := None, ud_healthy := None\<rparr>"
    have wr: "may_write env ?i t'" by (intro may_write_self) simp
    have "uwp env (finish env t' (pl_Release (tk_Plan t')) (pl_Assets (tk_Plan t')) ''completed'') Q ?i"
    proof (rule uwp_finish [OF wr])
      fix s' assume "ended env t' ''completed'' (pl_Assets (tk_Plan t')) s'"
      then show "Q None s'" by (intro assms(5)) (auto intro: ended_same [of t t'] simp: same_task_def t')
    qed (simp_all add: assms(4) goal_assets_def goal_version_def)
    with wr show "case e of None \<Rightarrow> uwp env (finish env t' (pl_Release (tk_Plan t')) (pl_Assets (tk_Plan t')) ''completed'') Q ?i
        | Some _ \<Rightarrow> may_write env ?i t'" by (simp split: option.split)
  qed (rule assms(4))
  have wr: "may_write env (verified_more fs (?s\<lparr>ud_stopped := True, ud_since := []\<rparr>)) t'" for fs
    by (intro may_write_self) simp
  have verify: "uwp env (or_fail env t' (verify_files env (new_files env t')) (or_fail env t' (install_packages env (new_files env t'))
      (finish env t' (pl_Release (tk_Plan t')) (pl_Assets (tk_Plan t')) ''completed''))) Q (?s\<lparr>ud_stopped := True, ud_since := []\<rparr>)"
    by (rule uwp_or_fail, rule uwp_verify_files) (simp_all add: wr install assms(4))
  have "uwp env (or_fail env t' (stop_service env) (or_fail env t' (verify_files env (new_files env t')) (or_fail env t' (install_packages env (new_files env t'))
      (finish env t' (pl_Release (tk_Plan t')) (pl_Assets (tk_Plan t')) ''completed'')))) Q ?s"
    by (rule uwp_or_fail, rule uwp_stop) (simp_all add: may_write_job verify assms(4))
  then show "uwp env (case (t', None) of (task, e) \<Rightarrow> (case e of Some err \<Rightarrow> State_Monad.return (Some err)
       | None \<Rightarrow> or_fail env task (stop_service env) (or_fail env task (verify_files env (new_files env task))
           (or_fail env task (install_packages env (new_files env task))
             (finish env task (pl_Release (tk_Plan task)) (pl_Assets (tk_Plan task)) ''completed''))))) Q ?s"
    by simp
qed (simp add: assms(4))

subsection \<open>The whole run\<close>

lemma uwp_recover_task:
  assumes "ud_job s = Some t" and "\<not> ud_installed s"
    and "\<And>err s. Q (Some err) s"
    and "\<And>s'. \<not> tk_InstallStarted t \<Longrightarrow> ended env t ''cancelled'' (mf_Assets (tk_Recovery t)) s' \<Longrightarrow> Q None s'"
    and "\<And>s'. tk_InstallStarted t \<Longrightarrow> ended env t ''recovered'' (mf_Assets (tk_Recovery t)) s' \<Longrightarrow> Q None s'"
  shows "uwp env (recover_task env t) Q s"
proof -
  let ?version = "iv_DisplayVersion (pl_Inventory (tk_Plan t))" and ?assets = "mf_Assets (tk_Recovery t)"
  have wr: "may_write env s t" using assms(1) by (rule may_write_self)
  have keep: "uwp env (finish env t ?version ?assets ''cancelled'') Q s" if "\<not> tk_InstallStarted t"
    by (rule uwp_finish [OF wr]) (use assms that in \<open>simp_all add: goal_assets_def goal_version_def\<close>)
  have undo: "uwp env (do {
        (task, e) \<leftarrow> progress env t ''recovering'';
        (case e of
           Some err \<Rightarrow> State_Monad.return (Some err)
         | None \<Rightarrow>
             or_fail env task (verify_files env (old_files env task))
               (or_fail env task (stop_service env)
                 (or_fail env task (recover_packages env (old_files env task))
                   (finish env task ?version ?assets ''recovered''))))
      }) Q s" if started: "tk_InstallStarted t" "tk_RecoveryReady t"
  proof (rule uwp_bind, rule uwp_progress [OF wr])
    fix t' st
    assume t': "t' = t\<lparr>tk_Phase := ''recovering''\<rparr>"
    let ?s = "verified_more (old_files env t') (s\<lparr>ud_job := Some t', ud_status := Some st\<rparr>)"
    have finish: "uwp env (finish env t' ?version ?assets ''recovered'') Q
        (?s\<lparr>ud_stopped := True, ud_since := [], ud_installed := False, ud_versions := None, ud_healthy := None\<rparr>)"
    proof (rule uwp_finish [OF may_write_self])
      fix s' assume "ended env t' ''recovered'' ?assets s'"
      then show "Q None s'" by (intro assms(5) started) (auto intro: ended_same [of t t'] simp: same_task_def t')
    qed (simp_all add: assms(3) goal_assets_def goal_version_def t')
    have recover: "uwp env (or_fail env t' (recover_packages env (old_files env t')) (finish env t' ?version ?assets ''recovered'')) Q
        (?s\<lparr>ud_stopped := True, ud_since := []\<rparr>)"
      by (rule uwp_or_fail, rule uwp_recover_packages)
        (use finish started in \<open>auto simp: assms(3) may_recover_def may_change_def t' may_write_other_phase split: option.split\<close>)
    have stop: "uwp env (or_fail env t' (stop_service env)
        (or_fail env t' (recover_packages env (old_files env t')) (finish env t' ?version ?assets ''recovered''))) Q ?s"
      by (rule uwp_or_fail, rule uwp_stop) (simp_all add: assms(3) recover may_write_self)
    have "uwp env (or_fail env t' (verify_files env (old_files env t')) (or_fail env t' (stop_service env)
        (or_fail env t' (recover_packages env (old_files env t')) (finish env t' ?version ?assets ''recovered'')))) Q
        (s\<lparr>ud_job := Some t', ud_status := Some st\<rparr>)"
      by (rule uwp_or_fail, rule uwp_verify_files) (simp_all add: assms(3) stop may_write_self)
    then show "uwp env (case (t', None) of (task, e) \<Rightarrow> (case e of Some err \<Rightarrow> State_Monad.return (Some err)
        | None \<Rightarrow> or_fail env task (verify_files env (old_files env task)) (or_fail env task (stop_service env)
            (or_fail env task (recover_packages env (old_files env task)) (finish env task ?version ?assets ''recovered'')))))
        Q (s\<lparr>ud_job := Some t', ud_status := Some st\<rparr>)" by simp
  qed (simp add: assms(3))
  show ?thesis
    unfolding recover_task_def Let_def
    by (intro uwp_if keep uwp_fail_task wr assms(3) undo) simp_all
qed

lemma uwp_run_task:
  assumes "ud_job s = Some t" and "\<not> ud_installed s" and "\<And>err s. Q (Some err) s" and "\<And>s'. ended_well env t s' \<Longrightarrow> Q None s'"
  shows "uwp env (run_task env t) Q s"
proof -
  have wr: "may_write env s t" using assms(1) by (rule may_write_self)
  have recover: "uwp env (recover_task env t) Q s" if "tk_Recover t"
    by (rule uwp_recover_task) (use assms that in \<open>auto simp: ended_well_def\<close>)
  have install: "uwp env (do {
        (task, e) \<leftarrow> progress env t ''preparing'';
        (case e of
           Some err \<Rightarrow> State_Monad.return (Some err)
         | None \<Rightarrow> do {
             (task, e) \<leftarrow> prepare_update env task;
             (case e of
                Some err \<Rightarrow> fail_task env task err
              | None \<Rightarrow> do {
                  cancelled \<leftarrow> ask (ue_ctx env) (\<lambda>_. []);
                  if cancelled then fail_task env task (problem CodeCancelled) else install_task env task
                })
           })
      }) Q s" if "\<not> tk_Recover t"
  proof (rule uwp_bind, rule uwp_progress [OF wr])
    fix t1 st
    assume t1: "t1 = t\<lparr>tk_Phase := ''preparing''\<rparr>"
    have "uwp env (prepare_update env t1 \<bind> (\<lambda>(task, e). case e of
                Some err \<Rightarrow> fail_task env task err
              | None \<Rightarrow> do {
                  cancelled \<leftarrow> ask (ue_ctx env) (\<lambda>_. []);
                  if cancelled then fail_task env task (problem CodeCancelled) else install_task env task
                })) Q (s\<lparr>ud_job := Some t1, ud_status := Some st\<rparr>)"
    proof (rule uwp_bind, rule uwp_prepare_update)
      fix s' t2 assume t2: "t2 = t1\<lparr>tk_RecoveryReady := True\<rparr>" "ud_job s' = Some t2" "prepared env s' t2"
      have "uwp env (install_task env t2) Q s'"
      proof (rule uwp_install_task)
        fix s'' assume "ended env t2 ''completed'' (pl_Assets (tk_Plan t2)) s''"
        then have "ended env t ''completed'' (pl_Assets (tk_Plan t)) s''"
          by (auto intro: ended_same [of t t2] simp: same_task_def t2(1) t1)
        then show "Q None s''" using that by (intro assms(4)) (simp add: ended_well_def)
      qed (use t2 assms(3) in simp_all)
      then show "uwp env (case (t2, None) of (task, e) \<Rightarrow> (case e of
                Some err \<Rightarrow> fail_task env task err
              | None \<Rightarrow> do {
                  cancelled \<leftarrow> ask (ue_ctx env) (\<lambda>_. []);
                  if cancelled then fail_task env task (problem CodeCancelled) else install_task env task
                })) Q s'"
        using t2(2) by (auto intro!: uwp_bind uwp_quiet uwp_fail_task may_write_self assms(3))
    qed (auto intro!: uwp_fail_task assms(3))
    then show "uwp env (case (t1, None) of (task, e) \<Rightarrow> (case e of
           Some err \<Rightarrow> State_Monad.return (Some err)
         | None \<Rightarrow> do {
             (task, e) \<leftarrow> prepare_update env task;
             (case e of
                Some err \<Rightarrow> fail_task env task err
              | None \<Rightarrow> do {
                  cancelled \<leftarrow> ask (ue_ctx env) (\<lambda>_. []);
                  if cancelled then fail_task env task (problem CodeCancelled) else install_task env task
                })
           })) Q (s\<lparr>ud_job := Some t1, ud_status := Some st\<rparr>)" by simp
  qed (simp add: assms(3))
  show ?thesis
    unfolding run_task_def by (intro uwp_if uwp_fail_task wr assms(3) recover install) simp_all
qed

lemma uwp_Guard [uwp_rules]: "(\<And>e. Q e s) \<Longrightarrow> uwp env (Guard env) Q s"
  unfolding Guard_def by (rule uwp_bind, rule uwp_ReadTask) simp_all

lemma uwp_cleanup [uwp_rules]: "(\<And>e. Q e s) \<Longrightarrow> uwp env (cleanupCompletedWorker env) Q s"
  unfolding cleanupCompletedWorker_def by (rule uwp_bind, rule uwp_Guard) (auto intro!: uwp_quiet split: option.split)

lemma uwp_status_read [uwp_rules]: "Q (ud_status s) s \<Longrightarrow> uwp env (State (\<lambda>w. (uw_status w, w))) Q s"
  by (rule uwpI) (auto simp: agrees_def intro!: exI [of _ "[]"])

lemma uwp_ReadStatus_closed:
  assumes "ud_job s = None" and "ud_status s = Some st" and "\<And>err. Q (Inl err) s" and "Q (Inr st) s"
  shows "uwp env (ReadStatus env) Q s"
  unfolding ReadStatus_def
  by (rule uwp_bind, rule uwp_quiet, rule uwp_bind, rule uwp_status_read, rule uwp_bind, rule uwp_ReadTask) (use assms in auto)

text \<open>Clearing up after a task changes neither the journal nor the status.\<close>

lemma uwp_drop_worker:
  assumes "ud_job s = None" and "ud_status s = Some st" and "Q () s"
  shows "uwp env (drop_worker env) Q s"
proof -
  have same: "s\<lparr>ud_status := Some st\<rparr> = s" using assms(2) by simp
  have rewrite: "uwp env (write_status env st \<bind> (\<lambda>_. State_Monad.return ())) Q s"
    by (rule uwp_bind, rule uwp_write_status) (use assms in \<open>simp_all add: may_close_def same\<close>)
  show ?thesis
    unfolding drop_worker_def
    by (rule uwp_bind, rule uwp_cleanup)
      (auto intro!: uwp_bind [of _ "ReadStatus env"] uwp_ReadStatus_closed assms rewrite split: option.split)
qed

lemma uwp_Run:
  assumes "\<not> ud_installed s" and "\<And>err s. Q (Some err) s"
    and "\<And>s' t. ud_job s = Some t \<Longrightarrow> task_valid (ue_lib env) t \<Longrightarrow> ended_well env t s' \<Longrightarrow> Q None s'"
  shows "uwp env (Run env) Q s"
proof -
  let ?P = "\<lambda>e s'. e = None \<longrightarrow> (\<exists>t. ud_job s = Some t \<and> task_valid (ue_lib env) t \<and> ended_well env t s')"
  have body: "uwp env (Run_body env) ?P s"
    unfolding Run_body_def
    by (rule uwp_bind, rule uwp_ReadTask) (auto intro!: uwp_run_task assms(1))
  have finish: "uwp env (if e = None then do { _ \<leftarrow> drop_worker env; State_Monad.return e } else State_Monad.return e) Q s'"
    if P: "?P e s'" for e s'
  proof (cases e)
    case None
    with P obtain t where t: "ud_job s = Some t" "task_valid (ue_lib env) t" "ended_well env t s'" by auto
    then obtain st where "ud_job s' = None" "ud_status s' = Some st" by (auto simp: ended_well_def ended_def)
    then have "uwp env (do { _ \<leftarrow> drop_worker env; State_Monad.return None }) Q s'"
      by (intro uwp_bind uwp_drop_worker) (use assms(3) [OF t] in simp_all)
    with None show ?thesis by simp
  qed (simp add: assms(2))
  show ?thesis
    unfolding Run_def
    by (rule uwp_bind, rule uwp_quiet) (auto intro!: assms(2) uwp_bind [of _ "Run_body env"] uwp_mono [OF body] finish split: option.split)
qed

end
