(* ===== verification/Update_Safety.thy ===== *)
theory Update_Safety
  imports Update_Props
begin

text \<open>What the protocol of an update means for the device, for a cut at any event of a run and for its end; and that a
  start never touches a pending task, and drops files only while no journal is left.\<close>

subsection \<open>The journal along a log\<close>

fun journal_step :: "Task option \<Rightarrow> UEvent \<Rightarrow> Task option" where
  "journal_step j (UJournal t vis) = (if vis then Some t else j)"
| "journal_step j (URemove vis) = (if vis then None else j)"
| "journal_step j _ = j"

definition journal_after :: "Task option \<Rightarrow> UEvent list \<Rightarrow> Task option" where
  "journal_after j es = foldl journal_step j es"

lemma upd_run_job: "upd_run env s es = Some s' \<Longrightarrow> ud_job s' = journal_after (ud_job s) es"
proof (induction es arbitrary: s)
  case (Cons e es)
  then obtain s1 where s1: "upd_step env s e = Some s1" "upd_run env s1 es = Some s'" by (auto split: option.splits)
  then have "ud_job s1 = journal_step (ud_job s) e" by (cases e) (auto split: if_splits)
  with Cons.IH [OF s1(2)] show ?case by (simp add: journal_after_def)
qed (simp add: journal_after_def)

lemma upd_run_cons: "upd_run env s (e # es) = Some s' \<Longrightarrow> \<exists>s1. upd_step env s e = Some s1 \<and> upd_run env s1 es = Some s'"
  by (auto split: option.splits)

lemma upd_run_snoc: "upd_run env s (es @ [e]) = Some s' \<Longrightarrow> \<exists>s1. upd_run env s es = Some s1 \<and> upd_step env s1 e = Some s'"
  by (auto simp: upd_run_append split: option.splits)

text \<open>A run keeps its task; what the state remembers, the log holds.\<close>

definition same_job :: "Task option \<Rightarrow> Task option \<Rightarrow> bool" where
  "same_job j j' \<longleftrightarrow> (case j' of None \<Rightarrow> True | Some t' \<Rightarrow> (case j of None \<Rightarrow> False | Some t \<Rightarrow> same_task t t'))"

lemma step_same_job: "upd_step env s e = Some s' \<Longrightarrow> same_job (ud_job s) (ud_job s')"
  by (cases e) (auto simp: same_job_def same_task_def may_write_def split: if_splits option.splits)

lemma run_same_job: "upd_run env s es = Some s' \<Longrightarrow> same_job (ud_job s) (ud_job s')"
proof (induction es arbitrary: s)
  case (Cons e es)
  then obtain s1 where "upd_step env s e = Some s1" "upd_run env s1 es = Some s'" by (auto split: option.splits)
  with step_same_job [of env s e s1] Cons.IH [of s1] show ?case
    by (auto simp: same_job_def same_task_def split: option.splits)
qed (simp add: same_job_def same_task_def split: option.split)

lemma run_remembers:
  assumes "upd_run env s es = Some s'"
  shows "set (ud_ever s') \<subseteq> set (ud_ever s) \<union> {f. UVerify f None \<in> set es}"
    and "set (ud_backups s') \<subseteq> set (ud_backups s) \<union> {n. UBackup n None \<in> set es}"
proof -
  have "set (ud_ever s') \<subseteq> set (ud_ever s) \<union> {f. UVerify f None \<in> set es} \<and>
      set (ud_backups s') \<subseteq> set (ud_backups s) \<union> {n. UBackup n None \<in> set es}"
    using assms
  proof (induction es arbitrary: s)
    case (Cons e es)
    then obtain s1 where s1: "upd_step env s e = Some s1" "upd_run env s1 es = Some s'" by (auto split: option.splits)
    from s1(1) have "set (ud_ever s1) \<subseteq> set (ud_ever s) \<union> {f. UVerify f None = e} \<and>
        set (ud_backups s1) \<subseteq> set (ud_backups s) \<union> {n. UBackup n None = e}"
      by (cases e) (auto split: if_splits)
    with Cons.IH [OF s1(2)] show ?case by fastforce
  qed simp
  then show "set (ud_ever s') \<subseteq> set (ud_ever s) \<union> {f. UVerify f None \<in> set es}"
    "set (ud_backups s') \<subseteq> set (ud_backups s) \<union> {n. UBackup n None \<in> set es}" by simp_all
qed

subsection \<open>After packages changed\<close>

text \<open>The two releases a task may end on.\<close>

definition release_of :: "Task \<Rightarrow> string \<Rightarrow> Asset list \<Rightarrow> bool" where
  "release_of t version assets \<longleftrightarrow> version = pl_Release (tk_Plan t) \<and> assets = pl_Assets (tk_Plan t) \<or>
     version = iv_DisplayVersion (pl_Inventory (tk_Plan t)) \<and> assets = mf_Assets (tk_Recovery t)"

text \<open>The log shows one of them installed and healthy.\<close>

definition verified_release :: "Task \<Rightarrow> UEvent list \<Rightarrow> bool" where
  "verified_release t es \<longleftrightarrow> (\<exists>v version assets. release_of t version assets \<and> UVersions (Inr v) \<in> set es \<and>
     maps_Equal v (expected_versions assets) \<and> UHealth version None \<in> set es)"

definition recoverable :: "Task \<Rightarrow> UEvent list \<Rightarrow> Task option \<Rightarrow> bool" where
  "recoverable t0 es j \<longleftrightarrow> (case j of
     Some t \<Rightarrow> same_task t0 t \<and> tk_InstallStarted t \<and> tk_RecoveryReady t
   | None \<Rightarrow> verified_release t0 es)"

definition changed_inv :: "Task \<Rightarrow> UEvent list \<Rightarrow> Upd \<Rightarrow> bool" where
  "changed_inv t0 es s \<longleftrightarrow> recoverable t0 es (ud_job s) \<and> (\<forall>v. ud_versions s = Some v \<longrightarrow> UVersions (Inr v) \<in> set es) \<and>
     (\<forall>x. ud_healthy s = Some x \<longrightarrow> UHealth x None \<in> set es)"

lemma verified_release_more: "verified_release t es \<Longrightarrow> verified_release t (es @ [e])"
  by (fastforce simp: verified_release_def)

lemma recoverable_more: "recoverable t es j \<Longrightarrow> recoverable t (es @ [e]) j"
  by (auto simp: recoverable_def verified_release_more split: option.splits)

lemma settled_verified:
  assumes "changed_inv t0 es s" and "ud_job s = Some t" and "settled s t"
  shows "verified_release t0 es"
proof -
  have t: "same_task t0 t" using assms(1,2) by (simp add: changed_inv_def recoverable_def)
  from assms(3) obtain v where "ud_versions s = Some v" "maps_Equal v (expected_versions (goal_assets s t))" "ud_healthy s = Some (goal_version s t)"
    by (auto simp: settled_def split: option.splits)
  moreover have "release_of t0 (goal_version s t) (goal_assets s t)"
    using t by (auto simp: release_of_def goal_version_def goal_assets_def same_task_def)
  ultimately show ?thesis using assms(1) by (auto simp: verified_release_def changed_inv_def)
qed

lemma changed_step:
  assumes "changed_inv t0 es s" and "upd_step env s e = Some s'"
  shows "changed_inv t0 (es @ [e]) s'"
proof -
  have keep: "recoverable t0 (es @ [e]) (ud_job s)" using assms(1) by (simp add: changed_inv_def recoverable_more)
  have "recoverable t0 (es @ [e]) (ud_job s')"
  proof (cases e)
    case (UJournal t vis)
    with assms(2) keep show ?thesis
      by (auto simp: recoverable_def may_write_def same_task_def split: if_splits option.splits)
  next
    case (URemove vis)
    then have "recoverable t0 (es @ [e]) (ud_job s') \<or> (ud_job s' = None \<and> may_close s)" using assms(2) keep by (auto split: if_splits)
    then show ?thesis
      using keep settled_verified [OF assms(1)] by (auto simp: recoverable_def may_close_def verified_release_more split: option.splits)
  qed (use assms(2) keep in \<open>auto split: if_splits\<close>)
  moreover have "(\<forall>v. ud_versions s' = Some v \<longrightarrow> UVersions (Inr v) \<in> set (es @ [e])) \<and>
      (\<forall>x. ud_healthy s' = Some x \<longrightarrow> UHealth x None \<in> set (es @ [e]))"
    using assms by (cases e) (auto simp: changed_inv_def split: if_splits sum.splits)
  ultimately show ?thesis by (simp add: changed_inv_def)
qed

lemma changed_run: "upd_run env s es = Some s' \<Longrightarrow> changed_inv t0 ds s \<Longrightarrow> changed_inv t0 (ds @ es) s'"
proof (induction es arbitrary: s ds)
  case (Cons e es)
  then obtain s1 where "upd_step env s e = Some s1" "upd_run env s1 es = Some s'" by (auto split: option.splits)
  with Cons.IH [of s1 "ds @ [e]"] changed_step [OF Cons.prems(2)] show ?case by simp
qed simp

subsection \<open>The properties\<close>

lemma Run_uwp:
  "uwp env (Run env) (\<lambda>e s'. e = None \<longrightarrow> (\<exists>t. ud_job s = Some t \<and> task_valid (ue_lib env) t \<and> ended_well env t s')) s" if "\<not> ud_installed s"
  by (rule uwp_Run [OF that]) auto

lemma Run_log:
  obtains es s' where "uw_log (snd (run_state (Run env) w)) = uw_log w @ es"
    "upd_run env (upd_start (uw_journal w) (uw_status w)) es = Some s'" "agrees (snd (run_state (Run env) w)) s'"
    "fst (run_state (Run env) w) = None \<Longrightarrow> \<exists>t. uw_journal w = Some t \<and> task_valid (ue_lib env) t \<and> ended_well env t s'"
proof -
  let ?s = "upd_start (uw_journal w) (uw_status w)"
  have "\<not> ud_installed ?s" "agrees w ?s" "ud_job ?s = uw_journal w" by (simp_all add: upd_start_def agrees_def)
  with Run_uwp [of ?s env] that show thesis unfolding uwp_def by metis
qed

text \<open>
  C38: The process that installs an update follows its protocol. Whatever the package manager, the service, the
  network and the files answer, and even when a write reports an error after it became visible, a run only
  appends to its log, what it appends is a run of the protocol, and the files it leaves are those of the
  protocol's state: packages are changed only by verified files with a durable journal that says so, and a task
  is closed, or success reported, only after the installed versions and the service were checked.
\<close>
theorem update_follows_protocol:
  "\<exists>es s'. uw_log (snd (run_state (Run env) w)) = uw_log w @ es \<and>
     upd_run env (upd_start (uw_journal w) (uw_status w)) es = Some s' \<and>
     uw_journal (snd (run_state (Run env) w)) = ud_job s' \<and> uw_status (snd (run_state (Run env) w)) = ud_status s'"
proof -
  obtain es s' where "uw_log (snd (run_state (Run env) w)) = uw_log w @ es"
    "upd_run env (upd_start (uw_journal w) (uw_status w)) es = Some s'" "agrees (snd (run_state (Run env) w)) s'" by (rule Run_log)
  then show ?thesis by (auto simp: agrees_def)
qed



subsection \<open>Starting an update\<close>

lemma run_step_parts: "run_state (State_Monad.bind m f) w = run_state (f (fst (run_state m w))) (snd (run_state m w))"
  by (simp add: split_beta)

lemma run_ask: "run_state (ask f ev) w = (f (uw_n w), w\<lparr>uw_n := Suc (uw_n w), uw_log := uw_log w @ ev (f (uw_n w))\<rparr>)"
  by (simp add: ask_def Let_def)

text \<open>\<open>m\<close> leaves the journal alone and drops no files.\<close>

definition quiet_step :: "(UWorld, 'a) state \<Rightarrow> bool" where
  "quiet_step m \<longleftrightarrow> (\<forall>w. uw_journal (snd (run_state m w)) = uw_journal w \<and>
     (\<exists>es. uw_log (snd (run_state m w)) = uw_log w @ es \<and> (\<forall>j. UDropFiles j \<notin> set es)))"

named_theorems quiet_rules

lemma quiet_return [quiet_rules]: "quiet_step (State_Monad.return a)"
  by (simp add: quiet_step_def State_Monad.return_def)

lemma quiet_bind [quiet_rules]: "quiet_step m \<Longrightarrow> (\<And>a. quiet_step (f a)) \<Longrightarrow> quiet_step (State_Monad.bind m f)"
  unfolding quiet_step_def
proof
  fix w
  assume m: "\<forall>w. uw_journal (snd (run_state m w)) = uw_journal w \<and>
     (\<exists>es. uw_log (snd (run_state m w)) = uw_log w @ es \<and> (\<forall>j. UDropFiles j \<notin> set es))"
    and f: "\<And>a. \<forall>w. uw_journal (snd (run_state (f a) w)) = uw_journal w \<and>
     (\<exists>es. uw_log (snd (run_state (f a) w)) = uw_log w @ es \<and> (\<forall>j. UDropFiles j \<notin> set es))"
  obtain a w' where r: "run_state m w = (a, w')" by fastforce
  from m r obtain es where es: "uw_journal w' = uw_journal w" "uw_log w' = uw_log w @ es" "\<forall>j. UDropFiles j \<notin> set es"
    by (metis snd_conv)
  from f [of a] obtain es' where "uw_journal (snd (run_state (f a) w')) = uw_journal w'"
      "uw_log (snd (run_state (f a) w')) = uw_log w' @ es'" "\<forall>j. UDropFiles j \<notin> set es'" by blast
  with es r show "uw_journal (snd (run_state (m \<bind> f) w)) = uw_journal w \<and>
      (\<exists>es. uw_log (snd (run_state (m \<bind> f) w)) = uw_log w @ es \<and> (\<forall>j. UDropFiles j \<notin> set es))"
    by (auto intro!: exI [of _ "es @ es'"])
qed

lemma quiet_ask: "(\<And>a j. UDropFiles j \<notin> set (ev a)) \<Longrightarrow> quiet_step (ask f ev)"
  by (simp add: quiet_step_def ask_def Let_def)

lemma quiet_silent [quiet_rules]: "quiet_step (ask f (\<lambda>_. []))"
  by (rule quiet_ask) simp

lemma quiet_read [quiet_rules]: "quiet_step (State (\<lambda>w. (f w, w)))"
  by (simp add: quiet_step_def)

lemma quiet_if [quiet_rules]: "quiet_step m \<Longrightarrow> quiet_step m' \<Longrightarrow> quiet_step (if b then m else m')"
  by simp

lemma quiet_let [quiet_rules]: "quiet_step (f a) \<Longrightarrow> quiet_step (Let a f)"
  by simp

lemma quiet_option [quiet_rules]: "quiet_step m \<Longrightarrow> (\<And>a. quiet_step (f a)) \<Longrightarrow> quiet_step (case x of None \<Rightarrow> m | Some a \<Rightarrow> f a)"
  by (cases x) simp_all

lemma quiet_sum [quiet_rules]: "(\<And>a. quiet_step (f a)) \<Longrightarrow> (\<And>b. quiet_step (g b)) \<Longrightarrow> quiet_step (case x of Inl a \<Rightarrow> f a | Inr b \<Rightarrow> g b)"
  by (cases x) simp_all

lemma quiet_parts [quiet_rules]:
  "quiet_step (ReadTask env)" "quiet_step (Guard env)" "quiet_step (cleanupCompletedWorker env)" "quiet_step (write_intent env job)"
  "quiet_step (drop_stale env)" "quiet_step (task_status env st task)" "quiet_step (ReadStatus env)"
proof -
  show read: "quiet_step (ReadTask env)" unfolding ReadTask_def by (intro quiet_rules)
  show guard: "quiet_step (Guard env)" unfolding Guard_def by (intro quiet_rules read)
  show clean: "quiet_step (cleanupCompletedWorker env)" unfolding cleanupCompletedWorker_def by (intro quiet_rules guard)
  show "quiet_step (write_intent env job)" unfolding write_intent_def by (intro quiet_bind quiet_return quiet_ask) simp
  show "quiet_step (drop_stale env)"
    unfolding drop_stale_def by (intro quiet_bind quiet_silent) (auto intro: clean quiet_return split: FileState.split)
  have status: "quiet_step (task_status env st task)" for st task unfolding task_status_def by (intro quiet_rules)
  then show "quiet_step (task_status env st task)" .
  show "quiet_step (ReadStatus env)"
    unfolding ReadStatus_def
    by (intro quiet_bind quiet_silent quiet_read read quiet_let quiet_if quiet_return)
      (auto intro: status quiet_return split: TaskRead.split)
qed

lemma quiet_or_return [quiet_rules]: "quiet_step m \<Longrightarrow> quiet_step m' \<Longrightarrow> quiet_step (or_return m m')"
  unfolding or_return_def by (intro quiet_rules)

lemma quiet_stage: "quiet_step (stage_task env task)"
  unfolding stage_task_def by (intro quiet_rules)

lemma quiet_allowed: "quiet_step (begin_allowed env candidate)"
  unfolding begin_allowed_def
  by (intro quiet_or_return quiet_bind quiet_parts quiet_silent) (auto intro!: quiet_rules split: sum.split bool.split option.split)

text \<open>A start is allowed only without a journal, for a plan that is accepted and recovery packages that fit.\<close>

lemma Guard_open: "fst (run_state (Guard env) w) = None \<longleftrightarrow> uw_journal w = None"
  by (simp add: Guard_def ReadTask_def ask_def Let_def split: option.split)

lemma begin_open:
  assumes "fst (run_state (begin_allowed env candidate) w) = None"
  shows "uw_journal w = None \<and> ValidatePlan (ue_lib env) (uc_Plan candidate) = None"
  using assms Guard_open [of env w]
  by (auto simp: begin_allowed_def or_return_def split_beta split: option.splits sum.splits bool.splits)

lemma quiet_stepD:
  assumes "quiet_step m" and "run_state m w = (a, w')"
  obtains es where "uw_journal w' = uw_journal w" "uw_log w' = uw_log w @ es" "\<And>j. UDropFiles j \<notin> set es"
  using assms unfolding quiet_step_def by (metis snd_conv)

definition tidy :: "UWorld \<Rightarrow> UWorld \<Rightarrow> bool" where
  "tidy w w' \<longleftrightarrow> (\<exists>es. uw_log w' = uw_log w @ es \<and> ((\<exists>job. UDropFiles job \<in> set es) \<longrightarrow> uw_journal w' = None))"

lemma begin_task_ends:
  assumes "uw_journal w = None" and "run_state (begin_task env task) w = ((r, e), w')"
  shows "tidy w w' \<and> (case r of None \<Rightarrow> e \<noteq> None | Some t \<Rightarrow> t = task \<and> uw_journal w' = Some task)"
proof -
  obtain e1 w1 where stage: "run_state (stage_task env task) w = (e1, w1)" by fastforce
  obtain es where es: "uw_journal w1 = None" "uw_log w1 = uw_log w @ es" "\<And>j. UDropFiles j \<notin> set es"
    using quiet_stepD [OF quiet_stage stage] assms(1) by metis
  show ?thesis
  proof (cases e1)
    case (Some err)
    with assms(2) stage es show ?thesis
      by (auto simp: begin_task_def drop_files_def ask_def tidy_def)
  next
    case None
    then show ?thesis
      using assms(2) stage es
      by (cases "ue_write env (uw_n w1)")
        (auto simp: begin_task_def write_journal_def unless_journal_def drop_files_def ask_def tidy_def Let_def split: if_splits)
  qed
qed

lemma Begin_parts:
  assumes "run_state (Begin env candidate running) w = ((r, e), w')"
  obtains "r = None" "e \<noteq> None" "uw_journal w' = uw_journal w" "tidy w w'"
  | assets job w1 where "uw_journal w = None" "ValidatePlan (ue_lib env) (uc_Plan candidate) = None"
      "RecoveryAssets (ue_lib env) (uc_Recovery candidate) (pl_Inventory (uc_Plan candidate)) = Inr assets"
      "uw_journal w1 = None" "\<exists>es. uw_log w1 = uw_log w @ es \<and> (\<forall>j. UDropFiles j \<notin> set es)"
      "run_state (begin_task env (new_task candidate assets job running)) w1 = ((r, e), w')"
proof -
  let ?first = "or_return (ask (ue_lock env) (\<lambda>_. [])) (begin_allowed env candidate)"
  obtain e1 w1 where first: "run_state ?first w = (e1, w1)" by fastforce
  have quiet: "quiet_step ?first" by (intro quiet_or_return quiet_silent quiet_allowed)
  obtain es where es: "uw_journal w1 = uw_journal w" "uw_log w1 = uw_log w @ es" "\<And>j. UDropFiles j \<notin> set es"
    using quiet_stepD [OF quiet first] by metis
  show thesis
  proof (cases "e1 = None \<and> (\<exists>assets. RecoveryAssets (ue_lib env) (uc_Recovery candidate) (pl_Inventory (uc_Plan candidate)) = Inr assets)")
    case False
    then have "r = None" "e \<noteq> None" "w' = w1"
      using assms first by (auto simp: Begin_def split: option.splits sum.splits)
    with es that(1) show thesis by (auto simp: tidy_def)
  next
    case True
    then obtain assets where a: "RecoveryAssets (ue_lib env) (uc_Recovery candidate) (pl_Inventory (uc_Plan candidate)) = Inr assets" by blast
    from True first have "fst (run_state (begin_allowed env candidate) (w\<lparr>uw_n := Suc (uw_n w)\<rparr>)) = None"
      by (auto simp: or_return_def ask_def Let_def split: option.splits)
    from begin_open [OF this] have open_start: "uw_journal w = None" "ValidatePlan (ue_lib env) (uc_Plan candidate) = None"
      by simp_all
    have "run_state (begin_task env (new_task candidate assets (ue_id env (uw_n w1)) running)) (w1\<lparr>uw_n := Suc (uw_n w1)\<rparr>) = ((r, e), w')"
      using assms first True a by (simp add: Begin_def run_ask)
    with open_start a es show thesis by (intro that(2)) auto
  qed
qed


end
