(* ===== verification/Update_Demo.thy ===== *)
theory Update_Demo
  imports Update_Claims Update_Safety
begin

text \<open>One installation, one newer release and the manifests of both: what the claims about updates say there.\<close>

definition demo_asset :: "string \<Rightarrow> string \<Rightarrow> Asset" where
  "demo_asset version url = \<lparr>as_ID = ''core-'' @ version, as_Kind = ''core'', as_PackageManager = ''opkg'', as_Format = ''ipk'',
     as_OpenWrtArch = ''mipsel_24kc'', as_PackageVersion = version @ ''-r1'', as_SDKRelease = ''23.05.0'', as_Target = ''ramips/mt76x8'',
     as_GOOS = ''linux'', as_GOARCH = ''mipsle'', as_URL = url, as_SHA256 = replicate 64 (CHR ''0''), as_Bytes = 1000,
     as_InstalledBytes = 2000, as_FirmwareCompat = [''23.05''],
     as_Validation = \<lparr>va_Build = True, va_ELF = True, va_EmulatedCore = False, va_OpenWrtInstall = False, va_HardwareCore = False,
       va_CampusAuth = False\<rparr>\<rparr>"

definition demo_url :: "string \<Rightarrow> ParsedURL option" where
  "demo_url raw = Some \<lparr>pu_Scheme = ''https'', pu_Host = ''github.com'', pu_HasUser = False,
     pu_Path = ''/matthewlu070111/smart-srun/releases/download/'' @ raw @ ''/smart-srun_'' @ raw @ ''.ipk'',
     pu_RawPath = [], pu_RawQuery = [], pu_Fragment = []\<rparr>"

definition demo_lib :: UpdateLib where
  "demo_lib = \<lparr>ul_url = demo_url, ul_digest = (\<lambda>_. Some ''digest''), ul_raw = (\<lambda>_. None), ul_asset = (\<lambda>_. None),
     ul_releases = (\<lambda>_. None)\<rparr>"

definition demo_manifest :: "string \<Rightarrow> Manifest" where
  "demo_manifest version = \<lparr>mf_SchemaVersion = 1, mf_Release = version, mf_Channel = ''stable'',
     mf_SourceCommit = replicate 40 (CHR ''a''), mf_Assets = [demo_asset version version]\<rparr>"

definition demo_inventory :: Inventory where
  "demo_inventory = \<lparr>iv_PackageManager = ''opkg'', iv_Architecture = ''mipsel_24kc'', iv_FirmwareFamily = ''23.05'',
     iv_DisplayVersion = ''2.0.0'', iv_Packages = [(''smart-srun'', ''2.0.0-r1'')]\<rparr>"

definition demo_plan :: Plan where
  "demo_plan = \<lparr>pl_ID = ''digest'', pl_Release = ''2.1.0'', pl_SourceCommit = replicate 40 (CHR ''a''), pl_InstallMode = ''core'',
     pl_Inventory = demo_inventory, pl_Assets = [demo_asset ''2.1.0'' ''2.1.0''], pl_DownloadBytes = 1000, pl_InstalledBytes = 2000\<rparr>"

definition demo_source :: ReleaseSource where
  "demo_source = \<lparr>rs_Candidates = (\<lambda>_ _. Inr [\<lparr>vn_Major = 2, vn_Minor = 1, vn_Patch = 0, vn_RC = 0\<rparr>]),
     rs_Manifest = (\<lambda>_ v. Inr (demo_manifest (Version_String v)))\<rparr>"

subsection \<open>Evaluation\<close>

definition v20 :: Version where "v20 = \<lparr>vn_Major = 2, vn_Minor = 0, vn_Patch = 0, vn_RC = 0\<rparr>"
definition v21 :: Version where "v21 = \<lparr>vn_Major = 2, vn_Minor = 1, vn_Patch = 0, vn_RC = 0\<rparr>"

lemma demo_text: "Version_String v20 = ''2.0.0''" "Version_String v21 = ''2.1.0''"
  by code_simp+

lemma demo_versions: "ParseVersion ''2.0.0'' = Inr v20" "ParseVersion ''2.1.0'' = Inr v21"
  unfolding ParseVersion_exact demo_text by (rule refl)+

lemma demo_patterns: "commitPattern (replicate 40 (CHR ''a''))" "sha256Pattern (replicate 64 (CHR ''0''))" "namePattern ''mipsel_24kc''"
  "namePattern ''core-2.0.0''" "namePattern ''core-2.1.0''" "namePattern ''mipsle''" "familyPattern ''23.05''" "sdkPattern ''23.05.0''"
  "targetPattern ''ramips/mt76x8''"
  by code_simp+

lemma demo_fields: "fields_ok (demo_asset ''2.0.0'' ''2.0.0'')" "fields_ok (demo_asset ''2.1.0'' ''2.1.0'')"
  by (simp_all add: fields_ok_def demo_asset_def demo_patterns PackageName_def sizes_ok_def MaxAssetBytes_def MaxPayloadBytes_def)

lemma demo_native: "native_of v20 ''opkg'' ''2.0.0-r1''" "native_of v21 ''opkg'' ''2.1.0-r1''"
  by code_simp+

lemma demo_urls: "url_ok demo_url v20 (demo_asset ''2.0.0'' ''2.0.0'')" "url_ok demo_url v21 (demo_asset ''2.1.0'' ''2.1.0'')"
  by code_simp+

lemma demo_asset_valid:
  "Asset_validate demo_url v20 (demo_asset ''2.0.0'' ''2.0.0'') = None" "Asset_validate demo_url v21 (demo_asset ''2.1.0'' ''2.1.0'') = None"
  unfolding Asset_validate_def using demo_fields demo_urls demo_native
  by (simp_all add: demo_asset_def format_ok_def arch_ok_def demo_patterns)

lemma demo_manifest_valid:
  "Manifest_Validate demo_url (demo_manifest ''2.0.0'') = None" "Manifest_Validate demo_url (demo_manifest ''2.1.0'') = None"
  unfolding Manifest_Validate_def using demo_asset_valid
  by (simp_all add: demo_manifest_def demo_versions demo_patterns MaxAssets_def v20_def v21_def Version_Channel_def ChannelStable_def
    demo_asset_def)

lemma demo_inventory_valid: "Inventory_Validate demo_inventory = None" "Inventory_Mode demo_inventory = Inr ''core''"
  using demo_native by (simp_all add: Inventory_Validate_def demo_inventory_def Inventory_Mode_def has_package_def Let_def demo_versions
    demo_patterns known_package_def)

lemma demo_chosen: "compatibleAssets [demo_asset v v] demo_inventory ''core'' = [demo_asset v v]"
  by (simp add: compatibleAssets_def asset_fits_def demo_asset_def demo_inventory_def)

lemma demo_target: "target_problem v21 v20 [] = None"
  by code_simp

lemma demo_built: "BuildPlan demo_lib (demo_manifest ''2.1.0'') demo_inventory [] = Inr demo_plan"
proof -
  have lib: "ul_url demo_lib = demo_url" by (simp add: demo_lib_def)
  have plan: "plan_of demo_lib (demo_manifest ''2.1.0'') demo_inventory ''core'' [demo_asset ''2.1.0'' ''2.1.0''] = Inr demo_plan"
    by (simp add: plan_of_def demo_lib_def demo_manifest_def demo_plan_def versions_differ_def MaxPayloadBytes_def demo_asset_def)
  have parts: "ParseVersion (iv_DisplayVersion demo_inventory) = Inr v20" "ParseVersion (mf_Release (demo_manifest ''2.1.0'')) = Inr v21"
      "mf_Assets (demo_manifest ''2.1.0'') = [demo_asset ''2.1.0'' ''2.1.0'']"
    by (simp_all add: demo_inventory_def demo_manifest_def demo_versions)
  show ?thesis
    by (simp add: BuildPlan_def lib demo_manifest_valid demo_inventory_valid parts demo_target mode_kinds_def demo_chosen plan)
qed

lemma demo_recovery: "RecoveryAssets demo_lib (demo_manifest ''2.0.0'') demo_inventory = Inr [demo_asset ''2.0.0'' ''2.0.0'']"
proof -
  have "mf_Release (demo_manifest ''2.0.0'') = iv_DisplayVersion demo_inventory" "ul_url demo_lib = demo_url"
      "mf_Assets (demo_manifest ''2.0.0'') = [demo_asset ''2.0.0'' ''2.0.0'']"
    by (simp_all add: demo_inventory_def demo_manifest_def demo_lib_def)
  moreover have "as_PackageVersion (demo_asset ''2.0.0'' ''2.0.0'') = package_version demo_inventory (PackageName (demo_asset ''2.0.0'' ''2.0.0''))"
    by (simp add: demo_asset_def package_version_def demo_inventory_def PackageName_def)
  ultimately show ?thesis
    by (simp add: RecoveryAssets_def demo_manifest_valid demo_inventory_valid mode_kinds_def demo_chosen)
qed

definition demo_candidate :: UpdateCandidate where
  "demo_candidate = \<lparr>uc_Plan = demo_plan, uc_Recovery = demo_manifest ''2.0.0'', uc_Local = False\<rparr>"

lemma demo_offered:
  obtains result where "Update_Check demo_lib demo_source demo_inventory [] = (Some demo_candidate, result, None)"
proof -
  have source: "rs_Manifest demo_source n v20 = Inr (demo_manifest ''2.0.0'')" "rs_Manifest demo_source n v21 = Inr (demo_manifest ''2.1.0'')"
      "rs_Candidates demo_source v20 [] = Inr [v21]" for n
    by (simp_all add: demo_source_def demo_text flip: v21_def)
  have parts: "ParseVersion (iv_DisplayVersion demo_inventory) = Inr v20" "pl_ID demo_plan \<noteq> []"
      "(demo_manifest ''2.0.0'')\<lparr>mf_Assets := [demo_asset ''2.0.0'' ''2.0.0'']\<rparr> = demo_manifest ''2.0.0''"
    by (simp_all add: demo_inventory_def demo_versions demo_plan_def demo_manifest_def)
  show thesis
    by (rule that) (simp add: Update_Check_def demo_inventory_valid parts source demo_built check_recovery_def demo_recovery demo_candidate_def Let_def)
qed

subsection \<open>Witnesses\<close>

lemma manifest_unambiguous_witness:
  "length (compatibleAssets (mf_Assets (demo_manifest ''2.1.0'')) demo_inventory ''core'') \<le> 1"
  using manifest_unambiguous [OF demo_manifest_valid(2)] by blast

lemma planned_update_safe_witness:
  "\<exists>current target. iv_DisplayVersion demo_inventory = Version_String current \<and> pl_Release demo_plan = Version_String target \<and>
     version_key current < version_key target \<and> pl_InstallMode demo_plan = ''core''"
  using planned_update_safe [OF demo_built] by (auto simp: demo_plan_def)

lemma built_plan_validates_witness: "ValidatePlan demo_lib demo_plan = None"
  by (rule built_plan_validates [OF demo_built])

lemma offered_update_recoverable_witness:
  "map_of (asset_versions (mf_Assets (uc_Recovery demo_candidate))) = map_of (iv_Packages demo_inventory)"
proof -
  obtain result where "Update_Check demo_lib demo_source demo_inventory [] = (Some demo_candidate, result, None)"
    by (rule demo_offered)
  from offered_update_recoverable [OF this] show ?thesis by blast
qed

subsection \<open>An installation in which nothing fails\<close>

definition demo_env :: UEnv where
  "demo_env = \<lparr>ue_runtime = ''/tmp'', ue_config = ''/etc'', ue_lib = demo_lib, ue_lock = (\<lambda>_. None), ue_readable = (\<lambda>_. True),
     ue_write = (\<lambda>_. WriteDone), ue_inventory = (\<lambda>_ _. Inr demo_inventory), ue_space = (\<lambda>_ _ _. None), ue_directory = (\<lambda>_ _. None),
     ue_lstat = (\<lambda>_ _. FileThere), ue_download = (\<lambda>_ _. None), ue_verify = (\<lambda>_ _. None), ue_backup = (\<lambda>_ _. None),
     ue_precheck = (\<lambda>_ _. None), ue_ctx = (\<lambda>_. False), ue_stop = (\<lambda>_. None), ue_start = (\<lambda>_. None), ue_health = (\<lambda>_ _. None),
     ue_install = (\<lambda>_ _. None), ue_recover = (\<lambda>_ _. None), ue_versions = (\<lambda>_. Inr [(''smart-srun'', ''2.1.0-r1'')]),
     ue_intent = (\<lambda>_. Inr (replicate 32 (CHR ''0''), True)), ue_prune = (\<lambda>_. None), ue_cleanup = (\<lambda>_. None),
     ue_held = (\<lambda>_. Inr False), ue_expired = (\<lambda>_ _. False), ue_id = (\<lambda>_. replicate 32 (CHR ''0'')), ue_copy = (\<lambda>_. None),
     ue_stage = (\<lambda>_ _. None), ue_launch = (\<lambda>_. None)\<rparr>"

definition demo_task :: Task where
  "demo_task = new_task demo_candidate [demo_asset ''2.0.0'' ''2.0.0''] (replicate 32 (CHR ''0'')) True"

definition demo_world :: UWorld where
  "demo_world = \<lparr>uw_n = 0, uw_journal = Some demo_task, uw_status = None, uw_log = []\<rparr>"

lemma demo_ID: "validID (replicate 32 (CHR ''0''))"
  by code_simp

lemma demo_recovery_manifest: "(demo_manifest ''2.0.0'')\<lparr>mf_Assets := [demo_asset ''2.0.0'' ''2.0.0'']\<rparr> = demo_manifest ''2.0.0''"
  by (simp add: demo_manifest_def)

lemma demo_plan_inventory: "pl_Inventory demo_plan = demo_inventory"
  by (simp add: demo_plan_def)

lemma demo_valid: "task_valid demo_lib demo_task"
  by (simp add: task_valid_def demo_task_def new_task_def demo_candidate_def demo_ID demo_recovery_manifest demo_plan_inventory
    demo_recovery plan_read_back [OF demo_built] task_phases_def)

lemma demo_task_fields: "tk_Phase demo_task = ''queued''" "\<not> tk_Recover demo_task" "tk_Plan demo_task = demo_plan"
    "tk_Recovery demo_task = demo_manifest ''2.0.0''" "tk_JobID demo_task = replicate 32 (CHR ''0'')" "\<not> tk_Local demo_task"
  by (simp_all add: demo_task_def new_task_def demo_candidate_def demo_recovery_manifest)

text \<open>Nothing fails: each question is answered by the constant answer of the environment.\<close>

lemma ask_constant [simp]: "run_state (ask (\<lambda>_. a) ev) w = (a, w\<lparr>uw_n := Suc (uw_n w), uw_log := uw_log w @ ev a\<rparr>)"
  by (simp add: ask_def Let_def)

lemma update_answers [simp]:
  "ue_lib demo_env = demo_lib" "ue_lock demo_env = (\<lambda>_. None)" "ue_readable demo_env = (\<lambda>_. True)" "ue_write demo_env = (\<lambda>_. WriteDone)"
  "ue_inventory demo_env = (\<lambda>_ _. Inr demo_inventory)" "ue_space demo_env = (\<lambda>_ _ _. None)" "ue_directory demo_env = (\<lambda>_ _. None)"
  "ue_lstat demo_env = (\<lambda>_ _. FileThere)" "ue_verify demo_env = (\<lambda>_ _. None)" "ue_backup demo_env = (\<lambda>_ _. None)"
  "ue_precheck demo_env = (\<lambda>_ _. None)" "ue_ctx demo_env = (\<lambda>_. False)" "ue_stop demo_env = (\<lambda>_. None)" "ue_start demo_env = (\<lambda>_. None)"
  "ue_health demo_env = (\<lambda>_ _. None)" "ue_install demo_env = (\<lambda>_ _. None)" "ue_prune demo_env = (\<lambda>_. None)" "ue_cleanup demo_env = (\<lambda>_. None)"
  "ue_versions demo_env = (\<lambda>_. Inr [(''smart-srun'', ''2.1.0-r1'')])"
  "ue_intent demo_env = (\<lambda>_. Inr (replicate 32 (CHR ''0''), True))"
  by (simp_all add: demo_env_def)

lemma run_end [simp]: "run_state (State_Monad.return a) w = (a, w)"
  by (simp add: State_Monad.return_def)

definition demo_new :: LocalPackage where "demo_new = hd (new_files demo_env demo_task)"
definition demo_old :: LocalPackage where "demo_old = hd (old_files demo_env demo_task)"

lemma demo_files: "new_files demo_env demo_task = [demo_new]" "old_files demo_env demo_task = [demo_old]"
  by (simp_all add: demo_new_def demo_old_def new_files_def old_files_def packageFiles_def demo_task_fields demo_plan_def demo_manifest_def)

lemma same_files [simp]: "new_files env (t\<lparr>tk_RecoveryReady := b\<rparr>) = new_files env t" "old_files env (t\<lparr>tk_RecoveryReady := b\<rparr>) = old_files env t"
  "new_files env (t\<lparr>tk_InstallStarted := b\<rparr>) = new_files env t" "old_files env (t\<lparr>tk_InstallStarted := b\<rparr>) = old_files env t"
  by (simp_all add: new_files_def old_files_def)

lemma demo_versions_equal: "maps_Equal [(''smart-srun'', ''2.1.0-r1'')] (expected_versions (pl_Assets demo_plan))"
  by (simp add: maps_Equal_def expected_versions_def demo_plan_def demo_asset_def PackageName_def)

lemmas demo_steps = write_journal_def write_status_def write_receipt_def remove_journal_def ReadTask_def progress_def
  installed_versions_def verify_file_def fetch_file_def mark_ready_def prepare_directories_def backupConfig_def
  or_fail_def stop_service_def start_service_def health_check_def close_task_def restore_intent_def

lemma update_prepared:
  assumes "tk_Plan t = demo_plan" and "new_files demo_env t = [demo_new]" and "old_files demo_env t = [demo_old]"
  shows "fst (run_state (prepare_update demo_env t) w) = (t\<lparr>tk_RecoveryReady := True\<rparr>, None)"
  using assms by (simp add: prepare_update_def demo_steps demo_plan_inventory Let_def)

lemma demo_finished:
  assumes "tk_JobID t = replicate 32 (CHR ''0'')"
  shows "fst (run_state (finish demo_env t version (pl_Assets demo_plan) phase) w) = None"
    and "uw_journal (snd (run_state (finish demo_env t version (pl_Assets demo_plan) phase) w)) = None"
    and "e \<in> set (uw_log w) \<Longrightarrow> e \<in> set (uw_log (snd (run_state (finish demo_env t version (pl_Assets demo_plan) phase) w)))"
  using assms by (simp_all add: finish_def demo_steps demo_versions_equal Let_def final_status_def)

lemma demo_installed:
  assumes "tk_Plan t = demo_plan" and "new_files demo_env t = [demo_new]" and "tk_JobID t = replicate 32 (CHR ''0'')"
  shows "fst (run_state (install_task demo_env t) w) = None"
    and "uw_journal (snd (run_state (install_task demo_env t) w)) = None"
    and "UInstall [demo_new] None \<in> set (uw_log (snd (run_state (install_task demo_env t) w)))"
proof -
  have j: "tk_JobID (t\<lparr>tk_InstallStarted := True, tk_Phase := ''installing''\<rparr>) = replicate 32 (CHR ''0'')" using assms(3) by simp
  show "fst (run_state (install_task demo_env t) w) = None" "uw_journal (snd (run_state (install_task demo_env t) w)) = None"
    "UInstall [demo_new] None \<in> set (uw_log (snd (run_state (install_task demo_env t) w)))"
    using demo_finished [OF j] assms by (simp_all add: install_task_def install_packages_def demo_steps Let_def)
qed

lemma demo_task_run:
  "fst (run_state (run_task demo_env demo_task) w) = None" "uw_journal (snd (run_state (run_task demo_env demo_task) w)) = None"
  "UInstall [demo_new] None \<in> set (uw_log (snd (run_state (run_task demo_env demo_task) w)))"
  by (simp_all add: run_task_def progress_def write_journal_def write_status_def Let_def run_step_parts update_prepared demo_installed
    demo_task_fields demo_files del: State_Monad.run_state_bind)

lemma demo_dropped:
  assumes "e \<in> set (uw_log w)" and "uw_journal w = None"
  shows "e \<in> set (uw_log (snd (run_state (drop_worker demo_env) w)))"
  using assms by (simp add: drop_worker_def cleanupCompletedWorker_def Guard_def ReadTask_def)

lemma update_run:
  "fst (run_state (Run demo_env) demo_world) = None"
  "UInstall [demo_new] None \<in> set (uw_log (snd (run_state (Run demo_env) demo_world)))"
  by (simp_all add: Run_def Run_body_def ReadTask_def run_step_parts demo_world_def demo_valid demo_task_run demo_dropped
    del: State_Monad.run_state_bind)

definition idle_world :: UWorld where
  "idle_world = \<lparr>uw_n = 0, uw_journal = None, uw_status = None, uw_log = []\<rparr>"

lemma demo_begun: "fst (run_state (Begin demo_env demo_candidate True) idle_world) = (Some demo_task, None)"
proof -
  have checked: "ValidatePlan demo_lib demo_plan = None" "uc_Plan demo_candidate = demo_plan"
      "RecoveryAssets demo_lib (uc_Recovery demo_candidate) demo_inventory = Inr [demo_asset ''2.0.0'' ''2.0.0'']"
    by (simp_all add: plan_read_back [OF demo_built] demo_candidate_def demo_recovery)
  have more: "ue_held demo_env = (\<lambda>_. Inr False)" "ue_id demo_env = (\<lambda>_. replicate 32 (CHR ''0''))" "ue_copy demo_env = (\<lambda>_. None)"
      "ue_launch demo_env = (\<lambda>_. None)" "ue_stage demo_env = (\<lambda>_ _. None)"
    by (simp_all add: demo_env_def)
  show ?thesis
    by (simp add: Begin_def begin_task_def demo_task_fields begin_allowed_def or_return_def Guard_def ReadStatus_def ReadTask_def idle_world_def idle_status_def
      drop_stale_def cleanupCompletedWorker_def stage_task_def write_intent_def write_journal_def checked more demo_plan_inventory
      demo_task_def [symmetric] Let_def)
qed

subsection \<open>Witnesses of the start and the run\<close>




end
