(* ===== verification/Spec2Isabelle.thy ===== *)
theory Spec2Isabelle
  imports Coordinator_Props Coordinator_Ends Request_Identity Observe_Props
    Quiet_Window Policy_Pause Policy_Retry Policy_Managed
    Srun_Login Srun_Response Strategy_Registry Config_Repository Maintain_Results
    Wireless_Demo Uci_Parse_Props Control_Props
    Wifi_Choice_Props Auth_Query Worker_Demo Update_Demo
begin

text \<open>
  A verification library for the core of \<open>smart-srun\<close>, a daemon that keeps campus accounts logged in
  on a router (Go, under \<open>src/core/internal\<close>; the paths below are relative to it).

  \<^bold>\<open>The program.\<close> User requests, the automatic maintenance loop and quiet hours all become
  \<^emph>\<open>actions\<close> of one coordinator, which queues them, runs a bounded number in parallel, never two on one
  network line, and remembers a bounded history. A running action is a \<^emph>\<open>worker\<close>: it moves the radio to the
  network of its account, binds a transport to the line, talks to the gateway (challenge, login, who is
  online, logout) and reports what it saw. The observation store keeps, per account, the newest report. What
  the loop may do is decided by pure policies (pause reasons, quiet hours, retry plans, managed lines) over
  the configuration, which a repository normalises, validates, edits and writes atomically. A login itself is
  a byte protocol: credentials as JSON, a block cipher, a Base64 table, signed strings and JSONP answers.
  Wireless settings are changed in transactions over the router's \<open>uci\<close> files, with a journal and a backup that
  lead an interrupted change back. A local socket carries the requests of the web interface and the command
  line. An update is planned from a release manifest and this device's packages, and carried out by a process of
  its own.

  \<^bold>\<open>Theories and sources.\<close>
  \<^item> \<open>Prelude\<close>, \<open>Go_Text\<close>, \<open>Go_Bytes\<close>, \<open>Go_Utf8\<close>, \<open>Go_Sort\<close>, \<open>Float64\<close>: the pieces of Go and its standard
    library the sources use (error values, maps, decimals, trimming, UTF-8, words, float rounding), and
    the two interfaces everything shares: \<open>state_machine\<close> (an invariant along every run) and \<open>codec\<close>
    (a lossless encoding).
  \<^item> \<open>Domain_States\<close>, \<open>Config_Model\<close>, \<open>Config_Defaults\<close>: \<open>domain/enums.go\<close>, \<open>domain/config.go\<close>,
    \<open>config/defaults.go\<close>; \<open>Quiet_Time\<close>, \<open>Quiet_Window\<close>: \<open>domain/clocktime.go\<close>.
  \<^item> \<open>Observe_Store\<close>, \<open>Observe_Props\<close>: \<open>observe/store.go\<close>.
  \<^item> \<open>Action_Model\<close>, \<open>Coordinator\<close>: \<open>application/action.go\<close>, \<open>timing.go\<close>, \<open>coordinator.go\<close>, \<open>schedule.go\<close>; one
    function per handler, composed by \<open>turn\<close> the way the single-writer loop composes them. \<open>_Inv\<close>,
    \<open>_Steps\<close>, \<open>_Order\<close>, \<open>_Stable\<close> hold the invariant and its preservation, \<open>_Demo\<close> concrete runs, \<open>_Props\<close>
    and \<open>_Ends\<close> the properties; \<open>Request_Identity\<close> the fingerprint of a request.
  \<^item> \<open>Maintain_Model\<close>: \<open>application/maintain.go\<close>, \<open>quiet_schedule.go\<close>, \<open>maintenance_results.go\<close>, the loop on one
    state with \<open>Submit\<close> as a stateful argument; \<open>_Props\<close>, \<open>_Claims\<close> what a pass asks for, \<open>_Results\<close> the
    mailbox of finished actions.
  \<^item> \<open>Policy_Pause\<close>, \<open>Policy_Retry\<close>, \<open>Policy_Managed\<close>: \<open>policy/*.go\<close>.
  \<^item> \<open>Strategy_Registry\<close>: \<open>strategy/*.go\<close>. \<open>Config_Normalize\<close>, \<open>Config_Validate\<close>, \<open>Config_Mutations\<close>,
    \<open>Config_Repository\<close>: the files of the same name under \<open>config/\<close>, and \<open>config/store.go\<close>.
  \<^item> \<open>Srun_Base64\<close>, \<open>Srun_Xxtea\<close>, \<open>Srun_Info\<close>, \<open>Srun_Login\<close>, \<open>Srun_Response\<close>: \<open>protocol/srun/*.go\<close>.
  \<^item> \<open>Auth_Model\<close> (\<open>auth/gateway.go\<close>, \<open>auth/result.go\<close>: URLs, the reading of answers), \<open>Auth_Transaction\<close>
    (\<open>auth/transaction.go\<close>: the four requests as state-monad programs over the line), \<open>Auth_Query\<close> (the query
    strings read back). \<open>Wifi_Choice\<close>, \<open>Wifi_Choice_Props\<close>: \<open>wifi/*.go\<close>.
  \<^item> \<open>Worker_World\<close> (what a worker acts on: the record \<open>Env\<close> answers its \<open>n\<close>-th use at \<open>n\<close>, so everything may
    change between two uses; the record \<open>World\<close> is the worker's memory and the log of the run), \<open>Worker_Session\<close>,
    \<open>Worker_Radio\<close>, \<open>Worker_Auth\<close>, \<open>Worker_Run\<close>: \<open>application/authworker.go\<close>, \<open>terminal.go\<close>, \<open>connectivity.go\<close>,
    \<open>switch.go\<close>, \<open>hotspot_connectivity.go\<close>, \<open>manual_logout.go\<close>, \<open>quiet_switch.go\<close>, one definition per method.
    \<open>Worker_Protocol\<close> is the abstract specification, an automaton over the log, with a weakest-precondition
    calculus; \<open>Worker_Specs\<close>, \<open>Worker_Verify\<close>, \<open>Worker_Actions\<close> carry it through every method, \<open>Worker_Claims\<close>
    reads off the properties, \<open>Worker_Demo\<close> runs a concrete world.
  \<^item> \<open>Uci_Store\<close>, \<open>Uci_Parse\<close>, \<open>Uci_Parse_Props\<close>: \<open>openwrt/uci.go\<close>, \<open>uci_export.go\<close>, \<open>wireless/store.go\<close>.
    \<open>Wireless_Tx\<close> (\<open>wireless/transaction.go\<close>, \<open>journal.go\<close>, with lost and refused writes), \<open>Wireless_Laws\<close>,
    \<open>_Undo\<close>, \<open>_Inv\<close>, \<open>_Recovery\<close>, \<open>_Reference\<close>, \<open>_Props\<close>, \<open>_Demo\<close>: the change of one package, undone or
    confirmed, over the interface \<open>config_store\<close>, which the \<open>uci\<close> store and a map both provide.
  \<^item> \<open>Update_Version\<close>, \<open>Update_Plan\<close>, \<open>Update_Release\<close>: \<open>update/version.go\<close>, \<open>manifest.go\<close>, \<open>plan.go\<close>, \<open>check.go\<close>,
    \<open>source.go\<close>, \<open>ValidatePlan\<close> of \<open>store.go\<close>; \<open>Update_Claims\<close> their properties.
    \<open>Update_Worker\<close>, \<open>Update_Run\<close>: the state files of \<open>update/store.go\<close>, and \<open>update/worker.go\<close> with \<open>Begin\<close>, \<open>QueueRecovery\<close>
    and the process itself, over the record \<open>UEnv\<close> that answers each use; writes may be refused, or become visible and
    still report an error. \<open>Update_Protocol\<close> is the abstract specification, an automaton over the log with a calculus;
    \<open>Update_Props\<close> carries it through every step, \<open>Update_Safety\<close> reads off the properties, \<open>Update_Demo\<close> has one device
    and two releases, a start and an installation.
  \<^item> \<open>Control_Model\<close>, \<open>Control_Props\<close>: \<open>domain/errors.go\<close>, \<open>control/frame.go\<close>, \<open>protocol.go\<close>, \<open>methods.go\<close>,
    \<open>dispatch.go\<close>.

  \<^bold>\<open>What is shown.\<close> Coordinator: mutual exclusion of lines, exclusive uplink switches, bounded memory,
  idempotent submission, work conservation, irreversibility of finished actions, shutdown and cancellation.
  Maintenance: which accounts a pass attempts, which it logs out, when it may ask for the hotspot, fresh keys,
  delivery of results. Workers: every action follows the session protocol: a password leaves only for a fresh
  challenge over an unchanged line, at most one session is ended and never somebody else's by automation, a
  reported success rests on the line's own answer. Observations: the result does not depend on arrival order.
  Policies: identity of quiet visits, reasons that clear independently, monotone and bounded waits, exact sweeps.
  Configuration: a canonical form, a validator that decides the declared contract, edits that touch only their
  target, compare-and-set updates, and agreement of memory and file under any failure of the write. Protocol:
  every layer loses nothing, and what the gateway reads is what the client was given. Wireless: whatever fails
  and wherever the process dies, the settings are the old ones or the whole change, and edits of others survive
  an undo. Updates: a release number has one text, a manifest leaves no device a choice, a plan only moves an
  installation forward, what is offered can be taken back, and wherever the installation stops, the journal leads back
  or a release was found complete and healthy. Readers and socket: they return on every input, what they accept is well formed, and no foreign
  error text leaves the daemon.

  \<^bold>\<open>Bounds and fuel.\<close> No definition is cut off by fuel. Loops are structural, or functions with a
  termination proof; the readers of \<open>uci\<close> output and the frame reader are \<open>partial_function (option)\<close>, and that
  they return is a theorem. The one open-ended search (\<open>nextID\<close>) looks at one candidate more than there are
  ids, and a lemma shows that this is always enough; the confirmation loop of a worker is the recursion on
  the checks that are left, at most \<open>MaxTerminalAttempts\<close>. \<open>int\<close> is as wide as its target (32 or 64 bits)
  where overflow can be reached.

  \<^bold>\<open>Arguments instead of definitions.\<close> Hash functions, the JSON and URL libraries, Unicode case tables, the
  clock, the outcome of each system call, HTTP over a bound line, what netifd, the radio and the probes answer.

  \<^bold>\<open>Not modelled.\<close> Strict JSON decoding, backups and the form schema of \<open>config\<close>; the group of packages in
  \<open>wireless/group.go\<close>; the accept loop, deadlines and client of \<open>control\<close>; portal probing and presets (HTTP
  and HTML scraping); sockets and DNS of \<open>transport\<close>; the commands of \<open>openwrt\<close>; package files
  and signatures, log files, the command line and the daemon's wiring. The interleaving of goroutines is an order of inputs (coordinator,
  maintenance) or a jump of the generation counter (workers); the Chinese text of messages is stood for by
  short English ones.
\<close>

end
